(* ===== verification/Rust_Std.thy ===== *)
theory Rust_Std
  imports Prelude
begin

text \<open>
  The part of Rust's standard library the program uses: \<open>as\<close> casts between integer widths,
  saturating arithmetic, \<open>std::time::Duration\<close>, and the string functions.

  An \<open>i32\<close> or \<open>i64\<close> value is an \<open>int\<close>, a \<open>u64\<close> or \<open>usize\<close> value (64-bit target) a \<open>nat\<close>; the
  width is written out where a cast or a saturating operation makes it visible.
  A \<open>DateTime<Utc>\<close> is an \<open>int\<close>, in microseconds since the epoch (the resolution of a PostgreSQL
  \<open>timestamptz\<close>). A \<open>Duration\<close> is a \<open>nat\<close>, in nanoseconds.
  A \<open>String\<close> is a \<open>string\<close> whose characters are the Unicode scalar values up to U+00FF.
\<close>

type_synonym id = int
type_synonym timestamp = int
type_synonym duration = nat

section \<open>Integers\<close>

definition u64_max :: nat where
  "u64_max = 2 ^ 64 - 1"

definition as_i32 :: "int \<Rightarrow> int" where
  "as_i32 x = sint (word_of_int x :: 32 word)"

definition as_i64 :: "int \<Rightarrow> int" where
  "as_i64 x = sint (word_of_int x :: 64 word)"

definition as_u32 :: "nat \<Rightarrow> nat" where
  "as_u32 n = unat (word_of_nat n :: 32 word)"

definition as_u64 :: "nat \<Rightarrow> nat" where
  "as_u64 n = unat (word_of_nat n :: 64 word)"

definition sat_add_u64 :: "nat \<Rightarrow> nat \<Rightarrow> nat" where
  "sat_add_u64 a b = min (a + b) u64_max"

text \<open>\<open>saturating_sub\<close> on an unsigned type is truncated subtraction.\<close>

definition sat_sub_u64 :: "nat \<Rightarrow> nat \<Rightarrow> nat" where
  "sat_sub_u64 a b = a - b"

definition clamp_i64 :: "int \<Rightarrow> int" where
  "clamp_i64 x = max (- (2 ^ 63)) (min x (2 ^ 63 - 1))"

definition sat_mul_i64 :: "int \<Rightarrow> int \<Rightarrow> int" where
  "sat_mul_i64 a b = clamp_i64 (a * b)"

definition sat_add_i64 :: "int \<Rightarrow> int \<Rightarrow> int" where
  "sat_add_i64 a b = clamp_i64 (a + b)"

definition sat_sub_i64 :: "int \<Rightarrow> int \<Rightarrow> int" where
  "sat_sub_i64 a b = clamp_i64 (a - b)"

text \<open>\<open>u64::try_from\<close> and \<open>usize::try_from\<close> of a signed value fail on negative values only.\<close>

definition try_from_unsigned :: "int \<Rightarrow> nat option" where
  "try_from_unsigned x = (if 0 \<le> x then Some (nat x) else None)"

definition i32_in_range :: "int \<Rightarrow> bool" where
  "i32_in_range x \<longleftrightarrow> - (2 ^ 31) \<le> x \<and> x < 2 ^ 31"

lemma as_u32_mod: "as_u32 n = n mod 2 ^ 32"
  by (simp add: as_u32_def unat_of_nat)

lemma as_u64_mod: "as_u64 n = n mod 2 ^ 64"
  by (simp add: as_u64_def unat_of_nat)

lemma as_u32_small: "n < 2 ^ 32 \<Longrightarrow> as_u32 n = n"
  by (simp add: as_u32_mod)

lemma as_u64_small: "n \<le> u64_max \<Longrightarrow> as_u64 n = n"
  by (simp add: as_u64_mod u64_max_def)

lemma as_i64_small: "- (2 ^ 63) \<le> x \<Longrightarrow> x < 2 ^ 63 \<Longrightarrow> as_i64 x = x"
  by (simp add: as_i64_def sint_sbintrunc' signed_take_bit_int_eq_self)

lemma as_i32_small: "i32_in_range x \<Longrightarrow> as_i32 x = x"
  by (simp add: as_i32_def i32_in_range_def sint_sbintrunc' signed_take_bit_int_eq_self)

lemma as_i32_range: "i32_in_range (as_i32 x)"
  using sint_range_size [of "word_of_int x :: 32 word"]
  by (simp add: as_i32_def i32_in_range_def word_size)

text \<open>The upper half of the 32-bit range reads back as a negative number.\<close>

lemma as_i32_wraps:
  assumes "2 ^ 31 \<le> x" "x < 2 ^ 32"
  shows "as_i32 x = x - 2 ^ 32"
proof -
  have "(x + 2147483648) mod 4294967296 = ((x - 2147483648) + 4294967296) mod 4294967296"
    by (simp add: add.commute)
  also have "\<dots> = x - 2147483648"
    unfolding mod_add_self2 using assms by (simp add: mod_pos_pos_trivial)
  finally have "(x + 2147483648) mod 4294967296 = x - 2147483648" .
  then show ?thesis
    by (simp add: as_i32_def sint_sbintrunc' signed_take_bit_eq_take_bit_shift take_bit_eq_mod)
qed

section \<open>Durations\<close>

definition nanos_per_sec :: nat where
  "nanos_per_sec = 1000000000"

definition duration_max :: duration where
  "duration_max = u64_max * 1000000000 + 999999999"

definition from_secs :: "nat \<Rightarrow> duration" where
  "from_secs s = s * 1000000000"

definition from_millis :: "nat \<Rightarrow> duration" where
  "from_millis ms = ms * 1000000"

definition as_secs :: "duration \<Rightarrow> nat" where
  "as_secs d = d div 1000000000"

definition subsec_nanos :: "duration \<Rightarrow> nat" where
  "subsec_nanos d = d mod 1000000000"

definition as_millis :: "duration \<Rightarrow> nat" where
  "as_millis d = d div 1000000"

definition dur_sat_add :: "duration \<Rightarrow> duration \<Rightarrow> duration" where
  "dur_sat_add a b = min (a + b) duration_max"

definition dur_sat_mul :: "duration \<Rightarrow> nat \<Rightarrow> duration" where
  "dur_sat_mul d k = min (d * k) duration_max"

definition dur_div :: "duration \<Rightarrow> nat \<Rightarrow> duration" where
  "dur_div d k = d div k"

text \<open>\<open>TimeDelta::to_std\<close> of a signed difference in microseconds: an error when negative.\<close>

definition delta_to_std :: "int \<Rightarrow> duration option" where
  "delta_to_std us = (if us < 0 then None else Some (nat us * 1000))"

definition micros_per_sec :: int where
  "micros_per_sec = 1000000"

definition add_seconds :: "timestamp \<Rightarrow> int \<Rightarrow> timestamp" where
  "add_seconds t s = t + s * 1000000"

definition add_days :: "timestamp \<Rightarrow> int \<Rightarrow> timestamp" where
  "add_days t d = t + d * 86400000000"

text \<open>\<open>TimeDelta::num_seconds\<close> truncates towards zero.\<close>

definition num_seconds :: "int \<Rightarrow> int" where
  "num_seconds us = (if us < 0 then - ((- us) div 1000000) else us div 1000000)"

lemma dur_sat_mono: "a \<le> duration_max \<Longrightarrow> a \<le> dur_sat_add a b"
  by (simp add: dur_sat_add_def)

lemma from_secs_bound: "s \<le> u64_max \<Longrightarrow> from_secs s \<le> duration_max"
  by (simp add: from_secs_def duration_max_def)

lemma from_millis_bound: "ms \<le> u64_max \<Longrightarrow> from_millis ms \<le> duration_max"
  by (simp add: from_millis_def duration_max_def u64_max_def)

lemma as_secs_from_secs [simp]: "as_secs (from_secs s) = s"
  by (simp add: as_secs_def from_secs_def)

lemma as_millis_from_millis [simp]: "as_millis (from_millis ms) = ms"
  by (simp add: as_millis_def from_millis_def)

end
