(* ===== verification/Net_Guard.thy ===== *)
theory Net_Guard
  imports Rust_Str
begin

unbundle bit_operations_syntax

text \<open>
  \<^verbatim>\<open>src/net.rs\<close>: which addresses a monitor or a webhook may talk to, over \<open>std::net::IpAddr\<close> with its
  classification methods, its textual parser and its order (IPv4 before IPv6, then by value), as
  the standard library defines them.
\<close>

section \<open>Addresses\<close>

datatype ip_addr =
    V4 "8 word" "8 word" "8 word" "8 word"
  | V6 "16 word" "16 word" "16 word" "16 word" "16 word" "16 word" "16 word" "16 word"

text \<open>The family and the address as a number; two addresses with the same key are equal.\<close>

fun ip_key :: "ip_addr \<Rightarrow> nat list" where
  "ip_key (V4 a b c d) = [0, unat a, unat b, unat c, unat d]"
| "ip_key (V6 a b c d e f g h) = [1, unat a, unat b, unat c, unat d, unat e, unat f, unat g, unat h]"

lemma ip_key_inj: "ip_key x = ip_key y \<longleftrightarrow> x = y"
  by (cases x; cases y) (auto simp: word_unat_eq_iff)

instantiation ip_addr :: linorder
begin

definition less_eq_ip_addr :: "ip_addr \<Rightarrow> ip_addr \<Rightarrow> bool" where
  "less_eq_ip_addr x y \<longleftrightarrow> ip_key x \<le> ip_key y"

definition less_ip_addr :: "ip_addr \<Rightarrow> ip_addr \<Rightarrow> bool" where
  "less_ip_addr x y \<longleftrightarrow> ip_key x < ip_key y"

instance
proof
  fix x y z :: ip_addr
  show "x < y \<longleftrightarrow> x \<le> y \<and> \<not> y \<le> x"
    by (simp add: less_eq_ip_addr_def less_ip_addr_def less_le_not_le)
  show "x \<le> x"
    by (simp add: less_eq_ip_addr_def)
  show "x \<le> y \<Longrightarrow> y \<le> z \<Longrightarrow> x \<le> z"
    unfolding less_eq_ip_addr_def by (rule order_trans)
  show "x \<le> y \<Longrightarrow> y \<le> x \<Longrightarrow> x = y"
    unfolding less_eq_ip_addr_def ip_key_inj [symmetric] by (rule order_antisym)
  show "x \<le> y \<or> y \<le> x"
    unfolding less_eq_ip_addr_def by (rule linear)
qed

end

type_synonym socket_addr = "ip_addr \<times> nat"

section \<open>Classification\<close>

fun v4_is_loopback :: "8 word \<Rightarrow> bool" where
  "v4_is_loopback a = (a = 127)"

definition v4_is_private :: "8 word \<Rightarrow> 8 word \<Rightarrow> bool" where
  "v4_is_private a b \<longleftrightarrow> a = 10 \<or> (a = 172 \<and> 16 \<le> b \<and> b \<le> 31) \<or> (a = 192 \<and> b = 168)"

definition v4_is_link_local :: "8 word \<Rightarrow> 8 word \<Rightarrow> bool" where
  "v4_is_link_local a b \<longleftrightarrow> a = 169 \<and> b = 254"

definition v4_is_multicast :: "8 word \<Rightarrow> bool" where
  "v4_is_multicast a \<longleftrightarrow> 224 \<le> a \<and> a \<le> 239"

definition v4_is_documentation :: "8 word \<Rightarrow> 8 word \<Rightarrow> 8 word \<Rightarrow> bool" where
  "v4_is_documentation a b c \<longleftrightarrow>
     (a = 192 \<and> b = 0 \<and> c = 2) \<or> (a = 198 \<and> b = 51 \<and> c = 100) \<or> (a = 203 \<and> b = 0 \<and> c = 113)"

fun v4_is_public :: "8 word \<Rightarrow> 8 word \<Rightarrow> 8 word \<Rightarrow> 8 word \<Rightarrow> bool" where
  "v4_is_public a b c d \<longleftrightarrow>
     \<not> (v4_is_loopback a \<or> v4_is_private a b \<or> v4_is_link_local a b \<or>
        (a = 0 \<and> b = 0 \<and> c = 0 \<and> d = 0) \<or> (a = 255 \<and> b = 255 \<and> c = 255 \<and> d = 255) \<or>
        v4_is_multicast a \<or> v4_is_documentation a b c)"

text \<open>The IPv4 address of an IPv4-mapped one (\<open>::ffff:a.b.c.d\<close>).\<close>

fun to_ipv4_mapped :: "ip_addr \<Rightarrow> ip_addr option" where
  "to_ipv4_mapped (V6 a b c d e f g h) =
     (if a = 0 \<and> b = 0 \<and> c = 0 \<and> d = 0 \<and> e = 0 \<and> f = 0xffff
      then Some (V4 (ucast (drop_bit 8 g)) (ucast g) (ucast (drop_bit 8 h)) (ucast h))
      else None)"
| "to_ipv4_mapped (V4 a b c d) = None"

fun v6_is_loopback :: "ip_addr \<Rightarrow> bool" where
  "v6_is_loopback ip = (ip = V6 0 0 0 0 0 0 0 1)"

fun v6_is_unspecified :: "ip_addr \<Rightarrow> bool" where
  "v6_is_unspecified ip = (ip = V6 0 0 0 0 0 0 0 0)"

definition v6_is_multicast :: "16 word \<Rightarrow> bool" where
  "v6_is_multicast a \<longleftrightarrow> a AND 0xff00 = 0xff00"

text \<open>Link-local \<open>fe80::/10\<close> and unique local \<open>fc00::/7\<close>.\<close>

definition v6_is_link_local :: "16 word \<Rightarrow> bool" where
  "v6_is_link_local a \<longleftrightarrow> a AND 0xffc0 = 0xfe80"

definition v6_is_unique_local :: "16 word \<Rightarrow> bool" where
  "v6_is_unique_local a \<longleftrightarrow> a AND 0xfe00 = 0xfc00"

fun check_ip_is_public :: "ip_addr \<Rightarrow> bool" where
  "check_ip_is_public (V4 a b c d) = v4_is_public a b c d"
| "check_ip_is_public (V6 a b c d e f g h) =
     (case to_ipv4_mapped (V6 a b c d e f g h) of
        Some (V4 w x y z) \<Rightarrow> v4_is_public w x y z
      | _ \<Rightarrow>
          \<not> (v6_is_loopback (V6 a b c d e f g h) \<or> v6_is_unspecified (V6 a b c d e f g h) \<or>
             v6_is_multicast a \<or> v6_is_link_local a \<or> v6_is_unique_local a))"

section \<open>Address blocks\<close>

text \<open>The address as a number, and membership in a block given by its first address and prefix.\<close>

fun ip_number :: "ip_addr \<Rightarrow> nat" where
  "ip_number (V4 a b c d) = ((unat a * 256 + unat b) * 256 + unat c) * 256 + unat d"
| "ip_number (V6 a b c d e f g h) =
     ((((((unat a * 65536 + unat b) * 65536 + unat c) * 65536 + unat d) * 65536 + unat e) * 65536
       + unat f) * 65536 + unat g) * 65536 + unat h"

declare ip_number.simps [simp del]

definition in_block :: "ip_addr \<Rightarrow> nat \<Rightarrow> nat \<Rightarrow> bool" where
  "in_block base bits n \<longleftrightarrow> ip_number base div 2 ^ bits = n div 2 ^ bits"

text \<open>
  The IPv4 blocks the guard refuses, with the number of host bits of each: loopback, the three
  private blocks, link-local, unspecified, broadcast, multicast and documentation.
\<close>

definition blocked_v4 :: "(ip_addr \<times> nat) list" where
  "blocked_v4 =
     [(V4 127 0 0 0, 24), (V4 10 0 0 0, 24), (V4 172 16 0 0, 20), (V4 192 168 0 0, 16),
      (V4 169 254 0 0, 16), (V4 0 0 0 0, 0), (V4 255 255 255 255, 0), (V4 224 0 0 0, 28),
      (V4 192 0 2 0, 8), (V4 198 51 100 0, 8), (V4 203 0 113 0, 8)]"

lemma octet_bound: "unat (x :: 8 word) < 256"
  using unsigned_less [of x] by simp

lemma digit_div: "(d :: nat) < 256 \<Longrightarrow> (m * 256 + d) div (256 * k) = m div k"
  by (simp add: div_mult2_eq)

lemma digit_div16: "(d :: nat) < 256 \<Longrightarrow> (m * 256 + d) div 16 = m * 16 + d div 16"
  using div_mult_self3 [of 16 "m * 16" d] by (simp add: algebra_simps)

lemma v4_div_24:
  "ip_number (V4 a b c d) div 2 ^ 24 = unat a"
  "ip_number (V4 a b c d) div 2 ^ 28 = unat a div 16"
  "ip_number (V4 a b c d) div 2 ^ 20 = unat a * 16 + unat b div 16"
  "ip_number (V4 a b c d) div 2 ^ 16 = unat a * 256 + unat b"
  "ip_number (V4 a b c d) div 2 ^ 8 = (unat a * 256 + unat b) * 256 + unat c"
  using digit_div [OF octet_bound [of d], of _ 65536] digit_div [OF octet_bound [of c], of _ 256]
    digit_div [OF octet_bound [of b], of _ 1] digit_div [OF octet_bound [of d], of _ 1048576]
    digit_div [OF octet_bound [of c], of _ 4096] digit_div [OF octet_bound [of b], of _ 16]
    digit_div [OF octet_bound [of d], of _ 4096] digit_div [OF octet_bound [of c], of _ 16]
    digit_div16 [OF octet_bound [of b]]
    digit_div [OF octet_bound [of d], of _ 256] digit_div [OF octet_bound [of c], of _ 1]
    digit_div [OF octet_bound [of d], of _ 1]
  by (simp_all add: ip_number.simps)

lemma v4_pair_eq:
  assumes "b < 256" "y < 256"
  shows "a * 256 + b = x * 256 + y \<longleftrightarrow> a = x \<and> b = (y :: nat)"
proof
  assume eq: "a * 256 + b = x * 256 + y"
  have "(a * 256 + b) div 256 = a" "(x * 256 + y) div 256 = x"
    using assms by simp_all
  with eq show "a = x \<and> b = y" by simp
qed simp

lemma v4_pair16_eq:
  assumes "b < 16" "y < 16"
  shows "a * 16 + b = x * 16 + y \<longleftrightarrow> a = x \<and> b = (y :: nat)"
proof
  assume eq: "a * 16 + b = x * 16 + y"
  have "(a * 16 + b) div 16 = a" "(x * 16 + y) div 16 = x"
    using assms by simp_all
  with eq show "a = x \<and> b = y" by simp
qed simp

lemma v4_blocks:
  "in_block (V4 127 0 0 0) 24 (ip_number (V4 a b c d)) \<longleftrightarrow> v4_is_loopback a"
  "in_block (V4 10 0 0 0) 24 (ip_number (V4 a b c d)) \<longleftrightarrow> a = 10"
  "in_block (V4 172 16 0 0) 20 (ip_number (V4 a b c d)) \<longleftrightarrow> a = 172 \<and> 16 \<le> b \<and> b \<le> 31"
  "in_block (V4 192 168 0 0) 16 (ip_number (V4 a b c d)) \<longleftrightarrow> a = 192 \<and> b = 168"
  "in_block (V4 169 254 0 0) 16 (ip_number (V4 a b c d)) \<longleftrightarrow> v4_is_link_local a b"
  "in_block (V4 224 0 0 0) 28 (ip_number (V4 a b c d)) \<longleftrightarrow> v4_is_multicast a"
  "in_block (V4 x y z 0) 8 (ip_number (V4 a b c d)) \<longleftrightarrow> a = x \<and> b = y \<and> c = z"
  "in_block (V4 x y z w) 0 (ip_number (V4 a b c d)) \<longleftrightarrow> a = x \<and> b = y \<and> c = z \<and> d = w"
proof -
  have b16: "unat b div 16 < 16"
    using octet_bound [of b] by linarith
  note simps = in_block_def v4_div_24 [simplified] word_unat_eq_iff word_le_nat_alt
  show "in_block (V4 127 0 0 0) 24 (ip_number (V4 a b c d)) \<longleftrightarrow> v4_is_loopback a"
    "in_block (V4 10 0 0 0) 24 (ip_number (V4 a b c d)) \<longleftrightarrow> a = 10"
    by (auto simp: simps)
  show "in_block (V4 172 16 0 0) 20 (ip_number (V4 a b c d)) \<longleftrightarrow> a = 172 \<and> 16 \<le> b \<and> b \<le> 31"
    using v4_pair16_eq [OF b16, of 1 "unat a" 172] by (auto simp: simps)
  show "in_block (V4 192 168 0 0) 16 (ip_number (V4 a b c d)) \<longleftrightarrow> a = 192 \<and> b = 168"
    "in_block (V4 169 254 0 0) 16 (ip_number (V4 a b c d)) \<longleftrightarrow> v4_is_link_local a b"
    using v4_pair_eq [OF octet_bound [of b], of 168 "unat a" 192]
      v4_pair_eq [OF octet_bound [of b], of 254 "unat a" 169]
    by (auto simp: simps v4_is_link_local_def)
  show "in_block (V4 224 0 0 0) 28 (ip_number (V4 a b c d)) \<longleftrightarrow> v4_is_multicast a"
    by (auto simp: simps v4_is_multicast_def)
  note pairs = v4_pair_eq [OF octet_bound octet_bound]
  show "in_block (V4 x y z 0) 8 (ip_number (V4 a b c d)) \<longleftrightarrow> a = x \<and> b = y \<and> c = z"
    unfolding in_block_def v4_div_24 pairs word_unat_eq_iff by auto
  show "in_block (V4 x y z w) 0 (ip_number (V4 a b c d)) \<longleftrightarrow> a = x \<and> b = y \<and> c = z \<and> d = w"
    unfolding in_block_def power_0 div_by_1 ip_number.simps pairs word_unat_eq_iff by auto
qed

text \<open>The IPv6 blocks: loopback, unspecified, multicast, link-local and unique local.\<close>

definition blocked_v6 :: "(ip_addr \<times> nat) list" where
  "blocked_v6 =
     [(V6 0 0 0 0 0 0 0 1, 0), (V6 0 0 0 0 0 0 0 0, 0), (V6 0xff00 0 0 0 0 0 0 0, 120),
      (V6 0xfe80 0 0 0 0 0 0 0, 118), (V6 0xfc00 0 0 0 0 0 0 0, 121)]"

fun blocked_ranges :: "ip_addr \<Rightarrow> (ip_addr \<times> nat) list" where
  "blocked_ranges (V4 a b c d) = blocked_v4"
| "blocked_ranges (V6 a b c d e f g h) = blocked_v6"

text \<open>The address the guard judges: the IPv4 address inside an IPv4-mapped one.\<close>

definition judged_address :: "ip_addr \<Rightarrow> ip_addr" where
  "judged_address ip = (case to_ipv4_mapped ip of Some v4 \<Rightarrow> v4 | None \<Rightarrow> ip)"

lemma masked_eq_iff_drop_bit:
  "(a :: 'a::len word) AND NOT (mask n) = b AND NOT (mask n) \<longleftrightarrow> drop_bit n a = drop_bit n b"
proof
  assume "a AND NOT (mask n) = b AND NOT (mask n)"
  then have "drop_bit n (a AND NOT (mask n)) = drop_bit n (b AND NOT (mask n))"
    by simp
  moreover have "drop_bit n (x AND NOT (mask n)) = drop_bit n x" for x :: "'a word"
    by (rule bit_word_eqI) (auto simp: bit_simps dest: bit_imp_le_length)
  ultimately show "drop_bit n a = drop_bit n b"
    by simp
next
  assume d: "drop_bit n a = drop_bit n b"
  have "x AND NOT (mask n) = push_bit n (drop_bit n x)" for x :: "'a word"
    by (rule bit_word_eqI) (auto simp: bit_simps)
  with d show "a AND NOT (mask n) = b AND NOT (mask n)"
    by simp
qed

lemma v6_masks:
  "v6_is_multicast a \<longleftrightarrow> unat a div 256 = 0xff"
  "v6_is_link_local a \<longleftrightarrow> unat a div 64 = 0x3fa"
  "v6_is_unique_local a \<longleftrightarrow> unat a div 512 = 0x7e"
proof -
  have "(0xff00 :: 16 word) = NOT (mask 8)" "(0xff00 :: 16 word) = 0xff00 AND NOT (mask 8)"
    by code_simp+
  then have "v6_is_multicast a \<longleftrightarrow> drop_bit 8 a = drop_bit 8 (0xff00 :: 16 word)"
    unfolding v6_is_multicast_def by (metis masked_eq_iff_drop_bit)
  then show "v6_is_multicast a \<longleftrightarrow> unat a div 256 = 0xff"
    by (simp add: word_unat_eq_iff unat_drop_bit_eq drop_bit_eq_div unat_div)
  have "(0xffc0 :: 16 word) = NOT (mask 6)" "(0xfe80 :: 16 word) = 0xfe80 AND NOT (mask 6)"
    by code_simp+
  then have "v6_is_link_local a \<longleftrightarrow> drop_bit 6 a = drop_bit 6 (0xfe80 :: 16 word)"
    unfolding v6_is_link_local_def by (metis masked_eq_iff_drop_bit)
  then show "v6_is_link_local a \<longleftrightarrow> unat a div 64 = 0x3fa"
    by (simp add: word_unat_eq_iff unat_drop_bit_eq drop_bit_eq_div unat_div)
  have "(0xfe00 :: 16 word) = NOT (mask 9)" "(0xfc00 :: 16 word) = 0xfc00 AND NOT (mask 9)"
    by code_simp+
  then have "v6_is_unique_local a \<longleftrightarrow> drop_bit 9 a = drop_bit 9 (0xfc00 :: 16 word)"
    unfolding v6_is_unique_local_def by (metis masked_eq_iff_drop_bit)
  then show "v6_is_unique_local a \<longleftrightarrow> unat a div 512 = 0x7e"
    by (simp add: word_unat_eq_iff unat_drop_bit_eq drop_bit_eq_div unat_div)
qed

lemma segment_bound: "unat (x :: 16 word) < 65536"
  using unsigned_less [of x] by simp

lemma segment_div: "(d :: nat) < 65536 \<Longrightarrow> (m * 65536 + d) div (65536 * k) = m div k"
  by (simp add: div_mult2_eq)

text \<open>The number of an IPv6 address without its last seven segments.\<close>

lemma v6_div_top:
  "ip_number (V6 a b c d e f g h) div 2 ^ (112 + k) = unat a div 2 ^ k"
proof -
  have "(2 :: nat) ^ (112 + k) =
      65536 * (65536 * (65536 * (65536 * (65536 * (65536 * (65536 * 2 ^ k))))))"
    by (simp add: power_add)
  then show ?thesis
    by (simp only: ip_number.simps segment_div segment_bound)
qed

lemma segment_pair_eq:
  assumes "b < 65536" "y < 65536"
  shows "a * 65536 + b = x * 65536 + y \<longleftrightarrow> a = x \<and> b = (y :: nat)"
proof
  assume eq: "a * 65536 + b = x * 65536 + y"
  have "(a * 65536 + b) div 65536 = a" "(x * 65536 + y) div 65536 = x"
    using assms by simp_all
  with eq show "a = x \<and> b = y" by simp
qed simp

lemma ip_number_V6_inj:
  "ip_number (V6 a b c d e f g h) = ip_number (V6 a' b' c' d' e' f' g' h') \<longleftrightarrow>
   V6 a b c d e f g h = V6 a' b' c' d' e' f' g' h'"
  unfolding ip_number.simps segment_pair_eq [OF segment_bound segment_bound] ip_addr.inject
    word_unat_eq_iff by auto

lemma v6_blocks:
  "in_block (V6 0xff00 0 0 0 0 0 0 0) 120 (ip_number (V6 a b c d e f g h)) \<longleftrightarrow> v6_is_multicast a"
  "in_block (V6 0xfe80 0 0 0 0 0 0 0) 118 (ip_number (V6 a b c d e f g h)) \<longleftrightarrow> v6_is_link_local a"
  "in_block (V6 0xfc00 0 0 0 0 0 0 0) 121 (ip_number (V6 a b c d e f g h)) \<longleftrightarrow> v6_is_unique_local a"
  "in_block (V6 0 0 0 0 0 0 0 1) 0 (ip_number (V6 a b c d e f g h)) \<longleftrightarrow> v6_is_loopback (V6 a b c d e f g h)"
  "in_block (V6 0 0 0 0 0 0 0 0) 0 (ip_number (V6 a b c d e f g h)) \<longleftrightarrow>
     v6_is_unspecified (V6 a b c d e f g h)"
proof -
  note top = v6_div_top [of _ _ _ _ _ _ _ _ 8, simplified] v6_div_top [of _ _ _ _ _ _ _ _ 6, simplified]
    v6_div_top [of _ _ _ _ _ _ _ _ 9, simplified]
  show "in_block (V6 0xff00 0 0 0 0 0 0 0) 120 (ip_number (V6 a b c d e f g h)) \<longleftrightarrow> v6_is_multicast a"
    "in_block (V6 0xfe80 0 0 0 0 0 0 0) 118 (ip_number (V6 a b c d e f g h)) \<longleftrightarrow> v6_is_link_local a"
    "in_block (V6 0xfc00 0 0 0 0 0 0 0) 121 (ip_number (V6 a b c d e f g h)) \<longleftrightarrow> v6_is_unique_local a"
    by (auto simp: in_block_def top v6_masks)
  show "in_block (V6 0 0 0 0 0 0 0 1) 0 (ip_number (V6 a b c d e f g h)) \<longleftrightarrow> v6_is_loopback (V6 a b c d e f g h)"
    "in_block (V6 0 0 0 0 0 0 0 0) 0 (ip_number (V6 a b c d e f g h)) \<longleftrightarrow>
     v6_is_unspecified (V6 a b c d e f g h)"
    unfolding in_block_def power_0 div_by_1 ip_number_V6_inj by auto
qed

lemma v4_public_iff_blocks:
  "v4_is_public a b c d \<longleftrightarrow>
     (\<forall>(base, bits) \<in> set blocked_v4. \<not> in_block base bits (ip_number (V4 a b c d)))"
  by (auto simp: blocked_v4_def v4_blocks v4_is_private_def v4_is_documentation_def)

lemma public_iff_no_block:
  "check_ip_is_public ip \<longleftrightarrow>
     (\<forall>(base, bits) \<in> set (blocked_ranges (judged_address ip)).
        \<not> in_block base bits (ip_number (judged_address ip)))"
proof (cases ip)
  case (V4 a b c d)
  then show ?thesis
    using v4_public_iff_blocks by (simp add: judged_address_def)
next
  case (V6 a b c d e f g h)
  show ?thesis
  proof (cases "to_ipv4_mapped ip")
    case None
    with V6 show ?thesis
      by (auto simp: judged_address_def blocked_v6_def v6_blocks simp del: to_ipv4_mapped.simps)
  next
    case (Some v)
    then obtain w x y z where "v = V4 w x y z"
      using V6 by (auto split: if_splits)
    with V6 Some show ?thesis
      using v4_public_iff_blocks [of w x y z]
      by (simp add: judged_address_def del: to_ipv4_mapped.simps v4_is_public.simps)
  qed
qed

section \<open>Properties of the guard\<close>

text \<open>
  C9: the guard's bit tests and comparisons decide exactly membership in the refused address
  blocks: an address is public when it lies in none of them. An IPv4-mapped IPv6 address is judged
  by the IPv4 address inside it.
\<close>

theorem public_iff_outside_blocks:
  "check_ip_is_public ip \<longleftrightarrow>
     list_all (\<lambda>(base, bits). \<not> in_block base bits (ip_number (judged_address ip)))
       (blocked_ranges (judged_address ip))"
  unfolding list_all_iff by (rule public_iff_no_block)

end
