(* ===== verification/Ip_Text.thy ===== *)
theory Ip_Text
  imports Net_Guard
begin

text \<open>
  \<open>str::parse::<IpAddr>\<close> as the standard library defines it: four decimal octets without leading
  zeros, or IPv6 groups of at most four hexadecimal digits with one \<open>::\<close> and an optional IPv4 tail.
  A parser takes the text and returns a value and the rest.
\<close>

definition radix_digit :: "nat \<Rightarrow> char \<Rightarrow> nat option" where
  "radix_digit radix c =
     (let n = char_code c;
          v = (if 48 \<le> n \<and> n \<le> 57 then Some (n - 48)
               else if 97 \<le> n \<and> n \<le> 122 then Some (n - 87)
               else if 65 \<le> n \<and> n \<le> 90 then Some (n - 55) else None)
      in option_filter (\<lambda>d. d < radix) v)"

definition radix_value :: "nat \<Rightarrow> string \<Rightarrow> nat" where
  "radix_value radix ds = foldl (\<lambda>acc c. acc * radix + unwrap_or (radix_digit radix c) 0) 0 ds"

definition read_number :: "nat \<Rightarrow> nat \<Rightarrow> bool \<Rightarrow> nat \<Rightarrow> string \<Rightarrow> (nat \<times> string) option" where
  "read_number radix max_digits allow_zero_prefix limit s =
     (let ds = takeWhile (\<lambda>c. radix_digit radix c \<noteq> None) s;
          v = radix_value radix ds
      in if ds = [] \<or> max_digits < length ds \<or>
            (\<not> allow_zero_prefix \<and> hd ds = CHR ''0'' \<and> 1 < length ds) \<or> limit \<le> v
         then None else Some (v, drop (length ds) s))"

definition read_separator :: "char \<Rightarrow> nat \<Rightarrow> string \<Rightarrow> string option" where
  "read_separator sep index s = (if 0 < index then strip_prefix [sep] s else Some s)"

definition read_octet :: "nat \<Rightarrow> string \<Rightarrow> (nat \<times> string) option" where
  "read_octet index s = Option.bind (read_separator (CHR ''.'') index s) (read_number 10 3 False 256)"

definition read_ipv4 :: "string \<Rightarrow> ((nat \<times> nat \<times> nat \<times> nat) \<times> string) option" where
  "read_ipv4 s =
     Option.bind (read_octet 0 s) (\<lambda>(a, s).
     Option.bind (read_octet 1 s) (\<lambda>(b, s).
     Option.bind (read_octet 2 s) (\<lambda>(c, s).
     Option.bind (read_octet 3 s) (\<lambda>(d, s). Some ((a, b, c, d), s)))))"

text \<open>
  Up to \<open>k\<close> groups, the first of them at position \<open>i\<close>; an IPv4 tail fills two and ends the reading.
\<close>

fun read_groups :: "nat \<Rightarrow> nat \<Rightarrow> string \<Rightarrow> nat list \<times> bool \<times> string" where
  "read_groups 0 i s = ([], False, s)"
| "read_groups (Suc k) i s =
     (case (if 1 \<le> k then Option.bind (read_separator (CHR '':'') i s) read_ipv4 else None) of
        Some ((a, b, c, d), s') \<Rightarrow> ([a * 256 + b, c * 256 + d], True, s')
      | None \<Rightarrow>
          (case Option.bind (read_separator (CHR '':'') i s) (read_number 16 4 True 65536) of
             None \<Rightarrow> ([], False, s)
           | Some (g, s') \<Rightarrow>
               (case read_groups k (i + 1) s' of (gs, v4, s'') \<Rightarrow> (g # gs, v4, s''))))"

definition v6_of_groups :: "nat list \<Rightarrow> ip_addr" where
  "v6_of_groups gs =
     V6 (word_of_nat (gs ! 0)) (word_of_nat (gs ! 1)) (word_of_nat (gs ! 2)) (word_of_nat (gs ! 3))
        (word_of_nat (gs ! 4)) (word_of_nat (gs ! 5)) (word_of_nat (gs ! 6)) (word_of_nat (gs ! 7))"

definition read_ipv6 :: "string \<Rightarrow> (ip_addr \<times> string) option" where
  "read_ipv6 s =
     (case read_groups 8 0 s of
        (head, v4, s1) \<Rightarrow>
          if length head = 8 then Some (v6_of_groups head, s1)
          else if v4 then None
          else
            (case strip_prefix ''::'' s1 of
               None \<Rightarrow> None
             | Some s2 \<Rightarrow>
                 (case read_groups (8 - (length head + 1)) 0 s2 of
                    (tail, _, s3) \<Rightarrow>
                      Some (v6_of_groups (head @ replicate (8 - length head - length tail) 0 @ tail), s3))))"

definition parse_ip :: "string \<Rightarrow> ip_addr option" where
  "parse_ip s =
     (case (case read_ipv4 s of
              Some ((a, b, c, d), r) \<Rightarrow>
                Some (V4 (word_of_nat a) (word_of_nat b) (word_of_nat c) (word_of_nat d), r)
            | None \<Rightarrow> read_ipv6 s) of
        Some (ip, []) \<Rightarrow> Some ip
      | _ \<Rightarrow> None)"

section \<open>Printing\<close>

text \<open>
  The \<open>Display\<close> of an address: an IPv4-mapped one keeps its dotted tail; otherwise the first longest
  run of at least two zero groups becomes \<open>::\<close>. An address with its port has IPv6 in brackets.
\<close>

definition longest_zero_run :: "nat list \<Rightarrow> nat \<times> nat" where
  "longest_zero_run gs =
     foldl (\<lambda>(start, len) i.
         let n = length (takeWhile (\<lambda>g. g = 0) (drop i gs)) in if len < n then (i, n) else (start, len))
       (0, 0) [0..<length gs]"

definition show_groups :: "nat list \<Rightarrow> string" where
  "show_groups gs = str_join '':'' (map show_hex gs)"

fun show_ip :: "ip_addr \<Rightarrow> string" where
  "show_ip (V4 a b c d) =
     str_join ''.'' [show_nat (unat a), show_nat (unat b), show_nat (unat c), show_nat (unat d)]"
| "show_ip (V6 a b c d e f g h) =
     (case to_ipv4_mapped (V6 a b c d e f g h) of
        Some (V4 w x y z) \<Rightarrow>
          ''::ffff:'' @
          str_join ''.'' [show_nat (unat w), show_nat (unat x), show_nat (unat y), show_nat (unat z)]
      | _ \<Rightarrow>
          (let gs = [unat a, unat b, unat c, unat d, unat e, unat f, unat g, unat h]
           in case longest_zero_run gs of
                (start, len) \<Rightarrow>
                  if 1 < len then show_groups (take start gs) @ ''::'' @ show_groups (drop (start + len) gs)
                  else show_groups gs))"

definition show_socket_addr :: "socket_addr \<Rightarrow> string" where
  "show_socket_addr addr =
     (case addr of
        (V4 a b c d, port) \<Rightarrow> show_ip (V4 a b c d) @ '':'' @ show_nat port
      | (ip, port) \<Rightarrow> ''['' @ show_ip ip @ '']:'' @ show_nat port)"

end
