(* ===== verification/Config_Env.thy ===== *)
theory Config_Env
  imports Ip_Text
begin

text \<open>
  \<^verbatim>\<open>src/config/mod.rs\<close>: reading the configuration from the environment. The environment is a
  function from names to present, missing or not-Unicode values; the first reading that fails
  stops with its error. The webhook key type and its hexadecimal constructor belong to the crypto
  component and are an argument.
\<close>

section \<open>Reading values\<close>

datatype env_value = EnvPresent string | EnvNotPresent | EnvNotUnicode

datatype config_error =
    VarMissing string
  | VarNotUnicode string
  | ParseIntError string
  | ConfigBail string

type_synonym env = "string \<Rightarrow> env_value"

definition u32_max :: nat where
  "u32_max = 2 ^ 32 - 1"

text \<open>The shape the integer readers share: parse when present, default when missing.\<close>

definition parse_env_unsigned :: "nat \<Rightarrow> env \<Rightarrow> string \<Rightarrow> nat \<Rightarrow> config_error + nat" where
  "parse_env_unsigned max_value get_env key dflt =
     (case get_env key of
        EnvPresent v \<Rightarrow> ok_or (ParseIntError v) (parse_unsigned max_value v)
      | EnvNotPresent \<Rightarrow> Inr dflt
      | EnvNotUnicode \<Rightarrow> Inl (VarNotUnicode key))"

definition require_positive :: "string \<Rightarrow> nat \<Rightarrow> config_error + nat" where
  "require_positive key value =
     (if value = 0 then Inl (ConfigBail (key @ '' must be greater than 0'')) else Inr value)"

definition parse_env_usize :: "env \<Rightarrow> string \<Rightarrow> nat \<Rightarrow> config_error + nat" where
  "parse_env_usize = parse_env_unsigned u64_max"

definition parse_env_positive_usize :: "env \<Rightarrow> string \<Rightarrow> nat \<Rightarrow> config_error + nat" where
  "parse_env_positive_usize get_env key dflt =
     and_then (parse_env_usize get_env key dflt) (require_positive key)"

definition parse_env_u32 :: "env \<Rightarrow> string \<Rightarrow> nat \<Rightarrow> config_error + nat" where
  "parse_env_u32 = parse_env_unsigned u32_max"

definition parse_env_positive_u32 :: "env \<Rightarrow> string \<Rightarrow> nat \<Rightarrow> config_error + nat" where
  "parse_env_positive_u32 get_env key dflt =
     and_then (parse_env_u32 get_env key dflt) (require_positive key)"

definition parse_env_u16 :: "env \<Rightarrow> string \<Rightarrow> nat \<Rightarrow> config_error + nat" where
  "parse_env_u16 = parse_env_unsigned 65535"

definition parse_env_u64 :: "env \<Rightarrow> string \<Rightarrow> nat \<Rightarrow> config_error + nat" where
  "parse_env_u64 = parse_env_unsigned u64_max"

definition parse_env_positive_u64 :: "env \<Rightarrow> string \<Rightarrow> nat \<Rightarrow> config_error + nat" where
  "parse_env_positive_u64 get_env key dflt =
     and_then (parse_env_u64 get_env key dflt) (require_positive key)"

text \<open>The non-blank items of a comma separated list, trimmed.\<close>

definition csv_items :: "string \<Rightarrow> string list" where
  "csv_items v = filter (\<lambda>item. item \<noteq> []) (map trim (split_char (CHR '','') v))"

definition parse_env_positive_u64_csv :: "env \<Rightarrow> string \<Rightarrow> nat list \<Rightarrow> config_error + nat list" where
  "parse_env_positive_u64_csv get_env key dflt =
     (case get_env key of
        EnvPresent v \<Rightarrow>
          try_map (\<lambda>item.
            and_then (ok_or (ParseIntError item) (parse_unsigned u64_max item)) (\<lambda>parsed.
            if parsed = 0 then Inl (ConfigBail (key @ '' values must be greater than 0''))
            else Inr parsed)) (csv_items v)
      | EnvNotPresent \<Rightarrow> Inr dflt
      | EnvNotUnicode \<Rightarrow> Inl (VarNotUnicode key))"

definition parse_env_bool :: "env \<Rightarrow> string \<Rightarrow> bool \<Rightarrow> config_error + bool" where
  "parse_env_bool get_env key dflt =
     (case get_env key of
        EnvPresent v \<Rightarrow>
          (let t = map to_ascii_lower (trim v) in
           if t \<in> set [''1'', ''true'', ''yes'', ''on''] then Inr True
           else if t \<in> set [''0'', ''false'', ''no'', ''off''] then Inr False
           else Inl (ConfigBail (key @ '' must be a boolean'')))
      | EnvNotPresent \<Rightarrow> Inr dflt
      | EnvNotUnicode \<Rightarrow> Inl (VarNotUnicode key))"

definition parse_env_ip_csv :: "env \<Rightarrow> string \<Rightarrow> ip_addr list \<Rightarrow> config_error + ip_addr list" where
  "parse_env_ip_csv get_env key dflt =
     (case get_env key of
        EnvPresent v \<Rightarrow>
          try_map (\<lambda>item. ok_or (ConfigBail (key @ '' must contain valid IP addresses'')) (parse_ip item))
            (csv_items v)
      | EnvNotPresent \<Rightarrow> Inr dflt
      | EnvNotUnicode \<Rightarrow> Inl (VarNotUnicode key))"

text \<open>This reader never fails.\<close>

definition parse_env_csv :: "env \<Rightarrow> string \<Rightarrow> string list \<Rightarrow> string list" where
  "parse_env_csv get_env key dflt =
     (case get_env key of EnvPresent v \<Rightarrow> csv_items v | _ \<Rightarrow> dflt)"

definition load_webhook_secret_encryption_key ::
  "(string \<Rightarrow> config_error + 'k) \<Rightarrow> env \<Rightarrow> config_error + 'k" where
  "load_webhook_secret_encryption_key key_from_hex get_env =
     (case get_env ''WEBHOOK_SECRET_ENCRYPTION_KEY'' of
        EnvPresent v \<Rightarrow>
          (if trim v = [] then Inl (ConfigBail ''WEBHOOK_SECRET_ENCRYPTION_KEY is required'')
           else key_from_hex (trim v))
      | _ \<Rightarrow> Inl (ConfigBail ''WEBHOOK_SECRET_ENCRYPTION_KEY is required''))"

section \<open>Validation\<close>

definition validate_db_pool_settings :: "nat \<Rightarrow> nat \<Rightarrow> config_error + unit" where
  "validate_db_pool_settings max_connections min_connections =
     (if min_connections > max_connections
      then Inl (ConfigBail ''DB_MIN_CONNECTIONS must be less than or equal to DB_MAX_CONNECTIONS'')
      else Inr ())"

definition validate_trusted_proxy_settings :: "bool \<Rightarrow> ip_addr list \<Rightarrow> config_error + unit" where
  "validate_trusted_proxy_settings trust_proxy_headers trusted_proxy_ips =
     (if trust_proxy_headers \<and> trusted_proxy_ips = []
      then Inl (ConfigBail ''TRUSTED_PROXY_IPS is required when TRUST_PROXY_HEADERS is enabled'')
      else Inr ())"

definition validate_http_check_retry_policy :: "nat \<Rightarrow> nat list \<Rightarrow> config_error + unit" where
  "validate_http_check_retry_policy max_attempts retry_delays_ms =
     (let required_retry_count = sat_sub_u64 max_attempts 1 in
      if length retry_delays_ms < required_retry_count
      then Inl (ConfigBail (''HTTP_CHECK_RETRY_DELAYS_MS must provide at least '' @
             show_nat required_retry_count @ '' delay values for HTTP_CHECK_MAX_ATTEMPTS='' @
             show_nat max_attempts))
      else Inr ())"

definition validate_http_check_retry_jitter_percent :: "nat \<Rightarrow> config_error + unit" where
  "validate_http_check_retry_jitter_percent jitter_percent =
     (if jitter_percent > 100
      then Inl (ConfigBail ''HTTP_CHECK_RETRY_JITTER_PERCENT must be between 0 and 100'')
      else Inr ())"

section \<open>The configuration\<close>

record smtp_config =
  smtp_host :: string
  smtp_port :: nat
  smtp_username :: "string option"
  smtp_password :: "string option"
  smtp_from_email :: string
  smtp_from_name :: "string option"

definition env_ok :: "env_value \<Rightarrow> string option" where
  "env_ok v = (case v of EnvPresent s \<Rightarrow> Some s | _ \<Rightarrow> None)"

definition load_smtp_config :: "env \<Rightarrow> config_error + smtp_config option" where
  "load_smtp_config get_env =
     (case get_env ''SMTP_HOST'' of
        EnvNotPresent \<Rightarrow> Inr None
      | EnvNotUnicode \<Rightarrow> Inl (VarNotUnicode ''SMTP_HOST'')
      | EnvPresent host \<Rightarrow>
          if trim host = [] then Inr None
          else
            and_then (parse_env_u16 get_env ''SMTP_PORT'' 587) (\<lambda>port.
            and_then (case get_env ''SMTP_FROM_EMAIL'' of
                        EnvPresent e \<Rightarrow> Inr e
                      | EnvNotPresent \<Rightarrow> Inl (VarMissing ''SMTP_FROM_EMAIL'')
                      | EnvNotUnicode \<Rightarrow> Inl (VarNotUnicode ''SMTP_FROM_EMAIL'')) (\<lambda>from_email.
            Inr (Some
              \<lparr>smtp_host = host, smtp_port = port,
               smtp_username = option_filter (\<lambda>v. trim v \<noteq> []) (env_ok (get_env ''SMTP_USERNAME'')),
               smtp_password = option_filter (\<lambda>v. v \<noteq> []) (env_ok (get_env ''SMTP_PASSWORD'')),
               smtp_from_email = from_email,
               smtp_from_name =
                 option_filter (\<lambda>v. trim v \<noteq> []) (env_ok (get_env ''SMTP_FROM_NAME''))\<rparr>))))"

record 'k config =
  cfg_database_url :: string
  cfg_api_bind_address :: string
  cfg_access_token_ttl_seconds :: nat
  cfg_cors_allowed_origins :: "string list"
  cfg_db_max_connections :: nat
  cfg_db_min_connections :: nat
  cfg_db_acquire_timeout_seconds :: nat
  cfg_db_idle_timeout_seconds :: nat
  cfg_db_max_lifetime_seconds :: nat
  cfg_api_db_max_connections :: nat
  cfg_api_db_min_connections :: nat
  cfg_worker_db_max_connections :: nat
  cfg_worker_db_min_connections :: nat
  cfg_worker_max_poll_interval_ms :: nat
  cfg_site_worker_count :: nat
  cfg_max_http_concurrent_checks :: nat
  cfg_due_sites_batch_size :: nat
  cfg_lease_site_check_seconds :: nat
  cfg_http_check_timeout_seconds :: nat
  cfg_http_check_max_response_body_bytes :: nat
  cfg_http_check_max_attempts :: nat
  cfg_http_check_retry_delays_ms :: "nat list"
  cfg_http_check_retry_jitter_percent :: nat
  cfg_site_monitor_check_retention_days :: nat
  cfg_site_monitor_check_retention_interval_seconds :: nat
  cfg_site_monitor_check_retention_batch_size :: nat
  cfg_due_notification_batch_size :: nat
  cfg_max_notification_concurrent_deliveries :: nat
  cfg_lease_notification_delivery_seconds :: nat
  cfg_notification_delivery_timeout_seconds :: nat
  cfg_notification_max_attempts :: nat
  cfg_notification_retry_base_seconds :: nat
  cfg_auth_rate_limit_max_requests :: nat
  cfg_auth_rate_limit_window_seconds :: nat
  cfg_trust_proxy_headers :: bool
  cfg_trusted_proxy_ips :: "ip_addr list"
  cfg_cookie_secure :: bool
  cfg_http_monitor_allow_private_targets :: bool
  cfg_webhook_secret_encryption_key :: 'k
  cfg_smtp :: "smtp_config option"

definition default_cors_allowed_origins :: "string list" where
  "default_cors_allowed_origins =
     [''http://127.0.0.1:5173'', ''http://localhost:5173'', ''http://127.0.0.1:4173'',
      ''http://localhost:4173'']"

definition from_env_getter :: "(string \<Rightarrow> config_error + 'k) \<Rightarrow> env \<Rightarrow> config_error + 'k config" where
  "from_env_getter key_from_hex get_env =
     and_then (case get_env ''DATABASE_URL'' of
                 EnvPresent v \<Rightarrow> Inr v
               | EnvNotPresent \<Rightarrow> Inl (VarMissing ''DATABASE_URL'')
               | EnvNotUnicode \<Rightarrow> Inl (VarNotUnicode ''DATABASE_URL'')) (\<lambda>database_url.
     (let api_bind_address = unwrap_or (env_ok (get_env ''API_BIND_ADDRESS'')) ''127.0.0.1:3000'' in
     and_then (parse_env_positive_usize get_env ''ACCESS_TOKEN_TTL_SECONDS'' 3600) (\<lambda>access_token_ttl_seconds.
     (let cors_allowed_origins = parse_env_csv get_env ''CORS_ALLOWED_ORIGINS'' default_cors_allowed_origins in
     and_then (parse_env_positive_u32 get_env ''DB_MAX_CONNECTIONS'' 20) (\<lambda>db_max_connections.
     and_then (parse_env_u32 get_env ''DB_MIN_CONNECTIONS'' 2) (\<lambda>db_min_connections.
     and_then (parse_env_positive_u64 get_env ''DB_ACQUIRE_TIMEOUT_SECONDS'' 5) (\<lambda>db_acquire_timeout_seconds.
     and_then (parse_env_positive_u64 get_env ''DB_IDLE_TIMEOUT_SECONDS'' 600) (\<lambda>db_idle_timeout_seconds.
     and_then (parse_env_positive_u64 get_env ''DB_MAX_LIFETIME_SECONDS'' 1800) (\<lambda>db_max_lifetime_seconds.
     and_then (parse_env_positive_u32 get_env ''API_DB_MAX_CONNECTIONS'' db_max_connections) (\<lambda>api_db_max_connections.
     and_then (parse_env_u32 get_env ''API_DB_MIN_CONNECTIONS'' db_min_connections) (\<lambda>api_db_min_connections.
     and_then (parse_env_positive_u32 get_env ''WORKER_DB_MAX_CONNECTIONS'' db_max_connections) (\<lambda>worker_db_max_connections.
     and_then (parse_env_u32 get_env ''WORKER_DB_MIN_CONNECTIONS'' db_min_connections) (\<lambda>worker_db_min_connections.
     and_then (parse_env_positive_u64 get_env ''WORKER_MAX_POLL_INTERVAL_MS'' 5000) (\<lambda>worker_max_poll_interval_ms.
     and_then (parse_env_positive_usize get_env ''SITE_WORKER_COUNT'' 3) (\<lambda>site_worker_count.
     and_then (parse_env_positive_usize get_env ''MAX_HTTP_CONCURRENT_CHECKS'' 10) (\<lambda>max_http_concurrent_checks.
     and_then (parse_env_positive_usize get_env ''DUE_SITES_BATCH_SIZE'' 100) (\<lambda>due_sites_batch_size.
     and_then (parse_env_positive_usize get_env ''LEASE_SITE_CHECK_SECONDS'' 60) (\<lambda>lease_site_check_seconds.
     and_then (parse_env_positive_usize get_env ''HTTP_CHECK_TIMEOUT_SECONDS'' 10) (\<lambda>http_check_timeout_seconds.
     and_then (parse_env_positive_usize get_env ''HTTP_CHECK_MAX_RESPONSE_BODY_BYTES'' 65536) (\<lambda>http_check_max_response_body_bytes.
     and_then (parse_env_positive_usize get_env ''HTTP_CHECK_MAX_ATTEMPTS'' 3) (\<lambda>http_check_max_attempts.
     and_then (parse_env_positive_u64_csv get_env ''HTTP_CHECK_RETRY_DELAYS_MS'' [1000, 3000]) (\<lambda>http_check_retry_delays_ms.
     and_then (parse_env_usize get_env ''HTTP_CHECK_RETRY_JITTER_PERCENT'' 20) (\<lambda>http_check_retry_jitter_percent.
     and_then (parse_env_positive_usize get_env ''SITE_MONITOR_CHECK_RETENTION_DAYS'' 90) (\<lambda>site_monitor_check_retention_days.
     and_then (parse_env_positive_usize get_env ''SITE_MONITOR_CHECK_RETENTION_INTERVAL_SECONDS'' 3600) (\<lambda>site_monitor_check_retention_interval_seconds.
     and_then (parse_env_positive_usize get_env ''SITE_MONITOR_CHECK_RETENTION_BATCH_SIZE'' 5000) (\<lambda>site_monitor_check_retention_batch_size.
     and_then (parse_env_positive_usize get_env ''DUE_NOTIFICATION_BATCH_SIZE'' 100) (\<lambda>due_notification_batch_size.
     and_then (parse_env_positive_usize get_env ''MAX_NOTIFICATION_CONCURRENT_DELIVERIES'' 10) (\<lambda>max_notification_concurrent_deliveries.
     and_then (parse_env_positive_usize get_env ''LEASE_NOTIFICATION_DELIVERY_SECONDS'' 60) (\<lambda>lease_notification_delivery_seconds.
     and_then (parse_env_positive_usize get_env ''NOTIFICATION_DELIVERY_TIMEOUT_SECONDS'' 10) (\<lambda>notification_delivery_timeout_seconds.
     and_then (parse_env_positive_usize get_env ''NOTIFICATION_MAX_ATTEMPTS'' 5) (\<lambda>notification_max_attempts.
     and_then (parse_env_positive_usize get_env ''NOTIFICATION_RETRY_BASE_SECONDS'' 30) (\<lambda>notification_retry_base_seconds.
     and_then (parse_env_positive_usize get_env ''AUTH_RATE_LIMIT_MAX_REQUESTS'' 10) (\<lambda>auth_rate_limit_max_requests.
     and_then (parse_env_positive_usize get_env ''AUTH_RATE_LIMIT_WINDOW_SECONDS'' 60) (\<lambda>auth_rate_limit_window_seconds.
     and_then (parse_env_bool get_env ''TRUST_PROXY_HEADERS'' False) (\<lambda>trust_proxy_headers.
     and_then (parse_env_ip_csv get_env ''TRUSTED_PROXY_IPS'' []) (\<lambda>trusted_proxy_ips.
     and_then (parse_env_bool get_env ''COOKIE_SECURE'' True) (\<lambda>cookie_secure.
     and_then (parse_env_bool get_env ''HTTP_MONITOR_ALLOW_PRIVATE_TARGETS'' False) (\<lambda>http_monitor_allow_private_targets.
     and_then (validate_db_pool_settings db_max_connections db_min_connections) (\<lambda>_.
     and_then (validate_db_pool_settings api_db_max_connections api_db_min_connections) (\<lambda>_.
     and_then (validate_db_pool_settings worker_db_max_connections worker_db_min_connections) (\<lambda>_.
     and_then (validate_http_check_retry_policy http_check_max_attempts http_check_retry_delays_ms) (\<lambda>_.
     and_then (validate_http_check_retry_jitter_percent http_check_retry_jitter_percent) (\<lambda>_.
     and_then (validate_trusted_proxy_settings trust_proxy_headers trusted_proxy_ips) (\<lambda>_.
     and_then (load_webhook_secret_encryption_key key_from_hex get_env) (\<lambda>webhook_secret_encryption_key.
     and_then (load_smtp_config get_env) (\<lambda>smtp.
     Inr \<lparr>
        cfg_database_url = database_url,
        cfg_api_bind_address = api_bind_address,
        cfg_access_token_ttl_seconds = access_token_ttl_seconds,
        cfg_cors_allowed_origins = cors_allowed_origins,
        cfg_db_max_connections = db_max_connections,
        cfg_db_min_connections = db_min_connections,
        cfg_db_acquire_timeout_seconds = db_acquire_timeout_seconds,
        cfg_db_idle_timeout_seconds = db_idle_timeout_seconds,
        cfg_db_max_lifetime_seconds = db_max_lifetime_seconds,
        cfg_api_db_max_connections = api_db_max_connections,
        cfg_api_db_min_connections = api_db_min_connections,
        cfg_worker_db_max_connections = worker_db_max_connections,
        cfg_worker_db_min_connections = worker_db_min_connections,
        cfg_worker_max_poll_interval_ms = worker_max_poll_interval_ms,
        cfg_site_worker_count = site_worker_count,
        cfg_max_http_concurrent_checks = max_http_concurrent_checks,
        cfg_due_sites_batch_size = due_sites_batch_size,
        cfg_lease_site_check_seconds = lease_site_check_seconds,
        cfg_http_check_timeout_seconds = http_check_timeout_seconds,
        cfg_http_check_max_response_body_bytes = http_check_max_response_body_bytes,
        cfg_http_check_max_attempts = http_check_max_attempts,
        cfg_http_check_retry_delays_ms = http_check_retry_delays_ms,
        cfg_http_check_retry_jitter_percent = http_check_retry_jitter_percent,
        cfg_site_monitor_check_retention_days = site_monitor_check_retention_days,
        cfg_site_monitor_check_retention_interval_seconds = site_monitor_check_retention_interval_seconds,
        cfg_site_monitor_check_retention_batch_size = site_monitor_check_retention_batch_size,
        cfg_due_notification_batch_size = due_notification_batch_size,
        cfg_max_notification_concurrent_deliveries = max_notification_concurrent_deliveries,
        cfg_lease_notification_delivery_seconds = lease_notification_delivery_seconds,
        cfg_notification_delivery_timeout_seconds = notification_delivery_timeout_seconds,
        cfg_notification_max_attempts = notification_max_attempts,
        cfg_notification_retry_base_seconds = notification_retry_base_seconds,
        cfg_auth_rate_limit_max_requests = auth_rate_limit_max_requests,
        cfg_auth_rate_limit_window_seconds = auth_rate_limit_window_seconds,
        cfg_trust_proxy_headers = trust_proxy_headers,
        cfg_trusted_proxy_ips = trusted_proxy_ips,
        cfg_cookie_secure = cookie_secure,
        cfg_http_monitor_allow_private_targets = http_monitor_allow_private_targets,
        cfg_webhook_secret_encryption_key = webhook_secret_encryption_key,
        cfg_smtp = smtp\<rparr>))))))))))))))))))))))))))))))))))))))))))))))"

datatype db_pool_role = PoolApi | PoolWorker

record db_pool_settings =
  dps_max_connections :: nat
  dps_min_connections :: nat
  dps_acquire_timeout_seconds :: nat
  dps_idle_timeout_seconds :: nat
  dps_max_lifetime_seconds :: nat

definition db_pool_settings_of :: "'k config \<Rightarrow> db_pool_role \<Rightarrow> db_pool_settings" where
  "db_pool_settings_of c role =
     (let (max_connections, min_connections) =
            (case role of
               PoolApi \<Rightarrow> (cfg_api_db_max_connections c, cfg_api_db_min_connections c)
             | PoolWorker \<Rightarrow> (cfg_worker_db_max_connections c, cfg_worker_db_min_connections c))
      in \<lparr>dps_max_connections = max_connections, dps_min_connections = min_connections,
          dps_acquire_timeout_seconds = cfg_db_acquire_timeout_seconds c,
          dps_idle_timeout_seconds = cfg_db_idle_timeout_seconds c,
          dps_max_lifetime_seconds = cfg_db_max_lifetime_seconds c\<rparr>)"

section \<open>Properties of the configuration\<close>

text \<open>What the rest of the program relies on.\<close>

definition config_valid :: "'k config \<Rightarrow> bool" where
  "config_valid c \<longleftrightarrow>
     0 < cfg_site_worker_count c \<and> 0 < cfg_max_http_concurrent_checks c \<and>
     0 < cfg_due_sites_batch_size c \<and> 0 < cfg_lease_site_check_seconds c \<and>
     0 < cfg_http_check_timeout_seconds c \<and> 0 < cfg_http_check_max_response_body_bytes c \<and>
     0 < cfg_http_check_max_attempts c \<and> 0 < cfg_worker_max_poll_interval_ms c \<and>
     cfg_http_check_max_attempts c - 1 \<le> length (cfg_http_check_retry_delays_ms c) \<and>
     (\<forall>ms \<in> set (cfg_http_check_retry_delays_ms c). 0 < ms) \<and>
     cfg_http_check_retry_jitter_percent c \<le> 100 \<and>
     0 < cfg_site_monitor_check_retention_days c \<and>
     0 < cfg_site_monitor_check_retention_interval_seconds c \<and>
     0 < cfg_site_monitor_check_retention_batch_size c \<and>
     0 < cfg_due_notification_batch_size c \<and>
     0 < cfg_max_notification_concurrent_deliveries c \<and>
     0 < cfg_lease_notification_delivery_seconds c \<and>
     0 < cfg_notification_delivery_timeout_seconds c \<and> 0 < cfg_notification_max_attempts c \<and>
     0 < cfg_notification_retry_base_seconds c \<and> 0 < cfg_auth_rate_limit_max_requests c \<and>
     0 < cfg_auth_rate_limit_window_seconds c \<and> 0 < cfg_access_token_ttl_seconds c \<and>
     cfg_db_min_connections c \<le> cfg_db_max_connections c \<and>
     cfg_api_db_min_connections c \<le> cfg_api_db_max_connections c \<and>
     cfg_worker_db_min_connections c \<le> cfg_worker_db_max_connections c \<and>
     (cfg_trust_proxy_headers c \<longrightarrow> cfg_trusted_proxy_ips c \<noteq> [])"

lemma parse_env_positive_usize_pos: "parse_env_positive_usize g k d = Inr n \<Longrightarrow> 0 < n"
  by (auto simp: parse_env_positive_usize_def require_positive_def and_then_eq_Inr split: if_splits)

lemma parse_env_positive_u64_pos: "parse_env_positive_u64 g k d = Inr n \<Longrightarrow> 0 < n"
  by (auto simp: parse_env_positive_u64_def require_positive_def and_then_eq_Inr split: if_splits)

lemma parse_env_positive_u64_csv_pos:
  assumes "parse_env_positive_u64_csv g k d = Inr ns" "\<forall>n \<in> set d. 0 < n"
  shows "\<forall>n \<in> set ns. 0 < n"
proof (cases "g k")
  case (EnvPresent v)
  have "list_all2 (\<lambda>x y. and_then (ok_or (ParseIntError x) (parse_unsigned u64_max x))
      (\<lambda>parsed. if parsed = 0 then Inl (ConfigBail (k @ '' values must be greater than 0''))
                else Inr parsed) = Inr y) (csv_items v) ns"
    using assms(1) by (simp add: parse_env_positive_u64_csv_def EnvPresent try_map_Inr_iff)
  from list_all2_memD [OF this] show ?thesis
    by (fastforce simp: and_then_eq_Inr split: if_splits)
qed (use assms in \<open>auto simp: parse_env_positive_u64_csv_def\<close>)

lemma validate_Inr:
  "validate_db_pool_settings a b = Inr u \<longleftrightarrow> b \<le> a"
  "validate_trusted_proxy_settings t ips = Inr u \<longleftrightarrow> (t \<longrightarrow> ips \<noteq> [])"
  "validate_http_check_retry_policy m ds = Inr u \<longleftrightarrow> m - 1 \<le> length ds"
  "validate_http_check_retry_jitter_percent j = Inr u \<longleftrightarrow> j \<le> 100"
  by (auto simp: validate_db_pool_settings_def validate_trusted_proxy_settings_def
      validate_http_check_retry_policy_def validate_http_check_retry_jitter_percent_def
      sat_sub_u64_def Let_def)

lemma from_env_getter_valid:
  assumes "from_env_getter key_from_hex get_env = Inr c"
  shows "config_valid c"
  using assms parse_env_positive_u64_csv_pos [of get_env _ "[1000, 3000]"]
  unfolding from_env_getter_def Let_def and_then_eq_Inr validate_Inr
  by (elim exE conjE) (clarsimp simp: config_valid_def parse_env_positive_usize_pos
      parse_env_positive_u64_pos)

definition sample_env :: env where
  "sample_env key =
     (if key = ''DATABASE_URL'' then EnvPresent ''postgres''
      else if key = ''WEBHOOK_SECRET_ENCRYPTION_KEY'' then EnvPresent ''ab''
      else EnvNotPresent)"

lemma sample_env_loads: "\<exists>c. from_env_getter (\<lambda>_. Inr ()) sample_env = Inr c"
proof -
  have "is_ok (from_env_getter (\<lambda>_. Inr ()) sample_env)"
    by (simp add: from_env_getter_def sample_env_def parse_env_positive_usize_def
        parse_env_usize_def parse_env_unsigned_def require_positive_def parse_env_positive_u32_def
        parse_env_u32_def parse_env_positive_u64_def parse_env_u64_def parse_env_bool_def
        parse_env_ip_csv_def parse_env_csv_def parse_env_positive_u64_csv_def Let_def
        validate_db_pool_settings_def validate_trusted_proxy_settings_def
        validate_http_check_retry_policy_def validate_http_check_retry_jitter_percent_def
        sat_sub_u64_def load_webhook_secret_encryption_key_def load_smtp_config_def trim_id
        is_whitespace_def char_code_def)
  then show ?thesis
    by (auto simp: is_ok_def split: sum.splits)
qed

text \<open>
  a configuration that loads is usable: every count, limit, interval, lease and timeout is
  positive, the retry delays are positive and there is one for each retry, the jitter is a
  percentage, the pool minima do not exceed the maxima, and trusting proxy headers comes with a
  list of trusted proxies.
\<close>

theorem loaded_config_is_valid:
  assumes "from_env_getter key_from_hex get_env = Inr c"
  shows "config_valid c"
  using assms by (rule from_env_getter_valid)

theorem loaded_config_is_valid_witness:
  "\<exists>c. from_env_getter (\<lambda>_. Inr ()) sample_env = Inr c \<and> config_valid c"
  using sample_env_loads loaded_config_is_valid by blast

end
