(* ===== verification/Sql_Table.thy ===== *)
theory Sql_Table
  imports Rust_Std
begin

text \<open>
  The fragment of SQL the repositories use, over tables that are lists of rows in primary key
  order. A statement maps the database to an error or to its result and the new database; a
  transaction is a statement built from others, so an error leaves the caller's database as it was
  (rollback). \<open>NOW()\<close> is an argument: it is constant within a transaction. Rows that another
  session has locked, which \<open>SKIP LOCKED\<close> passes over, are an argument too.
\<close>

section \<open>Statements\<close>

datatype db_error =
    UniqueViolation string
  | ForeignKeyViolation string
  | CheckViolation string
  | IntegerOutOfRange
  | NegativeLimit
  | RowNotFound
  | Bail string

type_synonym ('s, 'a) stmt = "'s \<Rightarrow> db_error + 'a \<times> 's"

definition stmt_return :: "'a \<Rightarrow> ('s, 'a) stmt" where
  "stmt_return x s = Inr (x, s)"

definition stmt_fail :: "db_error \<Rightarrow> ('s, 'a) stmt" where
  "stmt_fail e s = Inl e"

definition stmt_bind :: "('s, 'a) stmt \<Rightarrow> ('a \<Rightarrow> ('s, 'b) stmt) \<Rightarrow> ('s, 'b) stmt" where
  "stmt_bind m k s = (case m s of Inl e \<Rightarrow> Inl e | Inr (x, s') \<Rightarrow> k x s')"

text \<open>A session that runs a statement keeps its database when the statement fails.\<close>

definition run_stmt :: "('s, 'a) stmt \<Rightarrow> 's \<Rightarrow> 's" where
  "run_stmt m s = (case m s of Inl _ \<Rightarrow> s | Inr (_, s') \<Rightarrow> s')"

lemma stmt_simps [simp]:
  "stmt_return x s = Inr (x, s)"
  "stmt_fail e s = Inl e"
  by (simp_all add: stmt_return_def stmt_fail_def)

lemma stmt_bind_Inr_iff:
  "stmt_bind m k s = Inr r \<longleftrightarrow> (\<exists>x s'. m s = Inr (x, s') \<and> k x s' = Inr r)"
  by (auto simp: stmt_bind_def split: sum.splits)

lemma stmt_bind_Inl_iff:
  "stmt_bind m k s = Inl e \<longleftrightarrow> m s = Inl e \<or> (\<exists>x s'. m s = Inr (x, s') \<and> k x s' = Inl e)"
  by (auto simp: stmt_bind_def split: sum.splits)

lemma stmt_bind_InrI: "m s = Inr (x, s') \<Longrightarrow> stmt_bind m k s = k x s'"
  by (simp add: stmt_bind_def)

lemma stmt_bind_assoc:
  "stmt_bind (stmt_bind m k) h = stmt_bind m (\<lambda>x. stmt_bind (k x) h)"
  by (rule ext) (auto simp: stmt_bind_def split: sum.splits)

lemma run_stmt_Inr [simp]: "m s = Inr (x, s') \<Longrightarrow> run_stmt m s = s'"
  by (simp add: run_stmt_def)

lemma run_stmt_Inl [simp]: "m s = Inl e \<Longrightarrow> run_stmt m s = s"
  by (simp add: run_stmt_def)

text \<open>An invariant a statement keeps is kept by the session that runs it, rollback included.\<close>

lemma run_stmt_invariant:
  assumes "\<And>x s'. m s = Inr (x, s') \<Longrightarrow> P s'" "P s"
  shows "P (run_stmt m s)"
  using assms by (auto simp: run_stmt_def split: sum.splits)

section \<open>Tables\<close>

definition update_rows :: "('r \<Rightarrow> bool) \<Rightarrow> ('r \<Rightarrow> 'r) \<Rightarrow> 'r list \<Rightarrow> 'r list" where
  "update_rows p f t = map (\<lambda>r. if p r then f r else r) t"

definition rows_affected :: "('r \<Rightarrow> bool) \<Rightarrow> 'r list \<Rightarrow> nat" where
  "rows_affected p t = length (filter p t)"

definition returning_rows :: "('r \<Rightarrow> bool) \<Rightarrow> ('r \<Rightarrow> 'r) \<Rightarrow> 'r list \<Rightarrow> 'r list" where
  "returning_rows p f t = map f (filter p t)"

definition delete_rows :: "('r \<Rightarrow> bool) \<Rightarrow> 'r list \<Rightarrow> 'r list" where
  "delete_rows p t = filter (\<lambda>r. \<not> p r) t"

text \<open>\<open>fetch_optional\<close>: the first row, if any.\<close>

definition fetch_optional :: "'r list \<Rightarrow> 'r option" where
  "fetch_optional t = (case t of [] \<Rightarrow> None | r # _ \<Rightarrow> Some r)"

text \<open>\<^verbatim>\<open>BOOL_OR\<close> over nullable values: nulls are left out, no value at all is null.\<close>

definition bool_or :: "bool option list \<Rightarrow> bool option" where
  "bool_or xs = (case List.map_filter (\<lambda>x. x) xs of [] \<Rightarrow> None | bs \<Rightarrow> Some (list_ex (\<lambda>b. b) bs))"

lemma bool_or_some_true: "bool_or xs = Some True \<longleftrightarrow> Some True \<in> set xs"
proof -
  have "list_ex (\<lambda>b. b) (List.map_filter (\<lambda>x. x) xs) \<longleftrightarrow> Some True \<in> set xs"
    by (induction xs) (auto simp: List.map_filter_def split: option.splits)
  then show ?thesis
    by (cases "List.map_filter (\<lambda>x. x) xs") (auto simp: bool_or_def)
qed

definition limit_rows :: "int \<Rightarrow> 'r list \<Rightarrow> 'r list" where
  "limit_rows n t = take (nat n) t"

definition order_by :: "('r \<Rightarrow> 'k::linorder) \<Rightarrow> 'r list \<Rightarrow> 'r list" where
  "order_by key t = sort_key key t"

definition order_by_desc :: "('r \<Rightarrow> 'k::linorder) \<Rightarrow> 'r list \<Rightarrow> 'r list" where
  "order_by_desc key t = rev (sort_key key (rev t))"

text \<open>A value bound for an \<open>INTEGER\<close> column.\<close>

definition pg_int4 :: "int \<Rightarrow> db_error + int" where
  "pg_int4 x = (if i32_in_range x then Inr x else Inl IntegerOutOfRange)"

text \<open>
  \<open>EXTRACT(EPOCH FROM d)::INTEGER\<close> of an interval in microseconds: to the nearest second, halves
  away from zero.
\<close>

definition epoch_seconds :: "int \<Rightarrow> int" where
  "epoch_seconds us =
     (if us < 0 then - ((- us + 500000) div 1000000) else (us + 500000) div 1000000)"

text \<open>\<open>COALESCE\<close> of two nullable values.\<close>

definition coalesce :: "'a option \<Rightarrow> 'a option \<Rightarrow> 'a option" where
  "coalesce a b = (case a of None \<Rightarrow> b | Some _ \<Rightarrow> a)"

lemma set_update_rows: "set (update_rows p f t) = f ` {r \<in> set t. p r} \<union> {r \<in> set t. \<not> p r}"
  by (auto simp: update_rows_def)

lemma update_rows_memD:
  "r \<in> set (update_rows p f t) \<Longrightarrow> \<exists>r0 \<in> set t. r = (if p r0 then f r0 else r0)"
  by (auto simp: update_rows_def)

lemma update_rows_map: "(\<And>r. k (f r) = k r) \<Longrightarrow> map k (update_rows p f t) = map k t"
  by (simp add: update_rows_def)

lemma update_rows_none: "\<forall>r \<in> set t. \<not> p r \<Longrightarrow> update_rows p f t = t"
  by (simp add: update_rows_def map_idI)

lemma update_rows_filter_key:
  assumes "\<And>r. p r \<Longrightarrow> q (f r) = q r"
  shows "length (filter q (update_rows p f t)) = length (filter q t)"
  by (induction t) (auto simp: update_rows_def assms)

lemma rows_affected_0_iff: "rows_affected p t = 0 \<longleftrightarrow> (\<forall>r \<in> set t. \<not> p r)"
  by (simp add: rows_affected_def filter_empty_conv)

lemma update_rows_unaffected: "rows_affected p t = 0 \<Longrightarrow> update_rows p f t = t"
  by (simp add: rows_affected_0_iff update_rows_none)

text \<open>A predicate that fixes the primary key matches at most one row.\<close>

lemma rows_affected_by_key:
  assumes "distinct (map k t)" "\<And>r. p r \<Longrightarrow> k r = i"
  shows "rows_affected p t \<le> 1"
  using assms(1)
proof (induction t)
  case Nil
  then show ?case by (simp add: rows_affected_def)
next
  case (Cons a t)
  have "p a \<Longrightarrow> filter p t = []"
    using Cons.prems assms(2) by (force simp: filter_empty_conv)
  with Cons show ?case by (auto simp: rows_affected_def)
qed

lemma rows_affected_1_by_key:
  assumes "distinct (map k t)" "\<And>r. p r \<Longrightarrow> k r = i" "r \<in> set t" "p r"
  shows "rows_affected p t = 1"
  using rows_affected_by_key [of k t p i] assms
  by (metis One_nat_def le_antisym not_less_eq_eq rows_affected_0_iff le_zero_eq)

lemma fetch_optional_simps [simp]:
  "fetch_optional [] = None" "fetch_optional (r # t) = Some r"
  by (simp_all add: fetch_optional_def)

lemma fetch_optional_Some_mem: "fetch_optional t = Some r \<Longrightarrow> r \<in> set t"
  by (cases t) auto

lemma fetch_optional_None_iff: "fetch_optional t = None \<longleftrightarrow> t = []"
  by (cases t) auto

lemma length_limit_rows: "length (limit_rows n t) \<le> nat n"
  by (simp add: limit_rows_def)

lemma set_limit_rows: "set (limit_rows n t) \<subseteq> set t"
  by (simp add: limit_rows_def set_take_subset)

lemma set_order_by [simp]: "set (order_by key t) = set t"
  by (simp add: order_by_def)

lemma set_order_by_desc [simp]: "set (order_by_desc key t) = set t"
  by (simp add: order_by_desc_def)

lemma distinct_map_order_by: "distinct (map k t) \<Longrightarrow> distinct (map k (order_by key t))"
  by (simp add: order_by_def distinct_map)

lemma distinct_map_limit: "distinct (map k t) \<Longrightarrow> distinct (map k (limit_rows n t))"
  by (simp add: limit_rows_def flip: take_map)

lemma delete_rows_mem [simp]: "r \<in> set (delete_rows p t) \<longleftrightarrow> r \<in> set t \<and> \<not> p r"
  by (auto simp: delete_rows_def)

lemma epoch_seconds_nonneg: "0 \<le> us \<Longrightarrow> 0 \<le> epoch_seconds us"
  by (simp add: epoch_seconds_def)

text \<open>Selecting the rows of a table by the ids of some of its rows gives those rows.\<close>

lemma filter_ids_set:
  assumes "distinct (map k t)" "set xs \<subseteq> set t"
  shows "set (filter (\<lambda>r. k r \<in> k ` set xs) t) = set xs"
proof -
  have "r \<in> set xs" if "r \<in> set t" "x \<in> set xs" "k r = k x" for r x
    using distinct_map_eqD [OF assms(1) that(1), of x] assms(2) that by blast
  with assms(2) show ?thesis by auto
qed

lemma filter_ids_length:
  assumes "distinct (map k t)" "set xs \<subseteq> set t" "distinct (map k xs)"
  shows "length (filter (\<lambda>r. k r \<in> k ` set xs) t) = length xs"
proof -
  have "distinct (filter (\<lambda>r. k r \<in> k ` set xs) t)" "distinct xs"
    using assms by (simp_all add: distinct_map)
  then show ?thesis
    by (metis distinct_card filter_ids_set [OF assms(1,2)])
qed

text \<open>The rows an ordered, limited selection takes come before the rows it leaves; a selection shorter than the limit leaves none.\<close>

lemma limit_rows_order:
  assumes "x \<in> set (limit_rows n (order_by k t))" "y \<in> set t"
    "y \<notin> set (limit_rows n (order_by k t))"
  shows "k x \<le> k y"
proof -
  let ?xs = "sort_key k t"
  have "y \<in> set (drop (nat n) ?xs)"
    using assms(2,3) append_take_drop_id [of "nat n" ?xs] set_append [of "take (nat n) ?xs" "drop (nat n) ?xs"]
    by (auto simp: limit_rows_def order_by_def)
  moreover have "sorted (map k (take (nat n) ?xs @ drop (nat n) ?xs))"
    by simp
  moreover have "x \<in> set (take (nat n) ?xs)"
    using assms(1) by (simp add: limit_rows_def order_by_def)
  ultimately show ?thesis
    unfolding map_append sorted_append by auto
qed

lemma limit_rows_all:
  assumes "length (limit_rows n (order_by k t)) < nat n"
  shows "set (limit_rows n (order_by k t)) = set t"
  using assms by (simp add: limit_rows_def order_by_def)

section \<open>Updates that may fail\<close>

text \<open>
  An update whose new row is computed with a range check: one row out of range fails the whole
  statement.
\<close>

definition try_update_rows ::
  "('r \<Rightarrow> bool) \<Rightarrow> ('r \<Rightarrow> db_error + 'r) \<Rightarrow> 'r list \<Rightarrow> db_error + 'r list" where
  "try_update_rows p f t = try_map (\<lambda>r. if p r then f r else Inr r) t"

lemma try_update_rows_Inr:
  "try_update_rows p f t = Inr t' \<longleftrightarrow>
     list_all2 (\<lambda>r r'. if p r then f r = Inr r' else r' = r) t t'"
proof -
  have "(\<lambda>r r'. (if p r then f r else Inr r) = Inr r') =
      (\<lambda>r r'. if p r then f r = Inr r' else r' = r)"
    by (intro ext) auto
  then show ?thesis
    by (simp add: try_update_rows_def try_map_Inr_iff)
qed

lemma try_update_rows_memD:
  "try_update_rows p f t = Inr t' \<Longrightarrow> r' \<in> set t' \<Longrightarrow>
   \<exists>r \<in> set t. if p r then f r = Inr r' else r' = r"
  unfolding try_update_rows_Inr by (rule list_all2_memD)

lemma try_update_rows_memI:
  "try_update_rows p f t = Inr t' \<Longrightarrow> r \<in> set t \<Longrightarrow>
   \<exists>r' \<in> set t'. if p r then f r = Inr r' else r' = r"
  unfolding try_update_rows_Inr by (rule list_all2_memI)

lemma try_update_rows_map:
  assumes "try_update_rows p f t = Inr t'" "\<And>r r'. f r = Inr r' \<Longrightarrow> k r' = k r"
  shows "map k t' = map k t"
proof -
  have "list_all2 (\<lambda>r r'. k r' = k r) t t'"
    by (rule list_all2_mono [OF assms(1) [unfolded try_update_rows_Inr]])
      (use assms(2) in \<open>auto split: if_splits\<close>)
  then show ?thesis
    by (simp add: list_all2_conv_all_nth list_eq_iff_nth_eq)
qed

lemma try_update_rows_none:
  "\<forall>r \<in> set t. \<not> p r \<Longrightarrow> try_update_rows p f t = Inr t"
  by (simp add: try_update_rows_Inr list_all2_same)

end
