(* ===== verification/Json_Value.thy ===== *)
theory Json_Value
  imports Rust_Str
begin

text \<open>
  \<open>serde_json::Value\<close> as data: the constructors the program builds and inspects. A number is kept
  as its text; the equality of two values is the library's and is a parameter of the
  definitions that use it. An object is the association list of its entries.
\<close>

datatype json =
    JNull
  | JBool bool
  | JNumber string
  | JString string
  | JArray "json list"
  | JObject "(string \<times> json) list"

definition json_str :: "string option \<Rightarrow> json" where
  "json_str s = (case s of None \<Rightarrow> JNull | Some x \<Rightarrow> JString x)"

definition json_int :: "int option \<Rightarrow> json" where
  "json_int i = (case i of None \<Rightarrow> JNull | Some x \<Rightarrow> JNumber (show_int x))"

definition json_field :: "string \<Rightarrow> json \<Rightarrow> json option" where
  "json_field k v = (case v of JObject kvs \<Rightarrow> map_of kvs k | _ \<Rightarrow> None)"

lemma json_field_JObject [simp]: "json_field k (JObject kvs) = map_of kvs k"
  by (simp add: json_field_def)

end
