(* ===== verification/Domain_Model.thy ===== *)
theory Domain_Model
  imports Sql_Table Json_Value
begin

text \<open>
  The domain model (\<^verbatim>\<open>src/domain/*/model.rs\<close>): the enums, the row structs and the parameter structs
  of the repositories, field for field and in the source's order, and the database that holds one
  list of rows per table with the next value of each primary key sequence.
\<close>

section \<open>Enums\<close>

datatype site_monitor_type = Http | Ssl | Heartbeat | Tcp | Dns

definition monitor_type_as_str :: "site_monitor_type \<Rightarrow> string" where
  "monitor_type_as_str t =
     (case t of Http \<Rightarrow> ''http'' | Ssl \<Rightarrow> ''ssl'' | Heartbeat \<Rightarrow> ''heartbeat''
      | Tcp \<Rightarrow> ''tcp'' | Dns \<Rightarrow> ''dns'')"

datatype incident_status = StatusOpen | StatusResolved

datatype incident_resolved_reason = Recovered | MonitoringDisabled | SiteDeactivated

definition resolved_reason_as_str :: "incident_resolved_reason \<Rightarrow> string" where
  "resolved_reason_as_str r =
     (case r of Recovered \<Rightarrow> ''recovered'' | MonitoringDisabled \<Rightarrow> ''monitoring_disabled''
      | SiteDeactivated \<Rightarrow> ''site_deactivated'')"

datatype notification_channel_type = Webhook | Email | Slack | Discord

datatype notification_event_type = Failure | Recovery

datatype delivery_status = Pending | Delivered | Failed

section \<open>Sites and site monitors\<close>

record site =
  s_id :: id
  s_name :: string
  s_base_url :: string
  s_is_active :: bool
  s_created_at :: timestamp
  s_updated_at :: timestamp

record http_header_assertion =
  hha_name :: string
  hha_equals :: "string option"
  hha_contains :: "string option"

record json_path_value_assertion =
  jpva_path :: string
  jpva_value :: json

record site_monitor =
  sm_id :: id
  sm_site_id :: id
  sm_monitor_type :: site_monitor_type
  sm_target_url :: string
  sm_check_interval_seconds :: int
  sm_expected_status_code :: int
  sm_body_must_contain :: "string option"
  sm_body_must_not_contain :: "string option"
  sm_body_must_contain_texts :: "(string list) option"
  sm_body_must_not_contain_texts :: "(string list) option"
  sm_json_path_exists :: "(string list) option"
  sm_json_path_equals :: "(json_path_value_assertion list) option"
  sm_json_path_not_equals :: "(json_path_value_assertion list) option"
  sm_max_response_time_ms :: "int option"
  sm_required_header_name :: "string option"
  sm_required_header_value :: "string option"
  sm_header_assertions :: "(http_header_assertion list) option"
  sm_ssl_certificate_checks_enabled :: bool
  sm_ssl_expiry_warning_days :: "int option"
  sm_tcp_target_host :: "string option"
  sm_tcp_target_port :: "int option"
  sm_dns_hostname :: "string option"
  sm_dns_record_type :: "string option"
  sm_dns_expected_value :: "string option"
  sm_dns_nameserver :: "string option"
  sm_heartbeat_token :: "string option"
  sm_heartbeat_grace_seconds :: "int option"
  sm_http_check_timeout_seconds_override :: "int option"
  sm_http_check_max_attempts_override :: "int option"
  sm_http_check_retry_delays_ms_override :: "(int list) option"
  sm_is_active :: bool
  sm_check_claimed_at :: "timestamp option"
  sm_check_lease_until :: "timestamp option"
  sm_check_claimed_by :: "string option"
  sm_last_checked_at :: "timestamp option"
  sm_last_successful_check_at :: "timestamp option"
  sm_last_is_success :: "bool option"
  sm_last_status_code :: "int option"
  sm_last_response_time_ms :: "int option"
  sm_last_failure_reason :: "string option"
  sm_last_error_message :: "string option"
  sm_last_heartbeat_received_at :: "timestamp option"
  sm_last_certificate_expires_at :: "timestamp option"
  sm_last_certificate_days_remaining :: "int option"
  sm_last_certificate_issuer :: "string option"
  sm_last_certificate_subject :: "string option"
  sm_last_certificate_domain :: "string option"
  sm_created_at :: timestamp
  sm_updated_at :: timestamp

record http_monitor_params =
  hmp_target_url :: string
  hmp_check_interval_seconds :: int
  hmp_expected_status_code :: int
  hmp_body_must_contain :: "string option"
  hmp_body_must_not_contain :: "string option"
  hmp_body_must_contain_texts :: "(string list) option"
  hmp_body_must_not_contain_texts :: "(string list) option"
  hmp_json_path_exists :: "(string list) option"
  hmp_json_path_equals :: "(json_path_value_assertion list) option"
  hmp_json_path_not_equals :: "(json_path_value_assertion list) option"
  hmp_max_response_time_ms :: "int option"
  hmp_required_header_name :: "string option"
  hmp_required_header_value :: "string option"
  hmp_header_assertions :: "(http_header_assertion list) option"
  hmp_ssl_certificate_checks_enabled :: bool
  hmp_ssl_expiry_warning_days :: "int option"
  hmp_http_check_timeout_seconds_override :: "int option"
  hmp_http_check_max_attempts_override :: "int option"
  hmp_http_check_retry_delays_ms_override :: "(int list) option"
  hmp_is_active :: bool

record ssl_monitor_params =
  smp_target_url :: string
  smp_check_interval_seconds :: int
  smp_ssl_expiry_warning_days :: "int option"
  smp_http_check_timeout_seconds_override :: "int option"
  smp_http_check_max_attempts_override :: "int option"
  smp_http_check_retry_delays_ms_override :: "(int list) option"
  smp_is_active :: bool

record tcp_monitor_params =
  tmp_target_host :: string
  tmp_target_port :: int
  tmp_check_interval_seconds :: int
  tmp_max_connect_time_ms :: "int option"
  tmp_timeout_seconds_override :: "int option"
  tmp_max_attempts_override :: "int option"
  tmp_retry_delays_ms_override :: "(int list) option"
  tmp_is_active :: bool

record heartbeat_monitor_params =
  hbp_target_url :: string
  hbp_heartbeat_token :: string
  hbp_check_interval_seconds :: int
  hbp_heartbeat_grace_seconds :: "int option"
  hbp_is_active :: bool

record heartbeat_monitor_update_params =
  hbu_check_interval_seconds :: int
  hbu_heartbeat_grace_seconds :: "int option"
  hbu_is_active :: bool

record monitor_last_check_params =
  mlc_is_success :: bool
  mlc_status_code :: "int option"
  mlc_response_time_ms :: "int option"
  mlc_failure_reason :: "string option"
  mlc_error_message :: "string option"
  mlc_certificate_expires_at :: "timestamp option"
  mlc_certificate_days_remaining :: "int option"
  mlc_certificate_issuer :: "string option"
  mlc_certificate_subject :: "string option"
  mlc_certificate_domain :: "string option"

record dns_monitor_params =
  dmp_hostname :: string
  dmp_record_type :: string
  dmp_expected_value :: "string option"
  dmp_nameserver :: "string option"
  dmp_check_interval_seconds :: int
  dmp_timeout_seconds_override :: "int option"
  dmp_max_attempts_override :: "int option"
  dmp_retry_delays_ms_override :: "(int list) option"
  dmp_is_active :: bool

section \<open>Checks and incidents\<close>

record create_monitor_check_params =
  cmc_monitor_type :: site_monitor_type
  cmc_url_checked :: string
  cmc_expected_status_code :: "int option"
  cmc_is_success :: bool
  cmc_status_code :: "int option"
  cmc_response_time_ms :: "int option"
  cmc_total_duration_ms :: "int option"
  cmc_attempt_count :: int
  cmc_was_retried :: bool
  cmc_failure_reason :: "string option"
  cmc_error_message :: "string option"
  cmc_certificate_expires_at :: "timestamp option"
  cmc_certificate_days_remaining :: "int option"
  cmc_certificate_issuer :: "string option"
  cmc_certificate_subject :: "string option"
  cmc_certificate_domain :: "string option"

record site_monitor_check =
  smc_id :: id
  smc_site_monitor_id :: id
  smc_checked_at :: timestamp
  smc_monitor_type :: site_monitor_type
  smc_url_checked :: string
  smc_expected_status_code :: "int option"
  smc_is_success :: bool
  smc_status_code :: "int option"
  smc_response_time_ms :: "int option"
  smc_total_duration_ms :: "int option"
  smc_attempt_count :: int
  smc_was_retried :: bool
  smc_failure_reason :: "string option"
  smc_error_message :: "string option"
  smc_certificate_expires_at :: "timestamp option"
  smc_certificate_days_remaining :: "int option"
  smc_certificate_issuer :: "string option"
  smc_certificate_subject :: "string option"
  smc_certificate_domain :: "string option"

record check_cursor_query =
  ccq_cursor_checked_at :: "timestamp option"
  ccq_cursor_id :: "id option"
  ccq_is_success :: "bool option"
  ccq_limit :: int

record open_incident_params =
  oip_site_monitor_id :: id
  oip_monitor_type :: site_monitor_type
  oip_target_url :: string
  oip_expected_status_code :: int
  oip_check_id :: id
  oip_checked_at :: timestamp
  oip_status_code :: "int option"
  oip_failure_reason :: "string option"
  oip_error_message :: "string option"

record incident_failure_params =
  ifp_check_id :: id
  ifp_checked_at :: timestamp
  ifp_status_code :: "int option"
  ifp_failure_reason :: "string option"
  ifp_error_message :: "string option"

record resolve_incident_params =
  rip_check_id :: id
  rip_checked_at :: timestamp
  rip_status_code :: "int option"
  rip_response_time_ms :: "int option"

record site_monitor_incident =
  inc_id :: id
  inc_site_id :: id
  inc_site_monitor_id :: id
  inc_status :: incident_status
  inc_opened_at :: timestamp
  inc_resolved_at :: "timestamp option"
  inc_opened_check_id :: "id option"
  inc_resolved_check_id :: "id option"
  inc_last_check_id :: "id option"
  inc_monitor_type :: site_monitor_type
  inc_target_url :: string
  inc_expected_status_code :: int
  inc_opened_status_code :: "int option"
  inc_opened_failure_reason :: "string option"
  inc_opened_error_message :: "string option"
  inc_failure_count :: int
  inc_last_checked_at :: timestamp
  inc_last_status_code :: "int option"
  inc_last_failure_reason :: "string option"
  inc_last_error_message :: "string option"
  inc_resolved_reason :: "incident_resolved_reason option"
  inc_resolved_status_code :: "int option"
  inc_resolved_response_time_ms :: "int option"
  inc_downtime_seconds :: "int option"
  inc_acknowledged_at :: "timestamp option"
  inc_acknowledged_by :: "id option"
  inc_created_at :: timestamp
  inc_updated_at :: timestamp

record incident_cursor_query =
  icq_cursor_opened_at :: "timestamp option"
  icq_cursor_id :: "id option"
  icq_status :: "incident_status option"
  icq_limit :: int

section \<open>Notifications\<close>

record notification_channel_params =
  ncp_channel_type :: notification_channel_type
  ncp_name :: string
  ncp_destination :: string
  ncp_webhook_secret_ciphertext :: "string option"
  ncp_notify_on_failure :: bool
  ncp_notify_on_recovery :: bool
  ncp_is_active :: bool

record notification_channel =
  nc_id :: id
  nc_channel_type :: notification_channel_type
  nc_name :: string
  nc_destination :: string
  nc_webhook_secret_ciphertext :: "string option"
  nc_notify_on_failure :: bool
  nc_notify_on_recovery :: bool
  nc_is_active :: bool
  nc_created_at :: timestamp
  nc_updated_at :: timestamp

record effective_notification_channel =
  enc_id :: id
  enc_channel_type :: notification_channel_type
  enc_name :: string
  enc_destination :: string
  enc_webhook_secret_ciphertext :: "string option"
  enc_default_notify_on_failure :: bool
  enc_default_notify_on_recovery :: bool
  enc_default_is_active :: bool
  enc_notify_on_failure :: bool
  enc_notify_on_recovery :: bool
  enc_is_active :: bool
  enc_override_id :: "id option"
  enc_override_notify_on_failure :: "bool option"
  enc_override_notify_on_recovery :: "bool option"
  enc_override_is_active :: "bool option"

record channel_override_params =
  cop_notification_channel_id :: id
  cop_notify_on_failure :: "bool option"
  cop_notify_on_recovery :: "bool option"
  cop_is_active :: "bool option"

record channel_override =
  snco_id :: id
  snco_site_id :: id
  snco_notification_channel_id :: id
  snco_notify_on_failure :: "bool option"
  snco_notify_on_recovery :: "bool option"
  snco_is_active :: "bool option"
  snco_created_at :: timestamp
  snco_updated_at :: timestamp

record new_notification_delivery =
  nnd_notification_channel_id :: id
  nnd_site_monitor_id :: id
  nnd_site_monitor_check_id :: id
  nnd_incident_id :: "id option"
  nnd_event_type :: notification_event_type
  nnd_payload :: json

record notification_delivery =
  nd_id :: id
  nd_notification_channel_id :: id
  nd_site_monitor_id :: id
  nd_site_monitor_check_id :: id
  nd_incident_id :: "id option"
  nd_event_type :: notification_event_type
  nd_payload :: json
  nd_status :: delivery_status
  nd_attempts :: int
  nd_next_attempt_at :: "timestamp option"
  nd_claimed_at :: "timestamp option"
  nd_lease_until :: "timestamp option"
  nd_claimed_by :: "string option"
  nd_delivered_at :: "timestamp option"
  nd_last_error :: "string option"
  nd_created_at :: timestamp
  nd_updated_at :: timestamp

record claimed_notification_delivery =
  cnd_id :: id
  cnd_notification_channel_id :: id
  cnd_site_monitor_id :: id
  cnd_site_monitor_check_id :: id
  cnd_incident_id :: "id option"
  cnd_event_type :: notification_event_type
  cnd_payload :: json
  cnd_status :: delivery_status
  cnd_attempts :: int
  cnd_channel_type :: notification_channel_type
  cnd_channel_name :: string
  cnd_destination :: string
  cnd_webhook_secret_ciphertext :: "string option"

record site_notification_delivery =
  snd_id :: id
  snd_notification_channel_id :: id
  snd_site_monitor_id :: id
  snd_site_monitor_check_id :: id
  snd_incident_id :: "id option"
  snd_event_type :: notification_event_type
  snd_payload :: json
  snd_status :: delivery_status
  snd_attempts :: int
  snd_next_attempt_at :: "timestamp option"
  snd_claimed_at :: "timestamp option"
  snd_lease_until :: "timestamp option"
  snd_claimed_by :: "string option"
  snd_delivered_at :: "timestamp option"
  snd_last_error :: "string option"
  snd_created_at :: timestamp
  snd_updated_at :: timestamp
  snd_channel_type :: notification_channel_type
  snd_channel_name :: string
  snd_destination :: string

record delivery_cursor_query =
  dcq_cursor_created_at :: "timestamp option"
  dcq_cursor_id :: "id option"
  dcq_status :: "delivery_status option"
  dcq_event_type :: "notification_event_type option"
  dcq_limit :: int

record site_status_page =
  ssp_id :: id
  ssp_site_id :: id
  ssp_is_enabled :: bool
  ssp_slug :: string
  ssp_page_title :: "string option"
  ssp_show_monitor_details :: bool
  ssp_show_uptime_percentages :: bool
  ssp_created_at :: timestamp
  ssp_updated_at :: timestamp

section \<open>The database\<close>

record db =
  db_sites :: "site list"
  db_monitors :: "site_monitor list"
  db_checks :: "site_monitor_check list"
  db_incidents :: "site_monitor_incident list"
  db_channels :: "notification_channel list"
  db_overrides :: "channel_override list"
  db_deliveries :: "notification_delivery list"
  db_next_site :: id
  db_next_monitor :: id
  db_next_check :: id
  db_next_incident :: id
  db_next_channel :: id
  db_next_override :: id
  db_next_delivery :: id
  db_status_pages :: "site_status_page list"
  db_next_status_page :: id

definition empty_db :: db where
  "empty_db =
     \<lparr>db_sites = [], db_monitors = [], db_checks = [], db_incidents = [], db_channels = [],
      db_overrides = [], db_deliveries = [], db_next_site = 1, db_next_monitor = 1,
      db_next_check = 1, db_next_incident = 1, db_next_channel = 1, db_next_override = 1,
      db_next_delivery = 1, db_status_pages = [], db_next_status_page = 1\<rparr>"

text \<open>Lookups by primary key.\<close>

definition find_site :: "id \<Rightarrow> db \<Rightarrow> site option" where
  "find_site i d = find (\<lambda>s. s_id s = i) (db_sites d)"

definition find_monitor :: "id \<Rightarrow> db \<Rightarrow> site_monitor option" where
  "find_monitor i d = find (\<lambda>m. sm_id m = i) (db_monitors d)"

definition find_channel :: "id \<Rightarrow> db \<Rightarrow> notification_channel option" where
  "find_channel i d = find (\<lambda>c. nc_id c = i) (db_channels d)"

end
