(* ===== verification/Check_Result.thy ===== *)
theory Check_Result
  imports Domain_Model
begin

text \<open>
  What a checker reports (\<open>CheckResult\<close> and \<open>CertificateMetadata\<close> of
  \<^verbatim>\<open>src/monitoring/http_checker.rs\<close>), shared by every checker and the worker.
\<close>

record certificate_metadata =
  cert_expires_at :: timestamp
  cert_days_remaining :: int
  cert_issuer :: string
  cert_subject :: string
  cert_domain :: string

record check_result =
  cr_is_success :: bool
  cr_status_code :: "int option"
  cr_response_time_ms :: "int option"
  cr_failure_reason :: "string option"
  cr_error_message :: "string option"
  cr_certificate_metadata :: "certificate_metadata option"

text \<open>A failure before any response: the reason, the message and the certificate seen, if any.\<close>

definition failed_check :: "int option \<Rightarrow> string \<Rightarrow> string \<Rightarrow> certificate_metadata option \<Rightarrow> check_result" where
  "failed_check response_time_ms reason message cert =
     \<lparr>cr_is_success = False, cr_status_code = None, cr_response_time_ms = response_time_ms,
      cr_failure_reason = Some reason, cr_error_message = Some message,
      cr_certificate_metadata = cert\<rparr>"

text \<open>A result is well formed when it names a reason and a message exactly when it is a failure.\<close>

definition result_wf :: "check_result \<Rightarrow> bool" where
  "result_wf r \<longleftrightarrow>
     (cr_failure_reason r = None \<longleftrightarrow> cr_is_success r) \<and> (cr_error_message r = None \<longleftrightarrow> cr_is_success r)"

lemma failed_check_wf [simp]: "result_wf (failed_check t reason message cert)"
  by (simp add: result_wf_def failed_check_def)

lemma failed_check_sel [simp]:
  "\<not> cr_is_success (failed_check t reason message cert)"
  "cr_failure_reason (failed_check t reason message cert) = Some reason"
  "cr_error_message (failed_check t reason message cert) = Some message"
  "cr_certificate_metadata (failed_check t reason message cert) = cert"
  "cr_response_time_ms (failed_check t reason message cert) = t"
  by (simp_all add: failed_check_def)

text \<open>A monitor, for the examples.\<close>

definition sample_monitor :: site_monitor where
  "sample_monitor =
     \<lparr>sm_id = 1, sm_site_id = 1, sm_monitor_type = Http, sm_target_url = ''https://a.test'',
      sm_check_interval_seconds = 300, sm_expected_status_code = 200, sm_body_must_contain = None,
      sm_body_must_not_contain = None, sm_body_must_contain_texts = None,
      sm_body_must_not_contain_texts = None, sm_json_path_exists = None,
      sm_json_path_equals = None, sm_json_path_not_equals = None, sm_max_response_time_ms = None,
      sm_required_header_name = None, sm_required_header_value = None,
      sm_header_assertions = None, sm_ssl_certificate_checks_enabled = False,
      sm_ssl_expiry_warning_days = None, sm_tcp_target_host = None, sm_tcp_target_port = None,
      sm_dns_hostname = None, sm_dns_record_type = None, sm_dns_expected_value = None,
      sm_dns_nameserver = None, sm_heartbeat_token = None, sm_heartbeat_grace_seconds = None,
      sm_http_check_timeout_seconds_override = Some (- 5),
      sm_http_check_max_attempts_override = Some 4,
      sm_http_check_retry_delays_ms_override = Some [0, - 1], sm_is_active = True,
      sm_check_claimed_at = None, sm_check_lease_until = None, sm_check_claimed_by = None,
      sm_last_checked_at = None, sm_last_successful_check_at = None, sm_last_is_success = None,
      sm_last_status_code = None, sm_last_response_time_ms = None, sm_last_failure_reason = None,
      sm_last_error_message = None, sm_last_heartbeat_received_at = None,
      sm_last_certificate_expires_at = None, sm_last_certificate_days_remaining = None,
      sm_last_certificate_issuer = None, sm_last_certificate_subject = None,
      sm_last_certificate_domain = None, sm_created_at = 0, sm_updated_at = 0\<rparr>"

end
