(* ===== verification/Check_Policy.thy ===== *)
theory Check_Policy
  imports Config_Env Check_Result
begin

text \<open>
  The policy half of \<^verbatim>\<open>src/worker/site_worker.rs\<close>: how a monitor's overrides and the configuration
  resolve to timeout, attempts and delays, the jitter of a delay, and the lease that must cover the
  whole retry budget.
\<close>

section \<open>The resolved policy\<close>

record check_policy =
  pol_timeout :: duration
  pol_max_attempts :: nat
  pol_retry_delays_ms :: "nat list"
  pol_retry_jitter_percent :: nat
  pol_max_response_body_bytes :: nat
  pol_allow_private_targets :: bool

definition positive_override :: "int option \<Rightarrow> nat option" where
  "positive_override v = option_filter (\<lambda>n. 0 < n) (Option.bind v try_from_unsigned)"

definition positive_delays :: "int list \<Rightarrow> nat list" where
  "positive_delays values = filter (\<lambda>n. 0 < n) (List.map_filter try_from_unsigned values)"

definition resolve_monitor_check_policy :: "site_monitor \<Rightarrow> 'k config \<Rightarrow> check_policy" where
  "resolve_monitor_check_policy m c =
     (let timeout_seconds = unwrap_or (positive_override (sm_http_check_timeout_seconds_override m))
                              (cfg_http_check_timeout_seconds c);
          max_attempts = unwrap_or (positive_override (sm_http_check_max_attempts_override m))
                           (cfg_http_check_max_attempts c);
          retry_delays_ms =
            unwrap_or (option_filter (\<lambda>v. v \<noteq> [])
                         (map_option positive_delays (sm_http_check_retry_delays_ms_override m)))
              (cfg_http_check_retry_delays_ms c)
      in \<lparr>pol_timeout = from_secs timeout_seconds, pol_max_attempts = max_attempts,
          pol_retry_delays_ms = retry_delays_ms,
          pol_retry_jitter_percent = cfg_http_check_retry_jitter_percent c,
          pol_max_response_body_bytes = cfg_http_check_max_response_body_bytes c,
          pol_allow_private_targets = cfg_http_monitor_allow_private_targets c\<rparr>)"

text \<open>The delay after an attempt: its own entry, or else the last one.\<close>

definition base_retry_delay_for_attempt :: "check_policy \<Rightarrow> nat \<Rightarrow> duration option" where
  "base_retry_delay_for_attempt p i =
     (let ds = pol_retry_delays_ms p in
      map_option from_millis
        (if i < length ds then Some (ds ! i) else if ds = [] then None else Some (last ds)))"

definition jitter_window_ms :: "nat \<Rightarrow> nat \<Rightarrow> nat" where
  "jitter_window_ms base_delay_ms jitter_percent =
     as_u64 (min (base_delay_ms * jitter_percent div 100) u64_max)"

text \<open>\<open>rng lo hi\<close> is the number \<open>random_range(lo..=hi)\<close> returns.\<close>

definition jitter_retry_delay :: "(nat \<Rightarrow> nat \<Rightarrow> nat) \<Rightarrow> duration \<Rightarrow> nat \<Rightarrow> duration" where
  "jitter_retry_delay rng base_delay jitter_percent =
     (if jitter_percent = 0 then base_delay
      else
        let base_delay_ms = as_u64 (as_millis base_delay);
            window = jitter_window_ms base_delay_ms jitter_percent
        in if window = 0 then base_delay
           else from_millis (rng (sat_sub_u64 base_delay_ms window) (sat_add_u64 base_delay_ms window)))"

definition worst_case_retry_delay :: "duration \<Rightarrow> nat \<Rightarrow> duration" where
  "worst_case_retry_delay base_delay jitter_percent =
     (if jitter_percent = 0 then base_delay
      else
        let base_delay_ms = as_u64 (as_millis base_delay)
        in from_millis (sat_add_u64 base_delay_ms (jitter_window_ms base_delay_ms jitter_percent)))"

definition retry_delay_for_attempt :: "(nat \<Rightarrow> nat \<Rightarrow> nat) \<Rightarrow> check_policy \<Rightarrow> nat \<Rightarrow> duration option" where
  "retry_delay_for_attempt rng p i =
     map_option (\<lambda>d. jitter_retry_delay rng d (pol_retry_jitter_percent p))
       (base_retry_delay_for_attempt p i)"

section \<open>The lease plan\<close>

record lease_plan =
  lp_initial_lease :: duration
  lp_heartbeat_interval :: duration

definition estimated_retry_delay :: "check_policy \<Rightarrow> duration" where
  "estimated_retry_delay p =
     foldl dur_sat_add 0
       (map (\<lambda>d. worst_case_retry_delay d (pol_retry_jitter_percent p))
          (List.map_filter (base_retry_delay_for_attempt p)
             [0..<sat_sub_u64 (pol_max_attempts p) 1]))"

definition derive_site_monitor_lease_plan :: "check_policy \<Rightarrow> nat \<Rightarrow> lease_plan" where
  "derive_site_monitor_lease_plan p minimum_lease_seconds =
     (let estimated_attempt_time = dur_sat_mul (pol_timeout p) (as_u32 (pol_max_attempts p));
          safety_buffer = max (dur_div (pol_timeout p) 2) (from_secs 2);
          derived_lease = dur_sat_add (dur_sat_add estimated_attempt_time (estimated_retry_delay p))
                            safety_buffer;
          initial_lease = max derived_lease (from_secs minimum_lease_seconds)
      in \<lparr>lp_initial_lease = initial_lease,
          lp_heartbeat_interval = max (dur_div initial_lease 3) (from_secs 1)\<rparr>)"

text \<open>Whole seconds, rounded up, at least one.\<close>

definition duration_to_lease_seconds :: "duration \<Rightarrow> int" where
  "duration_to_lease_seconds d =
     as_i64 (int (max (sat_add_u64 (as_secs d) (if subsec_nanos d > 0 then 1 else 0)) 1))"

definition sample_policy :: check_policy where
  "sample_policy =
     \<lparr>pol_timeout = from_secs 10, pol_max_attempts = 3, pol_retry_delays_ms = [1000, 3000],
      pol_retry_jitter_percent = 20, pol_max_response_body_bytes = 65536,
      pol_allow_private_targets = False\<rparr>"

section \<open>Properties of the policy and the lease\<close>

text \<open>
  Whatever a monitor's overrides hold, the resolved policy of a valid configuration allows at
  least one attempt, has a positive timeout and only positive retry delays, and an override takes
  effect exactly when it is positive.
\<close>

theorem resolved_policy_is_usable:
  assumes "config_valid c"
  shows "let p = resolve_monitor_check_policy m c in
    0 < pol_max_attempts p \<and> from_secs 1 \<le> pol_timeout p \<and>
    (\<forall>d \<in> set (pol_retry_delays_ms p). 0 < d) \<and>
    pol_max_attempts p =
      (case sm_http_check_max_attempts_override m of
         Some n \<Rightarrow> if 0 < n then nat n else cfg_http_check_max_attempts c
       | None \<Rightarrow> cfg_http_check_max_attempts c) \<and>
    pol_timeout p = from_secs
      (case sm_http_check_timeout_seconds_override m of
         Some n \<Rightarrow> if 0 < n then nat n else cfg_http_check_timeout_seconds c
       | None \<Rightarrow> cfg_http_check_timeout_seconds c)"
proof -
  have ov: "unwrap_or (positive_override v) d = (case v of Some n \<Rightarrow> if 0 < n then nat n else d | None \<Rightarrow> d)"
    for v d
    by (auto simp: positive_override_def try_from_unsigned_def split: option.splits)
  have "\<forall>d \<in> set (pol_retry_delays_ms (resolve_monitor_check_policy m c)). 0 < d"
    using assms
    by (auto simp: resolve_monitor_check_policy_def Let_def config_valid_def positive_delays_def
        option_filter_def split: option.splits if_splits)
  moreover have "0 < (case v of Some n \<Rightarrow> if 0 < n then nat n else d | None \<Rightarrow> d)" if "0 < d" for v d
    using that by (simp split: option.splits)
  moreover have "from_secs 1 \<le> from_secs n" if "0 < n" for n
    using that by (simp add: from_secs_def)
  moreover have "0 < cfg_http_check_max_attempts c" "0 < cfg_http_check_timeout_seconds c"
    using assms by (simp_all add: config_valid_def)
  ultimately show ?thesis
    by (simp add: resolve_monitor_check_policy_def Let_def ov)
qed

theorem resolved_policy_is_usable_witness:
  "\<exists>c. from_env_getter (\<lambda>_. Inr ()) sample_env = Inr c \<and>
     pol_max_attempts (resolve_monitor_check_policy sample_monitor c) = 4 \<and>
     from_secs 1 \<le> pol_timeout (resolve_monitor_check_policy sample_monitor c)"
proof -
  obtain c where c: "from_env_getter (\<lambda>_. Inr ()) sample_env = Inr c"
    using sample_env_loads by blast
  have "pol_max_attempts (resolve_monitor_check_policy sample_monitor c) = 4 \<and>
     from_secs 1 \<le> pol_timeout (resolve_monitor_check_policy sample_monitor c)"
    using resolved_policy_is_usable [OF from_env_getter_valid [OF c], of sample_monitor]
    by (simp add: Let_def sample_monitor_def)
  with c show ?thesis by blast
qed

lemma foldl_dur_sat_add: "foldl dur_sat_add (min a duration_max) xs = min (a + sum_list xs) duration_max"
proof (induction xs arbitrary: a)
  case Nil
  then show ?case by simp
next
  case (Cons x xs)
  have "dur_sat_add (min a duration_max) x = min (a + x) duration_max"
    by (simp add: dur_sat_add_def min_def)
  then show ?case
    using Cons [of "a + x"] by (simp add: add.assoc)
qed

lemma as_u64_le: "as_u64 n \<le> n"
  by (simp add: as_u64_mod)

lemma jitter_window_bound: "jitter_window_ms b j \<le> u64_max"
  using as_u64_le [of "min (b * j div 100) u64_max"] unfolding jitter_window_ms_def by linarith

text \<open>The random delay lies in the jitter window around its base, and below the worst case.\<close>

lemma jitter_le_worst_case:
  assumes "\<And>lo hi. lo \<le> hi \<Longrightarrow> lo \<le> rng lo hi \<and> rng lo hi \<le> hi" "ms \<le> u64_max"
  shows "jitter_retry_delay rng (from_millis ms) j \<le> worst_case_retry_delay (from_millis ms) j"
    and "from_millis (ms - jitter_window_ms ms j) \<le> jitter_retry_delay rng (from_millis ms) j"
proof -
  let ?w = "jitter_window_ms ms j"
  have ms: "as_u64 ms = ms"
    using assms(2) by (simp add: as_u64_small)
  have "ms - ?w \<le> sat_add_u64 ms ?w"
    using assms(2) diff_le_self [of ms ?w] unfolding sat_add_u64_def by linarith
  then have r: "ms - ?w \<le> rng (ms - ?w) (sat_add_u64 ms ?w)"
    "rng (ms - ?w) (sat_add_u64 ms ?w) \<le> sat_add_u64 ms ?w"
    using assms(1) by blast+
  have mono: "a \<le> b \<Longrightarrow> from_millis a \<le> from_millis b" for a b
    by (simp add: from_millis_def)
  have le: "ms \<le> sat_add_u64 ms ?w"
    using assms(2) by (simp add: sat_add_u64_def)
  have le0: "ms \<le> sat_add_u64 ms 0"
    using assms(2) by (simp add: sat_add_u64_def)
  show "jitter_retry_delay rng (from_millis ms) j \<le> worst_case_retry_delay (from_millis ms) j"
    using r(2) mono [OF le] mono [OF r(2)] mono [OF le0]
    by (simp add: jitter_retry_delay_def worst_case_retry_delay_def Let_def ms sat_sub_u64_def)
  show "from_millis (ms - ?w) \<le> jitter_retry_delay rng (from_millis ms) j"
    using mono [OF r(1)]
    by (simp add: jitter_retry_delay_def Let_def ms sat_sub_u64_def mono)
qed

text \<open>The time a delay really takes, and the sum over the retries of one run.\<close>

definition actual_retry_delay :: "(nat \<Rightarrow> nat \<Rightarrow> nat) \<Rightarrow> check_policy \<Rightarrow> nat \<Rightarrow> duration" where
  "actual_retry_delay rng p i = unwrap_or (retry_delay_for_attempt rng p i) 0"

definition rng_in_range :: "(nat \<Rightarrow> nat \<Rightarrow> nat) \<Rightarrow> bool" where
  "rng_in_range rng \<longleftrightarrow> (\<forall>lo hi. lo \<le> hi \<longrightarrow> lo \<le> rng lo hi \<and> rng lo hi \<le> hi)"

lemma base_delay_bound:
  assumes "\<forall>d \<in> set (pol_retry_delays_ms p). d \<le> u64_max" "base_retry_delay_for_attempt p i = Some d"
  shows "\<exists>ms \<le> u64_max. d = from_millis ms"
  using assms by (auto simp: base_retry_delay_for_attempt_def Let_def split: if_splits)

lemma sum_actual_delays_le:
  assumes "rng_in_range rng" "\<forall>d \<in> set (pol_retry_delays_ms p). d \<le> u64_max"
  shows "(\<Sum>i\<leftarrow>xs. actual_retry_delay rng p i) \<le>
    sum_list (map (\<lambda>d. worst_case_retry_delay d (pol_retry_jitter_percent p))
      (List.map_filter (base_retry_delay_for_attempt p) xs))"
proof (induction xs)
  case Nil
  then show ?case by (simp add: List.map_filter_def)
next
  case (Cons i xs)
  show ?case
  proof (cases "base_retry_delay_for_attempt p i")
    case None
    with Cons show ?thesis
      by (simp add: actual_retry_delay_def retry_delay_for_attempt_def List.map_filter_simps)
  next
    case (Some d)
    then obtain ms where "ms \<le> u64_max" "d = from_millis ms"
      using base_delay_bound [OF assms(2)] by blast
    then have "actual_retry_delay rng p i \<le> worst_case_retry_delay d (pol_retry_jitter_percent p)"
      using jitter_le_worst_case(1) [of rng ms] assms(1) Some
      by (simp add: actual_retry_delay_def retry_delay_for_attempt_def rng_in_range_def)
    with Cons Some show ?thesis
      by (simp add: List.map_filter_simps)
  qed
qed

lemma estimated_retry_delay_eq:
  "estimated_retry_delay p = min (sum_list (map (\<lambda>d. worst_case_retry_delay d (pol_retry_jitter_percent p))
      (List.map_filter (base_retry_delay_for_attempt p) [0..<pol_max_attempts p - 1]))) duration_max"
  using foldl_dur_sat_add [of 0] by (simp add: estimated_retry_delay_def sat_sub_u64_def)

lemma min_budget_le:
  fixes a :: nat
  assumes "b \<le> w" "s \<le> x"
  shows "min (a + b + s) D \<le> min (min (min a D + min w D) D + x) D"
proof -
  consider "D \<le> a" | "D \<le> w" | "a \<le> D" "w \<le> D" by linarith
  then show ?thesis
    using assms by cases auto
qed

text \<open>
  C4: the lease a worker takes before it starts covers the whole retry budget: every allowed
  attempt at its full timeout, every delay between them with the worst jitter that can be drawn,
  and two seconds to save the result (up to the largest \<open>Duration\<close>); and it is at least the
  configured lease. The heartbeat renews it before half of it has run out. The budget is
  computed with \<open>max_attempts as u32\<close>, so this is for fewer than \<open>2^32\<close> attempts.
\<close>

theorem lease_covers_retry_budget:
  assumes "rng_in_range rng" "\<forall>d \<in> set (pol_retry_delays_ms p). d \<le> u64_max"
    and "pol_max_attempts p < 2 ^ 32"
  shows "let plan = derive_site_monitor_lease_plan p minimum_lease_seconds in
    min (pol_timeout p * pol_max_attempts p +
         (\<Sum>i\<leftarrow>[0..<pol_max_attempts p - 1]. actual_retry_delay rng p i) + from_secs 2) duration_max
      \<le> lp_initial_lease plan \<and>
    from_secs minimum_lease_seconds \<le> lp_initial_lease plan \<and>
    (from_secs 2 \<le> lp_initial_lease plan \<longrightarrow>
       2 * lp_heartbeat_interval plan \<le> lp_initial_lease plan)"
proof -
  let ?worst = "sum_list (map (\<lambda>d. worst_case_retry_delay d (pol_retry_jitter_percent p))
      (List.map_filter (base_retry_delay_for_attempt p) [0..<pol_max_attempts p - 1]))"
  let ?actual = "\<Sum>i\<leftarrow>[0..<pol_max_attempts p - 1]. actual_retry_delay rng p i"
  have le: "?actual \<le> ?worst"
    by (rule sum_actual_delays_le [OF assms(1,2)])
  have as: "as_u32 (pol_max_attempts p) = pol_max_attempts p"
    by (rule as_u32_small [OF assms(3)])
  have "min (pol_timeout p * pol_max_attempts p + ?actual + from_secs 2) duration_max \<le>
      dur_sat_add (dur_sat_add (dur_sat_mul (pol_timeout p) (as_u32 (pol_max_attempts p)))
        (estimated_retry_delay p)) (max (dur_div (pol_timeout p) 2) (from_secs 2))"
    unfolding as estimated_retry_delay_eq dur_sat_add_def dur_sat_mul_def
    by (rule min_budget_le [OF le]) simp
  then have cover: "min (pol_timeout p * pol_max_attempts p + ?actual + from_secs 2) duration_max \<le>
      lp_initial_lease (derive_site_monitor_lease_plan p minimum_lease_seconds)"
    unfolding derive_site_monitor_lease_plan_def Let_def by (simp add: le_max_iff_disj)
  have "2 * max (l div 3) s \<le> l" if "2 * s \<le> l" for l s :: nat
    using that by (cases "s \<le> l div 3") simp_all
  moreover have "from_secs 2 = 2 * from_secs 1"
    by (simp add: from_secs_def)
  ultimately have beat: "from_secs 2 \<le> l \<Longrightarrow> 2 * max (l div 3) (from_secs 1) \<le> l" for l
    by simp
  show ?thesis
    unfolding Let_def
    using cover beat by (intro conjI impI) (simp_all add: derive_site_monitor_lease_plan_def Let_def dur_div_def)
qed

theorem lease_covers_retry_budget_witness:
  "min (pol_timeout sample_policy * pol_max_attempts sample_policy +
         (\<Sum>i\<leftarrow>[0..<pol_max_attempts sample_policy - 1]. actual_retry_delay (\<lambda>lo hi. hi) sample_policy i) +
         from_secs 2) duration_max
     \<le> lp_initial_lease (derive_site_monitor_lease_plan sample_policy 60)"
proof -
  have "rng_in_range (\<lambda>lo hi. hi)" "pol_max_attempts sample_policy < 2 ^ 32"
    "\<forall>d \<in> set (pol_retry_delays_ms sample_policy). d \<le> u64_max"
    by (simp_all add: rng_in_range_def sample_policy_def u64_max_def)
  from lease_covers_retry_budget [OF this(1,3,2), of 60] show ?thesis
    by (simp add: Let_def)
qed

text \<open>
  A lease in whole seconds is never shorter than the duration it stands for and longer by less
  than a second (one second at least), for every duration below \<open>2^63 - 1\<close> seconds.
\<close>

theorem lease_seconds_round_up:
  assumes "d \<le> from_secs (2 ^ 63 - 2)"
  shows "int d \<le> duration_to_lease_seconds d * 1000000000 \<and> 1 \<le> duration_to_lease_seconds d \<and>
    (0 < d \<longrightarrow> duration_to_lease_seconds d * 1000000000 < int d + 1000000000)"
proof -
  let ?s = "d div 1000000000 + (if d mod 1000000000 > 0 then 1 else 0)"
  have bound: "?s \<le> 2 ^ 63 - 1"
    using assms div_le_mono [OF assms, of 1000000000] by (simp add: from_secs_def)
  have "sat_add_u64 (as_secs d) (if subsec_nanos d > 0 then 1 else 0) = ?s"
    using bound unfolding sat_add_u64_def as_secs_def subsec_nanos_def u64_max_def by simp
  then have eq: "duration_to_lease_seconds d = int (max ?s 1)"
    unfolding duration_to_lease_seconds_def using bound by (simp add: as_i64_small)
  have d: "d = d div 1000000000 * 1000000000 + d mod 1000000000" "d mod 1000000000 < 1000000000"
    by simp_all
  have "n \<le> max (q + (if r > 0 then 1 else 0)) 1 * 1000000000 \<and>
      (0 < n \<longrightarrow> max (q + (if r > 0 then 1 else 0)) 1 * 1000000000 < n + 1000000000)"
    if "n = q * 1000000000 + r" "r < 1000000000" for n q r :: nat
    using that by (cases "r = 0"; cases "q = 0") auto
  from this [OF d]
  have "d \<le> max ?s 1 * 1000000000" "0 < d \<longrightarrow> max ?s 1 * 1000000000 < d + 1000000000"
    by simp_all
  then show ?thesis
    unfolding eq by (auto simp flip: of_nat_mult of_nat_add of_nat_less_iff)
qed

theorem lease_seconds_round_up_witness:
  "int (from_millis 1500) \<le> duration_to_lease_seconds (from_millis 1500) * 1000000000"
  using lease_seconds_round_up [of "from_millis 1500"] by (simp add: from_millis_def from_secs_def)

end
