(* ===== verification/Json_Path.thy ===== *)
theory Json_Path
  imports Json_Value
begin

text \<open>
  The JSON path language of \<^verbatim>\<open>src/monitoring/http_checker.rs\<close>: the character-level parser and the
  resolution of a path in a value. The parser is the source's loop over a peekable iterator: its
  state is the rest of the characters, the tokens so far, the field being read and the flag
  \<open>just_closed_index\<close>.
\<close>

datatype json_path_token = Field string | Index nat

definition invalid_path :: "string \<Rightarrow> string" where
  "invalid_path trimmed = ''Invalid JSON path: '' @ trimmed"

text \<open>The inner loop of \<open>[\<close>: digits up to \<open>]\<close>; anything else, or the end, is an error.\<close>

fun read_index :: "string \<Rightarrow> string \<Rightarrow> (string \<times> string) option" where
  "read_index index [] = None"
| "read_index index (c # cs) =
     (if c = CHR '']'' then Some (index, cs)
      else if is_ascii_digit c then read_index (index @ [c]) cs
      else None)"

lemma read_index_shorter: "read_index index cs = Some (i, rest) \<Longrightarrow> length rest < length cs"
  by (induction index cs rule: read_index.induct) (auto split: if_splits)

text \<open>Pushing the field that has been read, if any (\<open>mem::take\<close> empties it).\<close>

definition push_field :: "string \<Rightarrow> json_path_token list \<Rightarrow> json_path_token list" where
  "push_field f ts = (if f = [] then ts else ts @ [Field f])"

function path_loop ::
  "string \<Rightarrow> string \<Rightarrow> json_path_token list \<Rightarrow> string \<Rightarrow> bool \<Rightarrow> string + json_path_token list" where
  "path_loop trimmed [] tokens current_field just_closed_index =
     (let tokens = push_field current_field tokens
      in if tokens = [] then Inl (invalid_path trimmed) else Inr tokens)"
| "path_loop trimmed (c # cs) tokens current_field just_closed_index =
     (if c = CHR ''.'' then
        if current_field \<noteq> [] then path_loop trimmed cs (tokens @ [Field current_field]) [] False
        else if just_closed_index then path_loop trimmed cs tokens [] False
        else Inl (invalid_path trimmed)
      else if c = CHR ''['' then
        (case read_index [] cs of
           None \<Rightarrow> Inl (invalid_path trimmed)
         | Some (index, rest) \<Rightarrow>
             (case parse_unsigned u64_max index of
                None \<Rightarrow> Inl (invalid_path trimmed)
              | Some n \<Rightarrow> path_loop trimmed rest (push_field current_field tokens @ [Index n]) [] True))
      else path_loop trimmed cs tokens (current_field @ [c]) False)"
  by pat_completeness auto

termination
  by (relation "measure (\<lambda>(_, cs, _, _, _). length cs)")
    (auto dest: read_index_shorter intro: less_SucI)

definition skip_root :: "string \<Rightarrow> string" where
  "skip_root s =
     (case s of
        c # cs \<Rightarrow>
          if c = CHR ''$'' then (case cs of d # ds \<Rightarrow> if d = CHR ''.'' then ds else cs | [] \<Rightarrow> [])
          else s
      | [] \<Rightarrow> [])"

definition parse_json_path :: "string \<Rightarrow> string + json_path_token list" where
  "parse_json_path path =
     (let trimmed = trim path in
      if trimmed = [] then Inl ''JSON path must not be blank''
      else path_loop trimmed (skip_root trimmed) [] [] False)"

text \<open>Following the tokens; \<open>None\<close> when a field or an element is missing.\<close>

fun follow_path :: "json \<Rightarrow> json_path_token list \<Rightarrow> json option" where
  "follow_path current [] = Some current"
| "follow_path current (Field f # ts) =
     (case current of
        JObject entries \<Rightarrow> (case map_of entries f of Some next \<Rightarrow> follow_path next ts | None \<Rightarrow> None)
      | _ \<Rightarrow> None)"
| "follow_path current (Index i # ts) =
     (case current of
        JArray items \<Rightarrow> (if i < length items then follow_path (items ! i) ts else None)
      | _ \<Rightarrow> None)"

definition resolve_json_path :: "json \<Rightarrow> string \<Rightarrow> string + json option" where
  "resolve_json_path v path = and_then (parse_json_path path) (\<lambda>ts. Inr (follow_path v ts))"

section \<open>Printing a path\<close>

text \<open>The canonical text of a path: \<open>$\<close>, then \<open>.field\<close> and \<open>[index]\<close>.\<close>

fun show_token :: "json_path_token \<Rightarrow> string" where
  "show_token (Field f) = CHR ''.'' # f"
| "show_token (Index n) = CHR ''['' # show_nat n @ '']''"

definition show_path :: "json_path_token list \<Rightarrow> string" where
  "show_path ts = CHR ''$'' # concat (map show_token ts)"

fun token_ok :: "json_path_token \<Rightarrow> bool" where
  "token_ok (Field f) \<longleftrightarrow> f \<noteq> [] \<and> CHR ''.'' \<notin> set f \<and> CHR ''['' \<notin> set f \<and> list_all (\<lambda>c. \<not> is_whitespace c) f"
| "token_ok (Index n) \<longleftrightarrow> n \<le> u64_max"

lemma read_index_digits:
  "list_all is_ascii_digit ds \<Longrightarrow> read_index acc (ds @ CHR '']'' # rest) = Some (acc @ ds, rest)"
proof (induction ds arbitrary: acc)
  case (Cons d ds)
  moreover have "d \<noteq> CHR '']''"
    using Cons.prems by (auto simp: is_ascii_digit_def char_code_def)
  ultimately show ?case by simp
qed simp

lemma path_loop_field:
  assumes "CHR ''.'' \<notin> set f" "CHR ''['' \<notin> set f"
  shows "path_loop trimmed (f @ rest) ts cur b = path_loop trimmed rest ts (cur @ f) (if f = [] then b else False)"
  using assms
proof (induction f arbitrary: cur b)
  case (Cons a f)
  then have "a \<noteq> CHR ''.''" "a \<noteq> CHR ''[''"
    by auto
  with Cons show ?case by simp
qed simp

lemma path_loop_index:
  assumes "n \<le> u64_max"
  shows "path_loop trimmed (show_token (Index n) @ rest) ts cur b =
    path_loop trimmed rest (push_field cur ts @ [Index n]) [] True"
  using assms by (simp add: read_index_digits show_nat_digits parse_unsigned_show_nat)

text \<open>The state the loop is in after the text of some tokens: the last field is still being read.\<close>

lemma path_loop_tokens:
  assumes "list_all token_ok ts" "cur \<noteq> [] \<or> b"
  shows "path_loop trimmed (concat (map show_token ts)) acc cur b =
    (let all = push_field cur acc @ ts in if all = [] then Inl (invalid_path trimmed) else Inr all)"
  using assms
proof (induction ts arbitrary: cur b acc)
  case Nil
  then show ?case by simp
next
  case (Cons t ts)
  show ?case
  proof (cases t)
    case (Field f)
    have "path_loop trimmed (concat (map show_token (t # ts))) acc cur b =
        path_loop trimmed (f @ concat (map show_token ts)) (push_field cur acc) [] False"
      using Cons.prems(2) Field by (auto simp: push_field_def)
    also have "\<dots> = path_loop trimmed (concat (map show_token ts)) (push_field cur acc) f False"
      using Cons.prems(1) Field by (simp add: path_loop_field)
    finally show ?thesis
      using Cons.IH [of f False] Cons.prems(1) Field by (simp add: push_field_def)
  next
    case (Index n)
    have "path_loop trimmed (concat (map show_token (t # ts))) acc cur b =
        path_loop trimmed (concat (map show_token ts)) (push_field cur acc @ [Index n]) [] True"
      using Cons.prems(1) Index path_loop_index by simp
    then show ?thesis
      using Cons.IH [of "[]" True] Cons.prems(1) Index by (simp add: push_field_def)
  qed
qed

lemma show_nat_no_ws: "list_all (\<lambda>c. \<not> is_whitespace c) (show_nat n)"
proof -
  have "is_ascii_digit c \<Longrightarrow> \<not> is_whitespace c" for c
    by (auto simp: is_ascii_digit_def is_whitespace_def Let_def)
  then show ?thesis
    using show_nat_digits [of n] by (auto simp: list_all_iff)
qed

lemma show_path_no_ws:
  assumes "list_all token_ok ts"
  shows "trim (show_path ts) = show_path ts"
proof (rule trim_no_ws)
  have ws: "\<not> is_whitespace (CHR ''$'')" "\<not> is_whitespace (CHR ''.'')"
    "\<not> is_whitespace (CHR ''['')" "\<not> is_whitespace (CHR '']'')"
    by (simp_all add: is_whitespace_def char_code_def)
  have "\<forall>c \<in> set (show_token t). \<not> is_whitespace c" if "token_ok t" for t
    using that ws show_nat_no_ws by (cases t) (auto simp: list_all_iff)
  with assms ws show "\<forall>c \<in> set (show_path ts). \<not> is_whitespace c"
    by (auto simp: show_path_def list_all_iff)
qed

lemma parse_show_path:
  assumes "list_all token_ok ts" "ts \<noteq> []"
  shows "parse_json_path (show_path ts) = Inr ts"
proof -
  obtain t ts' where ts: "ts = t # ts'"
    using assms(2) by (cases ts) simp_all
  let ?s = "show_path ts"
  have "parse_json_path ?s = path_loop ?s (skip_root ?s) [] [] False"
    by (simp add: parse_json_path_def show_path_no_ws [OF assms(1)] Let_def) (simp add: show_path_def)
  also have "\<dots> = Inr ts"
  proof (cases t)
    case (Field f)
    then have "path_loop ?s (skip_root ?s) [] [] False =
        path_loop ?s (f @ concat (map show_token ts')) [] [] False"
      by (simp add: show_path_def skip_root_def ts)
    also have "\<dots> = path_loop ?s (concat (map show_token ts')) [] f False"
      using assms(1) Field ts by (simp add: path_loop_field)
    also have "\<dots> = Inr ts"
      using assms(1) Field ts path_loop_tokens [of ts' f False] by (simp add: push_field_def)
    finally show ?thesis .
  next
    case (Index n)
    then have "path_loop ?s (skip_root ?s) [] [] False =
        path_loop ?s (show_token (Index n) @ concat (map show_token ts')) [] [] False"
      by (simp add: show_path_def skip_root_def ts)
    also have "\<dots> = path_loop ?s (concat (map show_token ts')) [Index n] [] True"
      using assms(1) Index ts path_loop_index [of n] by (simp add: push_field_def)
    also have "\<dots> = Inr ts"
      using assms(1) Index ts path_loop_tokens [of ts' "[]" True] by (simp add: push_field_def)
    finally show ?thesis .
  qed
  finally show ?thesis .
qed

section \<open>What the parser accepts\<close>

fun token_read :: "json_path_token \<Rightarrow> bool" where
  "token_read (Field f) \<longleftrightarrow> f \<noteq> [] \<and> CHR ''.'' \<notin> set f \<and> CHR ''['' \<notin> set f"
| "token_read (Index n) \<longleftrightarrow> n \<le> u64_max"

lemma push_field_read:
  assumes "list_all token_read ts" "CHR ''.'' \<notin> set cur" "CHR ''['' \<notin> set cur"
  shows "list_all token_read (push_field cur ts)"
  using assms by (simp add: push_field_def)

lemma path_loop_read:
  assumes "path_loop trimmed cs tokens cur b = Inr ts"
    and "list_all token_read tokens" "CHR ''.'' \<notin> set cur" "CHR ''['' \<notin> set cur"
  shows "ts \<noteq> [] \<and> list_all token_read ts"
  using assms
proof (induction trimmed cs tokens cur b rule: path_loop.induct)
  case (1 trimmed tokens cur b)
  then show ?case
    using push_field_read by (auto simp: Let_def split: if_splits)
next
  case (2 trimmed c cs tokens cur b)
  consider "c = CHR ''.''" | "c = CHR ''[''" | "c \<noteq> CHR ''.''" "c \<noteq> CHR ''[''" by blast
  then show ?case
  proof cases
    case 1
    with 2 show ?thesis by (auto split: if_splits)
  next
    case c: 2
    from 2(5) obtain index rest n where i: "read_index [] cs = Some (index, rest)"
      "parse_unsigned u64_max index = Some n"
      by (auto simp: c split: option.splits)
    then have "n \<le> u64_max"
      by (auto simp: parse_unsigned_def Let_def option_filter_eq_Some)
    moreover have "path_loop trimmed rest (push_field cur tokens @ [Index n]) [] True = Inr ts"
      using 2(5) i by (simp add: c)
    ultimately show ?thesis
      using 2(3) [OF _ c i(1) refl i(2)] 2(6-8) push_field_read by (simp add: c)
  next
    case 3
    with 2 show ?thesis by (auto split: if_splits)
  qed
qed

section \<open>Properties of JSON paths\<close>

text \<open>
  C12: the path language means what it says: resolving the canonical text of a path follows its
  fields and indices in the value, for every path of non-empty fields (without separators and
  white space) and indices that fit \<open>usize\<close>; and every path the parser accepts is a non-empty list
  of such tokens.
\<close>

theorem json_path_roundtrip:
  assumes "ts \<noteq> []" "list_all token_ok ts"
  shows "resolve_json_path v (show_path ts) = Inr (follow_path v ts)"
  by (simp add: resolve_json_path_def parse_show_path [OF assms(2,1)])

theorem json_path_roundtrip_witness:
  "resolve_json_path (JObject [(''data'', JArray [JNull, JObject [(''state'', JString ''ok'')]])])
     (show_path [Field ''data'', Index 1, Field ''state'']) = Inr (Some (JString ''ok''))"
  using json_path_roundtrip [of "[Field ''data'', Index 1, Field ''state'']"
      "JObject [(''data'', JArray [JNull, JObject [(''state'', JString ''ok'')]])]"]
  by (simp add: is_whitespace_def char_code_def u64_max_def Let_def)

text \<open>
  Whatever text the path parser accepts, it yields at least one token, every field it yields is
  non-empty and free of \<open>.\<close> and \<open>[\<close>, and every index fits \<open>usize\<close>; a blank path is refused.
\<close>

theorem parsed_paths_are_well_formed:
  "case parse_json_path path of
     Inr ts \<Rightarrow> trim path \<noteq> [] \<and> ts \<noteq> [] \<and> list_all token_read ts
   | Inl e \<Rightarrow> e = (if trim path = [] then ''JSON path must not be blank'' else invalid_path (trim path))"
proof -
  have err: "path_loop trimmed cs tokens cur b = Inl e \<Longrightarrow> e = invalid_path trimmed"
    for trimmed cs tokens cur b e
    by (induction trimmed cs tokens cur b rule: path_loop.induct)
      (auto simp: Let_def split: if_splits option.splits)
  show ?thesis
    using path_loop_read [of "trim path" "skip_root (trim path)" "[]" "[]" False]
      err [of "trim path" "skip_root (trim path)" "[]" "[]" False]
    by (auto simp: parse_json_path_def Let_def split: sum.splits)
qed

end
