(* ===== verification/Http_Assertions.thy ===== *)
theory Http_Assertions
  imports Json_Path Check_Result
begin

text \<open>
  The assertions of an HTTP check on a response (the middle of \<open>check_url_internal\<close> and
  \<open>evaluate_header_assertion\<close> in \<^verbatim>\<open>src/monitoring/http_checker.rs\<close>). The code threads
  \<open>(is_success, failure_reason, error_message)\<close> and guards every step with \<open>if is_success\<close>; here the
  three are one value, \<open>None\<close> for success so far and \<open>Some (reason, message)\<close> for the first
  failure. What belongs to the \<open>http\<close>, \<open>serde_json\<close> and \<open>chrono\<close> crates is the record of functions
  \<open>http_lib\<close>; so is \<open>String::from_utf8_lossy\<close>, whose result may leave the characters of the model.
  Bytes are the characters of the same code.
\<close>

type_synonym failure = "string \<times> string"

record http_lib =
  hl_is_redirection :: "nat \<Rightarrow> bool"
  hl_header_name :: "string \<Rightarrow> string option"
  hl_header_text :: "string \<Rightarrow> string option"
  hl_utf8_lossy :: "string \<Rightarrow> string"
  hl_json_parse :: "string \<Rightarrow> string + json"
  hl_json_eq :: "json \<Rightarrow> json \<Rightarrow> bool"
  hl_json_show :: "json \<Rightarrow> string"
  hl_to_rfc3339 :: "timestamp \<Rightarrow> string"

record reqwest_error =
  re_is_connect :: bool
  re_is_timeout :: bool
  re_is_redirect :: bool
  re_text :: string

record http_response =
  rsp_status :: nat
  rsp_headers :: "(string \<times> string) list"
  rsp_chunks :: "string list"
  rsp_read_error :: "reqwest_error option"

record http_assertions =
  ha_body_must_contain :: "string option"
  ha_body_must_not_contain :: "string option"
  ha_body_must_contain_texts :: "string list"
  ha_body_must_not_contain_texts :: "string list"
  ha_json_path_exists :: "string list"
  ha_json_path_equals :: "json_path_value_assertion list"
  ha_json_path_not_equals :: "json_path_value_assertion list"
  ha_max_response_time_ms :: "int option"
  ha_required_header_name :: "string option"
  ha_required_header_value :: "string option"
  ha_header_assertions :: "http_header_assertion list"
  ha_ssl_certificate_checks_enabled :: bool
  ha_ssl_expiry_warning_days :: "int option"

section \<open>Control flow\<close>

text \<open>\<open>if is_success { \<dots> }\<close>, and a loop over an enumerated slice that breaks at the first failure.\<close>

definition if_success :: "failure option \<Rightarrow> failure option \<Rightarrow> failure option" where
  "if_success st next = (case st of None \<Rightarrow> next | Some f \<Rightarrow> Some f)"

fun first_failure :: "(nat \<Rightarrow> 'a \<Rightarrow> failure option) \<Rightarrow> nat \<Rightarrow> 'a list \<Rightarrow> failure option" where
  "first_failure f i [] = None"
| "first_failure f i (x # xs) =
     (case f i x of Some e \<Rightarrow> Some e | None \<Rightarrow> first_failure f (i + 1) xs)"

lemma if_success_simps [simp]: "if_success None n = n" "if_success (Some f) n = Some f"
  by (simp_all add: if_success_def)

lemma if_success_None: "if_success st n = None \<longleftrightarrow> st = None \<and> n = None"
  by (cases st) simp_all

lemma if_success_Some: "if_success st n = Some f \<longleftrightarrow> st = Some f \<or> st = None \<and> n = Some f"
  by (cases st) auto

lemma first_failure_None:
  "first_failure f i xs = None \<longleftrightarrow> (\<forall>j < length xs. f (i + j) (xs ! j) = None)"
  by (induction xs arbitrary: i) (auto simp: less_Suc_eq_0_disj All_less_Suc2 split: option.splits)

section \<open>Text\<close>

definition assertion_failure_reason :: "string \<Rightarrow> string" where
  "assertion_failure_reason path = ''assertion_failed:'' @ path"

definition indexed :: "string \<Rightarrow> nat \<Rightarrow> string" where
  "indexed name i = name @ ''['' @ show_nat i @ '']''"

text \<open>The \<open>Debug\<close> form of a string.\<close>

definition escape_debug :: "char \<Rightarrow> string" where
  "escape_debug c =
     (let n = char_code c in
      if n = 0 then [char_of (92 :: nat), CHR ''0'']
      else if n = 9 then [char_of (92 :: nat), CHR ''t'']
      else if n = 13 then [char_of (92 :: nat), CHR ''r'']
      else if n = 10 then [char_of (92 :: nat), CHR ''n'']
      else if n = 34 \<or> n = 92 then [char_of (92 :: nat), c]
      else if n < 32 \<or> (127 \<le> n \<and> n \<le> 160) \<or> n = 173
        then [char_of (92 :: nat)] @ ''u{'' @ show_hex n @ ''}''
      else [c])"

definition debug_str :: "string \<Rightarrow> string" where
  "debug_str s = [char_of (34 :: nat)] @ concat (map escape_debug s) @ [char_of (34 :: nat)]"

section \<open>Headers\<close>

definition evaluate_header_assertion ::
  "http_lib \<Rightarrow> (string \<times> string) list \<Rightarrow> http_header_assertion \<Rightarrow> string \<Rightarrow> failure option" where
  "evaluate_header_assertion lib headers a path =
     (case hl_header_name lib (hha_name a) of
        None \<Rightarrow> Some (assertion_failure_reason path, hha_name a @ '' is not a valid HTTP header name'')
      | Some header_name \<Rightarrow>
          (case map_of headers header_name of
             None \<Rightarrow> Some (assertion_failure_reason (path @ ''.exists''),
                       ''Response did not include required header: '' @ header_name)
           | Some header_value \<Rightarrow>
               if_success
                 (case hha_equals a of
                    None \<Rightarrow> None
                  | Some required \<Rightarrow>
                      (case hl_header_text lib header_value of
                         Some actual \<Rightarrow>
                           if actual = required then None
                           else Some (assertion_failure_reason (path @ ''.equals''),
                                  ''Response header '' @ header_name @ '' had value '' @ debug_str actual @
                                  '', expected '' @ debug_str required)
                       | None \<Rightarrow> Some (assertion_failure_reason (path @ ''.equals''),
                                   ''Response header '' @ header_name @ '' was not valid text'')))
                 (case hha_contains a of
                    None \<Rightarrow> None
                  | Some required \<Rightarrow>
                      (case hl_header_text lib header_value of
                         Some actual \<Rightarrow>
                           if str_contains required actual then None
                           else Some (assertion_failure_reason (path @ ''.contains''),
                                  ''Response header '' @ header_name @ '' had value '' @ debug_str actual @
                                  '', expected it to contain '' @ debug_str required)
                       | None \<Rightarrow> Some (assertion_failure_reason (path @ ''.contains''),
                                   ''Response header '' @ header_name @ '' was not valid text'')))))"

text \<open>A header assertion holds when the header is there and its text is as required.\<close>

definition header_holds :: "http_lib \<Rightarrow> (string \<times> string) list \<Rightarrow> http_header_assertion \<Rightarrow> bool" where
  "header_holds lib headers a \<longleftrightarrow>
     (\<exists>name value. hl_header_name lib (hha_name a) = Some name \<and> map_of headers name = Some value \<and>
        (\<forall>required. hha_equals a = Some required \<longrightarrow> hl_header_text lib value = Some required) \<and>
        (\<forall>required. hha_contains a = Some required \<longrightarrow>
           (\<exists>actual. hl_header_text lib value = Some actual \<and> sublist required actual)))"

lemma evaluate_header_assertion_None:
  "evaluate_header_assertion lib headers a path = None \<longleftrightarrow> header_holds lib headers a"
  by (auto simp: evaluate_header_assertion_def header_holds_def if_success_None str_contains_iff
      split: option.splits if_splits)

section \<open>The status line and the headers\<close>

definition status_failure :: "http_lib \<Rightarrow> http_response \<Rightarrow> int \<Rightarrow> failure option" where
  "status_failure lib r expected_status_code =
     (let status_code = int (rsp_status r) in
      if status_code = expected_status_code then None
      else if hl_is_redirection lib (rsp_status r) then
        Some (''redirect_blocked'',
          ''Redirect blocked with HTTP status: '' @ show_int status_code @ '', location: '' @
          unwrap_or (Option.bind (map_of (rsp_headers r) ''location'') (hl_header_text lib)) ''<unknown>'')
      else
        Some (''unexpected_status'',
          ''Unexpected HTTP status: '' @ show_int status_code @ '', expected: '' @
          show_int expected_status_code))"

definition response_time_failure :: "int \<Rightarrow> int option \<Rightarrow> failure option" where
  "response_time_failure elapsed max_response_time_ms =
     (case max_response_time_ms of
        None \<Rightarrow> None
      | Some limit \<Rightarrow>
          if elapsed > limit then
            Some (assertion_failure_reason ''max_response_time_ms'',
              ''Response time '' @ show_int elapsed @ ''ms exceeded max_response_time_ms '' @
              show_int limit @ ''ms'')
          else None)"

definition required_header_failure :: "http_lib \<Rightarrow> http_response \<Rightarrow> http_assertions \<Rightarrow> failure option" where
  "required_header_failure lib r a =
     (case ha_required_header_name a of
        None \<Rightarrow> None
      | Some name \<Rightarrow>
          evaluate_header_assertion lib (rsp_headers r)
            \<lparr>hha_name = name, hha_equals = ha_required_header_value a, hha_contains = None\<rparr>
            ''required_header'')"

definition header_assertions_failure :: "http_lib \<Rightarrow> http_response \<Rightarrow> http_assertions \<Rightarrow> failure option" where
  "header_assertions_failure lib r a =
     first_failure (\<lambda>i h. evaluate_header_assertion lib (rsp_headers r) h (indexed ''header_assertions'' i))
       0 (ha_header_assertions a)"

section \<open>The body\<close>

definition wants_body :: "http_assertions \<Rightarrow> bool" where
  "wants_body a \<longleftrightarrow>
     ha_body_must_contain a \<noteq> None \<or> ha_body_must_not_contain a \<noteq> None \<or>
     ha_body_must_contain_texts a \<noteq> [] \<or> ha_body_must_not_contain_texts a \<noteq> [] \<or>
     ha_json_path_exists a \<noteq> [] \<or> ha_json_path_equals a \<noteq> [] \<or> ha_json_path_not_equals a \<noteq> []"

text \<open>The chunk loop: it stops as soon as the buffer holds \<open>cap\<close> bytes, error or not.\<close>

fun read_body :: "nat \<Rightarrow> reqwest_error option \<Rightarrow> string list \<Rightarrow> string \<Rightarrow> reqwest_error + string" where
  "read_body cap err [] buf = (case err of Some e \<Rightarrow> Inl e | None \<Rightarrow> Inr buf)"
| "read_body cap err (chunk # chunks) buf =
     (let remaining = sat_sub_u64 cap (length buf);
          buf = buf @ take (min (length chunk) remaining) chunk
      in if cap \<le> length buf then Inr buf else read_body cap err chunks buf)"

definition must_contain :: "string \<Rightarrow> string \<Rightarrow> string \<Rightarrow> failure option" where
  "must_contain body path required =
     (if \<not> str_contains required body then
        Some (assertion_failure_reason path, ''Response body did not contain required text: '' @ required)
      else None)"

definition must_not_contain :: "string \<Rightarrow> string \<Rightarrow> string \<Rightarrow> failure option" where
  "must_not_contain body path forbidden =
     (if str_contains forbidden body then
        Some (assertion_failure_reason path, ''Response body contained forbidden text: '' @ forbidden)
      else None)"

definition text_failure :: "http_assertions \<Rightarrow> string \<Rightarrow> failure option" where
  "text_failure a body =
     if_success (if_success (if_success
       (case ha_body_must_contain a of None \<Rightarrow> None | Some s \<Rightarrow> must_contain body ''body_must_contain'' s)
       (first_failure (\<lambda>i. must_contain body (indexed ''body_must_contain_texts'' i)) 0
          (ha_body_must_contain_texts a)))
       (case ha_body_must_not_contain a of
          None \<Rightarrow> None | Some s \<Rightarrow> must_not_contain body ''body_must_not_contain'' s))
       (first_failure (\<lambda>i. must_not_contain body (indexed ''body_must_not_contain_texts'' i)) 0
          (ha_body_must_not_contain_texts a))"

section \<open>JSON paths\<close>

definition json_exists_failure :: "json \<Rightarrow> nat \<Rightarrow> string \<Rightarrow> failure option" where
  "json_exists_failure v i path =
     (let reason = assertion_failure_reason (indexed ''json_path_exists'' i) in
      case resolve_json_path v path of
        Inr (Some _) \<Rightarrow> None
      | Inr None \<Rightarrow> Some (reason, ''JSON path '' @ path @ '' did not exist'')
      | Inl e \<Rightarrow> Some (reason, e))"

definition json_equals_failure :: "http_lib \<Rightarrow> json \<Rightarrow> nat \<Rightarrow> json_path_value_assertion \<Rightarrow> failure option" where
  "json_equals_failure lib v i a =
     (let reason = assertion_failure_reason (indexed ''json_path_equals'' i) in
      case resolve_json_path v (jpva_path a) of
        Inr (Some actual) \<Rightarrow>
          if hl_json_eq lib actual (jpva_value a) then None
          else Some (reason, ''JSON path '' @ jpva_path a @ '' had value '' @ hl_json_show lib actual @
                 '', expected '' @ hl_json_show lib (jpva_value a))
      | Inr None \<Rightarrow> Some (reason, ''JSON path '' @ jpva_path a @ '' did not exist'')
      | Inl e \<Rightarrow> Some (reason, e))"

definition json_not_equals_failure ::
  "http_lib \<Rightarrow> json \<Rightarrow> nat \<Rightarrow> json_path_value_assertion \<Rightarrow> failure option" where
  "json_not_equals_failure lib v i a =
     (let reason = assertion_failure_reason (indexed ''json_path_not_equals'' i) in
      case resolve_json_path v (jpva_path a) of
        Inr (Some actual) \<Rightarrow>
          if \<not> hl_json_eq lib actual (jpva_value a) then None
          else Some (reason, ''JSON path '' @ jpva_path a @ '' unexpectedly had value '' @
                 hl_json_show lib actual)
      | Inr None \<Rightarrow> Some (reason, ''JSON path '' @ jpva_path a @ '' did not exist'')
      | Inl e \<Rightarrow> Some (reason, e))"

definition json_failure :: "http_lib \<Rightarrow> http_assertions \<Rightarrow> string \<Rightarrow> failure option" where
  "json_failure lib a body =
     (if ha_json_path_exists a = [] \<and> ha_json_path_equals a = [] \<and> ha_json_path_not_equals a = [] then None
      else
        (case hl_json_parse lib body of
           Inl e \<Rightarrow> Some (assertion_failure_reason ''json_body'', ''Response body was not valid JSON: '' @ e)
         | Inr v \<Rightarrow>
             if_success (if_success
               (first_failure (json_exists_failure v) 0 (ha_json_path_exists a))
               (first_failure (json_equals_failure lib v) 0 (ha_json_path_equals a)))
               (first_failure (json_not_equals_failure lib v) 0 (ha_json_path_not_equals a))))"

definition body_failure :: "http_lib \<Rightarrow> http_response \<Rightarrow> http_assertions \<Rightarrow> nat \<Rightarrow> failure option" where
  "body_failure lib r a max_response_body_bytes =
     (if \<not> wants_body a then None
      else
        (case read_body max_response_body_bytes (rsp_read_error r) (rsp_chunks r) [] of
           Inr bytes \<Rightarrow>
             (let body = hl_utf8_lossy lib bytes in
              if_success (text_failure a body) (json_failure lib a body))
         | Inl e \<Rightarrow> Some (''response_read_error'', re_text e)))"

definition response_failure ::
  "http_lib \<Rightarrow> http_response \<Rightarrow> int \<Rightarrow> http_assertions \<Rightarrow> int \<Rightarrow> nat \<Rightarrow> failure option" where
  "response_failure lib r expected_status_code a elapsed max_response_body_bytes =
     if_success (if_success (if_success (if_success
       (status_failure lib r expected_status_code)
       (response_time_failure elapsed (ha_max_response_time_ms a)))
       (required_header_failure lib r a))
       (header_assertions_failure lib r a))
       (body_failure lib r a max_response_body_bytes)"

definition result_of_response ::
  "http_lib \<Rightarrow> http_response \<Rightarrow> int \<Rightarrow> http_assertions \<Rightarrow> int \<Rightarrow> nat \<Rightarrow> certificate_metadata option \<Rightarrow> check_result"
where
  "result_of_response lib r expected_status_code a elapsed max_response_body_bytes cert =
     (let f = response_failure lib r expected_status_code a elapsed max_response_body_bytes in
      \<lparr>cr_is_success = (f = None), cr_status_code = Some (int (rsp_status r)),
       cr_response_time_ms = Some elapsed, cr_failure_reason = map_option fst f,
       cr_error_message = map_option snd f, cr_certificate_metadata = cert\<rparr>)"

section \<open>The specification of a check on a response\<close>

text \<open>The body the assertions see: what the server sent, cut at the configured cap.\<close>

definition received_body :: "http_response \<Rightarrow> nat \<Rightarrow> reqwest_error + string" where
  "received_body r cap =
     (let sent = concat (rsp_chunks r) in
      if cap \<le> length sent then Inr (take cap sent)
      else (case rsp_read_error r of Some e \<Rightarrow> Inl e | None \<Rightarrow> Inr sent))"

lemma read_body_prefix:
  assumes "length buf < cap"
  shows "read_body cap err chunks buf =
    (if cap \<le> length buf + length (concat chunks) then Inr (take cap (buf @ concat chunks))
     else (case err of Some e \<Rightarrow> Inl e | None \<Rightarrow> Inr (buf @ concat chunks)))"
  using assms
proof (induction chunks arbitrary: buf)
  case Nil
  then show ?case by (simp split: option.split)
next
  case (Cons chunk chunks)
  show ?case
  proof (cases "length buf + length chunk < cap")
    case True
    with Cons.IH [of "buf @ chunk"] show ?thesis
      by (simp add: sat_sub_u64_def Let_def split: option.split)
  next
    case False
    with Cons.prems show ?thesis
      by (simp add: sat_sub_u64_def Let_def min_def)
  qed
qed

lemma read_body_received: "0 < cap \<Longrightarrow> read_body cap (rsp_read_error r) (rsp_chunks r) [] = received_body r cap"
  by (simp add: read_body_prefix received_body_def split: option.split)

definition texts_hold :: "http_assertions \<Rightarrow> string \<Rightarrow> bool" where
  "texts_hold a body \<longleftrightarrow>
     (\<forall>s. ha_body_must_contain a = Some s \<longrightarrow> sublist s body) \<and>
     (\<forall>s \<in> set (ha_body_must_contain_texts a). sublist s body) \<and>
     (\<forall>s. ha_body_must_not_contain a = Some s \<longrightarrow> \<not> sublist s body) \<and>
     (\<forall>s \<in> set (ha_body_must_not_contain_texts a). \<not> sublist s body)"

definition wants_json :: "http_assertions \<Rightarrow> bool" where
  "wants_json a \<longleftrightarrow>
     ha_json_path_exists a \<noteq> [] \<or> ha_json_path_equals a \<noteq> [] \<or> ha_json_path_not_equals a \<noteq> []"

definition value_at :: "json \<Rightarrow> string \<Rightarrow> json \<Rightarrow> bool" where
  "value_at v path x \<longleftrightarrow> resolve_json_path v path = Inr (Some x)"

definition json_holds :: "http_lib \<Rightarrow> http_assertions \<Rightarrow> string \<Rightarrow> bool" where
  "json_holds lib a body \<longleftrightarrow>
     (\<exists>v. hl_json_parse lib body = Inr v \<and>
        (\<forall>path \<in> set (ha_json_path_exists a). \<exists>x. value_at v path x) \<and>
        (\<forall>j \<in> set (ha_json_path_equals a). \<exists>x. value_at v (jpva_path j) x \<and> hl_json_eq lib x (jpva_value j)) \<and>
        (\<forall>j \<in> set (ha_json_path_not_equals a).
           \<exists>x. value_at v (jpva_path j) x \<and> \<not> hl_json_eq lib x (jpva_value j)))"

definition response_meets :: "http_lib \<Rightarrow> http_response \<Rightarrow> int \<Rightarrow> http_assertions \<Rightarrow> int \<Rightarrow> nat \<Rightarrow> bool" where
  "response_meets lib r expected_status_code a elapsed cap \<longleftrightarrow>
     int (rsp_status r) = expected_status_code \<and>
     (\<forall>limit. ha_max_response_time_ms a = Some limit \<longrightarrow> elapsed \<le> limit) \<and>
     (\<forall>name. ha_required_header_name a = Some name \<longrightarrow>
        header_holds lib (rsp_headers r)
          \<lparr>hha_name = name, hha_equals = ha_required_header_value a, hha_contains = None\<rparr>) \<and>
     (\<forall>h \<in> set (ha_header_assertions a). header_holds lib (rsp_headers r) h) \<and>
     (wants_body a \<longrightarrow>
        (\<exists>bytes. received_body r cap = Inr bytes \<and>
           texts_hold a (hl_utf8_lossy lib bytes) \<and>
           (wants_json a \<longrightarrow> json_holds lib a (hl_utf8_lossy lib bytes))))"

lemma first_failure_None_all:
  assumes "\<And>i x. f i x = None \<longleftrightarrow> P x"
  shows "first_failure f i xs = None \<longleftrightarrow> (\<forall>x \<in> set xs. P x)"
  using assms by (simp add: first_failure_None all_set_conv_all_nth)

lemma status_failure_None: "status_failure lib r e = None \<longleftrightarrow> int (rsp_status r) = e"
  by (simp add: status_failure_def Let_def)

lemma must_contain_None: "must_contain body path s = None \<longleftrightarrow> sublist s body"
  by (simp add: must_contain_def str_contains_iff)

lemma must_not_contain_None: "must_not_contain body path s = None \<longleftrightarrow> \<not> sublist s body"
  by (simp add: must_not_contain_def str_contains_iff)

lemma text_failure_None: "text_failure a body = None \<longleftrightarrow> texts_hold a body"
  by (auto simp: text_failure_def texts_hold_def if_success_None must_contain_None must_not_contain_None
      first_failure_None_all [where P = "\<lambda>s. sublist s body", OF must_contain_None]
      first_failure_None_all [where P = "\<lambda>s. \<not> sublist s body", OF must_not_contain_None]
      split: option.splits)

lemma json_exists_None: "json_exists_failure v i path = None \<longleftrightarrow> (\<exists>x. value_at v path x)"
  by (auto simp: json_exists_failure_def value_at_def Let_def split: sum.splits option.splits)

lemma json_equals_None:
  "json_equals_failure lib v i j = None \<longleftrightarrow> (\<exists>x. value_at v (jpva_path j) x \<and> hl_json_eq lib x (jpva_value j))"
  by (auto simp: json_equals_failure_def value_at_def Let_def split: sum.splits option.splits)

lemma json_not_equals_None:
  "json_not_equals_failure lib v i j = None \<longleftrightarrow>
     (\<exists>x. value_at v (jpva_path j) x \<and> \<not> hl_json_eq lib x (jpva_value j))"
  by (auto simp: json_not_equals_failure_def value_at_def Let_def split: sum.splits option.splits)

lemma json_failure_None: "json_failure lib a body = None \<longleftrightarrow> (wants_json a \<longrightarrow> json_holds lib a body)"
proof -
  note all = first_failure_None_all [OF json_exists_None] first_failure_None_all [OF json_equals_None]
    first_failure_None_all [OF json_not_equals_None]
  show ?thesis
    by (auto simp: json_failure_def wants_json_def json_holds_def if_success_None all split: sum.splits)
qed

lemma body_failure_None:
  assumes "0 < cap"
  shows "body_failure lib r a cap = None \<longleftrightarrow>
    (wants_body a \<longrightarrow> (\<exists>bytes. received_body r cap = Inr bytes \<and>
       texts_hold a (hl_utf8_lossy lib bytes) \<and>
       (wants_json a \<longrightarrow> json_holds lib a (hl_utf8_lossy lib bytes))))"
  by (auto simp: body_failure_def read_body_received [OF assms] if_success_None text_failure_None
      json_failure_None Let_def split: sum.splits)

lemma response_failure_None:
  assumes "0 < cap"
  shows "response_failure lib r e a elapsed cap = None \<longleftrightarrow> response_meets lib r e a elapsed cap"
proof -
  have "response_time_failure elapsed m = None \<longleftrightarrow> (\<forall>limit. m = Some limit \<longrightarrow> elapsed \<le> limit)" for m
    by (auto simp: response_time_failure_def split: option.splits)
  moreover have "required_header_failure lib r a = None \<longleftrightarrow>
      (\<forall>name. ha_required_header_name a = Some name \<longrightarrow>
        header_holds lib (rsp_headers r)
          \<lparr>hha_name = name, hha_equals = ha_required_header_value a, hha_contains = None\<rparr>)"
    by (auto simp: required_header_failure_def evaluate_header_assertion_None split: option.splits)
  moreover have "header_assertions_failure lib r a = None \<longleftrightarrow>
      (\<forall>h \<in> set (ha_header_assertions a). header_holds lib (rsp_headers r) h)"
    unfolding header_assertions_failure_def
    by (rule first_failure_None_all) (rule evaluate_header_assertion_None)
  ultimately show ?thesis
    by (simp add: response_failure_def response_meets_def if_success_None status_failure_None
        body_failure_None [OF assms])
qed

text \<open>The reasons after the status line: an assertion's path, or the read error.\<close>

definition assertion_reason :: "string \<Rightarrow> bool" where
  "assertion_reason s \<longleftrightarrow> prefix ''assertion_failed:'' s \<or> s = ''response_read_error''"

lemma assertion_reason_path [simp]: "assertion_reason (assertion_failure_reason path)"
  by (simp add: assertion_reason_def assertion_failure_reason_def)

lemma first_failure_reason:
  assumes "first_failure f i xs = Some e" "\<And>i x e. f i x = Some e \<Longrightarrow> assertion_reason (fst e)"
  shows "assertion_reason (fst e)"
  using assms(1) by (induction xs arbitrary: i) (auto intro: assms(2) split: option.splits)

lemma header_reason: "evaluate_header_assertion lib hs a path = Some e \<Longrightarrow> assertion_reason (fst e)"
  by (auto simp: evaluate_header_assertion_def if_success_Some split: option.splits if_splits)

lemma text_reason: "text_failure a body = Some e \<Longrightarrow> assertion_reason (fst e)"
  by (auto simp: text_failure_def if_success_Some must_contain_def must_not_contain_def
      elim!: first_failure_reason split: option.splits if_splits)

lemma json_reason: "json_failure lib a body = Some e \<Longrightarrow> assertion_reason (fst e)"
  by (auto simp: json_failure_def if_success_Some json_exists_failure_def json_equals_failure_def
      json_not_equals_failure_def Let_def elim!: first_failure_reason
      split: option.splits if_splits sum.splits)

lemma later_failure_reason:
  assumes "response_failure lib r e a elapsed cap = Some f" "int (rsp_status r) = e"
  shows "assertion_reason (fst f)"
proof -
  have "body_failure lib r a cap = Some f \<Longrightarrow> assertion_reason (fst f)"
    by (auto simp: body_failure_def if_success_Some Let_def assertion_reason_def
        dest: text_reason [unfolded assertion_reason_def] json_reason [unfolded assertion_reason_def]
        split: if_splits sum.splits)
  moreover have "response_time_failure elapsed m = Some f \<Longrightarrow> assertion_reason (fst f)" for m
    by (auto simp: response_time_failure_def split: option.splits if_splits)
  moreover have "required_header_failure lib r a = Some f \<Longrightarrow> assertion_reason (fst f)"
    by (auto simp: required_header_failure_def dest: header_reason split: option.splits)
  moreover have "header_assertions_failure lib r a = Some f \<Longrightarrow> assertion_reason (fst f)"
    unfolding header_assertions_failure_def by (erule first_failure_reason) (rule header_reason)
  ultimately show ?thesis
    using assms by (auto simp: response_failure_def if_success_Some status_failure_def Let_def)
qed

section \<open>Properties of a check on a response\<close>

text \<open>
  C13: an HTTP check succeeds exactly when the response meets the monitor's whole contract: the
  expected status, the response time limit, the required header, every header assertion and, when
  any assertion looks at the body, every text and JSON path assertion on the body received up to the
  configured cap. On failure a wrong status is reported before anything else, as
  \<open>redirect_blocked\<close> for a redirection, and any other failure as a failed assertion or a read error.
\<close>

theorem http_check_succeeds_iff_response_meets:
  assumes "0 < cap"
  shows "let res = result_of_response lib r expected a elapsed cap cert in
    (cr_is_success res \<longleftrightarrow> response_meets lib r expected a elapsed cap) \<and> result_wf res \<and>
    (int (rsp_status r) \<noteq> expected \<longrightarrow>
       cr_failure_reason res =
         Some (if hl_is_redirection lib (rsp_status r) then ''redirect_blocked'' else ''unexpected_status'')) \<and>
    (int (rsp_status r) = expected \<longrightarrow>
       (\<forall>reason. cr_failure_reason res = Some reason \<longrightarrow> assertion_reason reason))"
proof -
  have "fst f = (if hl_is_redirection lib (rsp_status r) then ''redirect_blocked'' else ''unexpected_status'')"
    if "response_failure lib r expected a elapsed cap = Some f" "int (rsp_status r) \<noteq> expected" for f
    using that by (auto simp: response_failure_def status_failure_def Let_def if_success_Some split: if_splits)
  moreover have "response_failure lib r expected a elapsed cap \<noteq> None" if "int (rsp_status r) \<noteq> expected"
    using that by (simp add: response_failure_None [OF assms] response_meets_def)
  ultimately show ?thesis
    using later_failure_reason [of lib r expected a elapsed cap]
    by (auto simp: result_of_response_def Let_def response_failure_None [OF assms, symmetric] result_wf_def)
qed

definition sample_lib :: http_lib where
  "sample_lib =
     \<lparr>hl_is_redirection = (\<lambda>s. 300 \<le> s \<and> s < 400), hl_header_name = (\<lambda>n. Some (map to_ascii_lower n)),
      hl_header_text = Some, hl_utf8_lossy = (\<lambda>b. b),
      hl_json_parse = (\<lambda>s. if s = ''{}'' then Inr (JObject []) else Inl ''expected value''),
      hl_json_eq = (=), hl_json_show = (\<lambda>_. ''{}''), hl_to_rfc3339 = show_int\<rparr>"

definition sample_assertions :: http_assertions where
  "sample_assertions =
     \<lparr>ha_body_must_contain = Some ''up'', ha_body_must_not_contain = None,
      ha_body_must_contain_texts = [], ha_body_must_not_contain_texts = [''error''],
      ha_json_path_exists = [], ha_json_path_equals = [], ha_json_path_not_equals = [],
      ha_max_response_time_ms = Some 500, ha_required_header_name = None,
      ha_required_header_value = None, ha_header_assertions = [],
      ha_ssl_certificate_checks_enabled = False, ha_ssl_expiry_warning_days = None\<rparr>"

definition sample_response :: "nat \<Rightarrow> string \<Rightarrow> http_response" where
  "sample_response status body =
     \<lparr>rsp_status = status, rsp_headers = [], rsp_chunks = [body], rsp_read_error = None\<rparr>"

theorem http_check_succeeds_iff_response_meets_witness:
  "cr_is_success (result_of_response sample_lib (sample_response 200 ''all up'') 200 sample_assertions 80 64 None) \<and>
   cr_failure_reason (result_of_response sample_lib (sample_response 301 ''all up'') 200 sample_assertions 80 64 None)
     = Some ''redirect_blocked''"
proof
  have "response_meets sample_lib (sample_response 200 ''all up'') 200 sample_assertions 80 64"
    unfolding response_failure_None [OF zero_less_numeral, symmetric]
    by (simp add: response_failure_def status_failure_def response_time_failure_def required_header_failure_def
        header_assertions_failure_def body_failure_def wants_body_def sample_lib_def sample_response_def
        sample_assertions_def text_failure_def must_contain_def must_not_contain_def json_failure_def
        sat_sub_u64_def)
  then show "cr_is_success (result_of_response sample_lib (sample_response 200 ''all up'') 200 sample_assertions 80 64 None)"
    using http_check_succeeds_iff_response_meets [of 64 sample_lib "sample_response 200 ''all up''" 200
        sample_assertions 80 None] by (simp add: Let_def)
  show "cr_failure_reason (result_of_response sample_lib (sample_response 301 ''all up'') 200 sample_assertions 80 64 None)
     = Some ''redirect_blocked''"
    using http_check_succeeds_iff_response_meets [of 64 sample_lib "sample_response 301 ''all up''" 200
        sample_assertions 80 None] by (simp add: Let_def sample_lib_def sample_response_def)
qed

end
