(* ===== verification/Http_Checker.thy ===== *)
theory Http_Checker
  imports Http_Assertions Ip_Text
begin

text \<open>
  The network half of \<^verbatim>\<open>src/monitoring/http_checker.rs\<close>: resolving a target to pinned addresses, the
  client cache, the TLS certificate probe and its expiry rules, and the two entry points
  \<open>check_url_internal\<close> and \<open>check_ssl_certificate_internal\<close>.

  Everything outside the program is the record \<open>http_env\<close>: the URL parser and the client of
  \<open>reqwest\<close>, the LRU map of \<open>lru\<close>, the resolver, TCP and TLS, the X.509 parser, the clock. A run reads
  the clock once where it returns, so one elapsed time is enough. A \<open>SocketAddr\<close> is an address with
  its port; the flow and scope of an IPv6 one are left out.
\<close>

record parsed_url =
  pu_href :: string
  pu_scheme :: string
  pu_host :: "string option"
  pu_port_or_default :: "nat option"

record x509_certificate =
  xc_not_after_seconds :: int
  xc_issuer :: string
  xc_subject :: string
  xc_san_dns_names :: "string list"
  xc_common_name :: "string option"

datatype tcp_outcome = TcpConnected | TcpFailed string | TcpTimedOut

text \<open>A stream carries the certificates its peer presented, if it presented any.\<close>

datatype tls_outcome = TlsStream "string list option" | TlsFailed string | TlsTimedOut

datatype tls_config = ValidatedConfig | InspectionConfig

type_synonym client_key = "string \<times> socket_addr list"

record ('c, 's) http_env =
  he_elapsed_ms :: nat
  he_now :: timestamp
  he_parse_url :: "string \<Rightarrow> parsed_url option"
  he_lookup_host :: "string \<Rightarrow> socket_addr list option"
  he_lru_get :: "client_key \<Rightarrow> 's \<Rightarrow> 'c option \<times> 's"
  he_lru_put :: "client_key \<Rightarrow> 'c \<Rightarrow> 's \<Rightarrow> 's"
  he_other_tasks :: "client_key list"
  he_build_client :: "string \<Rightarrow> socket_addr list \<Rightarrow> string + 'c"
  he_send :: "'c \<Rightarrow> parsed_url \<Rightarrow> duration \<Rightarrow> reqwest_error + http_response"
  he_server_name_ok :: "string \<Rightarrow> bool"
  he_tcp_connect :: "duration \<Rightarrow> socket_addr \<Rightarrow> tcp_outcome"
  he_tls_connect :: "tls_config \<Rightarrow> duration \<Rightarrow> string \<Rightarrow> socket_addr \<Rightarrow> tls_outcome"
  he_platform_verifier :: "string option"
  he_parse_certificate :: "string \<Rightarrow> string + x509_certificate"
  he_from_timestamp :: "int \<Rightarrow> timestamp option"

section \<open>Resolving a target\<close>

definition resolve_runtime_target ::
  "(string \<Rightarrow> socket_addr list option) \<Rightarrow> string \<Rightarrow> nat \<Rightarrow> bool \<Rightarrow> failure + socket_addr list" where
  "resolve_runtime_target lookup_host host port validate_public_target =
     (let unresolved = (''connect_error'', ''target_url hostname could not be resolved'') in
      and_then
        (case parse_ip host of
           Some ip \<Rightarrow> Inr [(ip, port)]
         | None \<Rightarrow> ok_or unresolved (lookup_host (host @ '':'' @ show_nat port)))
        (\<lambda>resolved.
           if resolved = [] then Inl unresolved
           else
             let resolved = remdups_adj (sort resolved) in
             if validate_public_target \<and> list_ex (\<lambda>addr. \<not> check_ip_is_public (fst addr)) resolved
             then Inl (''blocked_address'',
                    ''target_url must not resolve to a loopback, private, or link-local address'')
             else Inr resolved))"

record request_target =
  rt_url :: parsed_url
  rt_scheme :: string
  rt_host :: string
  rt_port :: nat
  rt_resolved_addrs :: "socket_addr list"

definition resolve_runtime_request_target ::
  "('c, 's) http_env \<Rightarrow> string \<Rightarrow> bool \<Rightarrow> failure + request_target" where
  "resolve_runtime_request_target env url validate_public_target =
     and_then (ok_or (''request_error'', ''target_url is not a valid URL'') (he_parse_url env url)) (\<lambda>parsed.
       if pu_scheme parsed \<noteq> ''http'' \<and> pu_scheme parsed \<noteq> ''https'' then
         Inl (''request_error'', ''target_url scheme '' @ [CHR 0x27] @ pu_scheme parsed @ [CHR 0x27] @
                '' is not allowed; use http or https'')
       else
         and_then (ok_or (''request_error'', ''target_url must have a host'') (pu_host parsed)) (\<lambda>host.
           let port = unwrap_or (pu_port_or_default parsed) 80 in
           and_then (resolve_runtime_target (he_lookup_host env) host port validate_public_target)
             (\<lambda>resolved.
                Inr \<lparr>rt_url = parsed, rt_scheme = pu_scheme parsed, rt_host = map to_ascii_lower host,
                     rt_port = port, rt_resolved_addrs = resolved\<rparr>)))"

section \<open>The client cache\<close>

text \<open>\<open>insert\<close> keeps a client another task has cached since the lookup.\<close>

definition cache_insert ::
  "('c, 's) http_env \<Rightarrow> client_key \<Rightarrow> 'c \<Rightarrow> 's \<Rightarrow> 'c \<times> 's" where
  "cache_insert env key client s =
     (case he_lru_get env key s of
        (Some existing, s) \<Rightarrow> (existing, s)
      | (None, s) \<Rightarrow> (client, he_lru_put env key client s))"

text \<open>
  Between the lookup and the insertion other tasks may build and insert the clients of the targets
  \<open>he_other_tasks\<close>, each with the cache locked.
\<close>

definition run_other_tasks :: "('c, 's) http_env \<Rightarrow> 's \<Rightarrow> 's" where
  "run_other_tasks env s =
     foldl (\<lambda>s key.
         case he_build_client env (fst key) (snd key) of
           Inl _ \<Rightarrow> s
         | Inr client \<Rightarrow> snd (cache_insert env key client s))
       s (he_other_tasks env)"

definition build_runtime_client ::
  "('c, 's) http_env \<Rightarrow> request_target \<Rightarrow> 's \<Rightarrow> (failure + 'c) \<times> 's" where
  "build_runtime_client env target s =
     (let key = (rt_host target, rt_resolved_addrs target) in
      case he_lru_get env key s of
        (Some client, s) \<Rightarrow> (Inr client, s)
      | (None, s) \<Rightarrow>
          (let s = run_other_tasks env s in
           case he_build_client env (rt_host target) (rt_resolved_addrs target) of
             Inl e \<Rightarrow> (Inl (''request_error'', e), s)
           | Inr client \<Rightarrow>
               (case cache_insert env key client s of (client, s) \<Rightarrow> (Inr client, s))))"

section \<open>Certificates\<close>

definition evaluate_certificate_expiry :: "http_lib \<Rightarrow> certificate_metadata \<Rightarrow> int \<Rightarrow> failure option" where
  "evaluate_certificate_expiry lib m warning_days =
     (let warning_days = max warning_days (7 + 1);
          message = ''TLS certificate for '' @ cert_domain m @ '' expires in '' @
                    show_int (cert_days_remaining m) @ '' days at '' @ hl_to_rfc3339 lib (cert_expires_at m)
      in if cert_days_remaining m \<le> 7 then Some (''ssl_certificate_expiring_critical'', message)
         else if cert_days_remaining m \<le> warning_days then Some (''ssl_certificate_expiring_warning'', message)
         else None)"

text \<open>Integer division of Rust truncates towards zero.\<close>

definition trunc_div :: "int \<Rightarrow> int \<Rightarrow> int" where
  "trunc_div a b = (if a < 0 then - ((- a) div b) else a div b)"

definition days_remaining_at :: "timestamp \<Rightarrow> timestamp \<Rightarrow> int" where
  "days_remaining_at now expires_at = as_i32 (trunc_div (num_seconds (expires_at - now)) 86400)"

definition parse_certificate_metadata ::
  "('c, 's) http_env \<Rightarrow> string \<Rightarrow> string \<Rightarrow> string + certificate_metadata" where
  "parse_certificate_metadata env der fallback_host =
     and_then (map_err (\<lambda>e. ''Failed to parse TLS certificate: '' @ e) (he_parse_certificate env der)) (\<lambda>cert.
     and_then (ok_or ''TLS certificate expiry timestamp is out of range''
                (he_from_timestamp env (xc_not_after_seconds cert))) (\<lambda>expires_at.
       Inr \<lparr>cert_expires_at = expires_at,
            cert_days_remaining = days_remaining_at (he_now env) expires_at,
            cert_issuer = xc_issuer cert, cert_subject = xc_subject cert,
            cert_domain =
              (case xc_san_dns_names cert of
                 dns # _ \<Rightarrow> dns
               | [] \<Rightarrow> unwrap_or (xc_common_name cert) fallback_host)\<rparr>))"

section \<open>TLS connections\<close>

text \<open>The loop over the resolved addresses: a time-out ends it, any other error moves to the next.\<close>

fun connect_each ::
  "('c, 's) http_env \<Rightarrow> tls_config \<Rightarrow> duration \<Rightarrow> request_target \<Rightarrow> failure option \<Rightarrow> socket_addr list \<Rightarrow>
   failure + string list option" where
  "connect_each env cfg timeout target last_error [] =
     Inl (unwrap_or last_error
       (''connect_error'', ''Could not connect to any resolved address for '' @ rt_host target @ '':'' @
          show_nat (rt_port target)))"
| "connect_each env cfg timeout target last_error (addr # addrs) =
     (case he_tcp_connect env timeout addr of
        TcpFailed e \<Rightarrow> connect_each env cfg timeout target (Some (''connect_error'', e)) addrs
      | TcpTimedOut \<Rightarrow> Inl (''timeout'', ''Timed out connecting to '' @ show_socket_addr addr)
      | TcpConnected \<Rightarrow>
          (case he_tls_connect env cfg timeout (rt_host target) addr of
             TlsStream certs \<Rightarrow> Inr certs
           | TlsFailed e \<Rightarrow> connect_each env cfg timeout target (Some (''ssl_certificate_invalid'', e)) addrs
           | TlsTimedOut \<Rightarrow> Inl (''timeout'', ''Timed out during TLS handshake to '' @ show_socket_addr addr)))"

definition connect_tls_with_config ::
  "('c, 's) http_env \<Rightarrow> request_target \<Rightarrow> duration \<Rightarrow> tls_config \<Rightarrow> failure + string list option" where
  "connect_tls_with_config env target timeout cfg =
     (if \<not> he_server_name_ok env (rt_host target) then
        Inl (''ssl_certificate_invalid'', ''target_url host is not a valid TLS server name'')
      else connect_each env cfg timeout target None (rt_resolved_addrs target))"

definition inspect_tls_certificate ::
  "('c, 's) http_env \<Rightarrow> request_target \<Rightarrow> duration \<Rightarrow>
   (string \<times> string \<times> certificate_metadata option) + certificate_metadata" where
  "inspect_tls_certificate env target timeout =
     and_then
       (map_err (\<lambda>(reason, message). (reason, message, None))
         (connect_tls_with_config env target timeout InspectionConfig))
       (\<lambda>certificates.
          case certificates of
            Some (leaf # _) \<Rightarrow>
              map_err (\<lambda>e. (''ssl_certificate_invalid'', e, None))
                (parse_certificate_metadata env leaf (rt_host target))
          | _ \<Rightarrow> Inl (''ssl_certificate_invalid'', ''TLS server did not present a certificate'', None))"

text \<open>\<open>he_platform_verifier\<close> is the error of building the validating configuration, if it failed.\<close>

definition validate_tls_certificate ::
  "('c, 's) http_env \<Rightarrow> request_target \<Rightarrow> duration \<Rightarrow> failure + unit" where
  "validate_tls_certificate env target timeout =
     (case he_platform_verifier env of
        Some e \<Rightarrow> Inl (''ssl_certificate_invalid'', e)
      | None \<Rightarrow> and_then (connect_tls_with_config env target timeout ValidatedConfig) (\<lambda>_. Inr ()))"

definition probe_tls_certificate ::
  "('c, 's) http_env \<Rightarrow> request_target \<Rightarrow> duration \<Rightarrow>
   (string \<times> string \<times> certificate_metadata option) + certificate_metadata" where
  "probe_tls_certificate env target timeout =
     and_then (inspect_tls_certificate env target timeout) (\<lambda>inspected.
       case validate_tls_certificate env target timeout of
         Inl (reason, message) \<Rightarrow>
           Inl (if cert_days_remaining inspected < 0 then ''ssl_certificate_expired'' else reason,
                message, Some inspected)
       | Inr _ \<Rightarrow> Inr inspected)"

definition evaluate_ssl_certificate_for_target ::
  "http_lib \<Rightarrow> ('c, 's) http_env \<Rightarrow> request_target \<Rightarrow> int \<Rightarrow> duration \<Rightarrow> check_result + certificate_metadata" where
  "evaluate_ssl_certificate_for_target lib env target warning_days timeout =
     (if rt_scheme target \<noteq> ''https'' then
        Inl (failed_check None ''ssl_certificate_invalid''
               ''SSL certificate checks require an https target_url'' None)
      else
        (case probe_tls_certificate env target timeout of
           Inr m \<Rightarrow>
             (case evaluate_certificate_expiry lib m warning_days of
                Some (reason, message) \<Rightarrow> Inl (failed_check None reason message (Some m))
              | None \<Rightarrow> Inr m)
         | Inl (reason, message, cert) \<Rightarrow> Inl (failed_check None reason message cert)))"

section \<open>The two checks\<close>

definition classify_request_error :: "reqwest_error \<Rightarrow> string" where
  "classify_request_error e =
     (if re_is_connect e then ''connect_error''
      else if re_is_timeout e then ''timeout''
      else if re_is_redirect e then ''redirect_error''
      else ''request_error'')"

definition default_ssl_expiry_warning_days :: int where
  "default_ssl_expiry_warning_days = 14"

record http_check_config =
  hcc_max_response_body_bytes :: nat
  hcc_validate_public_target :: bool

definition elapsed_i32 :: "('c, 's) http_env \<Rightarrow> int" where
  "elapsed_i32 env = as_i32 (int (he_elapsed_ms env))"

definition send_request ::
  "http_lib \<Rightarrow> ('c, 's) http_env \<Rightarrow> 'c \<Rightarrow> request_target \<Rightarrow> int \<Rightarrow> http_assertions \<Rightarrow> duration \<Rightarrow>
   http_check_config \<Rightarrow> certificate_metadata option \<Rightarrow> check_result" where
  "send_request lib env client target expected_status_code a timeout config cert =
     (case he_send env client (rt_url target) timeout of
        Inr response \<Rightarrow>
          result_of_response lib response expected_status_code a (elapsed_i32 env)
            (hcc_max_response_body_bytes config) cert
      | Inl e \<Rightarrow> failed_check (Some (elapsed_i32 env)) (classify_request_error e) (re_text e) cert)"

definition check_url_internal ::
  "http_lib \<Rightarrow> ('c, 's) http_env \<Rightarrow> string \<Rightarrow> int \<Rightarrow> http_assertions \<Rightarrow> duration \<Rightarrow> http_check_config \<Rightarrow> 's \<Rightarrow>
   check_result \<times> 's" where
  "check_url_internal lib env url expected_status_code a timeout config s =
     (let elapsed = Some (elapsed_i32 env) in
      case resolve_runtime_request_target env url (hcc_validate_public_target config) of
        Inl (reason, message) \<Rightarrow> (failed_check elapsed reason message None, s)
      | Inr target \<Rightarrow>
          (case (if ha_ssl_certificate_checks_enabled a then
                   and_then (evaluate_ssl_certificate_for_target lib env target
                     (unwrap_or (ha_ssl_expiry_warning_days a) default_ssl_expiry_warning_days) timeout)
                     (\<lambda>m. Inr (Some m))
                 else Inr None) of
             Inl result \<Rightarrow> (result\<lparr>cr_response_time_ms := elapsed\<rparr>, s)
           | Inr cert \<Rightarrow>
               (case build_runtime_client env target s of
                  (Inl (reason, message), s) \<Rightarrow> (failed_check elapsed reason message cert, s)
                | (Inr client, s) \<Rightarrow>
                    (send_request lib env client target expected_status_code a timeout config cert, s))))"

definition check_ssl_certificate_internal ::
  "http_lib \<Rightarrow> ('c, 's) http_env \<Rightarrow> string \<Rightarrow> int option \<Rightarrow> duration \<Rightarrow> bool \<Rightarrow> check_result" where
  "check_ssl_certificate_internal lib env url warning_days timeout validate_public_target =
     (let elapsed = Some (elapsed_i32 env) in
      case resolve_runtime_request_target env url validate_public_target of
        Inl (reason, message) \<Rightarrow> failed_check elapsed reason message None
      | Inr target \<Rightarrow>
          (case evaluate_ssl_certificate_for_target lib env target
                  (unwrap_or warning_days default_ssl_expiry_warning_days) timeout of
             Inr m \<Rightarrow>
               \<lparr>cr_is_success = True, cr_status_code = None, cr_response_time_ms = elapsed,
                cr_failure_reason = None, cr_error_message = None, cr_certificate_metadata = Some m\<rparr>
           | Inl result \<Rightarrow> result\<lparr>cr_response_time_ms := elapsed\<rparr>))"

section \<open>Facts about targets and the cache\<close>

lemma sorted_distinct_remdups_adj: "sorted xs \<Longrightarrow> distinct (remdups_adj (xs :: 'a::linorder list))"
  by (induction xs rule: remdups_adj.induct) force+

lemma resolve_runtime_target_InrD:
  assumes "resolve_runtime_target lookup host port validate = Inr addrs"
  shows "addrs \<noteq> []" and "sorted addrs" and "distinct addrs"
    and "set addrs = set (case parse_ip host of Some ip \<Rightarrow> [(ip, port)]
           | None \<Rightarrow> unwrap_or (lookup (host @ '':'' @ show_nat port)) [])"
    and "validate \<Longrightarrow> \<forall>a \<in> set addrs. check_ip_is_public (fst a)"
proof -
  obtain resolved where res: "resolved \<noteq> []" "addrs = remdups_adj (sort resolved)"
    "resolved = (case parse_ip host of Some ip \<Rightarrow> [(ip, port)]
       | None \<Rightarrow> unwrap_or (lookup (host @ '':'' @ show_nat port)) [])"
    using assms
    by (auto simp: resolve_runtime_target_def Let_def and_then_eq_Inr ok_or_def
        split: option.splits if_splits)
  then have "set addrs = set resolved" by simp
  with res show "addrs \<noteq> []" "sorted addrs" "distinct addrs"
    "set addrs = set (case parse_ip host of Some ip \<Rightarrow> [(ip, port)]
           | None \<Rightarrow> unwrap_or (lookup (host @ '':'' @ show_nat port)) [])"
    by (auto simp: sorted_distinct_remdups_adj simp flip: set_empty)
  show "\<forall>a \<in> set addrs. check_ip_is_public (fst a)" if validate
    using assms that
    by (auto simp: resolve_runtime_target_def Let_def and_then_eq_Inr list_ex_iff
        split: option.splits if_splits)
qed

lemma resolve_request_target_InrD:
  assumes "resolve_runtime_request_target env url validate = Inr t"
  shows "validate \<Longrightarrow> \<forall>a \<in> set (rt_resolved_addrs t). check_ip_is_public (fst a)"
    and "rt_resolved_addrs t \<noteq> []" and "rt_scheme t = ''http'' \<or> rt_scheme t = ''https''"
    and "\<exists>host. he_parse_url env url = Some (rt_url t) \<and> pu_host (rt_url t) = Some host \<and>
      rt_host t = map to_ascii_lower host \<and>
      resolve_runtime_target (he_lookup_host env) host (unwrap_or (pu_port_or_default (rt_url t)) 80) validate =
        Inr (rt_resolved_addrs t)"
proof -
  obtain host port where r: "resolve_runtime_target (he_lookup_host env) host port validate = Inr (rt_resolved_addrs t)"
    and u: "he_parse_url env url = Some (rt_url t)" "pu_host (rt_url t) = Some host"
      "rt_host t = map to_ascii_lower host"
    and port: "port = unwrap_or (pu_port_or_default (rt_url t)) 80"
    and scheme: "rt_scheme t = ''http'' \<or> rt_scheme t = ''https''"
    using assms
    by (auto simp: resolve_runtime_request_target_def Let_def and_then_eq_Inr ok_or_def
        split: option.splits if_splits)
  show "rt_scheme t = ''http'' \<or> rt_scheme t = ''https''"
    by (rule scheme)
  show "\<exists>host. he_parse_url env url = Some (rt_url t) \<and> pu_host (rt_url t) = Some host \<and>
      rt_host t = map to_ascii_lower host \<and>
      resolve_runtime_target (he_lookup_host env) host (unwrap_or (pu_port_or_default (rt_url t)) 80) validate =
        Inr (rt_resolved_addrs t)"
    using r u port by blast
  show "rt_resolved_addrs t \<noteq> []"
    by (rule resolve_runtime_target_InrD(1) [OF r])
  show "validate \<Longrightarrow> \<forall>a \<in> set (rt_resolved_addrs t). check_ip_is_public (fst a)"
    by (rule resolve_runtime_target_InrD(5) [OF r])
qed

text \<open>What the LRU map documents: a lookup returns a binding, changing at most the eviction order; an
  insertion binds its key and may evict.\<close>

definition lru_laws :: "('c, 's) http_env \<Rightarrow> bool" where
  "lru_laws env \<longleftrightarrow>
     (\<forall>k k' s. fst (he_lru_get env k' (snd (he_lru_get env k s))) = fst (he_lru_get env k' s)) \<and>
     (\<forall>k k' c s. fst (he_lru_get env k' (he_lru_put env k c s)) \<in>
        {None, if k' = k then Some c else fst (he_lru_get env k' s)})"

text \<open>Every client in the cache was built for its key.\<close>

definition cache_sound :: "('c, 's) http_env \<Rightarrow> 's \<Rightarrow> bool" where
  "cache_sound env s \<longleftrightarrow>
     (\<forall>k c. fst (he_lru_get env k s) = Some c \<longrightarrow> he_build_client env (fst k) (snd k) = Inr c)"

lemma cache_sound_get: "lru_laws env \<Longrightarrow> cache_sound env s \<Longrightarrow> cache_sound env (snd (he_lru_get env k s))"
  by (cases k) (simp add: lru_laws_def cache_sound_def)

lemma cache_sound_put:
  assumes "lru_laws env" "cache_sound env s" "he_build_client env (fst k) (snd k) = Inr c"
  shows "cache_sound env (he_lru_put env k c s)"
  unfolding cache_sound_def
proof (intro allI impI)
  fix k' c'
  assume "fst (he_lru_get env k' (he_lru_put env k c s)) = Some c'"
  moreover have "fst (he_lru_get env k' (he_lru_put env k c s)) \<in>
      {None, if k' = k then Some c else fst (he_lru_get env k' s)}"
    using assms(1) unfolding lru_laws_def by blast
  ultimately have "(if k' = k then Some c else fst (he_lru_get env k' s)) = Some c'"
    by auto
  then show "he_build_client env (fst k') (snd k') = Inr c'"
    using assms(2,3) by (auto simp: cache_sound_def split: if_splits)
qed

lemma cache_insert_sound:
  assumes "lru_laws env" "cache_sound env s" "he_build_client env (fst k) (snd k) = Inr c"
  shows "cache_sound env (snd (cache_insert env k c s)) \<and>
    he_build_client env (fst k) (snd k) = Inr (fst (cache_insert env k c s))"
proof (cases "he_lru_get env k s")
  case (Pair r s')
  have s': "cache_sound env s'"
    using cache_sound_get [OF assms(1,2), of k] Pair by simp
  show ?thesis
  proof (cases r)
    case None
    then show ?thesis
      using Pair assms(3) cache_sound_put [OF assms(1) s' assms(3)] by (simp add: cache_insert_def)
  next
    case (Some c')
    then show ?thesis
      using Pair assms(2) s' by (auto simp: cache_insert_def cache_sound_def)
  qed
qed

lemma run_other_tasks_sound:
  assumes "lru_laws env" "cache_sound env s"
  shows "cache_sound env (run_other_tasks env s)"
proof -
  have "cache_sound env (foldl (\<lambda>s key. case he_build_client env (fst key) (snd key) of
      Inl _ \<Rightarrow> s | Inr client \<Rightarrow> snd (cache_insert env key client s)) s keys)" for keys
    using assms(2) cache_insert_sound [OF assms(1)]
    by (induction keys arbitrary: s) (simp_all split: sum.splits)
  then show ?thesis
    unfolding run_other_tasks_def .
qed

lemma build_runtime_client_sound:
  assumes "lru_laws env" "cache_sound env s" "build_runtime_client env t s = (r, s')"
  shows "cache_sound env s' \<and>
    (\<forall>c. r = Inr c \<longrightarrow> he_build_client env (rt_host t) (rt_resolved_addrs t) = Inr c)"
proof -
  let ?k = "(rt_host t, rt_resolved_addrs t)"
  obtain g s1 where g: "he_lru_get env ?k s = (g, s1)"
    by force
  have s1: "cache_sound env s1"
    using cache_sound_get [OF assms(1,2), of ?k] g by simp
  show ?thesis
  proof (cases g)
    case (Some c)
    with assms(3) g have "r = Inr c" "s' = s1"
      by (simp_all add: build_runtime_client_def Let_def)
    moreover have "he_build_client env (rt_host t) (rt_resolved_addrs t) = Inr c"
      using assms(2) g Some unfolding cache_sound_def by (metis fst_conv snd_conv)
    ultimately show ?thesis
      using s1 by simp
  next
    case None
    let ?s2 = "run_other_tasks env s1"
    have s2: "cache_sound env ?s2"
      by (rule run_other_tasks_sound [OF assms(1) s1])
    show ?thesis
    proof (cases "he_build_client env (rt_host t) (rt_resolved_addrs t)")
      case (Inl e)
      with None g assms(3) s2 show ?thesis
        by (auto simp: build_runtime_client_def Let_def)
    next
      case (Inr c)
      with None g assms(3) have "r = Inr (fst (cache_insert env ?k c ?s2))"
        "s' = snd (cache_insert env ?k c ?s2)"
        by (auto simp: build_runtime_client_def Let_def split: prod.splits)
      then show ?thesis
        using cache_insert_sound [OF assms(1) s2, of ?k c] Inr by simp
    qed
  qed
qed

lemma evaluate_ssl_failed:
  assumes "evaluate_ssl_certificate_for_target lib env t w timeout = Inl result"
  shows "\<exists>reason message cert. result = failed_check None reason message cert"
  using assms by (auto simp: evaluate_ssl_certificate_for_target_def split: if_splits sum.splits option.splits)

lemma failed_check_time_wf [simp]:
  "result_wf (failed_check t reason message cert \<lparr>cr_response_time_ms := t'\<rparr>)"
  by (simp add: result_wf_def failed_check_def)

text \<open>
  The same world with another network behind the connections: what answers a client's request, a
  TCP connection and a TLS handshake. Nothing but the probe and the request looks at it.
\<close>

definition with_network ::
  "('c \<Rightarrow> parsed_url \<Rightarrow> duration \<Rightarrow> reqwest_error + http_response) \<Rightarrow>
   (duration \<Rightarrow> socket_addr \<Rightarrow> tcp_outcome) \<Rightarrow>
   (tls_config \<Rightarrow> duration \<Rightarrow> string \<Rightarrow> socket_addr \<Rightarrow> tls_outcome) \<Rightarrow> ('c, 's) http_env \<Rightarrow> ('c, 's) http_env" where
  "with_network send tcp tls env = env\<lparr>he_send := send, he_tcp_connect := tcp, he_tls_connect := tls\<rparr>"

lemma with_network_sel:
  "he_elapsed_ms (with_network f g h env) = he_elapsed_ms env"
  "he_now (with_network f g h env) = he_now env"
  "he_parse_url (with_network f g h env) = he_parse_url env"
  "he_lookup_host (with_network f g h env) = he_lookup_host env"
  "he_lru_get (with_network f g h env) = he_lru_get env"
  "he_lru_put (with_network f g h env) = he_lru_put env"
  "he_other_tasks (with_network f g h env) = he_other_tasks env"
  "he_build_client (with_network f g h env) = he_build_client env"
  "he_send (with_network f g h env) = f"
  "he_server_name_ok (with_network f g h env) = he_server_name_ok env"
  "he_tcp_connect (with_network f g h env) = g"
  "he_tls_connect (with_network f g h env) = h"
  "he_platform_verifier (with_network f g h env) = he_platform_verifier env"
  "he_parse_certificate (with_network f g h env) = he_parse_certificate env"
  "he_from_timestamp (with_network f g h env) = he_from_timestamp env"
  by (simp_all add: with_network_def)

lemma cache_insert_network: "cache_insert (with_network f g h env) = cache_insert env"
  unfolding cache_insert_def fun_eq_iff with_network_sel by simp

lemma run_other_tasks_network: "run_other_tasks (with_network f g h env) = run_other_tasks env"
  unfolding run_other_tasks_def fun_eq_iff cache_insert_network with_network_sel by simp

lemma network_irrelevant:
  "resolve_runtime_request_target (with_network f g h env) = resolve_runtime_request_target env"
  "build_runtime_client (with_network f g h env) = build_runtime_client env"
  "elapsed_i32 (with_network f g h env) = elapsed_i32 env"
  unfolding resolve_runtime_request_target_def build_runtime_client_def elapsed_i32_def fun_eq_iff
    run_other_tasks_network cache_insert_network with_network_sel
  by simp_all

text \<open>A probe of addresses on which the two networks agree gives the same certificate.\<close>

definition network_agrees ::
  "(duration \<Rightarrow> socket_addr \<Rightarrow> tcp_outcome) \<Rightarrow>
   (tls_config \<Rightarrow> duration \<Rightarrow> string \<Rightarrow> socket_addr \<Rightarrow> tls_outcome) \<Rightarrow> ('c, 's) http_env \<Rightarrow> socket_addr \<Rightarrow> bool" where
  "network_agrees tcp tls env addr \<longleftrightarrow>
     (\<forall>timeout. tcp timeout addr = he_tcp_connect env timeout addr) \<and>
     (\<forall>cfg timeout host. tls cfg timeout host addr = he_tls_connect env cfg timeout host addr)"

lemma connect_each_network:
  "list_all (network_agrees g h env) addrs \<Longrightarrow>
   connect_each (with_network f g h env) cfg timeout t l addrs = connect_each env cfg timeout t l addrs"
  by (induction addrs arbitrary: l)
    (simp_all add: with_network_sel network_agrees_def split: tcp_outcome.split tls_outcome.split)

lemma connect_tls_network:
  "list_all (network_agrees g h env) (rt_resolved_addrs t) \<Longrightarrow>
   connect_tls_with_config (with_network f g h env) t = connect_tls_with_config env t"
  unfolding connect_tls_with_config_def fun_eq_iff with_network_sel
  by (simp add: connect_each_network)

lemma probe_network:
  assumes "list_all (network_agrees g h env) (rt_resolved_addrs t)"
  shows "evaluate_ssl_certificate_for_target lib (with_network f g h env) t =
    evaluate_ssl_certificate_for_target lib env t"
  unfolding evaluate_ssl_certificate_for_target_def probe_tls_certificate_def inspect_tls_certificate_def
    validate_tls_certificate_def parse_certificate_metadata_def connect_tls_network [OF assms]
    with_network_sel
  by (rule refl)

text \<open>Two networks that agree on what a check reaches give the same check.\<close>

lemma check_url_network:
  assumes "\<And>t. resolve_runtime_request_target env url (hcc_validate_public_target config) = Inr t \<Longrightarrow>
      list_all (network_agrees g h env) (rt_resolved_addrs t)"
    and "\<And>t client s'. resolve_runtime_request_target env url (hcc_validate_public_target config) = Inr t \<Longrightarrow>
      build_runtime_client env t s = (Inr client, s') \<Longrightarrow>
      he_send env client (rt_url t) timeout = f client (rt_url t) timeout"
  shows "check_url_internal lib (with_network f g h env) url expected a timeout config s =
    check_url_internal lib env url expected a timeout config s"
proof (cases "resolve_runtime_request_target env url (hcc_validate_public_target config)")
  case (Inl e)
  then show ?thesis
    by (simp add: check_url_internal_def network_irrelevant)
next
  case (Inr t)
  have "send_request lib (with_network f g h env) client t expected a timeout config cert =
      send_request lib env client t expected a timeout config cert"
    if "build_runtime_client env t s = (Inr client, s')" for client s' cert
    using assms(2) [OF Inr that] unfolding send_request_def network_irrelevant with_network_sel by simp
  with Inr show ?thesis
    by (simp add: check_url_internal_def network_irrelevant probe_network [OF assms(1) [OF Inr]] Let_def
        split: sum.split prod.split)
qed

lemma check_ssl_network:
  assumes "\<And>t. resolve_runtime_request_target env url validate = Inr t \<Longrightarrow>
      list_all (network_agrees g h env) (rt_resolved_addrs t)"
  shows "check_ssl_certificate_internal lib (with_network f g h env) url days timeout validate =
    check_ssl_certificate_internal lib env url days timeout validate"
proof (cases "resolve_runtime_request_target env url validate")
  case (Inr t)
  then show ?thesis
    by (simp add: check_ssl_certificate_internal_def network_irrelevant probe_network [OF assms [OF Inr]])
qed (simp add: check_ssl_certificate_internal_def network_irrelevant)

lemma check_url_cache_sound:
  assumes "lru_laws env" "cache_sound env s"
  shows "cache_sound env (snd (check_url_internal lib env url expected a timeout config s))"
  using build_runtime_client_sound [OF assms] assms(2)
  by (auto simp: check_url_internal_def Let_def split: sum.splits prod.splits)

section \<open>Properties of the network checks\<close>

text \<open>
  A target resolves to a non-empty list of addresses, sorted and without duplicates: the literal
  address of the host or everything the resolver returned for it. When public targets are required,
  a single address in a refused block refuses the whole target.
\<close>

theorem resolved_target_is_pinned_and_public:
  "case resolve_runtime_target lookup host port validate of
     Inr addrs \<Rightarrow>
       addrs \<noteq> [] \<and> sorted addrs \<and> distinct addrs \<and>
       set addrs = set (case parse_ip host of Some ip \<Rightarrow> [(ip, port)]
         | None \<Rightarrow> unwrap_or (lookup (host @ '':'' @ show_nat port)) []) \<and>
       (if validate then list_all (\<lambda>a. check_ip_is_public (fst a)) addrs else True)
   | Inl (reason, _) \<Rightarrow>
       if parse_ip host = None \<and> unwrap_or (lookup (host @ '':'' @ show_nat port)) [] = []
       then reason = ''connect_error''
       else reason = ''blocked_address'' \<and> validate"
proof (cases "resolve_runtime_target lookup host port validate")
  case (Inr addrs)
  then show ?thesis
    using resolve_runtime_target_InrD [OF Inr] by (simp add: list_all_iff)
next
  case (Inl e)
  then show ?thesis
    by (auto simp: resolve_runtime_target_def Let_def and_then_eq_Inl ok_or_def
        split: option.splits if_splits)
qed

text \<open>
  Where a request of a client goes: to the address itself when the URL names one (an IPv6 address is
  in brackets there), and to the addresses \<^verbatim>\<open>resolve_to_addrs\<close> pinned when the URL names the pinned
  host. For any other host the client asks the resolver again, and nothing is known.
\<close>

definition host_literal :: "string \<Rightarrow> ip_addr option" where
  "host_literal h =
     (case parse_ip h of
        Some ip \<Rightarrow> Some ip
      | None \<Rightarrow>
          if h \<noteq> [] \<and> hd h = CHR ''['' \<and> last h = CHR '']'' then
            (case parse_ip (butlast (tl h)) of Some (V6 a b c d e f g i) \<Rightarrow> Some (V6 a b c d e f g i) | _ \<Rightarrow> None)
          else None)"

definition goes_to_public_addresses :: "string \<Rightarrow> socket_addr list \<Rightarrow> parsed_url \<Rightarrow> bool" where
  "goes_to_public_addresses pinned addrs u =
     (case pu_host u of
        None \<Rightarrow> False
      | Some h \<Rightarrow>
          (case host_literal h of
             Some ip \<Rightarrow> check_ip_is_public ip
           | None \<Rightarrow> map to_ascii_lower h = pinned \<and> list_all (\<lambda>a. check_ip_is_public (fst a)) addrs))"

text \<open>
  The documented behaviour of looking up a socket address: the standard library parses it before it
  asks a name server.
\<close>

definition resolver_reads_literals :: "('c, 's) http_env \<Rightarrow> bool" where
  "resolver_reads_literals env \<longleftrightarrow>
     (\<forall>url u h ip. he_parse_url env url = Some u \<and> pu_host u = Some h \<and> parse_ip h = None \<and>
        host_literal h = Some ip \<longrightarrow>
        (let port = unwrap_or (pu_port_or_default u) 80
         in he_lookup_host env (h @ '':'' @ show_nat port) = Some [(ip, port)]))"

lemma resolved_target_goes_public:
  assumes "resolve_runtime_request_target env url True = Inr t" "resolver_reads_literals env"
  shows "goes_to_public_addresses (rt_host t) (rt_resolved_addrs t) (rt_url t)"
proof -
  obtain h where h: "he_parse_url env url = Some (rt_url t)" "pu_host (rt_url t) = Some h"
    "rt_host t = map to_ascii_lower h"
    "resolve_runtime_target (he_lookup_host env) h (unwrap_or (pu_port_or_default (rt_url t)) 80) True =
       Inr (rt_resolved_addrs t)"
    using resolve_request_target_InrD(4) [OF assms(1)] by blast
  note addrs = resolve_runtime_target_InrD(4,5) [OF h(4)]
  show ?thesis
  proof (cases "host_literal h")
    case None
    then show ?thesis
      using addrs(2) h(2,3) by (simp add: goes_to_public_addresses_def list_all_iff)
  next
    case (Some ip)
    have "set (rt_resolved_addrs t) = {(ip, unwrap_or (pu_port_or_default (rt_url t)) 80)}"
    proof (cases "parse_ip h")
      case None
      then have "he_lookup_host env (h @ '':'' @ show_nat (unwrap_or (pu_port_or_default (rt_url t)) 80)) =
          Some [(ip, unwrap_or (pu_port_or_default (rt_url t)) 80)]"
        using assms(2) h(1,2) Some unfolding resolver_reads_literals_def Let_def by blast
      then show ?thesis
        using addrs(1) None by (simp add: unwrap_or_def)
    next
      case [simp]: (Some ip')
      then show ?thesis
        using addrs(1) \<open>host_literal h = Some ip\<close> by (simp add: host_literal_def)
    qed
    then show ?thesis
      using addrs(2) Some h(2) by (simp add: goes_to_public_addresses_def)
  qed
qed

text \<open>
  C14: with public targets required, an HTTP check and a certificate check reach only public
  addresses. Take any two networks that agree on the connections to public addresses and on the
  requests that go to public addresses: both checks give the same result and leave the same client
  cache, whatever a private address, or a request the pins do not cover, would answer. The cache
  (over an LRU map as it is documented) never hands out a client built for another host or other
  addresses, and stays so. The resolver answers a bracketed IPv6 literal with that address, as the
  standard library documents.
\<close>

theorem check_reaches_only_public_addresses:
  assumes "lru_laws env" "cache_sound env s" "hcc_validate_public_target config"
    and "resolver_reads_literals env"
    and "\<And>addr. check_ip_is_public (fst addr) \<Longrightarrow> network_agrees tcp tls env addr"
    and "\<And>host addrs client u timeout.
      he_build_client env host addrs = Inr client \<Longrightarrow> goes_to_public_addresses host addrs u \<Longrightarrow>
      send client u timeout = he_send env client u timeout"
  shows "check_url_internal lib (with_network send tcp tls env) url expected a timeout config s =
      check_url_internal lib env url expected a timeout config s \<and>
    check_ssl_certificate_internal lib (with_network send tcp tls env) url days timeout True =
      check_ssl_certificate_internal lib env url days timeout True \<and>
    cache_sound env (snd (check_url_internal lib env url expected a timeout config s))"
proof (intro conjI)
  have agree: "list_all (network_agrees tcp tls env) (rt_resolved_addrs t)"
    if "resolve_runtime_request_target env url True = Inr t" for t
    using resolve_request_target_InrD(1) [OF that] assms(5) by (simp add: list_all_iff)
  show "check_url_internal lib (with_network send tcp tls env) url expected a timeout config s =
      check_url_internal lib env url expected a timeout config s"
  proof (rule check_url_network)
    fix t client s'
    assume t: "resolve_runtime_request_target env url (hcc_validate_public_target config) = Inr t"
      and c: "build_runtime_client env t s = (Inr client, s')"
    have "goes_to_public_addresses (rt_host t) (rt_resolved_addrs t) (rt_url t)"
      using resolved_target_goes_public [OF _ assms(4)] t assms(3) by simp
    moreover have "he_build_client env (rt_host t) (rt_resolved_addrs t) = Inr client"
      using build_runtime_client_sound [OF assms(1,2) c] by simp
    ultimately show "he_send env client (rt_url t) timeout = send client (rt_url t) timeout"
      using assms(6) by simp
  qed (use agree assms(3) in simp)
  show "check_ssl_certificate_internal lib (with_network send tcp tls env) url days timeout True =
      check_ssl_certificate_internal lib env url days timeout True"
    by (rule check_ssl_network [OF agree])
  show "cache_sound env (snd (check_url_internal lib env url expected a timeout config s))"
    by (rule check_url_cache_sound [OF assms(1,2)])
qed

text \<open>
  An environment with a cache of one entry, whose clients answer only for the pinned host at a public
  address; another network answers everything else too.
\<close>

definition sample_http_env ::
  "(client_key \<Rightarrow> parsed_url \<Rightarrow> duration \<Rightarrow> reqwest_error + http_response) \<Rightarrow>
   (client_key, (client_key \<times> client_key) option) http_env" where
  "sample_http_env send =
     \<lparr>he_elapsed_ms = 80, he_now = 0,
      he_parse_url = (\<lambda>u. Some \<lparr>pu_href = u, pu_scheme = ''http'', pu_host = Some (drop 7 u),
                            pu_port_or_default = Some 80\<rparr>),
      he_lookup_host = (\<lambda>q. case host_literal (take (length q - 3) q) of
                            Some ip \<Rightarrow> Some [(ip, 80)] | None \<Rightarrow> Some [(V4 93 184 216 34, 80)]),
      he_lru_get = (\<lambda>k s. (case s of Some (k', c) \<Rightarrow> if k' = k then Some c else None | None \<Rightarrow> None, s)),
      he_lru_put = (\<lambda>k c s. Some (k, c)), he_other_tasks = [],
      he_build_client = (\<lambda>host addrs. Inr (host, addrs)), he_send = send,
      he_server_name_ok = (\<lambda>_. True), he_tcp_connect = (\<lambda>_ _. TcpConnected),
      he_tls_connect = (\<lambda>_ _ _ _. TlsStream None), he_platform_verifier = None,
      he_parse_certificate = (\<lambda>_. Inl ''bad''), he_from_timestamp = (\<lambda>_. None)\<rparr>"

definition sample_send :: "http_response \<Rightarrow> client_key \<Rightarrow> parsed_url \<Rightarrow> duration \<Rightarrow> reqwest_error + http_response" where
  "sample_send private client u timeout =
     Inr (if goes_to_public_addresses (fst client) (snd client) u then sample_response 200 ''all up'' else private)"

definition sample_tcp :: "duration \<Rightarrow> socket_addr \<Rightarrow> tcp_outcome" where
  "sample_tcp timeout addr = (if check_ip_is_public (fst addr) then TcpConnected else TcpFailed ''refused'')"

lemma sample_resolver: "resolver_reads_literals (sample_http_env send)"
proof -
  have "show_nat 80 = ''80''"
    by code_simp
  then show ?thesis
    by (auto simp: resolver_reads_literals_def sample_http_env_def unwrap_or_def)
qed

text \<open>
  In a network whose private addresses answer differently the checks of a host name, of a private
  and of a bracketed address come out the same.
\<close>

theorem check_reaches_only_public_addresses_witness:
  "list_all (\<lambda>url.
     check_url_internal sample_lib
       (with_network (sample_send (sample_response 500 ''secret'')) sample_tcp (\<lambda>_ _ _ _. TlsStream None)
         (sample_http_env (sample_send (sample_response 200 ''all up'')))) url 200
       sample_assertions (from_secs 10)
       \<lparr>hcc_max_response_body_bytes = 64, hcc_validate_public_target = True\<rparr> None =
     check_url_internal sample_lib (sample_http_env (sample_send (sample_response 200 ''all up''))) url 200
       sample_assertions (from_secs 10)
       \<lparr>hcc_max_response_body_bytes = 64, hcc_validate_public_target = True\<rparr> None)
   [''http://a.test'', ''http://10.0.0.1'', ''http://[2606:4700:4700::1111]'']"
proof -
  let ?env = "sample_http_env (sample_send (sample_response 200 ''all up''))"
  let ?send = "sample_send (sample_response 500 ''secret'')"
  have "lru_laws ?env" "cache_sound ?env None"
    by (auto simp: lru_laws_def cache_sound_def sample_http_env_def split: option.split)
  then have "check_url_internal lib (with_network ?send sample_tcp (\<lambda>_ _ _ _. TlsStream None) ?env) url e a t
        \<lparr>hcc_max_response_body_bytes = 64, hcc_validate_public_target = True\<rparr> None =
      check_url_internal lib ?env url e a t
        \<lparr>hcc_max_response_body_bytes = 64, hcc_validate_public_target = True\<rparr> None" for lib url e a t
    by (rule conjunct1 [OF check_reaches_only_public_addresses [OF _ _ _ sample_resolver]])
      (auto simp: sample_http_env_def sample_send_def network_agrees_def sample_tcp_def)
  then show ?thesis
    unfolding list.pred_set by blast
qed

text \<open>
  an SSL check succeeds exactly when the target is \<open>https\<close>, a certificate could be read, the
  platform's verifier accepts the connection, and more days remain than the warning threshold (never
  below eight); with seven days or fewer the failure is critical, otherwise a warning, and a
  rejected certificate that has expired is reported as expired. A failure always names its reason.
\<close>

theorem ssl_check_outcome:
  "let res = check_ssl_certificate_internal lib env url warning_days timeout validate in
   result_wf res \<and>
   (cr_is_success res \<longleftrightarrow>
      (\<exists>t m. resolve_runtime_request_target env url validate = Inr t \<and> rt_scheme t = ''https'' \<and>
         inspect_tls_certificate env t timeout = Inr m \<and> validate_tls_certificate env t timeout = Inr () \<and>
         max (unwrap_or warning_days 14) 8 < cert_days_remaining m)) \<and>
   (case resolve_runtime_request_target env url validate of
      Inl (reason, _) \<Rightarrow> cr_failure_reason res = Some reason
    | Inr t \<Rightarrow>
        if rt_scheme t \<noteq> ''https'' then cr_failure_reason res = Some ''ssl_certificate_invalid''
        else
          (case inspect_tls_certificate env t timeout of
             Inl (reason, _) \<Rightarrow> cr_failure_reason res = Some reason
           | Inr m \<Rightarrow>
               (case validate_tls_certificate env t timeout of
                  Inl (reason, _) \<Rightarrow>
                    cr_failure_reason res =
                      Some (if cert_days_remaining m < 0 then ''ssl_certificate_expired'' else reason)
                | Inr _ \<Rightarrow>
                    cr_failure_reason res =
                      (if cert_days_remaining m \<le> 7 then Some ''ssl_certificate_expiring_critical''
                       else if cert_days_remaining m \<le> max (unwrap_or warning_days 14) 8
                         then Some ''ssl_certificate_expiring_warning'' else None))))"
proof (cases "resolve_runtime_request_target env url validate")
  case (Inl e)
  then show ?thesis
    by (cases e) (simp add: check_ssl_certificate_internal_def Let_def)
next
  case (Inr t)
  then show ?thesis
    by (cases "inspect_tls_certificate env t timeout"; cases "validate_tls_certificate env t timeout")
      (auto simp: check_ssl_certificate_internal_def evaluate_ssl_certificate_for_target_def
        probe_tls_certificate_def evaluate_certificate_expiry_def default_ssl_expiry_warning_days_def
        Let_def result_wf_def)
qed

end
