(* ===== verification/Probe_Checkers.thy ===== *)
theory Probe_Checkers
  imports Http_Checker
begin

text \<open>
  The other checkers: \<^verbatim>\<open>src/monitoring/heartbeat_checker.rs\<close>, \<^verbatim>\<open>tcp_checker.rs\<close> and
  \<^verbatim>\<open>dns_checker.rs\<close>. The resolver, TCP and the \<open>hickory\<close> DNS client are arguments; a resource record
  carries the text of its names.
\<close>

section \<open>Heartbeats\<close>

definition heartbeat_allowed_age_seconds :: "site_monitor \<Rightarrow> int" where
  "heartbeat_allowed_age_seconds m =
     sat_add_i64 (max (sm_check_interval_seconds m) 0) (max (unwrap_or (sm_heartbeat_grace_seconds m) 0) 0)"

definition heartbeat_age_seconds :: "site_monitor \<Rightarrow> timestamp \<Rightarrow> int" where
  "heartbeat_age_seconds m now =
     max (num_seconds (now - unwrap_or (sm_last_heartbeat_received_at m) (sm_created_at m))) 0"

definition passed_check :: "int option \<Rightarrow> check_result" where
  "passed_check response_time_ms =
     \<lparr>cr_is_success = True, cr_status_code = None, cr_response_time_ms = response_time_ms,
      cr_failure_reason = None, cr_error_message = None, cr_certificate_metadata = None\<rparr>"

definition check_heartbeat :: "http_lib \<Rightarrow> site_monitor \<Rightarrow> timestamp \<Rightarrow> check_result" where
  "check_heartbeat lib m now =
     (let allowed = heartbeat_allowed_age_seconds m; age = heartbeat_age_seconds m now in
      if age \<le> allowed then passed_check None
      else
        let last_received_at =
              unwrap_or (map_option (hl_to_rfc3339 lib) (sm_last_heartbeat_received_at m)) ''never''
        in failed_check None ''heartbeat_overdue''
             (''last heartbeat received at '' @ last_received_at @ ''; overdue by '' @
              show_int (sat_sub_i64 age allowed) @ ''s'') None)"

section \<open>TCP\<close>

datatype lookup_outcome = LookupOk "socket_addr list" | LookupFailed | LookupTimedOut

record tcp_env =
  te_elapsed_ms :: nat
  te_lookup_host :: "string \<Rightarrow> lookup_outcome"
  te_connect :: "duration \<Rightarrow> socket_addr \<Rightarrow> tcp_outcome"

definition connect_failure :: "tcp_env \<Rightarrow> string \<Rightarrow> string \<Rightarrow> check_result" where
  "connect_failure env reason message =
     failed_check (Some (as_i32 (int (te_elapsed_ms env)))) reason message None"

definition blocked_addr :: "bool \<Rightarrow> socket_addr list \<Rightarrow> socket_addr option" where
  "blocked_addr validate_public addrs =
     (if validate_public then find (\<lambda>a. \<not> check_ip_is_public (fst a)) addrs else None)"

definition check_tcp :: "tcp_env \<Rightarrow> string \<Rightarrow> nat \<Rightarrow> duration \<Rightarrow> bool \<Rightarrow> check_result" where
  "check_tcp env host port connect_timeout validate_public =
     (case te_lookup_host env (host @ '':'' @ show_nat port) of
        LookupFailed \<Rightarrow> connect_failure env ''dns_error'' ''hostname could not be resolved''
      | LookupTimedOut \<Rightarrow> connect_failure env ''dns_error'' ''hostname DNS lookup timed out''
      | LookupOk addrs \<Rightarrow>
          (case addrs of
             [] \<Rightarrow> connect_failure env ''dns_error'' ''hostname resolved to no addresses''
           | addr # _ \<Rightarrow>
               (case blocked_addr validate_public addrs of
                  Some blocked \<Rightarrow>
                    connect_failure env ''ssrf_blocked''
                      (''target resolved to non-public IP '' @ show_ip (fst blocked))
                | None \<Rightarrow>
                    (case te_connect env connect_timeout addr of
                       TcpConnected \<Rightarrow> passed_check (Some (as_i32 (int (te_elapsed_ms env))))
                     | TcpFailed e \<Rightarrow> connect_failure env ''connect_error'' e
                     | TcpTimedOut \<Rightarrow>
                         connect_failure env ''connect_timeout''
                           (''connection timed out after '' @ show_nat (as_millis connect_timeout) @ ''ms'')))))"

section \<open>DNS\<close>

datatype dns_record_type = RecA | RecAAAA | RecCNAME | RecMX | RecTXT | RecNS

datatype rdata =
    RdA ip_addr
  | RdAAAA ip_addr
  | RdCNAME string
  | RdNS string
  | RdMX nat string
  | RdTXT "string list"
  | RdOther

record dns_env =
  de_elapsed_ms :: nat
  de_system_resolver_error :: "string option"
  de_custom_resolver_error :: "ip_addr \<Rightarrow> string option"
  de_lookup :: "ip_addr option \<Rightarrow> duration \<Rightarrow> string \<Rightarrow> dns_record_type \<Rightarrow> string + rdata list"

text \<open>
  \<open>to_uppercase\<close>. The capitals of U+00B5 and U+00FF lie outside the characters of the model; they are
  kept, which shows only in the text of an error.
\<close>

definition uppercase_char :: "char \<Rightarrow> string" where
  "uppercase_char c =
     (let n = char_code c in
      if n = 223 then ''SS''
      else if is_ascii_lowercase c \<or> (224 \<le> n \<and> n \<le> 254 \<and> n \<noteq> 247) then [char_of (n - 32)]
      else [c])"

definition to_uppercase :: "string \<Rightarrow> string" where
  "to_uppercase s = concat (map uppercase_char s)"

definition parse_record_type :: "string \<Rightarrow> string + dns_record_type" where
  "parse_record_type s =
     (let u = to_uppercase s in
      if u = ''A'' then Inr RecA
      else if u = ''AAAA'' then Inr RecAAAA
      else if u = ''CNAME'' then Inr RecCNAME
      else if u = ''MX'' then Inr RecMX
      else if u = ''TXT'' then Inr RecTXT
      else if u = ''NS'' then Inr RecNS
      else Inl (''unsupported record type '' @ [CHR 0x27] @ u @ [CHR 0x27] @
             ''; supported: A, AAAA, CNAME, MX, TXT, NS''))"

definition is_valid_record_type :: "string \<Rightarrow> bool" where
  "is_valid_record_type s = is_ok (parse_record_type s)"

definition parse_nameserver_ip :: "string \<Rightarrow> string + ip_addr" where
  "parse_nameserver_ip nameserver =
     (let addr = trim nameserver in
      ok_or (''nameserver must be an IP address, got: '' @ addr) (parse_ip addr))"

text \<open>A resolver is the nameserver it asks, \<open>None\<close> for the system's.\<close>

definition build_resolver :: "dns_env \<Rightarrow> string option \<Rightarrow> bool \<Rightarrow> string + ip_addr option" where
  "build_resolver env nameserver validate_public =
     (case nameserver of
        None \<Rightarrow> (case de_system_resolver_error env of Some e \<Rightarrow> Inl e | None \<Rightarrow> Inr None)
      | Some ns \<Rightarrow>
          and_then (parse_nameserver_ip ns) (\<lambda>ip.
            if validate_public \<and> \<not> check_ip_is_public ip then
              Inl (''nameserver '' @ show_ip ip @ '' is not a public IP address'')
            else (case de_custom_resolver_error env ip of Some e \<Rightarrow> Inl e | None \<Rightarrow> Inr (Some ip))))"

definition rdata_to_string :: "http_lib \<Rightarrow> rdata \<Rightarrow> string option" where
  "rdata_to_string lib r =
     (case r of
        RdA ip \<Rightarrow> Some (show_ip ip)
      | RdAAAA ip \<Rightarrow> Some (show_ip ip)
      | RdCNAME name \<Rightarrow> Some (trim_end_matches (CHR ''.'') name)
      | RdNS name \<Rightarrow> Some (trim_end_matches (CHR ''.'') name)
      | RdMX preference exchange \<Rightarrow>
          Some (show_nat preference @ '' '' @ trim_end_matches (CHR ''.'') exchange)
      | RdTXT parts \<Rightarrow> Some (concat (map (hl_utf8_lossy lib) parts))
      | RdOther \<Rightarrow> None)"

record dns_check_params =
  dp_hostname :: string
  dp_record_type :: string
  dp_expected_value :: "string option"
  dp_nameserver :: "string option"

definition dns_failure :: "dns_env \<Rightarrow> string \<Rightarrow> string \<Rightarrow> check_result" where
  "dns_failure env reason message =
     failed_check (Some (as_i32 (int (de_elapsed_ms env)))) reason message None"

definition dns_records :: "http_lib \<Rightarrow> rdata list \<Rightarrow> string list" where
  "dns_records lib answers = List.map_filter (rdata_to_string lib) answers"

definition check_dns :: "http_lib \<Rightarrow> dns_env \<Rightarrow> dns_check_params \<Rightarrow> duration \<Rightarrow> bool \<Rightarrow> check_result" where
  "check_dns lib env p query_timeout validate_public =
     (case parse_record_type (dp_record_type p) of
        Inl e \<Rightarrow> dns_failure env ''config_error'' e
      | Inr record_type \<Rightarrow>
          (case build_resolver env (dp_nameserver p) validate_public of
             Inl e \<Rightarrow> dns_failure env ''config_error'' e
           | Inr resolver \<Rightarrow>
               (case de_lookup env resolver query_timeout (dp_hostname p) record_type of
                  Inl e \<Rightarrow> dns_failure env ''lookup_error'' e
                | Inr answers \<Rightarrow>
                    (let records = dns_records lib answers in
                     if records = [] then
                       dns_failure env ''no_records''
                         (''no '' @ dp_record_type p @ '' records found for '' @ dp_hostname p)
                     else
                       (case dp_expected_value p of
                          Some expected \<Rightarrow>
                            if \<not> list_ex (\<lambda>r. r = expected) records then
                              dns_failure env ''value_mismatch''
                                (''expected '' @ dp_record_type p @ '' record '' @ [CHR 0x27] @ expected @
                                 [CHR 0x27] @ '', got: '' @ str_join '', '' records)
                            else passed_check (Some (as_i32 (int (de_elapsed_ms env))))
                        | None \<Rightarrow> passed_check (Some (as_i32 (int (de_elapsed_ms env)))))))))"

section \<open>Facts about the checkers\<close>

lemma passed_check_wf [simp]: "result_wf (passed_check t)" "cr_is_success (passed_check t)"
  by (simp_all add: result_wf_def passed_check_def)

lemma check_tcp_wf: "result_wf (check_tcp env host port timeout v)"
  by (simp add: check_tcp_def connect_failure_def split: lookup_outcome.split list.split option.split
      tcp_outcome.split)

lemma blocked_addr_None:
  "blocked_addr v addrs = None \<longleftrightarrow> (if v then list_all (\<lambda>a. check_ip_is_public (fst a)) addrs else True)"
  by (auto simp: blocked_addr_def find_None_iff list_all_iff)

lemma check_tcp_success:
  "cr_is_success (check_tcp env host port timeout v) \<longleftrightarrow>
     (\<exists>addr addrs. te_lookup_host env (host @ '':'' @ show_nat port) = LookupOk (addr # addrs) \<and>
        blocked_addr v (addr # addrs) = None \<and> te_connect env timeout addr = TcpConnected)"
  by (auto simp: check_tcp_def connect_failure_def passed_check_def
      split: lookup_outcome.splits list.splits option.splits tcp_outcome.splits)

lemma build_resolver_public:
  "build_resolver env ns v = Inr resolver \<Longrightarrow>
     if v then list_all check_ip_is_public (case resolver of None \<Rightarrow> [] | Some ip \<Rightarrow> [ip]) else True"
  by (auto simp: build_resolver_def and_then_eq_Inr split: option.splits if_splits)

lemma conj_insert: "(b \<Longrightarrow> p) \<Longrightarrow> (a \<and> b \<and> r) = (a \<and> b \<and> p \<and> r)"
  by blast

lemma check_dns_success:
  "cr_is_success (check_dns lib env p timeout v) \<longleftrightarrow>
     (\<exists>record_type resolver answers.
        parse_record_type (dp_record_type p) = Inr record_type \<and>
        build_resolver env (dp_nameserver p) v = Inr resolver \<and>
        de_lookup env resolver timeout (dp_hostname p) record_type = Inr answers \<and>
        dns_records lib answers \<noteq> [] \<and>
        (case dp_expected_value p of None \<Rightarrow> True | Some v \<Rightarrow> v \<in> set (dns_records lib answers)))"
proof (cases "parse_record_type (dp_record_type p)")
  case rt: (Inr record_type)
  show ?thesis
  proof (cases "build_resolver env (dp_nameserver p) v")
    case rs: (Inr resolver)
    show ?thesis
      by (cases "de_lookup env resolver timeout (dp_hostname p) record_type")
        (simp_all add: check_dns_def dns_failure_def passed_check_def rt rs Let_def list_ex_iff
          split: option.split)
  qed (simp add: check_dns_def dns_failure_def rt)
qed (simp add: check_dns_def dns_failure_def)

lemma check_dns_wf: "result_wf (check_dns lib env p timeout v)"
  by (simp add: check_dns_def dns_failure_def Let_def split: sum.split option.split)

lemma check_heartbeat_wf: "result_wf (check_heartbeat lib m now)"
  by (simp add: check_heartbeat_def Let_def)

section \<open>Properties of the probes\<close>

text \<open>
  A heartbeat monitor fails exactly when its last heartbeat (its creation, before the first) is
  older than its interval and grace together: for intervals and graces that are not negative, at any
  time from one whole second past the deadline on, and not before. A heartbeat from the future never
  fails.
\<close>

theorem heartbeat_fails_when_overdue:
  assumes "i32_in_range (sm_check_interval_seconds m)" "0 \<le> sm_check_interval_seconds m"
    and "sm_heartbeat_grace_seconds m = Some g" "i32_in_range g" "0 \<le> g"
  shows "cr_is_success (check_heartbeat lib m now) \<longleftrightarrow>
    now < add_seconds (unwrap_or (sm_last_heartbeat_received_at m) (sm_created_at m))
            (sm_check_interval_seconds m + g + 1)"
proof -
  let ?allowed = "sm_check_interval_seconds m + g"
  let ?r = "unwrap_or (sm_last_heartbeat_received_at m) (sm_created_at m)"
  have "?allowed < 2 ^ 33"
    using assms(1,4) by (simp add: i32_in_range_def)
  then have allowed: "heartbeat_allowed_age_seconds m = ?allowed"
    using assms by (simp add: heartbeat_allowed_age_seconds_def sat_add_i64_def clamp_i64_def)
  have age: "heartbeat_age_seconds m now \<le> ?allowed \<longleftrightarrow> now - ?r < (?allowed + 1) * 1000000"
  proof (cases "now - ?r < 0")
    case True
    then have "heartbeat_age_seconds m now = 0"
      by (simp add: heartbeat_age_seconds_def num_seconds_def)
    then show ?thesis
      using True assms(2,5) by simp
  next
    case False
    then have "heartbeat_age_seconds m now = (now - ?r) div 1000000"
      by (simp add: heartbeat_age_seconds_def num_seconds_def pos_imp_zdiv_nonneg_iff)
    moreover have "q \<le> a \<longleftrightarrow> x < (a + 1) * 1000000"
      if "x = q * 1000000 + r" "0 \<le> r" "r < 1000000" for x q r a :: int
      using that by auto
    from this [of "now - ?r" "(now - ?r) div 1000000" "(now - ?r) mod 1000000" ?allowed]
    have "(now - ?r) div 1000000 \<le> ?allowed \<longleftrightarrow> now - ?r < (?allowed + 1) * 1000000"
      by simp
    ultimately show ?thesis by simp
  qed
  show ?thesis
    unfolding check_heartbeat_def Let_def allowed add_seconds_def
    using age by auto
qed

theorem heartbeat_fails_when_overdue_witness:
  "let m = sample_monitor\<lparr>sm_heartbeat_grace_seconds := Some 60, sm_last_heartbeat_received_at := Some 0\<rparr> in
   cr_is_success (check_heartbeat sample_lib m (add_seconds 0 360)) \<and>
   \<not> cr_is_success (check_heartbeat sample_lib m (add_seconds 0 361))"
  using heartbeat_fails_when_overdue [of
      "sample_monitor\<lparr>sm_heartbeat_grace_seconds := Some 60, sm_last_heartbeat_received_at := Some 0\<rparr>" 60
      sample_lib]
  by (simp add: sample_monitor_def i32_in_range_def add_seconds_def)

text \<open>
  A TCP check succeeds exactly when the host resolves and its first address accepts a connection;
  with public targets required, one address in a refused block refuses the check before anything is
  connected. A DNS check succeeds exactly when the record type is supported, the nameserver is an
  address that may be asked, the lookup answers with at least one readable record and, if a value is
  expected, one record is that value.
\<close>

theorem probe_checks_succeed_iff:
  "(cr_is_success (check_tcp tenv host port timeout public) \<longleftrightarrow>
      (\<exists>addr addrs. te_lookup_host tenv (host @ '':'' @ show_nat port) = LookupOk (addr # addrs) \<and>
         (if public then list_all (\<lambda>a. check_ip_is_public (fst a)) (addr # addrs) else True) \<and>
         te_connect tenv timeout addr = TcpConnected)) \<and>
   (cr_is_success (check_dns lib denv p timeout public) \<longleftrightarrow>
      (\<exists>record_type resolver answers.
         parse_record_type (dp_record_type p) = Inr record_type \<and>
         build_resolver denv (dp_nameserver p) public = Inr resolver \<and>
         (if public then list_all check_ip_is_public (case resolver of None \<Rightarrow> [] | Some ip \<Rightarrow> [ip]) else True) \<and>
         de_lookup denv resolver timeout (dp_hostname p) record_type = Inr answers \<and>
         dns_records lib answers \<noteq> [] \<and>
         (case dp_expected_value p of None \<Rightarrow> True | Some v \<Rightarrow> v \<in> set (dns_records lib answers))))"
  unfolding check_tcp_success check_dns_success blocked_addr_None
  apply (rule conjI)
   apply (rule refl)
  apply (rule iff_exI)+
  apply (rule conj_insert)
  apply (erule build_resolver_public)
  done

end
