(* ===== verification/Check_Loop.thy ===== *)
theory Check_Loop
  imports Check_Policy Probe_Checkers
begin

text \<open>
  \<open>run_monitor_check_with_retries\<close> of \<^verbatim>\<open>src/worker/site_worker.rs\<close>: the choice of the checker and
  the retry loop around it. The environment of the loop is explicit: for each attempt what the
  checkers meet and the events the \<open>select!\<close> sees, for each delay what ended the wait, and the random
  choice of the jitter.
\<close>

section \<open>A completed check\<close>

record completed_monitor_check =
  cmk_result :: check_result
  cmk_attempt_count :: nat
  cmk_total_duration_ms :: int

definition is_retryable_check_result :: "check_result \<Rightarrow> bool" where
  "is_retryable_check_result r =
     (case cr_failure_reason r of
        None \<Rightarrow> False
      | Some reason \<Rightarrow> reason = ''timeout'' \<or> reason = ''connect_error'')"

section \<open>The choice of the checker\<close>

text \<open>What one attempt meets: the network, the clock, and the process-wide client cache as it is then.\<close>

record ('c, 's) check_env =
  ce_lib :: http_lib
  ce_http :: "('c, 's) http_env"
  ce_client_cache :: 's
  ce_tcp :: tcp_env
  ce_dns :: dns_env
  ce_now :: timestamp

definition http_assertions_of :: "site_monitor \<Rightarrow> http_assertions" where
  "http_assertions_of m =
     \<lparr>ha_body_must_contain = sm_body_must_contain m,
      ha_body_must_not_contain = sm_body_must_not_contain m,
      ha_body_must_contain_texts = unwrap_or (sm_body_must_contain_texts m) [],
      ha_body_must_not_contain_texts = unwrap_or (sm_body_must_not_contain_texts m) [],
      ha_json_path_exists = unwrap_or (sm_json_path_exists m) [],
      ha_json_path_equals = unwrap_or (sm_json_path_equals m) [],
      ha_json_path_not_equals = unwrap_or (sm_json_path_not_equals m) [],
      ha_max_response_time_ms = sm_max_response_time_ms m,
      ha_required_header_name = sm_required_header_name m,
      ha_required_header_value = sm_required_header_value m,
      ha_header_assertions = unwrap_or (sm_header_assertions m) [],
      ha_ssl_certificate_checks_enabled = False,
      ha_ssl_expiry_warning_days = None\<rparr>"

text \<open>\<open>!cfg!(test)\<close> is true in the program that runs.\<close>

definition check_monitor :: "site_monitor \<Rightarrow> check_policy \<Rightarrow> ('c, 's) check_env \<Rightarrow> check_result" where
  "check_monitor m p env =
     (case sm_monitor_type m of
        Http \<Rightarrow>
          fst (check_url_internal (ce_lib env) (ce_http env) (sm_target_url m) (sm_expected_status_code m)
                 (http_assertions_of m) (pol_timeout p)
                 \<lparr>hcc_max_response_body_bytes = pol_max_response_body_bytes p,
                  hcc_validate_public_target = \<not> pol_allow_private_targets p\<rparr>
                 (ce_client_cache env))
      | Ssl \<Rightarrow>
          check_ssl_certificate_internal (ce_lib env) (ce_http env) (sm_target_url m)
            (sm_ssl_expiry_warning_days m) (pol_timeout p) (\<not> pol_allow_private_targets p)
      | Heartbeat \<Rightarrow> check_heartbeat (ce_lib env) m (ce_now env)
      | Tcp \<Rightarrow>
          check_tcp (ce_tcp env) (unwrap_or (sm_tcp_target_host m) [])
            (nat (max 0 (min (unwrap_or (sm_tcp_target_port m) 0) 65535))) (pol_timeout p) True
      | Dns \<Rightarrow>
          check_dns (ce_lib env) (ce_dns env)
            \<lparr>dp_hostname = unwrap_or (sm_dns_hostname m) [],
             dp_record_type = unwrap_or (sm_dns_record_type m) [],
             dp_expected_value = sm_dns_expected_value m, dp_nameserver = sm_dns_nameserver m\<rparr>
            (pol_timeout p) True)"

section \<open>The retry loop\<close>

text \<open>What the \<open>select!\<close> of an attempt can see next.\<close>

datatype select_event =
    CheckFinished
  | ShutdownChanged bool
  | ShutdownClosed

text \<open>How waiting for an attempt ends; \<open>None\<close> while neither branch has ended it.\<close>

datatype await_result = AwaitDone check_result | AwaitCancelled

fun await_check :: "check_result \<Rightarrow> select_event list \<Rightarrow> await_result option" where
  "await_check r [] = None"
| "await_check r (CheckFinished # es) = Some (AwaitDone r)"
| "await_check r (ShutdownChanged b # es) = (if b then Some AwaitCancelled else await_check r es)"
| "await_check r (ShutdownClosed # es) = Some AwaitCancelled"

text \<open>What ended the wait between two attempts.\<close>

datatype wait_event =
    WaitChanged bool
  | WaitClosed
  | WaitElapsed

definition wait_for_retry_delay_or_shutdown :: "bool \<Rightarrow> wait_event \<Rightarrow> bool" where
  "wait_for_retry_delay_or_shutdown shutdown_now e =
     (if shutdown_now then False
      else (case e of WaitChanged b \<Rightarrow> \<not> b | WaitClosed \<Rightarrow> False | WaitElapsed \<Rightarrow> True))"

text \<open>The result of the loop; \<open>Panicked\<close> is its \<open>unreachable!\<close>.\<close>

datatype check_execution =
    Completed completed_monitor_check
  | Cancelled
  | Panicked

record ('c, 's) loop_env =
  le_attempt :: "nat \<Rightarrow> ('c, 's) check_env"
  le_events :: "nat \<Rightarrow> select_event list"
  le_shutdown_before_wait :: "nat \<Rightarrow> bool"
  le_wait :: "nat \<Rightarrow> duration \<Rightarrow> wait_event"
  le_elapsed_ms :: "nat \<Rightarrow> nat"
  le_rng :: "nat \<Rightarrow> nat \<Rightarrow> nat"

text \<open>How attempt \<open>i\<close> ends.\<close>

definition attempt_outcome ::
  "site_monitor \<Rightarrow> check_policy \<Rightarrow> ('c, 's) loop_env \<Rightarrow> nat \<Rightarrow> await_result option" where
  "attempt_outcome m p env i = await_check (check_monitor m p (le_attempt env i)) (le_events env i)"

definition complete_with :: "('c, 's) loop_env \<Rightarrow> check_result \<Rightarrow> nat \<Rightarrow> check_execution" where
  "complete_with env r i =
     Completed \<lparr>cmk_result = r, cmk_attempt_count = i + 1,
                cmk_total_duration_ms = as_i32 (int (le_elapsed_ms env i))\<rparr>"

text \<open>The attempts from index \<open>i\<close> on, with \<open>k\<close> left of the range; \<open>None\<close> while one is pending.\<close>

fun run_attempts :: "site_monitor \<Rightarrow> check_policy \<Rightarrow> ('c, 's) loop_env \<Rightarrow> nat \<Rightarrow> nat \<Rightarrow> check_execution option" where
  "run_attempts m p env 0 i = Some Panicked"
| "run_attempts m p env (Suc k) i =
     (case attempt_outcome m p env i of
        None \<Rightarrow> None
      | Some AwaitCancelled \<Rightarrow> Some Cancelled
      | Some (AwaitDone r) \<Rightarrow>
          if \<not> (i + 1 < pol_max_attempts p \<and> is_retryable_check_result r)
          then Some (complete_with env r i)
          else
            (case retry_delay_for_attempt (le_rng env) p i of
               Some delay \<Rightarrow>
                 if wait_for_retry_delay_or_shutdown (le_shutdown_before_wait env i) (le_wait env i delay)
                 then run_attempts m p env k (i + 1)
                 else Some Cancelled
             | None \<Rightarrow> Some (complete_with env r i)))"

definition run_monitor_check_with_retries :: "site_monitor \<Rightarrow> check_policy \<Rightarrow> ('c, 's) loop_env \<Rightarrow> check_execution option" where
  "run_monitor_check_with_retries m p env = run_attempts m p env (pol_max_attempts p) 0"

section \<open>Facts about the retry loop\<close>

lemma retry_delay_None:
  "retry_delay_for_attempt rng p i = None \<longleftrightarrow> pol_retry_delays_ms p = []"
  by (auto simp: retry_delay_for_attempt_def base_retry_delay_for_attempt_def Let_def)

definition retried :: "site_monitor \<Rightarrow> check_policy \<Rightarrow> ('c, 's) loop_env \<Rightarrow> nat \<Rightarrow> bool" where
  "retried m p env j \<longleftrightarrow>
     (\<exists>r. attempt_outcome m p env j = Some (AwaitDone r) \<and> is_retryable_check_result r)"

lemma run_attempts_Completed:
  assumes "run_attempts m p env k i = Some (Completed c)" "k + i = pol_max_attempts p"
    "\<forall>j < i. retried m p env j"
  shows "i < cmk_attempt_count c \<and> cmk_attempt_count c \<le> pol_max_attempts p \<and>
    attempt_outcome m p env (cmk_attempt_count c - 1) = Some (AwaitDone (cmk_result c)) \<and>
    (\<forall>j < cmk_attempt_count c - 1. retried m p env j) \<and>
    (cmk_attempt_count c = pol_max_attempts p \<or> \<not> is_retryable_check_result (cmk_result c) \<or>
     pol_retry_delays_ms p = [])"
  using assms
proof (induction k arbitrary: i)
  case 0
  then show ?case by simp
next
  case (Suc k)
  obtain r where r: "attempt_outcome m p env i = Some (AwaitDone r)"
    using Suc.prems(1) by (auto split: option.splits await_result.splits)
  show ?case
  proof (cases "i + 1 < pol_max_attempts p \<and> is_retryable_check_result r \<and> pol_retry_delays_ms p \<noteq> []")
    case True
    then obtain d where "retry_delay_for_attempt (le_rng env) p i = Some d"
      using retry_delay_None by blast
    with True r Suc.prems(1) have "run_attempts m p env k (i + 1) = Some (Completed c)"
      by (auto split: if_splits)
    moreover have "\<forall>j < i + 1. retried m p env j"
      using Suc.prems(3) True r by (auto simp: retried_def less_Suc_eq)
    ultimately show ?thesis
      using Suc.IH [of "i + 1"] Suc.prems(2) by simp
  next
    case False
    then have "c = \<lparr>cmk_result = r, cmk_attempt_count = i + 1,
        cmk_total_duration_ms = as_i32 (int (le_elapsed_ms env i))\<rparr>"
      using r Suc.prems(1) retry_delay_None [of "le_rng env" p i]
      by (auto simp: complete_with_def split: option.splits if_splits)
    then show ?thesis
      using False r Suc.prems(2,3) by auto
  qed
qed

lemma run_attempts_never_panics:
  "k + i = pol_max_attempts p \<Longrightarrow> 0 < k \<Longrightarrow> run_attempts m p env k i \<noteq> Some Panicked"
proof (induction k arbitrary: i)
  case 0
  then show ?case by simp
next
  case (Suc k)
  have "run_attempts m p env k (Suc i) \<noteq> Some Panicked" if "Suc i < pol_max_attempts p"
    using Suc.IH [of "Suc i"] Suc.prems(1) that by simp
  then show ?case
    by (auto simp: complete_with_def split: option.splits await_result.splits)
qed

lemma run_attempts_returns:
  "\<forall>j < pol_max_attempts p. attempt_outcome m p env j \<noteq> None \<Longrightarrow> k + i = pol_max_attempts p \<Longrightarrow>
   \<exists>e. run_attempts m p env k i = Some e"
proof (induction k arbitrary: i)
  case 0
  then show ?case by simp
next
  case (Suc k)
  then obtain a where "attempt_outcome m p env i = Some a"
    by (metis less_add_same_cancel2 not_None_eq zero_less_Suc)
  moreover have "\<exists>e. run_attempts m p env k (Suc i) = Some e"
    by (rule Suc.IH) (use Suc.prems in simp_all)
  ultimately show ?case
    by (auto split: await_result.splits option.splits)
qed

section \<open>Properties of the retry loop\<close>

text \<open>
  C3: with at least one attempt allowed the retry loop never reaches its \<open>unreachable!\<close>. A completed
  check was tried between once and \<open>max_attempts\<close> times; every attempt before the last ended in a
  retryable failure (timeout or connect error), the reported result is the last attempt's, and
  the loop gave up early only on a result that is not retryable or for want of any retry delay.
\<close>

theorem retry_loop_reports_last_attempt:
  assumes "0 < pol_max_attempts p" "run_monitor_check_with_retries m p env = Some e"
  shows "e \<noteq> Panicked \<and>
    (\<forall>c. e = Completed c \<longrightarrow>
       1 \<le> cmk_attempt_count c \<and> cmk_attempt_count c \<le> pol_max_attempts p \<and>
       attempt_outcome m p env (cmk_attempt_count c - 1) = Some (AwaitDone (cmk_result c)) \<and>
       (\<forall>j < cmk_attempt_count c - 1. retried m p env j) \<and>
       (cmk_attempt_count c < pol_max_attempts p \<longrightarrow>
          \<not> is_retryable_check_result (cmk_result c) \<or> pol_retry_delays_ms p = []))"
proof (intro conjI allI impI)
  show "e \<noteq> Panicked"
    using assms run_attempts_never_panics [of "pol_max_attempts p" 0 p m env]
    by (auto simp: run_monitor_check_with_retries_def)
next
  fix c
  assume "e = Completed c"
  then have r: "run_attempts m p env (pol_max_attempts p) 0 = Some (Completed c)"
    using assms(2) by (simp add: run_monitor_check_with_retries_def)
  note c = run_attempts_Completed [OF r]
  show "1 \<le> cmk_attempt_count c" "cmk_attempt_count c \<le> pol_max_attempts p"
    "attempt_outcome m p env (cmk_attempt_count c - 1) = Some (AwaitDone (cmk_result c))"
    "cmk_attempt_count c < pol_max_attempts p \<Longrightarrow>
       \<not> is_retryable_check_result (cmk_result c) \<or> pol_retry_delays_ms p = []"
    "j < cmk_attempt_count c - 1 \<Longrightarrow> retried m p env j" for j
    using c by auto
qed

text \<open>A TCP monitor whose first attempt is refused and whose second connects.\<close>

definition sample_check_env ::
  "tcp_outcome \<Rightarrow> (client_key, (client_key \<times> client_key) option) check_env" where
  "sample_check_env outcome =
     \<lparr>ce_lib = sample_lib, ce_http = sample_http_env (sample_send (sample_response 200 ''all up'')),
      ce_client_cache = None,
      ce_tcp = \<lparr>te_elapsed_ms = 20, te_lookup_host = (\<lambda>_. LookupOk [(V4 93 184 216 34, 22)]),
                te_connect = (\<lambda>_ _. outcome)\<rparr>,
      ce_dns = \<lparr>de_elapsed_ms = 20, de_system_resolver_error = None,
                de_custom_resolver_error = (\<lambda>_. None), de_lookup = (\<lambda>_ _ _ _. Inl ''no answer'')\<rparr>,
      ce_now = 0\<rparr>"

definition sample_loop_env :: "(client_key, (client_key \<times> client_key) option) loop_env" where
  "sample_loop_env =
     \<lparr>le_attempt = (\<lambda>i. sample_check_env (if i = 0 then TcpFailed ''refused'' else TcpConnected)),
      le_events = (\<lambda>_. [ShutdownChanged False, CheckFinished]),
      le_shutdown_before_wait = (\<lambda>_. False), le_wait = (\<lambda>_ _. WaitElapsed),
      le_elapsed_ms = (\<lambda>_. 1500), le_rng = (\<lambda>lo hi. hi)\<rparr>"

definition sample_tcp_monitor :: site_monitor where
  "sample_tcp_monitor =
     sample_monitor\<lparr>sm_monitor_type := Tcp, sm_tcp_target_host := Some ''a.test'', sm_tcp_target_port := Some 22\<rparr>"

lemma sample_address_public: "check_ip_is_public (V4 93 184 216 34)"
  by code_simp

lemma sample_not_blocked: "blocked_addr True [(V4 93 184 216 34, n)] = None"
  unfolding blocked_addr_None by (simp add: sample_address_public del: check_ip_is_public.simps)

lemma sample_attempts:
  "attempt_outcome sample_tcp_monitor p sample_loop_env 0 =
     Some (AwaitDone (failed_check (Some (as_i32 20)) ''connect_error'' ''refused'' None))"
  "attempt_outcome sample_tcp_monitor p sample_loop_env (Suc i) = Some (AwaitDone (passed_check (Some (as_i32 20))))"
  by (simp_all add: attempt_outcome_def sample_loop_env_def check_monitor_def sample_tcp_monitor_def
      check_tcp_def sample_check_env_def sample_not_blocked connect_failure_def)

lemma sample_loop_sel:
  "le_shutdown_before_wait sample_loop_env i = False" "le_wait sample_loop_env i d = WaitElapsed"
  "pol_max_attempts sample_policy = 3" "pol_retry_delays_ms sample_policy = [1000, 3000]"
  by (simp_all add: sample_loop_env_def sample_policy_def)

theorem retry_loop_reports_last_attempt_witness:
  "\<exists>c. run_monitor_check_with_retries sample_tcp_monitor sample_policy sample_loop_env = Some (Completed c) \<and>
     cmk_attempt_count c = 2 \<and> cmk_attempt_count c \<le> pol_max_attempts sample_policy"
proof -
  have "\<exists>c. run_attempts sample_tcp_monitor sample_policy sample_loop_env (Suc (Suc (Suc 0))) 0 = Some (Completed c) \<and>
      cmk_attempt_count c = 2"
    by (simp add: sample_attempts is_retryable_check_result_def retry_delay_for_attempt_def
        base_retry_delay_for_attempt_def wait_for_retry_delay_or_shutdown_def complete_with_def
        passed_check_def sample_loop_sel)
  then obtain c where c: "run_monitor_check_with_retries sample_tcp_monitor sample_policy sample_loop_env = Some (Completed c)"
    "cmk_attempt_count c = 2"
    by (auto simp: run_monitor_check_with_retries_def sample_loop_sel numeral_3_eq_3)
  have "0 < pol_max_attempts sample_policy"
    by (simp add: sample_policy_def)
  from retry_loop_reports_last_attempt [OF this c(1)] c show ?thesis
    by blast
qed

section \<open>Which results are retried\<close>

lemma response_not_retryable:
  "\<not> is_retryable_check_result (result_of_response lib r expected a elapsed cap cert)"
proof (cases "response_failure lib r expected a elapsed cap")
  case None
  then show ?thesis
    by (simp add: result_of_response_def is_retryable_check_result_def)
next
  case (Some f)
  have "\<not> assertion_reason ''timeout''" "\<not> assertion_reason ''connect_error''"
    by (simp_all add: assertion_reason_def)
  then have "fst f \<noteq> ''timeout'' \<and> fst f \<noteq> ''connect_error''"
  proof (cases "int (rsp_status r) = expected")
    case True
    then show ?thesis
      using later_failure_reason [OF Some] \<open>\<not> assertion_reason ''timeout''\<close>
        \<open>\<not> assertion_reason ''connect_error''\<close> by metis
  next
    case False
    then show ?thesis
      using Some by (auto simp: response_failure_def status_failure_def Let_def if_success_Some split: if_splits)
  qed
  with Some show ?thesis
    by (simp add: result_of_response_def is_retryable_check_result_def)
qed

text \<open>
  Only transport failures are retried. A check of a monitor that is retryable is never a heartbeat
  or a DNS check; a TCP check only when the host resolved to allowed addresses and the connection was
  refused (a connection that times out is reported as \<open>connect_timeout\<close> and is final); an HTTP check
  only when no response arrived, so a wrong status or a failed assertion is reported at once.
\<close>

theorem only_transport_failures_are_retried:
  assumes "is_retryable_check_result (check_monitor m p env)"
  shows "\<not> cr_is_success (check_monitor m p env) \<and> cr_status_code (check_monitor m p env) = None \<and>
    (case sm_monitor_type m of
       Http \<Rightarrow> True
     | Ssl \<Rightarrow> True
     | Heartbeat \<Rightarrow> False
     | Dns \<Rightarrow> False
     | Tcp \<Rightarrow>
         (\<exists>addr addrs e. te_lookup_host (ce_tcp env)
              (unwrap_or (sm_tcp_target_host m) [] @ '':'' @
               show_nat (nat (max 0 (min (unwrap_or (sm_tcp_target_port m) 0) 65535)))) = LookupOk (addr # addrs) \<and>
            te_connect (ce_tcp env) (pol_timeout p) addr = TcpFailed e))"
proof -
  have retry_time: "is_retryable_check_result (r\<lparr>cr_response_time_ms := t\<rparr>) = is_retryable_check_result r" for r t
    by (simp add: is_retryable_check_result_def)
  show ?thesis
  proof (cases "sm_monitor_type m")
    case Http
    with assms show ?thesis
      by (auto simp: check_monitor_def check_url_internal_def Let_def send_request_def retry_time
          response_not_retryable http_assertions_of_def failed_check_def split: sum.splits prod.splits)
  next
    case Ssl
    let ?r = "check_ssl_certificate_internal (ce_lib env) (ce_http env) (sm_target_url m)
        (sm_ssl_expiry_warning_days m) (pol_timeout p) (\<not> pol_allow_private_targets p)"
    have "is_retryable_check_result ?r"
      using assms Ssl by (simp add: check_monitor_def)
    then have "\<not> cr_is_success ?r \<and> cr_status_code ?r = None"
      by (cases "resolve_runtime_request_target (ce_http env) (sm_target_url m) (\<not> pol_allow_private_targets p)")
        (auto simp: check_ssl_certificate_internal_def Let_def is_retryable_check_result_def
          failed_check_def dest!: evaluate_ssl_failed split: sum.splits)
    with Ssl show ?thesis
      by (simp add: check_monitor_def)
  next
    case Heartbeat
    with assms show ?thesis
      by (auto simp: check_monitor_def check_heartbeat_def Let_def is_retryable_check_result_def
          failed_check_def passed_check_def split: if_splits)
  next
    case Tcp
    with assms show ?thesis
      by (auto simp: check_monitor_def check_tcp_def connect_failure_def is_retryable_check_result_def
          failed_check_def passed_check_def split: lookup_outcome.splits list.splits option.splits tcp_outcome.splits)
  next
    case Dns
    with assms show ?thesis
      by (auto simp: check_monitor_def check_dns_def dns_failure_def Let_def is_retryable_check_result_def
          failed_check_def passed_check_def split: sum.splits option.splits if_splits)
  qed
qed

theorem only_transport_failures_are_retried_witness:
  "is_retryable_check_result (check_monitor sample_tcp_monitor sample_policy (sample_check_env (TcpFailed ''refused''))) \<and>
   cr_status_code (check_monitor sample_tcp_monitor sample_policy (sample_check_env (TcpFailed ''refused''))) = None"
proof -
  have r: "is_retryable_check_result (check_monitor sample_tcp_monitor sample_policy (sample_check_env (TcpFailed ''refused'')))"
    by (simp add: check_monitor_def sample_tcp_monitor_def check_tcp_def sample_check_env_def sample_not_blocked
        connect_failure_def is_retryable_check_result_def)
  with only_transport_failures_are_retried [OF r] show ?thesis by blast
qed

end
