(* ===== verification/Notification_Payload.thy ===== *)
theory Notification_Payload
  imports Check_Result
begin

text \<open>
  The payload of a notification (\<^verbatim>\<open>src/notifications/service.rs\<close>): its structs, the texts that are
  built from a check, and its JSON form with the way back, as the derived \<open>Serialize\<close> and
  \<open>Deserialize\<close> give them (an optional field may be absent, an unknown one is ignored, and
  \<open>schema_version\<close> has a default). \<open>to_rfc3339\<close> of \<open>chrono\<close> is an argument.
\<close>

record notification_context =
  ctx_site_id :: id
  ctx_site_name :: string
  ctx_site_base_url :: string

record notification_site_payload =
  nsp_id :: id
  nsp_name :: string
  nsp_base_url :: string

record notification_monitor_payload =
  nmp_id :: id
  nmp_monitor_type :: string
  nmp_target_url :: string
  nmp_expected_status_code :: int
  nmp_check_interval_seconds :: int

record notification_previous_check_payload =
  npc_checked_at :: "string option"
  npc_is_success :: "bool option"
  npc_status_code :: "int option"
  npc_response_time_ms :: "int option"
  npc_failure_reason :: "string option"
  npc_error_message :: "string option"

record notification_current_check_payload =
  ncc_id :: id
  ncc_checked_at :: string
  ncc_is_success :: bool
  ncc_status_code :: "int option"
  ncc_response_time_ms :: "int option"
  ncc_failure_reason :: "string option"
  ncc_error_message :: "string option"

record notification_payload =
  np_schema_version :: int
  np_event_type :: notification_event_type
  np_occurred_at :: string
  np_summary :: string
  np_email_subject :: string
  np_email_text :: string
  np_site :: notification_site_payload
  np_monitor :: notification_monitor_payload
  np_previous_check :: notification_previous_check_payload
  np_current_check :: notification_current_check_payload

definition notification_payload_schema_version :: int where
  "notification_payload_schema_version = 1"

section \<open>The texts\<close>

definition build_summary ::
  "notification_context \<Rightarrow> site_monitor \<Rightarrow> site_monitor_check \<Rightarrow> notification_event_type \<Rightarrow> string" where
  "build_summary ctx m check event =
     (let site = ''Site '' @ quoted (ctx_site_name ctx);
          monitor = show_int (sm_id m) @ '' ('' @ sm_target_url m @ '')''
      in case (sm_monitor_type m, event) of
           (Http, Failure) \<Rightarrow> site @ '' is DOWN for HTTP monitor '' @ monitor
         | (Http, Recovery) \<Rightarrow> site @ '' recovered for HTTP monitor '' @ monitor
         | (Ssl, Failure) \<Rightarrow> site @ '' has an SSL issue for monitor '' @ monitor
         | (Ssl, Recovery) \<Rightarrow> site @ '' SSL monitor recovered for monitor '' @ monitor
         | (Heartbeat, Failure) \<Rightarrow> site @ '' missed a heartbeat for monitor '' @ monitor
         | (Heartbeat, Recovery) \<Rightarrow> site @ '' heartbeat monitor recovered for monitor '' @ monitor
         | (Tcp, Failure) \<Rightarrow> site @ '' TCP port unreachable for monitor '' @ monitor
         | (Tcp, Recovery) \<Rightarrow> site @ '' TCP port reachable again for monitor '' @ monitor
         | (Dns, Failure) \<Rightarrow> site @ '' DNS check failed for monitor '' @ monitor
         | (Dns, Recovery) \<Rightarrow> site @ '' DNS check recovered for monitor '' @ monitor)"

definition build_email_subject :: "notification_context \<Rightarrow> notification_event_type \<Rightarrow> string" where
  "build_email_subject ctx event =
     (case event of
        Failure \<Rightarrow> ''[Alon Sentinel] '' @ ctx_site_name ctx @ '' is DOWN''
      | Recovery \<Rightarrow> ''[Alon Sentinel] '' @ ctx_site_name ctx @ '' recovered'')"

text \<open>A line of the text: its label and its value.\<close>

definition text_line :: "string \<Rightarrow> string \<Rightarrow> string" where
  "text_line label value = label @ '': '' @ value @ [CHR 0x0A]"

definition or_na :: "string option \<Rightarrow> string" where
  "or_na s = unwrap_or s ''n/a''"

definition show_ms :: "int option \<Rightarrow> string" where
  "show_ms t = or_na (map_option (\<lambda>v. show_int v @ '' ms'') t)"

definition build_email_text ::
  "(timestamp \<Rightarrow> string) \<Rightarrow> string \<Rightarrow> notification_context \<Rightarrow> site_monitor \<Rightarrow> site_monitor_check \<Rightarrow> string" where
  "build_email_text to_rfc3339 summary ctx m check =
     summary @ [CHR 0x0A, CHR 0x0A] @
     text_line ''Site'' (ctx_site_name ctx) @ text_line ''Base URL'' (ctx_site_base_url ctx) @
     (case sm_monitor_type m of
        Http \<Rightarrow>
          text_line ''Monitor URL'' (sm_target_url m) @
          text_line ''Expected status'' (show_int (sm_expected_status_code m)) @
          text_line ''Occurred at'' (to_rfc3339 (smc_checked_at check)) @
          text_line ''Current status'' (or_na (map_option show_int (smc_status_code check))) @
          text_line ''Response time'' (show_ms (smc_response_time_ms check))
      | Ssl \<Rightarrow>
          text_line ''Monitor URL'' (sm_target_url m) @
          text_line ''Occurred at'' (to_rfc3339 (smc_checked_at check)) @
          text_line ''Certificate expires at''
            (or_na (map_option to_rfc3339 (smc_certificate_expires_at check))) @
          text_line ''Days remaining'' (or_na (map_option show_int (smc_certificate_days_remaining check))) @
          text_line ''Issuer'' (or_na (smc_certificate_issuer check)) @
          text_line ''Subject'' (or_na (smc_certificate_subject check))
      | Heartbeat \<Rightarrow>
          text_line ''Heartbeat path'' (sm_target_url m) @
          text_line ''Occurred at'' (to_rfc3339 (smc_checked_at check)) @
          text_line ''Last heartbeat received at''
            (or_na (map_option to_rfc3339 (sm_last_heartbeat_received_at m)))
      | Tcp \<Rightarrow>
          text_line ''Host'' (or_na (sm_tcp_target_host m)) @
          text_line ''Port'' (or_na (map_option show_int (sm_tcp_target_port m))) @
          text_line ''Occurred at'' (to_rfc3339 (smc_checked_at check)) @
          text_line ''Connect time'' (show_ms (smc_response_time_ms check))
      | Dns \<Rightarrow>
          text_line ''Hostname'' (or_na (sm_dns_hostname m)) @
          text_line ''Record type'' (or_na (sm_dns_record_type m)) @
          text_line ''Expected value'' (unwrap_or (sm_dns_expected_value m) ''any'') @
          text_line ''Occurred at'' (to_rfc3339 (smc_checked_at check)) @
          text_line ''Query time'' (show_ms (smc_response_time_ms check))) @
     text_line ''Error'' (or_na (smc_error_message check))"

definition build_payload ::
  "(timestamp \<Rightarrow> string) \<Rightarrow> notification_context \<Rightarrow> site_monitor \<Rightarrow> site_monitor_check \<Rightarrow>
   notification_event_type \<Rightarrow> notification_payload" where
  "build_payload to_rfc3339 ctx m check event =
     (let summary = build_summary ctx m check event in
      \<lparr>np_schema_version = notification_payload_schema_version, np_event_type = event,
       np_occurred_at = to_rfc3339 (smc_checked_at check), np_summary = summary,
       np_email_subject = build_email_subject ctx event,
       np_email_text = build_email_text to_rfc3339 summary ctx m check,
       np_site = \<lparr>nsp_id = ctx_site_id ctx, nsp_name = ctx_site_name ctx,
                  nsp_base_url = ctx_site_base_url ctx\<rparr>,
       np_monitor =
         \<lparr>nmp_id = sm_id m, nmp_monitor_type = monitor_type_as_str (sm_monitor_type m),
          nmp_target_url = sm_target_url m, nmp_expected_status_code = sm_expected_status_code m,
          nmp_check_interval_seconds = sm_check_interval_seconds m\<rparr>,
       np_previous_check =
         \<lparr>npc_checked_at = map_option to_rfc3339 (sm_last_checked_at m),
          npc_is_success = sm_last_is_success m, npc_status_code = sm_last_status_code m,
          npc_response_time_ms = sm_last_response_time_ms m,
          npc_failure_reason = sm_last_failure_reason m, npc_error_message = sm_last_error_message m\<rparr>,
       np_current_check =
         \<lparr>ncc_id = smc_id check, ncc_checked_at = to_rfc3339 (smc_checked_at check),
          ncc_is_success = smc_is_success check, ncc_status_code = smc_status_code check,
          ncc_response_time_ms = smc_response_time_ms check,
          ncc_failure_reason = smc_failure_reason check,
          ncc_error_message = smc_error_message check\<rparr>\<rparr>)"

section \<open>The JSON form\<close>

definition event_type_str :: "notification_event_type \<Rightarrow> string" where
  "event_type_str e = (case e of Failure \<Rightarrow> ''failure'' | Recovery \<Rightarrow> ''recovery'')"

definition json_bool :: "bool option \<Rightarrow> json" where
  "json_bool b = (case b of None \<Rightarrow> JNull | Some x \<Rightarrow> JBool x)"

definition payload_to_json :: "notification_payload \<Rightarrow> json" where
  "payload_to_json p =
     JObject
       [(''schema_version'', json_int (Some (np_schema_version p))),
        (''event_type'', JString (event_type_str (np_event_type p))),
        (''occurred_at'', JString (np_occurred_at p)),
        (''summary'', JString (np_summary p)),
        (''email_subject'', JString (np_email_subject p)),
        (''email_text'', JString (np_email_text p)),
        (''site'',
          JObject [(''id'', json_int (Some (nsp_id (np_site p)))), (''name'', JString (nsp_name (np_site p))),
                   (''base_url'', JString (nsp_base_url (np_site p)))]),
        (''monitor'',
          JObject [(''id'', json_int (Some (nmp_id (np_monitor p)))),
                   (''monitor_type'', JString (nmp_monitor_type (np_monitor p))),
                   (''target_url'', JString (nmp_target_url (np_monitor p))),
                   (''expected_status_code'', json_int (Some (nmp_expected_status_code (np_monitor p)))),
                   (''check_interval_seconds'', json_int (Some (nmp_check_interval_seconds (np_monitor p))))]),
        (''previous_check'',
          JObject [(''checked_at'', json_str (npc_checked_at (np_previous_check p))),
                   (''is_success'', json_bool (npc_is_success (np_previous_check p))),
                   (''status_code'', json_int (npc_status_code (np_previous_check p))),
                   (''response_time_ms'', json_int (npc_response_time_ms (np_previous_check p))),
                   (''failure_reason'', json_str (npc_failure_reason (np_previous_check p))),
                   (''error_message'', json_str (npc_error_message (np_previous_check p)))]),
        (''current_check'',
          JObject [(''id'', json_int (Some (ncc_id (np_current_check p)))),
                   (''checked_at'', JString (ncc_checked_at (np_current_check p))),
                   (''is_success'', JBool (ncc_is_success (np_current_check p))),
                   (''status_code'', json_int (ncc_status_code (np_current_check p))),
                   (''response_time_ms'', json_int (ncc_response_time_ms (np_current_check p))),
                   (''failure_reason'', json_str (ncc_failure_reason (np_current_check p))),
                   (''error_message'', json_str (ncc_error_message (np_current_check p)))])]"

text \<open>Reading a value of a type, and a required or an optional field of an object.\<close>

definition de_string :: "json \<Rightarrow> string option" where
  "de_string v = (case v of JString s \<Rightarrow> Some s | _ \<Rightarrow> None)"

definition de_bool :: "json \<Rightarrow> bool option" where
  "de_bool v = (case v of JBool b \<Rightarrow> Some b | _ \<Rightarrow> None)"

definition de_i64 :: "json \<Rightarrow> int option" where
  "de_i64 v = (case v of JNumber n \<Rightarrow> parse_i64 n | _ \<Rightarrow> None)"

definition de_i32 :: "json \<Rightarrow> int option" where
  "de_i32 v = option_filter i32_in_range (de_i64 v)"

definition de_event_type :: "json \<Rightarrow> notification_event_type option" where
  "de_event_type v =
     (case v of
        JString s \<Rightarrow> if s = ''failure'' then Some Failure else if s = ''recovery'' then Some Recovery else None
      | _ \<Rightarrow> None)"

definition de_field :: "(json \<Rightarrow> 'a option) \<Rightarrow> string \<Rightarrow> json \<Rightarrow> 'a option" where
  "de_field de k v = Option.bind (json_field k v) de"

definition de_optional :: "(json \<Rightarrow> 'a option) \<Rightarrow> string \<Rightarrow> json \<Rightarrow> 'a option option" where
  "de_optional de k v =
     (case v of
        JObject _ \<Rightarrow>
          (case json_field k v of
             None \<Rightarrow> Some None
           | Some JNull \<Rightarrow> Some None
           | Some x \<Rightarrow> map_option Some (de x))
      | _ \<Rightarrow> None)"

definition de_default :: "'a \<Rightarrow> (json \<Rightarrow> 'a option) \<Rightarrow> string \<Rightarrow> json \<Rightarrow> 'a option" where
  "de_default d de k v =
     (case v of JObject _ \<Rightarrow> (case json_field k v of None \<Rightarrow> Some d | Some x \<Rightarrow> de x) | _ \<Rightarrow> None)"

definition de_site :: "json \<Rightarrow> notification_site_payload option" where
  "de_site v =
     Option.bind (de_field de_i64 ''id'' v) (\<lambda>i.
     Option.bind (de_field de_string ''name'' v) (\<lambda>name.
     Option.bind (de_field de_string ''base_url'' v) (\<lambda>base_url.
       Some \<lparr>nsp_id = i, nsp_name = name, nsp_base_url = base_url\<rparr>)))"

definition de_monitor :: "json \<Rightarrow> notification_monitor_payload option" where
  "de_monitor v =
     Option.bind (de_field de_i64 ''id'' v) (\<lambda>i.
     Option.bind (de_field de_string ''monitor_type'' v) (\<lambda>monitor_type.
     Option.bind (de_field de_string ''target_url'' v) (\<lambda>target_url.
     Option.bind (de_field de_i32 ''expected_status_code'' v) (\<lambda>status.
     Option.bind (de_field de_i32 ''check_interval_seconds'' v) (\<lambda>interval.
       Some \<lparr>nmp_id = i, nmp_monitor_type = monitor_type, nmp_target_url = target_url,
             nmp_expected_status_code = status, nmp_check_interval_seconds = interval\<rparr>)))))"

definition de_previous_check :: "json \<Rightarrow> notification_previous_check_payload option" where
  "de_previous_check v =
     Option.bind (de_optional de_string ''checked_at'' v) (\<lambda>checked_at.
     Option.bind (de_optional de_bool ''is_success'' v) (\<lambda>is_success.
     Option.bind (de_optional de_i32 ''status_code'' v) (\<lambda>status.
     Option.bind (de_optional de_i32 ''response_time_ms'' v) (\<lambda>time.
     Option.bind (de_optional de_string ''failure_reason'' v) (\<lambda>reason.
     Option.bind (de_optional de_string ''error_message'' v) (\<lambda>message.
       Some \<lparr>npc_checked_at = checked_at, npc_is_success = is_success, npc_status_code = status,
             npc_response_time_ms = time, npc_failure_reason = reason,
             npc_error_message = message\<rparr>))))))"

definition de_current_check :: "json \<Rightarrow> notification_current_check_payload option" where
  "de_current_check v =
     Option.bind (de_field de_i64 ''id'' v) (\<lambda>i.
     Option.bind (de_field de_string ''checked_at'' v) (\<lambda>checked_at.
     Option.bind (de_field de_bool ''is_success'' v) (\<lambda>is_success.
     Option.bind (de_optional de_i32 ''status_code'' v) (\<lambda>status.
     Option.bind (de_optional de_i32 ''response_time_ms'' v) (\<lambda>time.
     Option.bind (de_optional de_string ''failure_reason'' v) (\<lambda>reason.
     Option.bind (de_optional de_string ''error_message'' v) (\<lambda>message.
       Some \<lparr>ncc_id = i, ncc_checked_at = checked_at, ncc_is_success = is_success,
             ncc_status_code = status, ncc_response_time_ms = time, ncc_failure_reason = reason,
             ncc_error_message = message\<rparr>)))))))"

definition payload_of_json :: "json \<Rightarrow> notification_payload option" where
  "payload_of_json v =
     Option.bind (de_default notification_payload_schema_version de_i32 ''schema_version'' v) (\<lambda>version.
     Option.bind (de_field de_event_type ''event_type'' v) (\<lambda>event.
     Option.bind (de_field de_string ''occurred_at'' v) (\<lambda>occurred_at.
     Option.bind (de_field de_string ''summary'' v) (\<lambda>summary.
     Option.bind (de_field de_string ''email_subject'' v) (\<lambda>subject.
     Option.bind (de_field de_string ''email_text'' v) (\<lambda>email_text.
     Option.bind (de_field de_site ''site'' v) (\<lambda>site.
     Option.bind (de_field de_monitor ''monitor'' v) (\<lambda>monitor.
     Option.bind (de_field de_previous_check ''previous_check'' v) (\<lambda>previous.
     Option.bind (de_field de_current_check ''current_check'' v) (\<lambda>current.
       Some \<lparr>np_schema_version = version, np_event_type = event, np_occurred_at = occurred_at,
             np_summary = summary, np_email_subject = subject, np_email_text = email_text,
             np_site = site, np_monitor = monitor, np_previous_check = previous,
             np_current_check = current\<rparr>))))))))))"

section \<open>The way back\<close>

definition i64_in_range :: "int \<Rightarrow> bool" where
  "i64_in_range x \<longleftrightarrow> - (2 ^ 63) \<le> x \<and> x < 2 ^ 63"

lemma i32_in_i64: "i32_in_range x \<Longrightarrow> i64_in_range x"
  by (simp add: i32_in_range_def i64_in_range_def)

lemma de_i64_json_int [simp]: "i64_in_range x \<Longrightarrow> de_i64 (json_int (Some x)) = Some x"
  by (simp add: de_i64_def json_int_def parse_i64_show_int i64_in_range_def)

lemma de_i32_json_int [simp]: "i32_in_range x \<Longrightarrow> de_i32 (json_int (Some x)) = Some x"
  by (simp add: de_i32_def i32_in_i64)

lemma de_string_JString [simp]: "de_string (JString s) = Some s"
  by (simp add: de_string_def)

lemma de_bool_JBool [simp]: "de_bool (JBool b) = Some b"
  by (simp add: de_bool_def)

lemma de_event_type_str [simp]: "de_event_type (JString (event_type_str e)) = Some e"
  by (cases e) (simp_all add: de_event_type_def event_type_str_def)

lemma de_field_JObject [simp]: "de_field de k (JObject kvs) = Option.bind (map_of kvs k) de"
  by (simp add: de_field_def)

lemma de_default_JObject [simp]:
  "de_default d de k (JObject kvs) = (case map_of kvs k of None \<Rightarrow> Some d | Some x \<Rightarrow> de x)"
  by (simp add: de_default_def)

lemma de_optional_JObject:
  "map_of kvs k = Some x \<Longrightarrow> de_optional de k (JObject kvs) = (if x = JNull then Some None else map_option Some (de x))"
  by (cases x) (simp_all add: de_optional_def)

lemma de_optional_str:
  "map_of kvs k = Some (json_str s) \<Longrightarrow> de_optional de_string k (JObject kvs) = Some s"
  by (cases s) (simp_all add: de_optional_JObject json_str_def)

lemma de_optional_bool:
  "map_of kvs k = Some (json_bool b) \<Longrightarrow> de_optional de_bool k (JObject kvs) = Some b"
  by (cases b) (simp_all add: de_optional_JObject json_bool_def)

lemma de_optional_int:
  assumes "map_of kvs k = Some (json_int i)" "pred_option i32_in_range i"
  shows "de_optional de_i32 k (JObject kvs) = Some i"
proof (cases i)
  case None
  with assms show ?thesis by (simp add: de_optional_JObject json_int_def)
next
  case (Some x)
  with assms have "de_i32 (json_int i) = Some x" by simp
  moreover have "json_int i \<noteq> JNull" using Some by (simp add: json_int_def)
  ultimately show ?thesis
    using assms Some by (simp add: de_optional_JObject)
qed

text \<open>The integers of a payload fit the types of the structs.\<close>

definition payload_ok :: "notification_payload \<Rightarrow> bool" where
  "payload_ok p \<longleftrightarrow>
     i32_in_range (np_schema_version p) \<and> i64_in_range (nsp_id (np_site p)) \<and>
     i64_in_range (nmp_id (np_monitor p)) \<and> i32_in_range (nmp_expected_status_code (np_monitor p)) \<and>
     i32_in_range (nmp_check_interval_seconds (np_monitor p)) \<and>
     pred_option i32_in_range (npc_status_code (np_previous_check p)) \<and>
     pred_option i32_in_range (npc_response_time_ms (np_previous_check p)) \<and>
     i64_in_range (ncc_id (np_current_check p)) \<and>
     pred_option i32_in_range (ncc_status_code (np_current_check p)) \<and>
     pred_option i32_in_range (ncc_response_time_ms (np_current_check p))"

lemma payload_of_to_json:
  assumes "payload_ok p"
  shows "payload_of_json (payload_to_json p) = Some p"
proof -
  note ok = assms [unfolded payload_ok_def]
  show ?thesis
    using ok
    by (simp add: payload_of_json_def payload_to_json_def de_site_def de_monitor_def
        de_previous_check_def de_current_check_def de_optional_str de_optional_bool de_optional_int)
qed

section \<open>Properties of the payload\<close>

text \<open>
  The payload queued with a notification can be read back: parsing the stored JSON of any payload
  whose integers fit their columns gives the same payload, so a delivery never fails on a row that
  this program wrote.
\<close>

theorem payload_roundtrip:
  assumes "payload_ok p"
  shows "payload_of_json (payload_to_json p) = Some p"
  by (rule payload_of_to_json [OF assms])

text \<open>A failed check of the example monitor, and the payload built from it.\<close>

definition sample_monitor_check :: "bool \<Rightarrow> site_monitor_check" where
  "sample_monitor_check ok =
     \<lparr>smc_id = 7, smc_site_monitor_id = 1, smc_checked_at = 0, smc_monitor_type = Http,
      smc_url_checked = ''https://a.test'', smc_expected_status_code = Some 200, smc_is_success = ok,
      smc_status_code = Some (if ok then 200 else 503), smc_response_time_ms = Some 80,
      smc_total_duration_ms = Some 80, smc_attempt_count = 1, smc_was_retried = False,
      smc_failure_reason = (if ok then None else Some ''unexpected_status''),
      smc_error_message = (if ok then None else Some ''Unexpected HTTP status: 503, expected: 200''),
      smc_certificate_expires_at = None, smc_certificate_days_remaining = None,
      smc_certificate_issuer = None, smc_certificate_subject = None, smc_certificate_domain = None\<rparr>"

definition sample_context :: notification_context where
  "sample_context = \<lparr>ctx_site_id = 1, ctx_site_name = ''Shop'', ctx_site_base_url = ''https://a.test''\<rparr>"

theorem payload_roundtrip_witness:
  "payload_of_json (payload_to_json
       (build_payload show_int sample_context sample_monitor (sample_monitor_check False) Failure)) =
     Some (build_payload show_int sample_context sample_monitor (sample_monitor_check False) Failure)"
  by (rule payload_roundtrip)
    (simp add: payload_ok_def build_payload_def sample_context_def sample_monitor_def
      sample_monitor_check_def i32_in_range_def i64_in_range_def Let_def
      notification_payload_schema_version_def)

end
