(* ===== verification/Crypto.thy ===== *)
theory Crypto
  imports Rust_Str
begin

text \<open>
  \<^verbatim>\<open>src/crypto/mod.rs\<close>: the encryption key of webhook secrets, the stored form of a secret
  (nonce and ciphertext in hexadecimal) and the webhook signature. The cipher, HMAC, \<open>hex\<close>, and
  the UTF-8 conversions, whose strings may leave the characters of the model, are the record
  \<open>crypto_lib\<close>; the random nonce is an argument.
\<close>

type_synonym bytes = "8 word list"

record crypto_lib =
  cl_hex_decode :: "string \<Rightarrow> string + bytes"
  cl_hex_encode :: "bytes \<Rightarrow> string"
  cl_key_ok :: "bytes \<Rightarrow> bool"
  cl_seal :: "bytes \<Rightarrow> bytes \<Rightarrow> bytes \<Rightarrow> bytes option"
  cl_open :: "bytes \<Rightarrow> bytes \<Rightarrow> bytes \<Rightarrow> bytes option"
  cl_as_bytes :: "string \<Rightarrow> bytes"
  cl_from_utf8 :: "bytes \<Rightarrow> string option"
  cl_hmac_sha256 :: "bytes \<Rightarrow> bytes \<Rightarrow> bytes"

datatype encryption_key = WebhookSecretEncryptionKey bytes

definition webhook_secret_nonce_len :: nat where
  "webhook_secret_nonce_len = 12"

definition from_hex :: "crypto_lib \<Rightarrow> string \<Rightarrow> string + encryption_key" where
  "from_hex lib hex_value =
     and_then
       (map_err (\<lambda>e. ''WEBHOOK_SECRET_ENCRYPTION_KEY must be valid hex: '' @ e)
         (cl_hex_decode lib (trim hex_value)))
       (\<lambda>key_bytes.
          if length key_bytes = 32 then Inr (WebhookSecretEncryptionKey key_bytes)
          else Inl ''WEBHOOK_SECRET_ENCRYPTION_KEY must be exactly 32 bytes'')"

definition encrypt_webhook_secret ::
  "crypto_lib \<Rightarrow> bytes \<Rightarrow> encryption_key \<Rightarrow> string \<Rightarrow> string + string" where
  "encrypt_webhook_secret lib nonce key plaintext =
     (case key of WebhookSecretEncryptionKey k \<Rightarrow>
        if plaintext = [] then Inl ''webhook secret can not be empty''
        else if \<not> cl_key_ok lib k then Inl ''invalid webhook secret encryption key length''
        else
          and_then (ok_or ''failed to encrypt webhook secret'' (cl_seal lib k nonce (cl_as_bytes lib plaintext)))
            (\<lambda>ciphertext. Inr (cl_hex_encode lib (nonce @ ciphertext))))"

definition decrypt_webhook_secret :: "crypto_lib \<Rightarrow> encryption_key \<Rightarrow> string \<Rightarrow> string + string" where
  "decrypt_webhook_secret lib key ciphertext_hex =
     (case key of WebhookSecretEncryptionKey k \<Rightarrow>
        and_then
          (map_err (\<lambda>e. ''stored webhook secret ciphertext is not valid hex: '' @ e)
            (cl_hex_decode lib (trim ciphertext_hex)))
          (\<lambda>encoded.
             if length encoded \<le> webhook_secret_nonce_len
             then Inl ''stored webhook secret ciphertext is truncated''
             else if \<not> cl_key_ok lib k then Inl ''invalid webhook secret encryption key length''
             else
               and_then
                 (ok_or ''failed to decrypt webhook secret''
                   (cl_open lib k (take webhook_secret_nonce_len encoded) (drop webhook_secret_nonce_len encoded)))
                 (\<lambda>plaintext.
                    ok_or ''decrypted webhook secret is not valid UTF-8'' (cl_from_utf8 lib plaintext))))"

definition signed_message :: "crypto_lib \<Rightarrow> string \<Rightarrow> bytes \<Rightarrow> bytes" where
  "signed_message lib timestamp body = cl_as_bytes lib timestamp @ [46] @ body"

definition build_webhook_signature :: "crypto_lib \<Rightarrow> string \<Rightarrow> string \<Rightarrow> bytes \<Rightarrow> string" where
  "build_webhook_signature lib secret timestamp body =
     ''sha256='' @
     cl_hex_encode lib (cl_hmac_sha256 lib (cl_as_bytes lib secret) (signed_message lib timestamp body))"

section \<open>Properties of stored secrets\<close>

text \<open>What the libraries document, at the values used.\<close>

definition crypto_laws :: "crypto_lib \<Rightarrow> bool" where
  "crypto_laws lib \<longleftrightarrow>
     (\<forall>b. cl_hex_decode lib (cl_hex_encode lib b) = Inr b \<and>
          list_all (\<lambda>c. \<not> is_whitespace c) (cl_hex_encode lib b)) \<and>
     (\<forall>k n p c. cl_seal lib k n p = Some c \<longrightarrow> cl_open lib k n c = Some p \<and> c \<noteq> []) \<and>
     (\<forall>s. cl_from_utf8 lib (cl_as_bytes lib s) = Some s)"

text \<open>
  A stored webhook secret decrypts to the secret it was made from, with the key it was made with
  and whatever nonce was drawn, even if blanks surround the stored text; and the empty secret is
  never stored.
\<close>

theorem webhook_secret_roundtrip:
  assumes "crypto_laws lib" "length nonce = webhook_secret_nonce_len"
    and "encrypt_webhook_secret lib nonce key secret = Inr stored"
  shows "secret \<noteq> [] \<and> decrypt_webhook_secret lib key stored = Inr secret"
proof -
  obtain k where k: "key = WebhookSecretEncryptionKey k"
    by (cases key)
  obtain c where c: "secret \<noteq> []" "cl_key_ok lib k" "cl_seal lib k nonce (cl_as_bytes lib secret) = Some c"
    "stored = cl_hex_encode lib (nonce @ c)"
    using assms(3) by (auto simp: encrypt_webhook_secret_def k and_then_eq_Inr ok_or_def
        split: if_splits option.splits)
  have "trim stored = stored"
    using assms(1) c(4) by (intro trim_no_ws) (simp add: crypto_laws_def list_all_iff)
  moreover have "cl_hex_decode lib stored = Inr (nonce @ c)" "cl_open lib k nonce c = Some (cl_as_bytes lib secret)"
    "c \<noteq> []" "cl_from_utf8 lib (cl_as_bytes lib secret) = Some secret"
    using assms(1) c by (auto simp: crypto_laws_def)
  ultimately show ?thesis
    using assms(2) c by (simp add: decrypt_webhook_secret_def k)
qed

text \<open>A library for the example: two letters per byte, one byte per character, a cipher that appends a tag.\<close>

fun sample_unhex :: "string \<Rightarrow> bytes" where
  "sample_unhex (c # d # cs) = word_of_nat ((char_code c - 65) * 16 + (char_code d - 65)) # sample_unhex cs"
| "sample_unhex _ = []"

definition sample_hex :: "bytes \<Rightarrow> string" where
  "sample_hex bs = concat (map (\<lambda>b. [char_of (65 + unat b div 16), char_of (65 + unat b mod 16)]) bs)"

definition sample_crypto_lib :: crypto_lib where
  "sample_crypto_lib =
     \<lparr>cl_hex_decode = (\<lambda>s. Inr (sample_unhex s)), cl_hex_encode = sample_hex,
      cl_key_ok = (\<lambda>k. length k = 32), cl_seal = (\<lambda>k n p. Some (p @ [0])),
      cl_open = (\<lambda>k n c. Some (butlast c)), cl_as_bytes = map (\<lambda>c. word_of_nat (char_code c)),
      cl_from_utf8 = (\<lambda>bs. Some (map (\<lambda>b. char_of (unat b)) bs)), cl_hmac_sha256 = (\<lambda>_ _. [])\<rparr>"

lemma sample_crypto_laws: "crypto_laws sample_crypto_lib"
proof -
  have digit: "char_code (char_of (65 + n) :: char) = 65 + n" if "n < 16" for n
    using that by (simp add: char_code_def)
  have byte: "unat b div 16 < 16" for b :: "8 word"
    using unsigned_less [of b, where ?'a = nat] by simp
  have "sample_unhex (sample_hex bs) = bs" for bs
    by (induction bs) (simp_all add: sample_hex_def digit byte)
  moreover have "\<not> is_whitespace (char_of (65 + n))" if "n < 16" for n :: nat
    using that by (simp add: is_whitespace_def digit)
  then have "list_all (\<lambda>c. \<not> is_whitespace c) (sample_hex bs)" for bs
    by (auto simp: sample_hex_def list_all_iff byte)
  moreover have "char_of (unat (word_of_nat (char_code c) :: 8 word)) = c" for c
    by (simp add: char_code_def unat_of_nat)
  ultimately show ?thesis
    by (simp add: crypto_laws_def sample_crypto_lib_def map_idI)
qed

theorem webhook_secret_roundtrip_witness:
  "\<exists>stored. encrypt_webhook_secret sample_crypto_lib (replicate 12 7) (WebhookSecretEncryptionKey (replicate 32 1)) ''s3cret''
       = Inr stored \<and>
     decrypt_webhook_secret sample_crypto_lib (WebhookSecretEncryptionKey (replicate 32 1)) stored = Inr ''s3cret''"
proof -
  let ?e = "encrypt_webhook_secret sample_crypto_lib (replicate 12 7) (WebhookSecretEncryptionKey (replicate 32 1)) ''s3cret''"
  obtain stored where "?e = Inr stored"
    by (simp add: encrypt_webhook_secret_def sample_crypto_lib_def)
  then show ?thesis
    using webhook_secret_roundtrip [OF sample_crypto_laws, of "replicate 12 7"]
    by (auto simp: webhook_secret_nonce_len_def)
qed

end
