(* ===== verification/Lease_Table.thy ===== *)
theory Lease_Table
  imports Sql_Table
begin

text \<open>
  The contract the two work queues of the program share (monitors due for a check, notification
  deliveries due for an attempt): a worker claims rows by writing its name and a lease into them,
  and every later write of the worker is guarded by its name. The locale states what a queue's row
  operations must satisfy and proves once what the queues rely on: an unexpired lease is not
  taken over, a worker that lost its claim writes nothing, and a row is finished at most once per
  claim.
\<close>

definition lease_free :: "timestamp \<Rightarrow> timestamp option \<Rightarrow> bool" where
  "lease_free now l = (case l of None \<Rightarrow> True | Some t \<Rightarrow> t < now)"

lemma lease_free_simps [simp]:
  "lease_free now None"
  "lease_free now (Some t) \<longleftrightarrow> t < now"
  by (simp_all add: lease_free_def)

locale lease_table =
  fixes key :: "'r \<Rightarrow> id"
    and owner :: "'r \<Rightarrow> string option"
    and lease :: "'r \<Rightarrow> timestamp option"
    and claim :: "timestamp \<Rightarrow> string \<Rightarrow> int \<Rightarrow> 'r \<Rightarrow> 'r"
    and extend :: "timestamp \<Rightarrow> int \<Rightarrow> 'r \<Rightarrow> 'r"
    and finish :: "timestamp \<Rightarrow> 'p \<Rightarrow> 'r \<Rightarrow> 'r"
  assumes key_claim: "key (claim now w s r) = key r"
    and key_extend: "key (extend now s r) = key r"
    and key_finish: "key (finish now p r) = key r"
    and owner_claim: "owner (claim now w s r) = Some w"
    and lease_claim: "lease (claim now w s r) = Some (add_seconds now s)"
    and owner_extend: "owner (extend now s r) = owner r"
    and lease_extend: "lease (extend now s r) = Some (add_seconds now s)"
    and owner_finish: "owner (finish now p r) = None"
    and lease_finish: "lease (finish now p r) = None"
begin

definition owned :: "id \<Rightarrow> string \<Rightarrow> 'r \<Rightarrow> bool" where
  "owned i w r \<longleftrightarrow> key r = i \<and> owner r = Some w"

text \<open>A claim over a selection of rows whose lease is free.\<close>

definition claim_selected :: "timestamp \<Rightarrow> string \<Rightarrow> int \<Rightarrow> id set \<Rightarrow> 'r list \<Rightarrow> 'r list" where
  "claim_selected now w s sel t = update_rows (\<lambda>r. key r \<in> sel) (claim now w s) t"

definition selects_free :: "timestamp \<Rightarrow> id set \<Rightarrow> 'r list \<Rightarrow> bool" where
  "selects_free now sel t \<longleftrightarrow> (\<forall>r \<in> set t. key r \<in> sel \<longrightarrow> lease_free now (lease r))"

lemma claim_skips_leased:
  assumes "selects_free now sel t" "r \<in> set t" "lease r = Some l" "now \<le> l"
  shows "r \<in> set (claim_selected now w s sel t)"
  using assms by (fastforce simp: claim_selected_def selects_free_def set_update_rows)

lemma claim_keys: "map key (claim_selected now w s sel t) = map key t"
  by (simp add: claim_selected_def update_rows_map key_claim)

lemma claim_owner:
  assumes "r \<in> set (claim_selected now w s sel t)" "key r \<in> sel"
  shows "owner r = Some w \<and> lease r = Some (add_seconds now s)"
  using assms
  by (auto simp: claim_selected_def set_update_rows owner_claim lease_claim key_claim)

lemma guarded_update_spares_others:
  assumes "r \<in> set t" "owner r \<noteq> Some w \<or> key r \<noteq> i"
  shows "r \<in> set (update_rows (owned i w) f t)"
  using assms by (auto simp: set_update_rows owned_def)

lemma owned_at_most_once:
  "distinct (map key t) \<Longrightarrow> rows_affected (owned i w) t \<le> 1"
  by (rule rows_affected_by_key [where k = key and i = i]) (auto simp: owned_def)

lemma owned_exactly_once:
  assumes "distinct (map key t)" "r \<in> set t" "owned i w r"
  shows "rows_affected (owned i w) t = 1"
  using rows_affected_1_by_key [of key t "owned i w" i r] assms by (simp add: owned_def)

text \<open>After a worker finished a row, or another one claimed it, the worker's writes change nothing.\<close>

lemma finish_only_once:
  "rows_affected (owned i w) (update_rows (owned i w) (finish now p) t) = 0"
  unfolding rows_affected_0_iff
  by (auto simp: owned_def owner_finish dest!: update_rows_memD split: if_splits)

lemma claim_evicts:
  assumes "i \<in> sel" "w \<noteq> w'"
  shows "rows_affected (owned i w') (claim_selected now w s sel t) = 0"
  unfolding rows_affected_0_iff claim_selected_def
  using assms by (auto simp: owned_def owner_claim key_claim dest!: update_rows_memD split: if_splits)

lemma lost_claim_writes_nothing:
  "rows_affected (owned i w) t = 0 \<Longrightarrow> update_rows (owned i w) f t = t"
  by (rule update_rows_unaffected)

lemma extend_keeps_owner:
  assumes "r \<in> set (update_rows (owned i w) (extend now s) t)" "owned i w r"
  shows "lease r = Some (add_seconds now s)"
proof -
  obtain r0 where "r = (if owned i w r0 then extend now s r0 else r0)"
    using update_rows_memD [OF assms(1)] by blast
  with assms(2) show ?thesis
    by (cases "owned i w r0") (simp_all add: lease_extend)
qed

end

end
