(* ===== verification/Pagination.thy ===== *)
theory Pagination
  imports Sql_Table Rust_Str
begin

text \<open>
  Cursor pagination: \<^verbatim>\<open>src/api/pagination.rs\<close>, the limit and cursor helpers of
  \<^verbatim>\<open>src/api/routes/sites/mod.rs\<close>, and the keyset condition of the list queries (rows strictly
  before the cursor in the order (timestamp, id), newest first). RFC 3339 text is chrono's: its
  formatter and parser are arguments.
  The locale states what a list query promises about its pages and proves once that following the
  cursors shows every row once, in order.
\<close>

section \<open>Limits\<close>

datatype api_error =
    BadRequest string
  | Unauthorized string
  | Forbidden string
  | NotFound string
  | Conflict string
  | TooManyRequests string
  | InternalError string

definition bounded_limit :: "nat option \<Rightarrow> nat \<Rightarrow> nat \<Rightarrow> string \<Rightarrow> api_error + int" where
  "bounded_limit value dflt max_limit field_name =
     (let limit = unwrap_or value dflt in
      if limit = 0 then Inl (BadRequest (field_name @ '' must be greater than 0''))
      else if limit > max_limit then
        Inl (BadRequest (field_name @ '' must be less than or equal to '' @ show_nat max_limit))
      else Inr (as_i64 (int limit)))"

definition history_limit :: "nat option \<Rightarrow> api_error + int" where
  "history_limit limit = bounded_limit limit 50 200 ''limit''"

definition checks_limit :: "nat option \<Rightarrow> api_error + int" where
  "checks_limit limit = bounded_limit limit 500 2000 ''limit''"

definition sites_limit :: "nat option \<Rightarrow> api_error + int" where
  "sites_limit limit = bounded_limit limit 10 100 ''limit''"

definition page_fetch_limit :: "nat \<Rightarrow> int" where
  "page_fetch_limit limit = as_i64 (int (sat_add_u64 limit 1))"

lemma bounded_limit_range:
  "bounded_limit v d m f = Inr n \<Longrightarrow> m < 2 ^ 63 \<Longrightarrow> 0 < n \<and> n \<le> int m"
  by (auto simp: bounded_limit_def Let_def as_i64_small split: if_splits)

lemma page_fetch_limit_small: "n < 2 ^ 63 - 1 \<Longrightarrow> page_fetch_limit n = int n + 1"
  by (simp add: page_fetch_limit_def sat_add_u64_def u64_max_def min_def as_i64_small)

section \<open>Cursors\<close>

record cursor_token =
  ct_timestamp :: timestamp
  ct_id :: id

definition encode_cursor :: "(timestamp \<Rightarrow> string) \<Rightarrow> timestamp \<Rightarrow> id \<Rightarrow> string" where
  "encode_cursor to_rfc3339 t i = to_rfc3339 t @ '','' @ show_int i"

definition parse_cursor ::
  "(string \<Rightarrow> timestamp option) \<Rightarrow> string option \<Rightarrow> api_error + cursor_token option" where
  "parse_cursor parse_rfc3339 cursor =
     (case cursor of
        None \<Rightarrow> Inr None
      | Some c \<Rightarrow>
          and_then (ok_or (BadRequest ''cursor must be in '<timestamp>,<id>' format'')
                      (split_once (CHR '','') c)) (\<lambda>(t, i).
          and_then (ok_or (BadRequest ''cursor timestamp must be RFC 3339'') (parse_rfc3339 t)) (\<lambda>t.
          and_then (ok_or (BadRequest ''cursor id must be an integer'') (parse_i64 i)) (\<lambda>i.
          Inr (Some \<lparr>ct_timestamp = t, ct_id = i\<rparr>)))))"

definition parse_sites_cursor :: "string option \<Rightarrow> api_error + int option" where
  "parse_sites_cursor cursor =
     (case option_filter (\<lambda>v. v \<noteq> []) (map_option trim cursor) of
        None \<Rightarrow> Inr None
      | Some c \<Rightarrow>
          (case parse_i64 c of
             Some i \<Rightarrow> Inr (Some i)
           | None \<Rightarrow> Inl (BadRequest ''cursor must be a valid site id'')))"

text \<open>The keyset condition: a missing cursor id compares with \<^verbatim>\<open>NULL\<close>.\<close>

definition before_cursor :: "timestamp option \<Rightarrow> id option \<Rightarrow> timestamp \<Rightarrow> id \<Rightarrow> bool" where
  "before_cursor ct ci t i =
     (case ct of
        None \<Rightarrow> True
      | Some c \<Rightarrow> t < c \<or> (t = c \<and> (case ci of None \<Rightarrow> False | Some j \<Rightarrow> i < j)))"

lemma before_cursor_None [simp]: "before_cursor None ci t i"
  by (simp add: before_cursor_def)

lemma before_cursor_Some [simp]:
  "before_cursor (Some c) (Some j) t i \<longleftrightarrow> (t, i) < (c, j)"
  by (auto simp: before_cursor_def)

section \<open>Pages\<close>

text \<open>The page kept from \<open>limit + 1\<close> fetched rows, and the cursor of the next page.\<close>

definition paginate_vec_with_cursor :: "'a list \<Rightarrow> nat \<Rightarrow> ('a \<Rightarrow> 'c) \<Rightarrow> 'a list \<times> 'c option" where
  "paginate_vec_with_cursor items limit cursor_fn =
     (if length items > limit
      then (take limit items,
            if 1 \<le> limit \<and> limit - 1 < length items then Some (cursor_fn (items ! (limit - 1))) else None)
      else (items, None))"

text \<open>
  Following the cursors of a query from the first page: the pages in order. The fuel bounds the
  number of requests; \<open>walk_pages_complete\<close> shows how much is enough.
\<close>

fun walk_pages :: "('c option \<Rightarrow> nat \<Rightarrow> 'a list) \<Rightarrow> ('a \<Rightarrow> 'c) \<Rightarrow> nat \<Rightarrow> nat \<Rightarrow> 'c option \<Rightarrow> 'a list list" where
  "walk_pages fetch cursor_fn limit 0 cur = []"
| "walk_pages fetch cursor_fn limit (Suc fuel) cur =
     (case paginate_vec_with_cursor (fetch cur (limit + 1)) limit cursor_fn of
        (items, None) \<Rightarrow> [items]
      | (items, Some c) \<Rightarrow> items # walk_pages fetch cursor_fn limit fuel (Some c))"

definition after_in_order :: "'c::linorder option \<Rightarrow> 'c \<Rightarrow> bool" where
  "after_in_order cur k = (case cur of None \<Rightarrow> True | Some c \<Rightarrow> k < c)"

lemma distinct_of_map: "distinct (map f xs) \<Longrightarrow> distinct xs"
  by (simp add: distinct_map)

lemma order_by_desc_filter:
  "order_by_desc k (filter P t) = filter P (order_by_desc k t)"
  by (simp add: order_by_desc_def filter_sort flip: rev_filter)

lemma order_by_desc_strict:
  assumes "distinct (map k t)"
  shows "sorted_wrt (\<lambda>x y. k y < k x) (order_by_desc k t)"
proof -
  have "distinct (map k (sort_key k (rev t)))"
    using assms by (simp add: distinct_map)
  then have "sorted_wrt (<) (map k (sort_key k (rev t)))"
    by (simp add: strict_sorted_iff)
  then show ?thesis
    by (simp add: order_by_desc_def sorted_wrt_rev sorted_wrt_map)
qed

lemma filter_below_nth:
  assumes "sorted_wrt (\<lambda>x y. k y < (k x :: 'c::linorder)) xs" "j < length xs"
  shows "filter (\<lambda>r. k r < k (xs ! j)) xs = drop (Suc j) xs"
  using assms
proof (induction xs arbitrary: j)
  case Nil
  then show ?case by simp
next
  case (Cons x xs)
  show ?case
  proof (cases j)
    case 0
    with Cons.prems show ?thesis by (auto simp: filter_id_conv)
  next
    case (Suc i)
    with Cons.prems have "k (xs ! i) < k x" by auto
    moreover have "filter (\<lambda>r. k r < k (xs ! i)) xs = drop (Suc i) xs"
      using Cons Suc by auto
    ultimately show ?thesis
      using Suc by (simp add: not_less_iff_gr_or_eq)
  qed
qed

locale keyset_query =
  fixes fetch :: "'d \<Rightarrow> 'c::linorder option \<Rightarrow> nat \<Rightarrow> 'r list"
    and rows :: "'d \<Rightarrow> 'r list"
    and cursor_of :: "'r \<Rightarrow> 'c"
  assumes fetch_page:
    "fetch d cur n =
       take n (order_by_desc cursor_of (filter (\<lambda>r. after_in_order cur (cursor_of r)) (rows d)))"
begin

definition keyed :: "'d \<Rightarrow> bool" where
  "keyed d \<longleftrightarrow> distinct (map cursor_of (rows d))"

definition listing :: "'d \<Rightarrow> 'r list" where
  "listing d = order_by_desc cursor_of (rows d)"

lemma set_listing: "set (listing d) = set (rows d)"
  by (simp add: listing_def)

lemma fetch_first: "fetch d None n = take n (listing d)"
  by (simp add: fetch_page after_in_order_def listing_def)

lemma fetch_next:
  assumes "keyed d" "j < length (listing d)"
  shows "fetch d (Some (cursor_of (listing d ! j))) n = take n (drop (Suc j) (listing d))"
  using filter_below_nth [of cursor_of "listing d" j] order_by_desc_strict [of cursor_of "rows d"] assms
  by (simp add: fetch_page after_in_order_def order_by_desc_filter listing_def keyed_def)

lemma walk_from:
  assumes "keyed d" "0 < limit" "length (drop p (listing d)) < fuel"
    "\<And>n. fetch d cur n = take n (drop p (listing d))" "p \<le> length (listing d)"
  shows "concat (walk_pages (fetch d) cursor_of limit fuel cur) = drop p (listing d) \<and>
    (\<forall>pg \<in> set (walk_pages (fetch d) cursor_of limit fuel cur). length pg \<le> limit)"
  using assms(3-5)
proof (induction fuel arbitrary: p cur)
  case 0
  then show ?case by simp
next
  case (Suc fuel)
  let ?L = "listing d"
  show ?case
  proof (cases "length (drop p ?L) \<le> limit")
    case True
    with Suc.prems show ?thesis
      by (simp add: paginate_vec_with_cursor_def)
  next
    case False
    let ?j = "p + (limit - 1)"
    have j: "?j < length ?L" "Suc ?j = p + limit"
      using False assms(2) by auto
    have "(take (limit + 1) (drop p ?L)) ! (limit - 1) = ?L ! ?j"
      using j assms(2) by simp
    then have step: "paginate_vec_with_cursor (fetch d cur (limit + 1)) limit cursor_of =
        (take limit (drop p ?L), Some (cursor_of (?L ! ?j)))"
      using False assms(2) Suc.prems(2) by (simp add: paginate_vec_with_cursor_def min_def)
    have "concat (walk_pages (fetch d) cursor_of limit fuel (Some (cursor_of (?L ! ?j)))) =
        drop (p + limit) ?L \<and>
        (\<forall>pg \<in> set (walk_pages (fetch d) cursor_of limit fuel (Some (cursor_of (?L ! ?j)))).
           length pg \<le> limit)"
      by (rule Suc.IH) (use fetch_next [OF assms(1) j(1)] j Suc.prems assms(2) False in auto)
    moreover have "take limit (drop p ?L) @ drop (p + limit) ?L = drop p ?L"
      by (metis add.commute append_take_drop_id drop_drop)
    ultimately show ?thesis
      using step by simp
  qed
qed

lemma walk_complete:
  assumes "keyed d" "0 < limit" "length (rows d) < fuel"
  shows "concat (walk_pages (fetch d) cursor_of limit fuel None) = listing d"
    and "\<forall>pg \<in> set (walk_pages (fetch d) cursor_of limit fuel None). length pg \<le> limit"
  using walk_from [of d limit 0 fuel None] assms
  by (simp_all add: fetch_first listing_def order_by_desc_def)

end

section \<open>Properties of cursors and limits\<close>

text \<open>
  The cursor a list response carries, sent back as it is, parses to the timestamp and the id
  it was made from. chrono's formatter and parser are arguments: what is used of them is that
  parsing inverts formatting and that RFC 3339 text has no comma.
\<close>

theorem cursor_roundtrip:
  assumes "parse_rfc3339 (to_rfc3339 t) = Some t" "CHR '','' \<notin> set (to_rfc3339 t)"
    and "- (2 ^ 63) \<le> i" "i < 2 ^ 63"
  shows "parse_cursor parse_rfc3339 (Some (encode_cursor to_rfc3339 t i)) =
    Inr (Some \<lparr>ct_timestamp = t, ct_id = i\<rparr>)"
  using split_once_append [OF assms(2), of "show_int i"] parse_i64_show_int [OF assms(3,4)] assms(1)
  by (simp add: parse_cursor_def encode_cursor_def)

theorem cursor_roundtrip_witness:
  "parse_cursor parse_i64 (Some (encode_cursor show_int 5 7)) =
     Inr (Some \<lparr>ct_timestamp = 5, ct_id = 7\<rparr>)"
proof (rule cursor_roundtrip)
  show "parse_i64 (show_int 5) = Some 5"
    by (rule parse_i64_show_int) simp_all
  show "CHR '','' \<notin> set (show_int 5)"
    by code_simp
qed simp_all

end
