(* ===== verification/Delivery_Repository.thy ===== *)
theory Delivery_Repository
  imports Domain_Model Lease_Table Pagination
begin

text \<open>
  \<^verbatim>\<open>src/domain/notification_deliveries/repository.rs\<close>: the queue of notification deliveries. A row
  is enqueued once per (channel, check, event), claimed under a lease by a worker, and marked
  delivered or failed by the worker that holds it; a failed row whose next attempt is \<^verbatim>\<open>NULL\<close> is
  never claimed again.
\<close>

section \<open>Enqueueing\<close>

definition delivery_key :: "notification_delivery \<Rightarrow> id \<times> id \<times> notification_event_type" where
  "delivery_key n = (nd_notification_channel_id n, nd_site_monitor_check_id n, nd_event_type n)"

definition new_delivery_key :: "new_notification_delivery \<Rightarrow> id \<times> id \<times> notification_event_type" where
  "new_delivery_key n = (nnd_notification_channel_id n, nnd_site_monitor_check_id n, nnd_event_type n)"

definition delivery_row :: "timestamp \<Rightarrow> id \<Rightarrow> new_notification_delivery \<Rightarrow> notification_delivery" where
  "delivery_row now i n =
     \<lparr>nd_id = i, nd_notification_channel_id = nnd_notification_channel_id n,
      nd_site_monitor_id = nnd_site_monitor_id n,
      nd_site_monitor_check_id = nnd_site_monitor_check_id n, nd_incident_id = nnd_incident_id n,
      nd_event_type = nnd_event_type n, nd_payload = nnd_payload n, nd_status = Pending,
      nd_attempts = 0, nd_next_attempt_at = Some now, nd_claimed_at = None, nd_lease_until = None,
      nd_claimed_by = None, nd_delivered_at = None, nd_last_error = None, nd_created_at = now,
      nd_updated_at = now\<rparr>"

definition delivery_references_exist :: "new_notification_delivery \<Rightarrow> db \<Rightarrow> bool" where
  "delivery_references_exist n d \<longleftrightarrow>
     find_channel (nnd_notification_channel_id n) d \<noteq> None \<and>
     find_monitor (nnd_site_monitor_id n) d \<noteq> None \<and>
     find (\<lambda>c. smc_id c = nnd_site_monitor_check_id n) (db_checks d) \<noteq> None \<and>
     (case nnd_incident_id n of
        None \<Rightarrow> True
      | Some i \<Rightarrow> find (\<lambda>x. inc_id x = i) (db_incidents d) \<noteq> None)"

text \<open>
  One \<^verbatim>\<open>INSERT ... ON CONFLICT DO NOTHING\<close>: the sequence advances in both cases; the foreign keys
  are checked for a row that is inserted.
\<close>

definition insert_delivery :: "timestamp \<Rightarrow> new_notification_delivery \<Rightarrow> (db, unit) stmt" where
  "insert_delivery now n d =
     (let d1 = d\<lparr>db_next_delivery := db_next_delivery d + 1\<rparr> in
      if new_delivery_key n \<in> delivery_key ` set (db_deliveries d) then Inr ((), d1)
      else if \<not> delivery_references_exist n d
      then Inl (ForeignKeyViolation ''notification_deliveries'')
      else Inr ((), d1\<lparr>db_deliveries :=
                         db_deliveries d @ [delivery_row now (db_next_delivery d) n]\<rparr>))"

fun enqueue_deliveries :: "timestamp \<Rightarrow> new_notification_delivery list \<Rightarrow> (db, unit) stmt" where
  "enqueue_deliveries now [] = stmt_return ()"
| "enqueue_deliveries now (n # ns) =
     stmt_bind (insert_delivery now n) (\<lambda>_. enqueue_deliveries now ns)"

section \<open>Claiming\<close>

definition channel_active :: "id \<Rightarrow> db \<Rightarrow> bool" where
  "channel_active i d = (\<exists>c \<in> set (db_channels d). nc_id c = i \<and> nc_is_active c)"

definition delivery_unfinished :: "notification_delivery \<Rightarrow> bool" where
  "delivery_unfinished n \<longleftrightarrow>
     nd_status n = Pending \<or> (nd_status n = Failed \<and> nd_next_attempt_at n \<noteq> None)"

definition delivery_claimable :: "timestamp \<Rightarrow> db \<Rightarrow> notification_delivery \<Rightarrow> bool" where
  "delivery_claimable now d n \<longleftrightarrow>
     channel_active (nd_notification_channel_id n) d \<and> delivery_unfinished n \<and>
     (case nd_next_attempt_at n of None \<Rightarrow> False | Some t \<Rightarrow> t \<le> now) \<and>
     lease_free now (nd_lease_until n)"

definition due_deliveries :: "timestamp \<Rightarrow> id set \<Rightarrow> int \<Rightarrow> db \<Rightarrow> notification_delivery list" where
  "due_deliveries now locked limit d =
     limit_rows limit
       (order_by (\<lambda>n. (nd_next_attempt_at n, nd_id n))
          (filter (\<lambda>n. delivery_claimable now d n \<and> nd_id n \<notin> locked) (db_deliveries d)))"

definition claim_delivery_row ::
  "timestamp \<Rightarrow> string \<Rightarrow> int \<Rightarrow> notification_delivery \<Rightarrow> notification_delivery" where
  "claim_delivery_row now worker_id lease_seconds n =
     n\<lparr>nd_claimed_at := Some now, nd_lease_until := Some (add_seconds now lease_seconds),
       nd_claimed_by := Some worker_id, nd_updated_at := now\<rparr>"

text \<open>The returned columns: the claimed row joined with its channel.\<close>

definition claimed_delivery ::
  "notification_delivery \<Rightarrow> notification_channel \<Rightarrow> claimed_notification_delivery" where
  "claimed_delivery n c =
     \<lparr>cnd_id = nd_id n, cnd_notification_channel_id = nd_notification_channel_id n,
      cnd_site_monitor_id = nd_site_monitor_id n,
      cnd_site_monitor_check_id = nd_site_monitor_check_id n, cnd_incident_id = nd_incident_id n,
      cnd_event_type = nd_event_type n, cnd_payload = nd_payload n, cnd_status = nd_status n,
      cnd_attempts = nd_attempts n, cnd_channel_type = nc_channel_type c,
      cnd_channel_name = nc_name c, cnd_destination = nc_destination c,
      cnd_webhook_secret_ciphertext = nc_webhook_secret_ciphertext c\<rparr>"

definition claim_due_deliveries ::
  "timestamp \<Rightarrow> id set \<Rightarrow> string \<Rightarrow> int \<Rightarrow> int \<Rightarrow> (db, claimed_notification_delivery list) stmt" where
  "claim_due_deliveries now locked worker_id limit lease_seconds d =
     (if limit < 0 then Inl NegativeLimit
      else
        let due = nd_id ` set (due_deliveries now locked limit d);
            p = (\<lambda>n. nd_id n \<in> due);
            f = claim_delivery_row now worker_id lease_seconds
        in Inr (List.map_filter
                  (\<lambda>n. map_option (claimed_delivery n) (find_channel (nd_notification_channel_id n) d))
                  (returning_rows p f (db_deliveries d)),
                d\<lparr>db_deliveries := update_rows p f (db_deliveries d)\<rparr>))"

definition delivery_claimable_at :: "timestamp \<Rightarrow> notification_delivery \<Rightarrow> timestamp" where
  "delivery_claimable_at now n =
     max (case nd_next_attempt_at n of None \<Rightarrow> now | Some t \<Rightarrow> max t now)
       (case nd_lease_until n of None \<Rightarrow> now | Some l \<Rightarrow> if now < l then l else now)"

definition next_claimable_delivery_at :: "timestamp \<Rightarrow> db \<Rightarrow> timestamp option" where
  "next_claimable_delivery_at now d =
     list_min (map (delivery_claimable_at now)
       (filter (\<lambda>n. channel_active (nd_notification_channel_id n) d \<and> delivery_unfinished n \<and>
                    nd_next_attempt_at n \<noteq> None) (db_deliveries d)))"

section \<open>Working under a claim\<close>

definition holds_delivery :: "id \<Rightarrow> string \<Rightarrow> notification_delivery \<Rightarrow> bool" where
  "holds_delivery i worker n \<longleftrightarrow> nd_id n = i \<and> nd_claimed_by n = Some worker"

definition update_held ::
  "id \<Rightarrow> string \<Rightarrow> (notification_delivery \<Rightarrow> notification_delivery) \<Rightarrow> (db, bool) stmt" where
  "update_held i worker f d =
     Inr (rows_affected (holds_delivery i worker) (db_deliveries d) = 1,
          d\<lparr>db_deliveries := update_rows (holds_delivery i worker) f (db_deliveries d)\<rparr>)"

text \<open>The statements that count an attempt overflow the \<^verbatim>\<open>INTEGER\<close> column at its maximum.\<close>

definition count_attempt :: "id \<Rightarrow> string \<Rightarrow> (db, unit) stmt" where
  "count_attempt i worker d =
     (if \<exists>n \<in> set (db_deliveries d). holds_delivery i worker n \<and> \<not> i32_in_range (nd_attempts n + 1)
      then Inl IntegerOutOfRange else Inr ((), d))"

datatype delivery_outcome =
    OutcomeDelivered
  | OutcomeFailed string "timestamp option"

definition outcome_row ::
  "timestamp \<Rightarrow> delivery_outcome \<Rightarrow> notification_delivery \<Rightarrow> notification_delivery" where
  "outcome_row now outcome n =
     (case outcome of
        OutcomeDelivered \<Rightarrow>
          n\<lparr>nd_status := Delivered, nd_attempts := nd_attempts n + 1, nd_delivered_at := Some now,
            nd_claimed_at := None, nd_lease_until := None, nd_claimed_by := None,
            nd_last_error := None, nd_updated_at := now\<rparr>
      | OutcomeFailed last_error next_attempt_at \<Rightarrow>
          n\<lparr>nd_status := Failed, nd_attempts := nd_attempts n + 1,
            nd_next_attempt_at := next_attempt_at, nd_claimed_at := None, nd_lease_until := None,
            nd_claimed_by := None, nd_last_error := Some last_error, nd_updated_at := now\<rparr>)"

definition mark_delivered :: "timestamp \<Rightarrow> id \<Rightarrow> string \<Rightarrow> (db, bool) stmt" where
  "mark_delivered now i claimed_by =
     stmt_bind (count_attempt i claimed_by)
       (\<lambda>_. update_held i claimed_by (outcome_row now OutcomeDelivered))"

definition mark_failed ::
  "timestamp \<Rightarrow> id \<Rightarrow> string \<Rightarrow> string \<Rightarrow> timestamp option \<Rightarrow> (db, bool) stmt" where
  "mark_failed now i claimed_by last_error next_attempt_at =
     stmt_bind (count_attempt i claimed_by)
       (\<lambda>_. update_held i claimed_by (outcome_row now (OutcomeFailed last_error next_attempt_at)))"

definition extend_delivery_row :: "timestamp \<Rightarrow> int \<Rightarrow> notification_delivery \<Rightarrow> notification_delivery" where
  "extend_delivery_row now lease_seconds n =
     n\<lparr>nd_lease_until := Some (add_seconds now lease_seconds), nd_updated_at := now\<rparr>"

definition extend_delivery_claim :: "timestamp \<Rightarrow> id \<Rightarrow> string \<Rightarrow> int \<Rightarrow> (db, bool) stmt" where
  "extend_delivery_claim now i claimed_by lease_seconds =
     update_held i claimed_by (extend_delivery_row now lease_seconds)"

definition release_delivery_row :: "timestamp \<Rightarrow> notification_delivery \<Rightarrow> notification_delivery" where
  "release_delivery_row now n =
     n\<lparr>nd_claimed_at := None, nd_lease_until := None, nd_claimed_by := None, nd_updated_at := now\<rparr>"

definition release_delivery_claim :: "timestamp \<Rightarrow> id \<Rightarrow> string \<Rightarrow> (db, bool) stmt" where
  "release_delivery_claim now i claimed_by = update_held i claimed_by (release_delivery_row now)"

section \<open>The list of a site's deliveries\<close>

definition delivery_matches ::
  "id \<Rightarrow> delivery_status option \<Rightarrow> notification_event_type option \<Rightarrow> db \<Rightarrow> notification_delivery \<Rightarrow> bool" where
  "delivery_matches site st ev d n \<longleftrightarrow>
     (\<exists>m \<in> set (db_monitors d). sm_id m = nd_site_monitor_id n \<and> sm_site_id m = site) \<and>
     find_site site d \<noteq> None \<and>
     (st = None \<or> st = Some (nd_status n)) \<and> (ev = None \<or> ev = Some (nd_event_type n))"

definition site_delivery :: "notification_delivery \<Rightarrow> notification_channel \<Rightarrow> site_notification_delivery" where
  "site_delivery n c =
     \<lparr>snd_id = nd_id n, snd_notification_channel_id = nd_notification_channel_id n,
      snd_site_monitor_id = nd_site_monitor_id n,
      snd_site_monitor_check_id = nd_site_monitor_check_id n, snd_incident_id = nd_incident_id n,
      snd_event_type = nd_event_type n, snd_payload = nd_payload n, snd_status = nd_status n,
      snd_attempts = nd_attempts n, snd_next_attempt_at = nd_next_attempt_at n,
      snd_claimed_at = nd_claimed_at n, snd_lease_until = nd_lease_until n,
      snd_claimed_by = nd_claimed_by n, snd_delivered_at = nd_delivered_at n,
      snd_last_error = nd_last_error n, snd_created_at = nd_created_at n,
      snd_updated_at = nd_updated_at n, snd_channel_type = nc_channel_type c,
      snd_channel_name = nc_name c, snd_destination = nc_destination c\<rparr>"

definition list_deliveries_by_site_id ::
  "id \<Rightarrow> delivery_cursor_query \<Rightarrow> db \<Rightarrow> site_notification_delivery list" where
  "list_deliveries_by_site_id site q d =
     limit_rows (dcq_limit q)
       (order_by_desc (\<lambda>n. (snd_created_at n, snd_id n))
          (List.map_filter
             (\<lambda>n. if delivery_matches site (dcq_status q) (dcq_event_type q) d n \<and>
                     before_cursor (dcq_cursor_created_at q) (dcq_cursor_id q)
                       (nd_created_at n) (nd_id n)
                  then map_option (site_delivery n) (find_channel (nd_notification_channel_id n) d)
                  else None)
             (db_deliveries d)))"

section \<open>Frame conditions and the lease contract\<close>

lemma claim_delivery_row_frame [row_frame, simp]:
  "nd_id (claim_delivery_row now w s n) = nd_id n"
  "nd_claimed_by (claim_delivery_row now w s n) = Some w"
  "nd_lease_until (claim_delivery_row now w s n) = Some (add_seconds now s)"
  "nd_status (claim_delivery_row now w s n) = nd_status n"
  "nd_attempts (claim_delivery_row now w s n) = nd_attempts n"
  "nd_next_attempt_at (claim_delivery_row now w s n) = nd_next_attempt_at n"
  "delivery_key (claim_delivery_row now w s n) = delivery_key n"
  by (simp_all add: claim_delivery_row_def delivery_key_def)

lemma extend_delivery_row_frame [row_frame, simp]:
  "nd_id (extend_delivery_row now s n) = nd_id n"
  "nd_claimed_by (extend_delivery_row now s n) = nd_claimed_by n"
  "nd_lease_until (extend_delivery_row now s n) = Some (add_seconds now s)"
  "nd_status (extend_delivery_row now s n) = nd_status n"
  "nd_attempts (extend_delivery_row now s n) = nd_attempts n"
  "nd_next_attempt_at (extend_delivery_row now s n) = nd_next_attempt_at n"
  "delivery_key (extend_delivery_row now s n) = delivery_key n"
  by (simp_all add: extend_delivery_row_def delivery_key_def)

lemma release_delivery_row_frame [row_frame, simp]:
  "nd_id (release_delivery_row now n) = nd_id n"
  "nd_claimed_by (release_delivery_row now n) = None"
  "nd_lease_until (release_delivery_row now n) = None"
  "nd_status (release_delivery_row now n) = nd_status n"
  "nd_attempts (release_delivery_row now n) = nd_attempts n"
  "nd_next_attempt_at (release_delivery_row now n) = nd_next_attempt_at n"
  "delivery_key (release_delivery_row now n) = delivery_key n"
  by (simp_all add: release_delivery_row_def delivery_key_def)

lemma outcome_row_frame [row_frame, simp]:
  "nd_id (outcome_row now out n) = nd_id n"
  "nd_claimed_by (outcome_row now out n) = None"
  "nd_lease_until (outcome_row now out n) = None"
  "nd_attempts (outcome_row now out n) = nd_attempts n + 1"
  "delivery_key (outcome_row now out n) = delivery_key n"
  by (simp_all add: outcome_row_def delivery_key_def split: delivery_outcome.split)

interpretation delivery_lease: lease_table nd_id nd_claimed_by nd_lease_until
  claim_delivery_row extend_delivery_row outcome_row
  by unfold_locales simp_all

interpretation delivery_release: lease_table nd_id nd_claimed_by nd_lease_until
  claim_delivery_row extend_delivery_row "\<lambda>now _ :: unit. release_delivery_row now"
  by unfold_locales simp_all

lemma holds_delivery_owned: "holds_delivery = delivery_lease.owned"
  by (intro ext) (simp add: holds_delivery_def delivery_lease.owned_def)

lemma mark_delivered_Inr:
  "mark_delivered now i w d = Inr (b, d') \<longleftrightarrow>
     (\<forall>n \<in> set (db_deliveries d). holds_delivery i w n \<longrightarrow> i32_in_range (nd_attempts n + 1)) \<and>
     update_held i w (outcome_row now OutcomeDelivered) d = Inr (b, d')"
  by (auto simp: mark_delivered_def stmt_bind_Inr_iff count_attempt_def)

lemma mark_failed_Inr:
  "mark_failed now i w e nx d = Inr (b, d') \<longleftrightarrow>
     (\<forall>n \<in> set (db_deliveries d). holds_delivery i w n \<longrightarrow> i32_in_range (nd_attempts n + 1)) \<and>
     update_held i w (outcome_row now (OutcomeFailed e nx)) d = Inr (b, d')"
  by (auto simp: mark_failed_def stmt_bind_Inr_iff count_attempt_def)

section \<open>The invariant of the delivery table\<close>

definition delivery_inv :: "db \<Rightarrow> bool" where
  "delivery_inv d \<longleftrightarrow>
     distinct (map nd_id (db_deliveries d)) \<and> distinct (map delivery_key (db_deliveries d)) \<and>
     (\<forall>n \<in> set (db_deliveries d). nd_id n < db_next_delivery d)"

lemma delivery_row_simps [simp]:
  "nd_id (delivery_row now i n) = i"
  "delivery_key (delivery_row now i n) = new_delivery_key n"
  "nd_status (delivery_row now i n) = Pending"
  "nd_attempts (delivery_row now i n) = 0"
  "nd_next_attempt_at (delivery_row now i n) = Some now"
  "nd_claimed_by (delivery_row now i n) = None"
  by (simp_all add: delivery_row_def delivery_key_def new_delivery_key_def)

lemma insert_delivery_inv:
  assumes "insert_delivery now n d = Inr ((), d')" "delivery_inv d"
  shows "delivery_inv d'"
proof (cases "new_delivery_key n \<in> delivery_key ` set (db_deliveries d)")
  case True
  then show ?thesis
    using assms by (fastforce simp: insert_delivery_def Let_def delivery_inv_def)
next
  case False
  then have "d' = d\<lparr>db_next_delivery := db_next_delivery d + 1,
      db_deliveries := db_deliveries d @ [delivery_row now (db_next_delivery d) n]\<rparr>"
    using assms(1) by (simp add: insert_delivery_def Let_def split: if_splits)
  then show ?thesis
    using False assms(2) by (auto simp: delivery_inv_def image_iff)
qed

text \<open>What an \<open>INSERT\<close> does to the rows: nothing if the key is present, else one fresh row.\<close>

lemma insert_delivery_rows:
  "insert_delivery now n d = Inr ((), d') \<Longrightarrow>
   db_deliveries d' = db_deliveries d @
     (if new_delivery_key n \<in> delivery_key ` set (db_deliveries d) then []
      else [delivery_row now (db_next_delivery d) n])"
  by (auto simp: insert_delivery_def Let_def split: if_splits)

lemma enqueue_keeps_rows:
  "enqueue_deliveries now ns d = Inr ((), d') \<Longrightarrow>
   \<exists>new. db_deliveries d' = db_deliveries d @ new \<and>
     (\<forall>x \<in> set new. nd_status x = Pending \<and> nd_attempts x = 0 \<and> nd_claimed_by x = None \<and>
        nd_next_attempt_at x = Some now \<and> delivery_key x \<in> new_delivery_key ` set ns)"
proof (induction ns arbitrary: d)
  case Nil
  then show ?case by simp
next
  case (Cons n ns)
  then obtain d1 where d1: "insert_delivery now n d = Inr ((), d1)"
    "enqueue_deliveries now ns d1 = Inr ((), d')"
    by (auto simp: stmt_bind_Inr_iff)
  obtain new where "db_deliveries d' = db_deliveries d1 @ new"
    "\<forall>x \<in> set new. nd_status x = Pending \<and> nd_attempts x = 0 \<and> nd_claimed_by x = None \<and>
        nd_next_attempt_at x = Some now \<and> delivery_key x \<in> new_delivery_key ` set ns"
    using Cons.IH [OF d1(2)] by blast
  then show ?case
    using insert_delivery_rows [OF d1(1)]
    by (cases "new_delivery_key n \<in> delivery_key ` set (db_deliveries d)") auto
qed

lemma enqueue_inv:
  "enqueue_deliveries now ns d = Inr ((), d') \<Longrightarrow> delivery_inv d \<Longrightarrow> delivery_inv d'"
  by (induction ns arbitrary: d) (auto simp: stmt_bind_Inr_iff dest: insert_delivery_inv)

lemma enqueue_keys:
  "enqueue_deliveries now ns d = Inr ((), d') \<Longrightarrow>
   delivery_key ` set (db_deliveries d') = delivery_key ` set (db_deliveries d) \<union> new_delivery_key ` set ns"
proof (induction ns arbitrary: d)
  case Nil
  then show ?case by simp
next
  case (Cons n ns)
  then obtain d1 where d1: "insert_delivery now n d = Inr ((), d1)"
    "enqueue_deliveries now ns d1 = Inr ((), d')"
    by (auto simp: stmt_bind_Inr_iff)
  show ?case
    using Cons.IH [OF d1(2)] insert_delivery_rows [OF d1(1)] by auto
qed

lemma enqueue_present_keys:
  "new_delivery_key ` set ns \<subseteq> delivery_key ` set (db_deliveries d) \<Longrightarrow>
   \<exists>d'. enqueue_deliveries now ns d = Inr ((), d') \<and> db_deliveries d' = db_deliveries d"
proof (induction ns arbitrary: d)
  case Nil
  then show ?case by simp
next
  case (Cons n ns)
  let ?d = "d\<lparr>db_next_delivery := db_next_delivery d + 1\<rparr>"
  have "insert_delivery now n d = Inr ((), ?d)"
    using Cons.prems by (simp add: insert_delivery_def Let_def)
  moreover have "\<exists>d'. enqueue_deliveries now ns ?d = Inr ((), d') \<and> db_deliveries d' = db_deliveries ?d"
    by (rule Cons.IH) (use Cons.prems in simp)
  ultimately show ?case
    by (simp add: stmt_bind_InrI)
qed

section \<open>Properties of the delivery queue\<close>

lemma due_deliveries_mem:
  "n \<in> set (due_deliveries now locked limit d) \<Longrightarrow>
   n \<in> set (db_deliveries d) \<and> delivery_claimable now d n \<and> nd_id n \<notin> locked"
  using set_limit_rows by (fastforce simp: due_deliveries_def)

lemma claim_due_deliveries_Inr:
  "claim_due_deliveries now locked w limit s d = Inr (rs, d') \<longleftrightarrow>
     0 \<le> limit \<and>
     (let p = (\<lambda>n. nd_id n \<in> nd_id ` set (due_deliveries now locked limit d)) in
      rs = List.map_filter
             (\<lambda>n. map_option (claimed_delivery n) (find_channel (nd_notification_channel_id n) d))
             (returning_rows p (claim_delivery_row now w s) (db_deliveries d)) \<and>
      d' = d\<lparr>db_deliveries := update_rows p (claim_delivery_row now w s) (db_deliveries d)\<rparr>)"
  by (auto simp: claim_due_deliveries_def Let_def)

lemma due_delivery_ids:
  assumes "delivery_inv d" "n \<in> set (db_deliveries d)"
  shows "nd_id n \<in> nd_id ` set (due_deliveries now locked limit d) \<longleftrightarrow>
    n \<in> set (due_deliveries now locked limit d)"
  using assms due_deliveries_mem distinct_map_eqD [of nd_id "db_deliveries d" n]
  unfolding delivery_inv_def by blast

lemma delivery_claimable_bounds:
  "delivery_claimable now' d n \<Longrightarrow> now \<le> now' \<Longrightarrow> delivery_claimable_at now n \<le> now'"
  by (auto simp: delivery_claimable_def delivery_claimable_at_def split: option.splits)

text \<open>
  C6: enqueueing the notifications of a check is idempotent: it never disturbs a row already
  queued, afterwards each (channel, check, event) is queued exactly once, the rows it adds are
  pending with no attempt and due at once, and running it again adds nothing.
\<close>

theorem enqueue_is_idempotent:
  assumes "delivery_inv d" "enqueue_deliveries now ns d = Inr ((), d')"
  shows "(\<exists>new. db_deliveries d' = db_deliveries d @ new \<and>
            (\<forall>x \<in> set new. nd_status x = Pending \<and> nd_attempts x = 0 \<and> nd_claimed_by x = None \<and>
               nd_next_attempt_at x = Some now)) \<and>
    distinct (map delivery_key (db_deliveries d')) \<and>
    new_delivery_key ` set ns \<subseteq> delivery_key ` set (db_deliveries d') \<and>
    (\<exists>d''. enqueue_deliveries later ns d' = Inr ((), d'') \<and> db_deliveries d'' = db_deliveries d')"
proof -
  have keys: "new_delivery_key ` set ns \<subseteq> delivery_key ` set (db_deliveries d')"
    using enqueue_keys [OF assms(2)] by blast
  obtain new where "db_deliveries d' = db_deliveries d @ new"
    "\<forall>x \<in> set new. nd_status x = Pending \<and> nd_attempts x = 0 \<and> nd_claimed_by x = None \<and>
        nd_next_attempt_at x = Some now \<and> delivery_key x \<in> new_delivery_key ` set ns"
    using enqueue_keeps_rows [OF assms(2)] by blast
  then show ?thesis
    using keys enqueue_inv [OF assms(2,1)] enqueue_present_keys [OF keys]
    unfolding delivery_inv_def by blast
qed

text \<open>A database with one channel, one monitor and one check, for the witnesses.\<close>

definition sample_channel :: notification_channel where
  "sample_channel =
     \<lparr>nc_id = 4, nc_channel_type = Slack, nc_name = ''ops'', nc_destination = ''https://h.test'',
      nc_webhook_secret_ciphertext = None, nc_notify_on_failure = True, nc_notify_on_recovery = True,
      nc_is_active = True, nc_created_at = 0, nc_updated_at = 0\<rparr>"

definition sample_new_delivery :: new_notification_delivery where
  "sample_new_delivery =
     \<lparr>nnd_notification_channel_id = 4, nnd_site_monitor_id = 1, nnd_site_monitor_check_id = 8,
      nnd_incident_id = None, nnd_event_type = Failure, nnd_payload = JNull\<rparr>"

definition sample_queue_db :: db where
  "sample_queue_db = empty_db
     \<lparr>db_channels := [sample_channel],
      db_deliveries := [delivery_row 10 1 sample_new_delivery], db_next_delivery := 2\<rparr>"

lemma sample_queue_inv: "delivery_inv sample_queue_db"
  by (simp add: delivery_inv_def sample_queue_db_def)

theorem enqueue_is_idempotent_witness:
  "\<exists>d'. enqueue_deliveries 20 [sample_new_delivery] sample_queue_db = Inr ((), d') \<and>
     distinct (map delivery_key (db_deliveries d'))"
proof -
  have "\<exists>d'. enqueue_deliveries 20 [sample_new_delivery] sample_queue_db = Inr ((), d')"
    by (simp add: stmt_bind_def insert_delivery_def sample_queue_db_def Let_def)
  then obtain d' where d': "enqueue_deliveries 20 [sample_new_delivery] sample_queue_db = Inr ((), d')" ..
  show ?thesis
    using d' enqueue_is_idempotent [OF sample_queue_inv d', of 30] by (intro exI conjI) (assumption, elim conjE)
qed

lemma active_channel_found: "channel_active i d \<Longrightarrow> \<exists>c. find_channel i d = Some c"
  by (cases "find_channel i d") (auto simp: channel_active_def find_channel_def find_None_iff)

lemma map_filter_total:
  "(\<And>x. x \<in> set xs \<Longrightarrow> \<exists>y. f x = Some y) \<Longrightarrow> List.map_filter f xs = map (\<lambda>x. the (f x)) xs"
  by (induction xs) (auto simp: List.map_filter_def)

text \<open>What a claim returns, row by row: the due rows in table order, each with its channel.\<close>

lemma claim_returns_due_deliveries:
  assumes "delivery_inv d" "claim_due_deliveries now locked w limit s d = Inr (rs, d')"
  defines "due \<equiv> due_deliveries now locked limit d"
  shows "rs = map (\<lambda>n. claimed_delivery (claim_delivery_row now w s n)
            (the (find_channel (nd_notification_channel_id n) d)))
          (filter (\<lambda>n. n \<in> set due) (db_deliveries d))"
    and "map cnd_id rs = map nd_id (filter (\<lambda>n. n \<in> set due) (db_deliveries d))"
    and "length rs = length due"
    and "d' = d\<lparr>db_deliveries :=
           map (\<lambda>n. if n \<in> set due then claim_delivery_row now w s n else n) (db_deliveries d)\<rparr>"
proof -
  let ?p = "\<lambda>n. nd_id n \<in> nd_id ` set due"
  have p: "filter ?p (db_deliveries d) = filter (\<lambda>n. n \<in> set due) (db_deliveries d)"
    unfolding due_def by (rule filter_cong [OF refl]) (rule due_delivery_ids [OF assms(1)])
  have found: "\<exists>c. find_channel (nd_notification_channel_id n) d = Some c" if "n \<in> set due" for n
    using due_deliveries_mem [OF that [unfolded due_def]] active_channel_found
    by (simp add: delivery_claimable_def)
  show rs: "rs = map (\<lambda>n. claimed_delivery (claim_delivery_row now w s n)
            (the (find_channel (nd_notification_channel_id n) d)))
          (filter (\<lambda>n. n \<in> set due) (db_deliveries d))"
  proof -
    let ?f = "\<lambda>n. map_option (claimed_delivery n) (find_channel (nd_notification_channel_id n) d)"
    let ?xs = "map (claim_delivery_row now w s) (filter (\<lambda>n. n \<in> set due) (db_deliveries d))"
    have "rs = List.map_filter ?f ?xs"
      using assms(2) unfolding claim_due_deliveries_Inr Let_def returning_rows_def
        due_def [symmetric] p by (rule conjE) (rule conjunct1)
    also have "\<dots> = map (\<lambda>x. the (?f x)) ?xs"
      by (rule map_filter_total) (auto dest: found simp: claim_delivery_row_def)
    also have "\<dots> = map (\<lambda>n. claimed_delivery (claim_delivery_row now w s n)
            (the (find_channel (nd_notification_channel_id n) d)))
          (filter (\<lambda>n. n \<in> set due) (db_deliveries d))"
      unfolding map_map by (rule map_cong [OF refl]) (auto dest: found simp: claim_delivery_row_def)
    finally show ?thesis .
  qed
  show "map cnd_id rs = map nd_id (filter (\<lambda>n. n \<in> set due) (db_deliveries d))"
    by (simp add: rs claimed_delivery_def comp_def)
  have "length (filter ?p (db_deliveries d)) = length due"
  proof (rule filter_ids_length)
    show "distinct (map nd_id (db_deliveries d))"
      using assms(1) by (simp add: delivery_inv_def)
    then show "distinct (map nd_id due)"
      unfolding due_def due_deliveries_def
      by (intro distinct_map_limit distinct_map_order_by distinct_map_filter)
    show "set due \<subseteq> set (db_deliveries d)"
      unfolding due_def using due_deliveries_mem by blast
  qed
  then show "length rs = length due"
    by (simp add: rs p)
  have "update_rows ?p (claim_delivery_row now w s) (db_deliveries d) =
      map (\<lambda>n. if n \<in> set due then claim_delivery_row now w s n else n) (db_deliveries d)"
    unfolding update_rows_def due_def by (rule map_cong [OF refl]) (simp add: due_delivery_ids [OF assms(1)])
  then show "d' = d\<lparr>db_deliveries :=
           map (\<lambda>n. if n \<in> set due then claim_delivery_row now w s n else n) (db_deliveries d)\<rparr>"
    using assms(2) by (simp add: claim_due_deliveries_Inr Let_def due_def)
qed

text \<open>
  C7: a claim of deliveries returns at most \<open>limit\<close> rows, none twice, each with its channel and each
  due, unfinished, of an active channel, not leased and not locked by another session. The rows it
  returns are exactly the rows it marks with the worker and its lease; every other row, and every
  other table, is left as it was. A delivered row, and a failed row without a next attempt, are
  never claimed; a due row is passed over only when the limit is reached by rows due no later.
\<close>

theorem claim_takes_due_deliveries:
  assumes "delivery_inv d" "claim_due_deliveries now locked w limit s d = Inr (rs, d')"
  shows "int (length rs) \<le> limit \<and> distinct (map cnd_id rs) \<and>
    d' = d\<lparr>db_deliveries :=
      map (\<lambda>n. if nd_id n \<in> cnd_id ` set rs
                then n\<lparr>nd_claimed_at := Some now, nd_lease_until := Some (add_seconds now s),
                       nd_claimed_by := Some w, nd_updated_at := now\<rparr>
                else n) (db_deliveries d)\<rparr> \<and>
    (\<forall>r \<in> set rs. \<exists>n \<in> set (db_deliveries d). \<exists>c.
       find_channel (nd_notification_channel_id n) d = Some c \<and>
       r = claimed_delivery (claim_delivery_row now w s n) c \<and> nd_id n \<notin> locked \<and>
       channel_active (nd_notification_channel_id n) d \<and> lease_free now (nd_lease_until n) \<and>
       nd_status n \<noteq> Delivered \<and> (\<exists>t. nd_next_attempt_at n = Some t \<and> t \<le> now)) \<and>
    (\<forall>n \<in> set (db_deliveries d).
       delivery_claimable now d n \<and> nd_id n \<notin> locked \<and> nd_id n \<notin> cnd_id ` set rs \<longrightarrow>
       int (length rs) = limit \<and>
       (\<forall>m \<in> set (db_deliveries d). nd_id m \<in> cnd_id ` set rs \<longrightarrow>
          (nd_next_attempt_at m, nd_id m) \<le> (nd_next_attempt_at n, nd_id n)))"
proof -
  let ?due = "due_deliveries now locked limit d"
  note c = claim_returns_due_deliveries [OF assms]
  have lim: "0 \<le> limit"
    using assms(2) by (simp add: claim_due_deliveries_Inr)
  have len: "length ?due \<le> nat limit"
    unfolding due_deliveries_def by (rule length_limit_rows)
  have ids: "nd_id n \<in> cnd_id ` set rs \<longleftrightarrow> n \<in> set ?due" if "n \<in> set (db_deliveries d)" for n
  proof -
    have "cnd_id ` set rs = nd_id ` set (filter (\<lambda>n. n \<in> set ?due) (db_deliveries d))"
      using c(2) by (metis list.set_map)
    also have "\<dots> = nd_id ` set ?due"
      using due_deliveries_mem by (fastforce simp: image_iff)
    finally show ?thesis
      using due_delivery_ids [OF assms(1) that] by simp
  qed
  have "int (length rs) \<le> limit"
    using len lim c(3) by simp
  moreover have "distinct (map cnd_id rs)"
    using assms(1) unfolding c(2) delivery_inv_def by (simp add: distinct_map_filter)
  moreover have "d' = d\<lparr>db_deliveries :=
      map (\<lambda>n. if nd_id n \<in> cnd_id ` set rs
                then n\<lparr>nd_claimed_at := Some now, nd_lease_until := Some (add_seconds now s),
                       nd_claimed_by := Some w, nd_updated_at := now\<rparr>
                else n) (db_deliveries d)\<rparr>"
    unfolding c(4) by (simp add: ids claim_delivery_row_def cong: map_cong if_cong)
  moreover have "\<exists>n \<in> set (db_deliveries d). \<exists>c.
       find_channel (nd_notification_channel_id n) d = Some c \<and>
       r = claimed_delivery (claim_delivery_row now w s n) c \<and> nd_id n \<notin> locked \<and>
       channel_active (nd_notification_channel_id n) d \<and> lease_free now (nd_lease_until n) \<and>
       nd_status n \<noteq> Delivered \<and> (\<exists>t. nd_next_attempt_at n = Some t \<and> t \<le> now)"
    if r: "r \<in> set rs" for r
  proof -
    obtain n where n: "n \<in> set (db_deliveries d)" "n \<in> set ?due" "r = claimed_delivery
        (claim_delivery_row now w s n) (the (find_channel (nd_notification_channel_id n) d))"
      using r unfolding c(1) by auto
    have "delivery_claimable now d n" "nd_id n \<notin> locked"
      using due_deliveries_mem [OF n(2)] by blast+
    then show ?thesis
      using n(1,3) active_channel_found [of "nd_notification_channel_id n" d]
      by (intro bexI [of _ n]) (auto simp: delivery_claimable_def delivery_unfinished_def split: option.splits)
  qed
  moreover have "int (length rs) = limit \<and>
       (\<forall>m \<in> set (db_deliveries d). nd_id m \<in> cnd_id ` set rs \<longrightarrow>
          (nd_next_attempt_at m, nd_id m) \<le> (nd_next_attempt_at n, nd_id n))"
    if n: "n \<in> set (db_deliveries d)"
      "delivery_claimable now d n \<and> nd_id n \<notin> locked \<and> nd_id n \<notin> cnd_id ` set rs" for n
  proof -
    let ?ok = "filter (\<lambda>n. delivery_claimable now d n \<and> nd_id n \<notin> locked) (db_deliveries d)"
    let ?k = "\<lambda>n. (nd_next_attempt_at n, nd_id n)"
    have ok: "n \<in> set ?ok" and left: "n \<notin> set (limit_rows limit (order_by ?k ?ok))"
      using n ids [OF n(1)] unfolding due_deliveries_def by simp_all
    have "length ?due = nat limit"
      using limit_rows_all [of limit ?k ?ok] ok left len unfolding due_deliveries_def by fastforce
    moreover have "?k m \<le> ?k n" if "m \<in> set (db_deliveries d)" "nd_id m \<in> cnd_id ` set rs" for m
      by (rule limit_rows_order [OF _ ok left])
        (use that ids [OF that(1)] in \<open>simp add: due_deliveries_def\<close>)
    ultimately show ?thesis
      using c(3) lim by (simp del: less_eq_prod_simp)
  qed
  ultimately show ?thesis
    by (intro conjI) (assumption, assumption, assumption, blast, blast)
qed

theorem claim_takes_due_deliveries_witness:
  "\<exists>rs d'. claim_due_deliveries 50 {} ''w1'' 5 30 sample_queue_db = Inr (rs, d') \<and>
     map cnd_id rs = [1] \<and> map nd_claimed_by (db_deliveries d') = [Some ''w1'']"
proof -
  have "\<exists>rs d'. claim_due_deliveries 50 {} ''w1'' 5 30 sample_queue_db = Inr (rs, d') \<and> map cnd_id rs = [1]"
    by (simp add: claim_due_deliveries_def Let_def due_deliveries_def sample_queue_db_def
        sample_channel_def sample_new_delivery_def delivery_row_def delivery_claimable_def
        channel_active_def delivery_unfinished_def order_by_def limit_rows_def returning_rows_def
        claim_delivery_row_def claimed_delivery_def find_channel_def List.map_filter_def)
  then obtain rs d' where c: "claim_due_deliveries 50 {} ''w1'' 5 30 sample_queue_db = Inr (rs, d')"
    "map cnd_id rs = [1]" by (elim exE conjE)
  then have "cnd_id ` set rs = {1}"
    by (metis image_set list.set(1) list.simps(15))
  then have "map nd_claimed_by (db_deliveries d') = [Some ''w1'']"
    using claim_takes_due_deliveries [OF sample_queue_inv c(1), THEN conjunct2, THEN conjunct2, THEN conjunct1]
    by (simp add: sample_queue_db_def delivery_row_def)
  with c show ?thesis by (intro exI conjI)
qed

text \<open>
  A worker never sleeps past a delivery: a claim at any time from \<open>now\<close> up to the instant
  \<open>next_claimable_delivery_at\<close> returns (or at any time when it returns nothing) marks no row.
\<close>

lemma no_delivery_is_due_before_wakeup:
  assumes "now \<le> now'" "0 \<le> limit"
    and "next_claimable_delivery_at now d = None \<or>
      (\<exists>t. next_claimable_delivery_at now d = Some t \<and> now' < t)"
  shows "claim_due_deliveries now' locked w limit s d = Inr ([], d)"
proof -
  have "\<not> delivery_claimable now' d n" if n: "n \<in> set (db_deliveries d)" for n
  proof
    assume cl: "delivery_claimable now' d n"
    then have "delivery_claimable_at now n \<in> set (map (delivery_claimable_at now)
        (filter (\<lambda>n. channel_active (nd_notification_channel_id n) d \<and> delivery_unfinished n \<and>
                    nd_next_attempt_at n \<noteq> None) (db_deliveries d)))"
      using n by (auto simp: delivery_claimable_def split: option.splits)
    then have "next_claimable_delivery_at now d \<noteq> None"
      "next_claimable_delivery_at now d = Some t \<Longrightarrow> t \<le> delivery_claimable_at now n" for t
      unfolding next_claimable_delivery_at_def list_min_Some list_min_None
      by (metis empty_iff list.set(1), blast)
    with delivery_claimable_bounds [OF cl assms(1)] assms(3) show False
      by fastforce
  qed
  then have "due_deliveries now' locked limit d = []"
    by (simp add: due_deliveries_def limit_rows_def order_by_def filter_empty_conv)
  then show ?thesis
    using assms(2) by (simp add: claim_due_deliveries_Inr Let_def returning_rows_def update_rows_none
        List.map_filter_def)
qed

end
