(* ===== verification/Channel_Repository.thy ===== *)
theory Channel_Repository
  imports Domain_Model
begin

text \<open>
  \<^verbatim>\<open>src/domain/notification_channels/repository.rs\<close>,
  \<^verbatim>\<open>src/domain/site_notification_channel_overrides/repository.rs\<close> and
  \<^verbatim>\<open>src/domain/sites/repository.rs\<close>: the channels, a site's overrides of them, the effective
  channels of a site, and the sites with what their deletion takes along.
\<close>

section \<open>Channels\<close>

definition list_channels :: "db \<Rightarrow> notification_channel list" where
  "list_channels d = order_by nc_id (db_channels d)"

text \<open>
  \<^verbatim>\<open>COALESCE(override, default)\<close> for each setting; a site that does not exist has no channels.
\<close>

definition effective_channel ::
  "notification_channel \<Rightarrow> channel_override option \<Rightarrow> effective_notification_channel" where
  "effective_channel c ov =
     \<lparr>enc_id = nc_id c, enc_channel_type = nc_channel_type c, enc_name = nc_name c,
      enc_destination = nc_destination c,
      enc_webhook_secret_ciphertext = nc_webhook_secret_ciphertext c,
      enc_default_notify_on_failure = nc_notify_on_failure c,
      enc_default_notify_on_recovery = nc_notify_on_recovery c,
      enc_default_is_active = nc_is_active c,
      enc_notify_on_failure =
        unwrap_or (Option.bind ov snco_notify_on_failure) (nc_notify_on_failure c),
      enc_notify_on_recovery =
        unwrap_or (Option.bind ov snco_notify_on_recovery) (nc_notify_on_recovery c),
      enc_is_active = unwrap_or (Option.bind ov snco_is_active) (nc_is_active c),
      enc_override_id = map_option snco_id ov,
      enc_override_notify_on_failure = Option.bind ov snco_notify_on_failure,
      enc_override_notify_on_recovery = Option.bind ov snco_notify_on_recovery,
      enc_override_is_active = Option.bind ov snco_is_active\<rparr>"

definition find_override :: "id \<Rightarrow> id \<Rightarrow> db \<Rightarrow> channel_override option" where
  "find_override site channel d =
     find (\<lambda>x. snco_site_id x = site \<and> snco_notification_channel_id x = channel) (db_overrides d)"

definition list_effective_by_site_id :: "id \<Rightarrow> db \<Rightarrow> effective_notification_channel list" where
  "list_effective_by_site_id site d =
     (if find_site site d = None then []
      else map (\<lambda>c. effective_channel c (find_override site (nc_id c) d))
             (order_by nc_id (db_channels d)))"

definition channel_columns ::
  "notification_channel_params \<Rightarrow> notification_channel \<Rightarrow> notification_channel" where
  "channel_columns p c =
     c\<lparr>nc_channel_type := ncp_channel_type p, nc_name := ncp_name p,
       nc_destination := ncp_destination p,
       nc_webhook_secret_ciphertext := ncp_webhook_secret_ciphertext p,
       nc_notify_on_failure := ncp_notify_on_failure p,
       nc_notify_on_recovery := ncp_notify_on_recovery p, nc_is_active := ncp_is_active p\<rparr>"

text \<open>Channel names are unique, and a webhook channel must carry a secret.\<close>

definition channel_constraints :: "notification_channel list \<Rightarrow> db_error + unit" where
  "channel_constraints t =
     (if \<not> distinct (map nc_name t) then Inl (UniqueViolation ''uq_notification_channels_name'')
      else if \<exists>c \<in> set t. nc_channel_type c = Webhook \<and> nc_webhook_secret_ciphertext c = None
      then Inl (CheckViolation ''notification_channels'')
      else Inr ())"

definition create_channel ::
  "timestamp \<Rightarrow> notification_channel_params \<Rightarrow> (db, notification_channel) stmt" where
  "create_channel now p d =
     (let c = channel_columns p
                \<lparr>nc_id = db_next_channel d, nc_channel_type = ncp_channel_type p,
                 nc_name = [], nc_destination = [], nc_webhook_secret_ciphertext = None,
                 nc_notify_on_failure = True, nc_notify_on_recovery = True, nc_is_active = True,
                 nc_created_at = now, nc_updated_at = now\<rparr>
      in and_then (channel_constraints (db_channels d @ [c])) (\<lambda>_.
         Inr (c, d\<lparr>db_channels := db_channels d @ [c], db_next_channel := db_next_channel d + 1\<rparr>)))"

definition update_channel ::
  "timestamp \<Rightarrow> id \<Rightarrow> notification_channel_params \<Rightarrow> (db, notification_channel option) stmt" where
  "update_channel now i p d =
     (let match = (\<lambda>c. nc_id c = i);
          f = (\<lambda>c. (channel_columns p c)\<lparr>nc_updated_at := now\<rparr>);
          t = update_rows match f (db_channels d)
      in and_then (channel_constraints t) (\<lambda>_.
         Inr (fetch_optional (returning_rows match f (db_channels d)), d\<lparr>db_channels := t\<rparr>)))"

text \<open>Overrides and deliveries go with their channel.\<close>

definition delete_channel :: "id \<Rightarrow> (db, notification_channel option) stmt" where
  "delete_channel i d =
     Inr (find_channel i d,
          d\<lparr>db_channels := delete_rows (\<lambda>c. nc_id c = i) (db_channels d),
            db_overrides := delete_rows (\<lambda>x. snco_notification_channel_id x = i) (db_overrides d),
            db_deliveries := delete_rows (\<lambda>n. nd_notification_channel_id n = i) (db_deliveries d)\<rparr>)"

definition get_channel_by_id :: "id \<Rightarrow> db \<Rightarrow> notification_channel option" where
  "get_channel_by_id = find_channel"

section \<open>Overrides\<close>

definition get_override_for_site :: "id \<Rightarrow> id \<Rightarrow> db \<Rightarrow> channel_override option" where
  "get_override_for_site = find_override"

text \<open>\<^verbatim>\<open>INSERT ... SELECT\<close> over the site and the channel: nothing happens when either is missing.\<close>

definition upsert_override_for_site ::
  "timestamp \<Rightarrow> id \<Rightarrow> channel_override_params \<Rightarrow> (db, channel_override option) stmt" where
  "upsert_override_for_site now site p d =
     (if find_site site d = None \<or> find_channel (cop_notification_channel_id p) d = None
      then Inr (None, d)
      else
        (case find_override site (cop_notification_channel_id p) d of
           Some ov \<Rightarrow>
             let match = (\<lambda>x. snco_site_id x = site \<and>
                              snco_notification_channel_id x = cop_notification_channel_id p);
                 f = (\<lambda>x. x\<lparr>snco_notify_on_failure := cop_notify_on_failure p,
                            snco_notify_on_recovery := cop_notify_on_recovery p,
                            snco_is_active := cop_is_active p, snco_updated_at := now\<rparr>)
             in Inr (Some (f ov), d\<lparr>db_overrides := update_rows match f (db_overrides d),
                                   db_next_override := db_next_override d + 1\<rparr>)
         | None \<Rightarrow>
             let row = \<lparr>snco_id = db_next_override d, snco_site_id = site,
                        snco_notification_channel_id = cop_notification_channel_id p,
                        snco_notify_on_failure = cop_notify_on_failure p,
                        snco_notify_on_recovery = cop_notify_on_recovery p,
                        snco_is_active = cop_is_active p, snco_created_at = now,
                        snco_updated_at = now\<rparr>
             in Inr (Some row, d\<lparr>db_overrides := db_overrides d @ [row],
                                 db_next_override := db_next_override d + 1\<rparr>)))"

definition delete_override_for_site :: "id \<Rightarrow> id \<Rightarrow> (db, channel_override option) stmt" where
  "delete_override_for_site site channel d =
     (if find_site site d = None \<or> find_channel channel d = None then Inr (None, d)
      else Inr (find_override site channel d,
                d\<lparr>db_overrides := delete_rows
                    (\<lambda>x. snco_site_id x = site \<and> snco_notification_channel_id x = channel)
                    (db_overrides d)\<rparr>))"

section \<open>Sites\<close>

definition create_site :: "timestamp \<Rightarrow> string \<Rightarrow> string \<Rightarrow> (db, site) stmt" where
  "create_site now name base_url d =
     (let s = \<lparr>s_id = db_next_site d, s_name = name, s_base_url = base_url, s_is_active = True,
               s_created_at = now, s_updated_at = now\<rparr>
      in if base_url \<in> s_base_url ` set (db_sites d) then Inl (UniqueViolation ''uq_sites_base_url'')
         else Inr (s, d\<lparr>db_sites := db_sites d @ [s], db_next_site := db_next_site d + 1\<rparr>))"

definition get_all_sites :: "db \<Rightarrow> site list" where
  "get_all_sites d = order_by s_id (db_sites d)"

definition get_site_by_id :: "id \<Rightarrow> db \<Rightarrow> site option" where
  "get_site_by_id = find_site"

definition get_first_site :: "db \<Rightarrow> site option" where
  "get_first_site d = fetch_optional (limit_rows 1 (order_by s_id (db_sites d)))"

definition get_active_sites :: "db \<Rightarrow> site list" where
  "get_active_sites d = order_by s_id (filter s_is_active (db_sites d))"

definition update_site ::
  "timestamp \<Rightarrow> id \<Rightarrow> string \<Rightarrow> string \<Rightarrow> bool \<Rightarrow> (db, site option) stmt" where
  "update_site now i name base_url active d =
     (let match = (\<lambda>s. s_id s = i);
          f = (\<lambda>s. s\<lparr>s_name := name, s_base_url := base_url, s_is_active := active, s_updated_at := now\<rparr>);
          t = update_rows match f (db_sites d)
      in if distinct (map s_base_url t)
         then Inr (fetch_optional (returning_rows match f (db_sites d)), d\<lparr>db_sites := t\<rparr>)
         else Inl (UniqueViolation ''uq_sites_base_url''))"

text \<open>
  Deleting a site takes along its monitors, incidents, overrides and status page, the checks of its monitors,
  and the deliveries of its monitors and checks; other incidents forget the deleted checks and
  other deliveries the deleted incidents.
\<close>

definition forget_incidents :: "id set \<Rightarrow> notification_delivery \<Rightarrow> notification_delivery" where
  "forget_incidents gone n = n\<lparr>nd_incident_id := option_filter (\<lambda>i. i \<notin> gone) (nd_incident_id n)\<rparr>"

definition delete_site :: "id \<Rightarrow> (db, site option) stmt" where
  "delete_site i d =
     (let mons = sm_id ` set (filter (\<lambda>m. sm_site_id m = i) (db_monitors d));
          chks = smc_id ` set (filter (\<lambda>c. smc_site_monitor_id c \<in> mons) (db_checks d));
          gone = (\<lambda>x. inc_site_id x = i \<or> inc_site_monitor_id x \<in> mons);
          incs = inc_id ` set (filter gone (db_incidents d));
          forget = (\<lambda>x. x\<lparr>inc_opened_check_id := option_filter (\<lambda>c. c \<notin> chks) (inc_opened_check_id x),
                          inc_resolved_check_id := option_filter (\<lambda>c. c \<notin> chks) (inc_resolved_check_id x),
                          inc_last_check_id := option_filter (\<lambda>c. c \<notin> chks) (inc_last_check_id x)\<rparr>)
      in Inr (find_site i d,
              d\<lparr>db_sites := delete_rows (\<lambda>s. s_id s = i) (db_sites d),
                db_monitors := delete_rows (\<lambda>m. sm_id m \<in> mons) (db_monitors d),
                db_checks := delete_rows (\<lambda>c. smc_id c \<in> chks) (db_checks d),
                db_incidents := map forget (delete_rows gone (db_incidents d)),
                db_overrides := delete_rows (\<lambda>x. snco_site_id x = i) (db_overrides d),
                db_status_pages := delete_rows (\<lambda>p. ssp_site_id p = i) (db_status_pages d),
                db_deliveries := map (forget_incidents incs)
                  (delete_rows (\<lambda>n. nd_site_monitor_id n \<in> mons \<or> nd_site_monitor_check_id n \<in> chks)
                     (db_deliveries d))\<rparr>))"

end
