(* ===== verification/Notification_Service.thy ===== *)
theory Notification_Service
  imports Notification_Payload Crypto Check_Policy Http_Checker Delivery_Repository Channel_Repository
begin

text \<open>
  \<^verbatim>\<open>src/notifications/service.rs\<close>: which event a check result is, queueing its notifications,
  sending one notification over each kind of channel, and the delivery of a claimed notification
  with its lease heartbeat, its retries and its shutdown. The network, SMTP, the clock and the
  libraries are the record \<open>send_env\<close>.
\<close>

section \<open>Queueing\<close>

definition determine_event_type :: "bool option \<Rightarrow> bool \<Rightarrow> notification_event_type option" where
  "determine_event_type previous_is_success current_is_success =
     (case (previous_is_success, current_is_success) of
        (Some True, False) \<Rightarrow> Some Failure
      | (None, False) \<Rightarrow> Some Failure
      | (Some False, True) \<Rightarrow> Some Recovery
      | _ \<Rightarrow> None)"

definition notified_channels :: "notification_event_type \<Rightarrow> id \<Rightarrow> db \<Rightarrow> effective_notification_channel list" where
  "notified_channels event site_id d =
     filter (\<lambda>c. case event of Failure \<Rightarrow> enc_notify_on_failure c | Recovery \<Rightarrow> enc_notify_on_recovery c)
       (filter enc_is_active (list_effective_by_site_id site_id d))"

definition load_notification_context :: "id \<Rightarrow> (db, notification_context) stmt" where
  "load_notification_context site_id d =
     (case find_site site_id d of
        None \<Rightarrow> Inl RowNotFound
      | Some s \<Rightarrow>
          Inr (\<lparr>ctx_site_id = s_id s, ctx_site_name = s_name s, ctx_site_base_url = s_base_url s\<rparr>, d))"

definition new_delivery ::
  "site_monitor \<Rightarrow> site_monitor_check \<Rightarrow> id option \<Rightarrow> notification_event_type \<Rightarrow> json \<Rightarrow>
   effective_notification_channel \<Rightarrow> new_notification_delivery" where
  "new_delivery m check incident_id event payload c =
     \<lparr>nnd_notification_channel_id = enc_id c, nnd_site_monitor_id = sm_id m,
      nnd_site_monitor_check_id = smc_id check, nnd_incident_id = incident_id,
      nnd_event_type = event, nnd_payload = payload\<rparr>"

definition enqueue_site_monitor_notifications ::
  "(timestamp \<Rightarrow> string) \<Rightarrow> timestamp \<Rightarrow> site_monitor \<Rightarrow> site_monitor_check \<Rightarrow> id option \<Rightarrow> (db, nat) stmt" where
  "enqueue_site_monitor_notifications to_rfc3339 now m check incident_id d =
     (case determine_event_type (sm_last_is_success m) (smc_is_success check) of
        None \<Rightarrow> Inr (0, d)
      | Some event \<Rightarrow>
          (let channels = notified_channels event (sm_site_id m) d in
           if channels = [] then Inr (0, d)
           else
             stmt_bind (load_notification_context (sm_site_id m)) (\<lambda>ctx.
               let payload = payload_to_json (build_payload to_rfc3339 ctx m check event);
                   deliveries = map (new_delivery m check incident_id event payload) channels
               in stmt_bind (enqueue_deliveries now deliveries) (\<lambda>_. stmt_return (length deliveries))) d))"

section \<open>Leases and retries\<close>

definition derive_heartbeat_interval :: "duration \<Rightarrow> duration" where
  "derive_heartbeat_interval lease = max (dur_div lease 3) (from_millis 250)"

definition derive_notification_delivery_lease_plan :: "'k config \<Rightarrow> lease_plan" where
  "derive_notification_delivery_lease_plan c =
     (let timeout = from_secs (cfg_notification_delivery_timeout_seconds c);
          minimum_lease = from_secs (cfg_lease_notification_delivery_seconds c);
          safety_buffer = max (dur_div timeout 2) (from_secs 2);
          initial_lease = max minimum_lease (dur_sat_add timeout safety_buffer)
      in \<lparr>lp_initial_lease = initial_lease,
          lp_heartbeat_interval = derive_heartbeat_interval initial_lease\<rparr>)"

definition notification_delivery_claim_limit :: "'k config \<Rightarrow> int" where
  "notification_delivery_claim_limit c =
     as_i64 (int (min (cfg_due_notification_batch_size c) (cfg_max_notification_concurrent_deliveries c)))"

definition compute_retry_delay_seconds :: "nat \<Rightarrow> int \<Rightarrow> int" where
  "compute_retry_delay_seconds base_seconds attempt_number =
     (let exponent = max 0 (min (max (- (2 ^ 31)) (attempt_number - 1)) 6);
          multiplier = 2 ^ nat exponent
      in sat_mul_i64 (as_i64 (int base_seconds)) multiplier)"

text \<open>The errors of sending, as far as the retry decision and the stored message look at them.\<close>

datatype delivery_error =
    SmtpError bool string
  | AddressError string
  | MessageError string
  | MissingWebhookSecret
  | OtherError string

definition error_text :: "delivery_error \<Rightarrow> string" where
  "error_text e =
     (case e of
        SmtpError _ t \<Rightarrow> t
      | AddressError t \<Rightarrow> t
      | MessageError t \<Rightarrow> t
      | MissingWebhookSecret \<Rightarrow> ''webhook channel is missing a signing secret''
      | OtherError t \<Rightarrow> t)"

definition should_retry_delivery_error :: "delivery_error \<Rightarrow> bool" where
  "should_retry_delivery_error e =
     (case e of
        SmtpError permanent _ \<Rightarrow> \<not> permanent
      | AddressError _ \<Rightarrow> False
      | MessageError _ \<Rightarrow> False
      | MissingWebhookSecret \<Rightarrow> False
      | OtherError _ \<Rightarrow> True)"

section \<open>Sending\<close>

record webhook_client =
  wc_pinned :: "client_key option"
  wc_timeout :: duration

record webhook_request =
  wr_client :: webhook_client
  wr_url :: string
  wr_headers :: "(string \<times> string) list"
  wr_body :: bytes

record email_message =
  em_from :: string
  em_to :: string
  em_subject :: string
  em_body :: string

record send_env =
  se_crypto :: crypto_lib
  se_json_to_vec :: "json \<Rightarrow> string + bytes"
  se_timestamp :: int
  se_parse_url :: "string \<Rightarrow> string + parsed_url"
  se_lookup_host :: "string \<Rightarrow> socket_addr list option"
  se_build_client_error :: "string option"
  se_post :: "webhook_request \<Rightarrow> string + nat"
  se_is_redirection :: "nat \<Rightarrow> bool"
  se_status_error :: "nat \<Rightarrow> string option"
  se_smtp_from :: "string option"
  se_parse_address :: "string \<Rightarrow> string + string"
  se_build_message_error :: "email_message \<Rightarrow> string option"
  se_smtp_send :: "email_message \<Rightarrow> (bool \<times> string) option"

definition build_webhook_runtime_client ::
  "send_env \<Rightarrow> string \<Rightarrow> duration \<Rightarrow> bool \<Rightarrow> string + webhook_client" where
  "build_webhook_runtime_client env webhook_url timeout validate_public_target =
     (let built = (\<lambda>pinned.
            case se_build_client_error env of
              Some _ \<Rightarrow> Inl ''failed to build webhook client''
            | None \<Rightarrow> Inr \<lparr>wc_pinned = pinned, wc_timeout = timeout\<rparr>);
          private = ''webhook URL must not resolve to a loopback, private, or link-local address'';
          unresolved = ''webhook URL hostname could not be resolved''
      in and_then (se_parse_url env webhook_url) (\<lambda>url.
           if pu_scheme url \<noteq> ''http'' \<and> pu_scheme url \<noteq> ''https''
           then Inl (''unsupported webhook URL scheme: '' @ pu_scheme url)
           else
             and_then (ok_or ''webhook URL must have a host'' (pu_host url)) (\<lambda>host.
               case parse_ip host of
                 Some ip \<Rightarrow>
                   if validate_public_target \<and> \<not> check_ip_is_public ip then Inl private else built None
               | None \<Rightarrow>
                   and_then
                     (ok_or unresolved
                       (se_lookup_host env (host @ '':'' @ show_nat (unwrap_or (pu_port_or_default url) 80))))
                     (\<lambda>resolved.
                        if resolved = [] then Inl unresolved
                        else if list_ex (\<lambda>a. validate_public_target \<and> \<not> check_ip_is_public (fst a)) resolved
                        then Inl private
                        else built (Some (host, resolved))))))"

text \<open>The common end of a webhook: the request, and what its response means.\<close>

definition post_webhook :: "send_env \<Rightarrow> webhook_request \<Rightarrow> delivery_error + unit" where
  "post_webhook env request =
     (case se_post env request of
        Inl e \<Rightarrow> Inl (OtherError e)
      | Inr status \<Rightarrow>
          if se_is_redirection env status
          then Inl (OtherError (''webhook URL redirected with HTTP status '' @ show_nat status))
          else (case se_status_error env status of Some e \<Rightarrow> Inl (OtherError e) | None \<Rightarrow> Inr ()))"

definition user_agent :: string where
  "user_agent = ''alon-sentinel/notification-channel''"

definition send_webhook_notification_internal ::
  "send_env \<Rightarrow> encryption_key config \<Rightarrow> id \<Rightarrow> string \<Rightarrow> string option \<Rightarrow> json \<Rightarrow> bool \<Rightarrow> delivery_error + unit" where
  "send_webhook_notification_internal env c delivery_id destination ciphertext payload validate_public_target =
     and_then (map_err OtherError (se_json_to_vec env payload)) (\<lambda>body.
     and_then (ok_or MissingWebhookSecret ciphertext) (\<lambda>ciphertext.
     and_then
       (map_err (\<lambda>_. OtherError ''failed to decrypt webhook signing secret'')
         (decrypt_webhook_secret (se_crypto env) (cfg_webhook_secret_encryption_key c) ciphertext)) (\<lambda>secret.
       let timestamp = show_int (se_timestamp env);
           signature = build_webhook_signature (se_crypto env) secret timestamp body
       in and_then
            (map_err OtherError
              (build_webhook_runtime_client env destination
                (from_secs (cfg_notification_delivery_timeout_seconds c)) validate_public_target)) (\<lambda>client.
            post_webhook env
              \<lparr>wr_client = client, wr_url = destination,
               wr_headers =
                 [(''content-type'', ''application/json''), (''user-agent'', user_agent),
                  (''x-alon-delivery-id'', show_int delivery_id),
                  (''x-sentinel-delivery-id'', show_int delivery_id),
                  (''x-sentinel-timestamp'', timestamp), (''x-sentinel-signature'', signature)],
               wr_body = body\<rparr>))))"

definition send_simple_webhook_notification ::
  "send_env \<Rightarrow> encryption_key config \<Rightarrow> string \<Rightarrow> string \<Rightarrow> string \<Rightarrow> delivery_error + unit" where
  "send_simple_webhook_notification env c destination message_key message =
     and_then (map_err OtherError (se_json_to_vec env (JObject [(message_key, JString message)]))) (\<lambda>body.
     and_then
       (map_err OtherError
         (build_webhook_runtime_client env destination
           (from_secs (cfg_notification_delivery_timeout_seconds c)) True)) (\<lambda>client.
       post_webhook env
         \<lparr>wr_client = client, wr_url = destination,
          wr_headers = [(''content-type'', ''application/json''), (''user-agent'', user_agent)],
          wr_body = body\<rparr>))"

text \<open>\<open>se_smtp_from\<close> is the sender of the configured mailer, if SMTP is configured.\<close>

definition send_email_notification :: "send_env \<Rightarrow> string \<Rightarrow> notification_payload \<Rightarrow> delivery_error + unit" where
  "send_email_notification env destination payload =
     and_then (ok_or (OtherError ''SMTP is not configured'') (se_smtp_from env)) (\<lambda>sender.
     and_then (map_err AddressError (se_parse_address env destination)) (\<lambda>recipient.
       let email = \<lparr>em_from = sender, em_to = recipient, em_subject = np_email_subject payload,
                    em_body = np_email_text payload\<rparr>
       in case se_build_message_error env email of
            Some e \<Rightarrow> Inl (MessageError e)
          | None \<Rightarrow>
              (case se_smtp_send env email of
                 Some (permanent, text) \<Rightarrow> Inl (SmtpError permanent text)
               | None \<Rightarrow> Inr ())))"

definition send_notification ::
  "send_env \<Rightarrow> encryption_key config \<Rightarrow> claimed_notification_delivery \<Rightarrow> notification_payload \<Rightarrow>
   delivery_error + unit" where
  "send_notification env c delivery payload =
     (case cnd_channel_type delivery of
        Webhook \<Rightarrow>
          send_webhook_notification_internal env c (cnd_id delivery) (cnd_destination delivery)
            (cnd_webhook_secret_ciphertext delivery) (cnd_payload delivery) True
      | Email \<Rightarrow> send_email_notification env (cnd_destination delivery) payload
      | Slack \<Rightarrow> send_simple_webhook_notification env c (cnd_destination delivery) ''text'' (np_summary payload)
      | Discord \<Rightarrow>
          send_simple_webhook_notification env c (cnd_destination delivery) ''content'' (np_summary payload))"

section \<open>Checking a destination\<close>

definition validate_webhook_url :: "send_env \<Rightarrow> string \<Rightarrow> string + unit" where
  "validate_webhook_url env webhook_url =
     (let private = ''webhook URL must not resolve to a loopback, private, or link-local address'' in
      and_then (se_parse_url env webhook_url) (\<lambda>url.
        if pu_scheme url \<noteq> ''http'' \<and> pu_scheme url \<noteq> ''https''
        then Inl (''unsupported webhook URL scheme: '' @ pu_scheme url)
        else
          and_then (ok_or ''webhook URL must have a host'' (pu_host url)) (\<lambda>host.
            case parse_ip host of
              Some ip \<Rightarrow> if \<not> check_ip_is_public ip then Inl private else Inr ()
            | None \<Rightarrow>
                and_then
                  (ok_or ''webhook URL hostname could not be resolved''
                    (se_lookup_host env (host @ '':'' @ show_nat (unwrap_or (pu_port_or_default url) 80))))
                  (\<lambda>resolved.
                     if list_ex (\<lambda>a. \<not> check_ip_is_public (fst a)) resolved then Inl private else Inr ()))))"

definition validate_email_address :: "send_env \<Rightarrow> string \<Rightarrow> string + unit" where
  "validate_email_address env address = and_then (se_parse_address env address) (\<lambda>_. Inr ())"

definition validate_channel_destination ::
  "send_env \<Rightarrow> notification_channel_type \<Rightarrow> string \<Rightarrow> string + unit" where
  "validate_channel_destination env channel_type destination =
     (case channel_type of
        Webhook \<Rightarrow> validate_webhook_url env destination
      | Slack \<Rightarrow> validate_webhook_url env destination
      | Discord \<Rightarrow> validate_webhook_url env destination
      | Email \<Rightarrow> validate_email_address env destination)"

section \<open>Delivering one notification\<close>

text \<open>
  What the \<open>select!\<close> of a delivery sees: the send ends, the shutdown flag changes, its sender is
  gone, or the heartbeat timer fires, at a database time and a monotonic instant, with a connection
  that works or not. Other sessions may change the database before each event.
\<close>

datatype delivery_event =
    SendFinished
  | DeliveryShutdown bool
  | DeliveryShutdownGone
  | HeartbeatDue timestamp nat bool

type_synonym others = "db \<Rightarrow> db"

datatype loop_outcome = LoopCompleted | LoopShutdownCancelled | LoopLeaseLost

fun delivery_loop ::
  "lease_plan \<Rightarrow> string \<Rightarrow> id \<Rightarrow> nat \<Rightarrow> (others \<times> delivery_event) list \<Rightarrow> db \<Rightarrow> (loop_outcome \<times> db) option" where
  "delivery_loop plan worker i deadline [] d = None"
| "delivery_loop plan worker i deadline ((others, event) # events) d =
     (let d = others d in
      case event of
        SendFinished \<Rightarrow> Some (LoopCompleted, d)
      | DeliveryShutdown b \<Rightarrow>
          if b then Some (LoopShutdownCancelled, d) else delivery_loop plan worker i deadline events d
      | DeliveryShutdownGone \<Rightarrow> Some (LoopShutdownCancelled, d)
      | HeartbeatDue now instant connected \<Rightarrow>
          (case (if connected
                 then extend_delivery_claim now i worker (duration_to_lease_seconds (lp_initial_lease plan)) d
                 else Inl (Bail ''connection'')) of
             Inr (True, d') \<Rightarrow> delivery_loop plan worker i (instant + lp_initial_lease plan) events d'
           | Inr (False, d') \<Rightarrow> Some (LoopLeaseLost, d')
           | Inl _ \<Rightarrow>
               if deadline \<le> instant then Some (LoopLeaseLost, d)
               else delivery_loop plan worker i deadline events d))"

definition handle_delivery_failure ::
  "'k config \<Rightarrow> timestamp \<Rightarrow> string \<Rightarrow> claimed_notification_delivery \<Rightarrow> string \<Rightarrow> bool \<Rightarrow> (db, bool) stmt" where
  "handle_delivery_failure c now worker delivery error_message retryable =
     (let attempt_number = cnd_attempts delivery + 1;
          should_retry = retryable \<and> nat (attempt_number mod 2 ^ 64) < cfg_notification_max_attempts c;
          next_attempt_at =
            (if should_retry
             then Some (add_seconds now
                    (compute_retry_delay_seconds (cfg_notification_retry_base_seconds c) attempt_number))
             else None)
      in mark_failed now (cnd_id delivery) worker error_message next_attempt_at)"

datatype delivery_execution = DeliveryCompleted | DeliveryCancelled | DeliveryError

text \<open>The final statement; its failure leaves the database as it was and is the run's error.\<close>

definition settle :: "delivery_execution \<Rightarrow> (db, 'a) stmt \<Rightarrow> db \<Rightarrow> delivery_execution \<times> db" where
  "settle ok m d = (case m d of Inr (_, d') \<Rightarrow> (ok, d') | Inl _ \<Rightarrow> (DeliveryError, d))"

record delivery_run =
  dr_shutdown_at_start :: bool
  dr_started :: nat
  dr_events :: "(others \<times> delivery_event) list"
  dr_before_end :: others
  dr_now :: timestamp

definition deliver_one_notification ::
  "send_env \<Rightarrow> encryption_key config \<Rightarrow> lease_plan \<Rightarrow> string \<Rightarrow> claimed_notification_delivery \<Rightarrow> delivery_run \<Rightarrow>
   db \<Rightarrow> (delivery_execution \<times> db) option" where
  "deliver_one_notification env c plan worker delivery run d =
     (let now = dr_now run; i = cnd_id delivery in
      if dr_shutdown_at_start run then
        Some (DeliveryCancelled, run_stmt (release_delivery_claim now i worker) (dr_before_end run d))
      else
        (case payload_of_json (cnd_payload delivery) of
           None \<Rightarrow> Some (DeliveryError, d)
         | Some payload \<Rightarrow>
             (case delivery_loop plan worker i (dr_started run + lp_initial_lease plan) (dr_events run) d of
                None \<Rightarrow> None
              | Some (outcome, d1) \<Rightarrow>
                  (let d2 = dr_before_end run d1 in
                   case outcome of
                     LoopCompleted \<Rightarrow>
                       (case send_notification env c delivery payload of
                          Inr _ \<Rightarrow> Some (settle DeliveryCompleted (mark_delivered now i worker) d2)
                        | Inl e \<Rightarrow>
                            Some (settle DeliveryCompleted
                              (handle_delivery_failure c now worker delivery (error_text e)
                                (should_retry_delivery_error e)) d2))
                   | LoopShutdownCancelled \<Rightarrow>
                       Some (DeliveryCancelled, run_stmt (release_delivery_claim now i worker) d2)
                   | LoopLeaseLost \<Rightarrow> Some (DeliveryCancelled, d2)))))"

text \<open>
  A round of deliveries: the claim, then each claimed delivery, in an order of its own (the other
  deliveries of the round are among the \<open>others\<close> of a run).
\<close>

fun deliver_each ::
  "send_env \<Rightarrow> encryption_key config \<Rightarrow> lease_plan \<Rightarrow> string \<Rightarrow>
   (claimed_notification_delivery \<times> delivery_run) list \<Rightarrow> db \<Rightarrow> db option" where
  "deliver_each env c plan worker [] d = Some d"
| "deliver_each env c plan worker ((delivery, run) # rest) d =
     (case deliver_one_notification env c plan worker delivery run d of
        None \<Rightarrow> None
      | Some (_, d') \<Rightarrow> deliver_each env c plan worker rest d')"

definition deliver_due_notifications ::
  "send_env \<Rightarrow> encryption_key config \<Rightarrow> string \<Rightarrow> bool \<Rightarrow> timestamp \<Rightarrow> id set \<Rightarrow>
   (claimed_notification_delivery \<Rightarrow> delivery_run) \<Rightarrow> db \<Rightarrow> ((db_error + nat) \<times> db) option" where
  "deliver_due_notifications env c worker shutdown now locked run_of d =
     (let plan = derive_notification_delivery_lease_plan c in
      if shutdown then Some (Inr 0, d)
      else
        (case claim_due_deliveries now locked worker (notification_delivery_claim_limit c)
                (duration_to_lease_seconds (lp_initial_lease plan)) d of
           Inl e \<Rightarrow> Some (Inl e, d)
         | Inr (deliveries, d1) \<Rightarrow>
             map_option (\<lambda>d2. (Inr (length deliveries), d2))
               (deliver_each env c plan worker (map (\<lambda>x. (x, run_of x)) deliveries) d1)))"

section \<open>Facts about a delivery\<close>

lemma update_held_mem:
  assumes "delivery_inv d" "n \<in> set (db_deliveries d)" "holds_delivery i w n"
  shows "update_held i w f d =
      Inr (True, d\<lparr>db_deliveries := update_rows (holds_delivery i w) f (db_deliveries d)\<rparr>)"
    and "f n \<in> set (update_rows (holds_delivery i w) f (db_deliveries d))"
proof -
  have "rows_affected (holds_delivery i w) (db_deliveries d) = 1"
    unfolding holds_delivery_owned
    by (rule delivery_lease.owned_exactly_once [where r = n])
      (use assms in \<open>simp_all add: delivery_inv_def holds_delivery_owned\<close>)
  then show "update_held i w f d =
      Inr (True, d\<lparr>db_deliveries := update_rows (holds_delivery i w) f (db_deliveries d)\<rparr>)"
    by (simp add: update_held_def)
  show "f n \<in> set (update_rows (holds_delivery i w) f (db_deliveries d))"
    using assms(2,3) by (auto simp: set_update_rows)
qed

lemma update_held_keeps_inv:
  assumes "delivery_inv d" "\<And>n. nd_id (f n) = nd_id n" "\<And>n. delivery_key (f n) = delivery_key n"
  shows "delivery_inv (d\<lparr>db_deliveries := update_rows p f (db_deliveries d)\<rparr>)"
  using assms by (auto simp: delivery_inv_def update_rows_map set_update_rows)

text \<open>Other sessions leave a row alone while this worker holds it.\<close>

definition spares :: "id \<Rightarrow> string \<Rightarrow> others \<Rightarrow> bool" where
  "spares i w others \<longleftrightarrow>
     (\<forall>d n. delivery_inv d \<longrightarrow> n \<in> set (db_deliveries d) \<longrightarrow> holds_delivery i w n \<longrightarrow>
        delivery_inv (others d) \<and> n \<in> set (db_deliveries (others d)))"

text \<open>The part of a row that says what has been attempted.\<close>

definition same_attempts :: "notification_delivery \<Rightarrow> notification_delivery \<Rightarrow> bool" where
  "same_attempts n n' \<longleftrightarrow>
     nd_id n' = nd_id n \<and> delivery_key n' = delivery_key n \<and> nd_payload n' = nd_payload n \<and>
     nd_status n' = nd_status n \<and> nd_attempts n' = nd_attempts n \<and>
     nd_next_attempt_at n' = nd_next_attempt_at n"

text \<open>The database without the row: what a run must leave to the other sessions.\<close>

definition without_delivery :: "id \<Rightarrow> db \<Rightarrow> db" where
  "without_delivery i d = d\<lparr>db_deliveries := filter (\<lambda>x. nd_id x \<noteq> i) (db_deliveries d)\<rparr>"

lemma update_held_without:
  assumes "update_held i w f d = Inr (b, d')" "\<And>n. nd_id (f n) = nd_id n"
  shows "without_delivery i d' = without_delivery i d"
proof -
  have "filter (\<lambda>x. nd_id x \<noteq> i) (update_rows (holds_delivery i w) f t) = filter (\<lambda>x. nd_id x \<noteq> i) t" for t
    by (induction t) (auto simp: update_rows_def holds_delivery_def assms(2))
  then show ?thesis
    using assms(1) by (auto simp: update_held_def without_delivery_def)
qed

lemma statements_without:
  "extend_delivery_claim now i w s d = Inr (b, d') \<Longrightarrow> without_delivery i d' = without_delivery i d"
  "mark_delivered now i w d = Inr (b, d') \<Longrightarrow> without_delivery i d' = without_delivery i d"
  "mark_failed now i w e nx d = Inr (b, d') \<Longrightarrow> without_delivery i d' = without_delivery i d"
  "without_delivery i (run_stmt (release_delivery_claim now i w) d) = without_delivery i d"
  by (auto simp: extend_delivery_claim_def mark_delivered_Inr mark_failed_Inr release_delivery_claim_def
      run_stmt_def update_held_without split: sum.split)

text \<open>A property of the rest that the other sessions keep.\<close>

definition keeps_rest :: "id \<Rightarrow> (db \<Rightarrow> bool) \<Rightarrow> others \<Rightarrow> bool" where
  "keeps_rest i P others \<longleftrightarrow> (\<forall>d. P (without_delivery i d) \<longrightarrow> P (without_delivery i (others d)))"

lemma delivery_loop_keeps_rest:
  assumes "delivery_loop plan w i deadline events d = Some (outcome, d')"
    and "\<forall>(others, _) \<in> set events. keeps_rest i P others" "P (without_delivery i d)"
  shows "P (without_delivery i d')"
  using assms
proof (induction events arbitrary: deadline d)
  case Nil
  then show ?case by simp
next
  case (Cons e events)
  obtain others event where e: "e = (others, event)"
    by (cases e)
  have here: "P (without_delivery i (others d))"
    using Cons.prems(2,3) by (simp add: e keeps_rest_def)
  note later = Cons.IH [OF _ _ here] Cons.IH
  show ?case
  proof (cases event)
    case (HeartbeatDue now instant connected)
    show ?thesis
    proof (cases "if connected
        then extend_delivery_claim now i w (duration_to_lease_seconds (lp_initial_lease plan)) (others d)
        else Inl (Bail ''connection'')")
      case (Inl x)
      then show ?thesis
        using Cons.prems(1,2) here later(1) [of deadline] by (simp add: e HeartbeatDue Let_def split: if_splits)
    next
      case (Inr x)
      then obtain b d1 where x: "x = (b, d1)"
        "extend_delivery_claim now i w (duration_to_lease_seconds (lp_initial_lease plan)) (others d) = Inr (b, d1)"
        by (cases x) (auto split: if_splits)
      have "P (without_delivery i d1)"
        using here statements_without(1) [OF x(2)] by simp
      then show ?thesis
        using Cons.prems(1,2) Inr x later(2) [of "instant + lp_initial_lease plan" d1]
        by (cases b) (simp_all add: e HeartbeatDue Let_def)
    qed
  next
    case (DeliveryShutdown b)
    then show ?thesis
      using Cons.prems(1,2) here later(1) [of deadline] by (cases b) (simp_all add: e)
  qed (use Cons.prems(1) here in \<open>simp_all add: e\<close>)
qed

lemma delivery_run_keeps_rest:
  assumes "deliver_one_notification env c plan w delivery run d = Some (r, d')"
    and "\<forall>(others, _) \<in> set (dr_events run). keeps_rest (cnd_id delivery) P others"
    and "keeps_rest (cnd_id delivery) P (dr_before_end run)" "P (without_delivery (cnd_id delivery) d)"
  shows "P (without_delivery (cnd_id delivery) d')"
proof -
  let ?i = "cnd_id delivery"
  have final: "P (without_delivery ?i (snd (settle ok m d2)))"
    if "P (without_delivery ?i d2)"
      "\<And>b d3. m d2 = Inr (b, d3) \<Longrightarrow> without_delivery ?i d3 = without_delivery ?i d2" for ok m and d2 :: db
    using that by (auto simp: settle_def split: sum.split)
  have marks: "P (without_delivery ?i (snd (settle ok (mark_delivered now ?i w) d2)))"
    "P (without_delivery ?i (snd (settle ok (handle_delivery_failure c now w delivery e b) d2)))"
    if "P (without_delivery ?i d2)" for ok now d2 e b
    by (rule final [OF that], simp add: statements_without handle_delivery_failure_def Let_def)+
  show ?thesis
  proof (cases "dr_shutdown_at_start run")
    case True
    then show ?thesis
      using assms by (auto simp: deliver_one_notification_def Let_def statements_without keeps_rest_def)
  next
    case False
    show ?thesis
    proof (cases "payload_of_json (cnd_payload delivery)")
      case None
      then show ?thesis
        using False assms(1,4) by (simp add: deliver_one_notification_def)
    next
      case (Some payload)
      then obtain out d1 where loop: "delivery_loop plan w ?i (dr_started run + lp_initial_lease plan)
          (dr_events run) d = Some (out, d1)"
        using False assms(1) by (auto simp: deliver_one_notification_def Let_def split: option.splits)
      have d2: "P (without_delivery ?i (dr_before_end run d1))"
        using delivery_loop_keeps_rest [OF loop assms(2,4)] assms(3) by (simp add: keeps_rest_def)
      show ?thesis
      proof (cases out)
        case LoopCompleted
        then show ?thesis
          using False Some loop assms(1) marks [OF d2]
          by (cases "send_notification env c delivery payload")
            (auto simp: deliver_one_notification_def Let_def dest!: arg_cong [where f = snd])
      qed (use False Some loop assms(1) d2 in
          \<open>auto simp: deliver_one_notification_def Let_def statements_without\<close>)
    qed
  qed
qed

lemma delivery_loop_keeps_row:
  assumes "delivery_loop plan w i deadline events d = Some (outcome, d')"
    and "\<forall>(others, _) \<in> set events. spares i w others"
    and "delivery_inv d" "n \<in> set (db_deliveries d)" "holds_delivery i w n"
  shows "delivery_inv d' \<and> (\<exists>n' \<in> set (db_deliveries d'). holds_delivery i w n' \<and> same_attempts n n')"
  using assms
proof (induction plan w i deadline events d arbitrary: n rule: delivery_loop.induct)
  case (1 plan w i deadline d)
  then show ?case by simp
next
  case (2 plan w i deadline others event events d)
  let ?d = "others d"
  have d: "delivery_inv ?d" "n \<in> set (db_deliveries ?d)"
    using 2(5-8) by (auto simp: spares_def)
  have here: "\<exists>n' \<in> set (db_deliveries ?d). holds_delivery i w n' \<and> same_attempts n n'"
    using d(2) 2(8) by (auto simp: same_attempts_def)
  show ?case
  proof (cases event)
    case SendFinished
    with 2(4) d(1) here show ?thesis by simp
  next
    case (DeliveryShutdown b)
    show ?thesis
    proof (cases b)
      case True
      with DeliveryShutdown 2(4) d(1) here show ?thesis by simp
    next
      case False
      then have "delivery_loop plan w i deadline events ?d = Some (outcome, d')"
        using DeliveryShutdown 2(4) by simp
      from 2(1) [OF refl DeliveryShutdown False this _ d 2(8)] 2(5) show ?thesis by simp
    qed
  next
    case DeliveryShutdownGone
    with 2(4) d(1) here show ?thesis by simp
  next
    case (HeartbeatDue now instant connected)
    let ?ext = "extend_delivery_row now (duration_to_lease_seconds (lp_initial_lease plan))"
    let ?e = "if connected then extend_delivery_claim now i w (duration_to_lease_seconds (lp_initial_lease plan)) ?d
        else Inl (Bail ''connection'')"
    show ?thesis
    proof (cases connected)
      case True
      let ?d1 = "?d\<lparr>db_deliveries := update_rows (holds_delivery i w) ?ext (db_deliveries ?d)\<rparr>"
      have e: "?e = Inr (True, ?d1)"
        using update_held_mem(1) [OF d 2(8)] True by (simp add: extend_delivery_claim_def)
      have row: "?ext n \<in> set (db_deliveries ?d1)" "holds_delivery i w (?ext n)"
        using update_held_mem(2) [OF d 2(8), of ?ext] 2(8) by (simp_all add: holds_delivery_def)
      have inv: "delivery_inv ?d1"
        by (rule update_held_keeps_inv [OF d(1)]) simp_all
      have "delivery_loop plan w i (instant + lp_initial_lease plan) events ?d1 = Some (outcome, d')"
        using 2(4) HeartbeatDue e by (simp add: Let_def)
      from 2(3) [OF refl HeartbeatDue e refl refl this _ inv row] 2(5) show ?thesis
        by (auto simp: same_attempts_def extend_delivery_row_def delivery_key_def)
    next
      case False
      then have e: "?e = Inl (Bail ''connection'')" by simp
      show ?thesis
      proof (cases "deadline \<le> instant")
        case True
        with 2(4) HeartbeatDue e d(1) here show ?thesis by simp
      next
        case late: False
        then have "delivery_loop plan w i deadline events ?d = Some (outcome, d')"
          using 2(4) HeartbeatDue e by simp
        from 2(2) [OF refl HeartbeatDue e late this _ d 2(8)] 2(5) show ?thesis by simp
      qed
    qed
  qed
qed

lemma mark_held_row:
  assumes "delivery_inv d" "n \<in> set (db_deliveries d)" "holds_delivery i w n"
    and "i32_in_range (nd_attempts n + 1)"
  shows "\<exists>d'. mark_delivered now i w d = Inr (True, d') \<and> delivery_inv d' \<and>
      outcome_row now OutcomeDelivered n \<in> set (db_deliveries d')"
    and "\<exists>d'. mark_failed now i w e nx d = Inr (True, d') \<and> delivery_inv d' \<and>
      outcome_row now (OutcomeFailed e nx) n \<in> set (db_deliveries d')"
proof -
  have only: "x = n" if "x \<in> set (db_deliveries d)" "holds_delivery i w x" for x
    using assms(1,3) that distinct_map_eqD [of nd_id "db_deliveries d" x n] assms(2)
    by (simp add: delivery_inv_def holds_delivery_def)
  have range: "\<forall>x \<in> set (db_deliveries d). holds_delivery i w x \<longrightarrow> i32_in_range (nd_attempts x + 1)"
    using only assms(4) by blast
  show "\<exists>d'. mark_delivered now i w d = Inr (True, d') \<and> delivery_inv d' \<and>
      outcome_row now OutcomeDelivered n \<in> set (db_deliveries d')"
    unfolding mark_delivered_Inr
    using range update_held_mem [OF assms(1-3)] update_held_keeps_inv [OF assms(1)] by auto
  show "\<exists>d'. mark_failed now i w e nx d = Inr (True, d') \<and> delivery_inv d' \<and>
      outcome_row now (OutcomeFailed e nx) n \<in> set (db_deliveries d')"
    unfolding mark_failed_Inr
    using range update_held_mem [OF assms(1-3)] update_held_keeps_inv [OF assms(1)] by auto
qed

lemma release_held_row:
  assumes "delivery_inv d" "n \<in> set (db_deliveries d)" "holds_delivery i w n"
  shows "release_delivery_row now n \<in> set (db_deliveries (run_stmt (release_delivery_claim now i w) d))"
    and "delivery_inv (run_stmt (release_delivery_claim now i w) d)"
  using update_held_mem [OF assms] update_held_keeps_inv [OF assms(1)]
  by (simp_all add: release_delivery_claim_def run_stmt_def)

lemma deliver_one_returns:
  assumes "payload_of_json (cnd_payload delivery) = None \<or>
    delivery_loop plan w (cnd_id delivery) (dr_started run + lp_initial_lease plan) (dr_events run) d \<noteq> None"
  shows "\<exists>r d'. deliver_one_notification env c plan w delivery run d = Some (r, d')"
  using assms by (auto simp: deliver_one_notification_def Let_def settle_def
      split: option.split sum.split loop_outcome.split)

section \<open>Properties of delivering\<close>

text \<open>
  The pause before retry \<open>n\<close> doubles with every failed attempt, from the configured base to 64
  times the base, and never overflows for a base below \<open>2^57\<close> seconds.
\<close>

theorem retry_delay_doubles:
  assumes "1 \<le> n" "n < 2 ^ 31" "base < 2 ^ 57"
  shows "compute_retry_delay_seconds base n = int base * 2 ^ nat (min (n - 1) 6) \<and>
    int base \<le> compute_retry_delay_seconds base n \<and> compute_retry_delay_seconds base n \<le> 64 * int base"
proof -
  let ?e = "nat (min (n - 1) 6)"
  have e: "?e \<le> 6" "nat (max 0 (min (max (- (2 ^ 31)) (n - 1)) 6)) = ?e"
    using assms by simp_all
  have p: "(2::int) ^ ?e \<le> 2 ^ 6"
    by (rule power_increasing) (use e in simp_all)
  have "int base < 2 ^ 57"
    using assms(3) by (metis of_nat_less_iff of_nat_numeral of_nat_power)
  then have base: "as_i64 (int base) = int base"
    by (intro as_i64_small) simp_all
  have le: "int base * 2 ^ ?e \<le> int base * 64" "int base * 1 \<le> int base * 2 ^ ?e"
    by (intro mult_left_mono; use p in simp)+
  moreover have "int base * 64 < 2 ^ 63"
    using \<open>int base < 2 ^ 57\<close> by simp
  ultimately have "sat_mul_i64 (int base) (2 ^ ?e) = int base * 2 ^ ?e"
    by (simp add: sat_mul_i64_def clamp_i64_def)
  then have "compute_retry_delay_seconds base n = int base * 2 ^ ?e"
    unfolding compute_retry_delay_seconds_def Let_def e(2) base .
  with le show ?thesis
    by (simp add: mult.commute)
qed

theorem retry_delay_doubles_witness:
  "compute_retry_delay_seconds 30 4 = 240 \<and> compute_retry_delay_seconds 30 4 \<le> 64 * int 30"
  using retry_delay_doubles [of 4 30] by simp

text \<open>How a run leaves the row of its delivery.\<close>

definition settled_as ::
  "'k config \<Rightarrow> timestamp \<Rightarrow> string \<Rightarrow> notification_delivery \<Rightarrow> delivery_error + unit \<Rightarrow> delivery_execution \<Rightarrow>
   notification_delivery \<Rightarrow> bool" where
  "settled_as c now w n sent r n' \<longleftrightarrow>
     nd_id n' = nd_id n \<and> delivery_key n' = delivery_key n \<and> nd_payload n' = nd_payload n \<and>
     (case r of
        DeliveryError \<Rightarrow> False
      | DeliveryCancelled \<Rightarrow>
          nd_status n' = nd_status n \<and> nd_attempts n' = nd_attempts n \<and>
          nd_next_attempt_at n' = nd_next_attempt_at n \<and>
          (nd_claimed_by n' = None \<or> nd_claimed_by n' = Some w)
      | DeliveryCompleted \<Rightarrow>
          nd_attempts n' = nd_attempts n + 1 \<and> nd_claimed_by n' = None \<and>
          (case sent of
             Inr _ \<Rightarrow> nd_status n' = Delivered \<and> nd_delivered_at n' = Some now
           | Inl e \<Rightarrow>
               nd_status n' = Failed \<and> nd_last_error n' = Some (error_text e) \<and>
               nd_next_attempt_at n' =
                 (if should_retry_delivery_error e \<and> nat (nd_attempts n + 1) < cfg_notification_max_attempts c
                  then Some (add_seconds now
                         (compute_retry_delay_seconds (cfg_notification_retry_base_seconds c) (nd_attempts n + 1)))
                  else None)))"

lemma filter_unique_key:
  "distinct (map k xs) \<Longrightarrow> x \<in> set xs \<Longrightarrow> filter (\<lambda>y. k y = k x) xs = [x]"
  by (induction xs) (auto simp: filter_empty_conv image_iff)

lemma delivery_run_settles:
  assumes "delivery_inv d" "n \<in> set (db_deliveries d)" "holds_delivery (cnd_id delivery) w n"
    and "cnd_attempts delivery = nd_attempts n" "0 \<le> nd_attempts n" "i32_in_range (nd_attempts n + 1)"
    and "payload_of_json (cnd_payload delivery) = Some payload"
    and "\<forall>(others, _) \<in> set (dr_events run). spares (cnd_id delivery) w others"
    and "spares (cnd_id delivery) w (dr_before_end run)"
    and "deliver_one_notification env c plan w delivery run d = Some (r, d')"
  shows "delivery_inv d' \<and> (\<exists>n' \<in> set (db_deliveries d').
    settled_as c (dr_now run) w n (send_notification env c delivery payload) r n')"
proof -
  let ?i = "cnd_id delivery" and ?now = "dr_now run" and ?sent = "send_notification env c delivery payload"
  have released: ?thesis
    if d2: "delivery_inv d2" "n2 \<in> set (db_deliveries d2)" "holds_delivery ?i w n2" "same_attempts n n2"
      and "r = DeliveryCancelled" "d' = run_stmt (release_delivery_claim ?now ?i w) d2 \<or> d' = d2" for d2 n2
    using that release_held_row [OF d2(1-3), of ?now]
    by (auto simp: settled_as_def same_attempts_def holds_delivery_def release_delivery_row_def delivery_key_def
        intro: bexI [where x = n2] bexI [where x = "release_delivery_row ?now n2"])
  show ?thesis
  proof (cases "dr_shutdown_at_start run")
    case True
    then have "r = DeliveryCancelled" "d' = run_stmt (release_delivery_claim ?now ?i w) (dr_before_end run d)"
      using assms(10) by (simp_all add: deliver_one_notification_def)
    moreover have "delivery_inv (dr_before_end run d)" "n \<in> set (db_deliveries (dr_before_end run d))"
      using assms(1-3,9) by (simp_all add: spares_def)
    ultimately show ?thesis
      using released assms(3) by (simp add: same_attempts_def)
  next
    case False
    then obtain out d1 where loop: "delivery_loop plan w ?i (dr_started run + lp_initial_lease plan)
        (dr_events run) d = Some (out, d1)"
      using assms(7,10) by (auto simp: deliver_one_notification_def Let_def split: option.splits)
    then obtain n1 where n1: "delivery_inv d1" "n1 \<in> set (db_deliveries d1)" "holds_delivery ?i w n1" "same_attempts n n1"
      using delivery_loop_keeps_row [OF loop assms(8,1-3)] by blast
    let ?d2 = "dr_before_end run d1"
    have d2: "delivery_inv ?d2" "n1 \<in> set (db_deliveries ?d2)"
      using assms(9) n1 by (simp_all add: spares_def)
    have range: "i32_in_range (nd_attempts n1 + 1)"
      using n1(4) assms(6) by (simp add: same_attempts_def)
    show ?thesis
    proof (cases out)
      case LoopShutdownCancelled
      with False loop assms(7,10) have "r = DeliveryCancelled"
        "d' = run_stmt (release_delivery_claim ?now ?i w) ?d2"
        by (simp_all add: deliver_one_notification_def Let_def)
      with released [OF d2 n1(3,4)] show ?thesis by simp
    next
      case LoopLeaseLost
      with False loop assms(7,10) have "r = DeliveryCancelled" "d' = ?d2"
        by (simp_all add: deliver_one_notification_def Let_def)
      with released [OF d2 n1(3,4)] show ?thesis by simp
    next
      case LoopCompleted
      show ?thesis
      proof (cases ?sent)
        case (Inr u)
        obtain d3 where d3: "mark_delivered ?now ?i w ?d2 = Inr (True, d3)"
          "outcome_row ?now OutcomeDelivered n1 \<in> set (db_deliveries d3)"
          "delivery_inv d3"
          using mark_held_row(1) [OF d2 n1(3) range] by blast
        with False loop assms(7,10) LoopCompleted Inr have "r = DeliveryCompleted" "d' = d3"
          by (simp_all add: deliver_one_notification_def Let_def settle_def)
        with d3 n1(4) Inr show ?thesis
          by (intro conjI bexI [where x = "outcome_row ?now OutcomeDelivered n1"])
            (simp_all add: settled_as_def same_attempts_def outcome_row_def delivery_key_def)
      next
        case (Inl e)
        let ?nx = "if should_retry_delivery_error e \<and> nat ((nd_attempts n + 1) mod 2 ^ 64) < cfg_notification_max_attempts c
             then Some (add_seconds ?now
                    (compute_retry_delay_seconds (cfg_notification_retry_base_seconds c) (nd_attempts n + 1)))
             else None"
        have m: "(nd_attempts n + 1) mod 2 ^ 64 = nd_attempts n + 1"
          using assms(5,6) by (simp add: i32_in_range_def)
        obtain d3 where d3: "mark_failed ?now ?i w (error_text e) ?nx ?d2 = Inr (True, d3)"
          "outcome_row ?now (OutcomeFailed (error_text e) ?nx) n1 \<in> set (db_deliveries d3)"
          "delivery_inv d3"
          using mark_held_row(2) [OF d2 n1(3) range] by blast
        then have "handle_delivery_failure c ?now w delivery (error_text e) (should_retry_delivery_error e) ?d2
            = Inr (True, d3)"
          by (simp add: handle_delivery_failure_def Let_def assms(4))
        with False loop assms(7,10) LoopCompleted Inl have "r = DeliveryCompleted" "d' = d3"
          by (simp_all add: deliver_one_notification_def Let_def settle_def)
        with d3(2,3) n1(4) Inl show ?thesis
          by (intro conjI bexI [where x = "outcome_row ?now (OutcomeFailed (error_text e) ?nx) n1"])
            (simp_all add: settled_as_def same_attempts_def outcome_row_def delivery_key_def m [simplified])
      qed
    qed
  qed
qed

text \<open>
  C15: a worker that delivers a notification it holds settles it exactly once, whatever the order of
  the send, the shutdown and the heartbeats: a send that completed counts one attempt and frees the
  row, as delivered or as failed with the next attempt exactly when the error allows a retry and
  attempts are left; a run that was cancelled counts nothing. The delivery is still one row, with
  its key and payload, and the run touches nothing else: whatever holds of the rest of the database
  and is kept by the other sessions holds of the rest afterwards. Other sessions may do anything
  that leaves the row alone while it is held.
\<close>

theorem delivery_settles_its_row:
  assumes "delivery_inv d" "n \<in> set (db_deliveries d)" "holds_delivery (cnd_id delivery) w n"
    and "cnd_attempts delivery = nd_attempts n" "0 \<le> nd_attempts n" "i32_in_range (nd_attempts n + 1)"
    and "payload_of_json (cnd_payload delivery) = Some payload"
    and "\<forall>(others, _) \<in> set (dr_events run). spares (cnd_id delivery) w others"
    and "spares (cnd_id delivery) w (dr_before_end run)"
    and "deliver_one_notification env c plan w delivery run d = Some (r, d')"
    and "\<forall>(others, _) \<in> set (dr_events run). keeps_rest (cnd_id delivery) P others"
    and "keeps_rest (cnd_id delivery) P (dr_before_end run)" "P (without_delivery (cnd_id delivery) d)"
  shows "\<exists>n'. filter (\<lambda>x. nd_id x = cnd_id delivery) (db_deliveries d') = [n'] \<and>
    settled_as c (dr_now run) w n (send_notification env c delivery payload) r n' \<and>
    P (without_delivery (cnd_id delivery) d')"
proof -
  obtain n' where n': "delivery_inv d'" "n' \<in> set (db_deliveries d')"
    "settled_as c (dr_now run) w n (send_notification env c delivery payload) r n'"
    using delivery_run_settles [OF assms(1-10)] by blast
  then have "nd_id n' = cnd_id delivery"
    using assms(3) by (simp add: settled_as_def holds_delivery_def)
  moreover have "distinct (map nd_id (db_deliveries d'))"
    using n'(1) by (simp add: delivery_inv_def)
  ultimately have "filter (\<lambda>x. nd_id x = cnd_id delivery) (db_deliveries d') = [n']"
    using n'(2) by (metis filter_unique_key)
  then show ?thesis
    using n'(3) delivery_run_keeps_rest [OF assms(10-13)] by blast
qed

text \<open>A claimed email notification of a program without SMTP, for the witness.\<close>

definition sample_send_env :: send_env where
  "sample_send_env =
     \<lparr>se_crypto = sample_crypto_lib, se_json_to_vec = (\<lambda>_. Inr []), se_timestamp = 0,
      se_parse_url = (\<lambda>u. Inr \<lparr>pu_href = u, pu_scheme = ''https'', pu_host = Some ''h.test'',
                            pu_port_or_default = Some 443\<rparr>),
      se_lookup_host = (\<lambda>_. Some [(V4 93 184 216 34, 443)]), se_build_client_error = None,
      se_post = (\<lambda>_. Inr 200), se_is_redirection = (\<lambda>s. 300 \<le> s \<and> s < 400),
      se_status_error = (\<lambda>s. if s < 400 then None else Some ''status''), se_smtp_from = None,
      se_parse_address = Inr, se_build_message_error = (\<lambda>_. None), se_smtp_send = (\<lambda>_. None)\<rparr>"

definition sample_payload :: notification_payload where
  "sample_payload = build_payload show_int sample_context sample_monitor (sample_monitor_check False) Failure"

definition sample_claimed_row :: notification_delivery where
  "sample_claimed_row =
     claim_delivery_row 50 ''w1'' 30
       (delivery_row 10 1 (sample_new_delivery\<lparr>nnd_payload := payload_to_json sample_payload\<rparr>))"

definition sample_claimed :: claimed_notification_delivery where
  "sample_claimed = claimed_delivery sample_claimed_row (sample_channel\<lparr>nc_channel_type := Email\<rparr>)"

definition sample_claimed_db :: db where
  "sample_claimed_db = empty_db
     \<lparr>db_deliveries := [sample_claimed_row, delivery_row 10 2 (sample_new_delivery\<lparr>nnd_event_type := Recovery\<rparr>)],
      db_next_delivery := 3\<rparr>"

definition sample_run :: delivery_run where
  "sample_run =
     \<lparr>dr_shutdown_at_start = False, dr_started = 0,
      dr_events = [((\<lambda>d. d), HeartbeatDue 60 1 True), ((\<lambda>d. d), SendFinished)],
      dr_before_end = (\<lambda>d. d), dr_now = 70\<rparr>"

lemma sample_payload_parses: "payload_of_json (payload_to_json sample_payload) = Some sample_payload"
  by (rule payload_of_to_json)
    (simp add: sample_payload_def payload_ok_def build_payload_def sample_context_def sample_monitor_def
      sample_monitor_check_def i32_in_range_def i64_in_range_def Let_def
      notification_payload_schema_version_def)

lemma sample_claimed_sel:
  "cnd_id sample_claimed = 1" "cnd_attempts sample_claimed = 0"
  "cnd_payload sample_claimed = payload_to_json sample_payload" "cnd_channel_type sample_claimed = Email"
  "nd_id sample_claimed_row = 1" "nd_attempts sample_claimed_row = 0"
  "nd_claimed_by sample_claimed_row = Some ''w1''"
  by (simp_all add: sample_claimed_def sample_claimed_row_def claimed_delivery_def claim_delivery_row_def
      delivery_row_def sample_new_delivery_def)

lemma sample_claimed_inv:
  "delivery_inv sample_claimed_db" "sample_claimed_row \<in> set (db_deliveries sample_claimed_db)"
  "holds_delivery 1 ''w1'' sample_claimed_row"
  by (simp_all add: delivery_inv_def sample_claimed_db_def holds_delivery_def sample_claimed_sel)
    (simp add: sample_claimed_row_def delivery_key_def new_delivery_key_def sample_new_delivery_def
      claim_delivery_row_def delivery_row_def)

theorem delivery_settles_its_row_witness:
  "\<forall>c. \<exists>r d' n'. deliver_one_notification sample_send_env c \<lparr>lp_initial_lease = from_secs 30, lp_heartbeat_interval = from_secs 10\<rparr>
       ''w1'' sample_claimed sample_run sample_claimed_db = Some (r, d') \<and>
     filter (\<lambda>x. nd_id x = 1) (db_deliveries d') = [n'] \<and>
     settled_as c 70 ''w1'' sample_claimed_row (Inl (OtherError ''SMTP is not configured'')) r n' \<and>
     without_delivery 1 d' = without_delivery 1 sample_claimed_db"
proof
  fix c
  let ?plan = "\<lparr>lp_initial_lease = from_secs 30, lp_heartbeat_interval = from_secs 10\<rparr>"
  let ?ext = "extend_delivery_row 60 (duration_to_lease_seconds (from_secs 30))"
  note row = sample_claimed_inv
  have "delivery_loop ?plan ''w1'' 1 t (dr_events sample_run) sample_claimed_db \<noteq> None" for t
    using update_held_mem(1) [OF row, of ?ext]
    by (simp add: sample_run_def extend_delivery_claim_def Let_def)
  then obtain r d' where r: "deliver_one_notification sample_send_env c ?plan ''w1'' sample_claimed sample_run
      sample_claimed_db = Some (r, d')"
    using deliver_one_returns [of sample_claimed ?plan "''w1''" sample_run sample_claimed_db sample_send_env c]
    by (auto simp: sample_claimed_sel)
  have sent: "send_notification sample_send_env c sample_claimed sample_payload =
      Inl (OtherError ''SMTP is not configured'')"
    by (simp add: send_notification_def sample_claimed_sel send_email_notification_def sample_send_env_def)
  have now: "dr_now sample_run = 70"
    by (simp add: sample_run_def)
  have "\<exists>n'. filter (\<lambda>x. nd_id x = cnd_id sample_claimed) (db_deliveries d') = [n'] \<and>
      settled_as c (dr_now sample_run) ''w1'' sample_claimed_row
        (send_notification sample_send_env c sample_claimed sample_payload) r n' \<and>
      without_delivery (cnd_id sample_claimed) d' = without_delivery 1 sample_claimed_db"
    by (rule delivery_settles_its_row [OF _ _ _ _ _ _ _ _ _ r])
      (use row in \<open>simp_all add: sample_claimed_sel sample_payload_parses i32_in_range_def spares_def
        keeps_rest_def sample_run_def\<close>)
  with r show "\<exists>r d' n'. deliver_one_notification sample_send_env c ?plan ''w1'' sample_claimed sample_run
      sample_claimed_db = Some (r, d') \<and>
     filter (\<lambda>x. nd_id x = 1) (db_deliveries d') = [n'] \<and>
     settled_as c 70 ''w1'' sample_claimed_row (Inl (OtherError ''SMTP is not configured'')) r n' \<and>
     without_delivery 1 d' = without_delivery 1 sample_claimed_db"
    unfolding sent now sample_claimed_sel by blast
qed

section \<open>Properties of queueing\<close>

lemma notified_channels_mem:
  "c \<in> set (notified_channels e site d) \<longleftrightarrow>
     find_site site d \<noteq> None \<and>
     (\<exists>nc \<in> set (db_channels d). c = effective_channel nc (find_override site (nc_id nc) d)) \<and>
     enc_is_active c \<and>
     (case e of Failure \<Rightarrow> enc_notify_on_failure c | Recovery \<Rightarrow> enc_notify_on_recovery c)"
  by (auto simp: notified_channels_def list_effective_by_site_id_def order_by_def)

lemma effective_channel_sel [simp]:
  "enc_id (effective_channel c ov) = nc_id c"
  "enc_is_active (effective_channel c ov) = unwrap_or (Option.bind ov snco_is_active) (nc_is_active c)"
  "enc_notify_on_failure (effective_channel c ov) =
     unwrap_or (Option.bind ov snco_notify_on_failure) (nc_notify_on_failure c)"
  "enc_notify_on_recovery (effective_channel c ov) =
     unwrap_or (Option.bind ov snco_notify_on_recovery) (nc_notify_on_recovery c)"
  by (simp_all add: effective_channel_def)

lemma set_notified_channels:
  "set (notified_channels e site d) =
     (\<lambda>nc. effective_channel nc (find_override site (nc_id nc) d)) `
       {nc. nc \<in> set (db_channels d) \<and> find_site site d \<noteq> None \<and>
          (let c = effective_channel nc (find_override site (nc_id nc) d) in
           enc_is_active c \<and>
           (case e of Failure \<Rightarrow> enc_notify_on_failure c | Recovery \<Rightarrow> enc_notify_on_recovery c))}"
  unfolding set_eq_iff image_iff notified_channels_mem Let_def by blast

lemma enqueue_notifications_Some:
  assumes "determine_event_type (sm_last_is_success m) (smc_is_success check) = Some e"
    and "enqueue_site_monitor_notifications f now m check inc d = Inr (k, d')"
  shows "\<exists>payload. k = length (notified_channels e (sm_site_id m) d) \<and>
    enqueue_deliveries now (map (new_delivery m check inc e payload) (notified_channels e (sm_site_id m) d)) d
      = Inr ((), d')"
proof (cases "notified_channels e (sm_site_id m) d = []")
  case True
  with assms show ?thesis
    by (simp add: enqueue_site_monitor_notifications_def)
next
  case False
  with assms show ?thesis
    by (auto simp: enqueue_site_monitor_notifications_def stmt_bind_Inr_iff load_notification_context_def Let_def
        split: option.splits)
qed

text \<open>
  C16: a check notifies exactly the right channels: nothing unless it is a first failure (after a
  success or as the first result) or a recovery; otherwise every channel of the site that is
  active and wants the event, each setting taken from the site's override or else from the channel.
  Afterwards exactly these (channel, check, event) triples have been added to the queue, each once.
\<close>

theorem notifications_reach_the_right_channels:
  assumes "delivery_inv d" "enqueue_site_monitor_notifications f now m check inc d = Inr (k, d')"
  shows "delivery_inv d' \<and>
    (case determine_event_type (sm_last_is_success m) (smc_is_success check) of
       None \<Rightarrow> k = 0 \<and> d' = d \<and> (smc_is_success check \<longleftrightarrow> sm_last_is_success m \<noteq> Some False)
     | Some e \<Rightarrow>
         (smc_is_success check \<longleftrightarrow> e = Recovery) \<and>
         k = length (notified_channels e (sm_site_id m) d) \<and>
         delivery_key ` set (db_deliveries d') =
           delivery_key ` set (db_deliveries d) \<union>
           {(nc_id nc, smc_id check, e) | nc. nc \<in> set (db_channels d) \<and> find_site (sm_site_id m) d \<noteq> None \<and>
              (let ov = find_override (sm_site_id m) (nc_id nc) d in
               unwrap_or (Option.bind ov snco_is_active) (nc_is_active nc) \<and>
               (case e of
                  Failure \<Rightarrow> unwrap_or (Option.bind ov snco_notify_on_failure) (nc_notify_on_failure nc)
                | Recovery \<Rightarrow> unwrap_or (Option.bind ov snco_notify_on_recovery) (nc_notify_on_recovery nc)))})"
proof (cases "determine_event_type (sm_last_is_success m) (smc_is_success check)")
  case None
  with assms show ?thesis
    by (auto simp: enqueue_site_monitor_notifications_def determine_event_type_def
        split: option.splits bool.splits)
next
  case (Some e)
  let ?cs = "notified_channels e (sm_site_id m) d"
  obtain payload where k: "k = length ?cs"
    and q: "enqueue_deliveries now (map (new_delivery m check inc e payload) ?cs) d = Inr ((), d')"
    using enqueue_notifications_Some [OF Some assms(2)] by blast
  have e: "smc_is_success check \<longleftrightarrow> e = Recovery"
    using Some by (auto simp: determine_event_type_def split: option.splits bool.splits)
  have keys: "new_delivery_key ` set (map (new_delivery m check inc e payload) ?cs) =
      (\<lambda>c. (enc_id c, smc_id check, e)) ` set ?cs"
    by (simp add: new_delivery_key_def new_delivery_def image_image)
  have "(\<lambda>c. (enc_id c, smc_id check, e)) ` set ?cs =
      {(nc_id nc, smc_id check, e) | nc. nc \<in> set (db_channels d) \<and> find_site (sm_site_id m) d \<noteq> None \<and>
              (let ov = find_override (sm_site_id m) (nc_id nc) d in
               unwrap_or (Option.bind ov snco_is_active) (nc_is_active nc) \<and>
               (case e of
                  Failure \<Rightarrow> unwrap_or (Option.bind ov snco_notify_on_failure) (nc_notify_on_failure nc)
                | Recovery \<Rightarrow> unwrap_or (Option.bind ov snco_notify_on_recovery) (nc_notify_on_recovery nc)))}"
      (is "_ = ?K")
    by (cases e) (simp_all add: setcompr_eq_image set_notified_channels image_image Let_def)
  with enqueue_keys [OF q] keys have "delivery_key ` set (db_deliveries d') =
      delivery_key ` set (db_deliveries d) \<union> ?K" by (simp only:)
  then show ?thesis
    using enqueue_inv [OF q assms(1)] k e Some by simp
qed

text \<open>A site with one channel that is switched off globally and on for the site, for the witness.\<close>

definition sample_override_db :: db where
  "sample_override_db = empty_db
     \<lparr>db_sites := [\<lparr>s_id = 1, s_name = ''Shop'', s_base_url = ''https://a.test'', s_is_active = True,
                  s_created_at = 0, s_updated_at = 0\<rparr>],
      db_monitors := [sample_monitor], db_checks := [sample_monitor_check False],
      db_channels := [sample_channel\<lparr>nc_is_active := False\<rparr>],
      db_overrides :=
        [\<lparr>snco_id = 1, snco_site_id = 1, snco_notification_channel_id = 4,
          snco_notify_on_failure = None, snco_notify_on_recovery = None, snco_is_active = Some True,
          snco_created_at = 0, snco_updated_at = 0\<rparr>]\<rparr>"

lemma sample_override_enqueues:
  "\<exists>payload. enqueue_site_monitor_notifications show_int 50 sample_monitor (sample_monitor_check False) None
     sample_override_db =
     Inr (1, sample_override_db
       \<lparr>db_deliveries := [delivery_row 50 1
          \<lparr>nnd_notification_channel_id = 4, nnd_site_monitor_id = 1, nnd_site_monitor_check_id = 7,
           nnd_incident_id = None, nnd_event_type = Failure, nnd_payload = payload\<rparr>],
        db_next_delivery := 2\<rparr>)"
  by (rule exI) (simp add: enqueue_site_monitor_notifications_def determine_event_type_def sample_monitor_def
      sample_monitor_check_def notified_channels_def list_effective_by_site_id_def
      sample_override_db_def sample_channel_def find_site_def find_override_def
      effective_channel_def order_by_def load_notification_context_def stmt_bind_def Let_def
      stmt_return_def new_delivery_def insert_delivery_def new_delivery_key_def delivery_references_exist_def find_channel_def find_monitor_def
      empty_db_def)

lemma sample_override_db_inv: "delivery_inv sample_override_db"
  by (simp add: delivery_inv_def sample_override_db_def empty_db_def)

theorem notifications_reach_the_right_channels_witness:
  "\<exists>d'. enqueue_site_monitor_notifications show_int 50 sample_monitor (sample_monitor_check False) None
       sample_override_db = Inr (1, d') \<and>
     delivery_key ` set (db_deliveries d') = {(4, 7, Failure)}"
proof -
  obtain d' where d': "enqueue_site_monitor_notifications show_int 50 sample_monitor
      (sample_monitor_check False) None sample_override_db = Inr (1, d')"
    using sample_override_enqueues by blast
  from notifications_reach_the_right_channels [OF sample_override_db_inv this] have
    "delivery_key ` set (db_deliveries d') = {(4, 7, Failure)}"
    by (simp add: determine_event_type_def sample_monitor_def sample_monitor_check_def
        sample_override_db_def sample_channel_def find_override_def find_site_def Let_def empty_db_def
        Collect_conv_if2 cong: conj_cong)
  with d' show ?thesis by blast
qed

text \<open>
  an override that switches a channel on for a site cannot revive a channel that is switched
  off globally: the notification is queued, but no claim at any time ever takes it while the
  channel stays off.
\<close>

theorem override_cannot_revive_inactive_channel:
  "\<exists>d'. enqueue_site_monitor_notifications show_int 50 sample_monitor (sample_monitor_check False) None
       sample_override_db = Inr (1, d') \<and> db_deliveries d' \<noteq> [] \<and>
     (\<forall>now locked w s. claim_due_deliveries now locked w 100 s d' = Inr ([], d'))"
proof -
  obtain payload where q: "enqueue_site_monitor_notifications show_int 50 sample_monitor
      (sample_monitor_check False) None sample_override_db =
     Inr (1, sample_override_db
       \<lparr>db_deliveries := [delivery_row 50 1
          \<lparr>nnd_notification_channel_id = 4, nnd_site_monitor_id = 1, nnd_site_monitor_check_id = 7,
           nnd_incident_id = None, nnd_event_type = Failure, nnd_payload = payload\<rparr>],
        db_next_delivery := 2\<rparr>)"
    using sample_override_enqueues by blast
  show ?thesis
    by (intro exI conjI, rule q)
      (simp_all add: claim_due_deliveries_def due_deliveries_def delivery_claimable_def
        channel_active_def sample_override_db_def sample_channel_def order_by_def limit_rows_def
        returning_rows_def update_rows_def delivery_row_def Let_def map_filter_simps)
qed

end
