(* ===== verification/Check_Repository.thy ===== *)
theory Check_Repository
  imports Domain_Model Pagination
begin

text \<open>
  \<^verbatim>\<open>src/domain/site_monitor_checks/repository.rs\<close>: the history of checks. A check is inserted with
  the transaction's time; old checks are pruned in batches, and what refers to them follows its
  foreign key (a delivery goes with its check, an incident forgets it).
\<close>

section \<open>Insertion\<close>

definition check_row :: "timestamp \<Rightarrow> id \<Rightarrow> id \<Rightarrow> create_monitor_check_params \<Rightarrow> site_monitor_check" where
  "check_row now i monitor p =
     \<lparr>smc_id = i, smc_site_monitor_id = monitor, smc_checked_at = now,
      smc_monitor_type = cmc_monitor_type p, smc_url_checked = cmc_url_checked p,
      smc_expected_status_code = cmc_expected_status_code p, smc_is_success = cmc_is_success p,
      smc_status_code = cmc_status_code p, smc_response_time_ms = cmc_response_time_ms p,
      smc_total_duration_ms = cmc_total_duration_ms p, smc_attempt_count = cmc_attempt_count p,
      smc_was_retried = cmc_was_retried p, smc_failure_reason = cmc_failure_reason p,
      smc_error_message = cmc_error_message p,
      smc_certificate_expires_at = cmc_certificate_expires_at p,
      smc_certificate_days_remaining = cmc_certificate_days_remaining p,
      smc_certificate_issuer = cmc_certificate_issuer p,
      smc_certificate_subject = cmc_certificate_subject p,
      smc_certificate_domain = cmc_certificate_domain p\<rparr>"

definition create_site_monitor_check ::
  "timestamp \<Rightarrow> id \<Rightarrow> create_monitor_check_params \<Rightarrow> (db, site_monitor_check) stmt" where
  "create_site_monitor_check now monitor p d =
     (if find_monitor monitor d = None then Inl (ForeignKeyViolation ''site_monitor_checks'')
      else
        let c = check_row now (db_next_check d) monitor p
        in Inr (c, d\<lparr>db_checks := db_checks d @ [c], db_next_check := db_next_check d + 1\<rparr>))"

section \<open>Retention\<close>

definition expired_checks :: "timestamp \<Rightarrow> int \<Rightarrow> db \<Rightarrow> site_monitor_check list" where
  "expired_checks cutoff limit d =
     limit_rows limit
       (order_by (\<lambda>c. (smc_checked_at c, smc_id c))
          (filter (\<lambda>c. smc_checked_at c < cutoff) (db_checks d)))"

text \<open>\<open>ON DELETE SET NULL\<close> of the three references of an incident.\<close>

definition forget_check :: "id set \<Rightarrow> site_monitor_incident \<Rightarrow> site_monitor_incident" where
  "forget_check gone i =
     i\<lparr>inc_opened_check_id := option_filter (\<lambda>c. c \<notin> gone) (inc_opened_check_id i),
       inc_resolved_check_id := option_filter (\<lambda>c. c \<notin> gone) (inc_resolved_check_id i),
       inc_last_check_id := option_filter (\<lambda>c. c \<notin> gone) (inc_last_check_id i)\<rparr>"

definition delete_checks :: "id set \<Rightarrow> db \<Rightarrow> db" where
  "delete_checks gone d =
     d\<lparr>db_checks := delete_rows (\<lambda>c. smc_id c \<in> gone) (db_checks d),
       db_incidents := map (forget_check gone) (db_incidents d),
       db_deliveries := delete_rows (\<lambda>n. nd_site_monitor_check_id n \<in> gone) (db_deliveries d)\<rparr>"

text \<open>
  \<open>lock_acquired\<close> is the answer of \<^verbatim>\<open>pg_try_advisory_xact_lock\<close>: without the lock the transaction is
  rolled back and the result is \<open>None\<close>.
\<close>

definition prune_checks_older_than ::
  "bool \<Rightarrow> timestamp \<Rightarrow> int \<Rightarrow> (db, nat option) stmt" where
  "prune_checks_older_than lock_acquired cutoff limit d =
     (if \<not> lock_acquired then Inr (None, d)
      else if limit < 0 then Inl NegativeLimit
      else
        let gone = smc_id ` set (expired_checks cutoff limit d)
        in Inr (Some (rows_affected (\<lambda>c. smc_id c \<in> gone) (db_checks d)), delete_checks gone d))"

section \<open>The list of a site's checks\<close>

definition check_of_site :: "id \<Rightarrow> bool option \<Rightarrow> db \<Rightarrow> site_monitor_check \<Rightarrow> bool" where
  "check_of_site site success d c \<longleftrightarrow>
     list_ex (\<lambda>m. sm_id m = smc_site_monitor_id c \<and> sm_site_id m = site) (db_monitors d) \<and>
     find_site site d \<noteq> None \<and> (success = None \<or> success = Some (smc_is_success c))"

definition list_checks_by_site_id :: "id \<Rightarrow> check_cursor_query \<Rightarrow> db \<Rightarrow> site_monitor_check list" where
  "list_checks_by_site_id site q d =
     limit_rows (ccq_limit q)
       (order_by_desc (\<lambda>c. (smc_checked_at c, smc_id c))
          (filter (\<lambda>c. check_of_site site (ccq_is_success q) d c \<and>
                       before_cursor (ccq_cursor_checked_at q) (ccq_cursor_id q) (smc_checked_at c) (smc_id c))
             (db_checks d)))"

section \<open>Uptime\<close>

record monitor_uptime_stats =
  total_7d :: int
  success_7d :: int
  total_30d :: int
  success_30d :: int

definition get_monitor_uptime_stats :: "timestamp \<Rightarrow> id \<Rightarrow> db \<Rightarrow> monitor_uptime_stats" where
  "get_monitor_uptime_stats now monitor d =
     (let since_7d = add_days now (- 7);
          since_30d = add_days now (- 30);
          rows = filter (\<lambda>c. smc_site_monitor_id c = monitor \<and> since_30d \<le> smc_checked_at c)
                   (db_checks d)
      in \<lparr>total_7d = int (length (filter (\<lambda>c. since_7d \<le> smc_checked_at c) rows)),
          success_7d =
            int (length (filter (\<lambda>c. smc_is_success c \<and> since_7d \<le> smc_checked_at c) rows)),
          total_30d = int (length rows),
          success_30d = int (length (filter smc_is_success rows))\<rparr>)"

definition monitor_ids_of_site :: "id \<Rightarrow> db \<Rightarrow> id set" where
  "monitor_ids_of_site site d = sm_id ` set (filter (\<lambda>m. sm_site_id m = site) (db_monitors d))"

text \<open>Total and successful checks of a site since an instant.\<close>

definition get_site_uptime_stats :: "id \<Rightarrow> timestamp \<Rightarrow> db \<Rightarrow> int \<times> int" where
  "get_site_uptime_stats site since d =
     (let rows = filter (\<lambda>c. smc_site_monitor_id c \<in> monitor_ids_of_site site d \<and>
                             since \<le> smc_checked_at c) (db_checks d)
      in (int (length rows), int (length (filter smc_is_success rows))))"

text \<open>
  One bucket (day number since the epoch, total, successful) per UTC day, ending today. The
  program renders the day with \<^verbatim>\<open>to_char\<close>.
\<close>

definition utc_day :: "timestamp \<Rightarrow> int" where
  "utc_day t = t div 86400000000"

definition daily_buckets ::
  "timestamp \<Rightarrow> int \<Rightarrow> site_monitor_check list \<Rightarrow> (int \<times> int \<times> int) list" where
  "daily_buckets now days rows =
     map (\<lambda>day.
        let of_day = filter (\<lambda>c. utc_day (smc_checked_at c) = day) rows
        in (day, int (length of_day), int (length (filter smc_is_success of_day))))
       [utc_day now - (as_i32 days - 1) .. utc_day now]"

definition get_daily_uptime_stats ::
  "timestamp \<Rightarrow> id \<Rightarrow> int \<Rightarrow> db \<Rightarrow> (int \<times> int \<times> int) list" where
  "get_daily_uptime_stats now site days d =
     daily_buckets now days
       (filter (\<lambda>c. smc_site_monitor_id c \<in> monitor_ids_of_site site d) (db_checks d))"

definition get_monitor_daily_uptime_stats ::
  "timestamp \<Rightarrow> id \<Rightarrow> int \<Rightarrow> db \<Rightarrow> (int \<times> int \<times> int) list" where
  "get_monitor_daily_uptime_stats now monitor days d =
     daily_buckets now days (filter (\<lambda>c. smc_site_monitor_id c = monitor) (db_checks d))"

section \<open>Properties of the check history\<close>

definition checks_wf :: "db \<Rightarrow> bool" where
  "checks_wf d \<longleftrightarrow> distinct (map smc_id (db_checks d))"

lemma expired_checks_mem:
  "c \<in> set (expired_checks cutoff limit d) \<Longrightarrow> c \<in> set (db_checks d) \<and> smc_checked_at c < cutoff"
  using set_limit_rows by (fastforce simp: expired_checks_def)

lemma forget_check_frame [row_frame, simp]:
  "inc_id (forget_check g i) = inc_id i"
  "inc_status (forget_check g i) = inc_status i"
  "inc_site_monitor_id (forget_check g i) = inc_site_monitor_id i"
  "inc_site_id (forget_check g i) = inc_site_id i"
  by (simp_all add: forget_check_def)

lemma forget_check_forgets:
  assumes "c \<in> g"
  shows "Some c \<notin>
    {inc_opened_check_id (forget_check g i), inc_resolved_check_id (forget_check g i),
     inc_last_check_id (forget_check g i)}"
  using assms by (auto simp: forget_check_def option_filter_eq_Some dest!: sym [of "Some c"])

lemma delete_checks_frame [row_frame, simp]:
  "db_monitors (delete_checks g d) = db_monitors d"
  "db_sites (delete_checks g d) = db_sites d"
  "db_channels (delete_checks g d) = db_channels d"
  by (simp_all add: delete_checks_def)

lemma create_site_monitor_check_Inr:
  "create_site_monitor_check now i p d = Inr (c, d') \<longleftrightarrow>
     find_monitor i d \<noteq> None \<and> c = check_row now (db_next_check d) i p \<and>
     d' = d\<lparr>db_checks := db_checks d @ [c], db_next_check := db_next_check d + 1\<rparr>"
  by (auto simp: create_site_monitor_check_def Let_def)

lemma expired_ids_inj:
  assumes "checks_wf d" "c \<in> set (db_checks d)"
  shows "smc_id c \<in> smc_id ` set (expired_checks cutoff limit d) \<longleftrightarrow>
    c \<in> set (expired_checks cutoff limit d)"
  using assms expired_checks_mem distinct_map_eqD [of smc_id "db_checks d" c]
  unfolding checks_wf_def by blast

lemma expired_length:
  assumes "checks_wf d"
  shows "rows_affected (\<lambda>c. smc_id c \<in> smc_id ` set (expired_checks cutoff limit d)) (db_checks d)
    = length (expired_checks cutoff limit d)"
  unfolding rows_affected_def
proof (rule filter_ids_length)
  show "distinct (map smc_id (db_checks d))"
    using assms by (simp add: checks_wf_def)
  then show "distinct (map smc_id (expired_checks cutoff limit d))"
    unfolding expired_checks_def
    by (intro distinct_map_limit distinct_map_order_by distinct_map_filter)
  show "set (expired_checks cutoff limit d) \<subseteq> set (db_checks d)"
    using expired_checks_mem by blast
qed

lemma prune_Inr:
  "prune_checks_older_than lock cutoff limit d = Inr (r, d') \<longleftrightarrow>
     (if \<not> lock then r = None \<and> d' = d
      else 0 \<le> limit \<and>
        (let gone = smc_id ` set (expired_checks cutoff limit d) in
         r = Some (rows_affected (\<lambda>c. smc_id c \<in> gone) (db_checks d)) \<and> d' = delete_checks gone d))"
  by (auto simp: prune_checks_older_than_def Let_def)

lemma expired_length_le: "length (expired_checks cutoff limit d) \<le> nat limit"
  unfolding expired_checks_def by (rule length_limit_rows)

lemma pruned_checks:
  assumes "checks_wf d" and "gone = smc_id ` set (expired_checks cutoff limit d)"
  shows "db_checks (delete_checks gone d) =
      filter (\<lambda>c. c \<notin> set (expired_checks cutoff limit d)) (db_checks d)"
    and "smc_id ` (set (db_checks d) - set (db_checks (delete_checks gone d))) = gone"
proof -
  show k: "db_checks (delete_checks gone d) =
      filter (\<lambda>c. c \<notin> set (expired_checks cutoff limit d)) (db_checks d)"
    using expired_ids_inj [OF assms(1), of _ cutoff limit]
    by (auto simp: delete_checks_def delete_rows_def assms(2) intro!: filter_cong)
  show "smc_id ` (set (db_checks d) - set (db_checks (delete_checks gone d))) = gone"
  proof -
    have "set (db_checks d) - set (db_checks (delete_checks gone d)) = set (expired_checks cutoff limit d)"
      unfolding k using expired_checks_mem by auto
    then show ?thesis
      using assms(2) by simp
  qed
qed

text \<open>The checks a prune could delete, and how many one prune leaves of them.\<close>

definition expired_count :: "timestamp \<Rightarrow> db \<Rightarrow> nat" where
  "expired_count cutoff d = length (filter (\<lambda>c. smc_checked_at c < cutoff) (db_checks d))"

lemma prune_counts:
  assumes "checks_wf d" "prune_checks_older_than True cutoff limit d = Inr (r, d')"
  shows "r = Some (min (nat limit) (expired_count cutoff d))"
    and "cutoff \<le> later \<Longrightarrow>
      expired_count later d' + min (nat limit) (expired_count cutoff d) = expired_count later d"
    and "checks_wf d'"
proof -
  let ?e = "expired_checks cutoff limit d"
  let ?old = "filter (\<lambda>c. smc_checked_at c < later) (db_checks d)"
  have r: "r = Some (length ?e)" and d': "d' = delete_checks (smc_id ` set ?e) d"
    using assms(2) expired_length [OF assms(1)] by (simp_all add: prune_Inr Let_def)
  note kept = pruned_checks(1) [OF assms(1) refl, of cutoff limit]
  have len: "length ?e = min (nat limit) (expired_count cutoff d)"
    by (simp add: expired_checks_def limit_rows_def order_by_def expired_count_def min.commute)
  show "r = Some (min (nat limit) (expired_count cutoff d))"
    using r len by simp
  have "distinct (map smc_id ?old)"
    using assms(1) by (simp add: checks_wf_def distinct_map_filter)
  moreover have "distinct ?e"
    using assms(1) unfolding expired_checks_def checks_wf_def
    by (intro distinct_of_map [of smc_id] distinct_map_limit distinct_map_order_by distinct_map_filter)
  moreover have "set ?e \<subseteq> set ?old" if "cutoff \<le> later"
    using expired_checks_mem [of _ cutoff limit d] that by fastforce
  ultimately have "length (filter (\<lambda>c. c \<in> set ?e) ?old) = length ?e" if "cutoff \<le> later"
    using filter_ids_length [of id ?old ?e] that by (simp add: distinct_of_map)
  moreover have "filter (\<lambda>c. smc_checked_at c < later) (db_checks d') = filter (\<lambda>c. c \<notin> set ?e) ?old"
    by (simp add: d' kept conj_commute)
  ultimately show "expired_count later d' + min (nat limit) (expired_count cutoff d) = expired_count later d"
    if "cutoff \<le> later"
    using sum_length_filter_compl [of "\<lambda>c. c \<in> set ?e" ?old] len that
    unfolding expired_count_def by simp
  show "checks_wf d'"
    using assms(1) by (simp add: checks_wf_def d' kept distinct_map_filter)
qed

text \<open>
  C8: a prune that got the lock deletes at most \<open>limit\<close> checks, only checks older than the cutoff
  and the oldest of those; it reports how many, and when it deletes fewer than \<open>limit\<close> no expired
  check is left. The other checks stay as they were and in order. With a deleted check go its
  deliveries and no other delivery; every incident stays, only its references to deleted checks are
  cleared; no other table changes.
\<close>

theorem prune_deletes_oldest_expired:
  assumes "checks_wf d" "prune_checks_older_than True cutoff limit d = Inr (Some n, d')"
  shows "let gone = smc_id ` (set (db_checks d) - set (db_checks d')) in
    int n \<le> limit \<and> length (db_checks d') + n = length (db_checks d) \<and>
    (\<forall>c \<in> set (db_checks d) - set (db_checks d'). smc_checked_at c < cutoff \<and>
       (\<forall>c' \<in> set (db_checks d'). smc_checked_at c' < cutoff \<longrightarrow>
          (smc_checked_at c, smc_id c) \<le> (smc_checked_at c', smc_id c'))) \<and>
    (int n < limit \<longrightarrow> (\<forall>c \<in> set (db_checks d'). cutoff \<le> smc_checked_at c)) \<and>
    d' = d\<lparr>db_checks := filter (\<lambda>c. smc_id c \<notin> gone) (db_checks d),
           db_deliveries := filter (\<lambda>x. nd_site_monitor_check_id x \<notin> gone) (db_deliveries d),
           db_incidents := map (\<lambda>i. i
             \<lparr>inc_opened_check_id := option_filter (\<lambda>c. c \<notin> gone) (inc_opened_check_id i),
              inc_resolved_check_id := option_filter (\<lambda>c. c \<notin> gone) (inc_resolved_check_id i),
              inc_last_check_id := option_filter (\<lambda>c. c \<notin> gone) (inc_last_check_id i)\<rparr>)
             (db_incidents d)\<rparr>"
proof -
  let ?e = "expired_checks cutoff limit d"
  let ?g = "smc_id ` set ?e"
  let ?k = "\<lambda>c. (smc_checked_at c, smc_id c)"
  let ?old = "filter (\<lambda>c. smc_checked_at c < cutoff) (db_checks d)"
  have lim: "0 \<le> limit" and d': "d' = delete_checks ?g d"
    and n: "n = length ?e"
    using assms(2) expired_length [OF assms(1)] by (simp_all add: prune_Inr Let_def)
  have kept: "db_checks d' = filter (\<lambda>c. c \<notin> set ?e) (db_checks d)"
    and gone: "smc_id ` (set (db_checks d) - set (db_checks d')) = ?g"
    unfolding d' by (rule pruned_checks [OF assms(1) refl])+
  have "int n \<le> limit"
    using n expired_length_le [of cutoff limit d] lim by simp
  moreover have "length (db_checks d') + n = length (db_checks d)"
    using sum_length_filter_compl [of "\<lambda>c. smc_id c \<in> ?g" "db_checks d"] expired_length [OF assms(1), of cutoff limit]
    by (simp add: n d' delete_checks_def delete_rows_def rows_affected_def)
  moreover have "smc_checked_at c < cutoff \<and>
       (\<forall>c' \<in> set (db_checks d'). smc_checked_at c' < cutoff \<longrightarrow> ?k c \<le> ?k c')"
    if "c \<in> set (db_checks d) - set (db_checks d')" for c
  proof (intro conjI ballI impI)
    have c: "c \<in> set ?e"
      using that kept by simp
    then show "smc_checked_at c < cutoff"
      using expired_checks_mem by blast
    fix c'
    assume "c' \<in> set (db_checks d')" "smc_checked_at c' < cutoff"
    then have "c' \<in> set ?old" "c' \<notin> set ?e"
      using kept by simp_all
    with c show "?k c \<le> ?k c'"
      unfolding expired_checks_def by (rule limit_rows_order)
  qed
  moreover have "\<forall>c \<in> set (db_checks d'). cutoff \<le> smc_checked_at c" if "int n < limit"
  proof -
    have "set ?e = set ?old"
      unfolding expired_checks_def
      by (intro limit_rows_all) (use n that in \<open>simp add: expired_checks_def zless_nat_eq_int_zless\<close>)
    then show ?thesis
      using kept by fastforce
  qed
  moreover have "d' = d\<lparr>db_checks := filter (\<lambda>c. smc_id c \<notin> ?g) (db_checks d),
           db_deliveries := filter (\<lambda>x. nd_site_monitor_check_id x \<notin> ?g) (db_deliveries d),
           db_incidents := map (forget_check ?g) (db_incidents d)\<rparr>"
    by (simp add: d' delete_checks_def delete_rows_def)
  ultimately show ?thesis
    unfolding Let_def gone forget_check_def [abs_def] by (intro conjI ballI impI) blast+
qed

text \<open>Three checks, of which the two oldest are before the cutoff.\<close>

definition sample_check :: "id \<Rightarrow> timestamp \<Rightarrow> site_monitor_check" where
  "sample_check i t =
     \<lparr>smc_id = i, smc_site_monitor_id = 1, smc_checked_at = t, smc_monitor_type = Http,
      smc_url_checked = ''u'', smc_expected_status_code = None, smc_is_success = True,
      smc_status_code = None, smc_response_time_ms = None, smc_total_duration_ms = None,
      smc_attempt_count = 1, smc_was_retried = False, smc_failure_reason = None,
      smc_error_message = None, smc_certificate_expires_at = None,
      smc_certificate_days_remaining = None, smc_certificate_issuer = None,
      smc_certificate_subject = None, smc_certificate_domain = None\<rparr>"

definition sample_check_incident :: site_monitor_incident where
  "sample_check_incident =
     \<lparr>inc_id = 1, inc_site_id = 1, inc_site_monitor_id = 1, inc_status = StatusOpen,
      inc_opened_at = 10, inc_resolved_at = None, inc_opened_check_id = Some 1,
      inc_resolved_check_id = None, inc_last_check_id = Some 3, inc_monitor_type = Http,
      inc_target_url = ''u'', inc_expected_status_code = 200, inc_opened_status_code = None,
      inc_opened_failure_reason = None, inc_opened_error_message = None, inc_failure_count = 3,
      inc_last_checked_at = 30, inc_last_status_code = None, inc_last_failure_reason = None,
      inc_last_error_message = None, inc_resolved_reason = None, inc_resolved_status_code = None,
      inc_resolved_response_time_ms = None, inc_downtime_seconds = None,
      inc_acknowledged_at = None, inc_acknowledged_by = None, inc_created_at = 10,
      inc_updated_at = 30\<rparr>"

definition sample_checks_db :: db where
  "sample_checks_db = empty_db
     \<lparr>db_checks := [sample_check 1 10, sample_check 2 20, sample_check 3 30],
      db_incidents := [sample_check_incident]\<rparr>"

theorem prune_deletes_oldest_expired_witness:
  "\<exists>d'. prune_checks_older_than True 25 1 sample_checks_db = Inr (Some 1, d') \<and>
     length (db_checks d') + 1 = length (db_checks sample_checks_db) \<and>
     map smc_id (db_checks d') = [2, 3] \<and> map inc_opened_check_id (db_incidents d') = [None]"
proof -
  have wf: "checks_wf sample_checks_db"
    by (simp add: checks_wf_def sample_checks_db_def sample_check_def)
  obtain d' where d': "prune_checks_older_than True 25 1 sample_checks_db = Inr (Some 1, d')"
    and rest: "map smc_id (db_checks d') = [2, 3]" "map inc_opened_check_id (db_incidents d') = [None]"
    by (simp add: prune_checks_older_than_def Let_def expired_checks_def sample_checks_db_def
        sample_check_def order_by_def limit_rows_def rows_affected_def delete_checks_def
        delete_rows_def forget_check_def sample_check_incident_def)
  have "length (db_checks d') + 1 = length (db_checks sample_checks_db)"
    using prune_deletes_oldest_expired [OF wf d'] by (simp add: Let_def)
  with d' rest show ?thesis by (intro exI conjI)
qed

end
