(* ===== verification/Monitor_Repository.thy ===== *)
theory Monitor_Repository
  imports Domain_Model Lease_Table
begin

text \<open>
  The statements of \<^verbatim>\<open>src/domain/site_monitors/repository.rs\<close> that schedule checks: the claim of due
  monitors under a lease, the lease's extension and release, the time of the next claimable check
  and the write-back of a finished check. \<^verbatim>\<open>NOW()\<close> is the argument \<open>now\<close>; \<open>locked\<close> holds the
  monitors whose rows another session has locked, which \<^verbatim>\<open>SKIP LOCKED\<close> passes over.
\<close>

section \<open>Column defaults\<close>

text \<open>A row as \<^verbatim>\<open>INSERT\<close> makes it when only the key columns are given.\<close>

definition monitor_defaults ::
  "timestamp \<Rightarrow> id \<Rightarrow> id \<Rightarrow> site_monitor_type \<Rightarrow> string \<Rightarrow> site_monitor" where
  "monitor_defaults now i site t url =
     \<lparr>sm_id = i, sm_site_id = site, sm_monitor_type = t, sm_target_url = url,
      sm_check_interval_seconds = 300, sm_expected_status_code = 200, sm_body_must_contain = None,
      sm_body_must_not_contain = None, sm_body_must_contain_texts = None,
      sm_body_must_not_contain_texts = None, sm_json_path_exists = None,
      sm_json_path_equals = None, sm_json_path_not_equals = None, sm_max_response_time_ms = None,
      sm_required_header_name = None, sm_required_header_value = None,
      sm_header_assertions = None, sm_ssl_certificate_checks_enabled = False,
      sm_ssl_expiry_warning_days = None, sm_tcp_target_host = None, sm_tcp_target_port = None,
      sm_dns_hostname = None, sm_dns_record_type = None, sm_dns_expected_value = None,
      sm_dns_nameserver = None, sm_heartbeat_token = None, sm_heartbeat_grace_seconds = None,
      sm_http_check_timeout_seconds_override = None, sm_http_check_max_attempts_override = None,
      sm_http_check_retry_delays_ms_override = None, sm_is_active = True,
      sm_check_claimed_at = None, sm_check_lease_until = None, sm_check_claimed_by = None,
      sm_last_checked_at = None, sm_last_successful_check_at = None, sm_last_is_success = None,
      sm_last_status_code = None, sm_last_response_time_ms = None, sm_last_failure_reason = None,
      sm_last_error_message = None, sm_last_heartbeat_received_at = None,
      sm_last_certificate_expires_at = None, sm_last_certificate_days_remaining = None,
      sm_last_certificate_issuer = None, sm_last_certificate_subject = None,
      sm_last_certificate_domain = None, sm_created_at = now, sm_updated_at = now\<rparr>"

section \<open>Claiming\<close>

definition site_active :: "id \<Rightarrow> db \<Rightarrow> bool" where
  "site_active i d = (\<exists>s \<in> set (db_sites d). s_id s = i \<and> s_is_active s)"

definition interval_micros :: "site_monitor \<Rightarrow> int" where
  "interval_micros m = sm_check_interval_seconds m * 1000000"

definition check_is_due :: "timestamp \<Rightarrow> site_monitor \<Rightarrow> bool" where
  "check_is_due now m =
     (case sm_last_checked_at m of
        None \<Rightarrow> True
      | Some t \<Rightarrow> t \<le> now - interval_micros m)"

definition check_lease_free :: "timestamp \<Rightarrow> site_monitor \<Rightarrow> bool" where
  "check_lease_free now m = lease_free now (sm_check_lease_until m)"

definition claimable :: "timestamp \<Rightarrow> db \<Rightarrow> site_monitor \<Rightarrow> bool" where
  "claimable now d m \<longleftrightarrow>
     sm_is_active m \<and> site_active (sm_site_id m) d \<and> check_is_due now m \<and> check_lease_free now m"

definition due_monitors :: "timestamp \<Rightarrow> id set \<Rightarrow> int \<Rightarrow> db \<Rightarrow> site_monitor list" where
  "due_monitors now locked limit d =
     limit_rows limit
       (order_by (\<lambda>m. (sm_last_checked_at m, sm_id m))
          (filter (\<lambda>m. claimable now d m \<and> sm_id m \<notin> locked) (db_monitors d)))"

definition claim_row :: "timestamp \<Rightarrow> string \<Rightarrow> int \<Rightarrow> site_monitor \<Rightarrow> site_monitor" where
  "claim_row now worker_id lease_seconds m =
     m\<lparr>sm_check_claimed_at := Some now,
       sm_check_lease_until := Some (add_seconds now lease_seconds),
       sm_check_claimed_by := Some worker_id,
       sm_updated_at := now\<rparr>"

definition claim_site_monitors_due_for_check ::
  "timestamp \<Rightarrow> id set \<Rightarrow> string \<Rightarrow> int \<Rightarrow> int \<Rightarrow> (db, site_monitor list) stmt" where
  "claim_site_monitors_due_for_check now locked worker_id limit lease_seconds d =
     (if limit < 0 then Inl NegativeLimit
      else
        let due = map sm_id (due_monitors now locked limit d);
            p = (\<lambda>m. sm_id m \<in> set due);
            f = claim_row now worker_id lease_seconds
        in Inr (returning_rows p f (db_monitors d),
                d\<lparr>db_monitors := update_rows p f (db_monitors d)\<rparr>))"

text \<open>The earliest instant at which some monitor can be claimed, never before \<open>NOW()\<close>.\<close>

definition monitor_claimable_at :: "timestamp \<Rightarrow> site_monitor \<Rightarrow> timestamp" where
  "monitor_claimable_at now m =
     max
       (max (case sm_last_checked_at m of None \<Rightarrow> now | Some t \<Rightarrow> t + interval_micros m) now)
       (case sm_check_lease_until m of
          None \<Rightarrow> now
        | Some l \<Rightarrow> if now < l then l else now)"

definition next_claimable_check_at :: "timestamp \<Rightarrow> db \<Rightarrow> timestamp option" where
  "next_claimable_check_at now d =
     list_min (map (monitor_claimable_at now)
       (filter (\<lambda>m. sm_is_active m \<and> site_active (sm_site_id m) d) (db_monitors d)))"

section \<open>Working under a claim\<close>

definition owns_claim :: "id \<Rightarrow> string \<Rightarrow> site_monitor \<Rightarrow> bool" where
  "owns_claim i worker m \<longleftrightarrow> sm_id m = i \<and> sm_check_claimed_by m = Some worker"

definition update_claimed ::
  "id \<Rightarrow> string \<Rightarrow> (site_monitor \<Rightarrow> site_monitor) \<Rightarrow> (db, bool) stmt" where
  "update_claimed i worker f d =
     Inr (rows_affected (owns_claim i worker) (db_monitors d) = 1,
          d\<lparr>db_monitors := update_rows (owns_claim i worker) f (db_monitors d)\<rparr>)"

definition last_check_row :: "timestamp \<Rightarrow> monitor_last_check_params \<Rightarrow> site_monitor \<Rightarrow> site_monitor" where
  "last_check_row now p m =
     m\<lparr>sm_last_checked_at := Some now,
       sm_last_successful_check_at :=
         (if mlc_is_success p then Some now else sm_last_successful_check_at m),
       sm_last_is_success := Some (mlc_is_success p),
       sm_last_status_code := mlc_status_code p,
       sm_last_response_time_ms := mlc_response_time_ms p,
       sm_last_failure_reason := mlc_failure_reason p,
       sm_last_error_message := mlc_error_message p,
       sm_last_certificate_expires_at := mlc_certificate_expires_at p,
       sm_last_certificate_days_remaining := mlc_certificate_days_remaining p,
       sm_last_certificate_issuer := mlc_certificate_issuer p,
       sm_last_certificate_subject := mlc_certificate_subject p,
       sm_last_certificate_domain := mlc_certificate_domain p,
       sm_check_claimed_at := None,
       sm_check_lease_until := None,
       sm_check_claimed_by := None,
       sm_updated_at := now\<rparr>"

definition update_site_monitor_last_check ::
  "timestamp \<Rightarrow> id \<Rightarrow> string \<Rightarrow> monitor_last_check_params \<Rightarrow> (db, bool) stmt" where
  "update_site_monitor_last_check now i claimed_by p =
     update_claimed i claimed_by (last_check_row now p)"

definition release_row :: "timestamp \<Rightarrow> site_monitor \<Rightarrow> site_monitor" where
  "release_row now m =
     m\<lparr>sm_check_claimed_at := None, sm_check_lease_until := None, sm_check_claimed_by := None,
       sm_updated_at := now\<rparr>"

definition release_site_monitor_claim :: "timestamp \<Rightarrow> id \<Rightarrow> string \<Rightarrow> (db, bool) stmt" where
  "release_site_monitor_claim now i claimed_by = update_claimed i claimed_by (release_row now)"

definition extend_row :: "timestamp \<Rightarrow> int \<Rightarrow> site_monitor \<Rightarrow> site_monitor" where
  "extend_row now lease_seconds m =
     m\<lparr>sm_check_lease_until := Some (add_seconds now lease_seconds), sm_updated_at := now\<rparr>"

definition extend_site_monitor_claim ::
  "timestamp \<Rightarrow> id \<Rightarrow> string \<Rightarrow> int \<Rightarrow> (db, bool) stmt" where
  "extend_site_monitor_claim now i claimed_by lease_seconds =
     update_claimed i claimed_by (extend_row now lease_seconds)"

section \<open>Frame conditions\<close>

text \<open>What the four row operations keep of a row.\<close>

lemma claim_row_frame [row_frame, simp]:
  "sm_id (claim_row now w s m) = sm_id m"
  "sm_site_id (claim_row now w s m) = sm_site_id m"
  "sm_is_active (claim_row now w s m) = sm_is_active m"
  "sm_last_is_success (claim_row now w s m) = sm_last_is_success m"
  "sm_last_checked_at (claim_row now w s m) = sm_last_checked_at m"
  "sm_check_claimed_by (claim_row now w s m) = Some w"
  "sm_check_lease_until (claim_row now w s m) = Some (add_seconds now s)"
  "sm_check_interval_seconds (claim_row now w s m) = sm_check_interval_seconds m"
  by (simp_all add: claim_row_def)

lemma last_check_row_frame [row_frame, simp]:
  "sm_id (last_check_row now p m) = sm_id m"
  "sm_site_id (last_check_row now p m) = sm_site_id m"
  "sm_is_active (last_check_row now p m) = sm_is_active m"
  "sm_last_is_success (last_check_row now p m) = Some (mlc_is_success p)"
  "sm_last_checked_at (last_check_row now p m) = Some now"
  "sm_check_claimed_by (last_check_row now p m) = None"
  "sm_check_lease_until (last_check_row now p m) = None"
  "sm_check_interval_seconds (last_check_row now p m) = sm_check_interval_seconds m"
  by (simp_all add: last_check_row_def)

lemma release_row_frame [row_frame, simp]:
  "sm_id (release_row now m) = sm_id m"
  "sm_site_id (release_row now m) = sm_site_id m"
  "sm_is_active (release_row now m) = sm_is_active m"
  "sm_last_is_success (release_row now m) = sm_last_is_success m"
  "sm_last_checked_at (release_row now m) = sm_last_checked_at m"
  "sm_check_claimed_by (release_row now m) = None"
  "sm_check_lease_until (release_row now m) = None"
  by (simp_all add: release_row_def)

lemma extend_row_frame [row_frame, simp]:
  "sm_id (extend_row now s m) = sm_id m"
  "sm_site_id (extend_row now s m) = sm_site_id m"
  "sm_is_active (extend_row now s m) = sm_is_active m"
  "sm_last_is_success (extend_row now s m) = sm_last_is_success m"
  "sm_last_checked_at (extend_row now s m) = sm_last_checked_at m"
  "sm_check_claimed_by (extend_row now s m) = sm_check_claimed_by m"
  "sm_check_lease_until (extend_row now s m) = Some (add_seconds now s)"
  by (simp_all add: extend_row_def)

interpretation monitor_lease: lease_table sm_id sm_check_claimed_by sm_check_lease_until
  claim_row extend_row last_check_row
  by unfold_locales simp_all

interpretation monitor_release: lease_table sm_id sm_check_claimed_by sm_check_lease_until
  claim_row extend_row "\<lambda>now _ :: unit. release_row now"
  by unfold_locales simp_all

lemma owns_claim_owned: "owns_claim = monitor_lease.owned"
  by (intro ext) (simp add: owns_claim_def monitor_lease.owned_def)

section \<open>What a claim returns\<close>

definition monitors_wf :: "db \<Rightarrow> bool" where
  "monitors_wf d \<longleftrightarrow> distinct (map sm_id (db_monitors d))"

lemma due_monitors_mem:
  "m \<in> set (due_monitors now locked limit d) \<Longrightarrow>
   m \<in> set (db_monitors d) \<and> claimable now d m \<and> sm_id m \<notin> locked"
  using set_limit_rows by (fastforce simp: due_monitors_def)

lemma due_monitors_ids_distinct:
  "monitors_wf d \<Longrightarrow> distinct (map sm_id (due_monitors now locked limit d))"
  unfolding due_monitors_def monitors_wf_def
  by (intro distinct_map_limit distinct_map_order_by distinct_map_filter)

lemma due_monitors_length: "length (due_monitors now locked limit d) \<le> nat limit"
  unfolding due_monitors_def by (rule length_limit_rows)

lemma claim_Inr_iff:
  "claim_site_monitors_due_for_check now locked w limit s d = Inr (rs, d') \<longleftrightarrow>
     0 \<le> limit \<and>
     (let p = (\<lambda>m. sm_id m \<in> sm_id ` set (due_monitors now locked limit d)) in
      rs = returning_rows p (claim_row now w s) (db_monitors d) \<and>
      d' = d\<lparr>db_monitors := update_rows p (claim_row now w s) (db_monitors d)\<rparr>)"
  by (auto simp: claim_site_monitors_due_for_check_def Let_def)

lemma claim_returns_set:
  assumes "monitors_wf d"
    "claim_site_monitors_due_for_check now locked w limit s d = Inr (rs, d')"
  shows "set rs = claim_row now w s ` set (due_monitors now locked limit d)"
    and "length rs = length (due_monitors now locked limit d)"
    and "distinct (map sm_id rs)"
proof -
  let ?due = "due_monitors now locked limit d"
  have sub: "set ?due \<subseteq> set (db_monitors d)"
    using due_monitors_mem by blast
  have rs: "rs = map (claim_row now w s)
      (filter (\<lambda>m. sm_id m \<in> sm_id ` set ?due) (db_monitors d))"
    using assms(2) by (simp add: claim_Inr_iff returning_rows_def Let_def)
  show "set rs = claim_row now w s ` set ?due"
    using filter_ids_set [OF assms(1) [unfolded monitors_wf_def] sub] by (simp add: rs)
  show "length rs = length ?due"
    using filter_ids_length [OF assms(1) [unfolded monitors_wf_def] sub
        due_monitors_ids_distinct [OF assms(1)]]
    by (simp add: rs)
  show "distinct (map sm_id rs)"
    using assms(1) by (simp add: rs monitors_wf_def comp_def distinct_map_filter)
qed

lemma due_monitors_exhaustive:
  assumes "m0 \<in> set (db_monitors d)" "claimable now d m0" "sm_id m0 \<notin> locked"
    "m0 \<notin> set (due_monitors now locked limit d)"
  shows "length (due_monitors now locked limit d) = nat limit"
    and "m \<in> set (due_monitors now locked limit d) \<Longrightarrow>
      (sm_last_checked_at m, sm_id m) \<le> (sm_last_checked_at m0, sm_id m0)"
proof -
  let ?t = "filter (\<lambda>m. claimable now d m \<and> sm_id m \<notin> locked) (db_monitors d)"
  let ?k = "\<lambda>m. (sm_last_checked_at m, sm_id m)"
  have mem: "m0 \<in> set ?t"
    using assms by simp
  have "\<not> length (limit_rows limit (order_by ?k ?t)) < nat limit"
    using limit_rows_all [of limit ?k ?t] mem assms(4) unfolding due_monitors_def by blast
  then show "length (due_monitors now locked limit d) = nat limit"
    using due_monitors_length [of now locked limit d] unfolding due_monitors_def by simp
  show "m \<in> set (due_monitors now locked limit d) \<Longrightarrow> ?k m \<le> ?k m0"
    using limit_rows_order [of m limit ?k ?t m0] mem assms(4) unfolding due_monitors_def by blast
qed

lemma claimable_bounds:
  "claimable now' d m \<Longrightarrow> now \<le> now' \<Longrightarrow> monitor_claimable_at now m \<le> now'"
  by (auto simp: claimable_def check_is_due_def check_lease_free_def lease_free_def
      monitor_claimable_at_def split: option.splits)

lemma claimable_after:
  assumes "monitor_claimable_at now m < now'" "sm_is_active m" "site_active (sm_site_id m) d"
  shows "claimable now' d m"
  using assms
  by (auto simp: claimable_def check_is_due_def check_lease_free_def lease_free_def
      monitor_claimable_at_def split: option.splits if_splits)

lemma due_monitors_empty:
  "\<forall>m \<in> set (db_monitors d). \<not> claimable now d m \<Longrightarrow> due_monitors now locked limit d = []"
  by (simp add: due_monitors_def limit_rows_def order_by_def filter_empty_conv)

lemma claim_empty:
  assumes "\<forall>m \<in> set (db_monitors d). \<not> claimable now d m" "0 \<le> limit"
  shows "claim_site_monitors_due_for_check now locked w limit s d = Inr ([], d)"
  using due_monitors_empty [OF assms(1), of locked limit] assms(2)
  by (simp add: claim_Inr_iff Let_def returning_rows_def update_rows_none)

section \<open>Properties of the check queue\<close>

text \<open>A small database the witnesses evaluate: one active site with two monitors.\<close>

definition sample_site :: site where
  "sample_site =
     \<lparr>s_id = 1, s_name = ''site'', s_base_url = ''https://a.test'', s_is_active = True,
      s_created_at = 0, s_updated_at = 0\<rparr>"

definition sample_db :: db where
  "sample_db = empty_db
     \<lparr>db_sites := [sample_site],
      db_monitors :=
        [monitor_defaults 0 1 1 Http ''https://a.test/1'',
         (monitor_defaults 0 2 1 Http ''https://a.test/2'')
           \<lparr>sm_last_checked_at := Some 1000000, sm_last_is_success := Some True\<rparr>],
      db_next_site := 2, db_next_monitor := 3\<rparr>"

lemma sample_db_wf: "monitors_wf sample_db"
  by (simp add: sample_db_def monitors_wf_def monitor_defaults_def)



text \<open>
  \<open>next_claimable_check_at\<close> never makes a worker sleep past due work: a claim at any time
  from \<open>now\<close> up to the instant it returns (or at any time at all when it returns nothing) finds no
  monitor and changes nothing.
\<close>

lemma no_check_is_due_before_wakeup:
  assumes "now \<le> now'" "0 \<le> limit"
    and "next_claimable_check_at now d = None \<or>
      (\<exists>t. next_claimable_check_at now d = Some t \<and> now' < t)"
  shows "claim_site_monitors_due_for_check now' locked w limit s d = Inr ([], d)"
proof (rule claim_empty [OF _ assms(2)], rule ballI, rule notI)
  fix m
  assume m: "m \<in> set (db_monitors d)" "claimable now' d m"
  then have "monitor_claimable_at now m \<in> set (map (monitor_claimable_at now)
      (filter (\<lambda>m. sm_is_active m \<and> site_active (sm_site_id m) d) (db_monitors d)))"
    by (simp add: claimable_def)
  then have "next_claimable_check_at now d \<noteq> None"
    "next_claimable_check_at now d = Some t \<Longrightarrow> t \<le> monitor_claimable_at now m" for t
    unfolding next_claimable_check_at_def list_min_Some list_min_None
    by (metis empty_iff list.set(1), blast)
  with claimable_bounds [OF m(2) assms(1)] assms(3) show False
    by fastforce
qed

text \<open>
  C2: conversely the instant is not too early for ever: at any time after it, with the database
  unchanged, a claim by any worker that has no row locked against it returns a monitor.
\<close>

theorem check_is_claimable_after_wakeup:
  assumes "monitors_wf d" "next_claimable_check_at now d = Some t" "t < now'" "0 < limit"
  shows "now \<le> t \<and>
    (\<exists>rs d'. claim_site_monitors_due_for_check now' {} w limit s d = Inr (rs, d') \<and> rs \<noteq> [])"
proof -
  obtain m where m: "m \<in> set (db_monitors d)" "sm_is_active m" "site_active (sm_site_id m) d"
    "t = monitor_claimable_at now m"
    using assms(2) unfolding next_claimable_check_at_def list_min_Some by auto
  have cl: "claimable now' d m"
    using claimable_after [of now m now' d] m assms(3) by simp
  obtain rs d' where c: "claim_site_monitors_due_for_check now' {} w limit s d = Inr (rs, d')"
    using assms(4) by (simp add: claim_site_monitors_due_for_check_def Let_def)
  have "rs \<noteq> []"
    using due_monitors_exhaustive(1) [OF m(1) cl, of "{}" limit] assms(4)
      claim_returns_set(1,2) [OF assms(1) c]
    by (cases "m \<in> set (due_monitors now' {} limit d)") auto
  with c m(4) show ?thesis
    by (auto simp: monitor_claimable_at_def)
qed

theorem check_is_claimable_after_wakeup_witness:
  "\<exists>rs d'. claim_site_monitors_due_for_check 6 {} ''w1'' 5 30 sample_db = Inr (rs, d') \<and> rs \<noteq> []"
proof -
  have "next_claimable_check_at 5 sample_db = Some 5"
    by (simp add: next_claimable_check_at_def sample_db_def sample_site_def monitor_defaults_def
        site_active_def monitor_claimable_at_def interval_micros_def list_min_def)
  then show ?thesis
    using check_is_claimable_after_wakeup [OF sample_db_wf, of 5 5 6 5 "''w1''" 30] by simp
qed

end
