(* ===== verification/Incident_Repository.thy ===== *)
theory Incident_Repository
  imports Monitor_Repository Check_Repository
begin

text \<open>
  \<^verbatim>\<open>src/domain/site_monitor_incidents/repository.rs\<close>: opening, updating, resolving and acknowledging
  incidents, and the list queries. The partial unique index (one open incident per monitor), the
  foreign keys and the \<^verbatim>\<open>INTEGER\<close> columns computed by the statements can make a statement fail.
\<close>

section \<open>Statements\<close>

definition is_open :: "site_monitor_incident \<Rightarrow> bool" where
  "is_open i = (inc_status i = StatusOpen)"

definition open_incidents_of :: "id \<Rightarrow> db \<Rightarrow> site_monitor_incident list" where
  "open_incidents_of monitor d =
     filter (\<lambda>i. inc_site_monitor_id i = monitor \<and> is_open i) (db_incidents d)"

definition incident_row :: "timestamp \<Rightarrow> id \<Rightarrow> id \<Rightarrow> open_incident_params \<Rightarrow> site_monitor_incident" where
  "incident_row now i site p =
     \<lparr>inc_id = i, inc_site_id = site, inc_site_monitor_id = oip_site_monitor_id p,
      inc_status = StatusOpen, inc_opened_at = oip_checked_at p, inc_resolved_at = None,
      inc_opened_check_id = Some (oip_check_id p), inc_resolved_check_id = None,
      inc_last_check_id = Some (oip_check_id p), inc_monitor_type = oip_monitor_type p,
      inc_target_url = oip_target_url p, inc_expected_status_code = oip_expected_status_code p,
      inc_opened_status_code = oip_status_code p, inc_opened_failure_reason = oip_failure_reason p,
      inc_opened_error_message = oip_error_message p, inc_failure_count = 1,
      inc_last_checked_at = oip_checked_at p, inc_last_status_code = oip_status_code p,
      inc_last_failure_reason = oip_failure_reason p, inc_last_error_message = oip_error_message p,
      inc_resolved_reason = None, inc_resolved_status_code = None,
      inc_resolved_response_time_ms = None, inc_downtime_seconds = None,
      inc_acknowledged_at = None, inc_acknowledged_by = None, inc_created_at = now,
      inc_updated_at = now\<rparr>"

definition open_incident ::
  "timestamp \<Rightarrow> id \<Rightarrow> open_incident_params \<Rightarrow> (db, site_monitor_incident) stmt" where
  "open_incident now site p d =
     (if find_site site d = None \<or> find_monitor (oip_site_monitor_id p) d = None \<or>
         find (\<lambda>c. smc_id c = oip_check_id p) (db_checks d) = None
      then Inl (ForeignKeyViolation ''site_monitor_incidents'')
      else if open_incidents_of (oip_site_monitor_id p) d \<noteq> []
      then Inl (UniqueViolation ''uq_site_monitor_incidents_one_open_per_monitor'')
      else
        let i = incident_row now (db_next_incident d) site p
        in Inr (i, d\<lparr>db_incidents := db_incidents d @ [i],
                     db_next_incident := db_next_incident d + 1\<rparr>))"

definition get_open_incident_for_monitor :: "id \<Rightarrow> db \<Rightarrow> site_monitor_incident option" where
  "get_open_incident_for_monitor monitor d = fetch_optional (limit_rows 1 (open_incidents_of monitor d))"

definition update_incidents ::
  "(site_monitor_incident \<Rightarrow> bool) \<Rightarrow> (site_monitor_incident \<Rightarrow> db_error + site_monitor_incident) \<Rightarrow>
   (db, nat) stmt" where
  "update_incidents p f d =
     (case try_update_rows p f (db_incidents d) of
        Inl e \<Rightarrow> Inl e
      | Inr t \<Rightarrow> Inr (rows_affected p (db_incidents d), d\<lparr>db_incidents := t\<rparr>))"

definition failure_row ::
  "timestamp \<Rightarrow> incident_failure_params \<Rightarrow> site_monitor_incident \<Rightarrow> db_error + site_monitor_incident" where
  "failure_row now p i =
     and_then (pg_int4 (inc_failure_count i + 1)) (\<lambda>n.
     Inr (i\<lparr>inc_failure_count := n,
            inc_last_check_id := Some (ifp_check_id p),
            inc_last_checked_at := ifp_checked_at p,
            inc_last_status_code := ifp_status_code p,
            inc_last_failure_reason := ifp_failure_reason p,
            inc_last_error_message := ifp_error_message p,
            inc_updated_at := now\<rparr>))"

definition update_incident_failure ::
  "timestamp \<Rightarrow> id \<Rightarrow> incident_failure_params \<Rightarrow> (db, bool) stmt" where
  "update_incident_failure now incident p =
     stmt_bind (update_incidents (\<lambda>i. inc_id i = incident \<and> is_open i) (failure_row now p))
       (\<lambda>n. stmt_return (n = 1))"

definition recovered_row ::
  "timestamp \<Rightarrow> resolve_incident_params \<Rightarrow> site_monitor_incident \<Rightarrow> db_error + site_monitor_incident" where
  "recovered_row now p i =
     and_then (pg_int4 (epoch_seconds (rip_checked_at p - inc_opened_at i))) (\<lambda>s.
     Inr (i\<lparr>inc_status := StatusResolved,
            inc_resolved_at := Some (rip_checked_at p),
            inc_resolved_check_id := Some (rip_check_id p),
            inc_last_check_id := Some (rip_check_id p),
            inc_last_checked_at := rip_checked_at p,
            inc_last_status_code := rip_status_code p,
            inc_last_failure_reason := None,
            inc_last_error_message := None,
            inc_resolved_reason := Some Recovered,
            inc_resolved_status_code := rip_status_code p,
            inc_resolved_response_time_ms := rip_response_time_ms p,
            inc_downtime_seconds := Some s,
            inc_updated_at := now\<rparr>))"

definition resolve_incident ::
  "timestamp \<Rightarrow> id \<Rightarrow> resolve_incident_params \<Rightarrow> (db, bool) stmt" where
  "resolve_incident now incident p =
     stmt_bind (update_incidents (\<lambda>i. inc_id i = incident \<and> is_open i) (recovered_row now p))
       (\<lambda>n. stmt_return (n = 1))"

text \<open>Both bulk resolutions write the same columns.\<close>

definition closed_row ::
  "timestamp \<Rightarrow> incident_resolved_reason \<Rightarrow> site_monitor_incident \<Rightarrow> db_error + site_monitor_incident" where
  "closed_row now reason i =
     and_then (pg_int4 (epoch_seconds (now - inc_opened_at i))) (\<lambda>s.
     Inr (i\<lparr>inc_status := StatusResolved,
            inc_resolved_at := Some now,
            inc_last_checked_at := now,
            inc_resolved_reason := Some reason,
            inc_downtime_seconds := Some s,
            inc_updated_at := now\<rparr>))"

definition resolve_open_incidents_for_monitor ::
  "timestamp \<Rightarrow> id \<Rightarrow> incident_resolved_reason \<Rightarrow> (db, nat) stmt" where
  "resolve_open_incidents_for_monitor now monitor reason =
     update_incidents (\<lambda>i. inc_site_monitor_id i = monitor \<and> is_open i) (closed_row now reason)"

definition resolve_open_incidents_for_site ::
  "timestamp \<Rightarrow> id \<Rightarrow> incident_resolved_reason \<Rightarrow> (db, nat) stmt" where
  "resolve_open_incidents_for_site now site reason =
     update_incidents (\<lambda>i. inc_site_id i = site \<and> is_open i) (closed_row now reason)"

definition acknowledge_row :: "timestamp \<Rightarrow> id \<Rightarrow> site_monitor_incident \<Rightarrow> site_monitor_incident" where
  "acknowledge_row now admin i =
     i\<lparr>inc_acknowledged_at := Some now, inc_acknowledged_by := Some admin, inc_updated_at := now\<rparr>"

definition acknowledge_incident ::
  "timestamp \<Rightarrow> id \<Rightarrow> id \<Rightarrow> id \<Rightarrow> (db, site_monitor_incident option) stmt" where
  "acknowledge_incident now incident site admin d =
     (let p = (\<lambda>i. inc_id i = incident \<and> inc_site_id i = site);
          f = acknowledge_row now admin
      in Inr (fetch_optional (returning_rows p f (db_incidents d)),
              d\<lparr>db_incidents := update_rows p f (db_incidents d)\<rparr>))"

section \<open>Queries\<close>

definition incident_matches :: "id \<Rightarrow> incident_status option \<Rightarrow> site_monitor_incident \<Rightarrow> bool" where
  "incident_matches site st i \<longleftrightarrow> inc_site_id i = site \<and> (st = None \<or> st = Some (inc_status i))"

definition list_incidents_by_site_id ::
  "id \<Rightarrow> incident_cursor_query \<Rightarrow> db \<Rightarrow> site_monitor_incident list" where
  "list_incidents_by_site_id site q d =
     limit_rows (icq_limit q)
       (order_by_desc (\<lambda>i. (inc_opened_at i, inc_id i))
          (filter (\<lambda>i. incident_matches site (icq_status q) i \<and>
                       before_cursor (icq_cursor_opened_at q) (icq_cursor_id q)
                         (inc_opened_at i) (inc_id i))
             (db_incidents d)))"

definition has_open_incident_for_site :: "id \<Rightarrow> db \<Rightarrow> bool" where
  "has_open_incident_for_site site d = (\<exists>i \<in> set (db_incidents d). inc_site_id i = site \<and> is_open i)"

definition get_site_ids_with_open_incidents :: "db \<Rightarrow> id list" where
  "get_site_ids_with_open_incidents d = remdups (map inc_site_id (filter is_open (db_incidents d)))"

definition count_open_incidents :: "db \<Rightarrow> int" where
  "count_open_incidents d = int (length (filter is_open (db_incidents d)))"

text \<open>The global list joins each incident with its site.\<close>

definition list_global_incidents ::
  "timestamp option \<Rightarrow> id option \<Rightarrow> incident_status option \<Rightarrow> int \<Rightarrow> db \<Rightarrow>
   (site_monitor_incident \<times> site) list" where
  "list_global_incidents ct ci st limit d =
     limit_rows limit
       (order_by_desc (\<lambda>(i, _). (inc_opened_at i, inc_id i))
          (List.map_filter
             (\<lambda>i. if before_cursor ct ci (inc_opened_at i) (inc_id i) \<and>
                     (st = None \<or> st = Some (inc_status i))
                  then map_option (Pair i) (find_site (inc_site_id i) d) else None)
             (db_incidents d)))"

definition get_incident_by_id_and_site_id :: "id \<Rightarrow> id \<Rightarrow> db \<Rightarrow> site_monitor_incident option" where
  "get_incident_by_id_and_site_id incident site d =
     fetch_optional (filter (\<lambda>i. inc_id i = incident \<and> inc_site_id i = site) (db_incidents d))"

section \<open>The invariant of the incident table\<close>

text \<open>The table's \<^verbatim>\<open>CHECK\<close> constraint \<^verbatim>\<open>chk_incident_resolved_fields\<close>.\<close>

definition incident_consistent :: "site_monitor_incident \<Rightarrow> bool" where
  "incident_consistent i \<longleftrightarrow>
     (case inc_status i of
        StatusOpen \<Rightarrow> inc_resolved_at i = None \<and> inc_resolved_reason i = None
      | StatusResolved \<Rightarrow> inc_resolved_at i \<noteq> None \<and> inc_resolved_reason i \<noteq> None)"

definition incident_inv :: "db \<Rightarrow> bool" where
  "incident_inv d \<longleftrightarrow>
     distinct (map inc_id (db_incidents d)) \<and>
     (\<forall>i \<in> set (db_incidents d). inc_id i < db_next_incident d \<and> incident_consistent i) \<and>
     (\<forall>m. length (open_incidents_of m d) \<le> 1)"

lemma list_all2_count_mono:
  "list_all2 (\<lambda>r r'. Q r' \<longrightarrow> P r) xs ys \<Longrightarrow> length (filter Q ys) \<le> length (filter P xs)"
  by (induction rule: list_all2_induct) auto

lemma update_incidents_Inr:
  "update_incidents p f d = Inr (n, d') \<longleftrightarrow>
     (\<exists>t. try_update_rows p f (db_incidents d) = Inr t \<and> d' = d\<lparr>db_incidents := t\<rparr> \<and>
          n = rows_affected p (db_incidents d))"
  by (auto simp: update_incidents_def split: sum.splits)

lemma closing_incidents:
  assumes "update_incidents (\<lambda>i. q i \<and> is_open i) (closed_row now reason) d = Inr (n, d')"
  shows "list_all (\<lambda>i. if q i then \<not> is_open i else True) (db_incidents d')" "d' = d\<lparr>db_incidents := db_incidents d'\<rparr>"
proof -
  obtain t where t: "try_update_rows (\<lambda>i. q i \<and> is_open i) (closed_row now reason) (db_incidents d) = Inr t"
    "d' = d\<lparr>db_incidents := t\<rparr>"
    using assms by (auto simp: update_incidents_Inr)
  have "list_all2 (\<lambda>r r'. q r' \<longrightarrow> \<not> is_open r') (db_incidents d) t"
    by (rule list_all2_mono [OF t(1) [unfolded try_update_rows_Inr]])
      (auto simp: closed_row_def and_then_eq_Inr is_open_def split: if_splits)
  then have "list_all (\<lambda>i. if q i then \<not> is_open i else True) t"
    by (induction rule: list_all2_induct) auto
  then show "list_all (\<lambda>i. if q i then \<not> is_open i else True) (db_incidents d')" "d' = d\<lparr>db_incidents := db_incidents d'\<rparr>"
    by (simp_all add: t(2))
qed

definition keeps_incident :: "(site_monitor_incident \<Rightarrow> db_error + site_monitor_incident) \<Rightarrow> bool" where
  "keeps_incident f \<longleftrightarrow>
     (\<forall>i i'. f i = Inr i' \<longrightarrow> inc_id i' = inc_id i \<and> inc_site_monitor_id i' = inc_site_monitor_id i \<and>
        inc_site_id i' = inc_site_id i \<and> (is_open i' \<longrightarrow> is_open i) \<and>
        (incident_consistent i \<longrightarrow> incident_consistent i'))"

lemma row_ops_keep_incident:
  "keeps_incident (failure_row now fp)" "keeps_incident (recovered_row now rp)"
  "keeps_incident (closed_row now reason)"
  by (auto simp: keeps_incident_def failure_row_def recovered_row_def closed_row_def
      and_then_eq_Inr is_open_def incident_consistent_def split: incident_status.splits)

lemma update_incidents_list_all2:
  assumes "update_incidents p f d = Inr (n, d')" "keeps_incident f"
  shows "list_all2 (\<lambda>i i'. inc_id i' = inc_id i \<and> inc_site_monitor_id i' = inc_site_monitor_id i \<and>
      (is_open i' \<longrightarrow> is_open i) \<and> (incident_consistent i \<longrightarrow> incident_consistent i'))
    (db_incidents d) (db_incidents d')"
proof -
  obtain t where t: "try_update_rows p f (db_incidents d) = Inr t" "d' = d\<lparr>db_incidents := t\<rparr>"
    using assms(1) unfolding update_incidents_Inr by blast
  show ?thesis
    using t(2) assms(2)
    by (auto simp: keeps_incident_def split: if_splits
        intro!: list_all2_mono [OF t(1) [unfolded try_update_rows_Inr]])
qed

lemma update_incidents_inv:
  assumes "update_incidents p f d = Inr (n, d')" "keeps_incident f" "incident_inv d"
  shows "incident_inv d'"
proof -
  note la = update_incidents_list_all2 [OF assms(1,2)]
  have nx: "db_next_incident d' = db_next_incident d"
    using assms(1) by (auto simp: update_incidents_Inr)
  have "map inc_id (db_incidents d') = map inc_id (db_incidents d)"
    using la by (simp add: list_all2_conv_all_nth list_eq_iff_nth_eq)
  moreover have "inc_id i' < db_next_incident d \<and> incident_consistent i'"
    if "i' \<in> set (db_incidents d')" for i'
    using list_all2_memD [OF la that] assms(3) by (fastforce simp: incident_inv_def)
  moreover have "length (open_incidents_of m d') \<le> 1" for m
  proof -
    have "length (open_incidents_of m d') \<le> length (open_incidents_of m d)"
      unfolding open_incidents_of_def
      by (rule list_all2_count_mono, rule list_all2_mono [OF la]) auto
    then show ?thesis
      using assms(3) unfolding incident_inv_def by (meson le_trans)
  qed
  ultimately show ?thesis
    using assms(3) nx unfolding incident_inv_def by metis
qed

lemma open_incident_Inr:
  "open_incident now site p d = Inr (i, d') \<longleftrightarrow>
     find_site site d \<noteq> None \<and> find_monitor (oip_site_monitor_id p) d \<noteq> None \<and>
     find (\<lambda>c. smc_id c = oip_check_id p) (db_checks d) \<noteq> None \<and>
     open_incidents_of (oip_site_monitor_id p) d = [] \<and>
     i = incident_row now (db_next_incident d) site p \<and>
     d' = d\<lparr>db_incidents := db_incidents d @ [i], db_next_incident := db_next_incident d + 1\<rparr>"
  by (auto simp: open_incident_def Let_def)

lemma open_incidents_of_append:
  "open_incidents_of m (d\<lparr>db_incidents := db_incidents d @ [i], db_next_incident := n\<rparr>) =
   open_incidents_of m d @ (if inc_site_monitor_id i = m \<and> is_open i then [i] else [])"
  by (simp add: open_incidents_of_def)

lemma open_incident_inv:
  assumes "open_incident now site p d = Inr (i, d')" "incident_inv d"
  shows "incident_inv d'"
proof -
  note o = assms(1) [unfolded open_incident_Inr]
  have "incident_consistent i" "inc_id i = db_next_incident d"
    "inc_site_monitor_id i = oip_site_monitor_id p"
    using o by (simp_all add: incident_row_def incident_consistent_def)
  moreover from this have "length (open_incidents_of m d') \<le> 1" for m
    using o assms(2) by (auto simp: open_incidents_of_append incident_inv_def)
  ultimately show ?thesis
    using o assms(2) by (auto simp: incident_inv_def)
qed

lemma resolve_incident_inv:
  "resolve_incident now i p d = Inr (b, d') \<Longrightarrow> incident_inv d \<Longrightarrow> incident_inv d'"
  unfolding resolve_incident_def stmt_bind_Inr_iff
  using update_incidents_inv [OF _ row_ops_keep_incident(2)] by auto

lemma update_incident_failure_inv:
  "update_incident_failure now i p d = Inr (b, d') \<Longrightarrow> incident_inv d \<Longrightarrow> incident_inv d'"
  unfolding update_incident_failure_def stmt_bind_Inr_iff
  using update_incidents_inv [OF _ row_ops_keep_incident(1)] by auto

lemma acknowledge_row_frame [simp]:
  "inc_id (acknowledge_row now a i) = inc_id i"
  "is_open (acknowledge_row now a i) = is_open i"
  "inc_site_monitor_id (acknowledge_row now a i) = inc_site_monitor_id i"
  "inc_status (acknowledge_row now a i) = inc_status i"
  "incident_consistent (acknowledge_row now a i) = incident_consistent i"
  by (simp_all add: acknowledge_row_def is_open_def incident_consistent_def split: incident_status.split)

lemma acknowledge_incident_inv:
  assumes "acknowledge_incident now i s a d = Inr (r, d')" "incident_inv d"
  shows "incident_inv d'"
proof -
  let ?p = "\<lambda>j. inc_id j = i \<and> inc_site_id j = s"
  let ?t = "update_rows ?p (acknowledge_row now a) (db_incidents d)"
  have d': "d' = d\<lparr>db_incidents := ?t\<rparr>"
    using assms(1) by (simp add: acknowledge_incident_def Let_def)
  have "length (open_incidents_of m d') = length (open_incidents_of m d)" for m
    unfolding open_incidents_of_def d'
    by (simp, rule update_rows_filter_key) simp
  moreover have "map inc_id ?t = map inc_id (db_incidents d)"
    by (rule update_rows_map) simp
  moreover have "inc_id j < db_next_incident d \<and> incident_consistent j" if "j \<in> set ?t" for j
    using update_rows_memD [OF that] assms(2) by (auto simp: incident_inv_def)
  ultimately show ?thesis
    using assms(2) d' by (simp add: incident_inv_def)
qed

lemma resolve_open_inv:
  "resolve_open_incidents_for_monitor now m reason d = Inr (n, d') \<Longrightarrow> incident_inv d \<Longrightarrow> incident_inv d'"
  "resolve_open_incidents_for_site now s reason d = Inr (n, d') \<Longrightarrow> incident_inv d \<Longrightarrow> incident_inv d'"
  unfolding resolve_open_incidents_for_monitor_def resolve_open_incidents_for_site_def
  by (erule (1) update_incidents_inv [OF _ row_ops_keep_incident(3)])+

section \<open>Properties of incidents\<close>

text \<open>
  C5: every statement on incidents keeps the table well formed: ids are unique and below the
  sequence, at most one incident per monitor is open, and an incident has a resolution time and a
  reason exactly when it is resolved (the table's \<^verbatim>\<open>CHECK\<close> constraint, which no statement can
  therefore violate).
\<close>

theorem incident_statements_keep_invariant:
  assumes "incident_inv d"
  shows "(open_incident now site op d = Inr (i, d1) \<longrightarrow> incident_inv d1) \<and>
    (update_incident_failure now inc fp d = Inr (b, d2) \<longrightarrow> incident_inv d2) \<and>
    (resolve_incident now inc rp d = Inr (b, d3) \<longrightarrow> incident_inv d3) \<and>
    (resolve_open_incidents_for_monitor now mon reason d = Inr (n, d4) \<longrightarrow> incident_inv d4) \<and>
    (resolve_open_incidents_for_site now site reason d = Inr (n, d5) \<longrightarrow> incident_inv d5) \<and>
    (acknowledge_incident now inc site admin d = Inr (r, d6) \<longrightarrow> incident_inv d6)"
  using assms open_incident_inv update_incident_failure_inv resolve_incident_inv resolve_open_inv
    acknowledge_incident_inv
  by (intro conjI impI) metis+

text \<open>
  The life of two incidents of monitor 1: the first is opened, fails once more, recovers and is
  acknowledged; the second is opened and closed by each of the two bulk resolutions.
\<close>

definition sample_open_params :: "id \<Rightarrow> timestamp \<Rightarrow> open_incident_params" where
  "sample_open_params c t =
     \<lparr>oip_site_monitor_id = 1, oip_monitor_type = Http, oip_target_url = ''https://a.test/1'',
      oip_expected_status_code = 200, oip_check_id = c, oip_checked_at = t,
      oip_status_code = Some 500, oip_failure_reason = Some ''http_status'',
      oip_error_message = None\<rparr>"

definition sample_failure_params :: incident_failure_params where
  "sample_failure_params =
     \<lparr>ifp_check_id = 2, ifp_checked_at = 20, ifp_status_code = Some 502,
      ifp_failure_reason = Some ''http_status'', ifp_error_message = None\<rparr>"

definition sample_resolve_params :: resolve_incident_params where
  "sample_resolve_params =
     \<lparr>rip_check_id = 3, rip_checked_at = 30, rip_status_code = Some 200,
      rip_response_time_ms = Some 12\<rparr>"

definition checked_db :: db where
  "checked_db = sample_db
     \<lparr>db_checks := [sample_check 1 10, sample_check 2 20, sample_check 3 30, sample_check 4 40],
      db_next_check := 5, db_next_incident := 1\<rparr>"

definition opened_db :: db where
  "opened_db = run_stmt (open_incident 10 1 (sample_open_params 1 10)) checked_db"

definition failing_db :: db where
  "failing_db = run_stmt (update_incident_failure 20 1 sample_failure_params) opened_db"

definition recovered_db :: db where
  "recovered_db = run_stmt (resolve_incident 30 1 sample_resolve_params) failing_db"

definition acknowledged_db :: db where
  "acknowledged_db = run_stmt (acknowledge_incident 35 1 1 7) recovered_db"

definition reopened_db :: db where
  "reopened_db = run_stmt (open_incident 40 1 (sample_open_params 4 40)) acknowledged_db"

lemma map_sum_id_Inr: "map_sum id f r = Inr y \<Longrightarrow> \<exists>x. r = Inr x \<and> y = f x"
  by (cases r) auto

lemma incident_story:
  "incident_inv checked_db"
  "map_sum id inc_id (map_sum id fst (open_incident 10 1 (sample_open_params 1 10) checked_db)) = Inr 1"
  "map_sum id fst (update_incident_failure 20 1 sample_failure_params opened_db) = Inr True"
  "map_sum id fst (resolve_incident 30 1 sample_resolve_params failing_db) = Inr True"
  "map_sum id (map_option inc_id) (map_sum id fst (acknowledge_incident 35 1 1 7 recovered_db)) = Inr (Some 1)"
  "map_sum id inc_id (map_sum id fst (open_incident 40 1 (sample_open_params 4 40) acknowledged_db)) = Inr 2"
  "map_sum id fst (resolve_open_incidents_for_monitor 50 1 MonitoringDisabled reopened_db) = Inr 1"
  "map_sum id fst (resolve_open_incidents_for_site 50 1 SiteDeactivated reopened_db) = Inr 1"
  subgoal by (simp add: incident_inv_def checked_db_def sample_db_def empty_db_def open_incidents_of_def)
  by code_simp+

theorem incident_statements_keep_invariant_witness:
  "incident_inv checked_db \<and> incident_inv opened_db \<and> incident_inv failing_db \<and>
   incident_inv recovered_db \<and> incident_inv acknowledged_db \<and> incident_inv reopened_db \<and>
   incident_inv (run_stmt (resolve_open_incidents_for_monitor 50 1 MonitoringDisabled) reopened_db) \<and>
   incident_inv (run_stmt (resolve_open_incidents_for_site 50 1 SiteDeactivated) reopened_db) \<and>
   map (\<lambda>i. (inc_id i, inc_status i, inc_failure_count i, inc_downtime_seconds i)) (db_incidents reopened_db) =
     [(1, StatusResolved, 2, Some 0), (2, StatusOpen, 1, None)]"
proof -
  note keeps = incident_statements_keep_invariant [THEN conjunct1, rule_format]
    incident_statements_keep_invariant [THEN conjunct2, THEN conjunct1, rule_format]
    incident_statements_keep_invariant [THEN conjunct2, THEN conjunct2, THEN conjunct1, rule_format]
    incident_statements_keep_invariant
      [THEN conjunct2, THEN conjunct2, THEN conjunct2, THEN conjunct1, rule_format]
    incident_statements_keep_invariant
      [THEN conjunct2, THEN conjunct2, THEN conjunct2, THEN conjunct2, THEN conjunct1, rule_format]
    incident_statements_keep_invariant
      [THEN conjunct2, THEN conjunct2, THEN conjunct2, THEN conjunct2, THEN conjunct2, rule_format]
  have s1: "incident_inv opened_db"
    using keeps(1) [OF incident_story(1)] incident_story(2) unfolding opened_db_def
    by (auto dest!: map_sum_id_Inr)
  have s2: "incident_inv failing_db"
    using keeps(2) [OF s1] incident_story(3) unfolding failing_db_def
    by (auto dest!: map_sum_id_Inr)
  have s3: "incident_inv recovered_db"
    using keeps(3) [OF s2] incident_story(4) unfolding recovered_db_def
    by (auto dest!: map_sum_id_Inr)
  have s4: "incident_inv acknowledged_db"
    using keeps(6) [OF s3] incident_story(5) unfolding acknowledged_db_def
    by (auto dest!: map_sum_id_Inr)
  have s5: "incident_inv reopened_db"
    using keeps(1) [OF s4] incident_story(6) unfolding reopened_db_def
    by (auto dest!: map_sum_id_Inr)
  have "incident_inv (run_stmt (resolve_open_incidents_for_monitor 50 1 MonitoringDisabled) reopened_db)"
    using keeps(4) [OF s5] incident_story(7) by (auto dest!: map_sum_id_Inr)
  moreover have "incident_inv (run_stmt (resolve_open_incidents_for_site 50 1 SiteDeactivated) reopened_db)"
    using keeps(5) [OF s5] incident_story(8) by (auto dest!: map_sum_id_Inr)
  moreover have "map (\<lambda>i. (inc_id i, inc_status i, inc_failure_count i, inc_downtime_seconds i))
      (db_incidents reopened_db) = [(1, StatusResolved, 2, Some 0), (2, StatusOpen, 1, None)]"
    by code_simp
  ultimately show ?thesis
    using incident_story(1) s1 s2 s3 s4 s5 by (intro conjI)
qed

text \<open>
  Resolving the open incidents of a site closes all of them with the given reason and the
  statement's time, and leaves every incident that is resolved or belongs to another site as it
  was. It fails only when the downtime of one of them does not fit the \<^verbatim>\<open>INTEGER\<close> column.
\<close>

theorem resolve_for_site_closes_exactly_its_open_incidents:
  "case resolve_open_incidents_for_site now site reason d of
     Inr (n, d') \<Rightarrow>
       n = length (filter (\<lambda>i. inc_site_id i = site \<and> is_open i) (db_incidents d)) \<and>
       \<not> has_open_incident_for_site site d' \<and>
       list_all2 (\<lambda>i i'.
           if inc_site_id i = site \<and> is_open i
           then inc_id i' = inc_id i \<and> inc_status i' = StatusResolved \<and>
                inc_resolved_reason i' = Some reason \<and> inc_resolved_at i' = Some now \<and>
                inc_downtime_seconds i' = Some (epoch_seconds (now - inc_opened_at i))
           else i' = i)
         (db_incidents d) (db_incidents d')
   | Inl e \<Rightarrow>
       e = IntegerOutOfRange \<and>
       (\<exists>i \<in> set (db_incidents d). inc_site_id i = site \<and> is_open i \<and>
          \<not> i32_in_range (epoch_seconds (now - inc_opened_at i)))"
proof -
  let ?p = "\<lambda>i. inc_site_id i = site \<and> is_open i"
  show ?thesis
  proof (cases "resolve_open_incidents_for_site now site reason d")
    case (Inl e)
    then have "try_update_rows ?p (closed_row now reason) (db_incidents d) = Inl e"
      by (auto simp: resolve_open_incidents_for_site_def update_incidents_def split: sum.splits)
    then obtain i where i: "i \<in> set (db_incidents d)" "?p i" "closed_row now reason i = Inl e"
      unfolding try_update_rows_def by (auto dest!: try_map_InlD split: if_splits)
    then show ?thesis
      using Inl by (auto simp: closed_row_def and_then_eq_Inl pg_int4_def split: if_splits)
  next
    case (Inr r)
    obtain n d' where r: "r = (n, d')" by (cases r)
    then obtain t where t: "try_update_rows ?p (closed_row now reason) (db_incidents d) = Inr t"
      "d' = d\<lparr>db_incidents := t\<rparr>" "n = rows_affected ?p (db_incidents d)"
      using Inr by (auto simp: resolve_open_incidents_for_site_def update_incidents_Inr)
    have la: "list_all2 (\<lambda>i i'. if ?p i
           then inc_id i' = inc_id i \<and> inc_site_id i' = inc_site_id i \<and>
                inc_status i' = StatusResolved \<and>
                inc_resolved_reason i' = Some reason \<and> inc_resolved_at i' = Some now \<and>
                inc_downtime_seconds i' = Some (epoch_seconds (now - inc_opened_at i))
           else i' = i) (db_incidents d) t"
      by (rule list_all2_mono [OF t(1) [unfolded try_update_rows_Inr]])
        (auto simp: closed_row_def and_then_eq_Inr pg_int4_def split: if_splits)
    have "\<not> has_open_incident_for_site site d'"
      using list_all2_memD [OF la] t(2)
      by (fastforce simp: has_open_incident_for_site_def is_open_def split: if_splits)
    moreover have "list_all2 (\<lambda>i i'. if ?p i
           then inc_id i' = inc_id i \<and> inc_status i' = StatusResolved \<and>
                inc_resolved_reason i' = Some reason \<and> inc_resolved_at i' = Some now \<and>
                inc_downtime_seconds i' = Some (epoch_seconds (now - inc_opened_at i))
           else i' = i) (db_incidents d) t"
      by (rule list_all2_mono [OF la]) (auto split: if_splits)
    ultimately show ?thesis
      using Inr r t by (simp add: rows_affected_def)
  qed
qed

section \<open>The pages of incidents\<close>

text \<open>The query of one page: the site, the status filter and the database are fixed.\<close>

definition incident_page ::
  "id \<times> incident_status option \<times> db \<Rightarrow> (timestamp \<times> id) option \<Rightarrow> nat \<Rightarrow> site_monitor_incident list" where
  "incident_page = (\<lambda>(site, st, d) cur n.
     list_incidents_by_site_id site
       \<lparr>icq_cursor_opened_at = map_option fst cur, icq_cursor_id = map_option snd cur,
        icq_status = st, icq_limit = int n\<rparr> d)"

definition incident_rows :: "id \<times> incident_status option \<times> db \<Rightarrow> site_monitor_incident list" where
  "incident_rows = (\<lambda>(site, st, d). filter (incident_matches site st) (db_incidents d))"

definition incident_cursor :: "site_monitor_incident \<Rightarrow> timestamp \<times> id" where
  "incident_cursor i = (inc_opened_at i, inc_id i)"

lemma before_cursor_after_in_order:
  "before_cursor (map_option fst cur) (map_option snd cur) t i = after_in_order cur (t, i)"
  by (cases cur) (auto simp: after_in_order_def)

interpretation incident_pages: keyset_query incident_page incident_rows incident_cursor
  by unfold_locales
    (auto simp: incident_page_def incident_rows_def incident_cursor_def [abs_def] list_incidents_by_site_id_def
      before_cursor_after_in_order limit_rows_def conj_commute split: prod.splits)

text \<open>
  C10: a client that follows \<^verbatim>\<open>x-next-cursor\<close> through a site's incidents sees each incident of the
  filter exactly once, newest first, in pages no longer than its limit; one request more than
  there are incidents is enough.
\<close>

theorem incident_pages_complete:
  assumes "incident_inv d" "0 < limit"
  shows "let pages = walk_pages (incident_page (site, st, d)) incident_cursor limit
                      (Suc (length (db_incidents d))) None
         in concat pages = order_by_desc incident_cursor (incident_rows (site, st, d)) \<and>
            distinct (map inc_id (concat pages)) \<and>
            set (concat pages) = {i \<in> set (db_incidents d). incident_matches site st i} \<and>
            (\<forall>p \<in> set pages. length p \<le> limit)"
proof -
  let ?q = "(site, st, d)"
  have ids: "distinct (map inc_id (incident_rows ?q))"
    using assms(1) by (simp add: incident_rows_def incident_inv_def distinct_map_filter)
  then have "distinct (map snd (map incident_cursor (incident_rows ?q)))"
    by (simp add: incident_cursor_def comp_def)
  then have "incident_pages.keyed ?q"
    unfolding incident_pages.keyed_def by (rule distinct_of_map)
  moreover have "length (incident_rows ?q) < Suc (length (db_incidents d))"
    by (simp add: incident_rows_def le_imp_less_Suc)
  ultimately have w: "concat (walk_pages (incident_page ?q) incident_cursor limit
        (Suc (length (db_incidents d))) None) = incident_pages.listing ?q"
    "\<forall>p \<in> set (walk_pages (incident_page ?q) incident_cursor limit
        (Suc (length (db_incidents d))) None). length p \<le> limit"
    using incident_pages.walk_complete [of ?q limit "Suc (length (db_incidents d))"] assms(2)
    by simp_all
  have "set (incident_pages.listing ?q) = {i \<in> set (db_incidents d). incident_matches site st i}"
    unfolding incident_pages.set_listing by (auto simp: incident_rows_def)
  moreover have "distinct (map inc_id (incident_pages.listing ?q))"
    using ids by (simp add: incident_pages.listing_def order_by_desc_def distinct_map)
  ultimately show ?thesis
    unfolding Let_def w(1) using w(2) by (simp only: incident_pages.listing_def simp_thms)
qed

text \<open>
  Three incidents of site 1, two of them opened at the same instant, and one of another site: with
  a limit of 2 the walk has two pages.
\<close>

definition paged_db :: db where
  "paged_db = checked_db
     \<lparr>db_incidents :=
        [(incident_row 10 1 1 (sample_open_params 1 10))\<lparr>inc_status := StatusResolved,
           inc_resolved_at := Some 15, inc_resolved_reason := Some Recovered\<rparr>,
         (incident_row 40 2 1 (sample_open_params 4 40))\<lparr>inc_status := StatusResolved,
           inc_resolved_at := Some 45, inc_resolved_reason := Some Recovered\<rparr>,
         (incident_row 40 3 2 (sample_open_params 4 40))\<lparr>inc_site_monitor_id := 5\<rparr>,
         (incident_row 40 4 1 (sample_open_params 4 40))],
      db_next_incident := 5\<rparr>"

theorem incident_pages_complete_witness:
  "let pages = walk_pages (incident_page (1, None, paged_db)) incident_cursor 2 5 None
   in map (map inc_id) pages = [[4, 2], [1]] \<and> distinct (map inc_id (concat pages))"
proof -
  have "incident_inv paged_db"
    by (simp add: incident_inv_def paged_db_def incident_row_def sample_open_params_def
        incident_consistent_def open_incidents_of_def is_open_def)
  moreover have "Suc (length (db_incidents paged_db)) = 5"
    by (simp add: paged_db_def)
  ultimately have "distinct (map inc_id (concat (walk_pages (incident_page (1, None, paged_db))
      incident_cursor 2 5 None)))"
    using incident_pages_complete [of paged_db 2 1 None] by (metis zero_less_numeral)
  moreover have "map (map inc_id) (walk_pages (incident_page (1, None, paged_db)) incident_cursor 2 5 None) =
      [[4, 2], [1]]"
    by code_simp
  ultimately show ?thesis
    unfolding Let_def by (intro conjI)
qed

end
