(* ===== verification/Monitor_Admin_Repository.thy ===== *)
theory Monitor_Admin_Repository
  imports Monitor_Repository
begin

text \<open>
  The statements of \<^verbatim>\<open>src/domain/site_monitors/repository.rs\<close> the API runs: listing, creating,
  updating, upserting, disabling, pausing and resuming monitors of each type, the heartbeat ping
  and the health states. The table's unique constraints (site, type and target; heartbeat token)
  and its foreign key make an insert or an update fail.
\<close>

section \<open>Constraints and shared statements\<close>

definition monitor_key :: "site_monitor \<Rightarrow> id \<times> site_monitor_type \<times> string" where
  "monitor_key m = (sm_site_id m, sm_monitor_type m, sm_target_url m)"

definition monitor_constraints :: "site_monitor list \<Rightarrow> bool" where
  "monitor_constraints t \<longleftrightarrow>
     distinct (map monitor_key t) \<and> distinct (List.map_filter sm_heartbeat_token t)"

definition update_monitors ::
  "(site_monitor \<Rightarrow> bool) \<Rightarrow> (site_monitor \<Rightarrow> site_monitor) \<Rightarrow> (db, site_monitor list) stmt" where
  "update_monitors p f d =
     Inr (returning_rows p f (db_monitors d), d\<lparr>db_monitors := update_rows p f (db_monitors d)\<rparr>)"

text \<open>An update that writes key columns.\<close>

definition update_monitors_checked ::
  "(site_monitor \<Rightarrow> bool) \<Rightarrow> (site_monitor \<Rightarrow> site_monitor) \<Rightarrow> (db, site_monitor list) stmt" where
  "update_monitors_checked p f d =
     (if monitor_constraints (update_rows p f (db_monitors d)) then update_monitors p f d
      else Inl (UniqueViolation ''site_monitors''))"

definition insert_monitor :: "(id \<Rightarrow> site_monitor) \<Rightarrow> (db, site_monitor) stmt" where
  "insert_monitor mk d =
     (let m = mk (db_next_monitor d) in
      if find_site (sm_site_id m) d = None then Inl (ForeignKeyViolation ''site_monitors'')
      else if \<not> monitor_constraints (db_monitors d @ [m])
      then Inl (UniqueViolation ''site_monitors'')
      else Inr (m, d\<lparr>db_monitors := db_monitors d @ [m],
                     db_next_monitor := db_next_monitor d + 1\<rparr>))"

text \<open>\<^verbatim>\<open>INSERT ... ON CONFLICT (site_id, monitor_type, target_url) DO UPDATE\<close>.\<close>

definition upsert_monitor ::
  "(id \<Rightarrow> site_monitor) \<Rightarrow> (site_monitor \<Rightarrow> site_monitor) \<Rightarrow> (db, site_monitor) stmt" where
  "upsert_monitor mk f d =
     (let p = (\<lambda>m. monitor_key m = monitor_key (mk (db_next_monitor d))) in
      case find p (db_monitors d) of
        None \<Rightarrow> insert_monitor mk d
      | Some m \<Rightarrow> Inr (f m, d\<lparr>db_monitors := update_rows p f (db_monitors d),
                             db_next_monitor := db_next_monitor d + 1\<rparr>))"

definition monitor_of_type :: "site_monitor_type \<Rightarrow> id \<Rightarrow> site_monitor \<Rightarrow> bool" where
  "monitor_of_type t site m \<longleftrightarrow> sm_site_id m = site \<and> sm_monitor_type m = t"

definition monitor_by_id :: "site_monitor_type \<Rightarrow> id \<Rightarrow> id \<Rightarrow> site_monitor \<Rightarrow> bool" where
  "monitor_by_id t site i m \<longleftrightarrow> sm_id m = i \<and> monitor_of_type t site m"

definition set_active :: "timestamp \<Rightarrow> bool \<Rightarrow> site_monitor \<Rightarrow> site_monitor" where
  "set_active now b m = m\<lparr>sm_is_active := b, sm_updated_at := now\<rparr>"

definition list_monitors_of_type :: "site_monitor_type \<Rightarrow> id \<Rightarrow> db \<Rightarrow> site_monitor list" where
  "list_monitors_of_type t site d =
     (if find_site site d = None then []
      else order_by sm_id (filter (monitor_of_type t site) (db_monitors d)))"

definition get_monitor_by_target ::
  "site_monitor_type \<Rightarrow> id \<Rightarrow> string \<Rightarrow> db \<Rightarrow> site_monitor option" where
  "get_monitor_by_target t site url d =
     fetch_optional (filter (\<lambda>m. monitor_of_type t site m \<and> sm_target_url m = url) (db_monitors d))"

text \<open>One (site, has an active monitor) pair per site that has a monitor of the type.\<close>

definition monitor_states_of_type :: "site_monitor_type \<Rightarrow> db \<Rightarrow> (id \<times> bool) list" where
  "monitor_states_of_type t d =
     (let ms = filter (\<lambda>m. sm_monitor_type m = t) (db_monitors d)
      in map (\<lambda>s. (s, \<exists>m \<in> set ms. sm_site_id m = s \<and> sm_is_active m)) (remdups (map sm_site_id ms)))"

text \<open>Disabling asks for an active row; pausing and resuming do not.\<close>

definition disable_monitors_of_type :: "timestamp \<Rightarrow> site_monitor_type \<Rightarrow> id \<Rightarrow> (db, site_monitor list) stmt" where
  "disable_monitors_of_type now t site =
     update_monitors (\<lambda>m. monitor_of_type t site m \<and> sm_is_active m) (set_active now False)"

definition fetch_one_of :: "(db, site_monitor list) stmt \<Rightarrow> (db, site_monitor option) stmt" where
  "fetch_one_of s = stmt_bind s (\<lambda>rs. stmt_return (fetch_optional rs))"

definition disable_monitor_of_type ::
  "timestamp \<Rightarrow> site_monitor_type \<Rightarrow> id \<Rightarrow> id \<Rightarrow> (db, site_monitor option) stmt" where
  "disable_monitor_of_type now t site i =
     fetch_one_of (update_monitors (\<lambda>m. monitor_by_id t site i m \<and> sm_is_active m) (set_active now False))"

definition switch_monitor_of_type ::
  "timestamp \<Rightarrow> site_monitor_type \<Rightarrow> bool \<Rightarrow> id \<Rightarrow> id \<Rightarrow> (db, site_monitor option) stmt" where
  "switch_monitor_of_type now t b site i =
     fetch_one_of (update_monitors (monitor_by_id t site i) (set_active now b))"

section \<open>Per-type statements\<close>

definition list_http_monitors_by_site_id :: "id \<Rightarrow> db \<Rightarrow> site_monitor list" where
  "list_http_monitors_by_site_id = list_monitors_of_type Http"

definition disable_http_monitors_by_site_id :: "timestamp \<Rightarrow> id \<Rightarrow> (db, site_monitor list) stmt" where
  "disable_http_monitors_by_site_id now = disable_monitors_of_type now Http"

definition disable_http_monitor_by_id :: "timestamp \<Rightarrow> id \<Rightarrow> id \<Rightarrow> (db, site_monitor option) stmt" where
  "disable_http_monitor_by_id now = disable_monitor_of_type now Http"

definition pause_http_monitor_by_id :: "timestamp \<Rightarrow> id \<Rightarrow> id \<Rightarrow> (db, site_monitor option) stmt" where
  "pause_http_monitor_by_id now = switch_monitor_of_type now Http False"

definition resume_http_monitor_by_id :: "timestamp \<Rightarrow> id \<Rightarrow> id \<Rightarrow> (db, site_monitor option) stmt" where
  "resume_http_monitor_by_id now = switch_monitor_of_type now Http True"

definition list_ssl_monitors_by_site_id :: "id \<Rightarrow> db \<Rightarrow> site_monitor list" where
  "list_ssl_monitors_by_site_id = list_monitors_of_type Ssl"

definition disable_ssl_monitors_by_site_id :: "timestamp \<Rightarrow> id \<Rightarrow> (db, site_monitor list) stmt" where
  "disable_ssl_monitors_by_site_id now = disable_monitors_of_type now Ssl"

definition disable_ssl_monitor_by_id :: "timestamp \<Rightarrow> id \<Rightarrow> id \<Rightarrow> (db, site_monitor option) stmt" where
  "disable_ssl_monitor_by_id now = disable_monitor_of_type now Ssl"

definition pause_ssl_monitor_by_id :: "timestamp \<Rightarrow> id \<Rightarrow> id \<Rightarrow> (db, site_monitor option) stmt" where
  "pause_ssl_monitor_by_id now = switch_monitor_of_type now Ssl False"

definition resume_ssl_monitor_by_id :: "timestamp \<Rightarrow> id \<Rightarrow> id \<Rightarrow> (db, site_monitor option) stmt" where
  "resume_ssl_monitor_by_id now = switch_monitor_of_type now Ssl True"

definition list_heartbeat_monitors_by_site_id :: "id \<Rightarrow> db \<Rightarrow> site_monitor list" where
  "list_heartbeat_monitors_by_site_id = list_monitors_of_type Heartbeat"

definition disable_heartbeat_monitors_by_site_id :: "timestamp \<Rightarrow> id \<Rightarrow> (db, site_monitor list) stmt" where
  "disable_heartbeat_monitors_by_site_id now = disable_monitors_of_type now Heartbeat"

definition disable_heartbeat_monitor_by_id :: "timestamp \<Rightarrow> id \<Rightarrow> id \<Rightarrow> (db, site_monitor option) stmt" where
  "disable_heartbeat_monitor_by_id now = disable_monitor_of_type now Heartbeat"

definition pause_heartbeat_monitor_by_id :: "timestamp \<Rightarrow> id \<Rightarrow> id \<Rightarrow> (db, site_monitor option) stmt" where
  "pause_heartbeat_monitor_by_id now = switch_monitor_of_type now Heartbeat False"

definition resume_heartbeat_monitor_by_id :: "timestamp \<Rightarrow> id \<Rightarrow> id \<Rightarrow> (db, site_monitor option) stmt" where
  "resume_heartbeat_monitor_by_id now = switch_monitor_of_type now Heartbeat True"

definition list_tcp_monitors_by_site_id :: "id \<Rightarrow> db \<Rightarrow> site_monitor list" where
  "list_tcp_monitors_by_site_id = list_monitors_of_type Tcp"

definition disable_tcp_monitors_by_site_id :: "timestamp \<Rightarrow> id \<Rightarrow> (db, site_monitor list) stmt" where
  "disable_tcp_monitors_by_site_id now = disable_monitors_of_type now Tcp"

definition disable_tcp_monitor_by_id :: "timestamp \<Rightarrow> id \<Rightarrow> id \<Rightarrow> (db, site_monitor option) stmt" where
  "disable_tcp_monitor_by_id now = disable_monitor_of_type now Tcp"

definition pause_tcp_monitor_by_id :: "timestamp \<Rightarrow> id \<Rightarrow> id \<Rightarrow> (db, site_monitor option) stmt" where
  "pause_tcp_monitor_by_id now = switch_monitor_of_type now Tcp False"

definition resume_tcp_monitor_by_id :: "timestamp \<Rightarrow> id \<Rightarrow> id \<Rightarrow> (db, site_monitor option) stmt" where
  "resume_tcp_monitor_by_id now = switch_monitor_of_type now Tcp True"

definition list_dns_monitors_by_site_id :: "id \<Rightarrow> db \<Rightarrow> site_monitor list" where
  "list_dns_monitors_by_site_id = list_monitors_of_type Dns"

definition disable_dns_monitors_by_site_id :: "timestamp \<Rightarrow> id \<Rightarrow> (db, site_monitor list) stmt" where
  "disable_dns_monitors_by_site_id now = disable_monitors_of_type now Dns"

definition disable_dns_monitor_by_id :: "timestamp \<Rightarrow> id \<Rightarrow> id \<Rightarrow> (db, site_monitor option) stmt" where
  "disable_dns_monitor_by_id now = disable_monitor_of_type now Dns"

definition pause_dns_monitor_by_id :: "timestamp \<Rightarrow> id \<Rightarrow> id \<Rightarrow> (db, site_monitor option) stmt" where
  "pause_dns_monitor_by_id now = switch_monitor_of_type now Dns False"

definition resume_dns_monitor_by_id :: "timestamp \<Rightarrow> id \<Rightarrow> id \<Rightarrow> (db, site_monitor option) stmt" where
  "resume_dns_monitor_by_id now = switch_monitor_of_type now Dns True"

definition get_http_monitor_by_site_id_and_target_url :: "id \<Rightarrow> string \<Rightarrow> db \<Rightarrow> site_monitor option" where
  "get_http_monitor_by_site_id_and_target_url = get_monitor_by_target Http"

definition get_ssl_monitor_by_site_id_and_target_url :: "id \<Rightarrow> string \<Rightarrow> db \<Rightarrow> site_monitor option" where
  "get_ssl_monitor_by_site_id_and_target_url = get_monitor_by_target Ssl"

definition list_http_monitor_states :: "db \<Rightarrow> (id \<times> bool) list" where
  "list_http_monitor_states = monitor_states_of_type Http"

definition list_ssl_monitor_states :: "db \<Rightarrow> (id \<times> bool) list" where
  "list_ssl_monitor_states = monitor_states_of_type Ssl"

definition list_heartbeat_monitor_states :: "db \<Rightarrow> (id \<times> bool) list" where
  "list_heartbeat_monitor_states = monitor_states_of_type Heartbeat"

definition get_heartbeat_monitor_by_site_id :: "id \<Rightarrow> db \<Rightarrow> site_monitor option" where
  "get_heartbeat_monitor_by_site_id site d =
     fetch_optional (limit_rows 1 (order_by sm_id (filter (monitor_of_type Heartbeat site) (db_monitors d))))"

definition has_heartbeat_token :: "string \<Rightarrow> site_monitor \<Rightarrow> bool" where
  "has_heartbeat_token token m \<longleftrightarrow> sm_monitor_type m = Heartbeat \<and> sm_heartbeat_token m = Some token"

definition get_heartbeat_monitor_by_token :: "string \<Rightarrow> db \<Rightarrow> site_monitor option" where
  "get_heartbeat_monitor_by_token token d =
     fetch_optional (filter (has_heartbeat_token token) (db_monitors d))"

definition ping_row :: "timestamp \<Rightarrow> site_monitor \<Rightarrow> site_monitor" where
  "ping_row now m = m\<lparr>sm_last_heartbeat_received_at := Some now, sm_updated_at := now\<rparr>"

definition record_heartbeat_ping :: "timestamp \<Rightarrow> string \<Rightarrow> (db, site_monitor option) stmt" where
  "record_heartbeat_ping now token =
     fetch_one_of (update_monitors (has_heartbeat_token token) (ping_row now))"

definition get_tcp_monitor_by_site_id_and_host_port ::
  "id \<Rightarrow> string \<Rightarrow> int \<Rightarrow> db \<Rightarrow> site_monitor option" where
  "get_tcp_monitor_by_site_id_and_host_port site host port d =
     fetch_optional (filter (\<lambda>m. monitor_of_type Tcp site m \<and> sm_tcp_target_host m = Some host \<and>
                                 sm_tcp_target_port m = Some port) (db_monitors d))"

definition get_dns_monitor_by_site_id_and_hostname_record_type ::
  "id \<Rightarrow> string \<Rightarrow> string \<Rightarrow> db \<Rightarrow> site_monitor option" where
  "get_dns_monitor_by_site_id_and_hostname_record_type site host record_type d =
     fetch_optional (filter (\<lambda>m. monitor_of_type Dns site m \<and> sm_dns_hostname m = Some host \<and>
                                 sm_dns_record_type m = Some record_type) (db_monitors d))"

section \<open>Creating and updating\<close>

text \<open>The columns an HTTP monitor's parameters set.\<close>

definition http_columns :: "http_monitor_params \<Rightarrow> site_monitor \<Rightarrow> site_monitor" where
  "http_columns p m =
     m\<lparr>
       sm_target_url := hmp_target_url p,
       sm_check_interval_seconds := hmp_check_interval_seconds p,
       sm_expected_status_code := hmp_expected_status_code p,
       sm_body_must_contain := hmp_body_must_contain p,
       sm_body_must_not_contain := hmp_body_must_not_contain p,
       sm_body_must_contain_texts := hmp_body_must_contain_texts p,
       sm_body_must_not_contain_texts := hmp_body_must_not_contain_texts p,
       sm_json_path_exists := hmp_json_path_exists p,
       sm_json_path_equals := hmp_json_path_equals p,
       sm_json_path_not_equals := hmp_json_path_not_equals p,
       sm_max_response_time_ms := hmp_max_response_time_ms p,
       sm_required_header_name := hmp_required_header_name p,
       sm_required_header_value := hmp_required_header_value p,
       sm_header_assertions := hmp_header_assertions p,
       sm_ssl_certificate_checks_enabled := hmp_ssl_certificate_checks_enabled p,
       sm_ssl_expiry_warning_days := hmp_ssl_expiry_warning_days p,
       sm_http_check_timeout_seconds_override := hmp_http_check_timeout_seconds_override p,
       sm_http_check_max_attempts_override := hmp_http_check_max_attempts_override p,
       sm_http_check_retry_delays_ms_override := hmp_http_check_retry_delays_ms_override p,
       sm_is_active := hmp_is_active p\<rparr>"

definition touch :: "timestamp \<Rightarrow> site_monitor \<Rightarrow> site_monitor" where
  "touch now m = m\<lparr>sm_updated_at := now\<rparr>"

definition update_http_site_monitor_by_id ::
  "timestamp \<Rightarrow> id \<Rightarrow> id \<Rightarrow> http_monitor_params \<Rightarrow> (db, site_monitor option) stmt" where
  "update_http_site_monitor_by_id now site i p =
     fetch_one_of (update_monitors_checked (monitor_by_id Http site i) (\<lambda>m. touch now (http_columns p m)))"

definition create_http_site_monitor ::
  "timestamp \<Rightarrow> id \<Rightarrow> http_monitor_params \<Rightarrow> (db, site_monitor) stmt" where
  "create_http_site_monitor now site p =
     insert_monitor (\<lambda>i. http_columns p (monitor_defaults now i site Http (hmp_target_url p)))"

definition upsert_http_monitor_by_site_id_and_target_url ::
  "timestamp \<Rightarrow> id \<Rightarrow> http_monitor_params \<Rightarrow> (db, site_monitor) stmt" where
  "upsert_http_monitor_by_site_id_and_target_url now site p =
     upsert_monitor (\<lambda>i. http_columns p (monitor_defaults now i site Http (hmp_target_url p)))
       (\<lambda>m. touch now (http_columns p m))"

text \<open>Updating an SSL monitor clears the HTTP assertions; inserting or upserting one does not touch them.\<close>

definition ssl_columns :: "ssl_monitor_params \<Rightarrow> site_monitor \<Rightarrow> site_monitor" where
  "ssl_columns p m =
     m\<lparr>
       sm_target_url := smp_target_url p,
       sm_check_interval_seconds := smp_check_interval_seconds p,
       sm_ssl_certificate_checks_enabled := True,
       sm_ssl_expiry_warning_days := smp_ssl_expiry_warning_days p,
       sm_http_check_timeout_seconds_override := smp_http_check_timeout_seconds_override p,
       sm_http_check_max_attempts_override := smp_http_check_max_attempts_override p,
       sm_http_check_retry_delays_ms_override := smp_http_check_retry_delays_ms_override p,
       sm_is_active := smp_is_active p\<rparr>"

definition clear_http_assertions :: "unit \<Rightarrow> site_monitor \<Rightarrow> site_monitor" where
  "clear_http_assertions _ m =
     m\<lparr>
       sm_body_must_contain := None,
       sm_body_must_not_contain := None,
       sm_body_must_contain_texts := None,
       sm_body_must_not_contain_texts := None,
       sm_json_path_exists := None,
       sm_json_path_equals := None,
       sm_json_path_not_equals := None,
       sm_max_response_time_ms := None,
       sm_required_header_name := None,
       sm_required_header_value := None,
       sm_header_assertions := None\<rparr>"

definition update_ssl_site_monitor_by_id ::
  "timestamp \<Rightarrow> id \<Rightarrow> id \<Rightarrow> ssl_monitor_params \<Rightarrow> (db, site_monitor option) stmt" where
  "update_ssl_site_monitor_by_id now site i p =
     fetch_one_of (update_monitors_checked (monitor_by_id Ssl site i)
       (\<lambda>m. touch now (ssl_columns p (clear_http_assertions () m))))"

definition upsert_ssl_monitor_by_site_id_and_target_url ::
  "timestamp \<Rightarrow> id \<Rightarrow> ssl_monitor_params \<Rightarrow> (db, site_monitor) stmt" where
  "upsert_ssl_monitor_by_site_id_and_target_url now site p =
     upsert_monitor (\<lambda>i. ssl_columns p (monitor_defaults now i site Ssl (smp_target_url p)))
       (\<lambda>m. touch now (ssl_columns p m))"

definition heartbeat_columns :: "heartbeat_monitor_update_params \<Rightarrow> site_monitor \<Rightarrow> site_monitor" where
  "heartbeat_columns p m =
     m\<lparr>
       sm_check_interval_seconds := hbu_check_interval_seconds p,
       sm_heartbeat_grace_seconds := hbu_heartbeat_grace_seconds p,
       sm_is_active := hbu_is_active p\<rparr>"

definition create_heartbeat_site_monitor ::
  "timestamp \<Rightarrow> id \<Rightarrow> heartbeat_monitor_params \<Rightarrow> (db, site_monitor) stmt" where
  "create_heartbeat_site_monitor now site p =
     insert_monitor (\<lambda>i. (monitor_defaults now i site Heartbeat (hbp_target_url p))
       \<lparr>sm_check_interval_seconds := hbp_check_interval_seconds p,
        sm_heartbeat_token := Some (hbp_heartbeat_token p),
        sm_heartbeat_grace_seconds := hbp_heartbeat_grace_seconds p,
        sm_is_active := hbp_is_active p, sm_last_checked_at := Some now\<rparr>)"

definition update_heartbeat_site_monitor_by_id ::
  "timestamp \<Rightarrow> id \<Rightarrow> id \<Rightarrow> heartbeat_monitor_update_params \<Rightarrow> (db, site_monitor option) stmt" where
  "update_heartbeat_site_monitor_by_id now site i p =
     fetch_one_of (update_monitors (monitor_by_id Heartbeat site i) (\<lambda>m. touch now (heartbeat_columns p m)))"

definition tcp_target_url :: "tcp_monitor_params \<Rightarrow> string" where
  "tcp_target_url p = ''tcp://'' @ tmp_target_host p @ '':'' @ show_int (tmp_target_port p)"

definition tcp_settings :: "tcp_monitor_params \<Rightarrow> site_monitor \<Rightarrow> site_monitor" where
  "tcp_settings p m =
     m\<lparr>
       sm_check_interval_seconds := tmp_check_interval_seconds p,
       sm_max_response_time_ms := tmp_max_connect_time_ms p,
       sm_http_check_timeout_seconds_override := tmp_timeout_seconds_override p,
       sm_http_check_max_attempts_override := tmp_max_attempts_override p,
       sm_http_check_retry_delays_ms_override := tmp_retry_delays_ms_override p,
       sm_is_active := tmp_is_active p\<rparr>"

definition tcp_target :: "tcp_monitor_params \<Rightarrow> site_monitor \<Rightarrow> site_monitor" where
  "tcp_target p m =
     m\<lparr>
       sm_target_url := tcp_target_url p,
       sm_tcp_target_host := Some (tmp_target_host p),
       sm_tcp_target_port := Some (tmp_target_port p)\<rparr>"

definition upsert_tcp_monitor_by_site_id_and_host_port ::
  "timestamp \<Rightarrow> id \<Rightarrow> tcp_monitor_params \<Rightarrow> (db, site_monitor) stmt" where
  "upsert_tcp_monitor_by_site_id_and_host_port now site p =
     upsert_monitor
       (\<lambda>i. tcp_settings p (tcp_target p (monitor_defaults now i site Tcp (tcp_target_url p))))
       (\<lambda>m. touch now (tcp_settings p m))"

definition update_tcp_site_monitor_by_id ::
  "timestamp \<Rightarrow> id \<Rightarrow> id \<Rightarrow> tcp_monitor_params \<Rightarrow> (db, site_monitor option) stmt" where
  "update_tcp_site_monitor_by_id now site i p =
     fetch_one_of (update_monitors_checked (monitor_by_id Tcp site i)
       (\<lambda>m. touch now (tcp_settings p (tcp_target p m))))"

definition dns_target_url :: "dns_monitor_params \<Rightarrow> string" where
  "dns_target_url p = ''dns://'' @ dmp_hostname p @ ''/'' @ dmp_record_type p"

definition dns_settings :: "dns_monitor_params \<Rightarrow> site_monitor \<Rightarrow> site_monitor" where
  "dns_settings p m =
     m\<lparr>
       sm_dns_expected_value := dmp_expected_value p,
       sm_dns_nameserver := dmp_nameserver p,
       sm_check_interval_seconds := dmp_check_interval_seconds p,
       sm_http_check_timeout_seconds_override := dmp_timeout_seconds_override p,
       sm_http_check_max_attempts_override := dmp_max_attempts_override p,
       sm_http_check_retry_delays_ms_override := dmp_retry_delays_ms_override p,
       sm_is_active := dmp_is_active p\<rparr>"

definition dns_target :: "dns_monitor_params \<Rightarrow> site_monitor \<Rightarrow> site_monitor" where
  "dns_target p m =
     m\<lparr>
       sm_target_url := dns_target_url p,
       sm_dns_hostname := Some (dmp_hostname p),
       sm_dns_record_type := Some (dmp_record_type p)\<rparr>"

definition upsert_dns_monitor_by_site_id_and_hostname_record_type ::
  "timestamp \<Rightarrow> id \<Rightarrow> dns_monitor_params \<Rightarrow> (db, site_monitor) stmt" where
  "upsert_dns_monitor_by_site_id_and_hostname_record_type now site p =
     upsert_monitor
       (\<lambda>i. dns_settings p (dns_target p (monitor_defaults now i site Dns (dns_target_url p))))
       (\<lambda>m. touch now (dns_settings p m))"

definition update_dns_site_monitor_by_id ::
  "timestamp \<Rightarrow> id \<Rightarrow> id \<Rightarrow> dns_monitor_params \<Rightarrow> (db, site_monitor option) stmt" where
  "update_dns_site_monitor_by_id now site i p =
     fetch_one_of (update_monitors_checked (monitor_by_id Dns site i)
       (\<lambda>m. touch now (dns_settings p (dns_target p m))))"

section \<open>Health\<close>

record site_health_state =
  shs_site_id :: id
  shs_has_active_monitor :: bool
  shs_any_failing :: "bool option"
  shs_any_succeeding :: "bool option"

definition health_of :: "id \<Rightarrow> site_monitor list \<Rightarrow> site_health_state" where
  "health_of site ms =
     (let active = filter sm_is_active ms in
      \<lparr>shs_site_id = site,
       shs_has_active_monitor = (\<exists>m \<in> set ms. sm_is_active m),
       shs_any_failing = bool_or (map (\<lambda>m. map_option (\<lambda>b. b = False) (sm_last_is_success m)) active),
       shs_any_succeeding = bool_or (map (\<lambda>m. map_option (\<lambda>b. b = True) (sm_last_is_success m)) active)\<rparr>)"

definition list_site_health_states :: "db \<Rightarrow> site_health_state list" where
  "list_site_health_states d =
     map (\<lambda>s. health_of s (filter (\<lambda>m. sm_site_id m = s) (db_monitors d)))
       (remdups (map sm_site_id (db_monitors d)))"

definition get_site_health_state_by_id :: "id \<Rightarrow> db \<Rightarrow> site_health_state option" where
  "get_site_health_state_by_id site d =
     (let ms = filter (\<lambda>m. sm_site_id m = site) (db_monitors d)
      in if ms = [] then None else Some (health_of site ms))"

section \<open>What the statements keep\<close>

text \<open>
  The columns the workers own: no statement of the API writes the claim or the last result of an
  existing monitor, and a new monitor has neither.
\<close>

definition worker_columns ::
  "site_monitor \<Rightarrow> id \<times> id \<times> string option \<times> timestamp option \<times> bool option" where
  "worker_columns m =
     (sm_id m, sm_site_id m, sm_check_claimed_by m, sm_check_lease_until m, sm_last_is_success m)"

definition fresh_monitor :: "id \<Rightarrow> site_monitor \<Rightarrow> bool" where
  "fresh_monitor i m \<longleftrightarrow>
     sm_id m = i \<and> sm_check_claimed_by m = None \<and> sm_check_lease_until m = None \<and>
     sm_last_is_success m = None"

text \<open>The effect of an API statement on the database, as far as the workers are concerned.\<close>

definition admin_effect :: "db \<Rightarrow> db \<Rightarrow> bool" where
  "admin_effect d d' \<longleftrightarrow>
     (\<exists>t new. db_monitors d' = t @ new \<and> map worker_columns t = map worker_columns (db_monitors d) \<and>
        (new = [] \<or> (\<exists>m. new = [m] \<and> fresh_monitor (db_next_monitor d) m \<and>
           db_next_monitor d' = db_next_monitor d + 1))) \<and>
     db_next_monitor d \<le> db_next_monitor d' \<and>
     db_incidents d' = db_incidents d \<and> db_next_incident d' = db_next_incident d \<and>
     db_checks d' = db_checks d \<and> db_deliveries d' = db_deliveries d"

lemma worker_columns_touch [simp]:
  "worker_columns (touch now m) = worker_columns m"
  "worker_columns (set_active now b m) = worker_columns m"
  "worker_columns (ping_row now m) = worker_columns m"
  "worker_columns (http_columns hp m) = worker_columns m"
  "worker_columns (ssl_columns sp m) = worker_columns m"
  "worker_columns (clear_http_assertions u m) = worker_columns m"
  "worker_columns (heartbeat_columns bp m) = worker_columns m"
  "worker_columns (tcp_settings tp m) = worker_columns m"
  "worker_columns (tcp_target tp m) = worker_columns m"
  "worker_columns (dns_settings dp m) = worker_columns m"
  "worker_columns (dns_target dp m) = worker_columns m"
  by (simp_all add: worker_columns_def touch_def set_active_def ping_row_def http_columns_def
      ssl_columns_def clear_http_assertions_def heartbeat_columns_def tcp_settings_def
      tcp_target_def dns_settings_def dns_target_def)

lemma worker_columns_defaults:
  "worker_columns (monitor_defaults now i site t url) = (i, site, None, None, None)"
  by (simp add: worker_columns_def monitor_defaults_def)

lemma fresh_monitorI: "worker_columns m = (i, site, None, None, None) \<Longrightarrow> fresh_monitor i m"
  by (simp add: worker_columns_def fresh_monitor_def)

lemma update_monitors_effect:
  assumes "\<And>m. worker_columns (f m) = worker_columns m" "update_monitors p f d = Inr (r, d')"
  shows "admin_effect d d'"
proof -
  have d': "d' = d\<lparr>db_monitors := update_rows p f (db_monitors d)\<rparr>"
    using assms(2) by (simp add: update_monitors_def)
  have "map worker_columns (update_rows p f (db_monitors d)) = map worker_columns (db_monitors d)"
    by (rule update_rows_map) (rule assms(1))
  then show ?thesis
    unfolding admin_effect_def by (intro conjI exI [of _ "db_monitors d'"] exI [of _ "[]"]) (simp_all add: d')
qed

lemma update_monitors_checked_effect:
  assumes "\<And>m. worker_columns (f m) = worker_columns m" "update_monitors_checked p f d = Inr (r, d')"
  shows "admin_effect d d'"
  using assms(2) update_monitors_effect [of f, OF assms(1)]
  by (auto simp: update_monitors_checked_def split: if_splits)

lemma fetch_one_of_Inr: "fetch_one_of s d = Inr (r, d') \<longleftrightarrow> (\<exists>rs. s d = Inr (rs, d') \<and> r = fetch_optional rs)"
  by (auto simp: fetch_one_of_def stmt_bind_Inr_iff)

lemma insert_monitor_effect:
  assumes "\<And>i. \<exists>site. worker_columns (mk i) = (i, site, None, None, None)"
    "insert_monitor mk d = Inr (r, d')"
  shows "admin_effect d d'"
proof -
  let ?m = "mk (db_next_monitor d)"
  have d': "d' = d\<lparr>db_monitors := db_monitors d @ [?m], db_next_monitor := db_next_monitor d + 1\<rparr>"
    using assms(2) by (auto simp: insert_monitor_def Let_def split: if_splits)
  have "fresh_monitor (db_next_monitor d) ?m"
    using assms(1) fresh_monitorI by blast
  then show ?thesis
    unfolding admin_effect_def
    by (intro conjI exI [of _ "db_monitors d"] exI [of _ "[?m]"]) (simp_all add: d')
qed

lemma upsert_monitor_effect:
  assumes "\<And>i. \<exists>site. worker_columns (mk i) = (i, site, None, None, None)"
    "\<And>m. worker_columns (f m) = worker_columns m" "upsert_monitor mk f d = Inr (r, d')"
  shows "admin_effect d d'"
proof (cases "find (\<lambda>m. monitor_key m = monitor_key (mk (db_next_monitor d))) (db_monitors d)")
  case None
  then show ?thesis
    using insert_monitor_effect [OF assms(1)] assms(3) by (simp add: upsert_monitor_def Let_def)
next
  case (Some m)
  let ?p = "\<lambda>m. monitor_key m = monitor_key (mk (db_next_monitor d))"
  have d': "d' = d\<lparr>db_monitors := update_rows ?p f (db_monitors d), db_next_monitor := db_next_monitor d + 1\<rparr>"
    using Some assms(3) by (simp add: upsert_monitor_def Let_def)
  have "map worker_columns (update_rows ?p f (db_monitors d)) = map worker_columns (db_monitors d)"
    by (rule update_rows_map) (rule assms(2))
  then show ?thesis
    unfolding admin_effect_def by (intro conjI exI [of _ "db_monitors d'"] exI [of _ "[]"]) (simp_all add: d')
qed

text \<open>The statements of the API on monitors, and what each does.\<close>

datatype monitor_stmt =
    UpdateHttp id id http_monitor_params | CreateHttp id http_monitor_params
  | UpsertHttp id http_monitor_params
  | UpdateSsl id id ssl_monitor_params | UpsertSsl id ssl_monitor_params
  | CreateHeartbeat id heartbeat_monitor_params
  | UpdateHeartbeat id id heartbeat_monitor_update_params
  | UpdateTcp id id tcp_monitor_params | UpsertTcp id tcp_monitor_params
  | UpdateDns id id dns_monitor_params | UpsertDns id dns_monitor_params
  | DisableAll site_monitor_type id | DisableOne site_monitor_type id id
  | SwitchOne site_monitor_type bool id id
  | RecordPing string

definition drop_result :: "(db, 'a) stmt \<Rightarrow> (db, unit) stmt" where
  "drop_result s = stmt_bind s (\<lambda>_. stmt_return ())"

fun exec_monitor_stmt :: "timestamp \<Rightarrow> monitor_stmt \<Rightarrow> (db, unit) stmt" where
  "exec_monitor_stmt now (UpdateHttp s i p) = drop_result (update_http_site_monitor_by_id now s i p)"
| "exec_monitor_stmt now (CreateHttp s p) = drop_result (create_http_site_monitor now s p)"
| "exec_monitor_stmt now (UpsertHttp s p) =
     drop_result (upsert_http_monitor_by_site_id_and_target_url now s p)"
| "exec_monitor_stmt now (UpdateSsl s i p) = drop_result (update_ssl_site_monitor_by_id now s i p)"
| "exec_monitor_stmt now (UpsertSsl s p) =
     drop_result (upsert_ssl_monitor_by_site_id_and_target_url now s p)"
| "exec_monitor_stmt now (CreateHeartbeat s p) = drop_result (create_heartbeat_site_monitor now s p)"
| "exec_monitor_stmt now (UpdateHeartbeat s i p) =
     drop_result (update_heartbeat_site_monitor_by_id now s i p)"
| "exec_monitor_stmt now (UpdateTcp s i p) = drop_result (update_tcp_site_monitor_by_id now s i p)"
| "exec_monitor_stmt now (UpsertTcp s p) =
     drop_result (upsert_tcp_monitor_by_site_id_and_host_port now s p)"
| "exec_monitor_stmt now (UpdateDns s i p) = drop_result (update_dns_site_monitor_by_id now s i p)"
| "exec_monitor_stmt now (UpsertDns s p) =
     drop_result (upsert_dns_monitor_by_site_id_and_hostname_record_type now s p)"
| "exec_monitor_stmt now (DisableAll t s) = drop_result (disable_monitors_of_type now t s)"
| "exec_monitor_stmt now (DisableOne t s i) = drop_result (disable_monitor_of_type now t s i)"
| "exec_monitor_stmt now (SwitchOne t b s i) = drop_result (switch_monitor_of_type now t b s i)"
| "exec_monitor_stmt now (RecordPing token) = drop_result (record_heartbeat_ping now token)"

lemma drop_result_Inr: "drop_result s d = Inr ((), d') \<longleftrightarrow> (\<exists>r. s d = Inr (r, d'))"
  by (auto simp: drop_result_def stmt_bind_Inr_iff)

lemma heartbeat_row_columns [simp]:
  "worker_columns
     (m\<lparr>sm_check_interval_seconds := a, sm_heartbeat_token := b, sm_heartbeat_grace_seconds := c,
        sm_is_active := e, sm_last_checked_at := l\<rparr>) = worker_columns m"
  by (simp add: worker_columns_def)

lemma exec_monitor_stmt_effect:
  assumes "exec_monitor_stmt now st d = Inr ((), d')"
  shows "admin_effect d d'"
  using assms
  by (cases st)
    (auto simp: drop_result_Inr fetch_one_of_Inr update_http_site_monitor_by_id_def
      create_http_site_monitor_def upsert_http_monitor_by_site_id_and_target_url_def
      update_ssl_site_monitor_by_id_def upsert_ssl_monitor_by_site_id_and_target_url_def
      create_heartbeat_site_monitor_def update_heartbeat_site_monitor_by_id_def
      update_tcp_site_monitor_by_id_def upsert_tcp_monitor_by_site_id_and_host_port_def
      update_dns_site_monitor_by_id_def upsert_dns_monitor_by_site_id_and_hostname_record_type_def
      disable_monitors_of_type_def disable_monitor_of_type_def switch_monitor_of_type_def
      record_heartbeat_ping_def worker_columns_defaults
      elim!: update_monitors_effect [rotated] update_monitors_checked_effect [rotated]
        insert_monitor_effect [rotated] upsert_monitor_effect [rotated 2])

end
