(* ===== verification/Site_Worker.thy ===== *)
theory Site_Worker
  imports Check_Loop Notification_Service Check_Repository Incident_Repository Monitor_Admin_Repository
begin

text \<open>
  \<^verbatim>\<open>src/worker/site_worker.rs\<close>: saving the result of a check (the check row, the incident, the
  notifications and the monitor's last result in one transaction), the lease heartbeat of a running
  check, the retention of the check history, and the loop of the worker. A round's environment
  says what the clocks, the shutdown flag and the other sessions do between its steps.
\<close>

section \<open>Saving a result\<close>

datatype incident_action = OpenIncident | UpdateExisting | ReopenMissing | ResolveIncident | NoAction

definition classify_incident_action :: "bool option \<Rightarrow> bool \<Rightarrow> bool \<Rightarrow> incident_action" where
  "classify_incident_action last_is_success current_is_success has_open_incident =
     (case (last_is_success, current_is_success) of
        (None, False) \<Rightarrow> OpenIncident
      | (Some True, False) \<Rightarrow> OpenIncident
      | (Some False, False) \<Rightarrow> if has_open_incident then UpdateExisting else ReopenMissing
      | (Some False, True) \<Rightarrow> if has_open_incident then ResolveIncident else NoAction
      | _ \<Rightarrow> NoAction)"

definition open_params :: "site_monitor \<Rightarrow> site_monitor_check \<Rightarrow> open_incident_params" where
  "open_params m check =
     \<lparr>oip_site_monitor_id = sm_id m, oip_monitor_type = sm_monitor_type m,
      oip_target_url = sm_target_url m, oip_expected_status_code = sm_expected_status_code m,
      oip_check_id = smc_id check, oip_checked_at = smc_checked_at check,
      oip_status_code = smc_status_code check, oip_failure_reason = smc_failure_reason check,
      oip_error_message = smc_error_message check\<rparr>"

definition failure_params :: "site_monitor_check \<Rightarrow> incident_failure_params" where
  "failure_params check =
     \<lparr>ifp_check_id = smc_id check, ifp_checked_at = smc_checked_at check,
      ifp_status_code = smc_status_code check, ifp_failure_reason = smc_failure_reason check,
      ifp_error_message = smc_error_message check\<rparr>"

definition resolve_params :: "site_monitor_check \<Rightarrow> resolve_incident_params" where
  "resolve_params check =
     \<lparr>rip_check_id = smc_id check, rip_checked_at = smc_checked_at check,
      rip_status_code = smc_status_code check, rip_response_time_ms = smc_response_time_ms check\<rparr>"

text \<open>\<open>with_open\<close> is the source's \<open>expect\<close>: its failure would be a panic.\<close>

definition with_open ::
  "site_monitor_incident option \<Rightarrow> (id \<Rightarrow> (db, bool) stmt) \<Rightarrow> (db, id option) stmt" where
  "with_open open_inc s =
     (case open_inc of
        None \<Rightarrow> stmt_fail (Bail ''requires an open incident'')
      | Some i \<Rightarrow> stmt_bind (s (inc_id i)) (\<lambda>_. stmt_return (Some (inc_id i))))"

definition manage_incident_lifecycle ::
  "timestamp \<Rightarrow> site_monitor \<Rightarrow> site_monitor_check \<Rightarrow> (db, id option) stmt" where
  "manage_incident_lifecycle now m check d =
     (let open_inc =
            (if sm_last_is_success m = Some False
             then get_open_incident_for_monitor (sm_id m) d else None);
          open_new =
            stmt_bind (open_incident now (sm_site_id m) (open_params m check))
              (\<lambda>i. stmt_return (Some (inc_id i)))
      in (case classify_incident_action (sm_last_is_success m) (smc_is_success check) (open_inc \<noteq> None) of
            OpenIncident \<Rightarrow> open_new
          | ReopenMissing \<Rightarrow> open_new
          | UpdateExisting \<Rightarrow>
              with_open open_inc (\<lambda>i. update_incident_failure now i (failure_params check))
          | ResolveIncident \<Rightarrow> with_open open_inc (\<lambda>i. resolve_incident now i (resolve_params check))
          | NoAction \<Rightarrow> stmt_return None) d)"

definition check_params :: "site_monitor \<Rightarrow> completed_monitor_check \<Rightarrow> create_monitor_check_params" where
  "check_params m completed =
     (let result = cmk_result completed; cert = cr_certificate_metadata result
      in \<lparr>cmc_monitor_type = sm_monitor_type m, cmc_url_checked = sm_target_url m,
          cmc_expected_status_code =
            (case sm_monitor_type m of Http \<Rightarrow> Some (sm_expected_status_code m)
             | Ssl \<Rightarrow> None | Heartbeat \<Rightarrow> None | Tcp \<Rightarrow> None | Dns \<Rightarrow> None),
          cmc_is_success = cr_is_success result, cmc_status_code = cr_status_code result,
          cmc_response_time_ms = cr_response_time_ms result,
          cmc_total_duration_ms = Some (cmk_total_duration_ms completed),
          cmc_attempt_count = as_i32 (int (cmk_attempt_count completed)),
          cmc_was_retried = 1 < cmk_attempt_count completed,
          cmc_failure_reason = cr_failure_reason result, cmc_error_message = cr_error_message result,
          cmc_certificate_expires_at = map_option cert_expires_at cert,
          cmc_certificate_days_remaining = map_option cert_days_remaining cert,
          cmc_certificate_issuer = map_option cert_issuer cert,
          cmc_certificate_subject = map_option cert_subject cert,
          cmc_certificate_domain = map_option cert_domain cert\<rparr>)"

definition last_check_params :: "check_result \<Rightarrow> monitor_last_check_params" where
  "last_check_params result =
     (let cert = cr_certificate_metadata result
      in \<lparr>mlc_is_success = cr_is_success result, mlc_status_code = cr_status_code result,
          mlc_response_time_ms = cr_response_time_ms result,
          mlc_failure_reason = cr_failure_reason result, mlc_error_message = cr_error_message result,
          mlc_certificate_expires_at = map_option cert_expires_at cert,
          mlc_certificate_days_remaining = map_option cert_days_remaining cert,
          mlc_certificate_issuer = map_option cert_issuer cert,
          mlc_certificate_subject = map_option cert_subject cert,
          mlc_certificate_domain = map_option cert_domain cert\<rparr>)"

text \<open>One transaction: its last statement fails it when the claim has been lost meanwhile.\<close>

definition save_check_result ::
  "(timestamp \<Rightarrow> string) \<Rightarrow> timestamp \<Rightarrow> site_monitor \<Rightarrow> string \<Rightarrow> completed_monitor_check \<Rightarrow> (db, unit) stmt" where
  "save_check_result to_rfc3339 now m worker completed =
     stmt_bind (create_site_monitor_check now (sm_id m) (check_params m completed)) (\<lambda>check.
     stmt_bind (manage_incident_lifecycle now m check) (\<lambda>incident_id.
     stmt_bind (enqueue_site_monitor_notifications to_rfc3339 now m check incident_id) (\<lambda>_.
     stmt_bind
       (update_site_monitor_last_check now (sm_id m) worker (last_check_params (cmk_result completed)))
       (\<lambda>updated. if updated then stmt_return () else stmt_fail (Bail ''no longer owns site monitor'')))))"

section \<open>The claim while a check runs\<close>

definition ensure_site_monitor_initial_lease ::
  "timestamp \<Rightarrow> bool \<Rightarrow> id \<Rightarrow> string \<Rightarrow> duration \<Rightarrow> db \<Rightarrow> bool \<times> db" where
  "ensure_site_monitor_initial_lease now connected i worker initial_lease d =
     (case (if connected
            then extend_site_monitor_claim now i worker (duration_to_lease_seconds initial_lease) d
            else Inl (Bail ''connection'')) of
        Inr (updated, d') \<Rightarrow> (updated, d')
      | Inl _ \<Rightarrow> (False, d))"

text \<open>
  What the \<open>select!\<close> of the heartbeat sees next. Its list ends when the check does: the worker
  then sends the stop signal and waits for the task.
\<close>

datatype claim_event =
    ClaimTick timestamp bool
  | ClaimStop
  | ClaimShutdown bool
  | ClaimShutdownGone

fun heartbeat_site_monitor_claim ::
  "lease_plan \<Rightarrow> id \<Rightarrow> string \<Rightarrow> (others \<times> claim_event) list \<Rightarrow> db \<Rightarrow> db" where
  "heartbeat_site_monitor_claim plan i worker [] d = d"
| "heartbeat_site_monitor_claim plan i worker ((others, event) # events) d =
     (let d = others d in
      case event of
        ClaimStop \<Rightarrow> d
      | ClaimShutdown b \<Rightarrow> if b then d else heartbeat_site_monitor_claim plan i worker events d
      | ClaimShutdownGone \<Rightarrow> d
      | ClaimTick now connected \<Rightarrow>
          (case (if connected
                 then extend_site_monitor_claim now i worker
                        (duration_to_lease_seconds (lp_initial_lease plan)) d
                 else Inl (Bail ''connection'')) of
             Inr (True, d') \<Rightarrow> heartbeat_site_monitor_claim plan i worker events d'
           | Inr (False, d') \<Rightarrow> d'
           | Inl _ \<Rightarrow> heartbeat_site_monitor_claim plan i worker events d))"

record ('c, 's) monitor_run =
  mr_lease_now :: timestamp
  mr_lease_connected :: bool
  mr_loop :: "('c, 's) loop_env"
  mr_heartbeats :: "(others \<times> claim_event) list"
  mr_before_end :: others
  mr_now :: timestamp

datatype monitor_outcome = ClaimLost | ResultSaved | SaveFailed | ClaimReleased | WorkerPanicked

text \<open>One monitor of a round, after its claim; \<open>None\<close> while its check is pending.\<close>

definition check_one_site_monitor ::
  "(timestamp \<Rightarrow> string) \<Rightarrow> 'k config \<Rightarrow> string \<Rightarrow> site_monitor \<Rightarrow> ('c, 's) monitor_run \<Rightarrow> db \<Rightarrow>
   (monitor_outcome \<times> db) option" where
  "check_one_site_monitor to_rfc3339 c worker m run d =
     (let policy = resolve_monitor_check_policy m c;
          plan = derive_site_monitor_lease_plan policy (cfg_lease_site_check_seconds c)
      in case ensure_site_monitor_initial_lease (mr_lease_now run) (mr_lease_connected run) (sm_id m)
                worker (lp_initial_lease plan) d of
           (False, d1) \<Rightarrow> Some (ClaimLost, d1)
         | (True, d1) \<Rightarrow>
             (let d2 = mr_before_end run
                         (heartbeat_site_monitor_claim plan (sm_id m) worker (mr_heartbeats run) d1)
              in case run_monitor_check_with_retries m policy (mr_loop run) of
                   None \<Rightarrow> None
                 | Some (Completed completed) \<Rightarrow>
                     (case save_check_result to_rfc3339 (mr_now run) m worker completed d2 of
                        Inr (_, d3) \<Rightarrow> Some (ResultSaved, d3)
                      | Inl _ \<Rightarrow> Some (SaveFailed, d2))
                 | Some Cancelled \<Rightarrow>
                     Some (ClaimReleased, run_stmt (release_site_monitor_claim (mr_now run) (sm_id m) worker) d2)
                 | Some Panicked \<Rightarrow> Some (WorkerPanicked, d2)))"

text \<open>The monitors of a round, in an order of their own; a panic takes the worker down.\<close>

fun check_site_monitors ::
  "(timestamp \<Rightarrow> string) \<Rightarrow> 'k config \<Rightarrow> string \<Rightarrow> (site_monitor \<times> ('c, 's) monitor_run) list \<Rightarrow> db \<Rightarrow> db option" where
  "check_site_monitors to_rfc3339 c worker [] d = Some d"
| "check_site_monitors to_rfc3339 c worker ((m, run) # rest) d =
     (case check_one_site_monitor to_rfc3339 c worker m run d of
        None \<Rightarrow> None
      | Some (WorkerPanicked, _) \<Rightarrow> None
      | Some (_, d') \<Rightarrow> check_site_monitors to_rfc3339 c worker rest d')"

section \<open>Retention and idling\<close>

definition prune_site_monitor_check_history_if_due ::
  "'k config \<Rightarrow> timestamp \<Rightarrow> bool \<Rightarrow> timestamp \<Rightarrow> db \<Rightarrow> (db_error + nat) \<times> timestamp \<times> db" where
  "prune_site_monitor_check_history_if_due c now lock_acquired next_run_at d =
     (if now < next_run_at then (Inr 0, next_run_at, d)
      else
        let cutoff = add_days now (- as_i64 (int (cfg_site_monitor_check_retention_days c)));
            later = add_seconds now (as_i64 (int (cfg_site_monitor_check_retention_interval_seconds c)))
        in case prune_checks_older_than lock_acquired cutoff
                  (as_i64 (int (cfg_site_monitor_check_retention_batch_size c))) d of
             Inl e \<Rightarrow> (Inl e, next_run_at, d)
           | Inr (None, d') \<Rightarrow> (Inr 0, later, d')
           | Inr (Some n, d') \<Rightarrow>
               (Inr n, if cfg_site_monitor_check_retention_batch_size c \<le> n then now else later, d'))"

definition site_monitor_claim_limit :: "'k config \<Rightarrow> int" where
  "site_monitor_claim_limit c =
     as_i64 (int (min (cfg_due_sites_batch_size c) (cfg_max_http_concurrent_checks c)))"

definition worker_max_poll_interval :: "'k config \<Rightarrow> duration" where
  "worker_max_poll_interval c = from_millis (cfg_worker_max_poll_interval_ms c)"

text \<open>\<open>to_std\<close> of a positive difference of instants, in nanoseconds.\<close>

definition derive_worker_idle_delay ::
  "timestamp \<Rightarrow> timestamp option \<Rightarrow> timestamp option \<Rightarrow> timestamp option \<Rightarrow> duration \<Rightarrow> duration" where
  "derive_worker_idle_delay now check_at delivery_at retention_at max_poll_interval =
     (case list_min (List.map_filter id [check_at, delivery_at, retention_at]) of
        Some next_wake_at \<Rightarrow>
          if next_wake_at > now then min (nat ((next_wake_at - now) * 1000)) max_poll_interval else 0
      | None \<Rightarrow> max_poll_interval)"

definition next_worker_idle_delay ::
  "'k config \<Rightarrow> timestamp \<Rightarrow> timestamp \<Rightarrow> timestamp option \<Rightarrow> db \<Rightarrow> duration" where
  "next_worker_idle_delay c db_now now retention_at d =
     derive_worker_idle_delay now (next_claimable_check_at db_now d) (next_claimable_delivery_at db_now d)
       retention_at (worker_max_poll_interval c)"

section \<open>The loop of the worker\<close>

record ('c, 's) round_env =
  re_shutdown_at_start :: bool
  re_claim_now :: timestamp
  re_claim_connected :: bool
  re_locked_monitors :: "id set"
  re_monitor_run :: "site_monitor \<Rightarrow> ('c, 's) monitor_run"
  re_shutdown_before_delivery :: bool
  re_shutdown_in_delivery :: bool
  re_delivery_now :: timestamp
  re_locked_deliveries :: "id set"
  re_delivery_run :: "claimed_notification_delivery \<Rightarrow> delivery_run"
  re_shutdown_before_retention :: bool
  re_prune_now :: timestamp
  re_lock_acquired :: bool
  re_before_idle :: others
  re_idle_connected :: bool
  re_idle_db_now :: timestamp
  re_idle_now :: timestamp

datatype round_outcome = Stopped | Busy | IdleFor duration

text \<open>The first phase: whether it found work, and the database; \<open>None\<close> while a check is pending.\<close>

definition check_phase ::
  "(timestamp \<Rightarrow> string) \<Rightarrow> 'k config \<Rightarrow> string \<Rightarrow> ('c, 's) round_env \<Rightarrow> db \<Rightarrow> (bool \<times> db) option" where
  "check_phase to_rfc3339 c worker re d =
     (case (if re_claim_connected re
            then claim_site_monitors_due_for_check (re_claim_now re) (re_locked_monitors re) worker
                   (site_monitor_claim_limit c) (as_i64 (int (cfg_lease_site_check_seconds c))) d
            else Inl (Bail ''connection'')) of
        Inl _ \<Rightarrow> Some (False, d)
      | Inr (ms, d1) \<Rightarrow>
          map_option (Pair (ms \<noteq> []))
            (check_site_monitors to_rfc3339 c worker (map (\<lambda>m. (m, re_monitor_run re m)) ms) d1))"

definition worker_round ::
  "send_env \<Rightarrow> (timestamp \<Rightarrow> string) \<Rightarrow> encryption_key config \<Rightarrow> string \<Rightarrow> ('c, 's) round_env \<Rightarrow> timestamp \<Rightarrow> db \<Rightarrow>
   (round_outcome \<times> timestamp \<times> db) option" where
  "worker_round env to_rfc3339 c worker re retention_at d =
     (if re_shutdown_at_start re then Some (Stopped, retention_at, d)
      else
        Option.bind (check_phase to_rfc3339 c worker re d) (\<lambda>(found_checks, d1).
        if re_shutdown_before_delivery re then Some (Stopped, retention_at, d1)
        else
          Option.bind
            (deliver_due_notifications env c worker (re_shutdown_in_delivery re) (re_delivery_now re)
               (re_locked_deliveries re) (re_delivery_run re) d1) (\<lambda>(delivered, d2).
          if re_shutdown_before_retention re then Some (Stopped, retention_at, d2)
          else
            (case prune_site_monitor_check_history_if_due c (re_prune_now re) (re_lock_acquired re)
                    retention_at d2 of
               (pruned, retention_at', d3) \<Rightarrow>
                 if found_checks \<or> (case delivered of Inr n \<Rightarrow> 0 < n | Inl _ \<Rightarrow> False) \<or>
                    (case pruned of Inr n \<Rightarrow> 0 < n | Inl _ \<Rightarrow> False)
                 then Some (Busy, retention_at', d3)
                 else
                   let d4 = re_before_idle re d3
                   in Some (IdleFor
                        (if re_idle_connected re
                         then next_worker_idle_delay c (re_idle_db_now re) (re_idle_now re)
                                (Some retention_at') d4
                         else worker_max_poll_interval c), retention_at', d4)))))"

text \<open>
  The loop over the rounds it is given, each with what ends its idle wait: the worker returned
  (\<open>True\<close>) or is still running at the end of the list.
\<close>

fun run_rounds ::
  "send_env \<Rightarrow> (timestamp \<Rightarrow> string) \<Rightarrow> encryption_key config \<Rightarrow> string \<Rightarrow>
   (('c, 's) round_env \<times> wait_event) list \<Rightarrow> timestamp \<Rightarrow> db \<Rightarrow> (bool \<times> db) option" where
  "run_rounds env to_rfc3339 c worker [] retention_at d = Some (False, d)"
| "run_rounds env to_rfc3339 c worker ((re, wake) # rest) retention_at d =
     (case worker_round env to_rfc3339 c worker re retention_at d of
        None \<Rightarrow> None
      | Some (Stopped, _, d') \<Rightarrow> Some (True, d')
      | Some (Busy, retention_at', d') \<Rightarrow> run_rounds env to_rfc3339 c worker rest retention_at' d'
      | Some (IdleFor _, retention_at', d') \<Rightarrow>
          (case wake of
             WaitChanged b \<Rightarrow>
               if b then Some (True, d') else run_rounds env to_rfc3339 c worker rest retention_at' d'
           | WaitClosed \<Rightarrow> Some (True, d')
           | WaitElapsed \<Rightarrow> run_rounds env to_rfc3339 c worker rest retention_at' d'))"

section \<open>Facts about saving\<close>

text \<open>An open incident belongs to a monitor whose last result is a failure.\<close>

definition failing_incidents :: "db \<Rightarrow> bool" where
  "failing_incidents d \<longleftrightarrow>
     (\<forall>i \<in> set (db_incidents d). is_open i \<longrightarrow>
        (\<exists>m \<in> set (db_monitors d). sm_id m = inc_site_monitor_id i \<and> sm_last_is_success m = Some False))"

lemma update_incidents_spares:
  assumes "update_incidents p f d = Inr (n, d')" "keeps_incident f"
    and "\<And>i. i \<in> set (db_incidents d) \<Longrightarrow> p i \<Longrightarrow> inc_site_monitor_id i \<noteq> j"
  shows "open_incidents_of j d' = open_incidents_of j d"
proof -
  obtain t where t: "try_update_rows p f (db_incidents d) = Inr t" "d' = d\<lparr>db_incidents := t\<rparr>"
    using assms(1) unfolding update_incidents_Inr by blast
  from t(1) have "list_all2 (\<lambda>r r'. if p r then f r = Inr r' else r' = r) (db_incidents d) t"
    unfolding try_update_rows_Inr .
  then have "filter (\<lambda>i. inc_site_monitor_id i = j \<and> is_open i) t =
      filter (\<lambda>i. inc_site_monitor_id i = j \<and> is_open i) (db_incidents d)"
    using assms(3)
  proof (induction rule: list_all2_induct)
    case Nil
    then show ?case by simp
  next
    case (Cons x xs y ys)
    have "inc_site_monitor_id y = inc_site_monitor_id x" "\<not> p x \<Longrightarrow> y = x" "p x \<Longrightarrow> inc_site_monitor_id x \<noteq> j"
      using Cons.hyps(1) Cons.prems assms(2) by (auto simp: keeps_incident_def split: if_splits)
    then show ?case
      using Cons.IH Cons.prems by (cases "p x") auto
  qed
  then show ?thesis
    by (simp add: open_incidents_of_def t(2))
qed

lemma update_incidents_frame:
  "update_incidents p f d = Inr (n, d') \<Longrightarrow>
   db_monitors d' = db_monitors d \<and> db_checks d' = db_checks d \<and> db_deliveries d' = db_deliveries d \<and>
   db_next_delivery d' = db_next_delivery d \<and> db_sites d' = db_sites d"
  by (auto simp: update_incidents_Inr)

lemma get_open_incident_Some:
  assumes "get_open_incident_for_monitor j d = Some i"
  shows "i \<in> set (db_incidents d)" "inc_site_monitor_id i = j" "is_open i"
proof -
  have "i \<in> set (open_incidents_of j d)"
    using assms
    by (cases "open_incidents_of j d")
      (auto simp: get_open_incident_for_monitor_def fetch_optional_def limit_rows_def)
  then show "i \<in> set (db_incidents d)" "inc_site_monitor_id i = j" "is_open i"
    by (simp_all add: open_incidents_of_def)
qed

lemma get_open_incident_None: "get_open_incident_for_monitor j d = None \<longleftrightarrow> open_incidents_of j d = []"
  by (auto simp: get_open_incident_for_monitor_def fetch_optional_def limit_rows_def split: list.splits)

lemma single_open:
  assumes "incident_inv d" "get_open_incident_for_monitor j d = Some i"
  shows "open_incidents_of j d = [i]"
  using assms
  by (cases "open_incidents_of j d")
    (auto simp: get_open_incident_for_monitor_def fetch_optional_def limit_rows_def incident_inv_def
      dest!: spec [of _ j])

text \<open>An update of the one open incident of a monitor leaves it open or closes it.\<close>

lemma update_open_incident:
  assumes "update_incidents (\<lambda>x. inc_id x = inc_id i \<and> is_open x) f d = Inr (n, d')"
    and "keeps_incident f" "incident_inv d" "get_open_incident_for_monitor j d = Some i"
    and "\<And>x x'. is_open x \<Longrightarrow> f x = Inr x' \<Longrightarrow> is_open x' \<longleftrightarrow> still_open"
  shows "length (open_incidents_of j d') = (if still_open then 1 else 0)"
proof -
  note i = get_open_incident_Some [OF assms(4)]
  let ?p = "\<lambda>x. inc_id x = inc_id i \<and> is_open x"
  obtain t where t: "try_update_rows ?p f (db_incidents d) = Inr t" "d' = d\<lparr>db_incidents := t\<rparr>"
    using assms(1) unfolding update_incidents_Inr by blast
  have one: "inc_site_monitor_id x = j \<and> is_open x \<longleftrightarrow> ?p x" if "x \<in> set (db_incidents d)" for x
  proof
    assume "inc_site_monitor_id x = j \<and> is_open x"
    then have "x \<in> set (open_incidents_of j d)"
      using that by (simp add: open_incidents_of_def)
    then show "?p x" using single_open [OF assms(3,4)] i by simp
  next
    assume "?p x"
    then have "x = i"
      using distinct_map_eqD [of inc_id "db_incidents d" x i] assms(3) that i
      by (simp add: incident_inv_def)
    then show "inc_site_monitor_id x = j \<and> is_open x" using i by simp
  qed
  from t(1) have "list_all2 (\<lambda>r r'. if ?p r then f r = Inr r' else r' = r) (db_incidents d) t"
    unfolding try_update_rows_Inr .
  then have "length (filter (\<lambda>x. inc_site_monitor_id x = j \<and> is_open x) t) =
      (if still_open then length (filter ?p (db_incidents d)) else 0)"
    using one
  proof (induction rule: list_all2_induct)
    case Nil
    then show ?case by simp
  next
    case (Cons x xs y ys)
    have "?p x \<Longrightarrow> inc_site_monitor_id y = inc_site_monitor_id x" "\<not> ?p x \<Longrightarrow> y = x"
      using Cons.hyps(1) assms(2) by (simp_all add: keeps_incident_def)
    moreover have "?p x \<Longrightarrow> is_open y \<longleftrightarrow> still_open"
      using Cons.hyps(1) assms(5) [of x y] by simp
    moreover have "inc_site_monitor_id x = j \<and> is_open x \<longleftrightarrow> ?p x"
      using Cons.prems by simp
    ultimately show ?case
      using Cons.IH Cons.prems by (cases "?p x") auto
  qed
  moreover have "filter ?p (db_incidents d) = open_incidents_of j d"
    unfolding open_incidents_of_def by (rule filter_cong) (use one in auto)
  ultimately show ?thesis
    using single_open [OF assms(3,4)] i(3) t(2) by (simp add: open_incidents_of_def)
qed

text \<open>What the incident step of a save does, on each of its branches.\<close>

definition only_incidents :: "db \<Rightarrow> db \<Rightarrow> bool" where
  "only_incidents d d' \<longleftrightarrow>
     db_monitors d' = db_monitors d \<and> db_checks d' = db_checks d \<and> db_deliveries d' = db_deliveries d \<and>
     db_next_delivery d' = db_next_delivery d \<and> db_sites d' = db_sites d"

definition incident_step :: "id \<Rightarrow> bool \<Rightarrow> db \<Rightarrow> db \<Rightarrow> bool" where
  "incident_step j ok d d' \<longleftrightarrow>
     incident_inv d' \<and> length (open_incidents_of j d') = (if ok then 0 else 1) \<and>
     (\<forall>k. if k = j then True else open_incidents_of k d' = open_incidents_of k d) \<and> only_incidents d d'"

lemma opened_incident_step:
  assumes "open_incident now site p d = Inr (i, d')" "incident_inv d" "j = oip_site_monitor_id p"
  shows "incident_step j False d d'"
proof -
  note o = assms(1) [unfolded open_incident_Inr]
  then have d': "d' = d\<lparr>db_incidents := db_incidents d @ [i], db_next_incident := db_next_incident d + 1\<rparr>"
    and "inc_site_monitor_id i = j" "is_open i" "open_incidents_of j d = []"
    using assms(3) by (simp_all add: incident_row_def is_open_def)
  then have "open_incidents_of k d' = (if k = j then [i] else open_incidents_of k d)" for k
    by (simp add: open_incidents_of_append)
  moreover have "only_incidents d d'"
    by (simp add: only_incidents_def d')
  ultimately show ?thesis
    using open_incident_inv [OF assms(1,2)] by (simp add: incident_step_def)
qed

lemma updated_incident_step:
  assumes "update_incidents (\<lambda>x. inc_id x = inc_id i \<and> is_open x) f d = Inr (n, d')"
    and "keeps_incident f" "incident_inv d" "get_open_incident_for_monitor j d = Some i"
    and "\<And>x x'. is_open x \<Longrightarrow> f x = Inr x' \<Longrightarrow> is_open x' \<longleftrightarrow> \<not> ok"
  shows "incident_step j ok d d'"
proof -
  note i = get_open_incident_Some [OF assms(4)]
  have unique: "inc_site_monitor_id x = j" if "x \<in> set (db_incidents d)" "inc_id x = inc_id i" for x
    using distinct_map_eqD [of inc_id "db_incidents d" x i] assms(3) that i
    by (simp add: incident_inv_def)
  then have "open_incidents_of k d' = open_incidents_of k d" if "k \<noteq> j" for k
    using update_incidents_spares [OF assms(1,2), of k] that by blast
  moreover have "length (open_incidents_of j d') = (if \<not> ok then 1 else 0)"
    by (rule update_open_incident [OF assms])
  ultimately show ?thesis
    using update_incidents_inv [OF assms(1,2,3)] update_incidents_frame [OF assms(1)] 
    by (simp add: incident_step_def only_incidents_def)
qed

lemma no_incident_step: "incident_inv d \<Longrightarrow> open_incidents_of j d = [] \<Longrightarrow> incident_step j True d d"
  by (simp add: incident_step_def only_incidents_def)

lemma incident_lifecycle_step:
  assumes "manage_incident_lifecycle now m check d = Inr (r, d')" "incident_inv d"
    and "open_incidents_of (sm_id m) d \<noteq> [] \<Longrightarrow> sm_last_is_success m = Some False"
  shows "incident_step (sm_id m) (smc_is_success check) d d'"
proof -
  let ?open = "get_open_incident_for_monitor (sm_id m) d"
  have opens: "incident_step (sm_id m) False d d'"
    if opened: "stmt_bind (open_incident now (sm_site_id m) (open_params m check))
      (\<lambda>i. stmt_return (Some (inc_id i))) d = Inr (r, d')"
  proof -
    obtain i where "open_incident now (sm_site_id m) (open_params m check) d = Inr (i, d')"
      using opened by (auto simp: stmt_bind_Inr_iff)
    then show ?thesis
      by (rule opened_incident_step [OF _ assms(2)]) (simp add: open_params_def)
  qed
  show ?thesis
  proof (cases "sm_last_is_success m = Some False")
    case False
    then have "open_incidents_of (sm_id m) d = []" using assms(3) by blast
    with False show ?thesis
      using assms(1,2) opens no_incident_step
      by (auto simp: manage_incident_lifecycle_def classify_incident_action_def Let_def
          split: option.splits bool.splits)
  next
    case True
    show ?thesis
    proof (cases ?open)
      case None
      then show ?thesis
        using True assms(1,2) opens no_incident_step get_open_incident_None [of "sm_id m" d]
        by (auto simp: manage_incident_lifecycle_def classify_incident_action_def Let_def
            split: bool.splits)
    next
      case (Some i)
      show ?thesis
      proof (cases "smc_is_success check")
        case ok: True
        obtain n where "update_incidents (\<lambda>x. inc_id x = inc_id i \<and> is_open x)
            (recovered_row now (resolve_params check)) d = Inr (n, d')"
          using True Some ok assms(1)
          by (auto simp: manage_incident_lifecycle_def classify_incident_action_def Let_def with_open_def
              stmt_bind_Inr_iff resolve_incident_def)
        then show ?thesis
          by (rule updated_incident_step [OF _ row_ops_keep_incident(2) assms(2) Some])
            (auto simp: ok recovered_row_def and_then_eq_Inr is_open_def)
      next
        case bad: False
        obtain n where "update_incidents (\<lambda>x. inc_id x = inc_id i \<and> is_open x)
            (failure_row now (failure_params check)) d = Inr (n, d')"
          using True Some bad assms(1)
          by (auto simp: manage_incident_lifecycle_def classify_incident_action_def Let_def with_open_def
              stmt_bind_Inr_iff update_incident_failure_def)
        then show ?thesis
          by (rule updated_incident_step [OF _ row_ops_keep_incident(1) assms(2) Some])
            (auto simp: bad failure_row_def and_then_eq_Inr is_open_def)
      qed
    qed
  qed
qed

lemma enqueue_deliveries_frame:
  "enqueue_deliveries now ns d = Inr (u, d') \<Longrightarrow>
   db_monitors d' = db_monitors d \<and> db_checks d' = db_checks d \<and> db_incidents d' = db_incidents d \<and>
   db_next_incident d' = db_next_incident d \<and> db_sites d' = db_sites d"
proof (induction ns arbitrary: d)
  case Nil
  then show ?case by simp
next
  case (Cons n ns)
  then obtain d1 where "insert_delivery now n d = Inr ((), d1)" "enqueue_deliveries now ns d1 = Inr (u, d')"
    by (auto simp: stmt_bind_Inr_iff)
  with Cons.IH [of d1] show ?case
    by (auto simp: insert_delivery_def Let_def split: if_splits)
qed

lemma enqueue_notifications_frame:
  assumes "enqueue_site_monitor_notifications f now m check inc d = Inr (k, d')"
  shows "db_monitors d' = db_monitors d \<and> db_checks d' = db_checks d \<and> db_incidents d' = db_incidents d \<and>
    db_next_incident d' = db_next_incident d \<and> db_sites d' = db_sites d"
proof (cases "determine_event_type (sm_last_is_success m) (smc_is_success check)")
  case None
  with assms show ?thesis
    by (simp add: enqueue_site_monitor_notifications_def)
next
  case (Some e)
  from enqueue_notifications_Some [OF Some assms] show ?thesis
    using enqueue_deliveries_frame by blast
qed

text \<open>The stages of a saved result.\<close>

lemma save_check_result_Inr:
  assumes "save_check_result f now m w completed d = Inr (u, d')"
  obtains check d1 d2 d3 inc k where
    "check = check_row now (db_next_check d) (sm_id m) (check_params m completed)"
    "d1 = d\<lparr>db_checks := db_checks d @ [check], db_next_check := db_next_check d + 1\<rparr>"
    "manage_incident_lifecycle now m check d1 = Inr (inc, d2)"
    "enqueue_site_monitor_notifications f now m check inc d2 = Inr (k, d3)"
    "rows_affected (owns_claim (sm_id m) w) (db_monitors d3) = 1"
    "d' = d3\<lparr>db_monitors := update_rows (owns_claim (sm_id m) w)
        (last_check_row now (last_check_params (cmk_result completed))) (db_monitors d3)\<rparr>"
  using assms
  unfolding save_check_result_def stmt_bind_Inr_iff create_site_monitor_check_Inr
    update_site_monitor_last_check_def update_claimed_def
  by (auto split: if_splits)

lemma check_row_sel [simp]:
  "smc_id (check_row now i j p) = i"
  "smc_is_success (check_row now i j p) = cmc_is_success p"
  "cmc_is_success (check_params m completed) = cr_is_success (cmk_result completed)"
  "mlc_is_success (last_check_params r) = cr_is_success r"
  by (simp_all add: check_row_def check_params_def last_check_params_def Let_def)

lemma incident_inv_checks [simp]:
  "incident_inv (d\<lparr>db_checks := cs, db_next_check := n\<rparr>) = incident_inv d"
  "open_incidents_of j (d\<lparr>db_checks := cs, db_next_check := n\<rparr>) = open_incidents_of j d"
  by (simp_all add: incident_inv_def open_incidents_of_def)

lemma incident_inv_cong:
  "db_incidents d' = db_incidents d \<Longrightarrow> db_next_incident d' = db_next_incident d \<Longrightarrow>
   incident_inv d' = incident_inv d"
  "db_incidents d' = db_incidents d \<Longrightarrow> open_incidents_of j d' = open_incidents_of j d"
  by (simp_all add: incident_inv_def open_incidents_of_def)

lemma update_owned_by_id:
  assumes "distinct (map sm_id t)" "rows_affected (owns_claim i w) t = 1"
  shows "update_rows (owns_claim i w) f t = update_rows (\<lambda>x. sm_id x = i) f t"
    and "\<exists>x \<in> set t. owns_claim i w x"
proof -
  show ex: "\<exists>x \<in> set t. owns_claim i w x"
    using assms(2) rows_affected_0_iff [of "owns_claim i w" t] by auto
  show "update_rows (owns_claim i w) f t = update_rows (\<lambda>x. sm_id x = i) f t"
    unfolding update_rows_def
    by (rule map_cong [OF refl])
      (use ex distinct_map_eqD [OF assms(1)] in \<open>auto simp: owns_claim_def\<close>)
qed

lemma failing_incidents_open:
  "failing_incidents d \<longleftrightarrow>
     (\<forall>j. if open_incidents_of j d = [] then True
          else \<exists>m \<in> set (db_monitors d). sm_id m = j \<and> sm_last_is_success m = Some False)"
  by (auto simp: failing_incidents_def open_incidents_of_def filter_empty_conv)

lemma failing_incidents_monitor:
  assumes "failing_incidents d" "monitors_wf d" "cur \<in> set (db_monitors d)"
    "open_incidents_of (sm_id cur) d \<noteq> []"
  shows "sm_last_is_success cur = Some False"
proof -
  obtain x where "x \<in> set (db_monitors d)" "sm_id x = sm_id cur" "sm_last_is_success x = Some False"
    using assms(1,4) spec [of _ "sm_id cur"] unfolding failing_incidents_open by (auto split: if_splits)
  moreover from this have "x = cur"
    using distinct_map_eqD [of sm_id "db_monitors d" x cur] assms(2,3) by (simp add: monitors_wf_def)
  ultimately show ?thesis by simp
qed

lemma saved_result_step:
  assumes "incident_inv d" "failing_incidents d" "monitors_wf d"
    and "cur \<in> set (db_monitors d)" "sm_id cur = sm_id m" "sm_last_is_success cur = sm_last_is_success m"
    and "save_check_result f now m w completed d = Inr ((), d')"
  shows "incident_inv d' \<and> failing_incidents d' \<and> sm_check_claimed_by cur = Some w \<and>
    length (open_incidents_of (sm_id m) d') = (if cr_is_success (cmk_result completed) then 0 else 1) \<and>
    (\<forall>k. open_incidents_of k d' = (if k = sm_id m then open_incidents_of k d' else open_incidents_of k d)) \<and>
    db_monitors d' = update_rows (\<lambda>x. sm_id x = sm_id m)
      (last_check_row now (last_check_params (cmk_result completed))) (db_monitors d) \<and>
    db_checks d' = db_checks d @ [check_row now (db_next_check d) (sm_id m) (check_params m completed)]"
proof -
  obtain check d1 d2 d3 inc k where
    check: "check = check_row now (db_next_check d) (sm_id m) (check_params m completed)"
    and d1: "d1 = d\<lparr>db_checks := db_checks d @ [check], db_next_check := db_next_check d + 1\<rparr>"
    and life: "manage_incident_lifecycle now m check d1 = Inr (inc, d2)"
    and enq: "enqueue_site_monitor_notifications f now m check inc d2 = Inr (k, d3)"
    and own: "rows_affected (owns_claim (sm_id m) w) (db_monitors d3) = 1"
    and d': "d' = d3\<lparr>db_monitors := update_rows (owns_claim (sm_id m) w)
        (last_check_row now (last_check_params (cmk_result completed))) (db_monitors d3)\<rparr>"
    by (rule save_check_result_Inr [OF assms(7)])
  have ok: "smc_is_success check = cr_is_success (cmk_result completed)"
    by (simp add: check)
  have "incident_step (sm_id m) (smc_is_success check) d1 d2"
    by (rule incident_lifecycle_step [OF life])
      (use assms failing_incidents_monitor [of d cur] in \<open>simp_all add: d1\<close>)
  then have step: "incident_inv d2"
    "length (open_incidents_of (sm_id m) d2) = (if cr_is_success (cmk_result completed) then 0 else 1)"
    "\<And>k. k \<noteq> sm_id m \<Longrightarrow> open_incidents_of k d2 = open_incidents_of k d"
    "db_monitors d2 = db_monitors d" "db_checks d2 = db_checks d @ [check]"
    unfolding incident_step_def only_incidents_def ok by (auto simp: d1)
  note fr = enqueue_notifications_frame [OF enq]
  have inc': "incident_inv d'" "\<And>j. open_incidents_of j d' = open_incidents_of j d2"
    using fr step(1) incident_inv_cong [of d' d2] by (simp_all add: d')
  have mon: "db_monitors d' = update_rows (\<lambda>x. sm_id x = sm_id m)
      (last_check_row now (last_check_params (cmk_result completed))) (db_monitors d)"
    and cl: "sm_check_claimed_by cur = Some w"
  proof -
    have wf: "distinct (map sm_id (db_monitors d))"
      using assms(3) by (simp add: monitors_wf_def)
    have own': "rows_affected (owns_claim (sm_id m) w) (db_monitors d) = 1"
      using own fr step(4) by simp
    show "db_monitors d' = update_rows (\<lambda>x. sm_id x = sm_id m)
        (last_check_row now (last_check_params (cmk_result completed))) (db_monitors d)"
      using fr step(4) by (simp add: d' update_owned_by_id(1) [OF wf own'])
    obtain x where "x \<in> set (db_monitors d)" "owns_claim (sm_id m) w x"
      using update_owned_by_id(2) [OF wf own'] by blast
    moreover from this have "x = cur"
      using distinct_map_eqD [OF wf _ assms(4), of x] assms(5) by (simp add: owns_claim_def)
    ultimately show "sm_check_claimed_by cur = Some w"
      by (simp add: owns_claim_def)
  qed
  have "failing_incidents d'"
    unfolding failing_incidents_open
  proof (intro allI)
    fix j
    show "if open_incidents_of j d' = [] then True
        else \<exists>m \<in> set (db_monitors d'). sm_id m = j \<and> sm_last_is_success m = Some False"
    proof (cases "j = sm_id m")
      case True
      show ?thesis
      proof (cases "open_incidents_of j d' = []")
        case bad: False
        then have "\<not> cr_is_success (cmk_result completed)"
          using step(2) inc'(2) True by (auto split: if_splits)
        moreover have "last_check_row now (last_check_params (cmk_result completed)) cur \<in> set (db_monitors d')"
          using assms(4,5) by (auto simp: mon set_update_rows)
        ultimately show ?thesis
          using True assms(5) bad
          by (auto intro!: bexI [of _ "last_check_row now (last_check_params (cmk_result completed)) cur"])
      qed simp
    next
      case False
      then have same: "open_incidents_of j d' = open_incidents_of j d"
        using step(3) inc'(2) by simp
      have "x \<in> set (db_monitors d')" if "x \<in> set (db_monitors d)" "sm_id x = j" for x
        using that False by (auto simp: mon set_update_rows)
      then show ?thesis
        using assms(2) spec [of _ j] unfolding failing_incidents_open same by (auto split: if_splits)
    qed
  qed
  then show ?thesis
    using inc' step fr cl mon by (simp add: d' check)
qed

section \<open>Properties of the worker\<close>


text \<open>A database whose monitor is claimed, and a check of it that failed, for the witness.\<close>

definition sample_claimed_monitor :: site_monitor where
  "sample_claimed_monitor = claim_row 60 ''w1'' 90 sample_monitor"

definition sample_worker_db :: db where
  "sample_worker_db = sample_override_db\<lparr>db_monitors := [sample_claimed_monitor], db_checks := []\<rparr>"

definition sample_completed :: completed_monitor_check where
  "sample_completed =
     \<lparr>cmk_result = failed_check (Some 10) ''timeout'' ''timed out'' None, cmk_attempt_count = 2,
      cmk_total_duration_ms = 21\<rparr>"

lemma sample_worker_inv:
  "incident_inv sample_worker_db" "failing_incidents sample_worker_db" "monitors_wf sample_worker_db"
  by (simp_all add: sample_worker_db_def sample_override_db_def empty_db_def incident_inv_def
      failing_incidents_def monitors_wf_def open_incidents_of_def)

lemma sample_save:
  "\<exists>d'. save_check_result show_int 70 sample_claimed_monitor ''w1'' sample_completed sample_worker_db = Inr ((), d')"
  by (simp add: save_check_result_def sample_worker_db_def sample_override_db_def empty_db_def
      create_site_monitor_check_def find_monitor_def sample_claimed_monitor_def sample_monitor_def
      claim_row_def stmt_bind_def Let_def manage_incident_lifecycle_def classify_incident_action_def
      open_incident_def open_params_def find_site_def check_row_def open_incidents_of_def
      enqueue_site_monitor_notifications_def determine_event_type_def check_params_def
      sample_completed_def failed_check_def notified_channels_def list_effective_by_site_id_def
      sample_channel_def find_override_def effective_channel_def order_by_def
      load_notification_context_def new_delivery_def insert_delivery_def incident_row_def
      new_delivery_key_def delivery_references_exist_def find_channel_def
      update_site_monitor_last_check_def update_claimed_def rows_affected_def owns_claim_def
      as_i32_def)


text \<open>
  C18: an idle worker never sleeps past work. The delay it derives is at most the configured poll
  interval, and no monitor and no delivery becomes claimable, nor a retention run due, between
  the instant it looked (on a clock the database shares) and the moment it wakes up.
\<close>

theorem idle_worker_wakes_in_time:
  assumes "0 < next_worker_idle_delay c now now (Some retention_at) d" "0 \<le> limit" "now \<le> t"
    and "(t - now) * 1000 < int (next_worker_idle_delay c now now (Some retention_at) d)"
  shows "next_worker_idle_delay c now now (Some retention_at) d \<le> worker_max_poll_interval c \<and>
    t < retention_at \<and>
    claim_site_monitors_due_for_check t locked w limit s d = Inr ([], d) \<and>
    claim_due_deliveries t locked w limit s d = Inr ([], d)"
proof -
  let ?cs = "next_claimable_check_at now d"
  let ?ds = "next_claimable_delivery_at now d"
  let ?wakes = "List.map_filter id [?cs, ?ds, Some retention_at]"
  have wakes: "y \<in> set ?wakes \<longleftrightarrow> ?cs = Some y \<or> ?ds = Some y \<or> y = retention_at" for y
    by (auto simp: map_filter_simps split: option.splits)
  then have "?wakes \<noteq> []"
    by (metis list.set_intros(1) list.set_sel(1) empty_iff list.set(1))
  then obtain wake where wake: "list_min ?wakes = Some wake"
    using list_min_None [of ?wakes] by (cases "list_min ?wakes") simp_all
  have delay: "next_worker_idle_delay c now now (Some retention_at) d =
      (if wake > now then min (nat ((wake - now) * 1000)) (worker_max_poll_interval c) else 0)"
    by (simp only: next_worker_idle_delay_def derive_worker_idle_delay_def wake option.case)
  then have "wake > now"
    using assms(1) by (simp split: if_splits)
  with delay assms(4) have "t < wake" "next_worker_idle_delay c now now (Some retention_at) d \<le> worker_max_poll_interval c"
    by simp_all
  moreover have "t < y" if "y \<in> set ?wakes" for y
    using that wake \<open>t < wake\<close> unfolding list_min_Some by fastforce
  then have "t < retention_at" "?cs = Some y \<Longrightarrow> t < y" "?ds = Some y \<Longrightarrow> t < y" for y
    using wakes by blast+
  ultimately show ?thesis
    using no_check_is_due_before_wakeup [OF assms(3,2), of d] no_delivery_is_due_before_wakeup [OF assms(3,2), of d]
    by (cases ?cs; cases ?ds) simp_all
qed


theorem idle_worker_wakes_in_time_witness:
  "\<forall>c. next_worker_idle_delay (c\<lparr>cfg_worker_max_poll_interval_ms := 5000\<rparr>) 100 100 (Some 2000100) empty_db
       = 2000000000 \<and>
     claim_due_deliveries 1999000 {} ''w1'' 5 30 empty_db = Inr ([], empty_db)"
proof (intro allI conjI)
  fix c :: "'a config"
  let ?c = "c\<lparr>cfg_worker_max_poll_interval_ms := 5000\<rparr>"
  have n: "next_claimable_check_at 100 empty_db = None" "next_claimable_delivery_at 100 empty_db = None"
    by (simp_all add: next_claimable_check_at_def next_claimable_delivery_at_def empty_db_def)
  have "list_min [2000100 :: int] = Some 2000100"
    by (simp add: list_min_def)
  then show delay: "next_worker_idle_delay ?c 100 100 (Some 2000100) empty_db = 2000000000"
    by (simp add: next_worker_idle_delay_def derive_worker_idle_delay_def n map_filter_simps
        worker_max_poll_interval_def from_millis_def)
  show "claim_due_deliveries 1999000 {} ''w1'' 5 30 empty_db = Inr ([], empty_db)"
    using idle_worker_wakes_in_time [of ?c 100 2000100 empty_db 5 1999000 "{}" "''w1''" 30]
    by (simp add: delay)
qed

section \<open>A backlog of old checks is worked off\<close>

text \<open>
  The retention runs of a worker: each at its instant, with or without the advisory lock, after the
  other sessions have acted. Each entry of the answer is the run's result, the instant the next run
  is due at, and the database.
\<close>

definition retention_cutoff :: "'k config \<Rightarrow> timestamp \<Rightarrow> timestamp" where
  "retention_cutoff c now = add_days now (- as_i64 (int (cfg_site_monitor_check_retention_days c)))"

fun retention_runs ::
  "'k config \<Rightarrow> (timestamp \<times> bool \<times> others) list \<Rightarrow> timestamp \<Rightarrow> db \<Rightarrow>
   ((db_error + nat) \<times> timestamp \<times> db) list" where
  "retention_runs c [] next_run_at d = []"
| "retention_runs c ((now, lock_acquired, f) # rest) next_run_at d =
     (case prune_site_monitor_check_history_if_due c now lock_acquired next_run_at (f d) of
        (r, next', d') \<Rightarrow> (r, next', d') # retention_runs c rest next' d')"

text \<open>The other sessions insert checks with fresh ids and at their own time, hence later than \<open>cutoff\<close>.\<close>

definition adds_only_recent_checks :: "timestamp \<Rightarrow> others \<Rightarrow> bool" where
  "adds_only_recent_checks cutoff f \<longleftrightarrow>
     (\<forall>d. checks_wf d \<longrightarrow> checks_wf (f d) \<and> expired_count cutoff (f d) \<le> expired_count cutoff d)"

text \<open>One due run: it drains the backlog, or it deletes a full batch and is due again at once.\<close>

lemma retention_run:
  assumes "next_run_at \<le> now" "now \<le> until" "checks_wf d"
    and "0 < cfg_site_monitor_check_retention_batch_size c"
    and "cfg_site_monitor_check_retention_batch_size c < 2 ^ 63"
    and "prune_site_monitor_check_history_if_due c now lock_acquired next_run_at d = (r, next', d')"
  shows "checks_wf d'" and
    "(\<exists>n < cfg_site_monitor_check_retention_batch_size c. r = Inr n \<and>
        next' = add_seconds now (as_i64 (int (cfg_site_monitor_check_retention_interval_seconds c))) \<and>
        (if lock_acquired then list_all (\<lambda>x. retention_cutoff c now \<le> smc_checked_at x) (db_checks d') else True)) \<or>
     (r = Inr (cfg_site_monitor_check_retention_batch_size c) \<and> next' = now \<and>
        expired_count (retention_cutoff c until) d' + cfg_site_monitor_check_retention_batch_size c =
        expired_count (retention_cutoff c until) d)"
proof -
  let ?b = "cfg_site_monitor_check_retention_batch_size c" and ?cut = "retention_cutoff c now"
  have b: "as_i64 (int ?b) = int ?b"
    using assms(5) by (simp add: as_i64_small)
  have "checks_wf d' \<and> ((\<exists>n < ?b. r = Inr n \<and>
        next' = add_seconds now (as_i64 (int (cfg_site_monitor_check_retention_interval_seconds c))) \<and>
        (if lock_acquired then list_all (\<lambda>x. ?cut \<le> smc_checked_at x) (db_checks d') else True)) \<or>
     (r = Inr ?b \<and> next' = now \<and>
        expired_count (retention_cutoff c until) d' + ?b = expired_count (retention_cutoff c until) d))"
  proof (cases lock_acquired)
    case False
    then show ?thesis
      using assms(1,3,4,6) by (auto simp: prune_site_monitor_check_history_if_due_def Let_def prune_checks_older_than_def)
  next
    case True
    have "\<exists>x d1. prune_checks_older_than True ?cut (int ?b) d = Inr (x, d1)"
      by (simp add: prune_checks_older_than_def Let_def)
    then obtain x d1 where p: "prune_checks_older_than True ?cut (int ?b) d = Inr (x, d1)"
      by blast
    note n = prune_counts [OF assms(3) p]
    have res: "d' = d1" "r = Inr (min ?b (expired_count ?cut d))"
      "next' = (if ?b \<le> min ?b (expired_count ?cut d) then now
         else add_seconds now (as_i64 (int (cfg_site_monitor_check_retention_interval_seconds c))))"
      using assms(1,6) p n(1) True
      by (auto simp: prune_site_monitor_check_history_if_due_def Let_def b retention_cutoff_def)
    have le: "?cut \<le> retention_cutoff c until"
      using assms(2) by (simp add: retention_cutoff_def add_days_def)
    show ?thesis
    proof (cases "?b \<le> expired_count ?cut d")
      case True
      then show ?thesis
        using res n(3) n(2) [OF le] by simp
    next
      case False
      then have "expired_count ?cut d1 = 0"
        using n(2) [OF order_refl] by simp
      then have "list_all (\<lambda>x. ?cut \<le> smc_checked_at x) (db_checks d1)"
        by (simp add: expired_count_def filter_empty_conv list_all_iff linorder_not_less)
      then show ?thesis
        using res n(3) False by simp
    qed
  qed
  then show "checks_wf d'" and
    "(\<exists>n < ?b. r = Inr n \<and>
        next' = add_seconds now (as_i64 (int (cfg_site_monitor_check_retention_interval_seconds c))) \<and>
        (if lock_acquired then list_all (\<lambda>x. ?cut \<le> smc_checked_at x) (db_checks d') else True)) \<or>
     (r = Inr ?b \<and> next' = now \<and>
        expired_count (retention_cutoff c until) d' + ?b = expired_count (retention_cutoff c until) d)"
    by blast+
qed

lemma length_retention_runs [simp]: "length (retention_runs c runs next_run_at d) = length runs"
  by (induction c runs next_run_at d rule: retention_runs.induct) (auto split: prod.split)

text \<open>
  C11: retention always comes to rest. While a run deletes a full batch the next one is due at
  once, so a backlog keeps the worker busy; but whatever the other sessions insert, one of the
  first (old checks div batch) + 1 runs deletes less than a batch, and the next run is then due
  only after the configured interval. All runs before it deleted a full batch each, and, if it had
  the lock, no check older than its cutoff is left.
\<close>

theorem retention_backlog_drains:
  assumes "0 < cfg_site_monitor_check_retention_batch_size c"
    and "cfg_site_monitor_check_retention_batch_size c < 2 ^ 63"
    and "checks_wf d" "sorted (next_run_at # map fst runs)"
    and "\<forall>(now, lock_acquired, f) \<in> set runs.
           now \<le> until \<and> adds_only_recent_checks (retention_cutoff c until) f"
    and "expired_count (retention_cutoff c until) d div cfg_site_monitor_check_retention_batch_size c
         < length runs"
  shows "\<exists>k < length runs.
    (case (runs ! k, retention_runs c runs next_run_at d ! k) of ((now, lock_acquired, f), (r, next', d')) \<Rightarrow>
       (\<exists>n < cfg_site_monitor_check_retention_batch_size c. r = Inr n) \<and>
       next' = add_seconds now (as_i64 (int (cfg_site_monitor_check_retention_interval_seconds c))) \<and>
       (if lock_acquired then list_all (\<lambda>x. retention_cutoff c now \<le> smc_checked_at x) (db_checks d')
        else True)) \<and>
    list_all (\<lambda>j. fst (retention_runs c runs next_run_at d ! j) =
        Inr (cfg_site_monitor_check_retention_batch_size c)) [0..<k]"
  using assms(3-6)
proof (induction runs arbitrary: next_run_at d)
  case Nil
  then show ?case by simp
next
  case (Cons run runs)
  let ?b = "cfg_site_monitor_check_retention_batch_size c" and ?cut = "retention_cutoff c until"
  obtain now lock f where run: "run = (now, lock, f)"
    by (cases run) auto
  obtain r next' d' where p: "prune_site_monitor_check_history_if_due c now lock next_run_at (f d) = (r, next', d')"
    by (cases "prune_site_monitor_check_history_if_due c now lock next_run_at (f d)") auto
  have fd: "checks_wf (f d)" "expired_count ?cut (f d) \<le> expired_count ?cut d" and now: "next_run_at \<le> now" "now \<le> until"
    using Cons.prems(1,2,3) by (auto simp: run adds_only_recent_checks_def)
  have step: "retention_runs c (run # runs) next_run_at d = (r, next', d') # retention_runs c runs next' d'"
    by (simp add: run p)
  note one = retention_run [OF now fd(1) assms(1,2) p]
  show ?case
  proof (cases "r = Inr ?b")
    case False
    then show ?thesis
      using one(2) unfolding step by (intro exI [of _ 0]) (auto simp: run)
  next
    case True
    then have full: "next' = now" "expired_count ?cut d' + ?b = expired_count ?cut (f d)"
      using one(2) by auto
    then have "expired_count ?cut d' + ?b \<le> expired_count ?cut d"
      using fd(2) by simp
    from div_le_mono [OF this, of ?b] have "expired_count ?cut d' div ?b < length runs"
      using Cons.prems(4) assms(1) by (simp add: div_add_self2)
    note few = this
    have rest: "\<forall>(now, lock_acquired, f) \<in> set runs. now \<le> until \<and> adds_only_recent_checks ?cut f"
      using Cons.prems(3) by simp
    have sorted: "sorted (next' # map fst runs)"
      using Cons.prems(2) full(1) by (simp add: run)
    obtain k where k: "k < length runs"
      "case (runs ! k, retention_runs c runs next' d' ! k) of ((now, lock_acquired, f), (r, next', d')) \<Rightarrow>
         (\<exists>n < ?b. r = Inr n) \<and>
         next' = add_seconds now (as_i64 (int (cfg_site_monitor_check_retention_interval_seconds c))) \<and>
         (if lock_acquired then list_all (\<lambda>x. retention_cutoff c now \<le> smc_checked_at x) (db_checks d') else True)"
      "list_all (\<lambda>j. fst (retention_runs c runs next' d' ! j) = Inr ?b) [0..<k]"
      using Cons.IH [OF one(1) sorted rest few] by (elim exE conjE)
    have "list_all (\<lambda>j. fst (((r, next', d') # retention_runs c runs next' d') ! j) = Inr ?b) [0..<Suc k]"
      using k(3) True by (auto simp: list_all_iff nth_Cons split: nat.split)
    with k(1,2) show ?thesis
      unfolding step by (intro exI [of _ "Suc k"]) simp
  qed
qed

text \<open>Two of the sample's three checks are a day old; with batches of one the third run finds none.\<close>

definition sample_retention_runs :: "(timestamp \<times> bool \<times> others) list" where
  "sample_retention_runs = [(86400000025, True, id), (86400000026, True, id), (86400000027, True, id)]"

lemma sample_retention_results:
  fixes c :: "'k config"
  assumes "cfg_site_monitor_check_retention_batch_size c = 1" "cfg_site_monitor_check_retention_days c = 1"
    "cfg_site_monitor_check_retention_interval_seconds c = 60"
  shows "map fst (retention_runs c sample_retention_runs 0 sample_checks_db) = [Inr 1, Inr 1, Inr 0]"
  using assms
  by (simp add: sample_retention_runs_def prune_site_monitor_check_history_if_due_def Let_def
      prune_checks_older_than_def expired_checks_def sample_checks_db_def sample_check_def order_by_def
      limit_rows_def rows_affected_def delete_checks_def delete_rows_def as_i64_small add_days_def)

theorem retention_backlog_drains_witness:
  "\<forall>c. let c1 = c\<lparr>cfg_site_monitor_check_retention_batch_size := 1,
                 cfg_site_monitor_check_retention_days := 1,
                 cfg_site_monitor_check_retention_interval_seconds := 60\<rparr>;
         after = retention_runs c1 sample_retention_runs 0 sample_checks_db
     in map fst after = [Inr 1, Inr 1, Inr 0] \<and> fst (snd (after ! 2)) = 86460000027"
proof
  fix c :: "'k config"
  let ?c = "c\<lparr>cfg_site_monitor_check_retention_batch_size := 1,
     cfg_site_monitor_check_retention_days := 1, cfg_site_monitor_check_retention_interval_seconds := 60\<rparr>"
  let ?after = "retention_runs ?c sample_retention_runs 0 sample_checks_db"
  have results: "map fst ?after = [Inr 1, Inr 1, Inr 0]"
    by (rule sample_retention_results) simp_all
  have wf: "checks_wf sample_checks_db"
    and old: "expired_count (retention_cutoff ?c 86400000027) sample_checks_db = 2"
    by (simp_all add: checks_wf_def sample_checks_db_def sample_check_def expired_count_def
        retention_cutoff_def add_days_def as_i64_small)
  have runs: "length sample_retention_runs = 3" "sorted (0 # map fst sample_retention_runs)"
    "\<forall>(now, lock_acquired, f) \<in> set sample_retention_runs.
       now \<le> 86400000027 \<and> adds_only_recent_checks (retention_cutoff ?c 86400000027) f"
    "fst (sample_retention_runs ! 2) = 86400000027"
    by (simp_all add: sample_retention_runs_def adds_only_recent_checks_def)
  obtain k where k: "k < 3" "fst (?after ! k) = Inr 0"
    "fst (snd (?after ! k)) = add_seconds (fst (sample_retention_runs ! k)) (as_i64 60)"
    using retention_backlog_drains [of ?c, OF _ _ wf runs(2,3)] runs(1) old
    unfolding split_beta by auto
  have "map fst ?after ! k = Inr 0"
    using k(1,2) runs(1) by simp
  then have "k = 2"
    using k(1) unfolding results by (auto simp: less_Suc_eq numeral_eq_Suc)
  then have "fst (snd (?after ! 2)) = 86460000027"
    using k(3) runs(4) by (simp add: as_i64_small add_seconds_def)
  with results show "let c1 = ?c; after = retention_runs c1 sample_retention_runs 0 sample_checks_db
     in map fst after = [Inr 1, Inr 1, Inr 0] \<and> fst (snd (after ! 2)) = 86460000027"
    by (simp add: Let_def)
qed

end
