(* ===== verification/Status_Page_Repository.thy ===== *)
theory Status_Page_Repository
  imports Domain_Model Pagination
begin

text \<open>
  \<^verbatim>\<open>src/domain/site_status_pages/repository.rs\<close>: at most one status page per site, with a slug of its own.
  The constraint on the site is the target of \<open>ON CONFLICT\<close>, the one on the slug is not.
\<close>

definition get_status_page_by_site_id :: "id \<Rightarrow> db \<Rightarrow> site_status_page option" where
  "get_status_page_by_site_id site d = fetch_optional (filter (\<lambda>p. ssp_site_id p = site) (db_status_pages d))"

definition get_status_page_by_slug :: "string \<Rightarrow> db \<Rightarrow> site_status_page option" where
  "get_status_page_by_slug slug d = fetch_optional (filter (\<lambda>p. ssp_slug p = slug) (db_status_pages d))"

record upsert_status_page_payload =
  usp_site_id :: id
  usp_is_enabled :: bool
  usp_slug :: string
  usp_page_title :: "string option"
  usp_show_monitor_details :: bool
  usp_show_uptime_percentages :: bool

definition status_page_columns :: "timestamp \<Rightarrow> upsert_status_page_payload \<Rightarrow> site_status_page \<Rightarrow> site_status_page" where
  "status_page_columns now u p =
     p\<lparr>ssp_is_enabled := usp_is_enabled u, ssp_slug := usp_slug u, ssp_page_title := usp_page_title u,
       ssp_show_monitor_details := usp_show_monitor_details u,
       ssp_show_uptime_percentages := usp_show_uptime_percentages u, ssp_updated_at := now\<rparr>"

definition new_status_page :: "timestamp \<Rightarrow> id \<Rightarrow> upsert_status_page_payload \<Rightarrow> site_status_page" where
  "new_status_page now i u =
     \<lparr>ssp_id = i, ssp_site_id = usp_site_id u, ssp_is_enabled = usp_is_enabled u, ssp_slug = usp_slug u,
      ssp_page_title = usp_page_title u, ssp_show_monitor_details = usp_show_monitor_details u,
      ssp_show_uptime_percentages = usp_show_uptime_percentages u, ssp_created_at = now, ssp_updated_at = now\<rparr>"

definition slug_taken :: "upsert_status_page_payload \<Rightarrow> db \<Rightarrow> bool" where
  "slug_taken u d \<longleftrightarrow> list_ex (\<lambda>p. ssp_slug p = usp_slug u \<and> ssp_site_id p \<noteq> usp_site_id u) (db_status_pages d)"

definition upsert_status_page :: "timestamp \<Rightarrow> upsert_status_page_payload \<Rightarrow> (db, site_status_page) stmt" where
  "upsert_status_page now u d =
     (if slug_taken u d then Inl (UniqueViolation ''idx_site_status_pages_slug'')
      else case get_status_page_by_site_id (usp_site_id u) d of
        Some p \<Rightarrow> Inr (status_page_columns now u p,
          d\<lparr>db_status_pages := update_rows (\<lambda>p. ssp_site_id p = usp_site_id u) (status_page_columns now u) (db_status_pages d),
            db_next_status_page := db_next_status_page d + 1\<rparr>)
      | None \<Rightarrow>
          if find_site (usp_site_id u) d = None then Inl (ForeignKeyViolation ''site_status_pages_site_id_fkey'')
          else Inr (new_status_page now (db_next_status_page d) u,
            d\<lparr>db_status_pages := db_status_pages d @ [new_status_page now (db_next_status_page d) u],
              db_next_status_page := db_next_status_page d + 1\<rparr>))"

section \<open>The table keeps its constraints\<close>

definition status_pages_ok :: "db \<Rightarrow> bool" where
  "status_pages_ok d \<longleftrightarrow>
     distinct (map ssp_site_id (db_status_pages d)) \<and> distinct (map ssp_slug (db_status_pages d)) \<and>
     ssp_site_id ` set (db_status_pages d) \<subseteq> s_id ` set (db_sites d)"

lemma find_site_mem: "find_site i d \<noteq> None \<Longrightarrow> i \<in> s_id ` set (db_sites d)"
  by (auto simp: find_site_def find_Some_iff)

lemma update_slug_distinct:
  assumes "distinct (map ssp_site_id ps)" "distinct (map ssp_slug ps)"
    "\<not> list_ex (\<lambda>p. ssp_slug p = usp_slug u \<and> ssp_site_id p \<noteq> usp_site_id u) ps"
  shows "distinct (map ssp_slug (update_rows (\<lambda>p. ssp_site_id p = usp_site_id u) (status_page_columns now u) ps))"
proof -
  have "map ssp_slug (update_rows (\<lambda>p. ssp_site_id p = usp_site_id u) (status_page_columns now u) ps) =
      map (\<lambda>p. if ssp_site_id p = usp_site_id u then usp_slug u else ssp_slug p) ps"
    by (simp add: update_rows_def status_page_columns_def)
  moreover have "inj_on (\<lambda>p. if ssp_site_id p = usp_site_id u then usp_slug u else ssp_slug p) (set ps)"
    using assms by (auto simp: inj_on_def distinct_map list_ex_iff)
  ultimately show ?thesis
    using assms(1) by (simp add: distinct_map)
qed

lemma fetch_filter_unique:
  "distinct (map k ps) \<Longrightarrow> p \<in> set ps \<Longrightarrow> fetch_optional (filter (\<lambda>q. k q = k p) ps) = Some p"
  by (induction ps) (auto simp: fetch_optional_def split: list.splits if_splits)

lemma upsert_status_page_ok:
  assumes "status_pages_ok d" "upsert_status_page now u d = Inr (p, d')"
  shows "status_pages_ok d' \<and> p \<in> set (db_status_pages d')"
proof (cases "get_status_page_by_site_id (usp_site_id u) d")
  case None
  then have n: "p = new_status_page now (db_next_status_page d) u" "db_status_pages d' = db_status_pages d @ [p]"
    "db_sites d' = db_sites d" "find_site (usp_site_id u) d \<noteq> None" "\<not> slug_taken u d"
    using assms(2) by (auto simp: upsert_status_page_def split: if_splits)
  moreover have "usp_site_id u \<notin> ssp_site_id ` set (db_status_pages d)"
    using None by (auto simp: get_status_page_by_site_id_def fetch_optional_None_iff filter_empty_conv)
  moreover from this have "usp_slug u \<notin> ssp_slug ` set (db_status_pages d)"
    using n(5) by (auto simp: slug_taken_def list_ex_iff) (metis imageI)
  ultimately show ?thesis
    using assms(1) find_site_mem [OF n(4)]
    by (auto simp: status_pages_ok_def new_status_page_def)
next
  case (Some q)
  then have q: "q \<in> set (db_status_pages d)" "ssp_site_id q = usp_site_id u"
    by (auto simp: get_status_page_by_site_id_def dest!: fetch_optional_Some_mem)
  have n: "p = status_page_columns now u q" "db_sites d' = db_sites d" "\<not> slug_taken u d"
    "db_status_pages d' = update_rows (\<lambda>p. ssp_site_id p = usp_site_id u) (status_page_columns now u) (db_status_pages d)"
    using assms(2) Some by (auto simp: upsert_status_page_def split: if_splits)
  have sites: "map ssp_site_id (db_status_pages d') = map ssp_site_id (db_status_pages d)"
    unfolding n(4) by (rule update_rows_map) (simp add: status_page_columns_def)
  then have "ssp_site_id ` set (db_status_pages d') = ssp_site_id ` set (db_status_pages d)"
    by (metis list.set_map)
  moreover have "distinct (map ssp_slug (db_status_pages d'))"
    unfolding n(4) using assms(1) n(3) by (intro update_slug_distinct) (simp_all add: status_pages_ok_def slug_taken_def)
  moreover have "p \<in> set (db_status_pages d')"
    using q by (auto simp: n(1,4) update_rows_def image_iff intro!: bexI [of _ q])
  ultimately show ?thesis
    using assms(1) sites by (simp add: status_pages_ok_def n(2))
qed

text \<open>
  A page that was stored is found again under its site and under its slug, with the columns that were
  asked for, and the table keeps its unique keys.
\<close>

theorem status_page_roundtrip:
  assumes "status_pages_ok d" "upsert_status_page now u d = Inr (p, d')"
  shows "status_pages_ok d' \<and> get_status_page_by_site_id (usp_site_id u) d' = Some p \<and>
    get_status_page_by_slug (usp_slug u) d' = Some p \<and> ssp_slug p = usp_slug u \<and> ssp_is_enabled p = usp_is_enabled u"
proof -
  have columns: "ssp_site_id p = usp_site_id u" "ssp_slug p = usp_slug u" "ssp_is_enabled p = usp_is_enabled u"
    using assms(2) by (auto simp: upsert_status_page_def new_status_page_def status_page_columns_def
      get_status_page_by_site_id_def dest!: fetch_optional_Some_mem split: if_splits option.splits)
  have ok: "status_pages_ok d'" "p \<in> set (db_status_pages d')"
    using upsert_status_page_ok [OF assms] by simp_all
  have "get_status_page_by_site_id (usp_site_id u) d' = Some p"
    using fetch_filter_unique [of ssp_site_id _ p] ok columns(1)
    by (simp add: get_status_page_by_site_id_def status_pages_ok_def)
  moreover have "get_status_page_by_slug (usp_slug u) d' = Some p"
    using fetch_filter_unique [of ssp_slug _ p] ok columns(2)
    by (simp add: get_status_page_by_slug_def status_pages_ok_def)
  ultimately show ?thesis
    using ok(1) columns by simp
qed

end
