(* ===== verification/Worker_System.thy ===== *)
theory Worker_System
  imports Site_Worker Channel_Repository Status_Page_Repository
begin

text \<open>
  The checks of several workers and the API over one database, as a step relation. A state is the
  database and the checks in flight, each the worker that runs it and the monitor as it was
  claimed. A step is one statement or transaction of the code, in any order and at any time, or a
  crash. What holds in every reachable state, and the abstract machine per monitor the system
  refines.
\<close>

section \<open>Statements on the other tables\<close>

text \<open>
  The statements of the API and of the notification workers on channels, overrides, status pages and
  deliveries.
\<close>

datatype side_stmt =
    StmtCreateChannel notification_channel_params
  | StmtUpdateChannel id notification_channel_params
  | StmtDeleteChannel id
  | StmtUpsertOverride id channel_override_params
  | StmtDeleteOverride id id
  | StmtUpsertStatusPage upsert_status_page_payload
  | StmtClaimDeliveries "id set" string int int
  | StmtExtendDelivery id string int
  | StmtReleaseDelivery id string
  | StmtMarkDelivered id string
  | StmtMarkFailed id string string "timestamp option"

fun exec_side_stmt :: "timestamp \<Rightarrow> side_stmt \<Rightarrow> (db, unit) stmt" where
  "exec_side_stmt now (StmtCreateChannel p) = drop_result (create_channel now p)"
| "exec_side_stmt now (StmtUpdateChannel i p) = drop_result (update_channel now i p)"
| "exec_side_stmt now (StmtDeleteChannel i) = drop_result (delete_channel i)"
| "exec_side_stmt now (StmtUpsertOverride site p) = drop_result (upsert_override_for_site now site p)"
| "exec_side_stmt now (StmtDeleteOverride site channel) = drop_result (delete_override_for_site site channel)"
| "exec_side_stmt now (StmtUpsertStatusPage p) = drop_result (upsert_status_page now p)"
| "exec_side_stmt now (StmtClaimDeliveries locked w limit lease) =
     drop_result (claim_due_deliveries now locked w limit lease)"
| "exec_side_stmt now (StmtExtendDelivery i w lease) = drop_result (extend_delivery_claim now i w lease)"
| "exec_side_stmt now (StmtReleaseDelivery i w) = drop_result (release_delivery_claim now i w)"
| "exec_side_stmt now (StmtMarkDelivered i w) = drop_result (mark_delivered now i w)"
| "exec_side_stmt now (StmtMarkFailed i w e next) = drop_result (mark_failed now i w e next)"

text \<open>What the steps of the checks look at.\<close>

definition check_tables :: "db \<Rightarrow> site_monitor list \<times> site_monitor_incident list \<times> id \<times> id" where
  "check_tables d = (db_monitors d, db_incidents d, db_next_incident d, db_next_monitor d)"

lemma run_drop_result [simp]: "run_stmt (drop_result s) d = run_stmt s d"
  by (auto simp: run_stmt_def drop_result_def stmt_bind_def split: sum.splits)

lemmas channel_stmt_defs = create_channel_def update_channel_def delete_channel_def
  upsert_override_for_site_def delete_override_for_site_def upsert_status_page_def

lemmas delivery_stmt_defs = claim_due_deliveries_def extend_delivery_claim_def release_delivery_claim_def
  mark_delivered_def mark_failed_def count_attempt_def update_held_def

lemma side_stmt_frame: "exec_side_stmt now st d = Inr ((), d') \<Longrightarrow> check_tables d' = check_tables d"
  by (cases st; simp add: drop_result_Inr; elim exE)
    (auto simp: channel_stmt_defs delivery_stmt_defs stmt_bind_def Let_def check_tables_def and_then_def
      split: if_splits option.splits sum.splits)

section \<open>Steps\<close>

type_synonym sys = "db \<times> (string \<times> site_monitor) list"

text \<open>
  A worker claims only after every check of its last round has ended (\<open>check_site_monitors\<close> waits
  for all of them); a lost lease ends a check without a statement.
\<close>

inductive sys_step :: "sys \<Rightarrow> sys \<Rightarrow> bool" where
  Claim:
    "w \<notin> fst ` set T \<Longrightarrow> claim_site_monitors_due_for_check now locked w limit s d = Inr (ms, d') \<Longrightarrow>
     sys_step (d, T) (d', map (Pair w) ms @ T)"
| Extend:
    "(w, m) \<in> set T \<Longrightarrow> extend_site_monitor_claim now (sm_id m) w s d = Inr (b, d') \<Longrightarrow>
     sys_step (d, T) (d', T)"
| Save:
    "(w, m) \<in> set T \<Longrightarrow>
     sys_step (d, T) (run_stmt (save_check_result f now m w completed) d, remove1 (w, m) T)"
| Release:
    "(w, m) \<in> set T \<Longrightarrow>
     sys_step (d, T) (run_stmt (release_site_monitor_claim now (sm_id m) w) d, remove1 (w, m) T)"
| Lose: "sys_step (d, T) (d, remove1 (w, m) T)"
| Crash: "sys_step (d, T) (d, filter (\<lambda>(w', _). w' \<noteq> w) T)"
| Prune: "sys_step (d, T) (run_stmt (prune_checks_older_than lock cutoff limit) d, T)"
| Api: "sys_step (d, T) (run_stmt (exec_monitor_stmt now st) d, T)"
| ResolveMonitor: "sys_step (d, T) (run_stmt (resolve_open_incidents_for_monitor now i reason) d, T)"
| ResolveSite: "sys_step (d, T) (run_stmt (resolve_open_incidents_for_site now site reason) d, T)"
| Acknowledge: "sys_step (d, T) (run_stmt (acknowledge_incident now i site admin) d, T)"
| CreateSite: "sys_step (d, T) (run_stmt (create_site now name url) d, T)"
| UpdateSite: "sys_step (d, T) (run_stmt (update_site now site name url active) d, T)"
| DeleteSite: "sys_step (d, T) (run_stmt (delete_site site) d, T)"
| Side: "sys_step (d, T) (run_stmt (exec_side_stmt now st) d, T)"

inductive reachable :: "sys \<Rightarrow> bool" where
  Start: "reachable (empty_db, [])"
| Step: "reachable s \<Longrightarrow> sys_step s s' \<Longrightarrow> reachable s'"

inductive_cases sys_stepE: "sys_step (d, T) s'"

section \<open>The invariant\<close>

text \<open>What a check in flight relies on while its worker owns the claim.\<close>

definition task_current :: "db \<Rightarrow> string \<times> site_monitor \<Rightarrow> bool" where
  "task_current d = (\<lambda>(w, m).
     \<forall>x \<in> set (db_monitors d). owns_claim (sm_id m) w x \<longrightarrow>
       sm_last_is_success x = sm_last_is_success m \<and> sm_site_id x = sm_site_id m)"

definition monitor_ids_ok :: "db \<Rightarrow> bool" where
  "monitor_ids_ok d \<longleftrightarrow> monitors_wf d \<and> (\<forall>m \<in> set (db_monitors d). sm_id m < db_next_monitor d)"

definition db_ok :: "db \<Rightarrow> bool" where
  "db_ok d \<longleftrightarrow> incident_inv d \<and> failing_incidents d \<and> monitor_ids_ok d"

definition sys_inv :: "sys \<Rightarrow> bool" where
  "sys_inv = (\<lambda>(d, T). db_ok d \<and> (\<forall>t \<in> set T. task_current d t))"

section \<open>The abstract machine\<close>

text \<open>
  Per monitor: its last result, and whether it has an open incident. A result sets both; incidents
  can be closed, monitors added, and monitors removed (with incidents of the removed site).
\<close>

type_synonym amach = "id \<Rightarrow> (bool option \<times> bool) option"

inductive astep :: "amach \<Rightarrow> amach \<Rightarrow> bool" where
  Stutter: "astep a a"
| Record: "a i = Some x \<Longrightarrow> astep a (a(i \<mapsto> (Some ok, \<not> ok)))"
| CloseSome: "astep a (\<lambda>i. if closed i then map_option (\<lambda>(last, _). (last, False)) (a i) else a i)"
| AddMonitor: "a i = None \<Longrightarrow> astep a (a(i \<mapsto> (None, False)))"
| RemoveSome:
    "astep a ((\<lambda>i. if closed i then map_option (\<lambda>(last, _). (last, False)) (a i) else a i) |` S)"

definition abs_db :: "db \<Rightarrow> amach" where
  "abs_db d i = map_option (\<lambda>m. (sm_last_is_success m, open_incidents_of i d \<noteq> [])) (find_monitor i d)"

section \<open>Steps that keep the monitors' columns\<close>

text \<open>Per monitor, what the invariant looks at besides the claim.\<close>

definition monitor_face :: "site_monitor \<Rightarrow> id \<times> id \<times> bool option" where
  "monitor_face m = (sm_id m, sm_site_id m, sm_last_is_success m)"

lemma find_map_key:
  assumes "map g xs = map g ys" "\<And>x. k x = k' (g x)"
  shows "map_option g (find (\<lambda>x. k x = i) xs) = map_option g (find (\<lambda>x. k x = i) ys)"
  using assms
proof (induction xs arbitrary: ys)
  case Nil
  then show ?case by simp
next
  case (Cons x xs)
  then obtain y zs where "ys = y # zs" "g x = g y" "map g xs = map g zs"
    by (cases ys) auto
  with Cons.IH [of zs] Cons.prems(2) show ?case by auto
qed

lemma faces_abs:
  assumes "map monitor_face (db_monitors d') = map monitor_face (db_monitors d)"
    "\<And>i. open_incidents_of i d' = open_incidents_of i d"
  shows "abs_db d' = abs_db d"
proof
  fix i
  have "map_option monitor_face (find_monitor i d') = map_option monitor_face (find_monitor i d)"
    unfolding find_monitor_def
    by (rule find_map_key [OF assms(1), where k' = fst]) (simp add: monitor_face_def)
  then have "map_option sm_last_is_success (find_monitor i d') = map_option sm_last_is_success (find_monitor i d)"
    by (cases "find_monitor i d'"; cases "find_monitor i d") (auto simp: monitor_face_def)
  then show "abs_db d' i = abs_db d i"
    unfolding abs_db_def using assms(2) [of i]
    by (cases "find_monitor i d'"; cases "find_monitor i d") auto
qed

lemma faces_ids: "map monitor_face t' = map monitor_face t \<Longrightarrow> map sm_id t' = map sm_id t"
  using map_map [of fst monitor_face] by (metis (no_types, lifting) comp_apply fst_conv map_eq_conv monitor_face_def)

lemma faces_mem:
  assumes "map monitor_face t' = map monitor_face t" "x \<in> set t'"
  shows "\<exists>y \<in> set t. monitor_face y = monitor_face x"
proof -
  have "monitor_face x \<in> set (map monitor_face t)"
    using assms by (metis image_eqI list.set_map)
  then show ?thesis by auto
qed

lemma faces_db_ok:
  assumes "map monitor_face (db_monitors d') = map monitor_face (db_monitors d)"
    "db_incidents d' = db_incidents d" "db_next_incident d' = db_next_incident d"
    "db_next_monitor d \<le> db_next_monitor d'" "db_ok d"
  shows "db_ok d'"
proof -
  have "\<exists>m \<in> set (db_monitors d'). sm_id m = j \<and> sm_last_is_success m = Some False"
    if "m \<in> set (db_monitors d)" "sm_id m = j" "sm_last_is_success m = Some False" for m j
    using faces_mem [OF assms(1) [symmetric] that(1)] that(2,3) by (auto simp: monitor_face_def)
  then have "failing_incidents d'"
    using assms(2,5) unfolding db_ok_def failing_incidents_def by metis
  moreover have "monitor_ids_ok d'"
    using faces_ids [OF assms(1)] faces_mem [OF assms(1)] assms(4,5)
    by (fastforce simp: db_ok_def monitor_ids_ok_def monitors_wf_def monitor_face_def)
  ultimately show ?thesis
    using assms(2,3,5) incident_inv_cong [of d' d] by (simp add: db_ok_def)
qed

section \<open>Each step keeps the invariant and is one of the abstract machine\<close>

definition keeps_owned :: "db \<Rightarrow> db \<Rightarrow> bool" where
  "keeps_owned d d' \<longleftrightarrow>
     (\<forall>x' \<in> set (db_monitors d'). sm_check_claimed_by x' = None \<or>
        (\<exists>x \<in> set (db_monitors d). monitor_face x = monitor_face x' \<and>
           sm_check_claimed_by x = sm_check_claimed_by x'))"

lemma tasks_kept:
  assumes "keeps_owned d d'" "\<forall>t \<in> set T. task_current d t" "set T' \<subseteq> set T"
  shows "\<forall>t \<in> set T'. task_current d' t"
proof
  fix t assume "t \<in> set T'"
  obtain w m where wm: "t = (w, m)"
    by (cases t)
  with \<open>t \<in> set T'\<close> have t: "t = (w, m)" "task_current d (w, m)"
    using assms(2,3) by blast+
  have "sm_last_is_success x' = sm_last_is_success m \<and> sm_site_id x' = sm_site_id m"
    if x': "x' \<in> set (db_monitors d')" "owns_claim (sm_id m) w x'" for x'
  proof -
    obtain x where x: "x \<in> set (db_monitors d)" "monitor_face x = monitor_face x'"
      "sm_check_claimed_by x = sm_check_claimed_by x'"
      using assms(1) x' by (fastforce simp: keeps_owned_def owns_claim_def)
    then have "owns_claim (sm_id m) w x"
      using x'(2) by (simp add: owns_claim_def monitor_face_def)
    then show ?thesis
      using t(2) x by (auto simp: task_current_def monitor_face_def)
  qed
  then show "task_current d' t"
    by (simp add: t(1) task_current_def)
qed

lemma keeps_owned_subset: "set (db_monitors d') \<subseteq> set (db_monitors d) \<Longrightarrow> keeps_owned d d'"
  by (auto simp: keeps_owned_def)

lemma keeps_owned_update:
  assumes "db_monitors d' = update_rows p f (db_monitors d)" "\<And>m. monitor_face (f m) = monitor_face m"
    "\<And>m. sm_check_claimed_by (f m) = sm_check_claimed_by m"
  shows "keeps_owned d d'"
  unfolding keeps_owned_def assms(1) set_update_rows using assms(2,3) by auto

lemma keeps_owned_release:
  assumes "db_monitors d' = update_rows p f (db_monitors d)" "\<And>m. sm_check_claimed_by (f m) = None"
  shows "keeps_owned d d'"
  unfolding keeps_owned_def assms(1) set_update_rows using assms(2) by auto

text \<open>A step that leaves every face and every incident as it was.\<close>

definition quiet :: "db \<Rightarrow> db \<Rightarrow> bool" where
  "quiet d d' \<longleftrightarrow>
     map monitor_face (db_monitors d') = map monitor_face (db_monitors d) \<and>
     db_incidents d' = db_incidents d \<and> db_next_incident d' = db_next_incident d \<and>
     db_next_monitor d \<le> db_next_monitor d'"

lemma quiet_ok: "quiet d d' \<Longrightarrow> db_ok d \<Longrightarrow> db_ok d' \<and> astep (abs_db d) (abs_db d')"
  unfolding quiet_def using faces_db_ok [of d' d] faces_abs [of d' d] incident_inv_cong(2) [of d' d]
  by (metis Stutter)

lemma face_rows [simp]:
  "monitor_face (claim_row now w s m) = monitor_face m"
  "monitor_face (extend_row now s m) = monitor_face m"
  "monitor_face (release_row now m) = monitor_face m"
  by (simp_all add: monitor_face_def)

lemma quiet_update:
  "(\<And>m. monitor_face (f m) = monitor_face m) \<Longrightarrow> quiet d (d\<lparr>db_monitors := update_rows p f (db_monitors d)\<rparr>)"
  by (simp add: quiet_def update_rows_map)

lemma claim_step:
  assumes "claim_site_monitors_due_for_check now locked w limit s d = Inr (ms, d')"
    "w \<notin> fst ` set T" "sys_inv (d, T)"
  shows "sys_inv (d', map (Pair w) ms @ T) \<and> astep (abs_db d) (abs_db d')"
proof -
  define p where "p = (\<lambda>m :: site_monitor. sm_id m \<in> sm_id ` set (due_monitors now locked limit d))"
  have c: "ms = returning_rows p (claim_row now w s) (db_monitors d)"
    "d' = d\<lparr>db_monitors := update_rows p (claim_row now w s) (db_monitors d)\<rparr>"
    using assms(1) by (simp_all add: claim_Inr_iff p_def Let_def)
  have ok: "db_ok d" "\<forall>t \<in> set T. task_current d t"
    using assms(3) by (simp_all add: sys_inv_def)
  have q: "db_ok d' \<and> astep (abs_db d) (abs_db d')"
    using quiet_ok [OF _ ok(1)] quiet_update [of "claim_row now w s" d p] by (simp add: c(2))
  have "task_current d' (w', m)" if "(w', m) \<in> set T" for w' m
  proof -
    have "w' \<noteq> w" using that assms(2) by force
    moreover have "task_current d (w', m)" using ok(2) that by blast
    ultimately show ?thesis
      by (auto simp: task_current_def c(2) set_update_rows owns_claim_def)
  qed
  moreover have "task_current d' (w, m)" if "m \<in> set ms" for m
  proof -
    have "m \<in> set (db_monitors d')"
      using that by (auto simp: c returning_rows_def set_update_rows)
    then have "x = m" if "x \<in> set (db_monitors d')" "owns_claim (sm_id m) w x" for x
      using that distinct_map_eqD [of sm_id "db_monitors d'" x m] q
      by (simp add: db_ok_def monitor_ids_ok_def monitors_wf_def owns_claim_def)
    then show ?thesis by (auto simp: task_current_def)
  qed
  ultimately show ?thesis
    using q by (auto simp: sys_inv_def)
qed

lemma sys_invI:
  "sys_inv (d, T) \<Longrightarrow> db_ok d' \<Longrightarrow> keeps_owned d d' \<Longrightarrow> set T' \<subseteq> set T \<Longrightarrow> sys_inv (d', T')"
  using tasks_kept [of d d' T T'] by (simp add: sys_inv_def)

lemma sys_inv_ok: "sys_inv (d, T) \<Longrightarrow> db_ok d"
  by (simp add: sys_inv_def)

lemma quiet_step:
  assumes "sys_inv (d, T)" "quiet d d'" "keeps_owned d d'" "set T' \<subseteq> set T"
  shows "sys_inv (d', T') \<and> astep (abs_db d) (abs_db d')"
  using quiet_ok [OF assms(2) sys_inv_ok [OF assms(1)]] sys_invI [OF assms(1) _ assms(3,4)] by blast

lemma unchanged_step:
  "sys_inv (d, T) \<Longrightarrow> set T' \<subseteq> set T \<Longrightarrow> sys_inv (d, T') \<and> astep (abs_db d) (abs_db d)"
  by (rule quiet_step) (simp_all add: quiet_def keeps_owned_subset)

lemma run_stmt_step:
  assumes "sys_inv (d, T)" "set T' \<subseteq> set T"
    "\<And>x d'. m d = Inr (x, d') \<Longrightarrow> sys_inv (d', T') \<and> astep (abs_db d) (abs_db d')"
  shows "sys_inv (run_stmt m d, T') \<and> astep (abs_db d) (abs_db (run_stmt m d))"
  using assms(3) unchanged_step [OF assms(1,2)] by (auto simp: run_stmt_def split: sum.splits)

lemma find_update_rows:
  "(\<And>m. k (f m) = k m) \<Longrightarrow>
   find (\<lambda>m. k m = i) (update_rows p f t) = map_option (\<lambda>m. if p m then f m else m) (find (\<lambda>m. k m = i) t)"
  by (induction t) (auto simp: update_rows_def)

lemma find_by_key: "distinct (map k xs) \<Longrightarrow> x \<in> set xs \<Longrightarrow> find (\<lambda>y. k y = k x) xs = Some x"
  by (induction xs) (auto simp: image_iff)

lemma find_monitor_id: "find_monitor i d = Some m \<Longrightarrow> sm_id m = i"
  by (auto simp: find_monitor_def find_Some_iff)

lemma manage_incident_lifecycle_frame:
  "manage_incident_lifecycle now m check d = Inr (r, d') \<Longrightarrow>
   db_monitors d' = db_monitors d \<and> db_next_monitor d' = db_next_monitor d"
  by (auto simp: manage_incident_lifecycle_def Let_def stmt_bind_Inr_iff open_incident_Inr with_open_def
      update_incident_failure_def resolve_incident_def update_incidents_Inr
      split: incident_action.splits option.splits)

lemma enqueue_next: "enqueue_deliveries now ns d = Inr (u, d') \<Longrightarrow> db_next_monitor d' = db_next_monitor d"
proof (induction ns arbitrary: d)
  case Nil
  then show ?case by simp
next
  case (Cons n ns)
  then obtain d1 where "insert_delivery now n d = Inr ((), d1)" "enqueue_deliveries now ns d1 = Inr (u, d')"
    by (auto simp: stmt_bind_Inr_iff)
  with Cons.IH [of d1] show ?case
    by (auto simp: insert_delivery_def Let_def split: if_splits)
qed

lemma save_check_result_next:
  assumes "save_check_result f now m w completed d = Inr (u, d')"
  shows "db_next_monitor d' = db_next_monitor d"
proof -
  obtain check d1 d2 d3 inc k where
    st: "d1 = d\<lparr>db_checks := db_checks d @ [check], db_next_check := db_next_check d + 1\<rparr>"
    "manage_incident_lifecycle now m check d1 = Inr (inc, d2)"
    "enqueue_site_monitor_notifications f now m check inc d2 = Inr (k, d3)"
    "d' = d3\<lparr>db_monitors := update_rows (owns_claim (sm_id m) w)
        (last_check_row now (last_check_params (cmk_result completed))) (db_monitors d3)\<rparr>"
    by (rule save_check_result_Inr [OF assms])
  have "db_next_monitor d3 = db_next_monitor d2"
  proof (cases "determine_event_type (sm_last_is_success m) (smc_is_success check)")
    case None
    with st(3) show ?thesis by (simp add: enqueue_site_monitor_notifications_def)
  next
    case (Some e)
    from enqueue_notifications_Some [OF Some st(3)] show ?thesis using enqueue_next by blast
  qed
  then show ?thesis
    using manage_incident_lifecycle_frame [OF st(2)] by (simp add: st(1,4))
qed

lemma save_step:
  assumes "save_check_result f now m w completed d = Inr (u, d')" "(w, m) \<in> set T" "sys_inv (d, T)"
    "set T' \<subseteq> set T"
  shows "sys_inv (d', T') \<and> astep (abs_db d) (abs_db d')"
proof -
  have ok: "incident_inv d" "failing_incidents d" "monitor_ids_ok d" "monitors_wf d"
    using sys_inv_ok [OF assms(3)] by (simp_all add: db_ok_def monitor_ids_ok_def)
  have u: "save_check_result f now m w completed d = Inr ((), d')"
    using assms(1) by simp
  obtain check d1 d2 d3 inc k where
    st: "d1 = d\<lparr>db_checks := db_checks d @ [check], db_next_check := db_next_check d + 1\<rparr>"
    "manage_incident_lifecycle now m check d1 = Inr (inc, d2)"
    "enqueue_site_monitor_notifications f now m check inc d2 = Inr (k, d3)"
    "rows_affected (owns_claim (sm_id m) w) (db_monitors d3) = 1"
    by (rule save_check_result_Inr [OF assms(1)])
  have "db_monitors d3 = db_monitors d"
    using enqueue_notifications_frame [OF st(3)] manage_incident_lifecycle_frame [OF st(2)] by (simp add: st(1))
  then obtain cur where cur: "cur \<in> set (db_monitors d)" "owns_claim (sm_id m) w cur"
    using st(4) rows_affected_0_iff [of "owns_claim (sm_id m) w" "db_monitors d"] by auto
  then have id: "sm_id cur = sm_id m" "sm_last_is_success cur = sm_last_is_success m"
    using assms(2,3) by (auto simp: sys_inv_def task_current_def owns_claim_def)
  note saved = saved_result_step [OF ok(1,2,4) cur(1) id u]
  let ?f = "last_check_row now (last_check_params (cmk_result completed))"
  let ?ok = "cr_is_success (cmk_result completed)"
  have mon: "db_monitors d' = update_rows (\<lambda>x. sm_id x = sm_id m) ?f (db_monitors d)"
    using saved by blast
  have "db_ok d'"
    using saved ok(3) save_check_result_next [OF assms(1)]
    by (auto simp: db_ok_def monitor_ids_ok_def monitors_wf_def update_rows_map mon set_update_rows)
  moreover have "keeps_owned d d'"
    by (rule keeps_owned_release [OF mon]) simp
  moreover have "abs_db d' = (abs_db d)(sm_id m \<mapsto> (Some ?ok, \<not> ?ok))"
  proof
    fix i
    have fm: "find_monitor i d' = map_option (\<lambda>x. if sm_id x = sm_id m then ?f x else x) (find_monitor i d)"
      unfolding find_monitor_def mon by (rule find_update_rows) simp
    show "abs_db d' i = ((abs_db d)(sm_id m \<mapsto> (Some ?ok, \<not> ?ok))) i"
    proof (cases "i = sm_id m")
      case True
      obtain y where "find_monitor (sm_id m) d = Some y"
        using cur(1) id(1) by (cases "find_monitor (sm_id m) d") (auto simp: find_monitor_def find_None_iff)
      then have "find_monitor i d' = Some (?f y)"
        using fm find_monitor_id True by simp
      moreover have "open_incidents_of i d' \<noteq> [] \<longleftrightarrow> \<not> ?ok"
        using saved True by (cases ?ok) auto
      ultimately show ?thesis
        using True by (simp add: abs_db_def)
    next
      case False
      then have "open_incidents_of i d' = open_incidents_of i d"
        using saved by (metis (no_types))
      then show ?thesis
        using False fm find_monitor_id
        by (cases "find_monitor i d") (auto simp: abs_db_def)
    qed
  qed
  moreover have "abs_db d (sm_id m) \<noteq> None"
    using cur(1) id(1) by (auto simp: abs_db_def find_monitor_def find_None_iff)
  ultimately show ?thesis
    using sys_invI [OF assms(3) _ _ assms(4)] Record by force
qed

lemma incidents_step:
  assumes "db_monitors d' = db_monitors d" "db_next_monitor d' = db_next_monitor d" "incident_inv d'"
    "\<And>i. i \<in> set (db_incidents d') \<Longrightarrow> is_open i \<Longrightarrow>
       \<exists>j \<in> set (db_incidents d). is_open j \<and> inc_site_monitor_id j = inc_site_monitor_id i"
    "sys_inv (d, T)"
  shows "sys_inv (d', T) \<and> astep (abs_db d) (abs_db d')"
proof -
  have "failing_incidents d'"
    using assms(1,4,5) unfolding sys_inv_def db_ok_def failing_incidents_def by (fastforce split: prod.splits)
  then have "db_ok d'"
    using assms(1,2,3,5) by (simp add: sys_inv_def db_ok_def monitor_ids_ok_def monitors_wf_def)
  moreover have "open_incidents_of i d \<noteq> []" if "open_incidents_of i d' \<noteq> []" for i
    using that assms(4) by (fastforce simp: open_incidents_of_def filter_empty_conv)
  then have "abs_db d' = (\<lambda>i. if open_incidents_of i d' = []
      then map_option (\<lambda>(last, _). (last, False)) (abs_db d i) else abs_db d i)"
    by (intro ext) (auto simp: abs_db_def find_monitor_def assms(1) option.map_comp comp_def)
  then have "astep (abs_db d) (abs_db d')"
    by (simp only: CloseSome)
  moreover have "keeps_owned d d'"
    by (rule keeps_owned_subset) (simp add: assms(1))
  ultimately show ?thesis
    using sys_invI [OF assms(5), of d' T] by simp
qed

lemma resolve_step:
  assumes "update_incidents p g d = Inr (n, d')" "keeps_incident g" "sys_inv (d, T)"
  shows "sys_inv (d', T) \<and> astep (abs_db d) (abs_db d')"
proof (rule incidents_step [OF _ _ _ _ assms(3)])
  show "db_monitors d' = db_monitors d" "db_next_monitor d' = db_next_monitor d"
    using assms(1) by (auto simp: update_incidents_Inr)
  show "incident_inv d'"
    using update_incidents_inv [OF assms(1,2)] sys_inv_ok [OF assms(3)] by (simp add: db_ok_def)
  show "\<exists>j \<in> set (db_incidents d). is_open j \<and> inc_site_monitor_id j = inc_site_monitor_id i"
    if "i \<in> set (db_incidents d')" "is_open i" for i
    using list_all2_memD [OF update_incidents_list_all2 [OF assms(1,2)] that(1)] that(2) by fastforce
qed

lemma acknowledge_step:
  assumes "acknowledge_incident now i site a d = Inr (r, d')" "sys_inv (d, T)"
  shows "sys_inv (d', T) \<and> astep (abs_db d) (abs_db d')"
proof (rule incidents_step [OF _ _ _ _ assms(2)])
  show "db_monitors d' = db_monitors d" "db_next_monitor d' = db_next_monitor d"
    using assms(1) by (auto simp: acknowledge_incident_def Let_def)
  show "incident_inv d'"
    using acknowledge_incident_inv [OF assms(1)] sys_inv_ok [OF assms(2)] by (simp add: db_ok_def)
  show "\<exists>j \<in> set (db_incidents d). is_open j \<and> inc_site_monitor_id j = inc_site_monitor_id x"
    if "x \<in> set (db_incidents d')" "is_open x" for x
    using assms(1) that by (fastforce simp: acknowledge_incident_def Let_def set_update_rows)
qed

lemma prune_step:
  assumes "prune_checks_older_than lock cutoff limit d = Inr (r, d')" "sys_inv (d, T)"
  shows "sys_inv (d', T) \<and> astep (abs_db d) (abs_db d')"
proof (rule incidents_step [OF _ _ _ _ assms(2)])
  obtain g where g: "d' = d \<or> d' = delete_checks g d"
    using assms(1) by (auto simp: prune_checks_older_than_def Let_def split: if_splits)
  then show "db_monitors d' = db_monitors d" "db_next_monitor d' = db_next_monitor d"
    by (auto simp: delete_checks_def)
  have frame: "inc_id (forget_check g i) = inc_id i" "is_open (forget_check g i) = is_open i"
    "inc_site_monitor_id (forget_check g i) = inc_site_monitor_id i"
    "incident_consistent (forget_check g i) = incident_consistent i" for g i
    by (simp_all add: forget_check_def is_open_def incident_consistent_def split: incident_status.split)
  have "length (open_incidents_of j (delete_checks g d)) = length (open_incidents_of j d)" for j
    by (simp add: open_incidents_of_def delete_checks_def filter_map comp_def frame)
  then show "incident_inv d'"
    using g sys_inv_ok [OF assms(2)]
    by (auto simp: db_ok_def incident_inv_def delete_checks_def comp_def frame)
  show "\<exists>j \<in> set (db_incidents d). is_open j \<and> inc_site_monitor_id j = inc_site_monitor_id x"
    if x: "x \<in> set (db_incidents d')" "is_open x" for x
  proof -
    obtain y where "y \<in> set (db_incidents d)" "x = y \<or> x = forget_check g y"
      using g x(1) by (auto simp: delete_checks_def)
    with x(2) show ?thesis
      by (intro bexI [of _ y]) (auto simp: frame)
  qed
qed

lemma worker_columns_face: "worker_columns x = worker_columns y \<Longrightarrow> monitor_face x = monitor_face y"
  by (simp add: worker_columns_def monitor_face_def)

lemma find_append: "find p (xs @ ys) = (case find p xs of None \<Rightarrow> find p ys | Some x \<Rightarrow> Some x)"
  by (induction xs) auto

lemma added_monitor_step:
  assumes "db_monitors d' = db_monitors d @ [m]" "sm_id m = i" "i < db_next_monitor d'"
    "db_next_monitor d \<le> db_next_monitor d'" "sm_last_is_success m = None"
    "db_incidents d' = db_incidents d" "db_next_incident d' = db_next_incident d"
    "\<forall>x \<in> set (db_monitors d). sm_id x \<noteq> i" "db_ok d"
  shows "db_ok d' \<and> abs_db d' = (abs_db d)(i \<mapsto> (None, False)) \<and> abs_db d i = None"
proof -
  have none: "find_monitor i d = None"
    using assms(8) by (simp add: find_monitor_def find_None_iff)
  have "open_incidents_of i d = []"
    using assms(8,9) by (auto simp: db_ok_def failing_incidents_open split: if_splits)
  then have "open_incidents_of i d' = []" "\<And>j. open_incidents_of j d' = open_incidents_of j d"
    using assms(6) by (simp_all add: open_incidents_of_def)
  then have "abs_db d' = (abs_db d)(i \<mapsto> (None, False))"
    using none by (intro ext) (auto simp: abs_db_def find_monitor_def assms(1,2,5) find_append split: option.split)
  moreover have "failing_incidents d'"
    using assms(1,6,9) by (fastforce simp: db_ok_def failing_incidents_def)
  then have "db_ok d'"
    using assms incident_inv_cong(1) [of d' d]
    by (fastforce simp: db_ok_def monitor_ids_ok_def monitors_wf_def)
  ultimately show ?thesis
    using none by (simp add: abs_db_def)
qed

lemma api_step:
  assumes "exec_monitor_stmt now st d = Inr (u, d')" "sys_inv (d, T)"
  shows "sys_inv (d', T) \<and> astep (abs_db d) (abs_db d')"
proof -
  have "admin_effect d d'"
    using exec_monitor_stmt_effect [of now st d d'] assms(1) by simp
  then obtain t new where e: "db_monitors d' = t @ new"
    "map worker_columns t = map worker_columns (db_monitors d)"
    "new = [] \<or> (\<exists>m. new = [m] \<and> fresh_monitor (db_next_monitor d) m \<and>
       db_next_monitor d' = db_next_monitor d + 1)"
    "db_next_monitor d \<le> db_next_monitor d'" "db_incidents d' = db_incidents d"
    "db_next_incident d' = db_next_incident d"
    unfolding admin_effect_def by blast
  define d1 where "d1 = d'\<lparr>db_monitors := t\<rparr>"
  have ok: "db_ok d" using sys_inv_ok [OF assms(2)] .
  have faces: "map monitor_face t = map monitor_face (db_monitors d)"
    using e(2) by (auto simp: list_eq_iff_nth_eq intro!: worker_columns_face)
  then have q: "quiet d d1"
    using e by (simp add: quiet_def d1_def)
  have ok1: "db_ok d1"
    using quiet_ok [OF q ok] by simp
  have abs1: "abs_db d1 = abs_db d"
    using q faces_abs [of d1 d] by (simp add: quiet_def open_incidents_of_def)
  have "\<exists>x \<in> set (db_monitors d). worker_columns x = worker_columns x'" if "x' \<in> set t" for x'
  proof -
    have "worker_columns x' \<in> set (map worker_columns (db_monitors d))"
      using that e(2) by (metis image_eqI list.set_map)
    then show ?thesis by force
  qed
  then have owned: "keeps_owned d d'"
    using e(1,3) by (fastforce simp: keeps_owned_def fresh_monitor_def worker_columns_def monitor_face_def)
  show ?thesis
  proof (cases "new = []")
    case True
    then have "d1 = d'" by (simp add: d1_def e(1))
    then show ?thesis
      using quiet_step [OF assms(2) q _ order_refl] owned by simp
  next
    case False
    then obtain m where m: "new = [m]" "fresh_monitor (db_next_monitor d) m"
      "db_next_monitor d' = db_next_monitor d + 1"
      using e(3) by blast
    have "sm_id x < db_next_monitor d" if "x \<in> set t" for x
      using faces_mem [OF faces that] ok by (auto simp: db_ok_def monitor_ids_ok_def monitor_face_def)
    then have "\<forall>x \<in> set (db_monitors d1). sm_id x \<noteq> db_next_monitor d"
      by (fastforce simp: d1_def)
    then have "db_ok d' \<and> abs_db d' = (abs_db d1)(db_next_monitor d \<mapsto> (None, False)) \<and>
        abs_db d1 (db_next_monitor d) = None"
      by (intro added_monitor_step [of _ d1 m]) (use m e ok1 in \<open>simp_all add: d1_def fresh_monitor_def\<close>)
    then show ?thesis
      using sys_invI [OF assms(2) _ owned order_refl] AddMonitor abs1 by metis
  qed
qed

lemma site_step:
  assumes "db_monitors d' = db_monitors d" "db_incidents d' = db_incidents d"
    "db_next_incident d' = db_next_incident d" "db_next_monitor d' = db_next_monitor d" "sys_inv (d, T)"
  shows "sys_inv (d', T) \<and> astep (abs_db d) (abs_db d')"
  by (rule quiet_step [OF assms(5)]) (simp_all add: quiet_def keeps_owned_subset assms)

lemma delete_site_step:
  assumes "delete_site site d = Inr (r, d')" "sys_inv (d, T)"
  shows "sys_inv (d', T) \<and> astep (abs_db d) (abs_db d')"
proof -
  have ok: "db_ok d" using sys_inv_ok [OF assms(2)] .
  define mons where "mons = sm_id ` set (filter (\<lambda>m. sm_site_id m = site) (db_monitors d))"
  define gone where "gone = (\<lambda>x :: site_monitor_incident. inc_site_id x = site \<or> inc_site_monitor_id x \<in> mons)"
  define g where "g = smc_id ` set (filter (\<lambda>c. smc_site_monitor_id c \<in> mons) (db_checks d))"
  have g: "db_incidents d' = map (forget_check g) (delete_rows gone (db_incidents d))"
    and mon: "db_monitors d' = delete_rows (\<lambda>m. sm_id m \<in> mons) (db_monitors d)"
    and nx: "db_next_incident d' = db_next_incident d" "db_next_monitor d' = db_next_monitor d"
    using assms(1) unfolding delete_site_def Let_def g_def mons_def gone_def forget_check_def [abs_def]
    by clarsimp+
  have frame: "inc_id (forget_check g i) = inc_id i" "is_open (forget_check g i) = is_open i"
    "inc_site_monitor_id (forget_check g i) = inc_site_monitor_id i"
    "incident_consistent (forget_check g i) = incident_consistent i" for i
    by (simp_all add: forget_check_def is_open_def incident_consistent_def split: incident_status.split)
  have opens: "length (open_incidents_of j d') \<le> length (open_incidents_of j d)" for j
  proof -
    have "length (open_incidents_of j d') =
        length (filter (\<lambda>i. \<not> gone i) (open_incidents_of j d))"
      by (simp add: open_incidents_of_def g filter_map comp_def frame delete_rows_def conj_commute conj_left_commute)
    then show ?thesis by simp
  qed
  have "incident_inv d'"
    unfolding incident_inv_def
  proof (intro conjI ballI allI)
    show "distinct (map inc_id (db_incidents d'))"
      using ok by (simp add: g comp_def frame delete_rows_def db_ok_def incident_inv_def distinct_map_filter)
    show "inc_id i < db_next_incident d'" "incident_consistent i" if "i \<in> set (db_incidents d')" for i
      using ok that by (auto simp: g frame nx delete_rows_def db_ok_def incident_inv_def)
    show "length (open_incidents_of m d') \<le> 1" for m
      using opens [of m] ok by (simp add: db_ok_def incident_inv_def) (meson le_trans)
  qed
  moreover have "failing_incidents d'"
    unfolding failing_incidents_def
  proof (intro ballI impI)
    fix i assume i: "i \<in> set (db_incidents d')" "is_open i"
    then obtain x where x: "x \<in> set (db_incidents d)" "\<not> gone x" "is_open x"
      "inc_site_monitor_id x = inc_site_monitor_id i"
      by (auto simp: g frame delete_rows_def)
    then obtain m where "m \<in> set (db_monitors d)" "sm_id m = inc_site_monitor_id i" "sm_last_is_success m = Some False"
      using ok by (auto simp: db_ok_def failing_incidents_def)
    with x show "\<exists>m \<in> set (db_monitors d'). sm_id m = inc_site_monitor_id i \<and> sm_last_is_success m = Some False"
      by (intro bexI [of _ m]) (auto simp: mon delete_rows_def gone_def)
  qed
  ultimately have ok': "db_ok d'"
    using ok nx by (auto simp: db_ok_def monitor_ids_ok_def monitors_wf_def mon delete_rows_def distinct_map_filter)
  have find: "find_monitor i d' = (if i \<in> mons then None else find_monitor i d)" for i
  proof -
    have "find (\<lambda>m. sm_id m = i) (filter (\<lambda>m. sm_id m \<notin> mons) ms) =
        (if i \<in> mons then None else find (\<lambda>m. sm_id m = i) ms)" for ms :: "site_monitor list"
      by (induction ms) auto
    then show ?thesis by (simp add: find_monitor_def mon delete_rows_def)
  qed
  have "abs_db d' = (\<lambda>i. if open_incidents_of i d' = []
      then map_option (\<lambda>(last, _). (last, False)) (abs_db d i) else abs_db d i) |` (- mons)"
  proof
    fix i
    show "abs_db d' i = ((\<lambda>i. if open_incidents_of i d' = []
        then map_option (\<lambda>(last, _). (last, False)) (abs_db d i) else abs_db d i) |` (- mons)) i"
      using opens [of i]
      by (cases "open_incidents_of i d = []"; cases "i \<in> mons")
        (auto simp: abs_db_def find restrict_map_def option.map_comp comp_def)
  qed
  then have "astep (abs_db d) (abs_db d')"
    by (simp only: RemoveSome)
  then show ?thesis
    using sys_invI [OF assms(2) ok' keeps_owned_subset] by (auto simp: mon delete_rows_def)
qed

lemma sys_step_ok:
  assumes "sys_step s s'" "sys_inv s"
  shows "sys_inv s' \<and> astep (abs_db (fst s)) (abs_db (fst s'))"
  using assms
proof (induction rule: sys_step.induct)
  case (Claim w T now locked limit s d ms d')
  then show ?case using claim_step by simp
next
  case (Extend w m T now s d b d')
  then have d': "db_monitors d' = update_rows (owns_claim (sm_id m) w) (extend_row now s) (db_monitors d)"
    "quiet d d'"
    by (auto simp: extend_site_monitor_claim_def update_claimed_def intro!: quiet_update)
  have "keeps_owned d d'"
    by (rule keeps_owned_update [OF d'(1)]) simp_all
  then show ?case using quiet_step [OF Extend.prems d'(2) _ order_refl] by simp
next
  case (Save w m T d f now completed)
  have "sys_inv (run_stmt (save_check_result f now m w completed) d, remove1 (w, m) T) \<and>
      astep (abs_db d) (abs_db (run_stmt (save_check_result f now m w completed) d))"
    by (rule run_stmt_step [OF Save.prems set_remove1_subset])
      (rule save_step [OF _ Save.hyps Save.prems set_remove1_subset])
  then show ?case by simp
next
  case (Release w m T d now)
  let ?d' = "run_stmt (release_site_monitor_claim now (sm_id m) w) d"
  have d': "db_monitors ?d' = update_rows (owns_claim (sm_id m) w) (release_row now) (db_monitors d)"
    "quiet d ?d'"
    by (auto simp: release_site_monitor_claim_def update_claimed_def run_stmt_def intro!: quiet_update)
  have "keeps_owned d ?d'"
    by (rule keeps_owned_release [OF d'(1)]) simp
  then show ?case using quiet_step [OF Release.prems d'(2) _ set_remove1_subset] by simp
next
  case (Lose d T w m)
  then show ?case using unchanged_step [OF _ set_remove1_subset] by simp
next
  case (Crash d T w)
  then show ?case using unchanged_step [of d T "filter (\<lambda>(w', _). w' \<noteq> w) T"] by simp
next
  case (Prune d T lock cutoff limit)
  then show ?case using run_stmt_step [OF _ order_refl prune_step] by simp
next
  case (Api d T now st)
  have "sys_inv (run_stmt (exec_monitor_stmt now st) d, T) \<and>
      astep (abs_db d) (abs_db (run_stmt (exec_monitor_stmt now st) d))"
    by (rule run_stmt_step [OF Api order_refl]) (rule api_step [OF _ Api])
  then show ?case by simp
next
  case (ResolveMonitor d T now i reason)
  then show ?case
    using run_stmt_step [OF _ order_refl resolve_step [OF _ row_ops_keep_incident(3)]]
    by (simp add: resolve_open_incidents_for_monitor_def)
next
  case (ResolveSite d T now site reason)
  then show ?case
    using run_stmt_step [OF _ order_refl resolve_step [OF _ row_ops_keep_incident(3)]]
    by (simp add: resolve_open_incidents_for_site_def)
next
  case (Acknowledge d T now i site admin)
  then show ?case using run_stmt_step [OF _ order_refl acknowledge_step] by simp
next
  case (CreateSite d T now name url)
  have "sys_inv (d', T) \<and> astep (abs_db d) (abs_db d')" if "create_site now name url d = Inr (x, d')" for x d'
    by (rule site_step) (use that CreateSite in \<open>auto simp: create_site_def Let_def split: if_splits\<close>)
  then have "sys_inv (run_stmt (create_site now name url) d, T) \<and>
      astep (abs_db d) (abs_db (run_stmt (create_site now name url) d))"
    by (rule run_stmt_step [OF CreateSite order_refl])
  then show ?case by simp
next
  case (UpdateSite d T now site name url active)
  have "sys_inv (d', T) \<and> astep (abs_db d) (abs_db d')"
    if "update_site now site name url active d = Inr (x, d')" for x d'
    by (rule site_step) (use that UpdateSite in \<open>auto simp: update_site_def Let_def split: if_splits\<close>)
  then have "sys_inv (run_stmt (update_site now site name url active) d, T) \<and>
      astep (abs_db d) (abs_db (run_stmt (update_site now site name url active) d))"
    by (rule run_stmt_step [OF UpdateSite order_refl])
  then show ?case by simp
next
  case (DeleteSite d T site)
  then show ?case using run_stmt_step [OF _ order_refl delete_site_step] by simp
next
  case (Side d T now st)
  have "sys_inv (d', T) \<and> astep (abs_db d) (abs_db d')" if "exec_side_stmt now st d = Inr ((), d')" for d'
    using site_step [of d' d T] side_stmt_frame [OF that] Side by (simp add: check_tables_def)
  then have "sys_inv (run_stmt (exec_side_stmt now st) d, T) \<and>
      astep (abs_db d) (abs_db (run_stmt (exec_side_stmt now st) d))"
    by (intro run_stmt_step [OF Side order_refl]) simp
  then show ?case by simp
qed

lemma sys_inv_start: "sys_inv (empty_db, [])"
  by (simp add: sys_inv_def db_ok_def incident_inv_def failing_incidents_def monitor_ids_ok_def
      monitors_wf_def open_incidents_of_def empty_db_def)

lemma reachable_inv: "reachable s \<Longrightarrow> sys_inv s"
  by (induction rule: reachable.induct) (auto simp: sys_inv_start dest: sys_step_ok)

lemma enqueue_no_unique: "enqueue_deliveries now ns d \<noteq> Inl (UniqueViolation v)"
proof (induction ns arbitrary: d)
  case Nil
  then show ?case by simp
next
  case (Cons n ns)
  then show ?case
    by (auto simp: stmt_bind_Inl_iff insert_delivery_def Let_def split: if_splits)
qed

lemma owner_save_not_blocked:
  assumes "sys_inv (d, T)" "(w, m) \<in> set T" "x \<in> set (db_monitors d)" "owns_claim (sm_id m) w x"
  shows "save_check_result f now m w completed d \<noteq> Inl (UniqueViolation v)"
proof
  assume "save_check_result f now m w completed d = Inl (UniqueViolation v)"
  then obtain check d1 where d1: "d1 = d\<lparr>db_checks := db_checks d @ [check], db_next_check := db_next_check d + 1\<rparr>"
    and life: "manage_incident_lifecycle now m check d1 = Inl (UniqueViolation v)"
    unfolding save_check_result_def stmt_bind_Inl_iff create_site_monitor_check_Inr
    by (auto simp: create_site_monitor_check_def Let_def enqueue_site_monitor_notifications_def
        stmt_bind_Inl_iff load_notification_context_def update_site_monitor_last_check_def
        update_claimed_def enqueue_no_unique split: if_splits option.splits)
  have "sm_last_is_success x = sm_last_is_success m" "sm_id x = sm_id m"
    using assms by (auto simp: sys_inv_def task_current_def owns_claim_def)
  then have last: "sm_last_is_success m = Some False" if "open_incidents_of (sm_id m) d \<noteq> []"
    using failing_incidents_monitor [of d x] that assms(3) sys_inv_ok [OF assms(1)]
    by (simp add: db_ok_def monitor_ids_ok_def)
  have upd: "update_incidents p g e \<noteq> Inl (UniqueViolation v)" if "\<And>i. g i \<noteq> Inl (UniqueViolation v)" for p g e
  proof
    assume "update_incidents p g e = Inl (UniqueViolation v)"
    then obtain i where "g i = Inl (UniqueViolation v)"
      by (auto simp: update_incidents_def try_update_rows_def dest!: try_map_InlD split: sum.splits if_splits)
    with that show False by blast
  qed
  have "update_incidents p (recovered_row now rp) e \<noteq> Inl (UniqueViolation v)"
    "update_incidents p (failure_row now fp) e \<noteq> Inl (UniqueViolation v)" for p rp fp e
    by (rule upd; simp add: recovered_row_def failure_row_def and_then_eq_Inl pg_int4_def)+
  then show False
    using life last get_open_incident_None [of "sm_id m" d1]
    by (auto simp: manage_incident_lifecycle_def Let_def stmt_bind_Inl_iff open_incident_def open_params_def
        classify_incident_action_def with_open_def update_incident_failure_def resolve_incident_def d1
        split: if_splits option.splits bool.splits)
qed

section \<open>Properties of the system\<close>

lemma reachable_is_sound:
  assumes "reachable (d, T)"
  shows "length (open_incidents_of j d) \<le> 1 \<and>
    (if open_incidents_of j d = [] then True
     else \<exists>m. find_monitor j d = Some m \<and> sm_last_is_success m = Some False) \<and>
    list_all (\<lambda>(w, m).
        if list_ex (owns_claim (sm_id m) w) (db_monitors d)
        then save_check_result f now m w completed d \<noteq> Inl (UniqueViolation v) else True) T"
proof (intro conjI)
  have inv: "sys_inv (d, T)"
    using assms by (rule reachable_inv)
  note ok = sys_inv_ok [OF inv]
  show "length (open_incidents_of j d) \<le> 1"
    using ok by (simp add: db_ok_def incident_inv_def)
  show "if open_incidents_of j d = [] then True
     else \<exists>m. find_monitor j d = Some m \<and> sm_last_is_success m = Some False"
  proof (cases "open_incidents_of j d = []")
    case False
    then obtain m where m: "m \<in> set (db_monitors d)" "sm_id m = j" "sm_last_is_success m = Some False"
      using ok spec [of _ j] unfolding db_ok_def failing_incidents_open by (auto split: if_splits)
    have "find_monitor j d = Some m"
      using find_by_key [of sm_id "db_monitors d" m] m ok
      by (simp add: find_monitor_def db_ok_def monitor_ids_ok_def monitors_wf_def)
    with m False show ?thesis by simp
  qed simp
  show "list_all (\<lambda>(w, m).
        if list_ex (owns_claim (sm_id m) w) (db_monitors d)
        then save_check_result f now m w completed d \<noteq> Inl (UniqueViolation v) else True) T"
    using owner_save_not_blocked [OF inv] by (auto simp: list_all_iff list_ex_iff)
qed

text \<open>A reachable state with a site and a monitor, for the witnesses.\<close>

definition sample_sys_db :: db where
  "sample_sys_db = run_stmt (exec_monitor_stmt 5 (CreateHeartbeat 1
     \<lparr>hbp_target_url = ''/hb'', hbp_heartbeat_token = ''t'', hbp_check_interval_seconds = 60,
      hbp_heartbeat_grace_seconds = None, hbp_is_active = True\<rparr>))
     (run_stmt (create_site 4 ''Shop'' ''https://a.test'') empty_db)"

lemma sample_sys_reachable: "reachable (sample_sys_db, [])"
  unfolding sample_sys_db_def by (rule Step [OF Step [OF Start CreateSite] Api])

lemma sample_sys_monitors: "map sm_id (db_monitors sample_sys_db) = [1]"
  by (simp add: sample_sys_db_def create_site_def empty_db_def run_stmt_def drop_result_def stmt_bind_def
      create_heartbeat_site_monitor_def insert_monitor_def Let_def monitor_defaults_def find_site_def
      monitor_constraints_def List.map_filter_def)

text \<open>
  C20: the system refines a small machine per monitor, whose state is the last result and whether an
  incident is open: from any reachable state, every step of the workers and the API changes
  nothing the machine sees, or records a result and opens or closes the incident with it, or closes
  incidents, or adds a monitor with no result and no incident, or removes the monitors of a site.
\<close>

theorem workers_refine_monitor_machine:
  assumes "reachable s" "sys_step s s'"
  shows "astep (abs_db (fst s)) (abs_db (fst s')) \<and> reachable s'"
  using sys_step_ok [OF assms(2) reachable_inv [OF assms(1)]] Step [OF assms] by simp

theorem workers_refine_monitor_machine_witness:
  "astep (abs_db sample_sys_db) (abs_db (run_stmt (delete_site 1) sample_sys_db))"
  using workers_refine_monitor_machine [OF sample_sys_reachable DeleteSite] by simp

end
