(* ===== verification/Permissions.thy ===== *)
theory Permissions
  imports Rust_Str
begin

text \<open>
  Permission keys and sets (\<^verbatim>\<open>src/api/permissions.rs\<close>) and the permissions of an API client's
  scopes (\<^verbatim>\<open>src/auth/service.rs\<close>). A \<open>BTreeSet\<close> of keys is a set; \<open>to_strings\<close> lists it in the
  order of declaration, which is the derived order.
\<close>

section \<open>Keys\<close>

datatype permission_key =
    SitesCreate
  | SitesRead
  | SitesUpdate
  | SitesDelete
  | SiteMonitorsCreate
  | SiteMonitorsRead
  | SiteMonitorsUpdate
  | SiteMonitorsDelete
  | SiteChecksRead
  | SiteIncidentsRead
  | NotificationDeliveriesRead
  | NotificationChannelsCreate
  | NotificationChannelsRead
  | NotificationChannelsUpdate
  | NotificationChannelsDelete
  | SiteNotificationChannelOverridesCreate
  | SiteNotificationChannelOverridesRead
  | SiteNotificationChannelOverridesUpdate
  | SiteNotificationChannelOverridesDelete
  | IncidentsWrite
  | UsersRead
  | UsersWrite
  | RolesRead
  | RolesWrite
  | ApiClientsRead
  | ApiClientsWrite

fun permission_as_str :: "permission_key \<Rightarrow> string" where
  "permission_as_str SitesCreate = ''sites.create''"
| "permission_as_str SitesRead = ''sites.read''"
| "permission_as_str SitesUpdate = ''sites.update''"
| "permission_as_str SitesDelete = ''sites.delete''"
| "permission_as_str SiteMonitorsCreate = ''site_monitors.create''"
| "permission_as_str SiteMonitorsRead = ''site_monitors.read''"
| "permission_as_str SiteMonitorsUpdate = ''site_monitors.update''"
| "permission_as_str SiteMonitorsDelete = ''site_monitors.delete''"
| "permission_as_str SiteChecksRead = ''site_checks.read''"
| "permission_as_str SiteIncidentsRead = ''site_incidents.read''"
| "permission_as_str NotificationDeliveriesRead = ''notification_deliveries.read''"
| "permission_as_str NotificationChannelsCreate = ''notification_channels.create''"
| "permission_as_str NotificationChannelsRead = ''notification_channels.read''"
| "permission_as_str NotificationChannelsUpdate = ''notification_channels.update''"
| "permission_as_str NotificationChannelsDelete = ''notification_channels.delete''"
| "permission_as_str SiteNotificationChannelOverridesCreate = ''site_notification_channel_overrides.create''"
| "permission_as_str SiteNotificationChannelOverridesRead = ''site_notification_channel_overrides.read''"
| "permission_as_str SiteNotificationChannelOverridesUpdate = ''site_notification_channel_overrides.update''"
| "permission_as_str SiteNotificationChannelOverridesDelete = ''site_notification_channel_overrides.delete''"
| "permission_as_str IncidentsWrite = ''incidents.write''"
| "permission_as_str UsersRead = ''users.read''"
| "permission_as_str UsersWrite = ''users.write''"
| "permission_as_str RolesRead = ''roles.read''"
| "permission_as_str RolesWrite = ''roles.write''"
| "permission_as_str ApiClientsRead = ''api_clients.read''"
| "permission_as_str ApiClientsWrite = ''api_clients.write''"

definition permission_from_str :: "string \<Rightarrow> string + permission_key" where
  "permission_from_str value =
     (if value = ''sites.create'' then Inr SitesCreate
      else if value = ''sites.read'' then Inr SitesRead
      else if value = ''sites.update'' then Inr SitesUpdate
      else if value = ''sites.delete'' then Inr SitesDelete
      else if value = ''site_monitors.create'' then Inr SiteMonitorsCreate
      else if value = ''site_monitors.read'' then Inr SiteMonitorsRead
      else if value = ''site_monitors.update'' then Inr SiteMonitorsUpdate
      else if value = ''site_monitors.delete'' then Inr SiteMonitorsDelete
      else if value = ''site_checks.read'' then Inr SiteChecksRead
      else if value = ''site_incidents.read'' then Inr SiteIncidentsRead
      else if value = ''notification_deliveries.read'' then Inr NotificationDeliveriesRead
      else if value = ''notification_channels.create'' then Inr NotificationChannelsCreate
      else if value = ''notification_channels.read'' then Inr NotificationChannelsRead
      else if value = ''notification_channels.update'' then Inr NotificationChannelsUpdate
      else if value = ''notification_channels.delete'' then Inr NotificationChannelsDelete
      else if value = ''site_notification_channel_overrides.create'' then Inr SiteNotificationChannelOverridesCreate
      else if value = ''site_notification_channel_overrides.read'' then Inr SiteNotificationChannelOverridesRead
      else if value = ''site_notification_channel_overrides.update'' then Inr SiteNotificationChannelOverridesUpdate
      else if value = ''site_notification_channel_overrides.delete'' then Inr SiteNotificationChannelOverridesDelete
      else if value = ''incidents.write'' then Inr IncidentsWrite
      else if value = ''users.read'' then Inr UsersRead
      else if value = ''users.write'' then Inr UsersWrite
      else if value = ''roles.read'' then Inr RolesRead
      else if value = ''roles.write'' then Inr RolesWrite
      else if value = ''api_clients.read'' then Inr ApiClientsRead
      else if value = ''api_clients.write'' then Inr ApiClientsWrite
      else Inl (''unknown permission key: '' @ value))"

text \<open>The keys in the order of their declaration.\<close>

definition all_permissions :: "permission_key list" where
  "all_permissions =
     [SitesCreate, SitesRead, SitesUpdate,
      SitesDelete, SiteMonitorsCreate, SiteMonitorsRead,
      SiteMonitorsUpdate, SiteMonitorsDelete, SiteChecksRead,
      SiteIncidentsRead, NotificationDeliveriesRead, NotificationChannelsCreate,
      NotificationChannelsRead, NotificationChannelsUpdate, NotificationChannelsDelete,
      SiteNotificationChannelOverridesCreate, SiteNotificationChannelOverridesRead, SiteNotificationChannelOverridesUpdate,
      SiteNotificationChannelOverridesDelete, IncidentsWrite, UsersRead,
      UsersWrite, RolesRead, RolesWrite,
      ApiClientsRead, ApiClientsWrite]"

section \<open>Sets\<close>

type_synonym permission_set = "permission_key set"

definition from_strs :: "string list \<Rightarrow> string + permission_set" where
  "from_strs keys = and_then (try_map permission_from_str keys) (\<lambda>ks. Inr (set ks))"

definition to_strings :: "permission_set \<Rightarrow> string list" where
  "to_strings s = map permission_as_str (filter (\<lambda>k. k \<in> s) all_permissions)"

definition require_permission :: "permission_set \<Rightarrow> permission_key \<Rightarrow> string + unit" where
  "require_permission permissions required =
     (if required \<in> permissions then Inr ()
      else Inl (''missing required permission: '' @ permission_as_str required))"

definition require_scope :: "string list \<Rightarrow> string \<Rightarrow> string + unit" where
  "require_scope scopes required =
     (if list_ex (\<lambda>s. s = required) scopes then Inr ()
      else Inl (''missing required scope: '' @ required))"

section \<open>Scopes of API clients\<close>

definition scope_permissions :: "string \<Rightarrow> permission_key list" where
  "scope_permissions scope =
     (if scope = ''sites:read''
      then [SitesRead, SiteMonitorsRead, SiteChecksRead, SiteIncidentsRead, NotificationChannelsRead,
            SiteNotificationChannelOverridesRead, NotificationDeliveriesRead]
      else if scope = ''sites:write''
      then [SitesCreate, SitesUpdate, SitesDelete, SiteMonitorsCreate, SiteMonitorsUpdate,
            SiteMonitorsDelete, NotificationChannelsCreate, NotificationChannelsUpdate,
            NotificationChannelsDelete, SiteNotificationChannelOverridesCreate,
            SiteNotificationChannelOverridesUpdate, SiteNotificationChannelOverridesDelete]
      else [])"

definition permissions_from_api_client_scopes :: "string list \<Rightarrow> permission_set" where
  "permissions_from_api_client_scopes scopes = set (concat (map scope_permissions scopes))"

section \<open>Facts about permissions\<close>

lemma all_permissions_complete: "k \<in> set all_permissions"
  by (cases k) (simp_all add: all_permissions_def)

lemma permission_round_trip: "permission_from_str (permission_as_str k) = Inr k"
  by (cases k; simp add: permission_from_str_def)

lemma if_InrE:
  "(if s = t then Inr a else r) = Inr k \<Longrightarrow> (s = t \<Longrightarrow> k = a \<Longrightarrow> P) \<Longrightarrow> (r = Inr k \<Longrightarrow> P) \<Longrightarrow> P"
  by (cases "s = t") simp_all

lemma permission_from_str_Inr: "permission_from_str s = Inr k \<longleftrightarrow> s = permission_as_str k"
proof
  assume "permission_from_str s = Inr k"
  then show "s = permission_as_str k"
    unfolding permission_from_str_def by - ((erule if_InrE, simp)+, simp)
qed (simp add: permission_round_trip)

lemma permission_as_str_inj: "permission_as_str k = permission_as_str k' \<longleftrightarrow> k = k'"
  using permission_round_trip by (metis sum.inject(2))

lemma from_strs_Inr: "from_strs keys = Inr s \<longleftrightarrow> (\<exists>ks. keys = map permission_as_str ks \<and> s = set ks)"
proof -
  have "try_map permission_from_str keys = Inr ks \<longleftrightarrow> keys = map permission_as_str ks" for ks
    by (induction keys arbitrary: ks) (auto simp: and_then_eq_Inr permission_from_str_Inr Cons_eq_map_conv)
  then show ?thesis
    by (auto simp: from_strs_def and_then_eq_Inr)
qed

lemma is_ok_from_strs: "is_ok (from_strs keys) \<longleftrightarrow> (\<exists>ks. keys = map permission_as_str ks)"
proof (cases "from_strs keys")
  case (Inl e)
  then have "\<nexists>ks. keys = map permission_as_str ks"
    using from_strs_Inr by (metis sum.distinct(1))
  with Inl show ?thesis by simp
next
  case (Inr s')
  then show ?thesis using from_strs_Inr [of keys s'] by auto
qed

definition reading :: "permission_key \<Rightarrow> bool" where
  "reading k \<longleftrightarrow> drop (length (permission_as_str k) - 5) (permission_as_str k) = ''.read''"

definition administration :: "permission_key set" where
  "administration =
     {IncidentsWrite, UsersRead, UsersWrite, RolesRead, RolesWrite, ApiClientsRead, ApiClientsWrite}"

lemma scope_table:
  "k \<in> set (scope_permissions ''sites:read'') \<longleftrightarrow> k \<notin> administration \<and> reading k"
  "k \<in> set (scope_permissions ''sites:write'') \<longleftrightarrow> k \<notin> administration \<and> \<not> reading k"
  by (cases k; simp add: scope_permissions_def administration_def reading_def)+

text \<open>
  The permission set of a stored role or token survives its textual form, and a text is accepted
  exactly when every key in it is a known one. The permissions of an API client never contain
  administration (users, roles, API clients, acknowledging incidents): its scopes grant a remaining
  permission exactly when it is a reading one (its name ends in \<open>.read\<close>) and \<open>sites:read\<close> is among
  them, or another one and \<open>sites:write\<close> is.
\<close>

theorem permission_sets_and_scopes:
  "from_strs (to_strings s) = Inr s \<and>
   (is_ok (from_strs keys) \<longleftrightarrow> list_all (\<lambda>x. x \<in> set (map permission_as_str all_permissions)) keys) \<and>
   (require_permission (permissions_from_api_client_scopes scopes) k = Inr () \<longleftrightarrow>
      k \<notin> administration \<and>
      (if reading k then ''sites:read'' \<in> set scopes else ''sites:write'' \<in> set scopes))"
proof (intro conjI)
  show "from_strs (to_strings s) = Inr s"
    unfolding from_strs_Inr to_strings_def
    by (intro exI conjI, rule refl) (auto simp: all_permissions_complete)
  have all: "set all_permissions = UNIV"
    using all_permissions_complete by blast
  have "is_ok (from_strs keys) \<longleftrightarrow> (\<exists>ks. keys = map permission_as_str ks)"
    by (rule is_ok_from_strs)
  moreover have "(\<exists>ks. keys = map permission_as_str ks) \<longleftrightarrow> list_all (\<lambda>x. \<exists>k. x = permission_as_str k) keys"
    unfolding list_all_iff ex_map_conv ..
  ultimately show "is_ok (from_strs keys) \<longleftrightarrow> list_all (\<lambda>x. x \<in> set (map permission_as_str all_permissions)) keys"
    unfolding set_map all image_def by simp
  have "k \<in> permissions_from_api_client_scopes scopes \<longleftrightarrow>
      (''sites:read'' \<in> set scopes \<and> k \<in> set (scope_permissions ''sites:read'')) \<or>
      (''sites:write'' \<in> set scopes \<and> k \<in> set (scope_permissions ''sites:write''))"
    by (auto simp: permissions_from_api_client_scopes_def scope_permissions_def split: if_splits)
  then show "require_permission (permissions_from_api_client_scopes scopes) k = Inr () \<longleftrightarrow>
      k \<notin> administration \<and>
      (if reading k then ''sites:read'' \<in> set scopes else ''sites:write'' \<in> set scopes)"
    using scope_table [of k] by (auto simp: require_permission_def list_all_iff)
qed

end
