(* ===== verification/Auth_Model.thy ===== *)
theory Auth_Model
  imports Sql_Table Json_Value Permissions
begin

text \<open>
  The data of authentication: API clients and their tokens (\<^verbatim>\<open>src/domain/api_auth/model.rs\<close>),
  administrators and theirs (\<^verbatim>\<open>src/domain/admin_users\<close>, \<^verbatim>\<open>src/domain/admin_auth\<close>), roles and
  permissions (\<^verbatim>\<open>src/domain/roles\<close>, \<^verbatim>\<open>src/domain/permissions\<close>), and the tables that hold them. What
  Argon2, SHA-256, the database's collation and its \<open>inet\<close> type compute is a parameter.
\<close>

section \<open>Rows\<close>

datatype api_client_type = InternalService | InstallationClient

record api_client =
  ac_id :: id
  ac_uuid :: string
  ac_name :: string
  ac_description :: "string option"
  ac_client_type :: api_client_type
  ac_client_id :: string
  ac_client_secret_hash :: string
  ac_secret_prefix :: string
  ac_is_active :: bool
  ac_last_used_at :: "timestamp option"
  ac_created_by_user_id :: "string option"
  ac_created_at :: timestamp
  ac_updated_at :: timestamp

record api_client_scope =
  acs_id :: id
  acs_api_client_id :: id
  acs_scope :: string
  acs_created_at :: timestamp

text \<open>\<open>AccessToken\<close> and \<open>AdminAccessToken\<close> differ in the name of the owner's column only.\<close>

record access_token =
  at_id :: id
  at_owner :: id
  at_token_hash :: string
  at_token_prefix :: string
  at_expires_at :: timestamp
  at_revoked_at :: "timestamp option"
  at_revoked_reason :: "string option"
  at_last_used_at :: "timestamp option"
  at_created_at :: timestamp

type_synonym admin_access_token = access_token

text \<open>\<open>ApiClientAuditLog\<close> and \<open>AdminAuthAuditLog\<close>, again with one name for the owner's column.\<close>

record audit_log =
  al_id :: id
  al_owner :: "id option"
  al_action :: string
  al_ip_address :: "string option"
  al_user_agent :: "string option"
  al_meta_json :: "json option"
  al_created_at :: timestamp

type_synonym admin_auth_audit_log = audit_log

record admin_user =
  au_id :: id
  au_uuid :: string
  au_email :: string
  au_display_name :: string
  au_password_hash :: string
  au_is_active :: bool
  au_last_login_at :: "timestamp option"
  au_created_at :: timestamp
  au_updated_at :: timestamp

record role =
  r_id :: id
  r_key :: string
  r_name :: string
  r_description :: "string option"
  r_is_system :: bool
  r_created_at :: timestamp
  r_updated_at :: timestamp

record admin_user_role =
  aur_id :: id
  aur_admin_user_id :: id
  aur_role_id :: id
  aur_created_at :: timestamp

record permission =
  p_id :: id
  p_key :: string
  p_name :: string
  p_description :: "string option"
  p_created_at :: timestamp

record role_permission =
  rp_id :: id
  rp_role_id :: id
  rp_permission_id :: id
  rp_created_at :: timestamp

record admin_user_update_params =
  aup_email :: string
  aup_display_name :: string
  aup_password_hash :: "string option"
  aup_is_active :: bool

section \<open>The tables\<close>

record auth_db =
  ad_clients :: "api_client list"
  ad_scopes :: "api_client_scope list"
  ad_tokens :: "access_token list"
  ad_client_logs :: "audit_log list"
  ad_users :: "admin_user list"
  ad_roles :: "role list"
  ad_user_roles :: "admin_user_role list"
  ad_permissions :: "permission list"
  ad_role_permissions :: "role_permission list"
  ad_admin_tokens :: "admin_access_token list"
  ad_admin_logs :: "admin_auth_audit_log list"
  ad_next_client :: id
  ad_next_scope :: id
  ad_next_token :: id
  ad_next_client_log :: id
  ad_next_user :: id
  ad_next_role :: id
  ad_next_user_role :: id
  ad_next_role_permission :: id
  ad_next_admin_token :: id
  ad_next_admin_log :: id

definition empty_auth_db :: auth_db where
  "empty_auth_db =
     \<lparr>ad_clients = [], ad_scopes = [], ad_tokens = [], ad_client_logs = [], ad_users = [], ad_roles = [],
      ad_user_roles = [], ad_permissions = [], ad_role_permissions = [], ad_admin_tokens = [],
      ad_admin_logs = [], ad_next_client = 1, ad_next_scope = 1, ad_next_token = 1,
      ad_next_client_log = 1, ad_next_user = 1, ad_next_role = 1, ad_next_user_role = 1,
      ad_next_role_permission = 1, ad_next_admin_token = 1, ad_next_admin_log = 1\<rparr>"

section \<open>What the code calls\<close>

record auth_env =
  ae_hash_token :: "string \<Rightarrow> string"
  ae_hash_password :: "string \<Rightarrow> string \<Rightarrow> string + string"
  ae_verify_password :: "string \<Rightarrow> string \<Rightarrow> string + bool"
  ae_collate :: "string \<Rightarrow> string \<Rightarrow> bool"
  ae_lower :: "string \<Rightarrow> string"
  ae_inet :: "string \<Rightarrow> string option"

text \<open>\<open>ORDER BY\<close> a text column, in the order of the database's collation.\<close>

fun insert_collated :: "('k \<Rightarrow> 'k \<Rightarrow> bool) \<Rightarrow> ('r \<Rightarrow> 'k) \<Rightarrow> 'r \<Rightarrow> 'r list \<Rightarrow> 'r list" where
  "insert_collated le key x [] = [x]"
| "insert_collated le key x (y # ys) =
     (if le (key x) (key y) then x # y # ys else y # insert_collated le key x ys)"

definition order_collated :: "('k \<Rightarrow> 'k \<Rightarrow> bool) \<Rightarrow> ('r \<Rightarrow> 'k) \<Rightarrow> 'r list \<Rightarrow> 'r list" where
  "order_collated le key xs = foldr (insert_collated le key) xs []"

lemma set_insert_collated [simp]: "set (insert_collated le key x ys) = insert x (set ys)"
  by (induction ys) auto

lemma set_order_collated [simp]: "set (order_collated le key xs) = set xs"
  by (induction xs) (simp_all add: order_collated_def)

lemma length_insert_collated [simp]: "length (insert_collated le key x ys) = Suc (length ys)"
  by (induction ys) auto

lemma length_order_collated [simp]: "length (order_collated le key xs) = length xs"
  by (induction xs) (simp_all add: order_collated_def)

text \<open>The constraints of the tables that inserts can violate.\<close>

definition is_hex_digest :: "string \<Rightarrow> bool" where
  "is_hex_digest s \<longleftrightarrow>
     length s = 64 \<and> list_all (\<lambda>c. is_ascii_digit c \<or> c \<in> set ''abcdef'') s"

definition pg_blank :: "string \<Rightarrow> bool" where
  "pg_blank s \<longleftrightarrow> list_all (\<lambda>c. c = CHR '' '') s"

definition is_key_text :: "string \<Rightarrow> bool" where
  "is_key_text s \<longleftrightarrow>
     s \<noteq> [] \<and> list_all (\<lambda>c. is_ascii_digit c \<or> is_ascii_lowercase c \<or> c \<in> set ''._:-'') s"

end
