(* ===== verification/Auth_Repository.thy ===== *)
theory Auth_Repository
  imports Auth_Model
begin

text \<open>
  The statements of \<^verbatim>\<open>src/domain/api_auth/repository.rs\<close>, \<^verbatim>\<open>src/domain/admin_auth/repository.rs\<close>,
  \<^verbatim>\<open>src/domain/admin_users/repository.rs\<close>, \<^verbatim>\<open>src/domain/roles/repository.rs\<close> and
  \<^verbatim>\<open>src/domain/permissions/repository.rs\<close>. A function with a transaction argument is the same
  statement as the one without, run in the caller's transaction.
\<close>

section \<open>API clients\<close>

record new_api_client =
  nac_name :: string
  nac_description :: "string option"
  nac_client_type :: api_client_type
  nac_client_id :: string
  nac_client_secret_hash :: string
  nac_secret_prefix :: string
  nac_created_by_user_id :: "string option"

definition create_api_client :: "timestamp \<Rightarrow> string \<Rightarrow> new_api_client \<Rightarrow> (auth_db, api_client) stmt" where
  "create_api_client now uuid n d =
     (let c = \<lparr>ac_id = ad_next_client d, ac_uuid = uuid, ac_name = nac_name n,
               ac_description = nac_description n, ac_client_type = nac_client_type n,
               ac_client_id = nac_client_id n, ac_client_secret_hash = nac_client_secret_hash n,
               ac_secret_prefix = nac_secret_prefix n, ac_is_active = True, ac_last_used_at = None,
               ac_created_by_user_id = nac_created_by_user_id n, ac_created_at = now, ac_updated_at = now\<rparr>
      in if pg_blank (nac_secret_prefix n) then Inl (CheckViolation ''chk_api_clients_secret_prefix_not_blank'')
         else if nac_client_id n \<in> ac_client_id ` set (ad_clients d)
         then Inl (UniqueViolation ''uq_api_clients_client_id'')
         else Inr (c, d\<lparr>ad_clients := ad_clients d @ [c], ad_next_client := ad_next_client d + 1\<rparr>))"

definition upsert_client_row :: "timestamp \<Rightarrow> new_api_client \<Rightarrow> api_client \<Rightarrow> api_client" where
  "upsert_client_row now n c =
     c\<lparr>ac_name := nac_name n, ac_description := nac_description n, ac_client_type := nac_client_type n,
       ac_client_secret_hash := nac_client_secret_hash n, ac_secret_prefix := nac_secret_prefix n,
       ac_is_active := True, ac_updated_at := now\<rparr>"

definition upsert_api_client :: "timestamp \<Rightarrow> string \<Rightarrow> new_api_client \<Rightarrow> (auth_db, api_client) stmt" where
  "upsert_api_client now uuid n d =
     (let same = (\<lambda>c. ac_client_id c = nac_client_id n)
      in if pg_blank (nac_secret_prefix n) then Inl (CheckViolation ''chk_api_clients_secret_prefix_not_blank'')
         else case fetch_optional (returning_rows same (upsert_client_row now n) (ad_clients d)) of
           Some c \<Rightarrow> Inr (c, d\<lparr>ad_clients := update_rows same (upsert_client_row now n) (ad_clients d)\<rparr>)
         | None \<Rightarrow> create_api_client now uuid n d)"

definition get_api_client_by_id :: "id \<Rightarrow> auth_db \<Rightarrow> api_client option" where
  "get_api_client_by_id i d = fetch_optional (filter (\<lambda>c. ac_id c = i) (ad_clients d))"

definition get_api_client_by_client_id :: "string \<Rightarrow> auth_db \<Rightarrow> api_client option" where
  "get_api_client_by_client_id cid d = fetch_optional (filter (\<lambda>c. ac_client_id c = cid) (ad_clients d))"

definition update_api_client_last_used :: "timestamp \<Rightarrow> id \<Rightarrow> (auth_db, unit) stmt" where
  "update_api_client_last_used now i d =
     Inr ((), d\<lparr>ad_clients := update_rows (\<lambda>c. ac_id c = i)
       (\<lambda>c. c\<lparr>ac_last_used_at := Some now, ac_updated_at := now\<rparr>) (ad_clients d)\<rparr>)"

definition create_api_client_scope :: "timestamp \<Rightarrow> id \<Rightarrow> string \<Rightarrow> (auth_db, api_client_scope) stmt" where
  "create_api_client_scope now i scope d =
     (case fetch_optional (filter (\<lambda>s. acs_api_client_id s = i \<and> acs_scope s = scope) (ad_scopes d)) of
        Some s \<Rightarrow> Inr (s, d)
      | None \<Rightarrow>
          (let s = \<lparr>acs_id = ad_next_scope d, acs_api_client_id = i, acs_scope = scope, acs_created_at = now\<rparr>
           in if i \<notin> ac_id ` set (ad_clients d) then Inl (ForeignKeyViolation ''api_client_scopes_api_client_id_fkey'')
              else Inr (s, d\<lparr>ad_scopes := ad_scopes d @ [s], ad_next_scope := ad_next_scope d + 1\<rparr>)))"

definition list_api_client_scopes :: "auth_env \<Rightarrow> id \<Rightarrow> auth_db \<Rightarrow> api_client_scope list" where
  "list_api_client_scopes env i d =
     order_collated (ae_collate env) acs_scope (filter (\<lambda>s. acs_api_client_id s = i) (ad_scopes d))"

text \<open>\<open>ORDER BY created_at DESC\<close>; rows created at the same instant stay in table order.\<close>

definition list_api_clients :: "auth_db \<Rightarrow> api_client list" where
  "list_api_clients d = order_by_desc ac_created_at (ad_clients d)"

definition update_client_row :: "timestamp \<Rightarrow> string \<Rightarrow> string option \<Rightarrow> bool \<Rightarrow> api_client \<Rightarrow> api_client" where
  "update_client_row now name description active c =
     c\<lparr>ac_name := name, ac_description := description, ac_is_active := active, ac_updated_at := now\<rparr>"

definition update_api_client ::
    "timestamp \<Rightarrow> id \<Rightarrow> string \<Rightarrow> string option \<Rightarrow> bool \<Rightarrow> (auth_db, api_client option) stmt" where
  "update_api_client now i name description active d =
     (let row = update_client_row now name description active
      in Inr (fetch_optional (returning_rows (\<lambda>c. ac_id c = i) row (ad_clients d)),
              d\<lparr>ad_clients := update_rows (\<lambda>c. ac_id c = i) row (ad_clients d)\<rparr>))"

definition rotate_api_client_secret ::
    "timestamp \<Rightarrow> id \<Rightarrow> string \<Rightarrow> string \<Rightarrow> (auth_db, api_client option) stmt" where
  "rotate_api_client_secret now i hash pre d =
     (let match = (\<lambda>c. ac_id c = i);
          row = (\<lambda>c. c\<lparr>ac_client_secret_hash := hash, ac_secret_prefix := pre, ac_updated_at := now\<rparr>)
      in if list_ex match (ad_clients d) \<and> pg_blank pre
         then Inl (CheckViolation ''chk_api_clients_secret_prefix_not_blank'')
         else Inr (fetch_optional (returning_rows match row (ad_clients d)),
                   d\<lparr>ad_clients := update_rows match row (ad_clients d)\<rparr>))"

text \<open>\<open>ON DELETE CASCADE\<close> removes the client's scopes and tokens, its log entries lose their owner.\<close>

definition orphan_logs :: "id \<Rightarrow> audit_log list \<Rightarrow> audit_log list" where
  "orphan_logs i = update_rows (\<lambda>l. al_owner l = Some i) (\<lambda>l. l\<lparr>al_owner := None\<rparr>)"

definition delete_api_client :: "id \<Rightarrow> (auth_db, bool) stmt" where
  "delete_api_client i d =
     Inr (rows_affected (\<lambda>c. ac_id c = i) (ad_clients d) = 1,
          d\<lparr>ad_clients := delete_rows (\<lambda>c. ac_id c = i) (ad_clients d),
            ad_scopes := delete_rows (\<lambda>s. acs_api_client_id s = i \<and> list_ex (\<lambda>c. ac_id c = i) (ad_clients d)) (ad_scopes d),
            ad_tokens := delete_rows (\<lambda>t. at_owner t = i \<and> list_ex (\<lambda>c. ac_id c = i) (ad_clients d)) (ad_tokens d),
            ad_client_logs := (if list_ex (\<lambda>c. ac_id c = i) (ad_clients d)
                               then orphan_logs i (ad_client_logs d) else ad_client_logs d)\<rparr>)"

definition insert_client_scope :: "timestamp \<Rightarrow> id \<Rightarrow> string \<Rightarrow> (auth_db, unit) stmt" where
  "insert_client_scope now i scope d =
     (let s = \<lparr>acs_id = ad_next_scope d, acs_api_client_id = i, acs_scope = scope, acs_created_at = now\<rparr>
      in if list_ex (\<lambda>s. acs_api_client_id s = i \<and> acs_scope s = scope) (ad_scopes d)
         then Inl (UniqueViolation ''uq_api_client_scopes_client_scope'')
         else if i \<notin> ac_id ` set (ad_clients d) then Inl (ForeignKeyViolation ''api_client_scopes_api_client_id_fkey'')
         else Inr ((), d\<lparr>ad_scopes := ad_scopes d @ [s], ad_next_scope := ad_next_scope d + 1\<rparr>))"

fun insert_client_scopes :: "timestamp \<Rightarrow> id \<Rightarrow> string list \<Rightarrow> (auth_db, unit) stmt" where
  "insert_client_scopes now i [] = stmt_return ()"
| "insert_client_scopes now i (scope # scopes) =
     stmt_bind (insert_client_scope now i scope) (\<lambda>_. insert_client_scopes now i scopes)"

definition replace_api_client_scopes :: "timestamp \<Rightarrow> id \<Rightarrow> string list \<Rightarrow> (auth_db, unit) stmt" where
  "replace_api_client_scopes now i scopes d =
     insert_client_scopes now i scopes (d\<lparr>ad_scopes := delete_rows (\<lambda>s. acs_api_client_id s = i) (ad_scopes d)\<rparr>)"

section \<open>Access tokens of API clients\<close>

record new_access_token =
  nat_owner :: id
  nat_token_hash :: string
  nat_token_prefix :: string
  nat_expires_at :: timestamp

definition token_row :: "timestamp \<Rightarrow> id \<Rightarrow> new_access_token \<Rightarrow> access_token" where
  "token_row now i n =
     \<lparr>at_id = i, at_owner = nat_owner n, at_token_hash = nat_token_hash n,
      at_token_prefix = nat_token_prefix n, at_expires_at = nat_expires_at n, at_revoked_at = None,
      at_revoked_reason = None, at_last_used_at = None, at_created_at = now\<rparr>"

definition create_access_token :: "timestamp \<Rightarrow> new_access_token \<Rightarrow> (auth_db, access_token) stmt" where
  "create_access_token now n d =
     (let t = token_row now (ad_next_token d) n
      in if \<not> is_hex_digest (nat_token_hash n) then Inl (CheckViolation ''chk_access_tokens_token_hash_hex'')
         else if nat_token_hash n \<in> at_token_hash ` set (ad_tokens d)
         then Inl (UniqueViolation ''uq_access_tokens_token_hash'')
         else if nat_owner n \<notin> ac_id ` set (ad_clients d) then Inl (ForeignKeyViolation ''access_tokens_api_client_id_fkey'')
         else Inr (t, d\<lparr>ad_tokens := ad_tokens d @ [t], ad_next_token := ad_next_token d + 1\<rparr>))"

definition get_access_token_by_token_hash :: "string \<Rightarrow> auth_db \<Rightarrow> access_token option" where
  "get_access_token_by_token_hash h d = fetch_optional (filter (\<lambda>t. at_token_hash t = h) (ad_tokens d))"

text \<open>\<open>ARRAY_AGG(DISTINCT x ORDER BY x)\<close>.\<close>

definition array_agg_distinct :: "auth_env \<Rightarrow> string list \<Rightarrow> string list" where
  "array_agg_distinct env xs = order_collated (ae_collate env) (\<lambda>x. x) (remdups xs)"

text \<open>
  The row of \<open>AccessTokenAuthContextRow\<close>: the columns of the token, those of its client, and the
  client's scopes.
\<close>

type_synonym access_token_auth_context_row = "access_token \<times> api_client \<times> string list"

definition get_access_token_auth_context_by_token_hash ::
    "auth_env \<Rightarrow> string \<Rightarrow> auth_db \<Rightarrow> access_token_auth_context_row option" where
  "get_access_token_auth_context_by_token_hash env h d =
     fetch_optional
       [(t, c, array_agg_distinct env (map acs_scope (filter (\<lambda>s. acs_api_client_id s = ac_id c) (ad_scopes d)))).
        t \<leftarrow> filter (\<lambda>t. at_token_hash t = h) (ad_tokens d), c \<leftarrow> filter (\<lambda>c. ac_id c = at_owner t) (ad_clients d)]"

definition update_access_token_last_used :: "timestamp \<Rightarrow> id \<Rightarrow> (auth_db, unit) stmt" where
  "update_access_token_last_used now i d =
     Inr ((), d\<lparr>ad_tokens := update_rows (\<lambda>t. at_id t = i) (\<lambda>t. t\<lparr>at_last_used_at := Some now\<rparr>) (ad_tokens d)\<rparr>)"

definition revoke_token_row :: "timestamp \<Rightarrow> string option \<Rightarrow> access_token \<Rightarrow> access_token" where
  "revoke_token_row now reason t = t\<lparr>at_revoked_at := Some now, at_revoked_reason := reason\<rparr>"

definition revoke_access_token :: "timestamp \<Rightarrow> id \<Rightarrow> string option \<Rightarrow> (auth_db, unit) stmt" where
  "revoke_access_token now i reason d =
     Inr ((), d\<lparr>ad_tokens := update_rows (\<lambda>t. at_id t = i) (revoke_token_row now reason) (ad_tokens d)\<rparr>)"

section \<open>Audit logs\<close>

record new_audit_log =
  nal_owner :: "id option"
  nal_action :: string
  nal_ip_address :: "string option"
  nal_user_agent :: "string option"
  nal_meta_json :: "json option"

text \<open>\<open>CAST(x AS INET)\<close> and back to text with \<open>host\<close>.\<close>

definition cast_inet :: "auth_env \<Rightarrow> string option \<Rightarrow> db_error + string option" where
  "cast_inet env ip =
     (case ip of None \<Rightarrow> Inr None
      | Some s \<Rightarrow> (case ae_inet env s of
           None \<Rightarrow> Inl (Bail ''invalid input syntax for type inet'') | Some h \<Rightarrow> Inr (Some h)))"

definition audit_row :: "timestamp \<Rightarrow> id \<Rightarrow> new_audit_log \<Rightarrow> string option \<Rightarrow> audit_log" where
  "audit_row now i n host =
     \<lparr>al_id = i, al_owner = nal_owner n, al_action = nal_action n, al_ip_address = host,
      al_user_agent = nal_user_agent n, al_meta_json = nal_meta_json n, al_created_at = now\<rparr>"

definition create_api_client_audit_log :: "auth_env \<Rightarrow> timestamp \<Rightarrow> new_audit_log \<Rightarrow> (auth_db, audit_log) stmt" where
  "create_api_client_audit_log env now n d =
     and_then (cast_inet env (nal_ip_address n)) (\<lambda>host.
       let l = audit_row now (ad_next_client_log d) n host
       in if (case nal_owner n of None \<Rightarrow> False | Some i \<Rightarrow> i \<notin> ac_id ` set (ad_clients d))
          then Inl (ForeignKeyViolation ''api_client_audit_logs_api_client_id_fkey'')
          else Inr (l, d\<lparr>ad_client_logs := ad_client_logs d @ [l], ad_next_client_log := ad_next_client_log d + 1\<rparr>))"

definition create_admin_auth_audit_log :: "auth_env \<Rightarrow> timestamp \<Rightarrow> new_audit_log \<Rightarrow> (auth_db, audit_log) stmt" where
  "create_admin_auth_audit_log env now n d =
     and_then (cast_inet env (nal_ip_address n)) (\<lambda>host.
       let l = audit_row now (ad_next_admin_log d) n host
       in if (case nal_owner n of None \<Rightarrow> False | Some i \<Rightarrow> i \<notin> au_id ` set (ad_users d))
          then Inl (ForeignKeyViolation ''admin_auth_audit_logs_admin_user_id_fkey'')
          else Inr (l, d\<lparr>ad_admin_logs := ad_admin_logs d @ [l], ad_next_admin_log := ad_next_admin_log d + 1\<rparr>))"

section \<open>Access tokens of administrators\<close>

definition create_admin_access_token :: "timestamp \<Rightarrow> new_access_token \<Rightarrow> (auth_db, admin_access_token) stmt" where
  "create_admin_access_token now n d =
     (let t = token_row now (ad_next_admin_token d) n
      in if \<not> is_hex_digest (nat_token_hash n) then Inl (CheckViolation ''chk_admin_access_tokens_token_hash_hex'')
         else if pg_blank (nat_token_prefix n) then Inl (CheckViolation ''chk_admin_access_tokens_token_prefix_not_blank'')
         else if nat_token_hash n \<in> at_token_hash ` set (ad_admin_tokens d)
         then Inl (UniqueViolation ''uq_admin_access_tokens_token_hash'')
         else if nat_owner n \<notin> au_id ` set (ad_users d)
         then Inl (ForeignKeyViolation ''admin_access_tokens_admin_user_id_fkey'')
         else Inr (t, d\<lparr>ad_admin_tokens := ad_admin_tokens d @ [t], ad_next_admin_token := ad_next_admin_token d + 1\<rparr>))"

definition get_admin_access_token_by_token_hash :: "string \<Rightarrow> auth_db \<Rightarrow> admin_access_token option" where
  "get_admin_access_token_by_token_hash h d = fetch_optional (filter (\<lambda>t. at_token_hash t = h) (ad_admin_tokens d))"

text \<open>The rows of the joins over the role and permission tables, for one administrator.\<close>

definition roles_of_user :: "id \<Rightarrow> auth_db \<Rightarrow> role list" where
  "roles_of_user u d =
     [r. ur \<leftarrow> filter (\<lambda>ur. aur_admin_user_id ur = u) (ad_user_roles d), r \<leftarrow> filter (\<lambda>r. r_id r = aur_role_id ur) (ad_roles d)]"

definition permissions_of_role :: "id \<Rightarrow> auth_db \<Rightarrow> permission list" where
  "permissions_of_role i d =
     [p. rp \<leftarrow> filter (\<lambda>rp. rp_role_id rp = i) (ad_role_permissions d), p \<leftarrow> filter (\<lambda>p. p_id p = rp_permission_id rp) (ad_permissions d)]"

type_synonym admin_access_token_auth_context_row =
  "admin_access_token \<times> admin_user \<times> string list \<times> string list"

definition get_admin_access_token_auth_context_by_token_hash ::
    "auth_env \<Rightarrow> string \<Rightarrow> auth_db \<Rightarrow> admin_access_token_auth_context_row option" where
  "get_admin_access_token_auth_context_by_token_hash env h d =
     fetch_optional
       [(t, u, array_agg_distinct env (map r_key (roles_of_user (au_id u) d)),
         array_agg_distinct env (map p_key (concat (map (\<lambda>r. permissions_of_role (r_id r) d) (roles_of_user (au_id u) d))))).
        t \<leftarrow> filter (\<lambda>t. at_token_hash t = h) (ad_admin_tokens d), u \<leftarrow> filter (\<lambda>u. au_id u = at_owner t) (ad_users d)]"

definition update_admin_access_token_last_used :: "timestamp \<Rightarrow> id \<Rightarrow> (auth_db, unit) stmt" where
  "update_admin_access_token_last_used now i d =
     Inr ((), d\<lparr>ad_admin_tokens := update_rows (\<lambda>t. at_id t = i) (\<lambda>t. t\<lparr>at_last_used_at := Some now\<rparr>) (ad_admin_tokens d)\<rparr>)"

definition list_active_tokens_for_admin_user :: "timestamp \<Rightarrow> id \<Rightarrow> auth_db \<Rightarrow> admin_access_token list" where
  "list_active_tokens_for_admin_user now u d =
     filter (\<lambda>t. at_owner t = u \<and> at_revoked_at t = None \<and> now < at_expires_at t) (ad_admin_tokens d)"

definition revoke_admin_access_token :: "timestamp \<Rightarrow> id \<Rightarrow> string option \<Rightarrow> (auth_db, unit) stmt" where
  "revoke_admin_access_token now i reason d =
     Inr ((), d\<lparr>ad_admin_tokens := update_rows (\<lambda>t. at_id t = i) (revoke_token_row now reason) (ad_admin_tokens d)\<rparr>)"

section \<open>Administrators\<close>

record new_admin_user =
  nau_email :: string
  nau_display_name :: string
  nau_password_hash :: string

definition check_admin_user :: "string \<Rightarrow> string \<Rightarrow> string \<Rightarrow> db_error option" where
  "check_admin_user email display_name password_hash =
     (if pg_blank email then Some (CheckViolation ''chk_admin_users_email_not_blank'')
      else if pg_blank display_name then Some (CheckViolation ''chk_admin_users_display_name_not_blank'')
      else if pg_blank password_hash then Some (CheckViolation ''chk_admin_users_password_hash_not_blank'')
      else None)"

definition insert_admin_user :: "timestamp \<Rightarrow> string \<Rightarrow> new_admin_user \<Rightarrow> (auth_db, admin_user) stmt" where
  "insert_admin_user now uuid n d =
     (let u = \<lparr>au_id = ad_next_user d, au_uuid = uuid, au_email = nau_email n,
               au_display_name = nau_display_name n, au_password_hash = nau_password_hash n,
               au_is_active = True, au_last_login_at = None, au_created_at = now, au_updated_at = now\<rparr>
      in case check_admin_user (nau_email n) (nau_display_name n) (nau_password_hash n) of
           Some e \<Rightarrow> Inl e
         | None \<Rightarrow>
             if nau_email n \<in> au_email ` set (ad_users d) then Inl (UniqueViolation ''uq_admin_users_email'')
             else Inr (u, d\<lparr>ad_users := ad_users d @ [u], ad_next_user := ad_next_user d + 1\<rparr>))"

definition create_admin_user_in_tx :: "timestamp \<Rightarrow> string \<Rightarrow> new_admin_user \<Rightarrow> (auth_db, admin_user) stmt" where
  "create_admin_user_in_tx = insert_admin_user"

definition upsert_user_row :: "timestamp \<Rightarrow> new_admin_user \<Rightarrow> admin_user \<Rightarrow> admin_user" where
  "upsert_user_row now n u =
     u\<lparr>au_display_name := nau_display_name n, au_password_hash := nau_password_hash n,
       au_is_active := True, au_updated_at := now\<rparr>"

definition upsert_admin_user :: "timestamp \<Rightarrow> string \<Rightarrow> new_admin_user \<Rightarrow> (auth_db, admin_user) stmt" where
  "upsert_admin_user now uuid n d =
     (let same = (\<lambda>u. au_email u = nau_email n)
      in case check_admin_user (nau_email n) (nau_display_name n) (nau_password_hash n) of
           Some e \<Rightarrow> Inl e
         | None \<Rightarrow>
             (case fetch_optional (returning_rows same (upsert_user_row now n) (ad_users d)) of
                Some u \<Rightarrow> Inr (u, d\<lparr>ad_users := update_rows same (upsert_user_row now n) (ad_users d)\<rparr>)
              | None \<Rightarrow> insert_admin_user now uuid n d))"

text \<open>
  The lookup ignores case, the constraint on the column does not: of several rows the first one in
  the table is taken.
\<close>

definition get_admin_user_by_email :: "auth_env \<Rightarrow> string \<Rightarrow> auth_db \<Rightarrow> admin_user option" where
  "get_admin_user_by_email env email d =
     fetch_optional (filter (\<lambda>u. ae_lower env (au_email u) = ae_lower env email) (ad_users d))"

definition get_admin_user_by_id :: "id \<Rightarrow> auth_db \<Rightarrow> admin_user option" where
  "get_admin_user_by_id i d = fetch_optional (filter (\<lambda>u. au_id u = i) (ad_users d))"

definition list_admin_users :: "auth_env \<Rightarrow> auth_db \<Rightarrow> admin_user list" where
  "list_admin_users env d =
     order_collated (ae_collate env) (\<lambda>u. ae_lower env (au_display_name u))
       (order_collated (ae_collate env) (\<lambda>u. ae_lower env (au_email u)) (order_by au_id (ad_users d)))"

definition update_user_row :: "timestamp \<Rightarrow> admin_user_update_params \<Rightarrow> admin_user \<Rightarrow> admin_user" where
  "update_user_row now p u =
     u\<lparr>au_email := aup_email p, au_display_name := aup_display_name p,
       au_password_hash := unwrap_or (aup_password_hash p) (au_password_hash u),
       au_is_active := aup_is_active p, au_updated_at := now\<rparr>"

definition update_admin_user_stmt ::
    "timestamp \<Rightarrow> id \<Rightarrow> admin_user_update_params \<Rightarrow> (auth_db, admin_user option) stmt" where
  "update_admin_user_stmt now i p d =
     (case get_admin_user_by_id i d of
        None \<Rightarrow> Inr (None, d)
      | Some u \<Rightarrow>
          (case check_admin_user (aup_email p) (aup_display_name p) (au_password_hash (update_user_row now p u)) of
             Some e \<Rightarrow> Inl e
           | None \<Rightarrow>
               if list_ex (\<lambda>v. au_id v \<noteq> i \<and> au_email v = aup_email p) (ad_users d)
               then Inl (UniqueViolation ''uq_admin_users_email'')
               else Inr (Some (update_user_row now p u),
                         d\<lparr>ad_users := update_rows (\<lambda>u. au_id u = i) (update_user_row now p) (ad_users d)\<rparr>)))"

definition update_admin_user_in_tx ::
    "timestamp \<Rightarrow> id \<Rightarrow> admin_user_update_params \<Rightarrow> (auth_db, admin_user option) stmt" where
  "update_admin_user_in_tx = update_admin_user_stmt"

definition delete_admin_user_stmt :: "id \<Rightarrow> (auth_db, admin_user option) stmt" where
  "delete_admin_user_stmt i d =
     (case get_admin_user_by_id i d of
        None \<Rightarrow> Inr (None, d)
      | Some u \<Rightarrow>
          Inr (Some u, d\<lparr>ad_users := delete_rows (\<lambda>u. au_id u = i) (ad_users d),
            ad_user_roles := delete_rows (\<lambda>ur. aur_admin_user_id ur = i) (ad_user_roles d),
            ad_admin_tokens := delete_rows (\<lambda>t. at_owner t = i) (ad_admin_tokens d),
            ad_admin_logs := orphan_logs i (ad_admin_logs d)\<rparr>))"

definition count_active_admin_users :: "auth_db \<Rightarrow> int" where
  "count_active_admin_users d = int (length (filter au_is_active (ad_users d)))"

definition update_admin_user_last_login :: "timestamp \<Rightarrow> id \<Rightarrow> (auth_db, unit) stmt" where
  "update_admin_user_last_login now i d =
     Inr ((), d\<lparr>ad_users := update_rows (\<lambda>u. au_id u = i)
       (\<lambda>u. u\<lparr>au_last_login_at := Some now, au_updated_at := now\<rparr>) (ad_users d)\<rparr>)"

end
