(* ===== verification/Role_Repository.thy ===== *)
theory Role_Repository
  imports Auth_Repository
begin

text \<open>
  The statements of \<^verbatim>\<open>src/domain/roles/repository.rs\<close> and \<^verbatim>\<open>src/domain/permissions/repository.rs\<close>. A
  \<open>HashMap\<close> from ids to keys is a function to optional lists: an id without rows has no entry.
\<close>

section \<open>Roles\<close>

text \<open>\<open>ORDER BY is_system DESC, key, id\<close>: \<open>True\<close> comes first.\<close>

definition list_roles :: "auth_env \<Rightarrow> auth_db \<Rightarrow> role list" where
  "list_roles env d =
     order_by (\<lambda>r. if r_is_system r then 0 else 1 :: nat)
       (order_collated (ae_collate env) r_key (order_by r_id (ad_roles d)))"

definition get_role_by_key :: "string \<Rightarrow> auth_db \<Rightarrow> role option" where
  "get_role_by_key k d = fetch_optional (filter (\<lambda>r. r_key r = k) (ad_roles d))"

definition get_role_by_id :: "id \<Rightarrow> auth_db \<Rightarrow> role option" where
  "get_role_by_id i d = fetch_optional (filter (\<lambda>r. r_id r = i) (ad_roles d))"

definition list_roles_by_keys :: "auth_env \<Rightarrow> string list \<Rightarrow> auth_db \<Rightarrow> role list" where
  "list_roles_by_keys env keys d =
     order_collated (ae_collate env) r_key (order_by r_id (filter (\<lambda>r. r_key r \<in> set keys) (ad_roles d)))"

definition create_role_stmt :: "timestamp \<Rightarrow> string \<Rightarrow> string \<Rightarrow> string option \<Rightarrow> (auth_db, role) stmt" where
  "create_role_stmt now key name description d =
     (let r = \<lparr>r_id = ad_next_role d, r_key = key, r_name = name, r_description = description,
               r_is_system = False, r_created_at = now, r_updated_at = now\<rparr>
      in if \<not> is_key_text key then Inl (CheckViolation ''chk_roles_key_format'')
         else if pg_blank name then Inl (CheckViolation ''chk_roles_name_not_blank'')
         else if key \<in> r_key ` set (ad_roles d) then Inl (UniqueViolation ''uq_roles_key'')
         else Inr (r, d\<lparr>ad_roles := ad_roles d @ [r], ad_next_role := ad_next_role d + 1\<rparr>))"

definition update_role_row :: "timestamp \<Rightarrow> string \<Rightarrow> string option \<Rightarrow> role \<Rightarrow> role" where
  "update_role_row now name description r =
     r\<lparr>r_name := name, r_description := description, r_updated_at := now\<rparr>"

definition update_role_stmt ::
    "timestamp \<Rightarrow> id \<Rightarrow> string \<Rightarrow> string option \<Rightarrow> (auth_db, role option) stmt" where
  "update_role_stmt now i name description d =
     (let match = (\<lambda>r. r_id r = i); row = update_role_row now name description
      in if list_ex match (ad_roles d) \<and> pg_blank name then Inl (CheckViolation ''chk_roles_name_not_blank'')
         else Inr (fetch_optional (returning_rows match row (ad_roles d)),
                   d\<lparr>ad_roles := update_rows match row (ad_roles d)\<rparr>))"

definition delete_role_stmt :: "id \<Rightarrow> (auth_db, role option) stmt" where
  "delete_role_stmt i d =
     (case get_role_by_id i d of
        None \<Rightarrow> Inr (None, d)
      | Some r \<Rightarrow>
          Inr (Some r, d\<lparr>ad_roles := delete_rows (\<lambda>r. r_id r = i) (ad_roles d),
            ad_user_roles := delete_rows (\<lambda>ur. aur_role_id ur = i) (ad_user_roles d),
            ad_role_permissions := delete_rows (\<lambda>rp. rp_role_id rp = i) (ad_role_permissions d)\<rparr>))"

section \<open>Roles of administrators\<close>

text \<open>The insertion of \<open>assign_role_to_admin_user\<close> and, ignoring its row, of \<open>replace_roles\<close>.\<close>

definition assign_role_to_admin_user :: "timestamp \<Rightarrow> id \<Rightarrow> id \<Rightarrow> (auth_db, admin_user_role) stmt" where
  "assign_role_to_admin_user now u r d =
     (case fetch_optional (filter (\<lambda>ur. aur_admin_user_id ur = u \<and> aur_role_id ur = r) (ad_user_roles d)) of
        Some ur \<Rightarrow> Inr (ur, d)
      | None \<Rightarrow>
          (let ur = \<lparr>aur_id = ad_next_user_role d, aur_admin_user_id = u, aur_role_id = r, aur_created_at = now\<rparr>
           in if u \<notin> au_id ` set (ad_users d) then Inl (ForeignKeyViolation ''admin_user_roles_admin_user_id_fkey'')
              else if r \<notin> r_id ` set (ad_roles d) then Inl (ForeignKeyViolation ''admin_user_roles_role_id_fkey'')
              else Inr (ur, d\<lparr>ad_user_roles := ad_user_roles d @ [ur], ad_next_user_role := ad_next_user_role d + 1\<rparr>)))"

fun insert_user_roles :: "timestamp \<Rightarrow> id \<Rightarrow> id list \<Rightarrow> (auth_db, unit) stmt" where
  "insert_user_roles now u [] = stmt_return ()"
| "insert_user_roles now u (r # rs) =
     stmt_bind (assign_role_to_admin_user now u r) (\<lambda>_. insert_user_roles now u rs)"

definition replace_roles_for_admin_user :: "timestamp \<Rightarrow> id \<Rightarrow> id list \<Rightarrow> (auth_db, unit) stmt" where
  "replace_roles_for_admin_user now u role_ids d =
     insert_user_roles now u role_ids
       (d\<lparr>ad_user_roles := delete_rows (\<lambda>ur. aur_admin_user_id ur = u) (ad_user_roles d)\<rparr>)"

definition replace_roles_for_admin_user_in_tx :: "timestamp \<Rightarrow> id \<Rightarrow> id list \<Rightarrow> (auth_db, unit) stmt" where
  "replace_roles_for_admin_user_in_tx = replace_roles_for_admin_user"

definition list_role_keys_for_admin_user :: "auth_env \<Rightarrow> id \<Rightarrow> auth_db \<Rightarrow> string list" where
  "list_role_keys_for_admin_user env u d = order_collated (ae_collate env) (\<lambda>k. k) (map r_key (roles_of_user u d))"

text \<open>Rows collected into one list per id, in the order of the query.\<close>

definition group_keys :: "(id \<times> string) list \<Rightarrow> id \<Rightarrow> string list option" where
  "group_keys rows i = (case map snd (filter (\<lambda>p. fst p = i) rows) of [] \<Rightarrow> None | ks \<Rightarrow> Some ks)"

definition list_role_keys_for_admin_users :: "auth_env \<Rightarrow> id list \<Rightarrow> auth_db \<Rightarrow> id \<Rightarrow> string list option" where
  "list_role_keys_for_admin_users env us d =
     (if us = [] then (\<lambda>_. None)
      else group_keys (order_by fst (order_collated (ae_collate env) snd
        [(aur_admin_user_id ur, r_key r).
         ur \<leftarrow> filter (\<lambda>ur. aur_admin_user_id ur \<in> set us) (ad_user_roles d),
         r \<leftarrow> filter (\<lambda>r. r_id r = aur_role_id ur) (ad_roles d)])))"

definition list_admin_user_ids_for_role :: "id \<Rightarrow> auth_db \<Rightarrow> id list" where
  "list_admin_user_ids_for_role r d = map aur_admin_user_id (filter (\<lambda>ur. aur_role_id ur = r) (ad_user_roles d))"

definition list_role_keys_for_permission :: "auth_env \<Rightarrow> id \<Rightarrow> auth_db \<Rightarrow> string list" where
  "list_role_keys_for_permission env p d =
     order_collated (ae_collate env) (\<lambda>k. k)
       [r_key r. rp \<leftarrow> filter (\<lambda>rp. rp_permission_id rp = p) (ad_role_permissions d),
        r \<leftarrow> filter (\<lambda>r. r_id r = rp_role_id rp) (ad_roles d)]"

definition list_role_keys_for_permissions :: "auth_env \<Rightarrow> id list \<Rightarrow> auth_db \<Rightarrow> id \<Rightarrow> string list option" where
  "list_role_keys_for_permissions env ps d =
     (if ps = [] then (\<lambda>_. None)
      else group_keys (order_by fst (order_collated (ae_collate env) snd
        [(rp_permission_id rp, r_key r).
         rp \<leftarrow> filter (\<lambda>rp. rp_permission_id rp \<in> set ps) (ad_role_permissions d),
         r \<leftarrow> filter (\<lambda>r. r_id r = rp_role_id rp) (ad_roles d)])))"

section \<open>Permissions\<close>

definition list_permissions :: "auth_env \<Rightarrow> auth_db \<Rightarrow> permission list" where
  "list_permissions env d = order_collated (ae_collate env) p_key (order_by p_id (ad_permissions d))"

text \<open>The rows of \<open>admin_user_roles\<close> joined with \<open>role_permissions\<close> and \<open>permissions\<close>.\<close>

definition user_permission_rows :: "(id \<Rightarrow> bool) \<Rightarrow> auth_db \<Rightarrow> (id \<times> string) list" where
  "user_permission_rows q d =
     [(aur_admin_user_id ur, p_key p).
      ur \<leftarrow> filter (\<lambda>ur. q (aur_admin_user_id ur)) (ad_user_roles d), p \<leftarrow> permissions_of_role (aur_role_id ur) d]"

definition list_permission_keys_for_admin_user :: "auth_env \<Rightarrow> id \<Rightarrow> auth_db \<Rightarrow> string list" where
  "list_permission_keys_for_admin_user env u d =
     array_agg_distinct env (map snd (user_permission_rows (\<lambda>v. v = u) d))"

definition list_permission_keys_for_admin_users ::
    "auth_env \<Rightarrow> id list \<Rightarrow> auth_db \<Rightarrow> id \<Rightarrow> string list option" where
  "list_permission_keys_for_admin_users env us d =
     (if us = [] then (\<lambda>_. None)
      else group_keys (order_by fst (order_collated (ae_collate env) snd
        (remdups (user_permission_rows (\<lambda>v. v \<in> set us) d)))))"

definition list_permission_keys_for_role :: "auth_env \<Rightarrow> id \<Rightarrow> auth_db \<Rightarrow> string list" where
  "list_permission_keys_for_role env r d =
     order_collated (ae_collate env) (\<lambda>k. k) (map p_key (permissions_of_role r d))"

definition list_permission_keys_for_roles :: "auth_env \<Rightarrow> id list \<Rightarrow> auth_db \<Rightarrow> id \<Rightarrow> string list option" where
  "list_permission_keys_for_roles env rs d =
     (if rs = [] then (\<lambda>_. None)
      else group_keys (order_by fst (order_collated (ae_collate env) snd
        [(rp_role_id rp, p_key p).
         rp \<leftarrow> filter (\<lambda>rp. rp_role_id rp \<in> set rs) (ad_role_permissions d),
         p \<leftarrow> filter (\<lambda>p. p_id p = rp_permission_id rp) (ad_permissions d)])))"

definition list_permissions_by_keys :: "auth_env \<Rightarrow> string list \<Rightarrow> auth_db \<Rightarrow> permission list" where
  "list_permissions_by_keys env keys d =
     order_collated (ae_collate env) p_key (order_by p_id (filter (\<lambda>p. p_key p \<in> set keys) (ad_permissions d)))"

definition insert_role_permission :: "timestamp \<Rightarrow> id \<Rightarrow> id \<Rightarrow> (auth_db, unit) stmt" where
  "insert_role_permission now r p d =
     (let rp = \<lparr>rp_id = ad_next_role_permission d, rp_role_id = r, rp_permission_id = p, rp_created_at = now\<rparr>
      in if list_ex (\<lambda>rp. rp_role_id rp = r \<and> rp_permission_id rp = p) (ad_role_permissions d) then Inr ((), d)
         else if r \<notin> r_id ` set (ad_roles d) then Inl (ForeignKeyViolation ''role_permissions_role_id_fkey'')
         else if p \<notin> p_id ` set (ad_permissions d) then Inl (ForeignKeyViolation ''role_permissions_permission_id_fkey'')
         else Inr ((), d\<lparr>ad_role_permissions := ad_role_permissions d @ [rp],
                        ad_next_role_permission := ad_next_role_permission d + 1\<rparr>))"

fun insert_role_permissions :: "timestamp \<Rightarrow> id \<Rightarrow> id list \<Rightarrow> (auth_db, unit) stmt" where
  "insert_role_permissions now r [] = stmt_return ()"
| "insert_role_permissions now r (p # ps) =
     stmt_bind (insert_role_permission now r p) (\<lambda>_. insert_role_permissions now r ps)"

definition replace_permissions_for_role :: "timestamp \<Rightarrow> id \<Rightarrow> id list \<Rightarrow> (auth_db, unit) stmt" where
  "replace_permissions_for_role now r permission_ids d =
     insert_role_permissions now r permission_ids
       (d\<lparr>ad_role_permissions := delete_rows (\<lambda>rp. rp_role_id rp = r) (ad_role_permissions d)\<rparr>)"

end
