(* ===== verification/Lru_Cache.thy ===== *)
theory Lru_Cache
  imports Rust_Std
begin

text \<open>
  The least-recently-used map of the \<open>lru\<close> crate as a parameter: its operations, the laws of its
  documentation, and a concrete map of bounded size that satisfies them. The caches of tokens
  (\<^verbatim>\<open>src/auth/token_cache.rs\<close>) and of status pages (\<^verbatim>\<open>src/api/rate_limit.rs\<close>) use it.
\<close>

record ('k, 'v, 's) lru_lib =
  lru_new :: "nat \<Rightarrow> 's"
  lru_peek :: "'k \<Rightarrow> 's \<Rightarrow> 'v option"
  lru_get :: "'k \<Rightarrow> 's \<Rightarrow> 'v option \<times> 's"
  lru_put :: "'k \<Rightarrow> 'v \<Rightarrow> 's \<Rightarrow> 's"
  lru_pop :: "'k \<Rightarrow> 's \<Rightarrow> 's"
  lru_pop_lru :: "'s \<Rightarrow> 's"
  lru_promote :: "'k \<Rightarrow> 's \<Rightarrow> 's"
  lru_iter :: "'s \<Rightarrow> ('k \<times> 'v) list"
  lru_len :: "'s \<Rightarrow> nat"
  lru_cap :: "'s \<Rightarrow> nat"

text \<open>
  What the documentation promises: a new map is empty, \<open>get\<close> and \<open>promote\<close> change the order only,
  \<open>put\<close> stores its entry and may evict others, \<open>pop\<close> removes one entry, \<open>pop_lru\<close> at most one, and
  the iterator lists entries of the map.
\<close>

definition lru_map_laws :: "('k, 'v, 's) lru_lib \<Rightarrow> bool" where
  "lru_map_laws lib \<longleftrightarrow>
     (\<forall>c k. lru_peek lib k (lru_new lib c) = None) \<and>
     (\<forall>k s. fst (lru_get lib k s) = lru_peek lib k s) \<and>
     (\<forall>k k' s. lru_peek lib k' (snd (lru_get lib k s)) = lru_peek lib k' s) \<and>
     (\<forall>k v s. lru_peek lib k (lru_put lib k v s) = Some v) \<and>
     (\<forall>k k' v s. k' \<noteq> k \<longrightarrow> lru_peek lib k' (lru_put lib k v s) \<in> {None, lru_peek lib k' s}) \<and>
     (\<forall>k k' s. lru_peek lib k' (lru_pop lib k s) = (if k' = k then None else lru_peek lib k' s)) \<and>
     (\<forall>k s. lru_peek lib k (lru_pop_lru lib s) \<in> {None, lru_peek lib k s}) \<and>
     (\<forall>k k' s. lru_peek lib k' (lru_promote lib k s) = lru_peek lib k' s)"

lemma lru_law_simps:
  assumes "lru_map_laws lib"
  shows "lru_peek lib k (lru_new lib c) = None"
    and "fst (lru_get lib k s) = lru_peek lib k s"
    and "lru_peek lib k' (snd (lru_get lib k s)) = lru_peek lib k' s"
    and "lru_peek lib k (lru_put lib k v s) = Some v"
    and "lru_peek lib k' (lru_pop lib k s) = (if k' = k then None else lru_peek lib k' s)"
    and "lru_peek lib k' (lru_promote lib k s) = lru_peek lib k' s"
  using assms unfolding lru_map_laws_def by auto

lemma lru_put_other:
  "lru_map_laws lib \<Longrightarrow> lru_peek lib k' (lru_put lib k v s) = Some e \<Longrightarrow> k' \<noteq> k \<Longrightarrow> lru_peek lib k' s = Some e"
  unfolding lru_map_laws_def by (metis insertE option.distinct(1) singletonD)

lemma lru_pop_lru_Some:
  "lru_map_laws lib \<Longrightarrow> lru_peek lib k (lru_pop_lru lib s) = Some e \<Longrightarrow> lru_peek lib k s = Some e"
  unfolding lru_map_laws_def by (metis insertE option.distinct(1) singletonD)

section \<open>A map that satisfies the laws\<close>

text \<open>The capacity with the entries, the most recently used one first.\<close>

type_synonym ('k, 'v) lru_list = "nat \<times> ('k \<times> 'v) list"

definition drop_key :: "'k \<Rightarrow> ('k \<times> 'v) list \<Rightarrow> ('k \<times> 'v) list" where
  "drop_key k = filter (\<lambda>p. fst p \<noteq> k)"

definition bring_forward :: "'k \<Rightarrow> ('k \<times> 'v) list \<Rightarrow> ('k \<times> 'v) list" where
  "bring_forward k ps = (case map_of ps k of None \<Rightarrow> ps | Some v \<Rightarrow> (k, v) # drop_key k ps)"

definition lru_list_lib :: "('k, 'v, ('k, 'v) lru_list) lru_lib" where
  "lru_list_lib =
     \<lparr>lru_new = (\<lambda>c. (c, [])),
      lru_peek = (\<lambda>k s. map_of (snd s) k),
      lru_get = (\<lambda>k s. (map_of (snd s) k, fst s, bring_forward k (snd s))),
      lru_put = (\<lambda>k v s. (fst s, (k, v) # take (fst s - 1) (drop_key k (snd s)))),
      lru_pop = (\<lambda>k s. (fst s, drop_key k (snd s))),
      lru_pop_lru = (\<lambda>s. (fst s, butlast (snd s))),
      lru_promote = (\<lambda>k s. (fst s, bring_forward k (snd s))),
      lru_iter = (\<lambda>s. snd s),
      lru_len = (\<lambda>s. length (snd s)),
      lru_cap = (\<lambda>s. fst s)\<rparr>"

lemma map_of_drop_key: "map_of (drop_key k ps) k' = (if k' = k then None else map_of ps k')"
  by (induction ps) (auto simp: drop_key_def)

lemma map_of_bring_forward: "map_of (bring_forward k ps) k' = map_of ps k'"
  by (auto simp: bring_forward_def map_of_drop_key split: option.splits)

lemma map_of_prefix: "map_of (take n ps) k \<in> {None, map_of ps k}"
  by (induction ps arbitrary: n) (auto simp: take_Cons' split: if_splits)

lemma map_of_butlast: "map_of (butlast ps) k \<in> {None, map_of ps k}"
  using map_of_prefix [of "length ps - 1" ps k] by (simp add: butlast_conv_take)

lemma map_of_kept: "k' \<noteq> k \<Longrightarrow> map_of (take n (drop_key k ps)) k' \<in> {None, map_of ps k'}"
  using map_of_prefix [of n "drop_key k ps" k'] by (simp add: map_of_drop_key)

lemma lru_list_map_laws: "lru_map_laws lru_list_lib"
  unfolding lru_map_laws_def lru_list_lib_def lru_lib.simps
  by (intro conjI allI impI) (simp_all add: map_of_drop_key map_of_bring_forward map_of_kept [simplified] map_of_butlast [simplified])

end
