(* ===== verification/Token_Cache.thy ===== *)
theory Token_Cache
  imports Auth_Model Lru_Cache
begin

text \<open>
  The contexts a bearer token is authenticated to (\<^verbatim>\<open>src/auth/service.rs\<close>) and the cache of them
  (\<^verbatim>\<open>src/auth/token_cache.rs\<close>). The cache is shared: each section of the code that holds its lock
  is one step here, and between the two sections of a lookup any other steps may run.
\<close>

section \<open>Contexts\<close>

record access_token_context =
  atc_token :: access_token
  atc_client :: api_client
  atc_scopes :: "string list"
  atc_permissions :: permission_set

record admin_access_token_context =
  aatc_token :: admin_access_token
  aatc_user :: admin_user
  aatc_roles :: "string list"
  aatc_permissions :: permission_set

datatype bearer_token_context =
    BtcApiClient access_token_context
  | BtcAdminUser admin_access_token_context

fun context_permissions :: "bearer_token_context \<Rightarrow> permission_set" where
  "context_permissions (BtcApiClient c) = atc_permissions c"
| "context_permissions (BtcAdminUser c) = aatc_permissions c"

fun context_expires_at :: "bearer_token_context \<Rightarrow> timestamp" where
  "context_expires_at (BtcApiClient c) = at_expires_at (atc_token c)"
| "context_expires_at (BtcAdminUser c) = at_expires_at (aatc_token c)"

section \<open>The cache\<close>

record token_cache_key =
  tck_token_prefix :: string
  tck_token_hash :: string

record token_cache_entry =
  tce_context :: bearer_token_context
  tce_inserted_at :: nat

text \<open>A capacity of zero makes a cache without entries (\<open>NonZeroUsize::new\<close>).\<close>

record ('k, 'v, 's) token_cache_config =
  tcc_lib :: "('k, 'v, 's) lru_lib"
  tcc_ttl :: duration
  tcc_hash_token :: "string \<Rightarrow> string"

type_synonym 's cache_config = "(token_cache_key, token_cache_entry, 's) token_cache_config"

definition token_prefix_len :: nat where
  "token_prefix_len = 12"

definition with_capacity_and_ttl :: "'s cache_config \<Rightarrow> nat \<Rightarrow> 's option" where
  "with_capacity_and_ttl cfg capacity =
     (if capacity = 0 then None else Some (lru_new (tcc_lib cfg) capacity))"

definition build_cache_key :: "'s cache_config \<Rightarrow> string \<Rightarrow> token_cache_key option" where
  "build_cache_key cfg raw_token =
     (if raw_token = [] then None
      else Some \<lparr>tck_token_prefix = take token_prefix_len raw_token, tck_token_hash = tcc_hash_token cfg raw_token\<rparr>)"

definition entry_is_expired :: "token_cache_entry \<Rightarrow> nat \<Rightarrow> duration \<Rightarrow> bool" where
  "entry_is_expired entry now ttl \<longleftrightarrow> ttl \<le> now - tce_inserted_at entry"

definition is_context_token_expired :: "bearer_token_context \<Rightarrow> timestamp \<Rightarrow> bool" where
  "is_context_token_expired context utc \<longleftrightarrow> context_expires_at context \<le> utc"

definition entry_unusable :: "'s cache_config \<Rightarrow> nat \<Rightarrow> timestamp \<Rightarrow> token_cache_entry \<Rightarrow> bool" where
  "entry_unusable cfg now utc entry \<longleftrightarrow>
     entry_is_expired entry now (tcc_ttl cfg) \<or> is_context_token_expired (tce_context entry) utc"

definition remove_if_still_expired :: "'s cache_config \<Rightarrow> token_cache_key \<Rightarrow> nat \<Rightarrow> timestamp \<Rightarrow> 's option \<Rightarrow> 's option" where
  "remove_if_still_expired cfg key now utc s =
     (case s of None \<Rightarrow> None
      | Some es \<Rightarrow>
          (case lru_peek (tcc_lib cfg) key es of
             None \<Rightarrow> Some es
           | Some entry \<Rightarrow> Some (if entry_unusable cfg now utc entry then lru_pop (tcc_lib cfg) key es else es)))"

text \<open>The section of a lookup under the write lock.\<close>

definition take_and_promote ::
    "'s cache_config \<Rightarrow> token_cache_key \<Rightarrow> nat \<Rightarrow> timestamp \<Rightarrow> 's option \<Rightarrow> bearer_token_context option \<times> 's option" where
  "take_and_promote cfg key now utc s =
     (case s of None \<Rightarrow> (None, None)
      | Some es \<Rightarrow>
          (case lru_peek (tcc_lib cfg) key es of
             None \<Rightarrow> (None, Some es)
           | Some entry \<Rightarrow>
               if entry_unusable cfg now utc entry then (None, Some (lru_pop (tcc_lib cfg) key es))
               else (Some (tce_context entry), Some (lru_promote (tcc_lib cfg) key es))))"

text \<open>
  A lookup reads the monotonic clock once (\<open>now\<close>) and the wall clock in each section (\<open>utc\<close>, then
  \<open>utc'\<close>); \<open>others\<close> is what other tasks do to the cache between the sections.
\<close>

definition get_bearer_context ::
    "'s cache_config \<Rightarrow> string \<Rightarrow> nat \<Rightarrow> timestamp \<Rightarrow> timestamp \<Rightarrow> ('s option \<Rightarrow> 's option) \<Rightarrow> 's option
      \<Rightarrow> bearer_token_context option \<times> 's option" where
  "get_bearer_context cfg raw_token now utc utc' others s =
     (case build_cache_key cfg raw_token of
        None \<Rightarrow> (None, s)
      | Some key \<Rightarrow>
          (case s of None \<Rightarrow> (None, s)
           | Some es \<Rightarrow>
               (case lru_peek (tcc_lib cfg) key es of
                  None \<Rightarrow> (None, s)
                | Some entry \<Rightarrow>
                    if entry_unusable cfg now utc entry
                    then (None, remove_if_still_expired cfg key now utc' (others s))
                    else take_and_promote cfg key now utc' (others s))))"

definition get_admin_context ::
    "'s cache_config \<Rightarrow> string \<Rightarrow> nat \<Rightarrow> timestamp \<Rightarrow> timestamp \<Rightarrow> ('s option \<Rightarrow> 's option) \<Rightarrow> 's option
      \<Rightarrow> admin_access_token_context option \<times> 's option" where
  "get_admin_context cfg raw_token now utc utc' others s =
     (case get_bearer_context cfg raw_token now utc utc' others s of
        (Some (BtcAdminUser context), s) \<Rightarrow> (Some context, s)
      | (Some (BtcApiClient _), s) \<Rightarrow> (None, s)
      | (None, s) \<Rightarrow> (None, s))"

definition evict_prefer_expired_entry :: "'s cache_config \<Rightarrow> nat \<Rightarrow> timestamp \<Rightarrow> 's \<Rightarrow> 's" where
  "evict_prefer_expired_entry cfg now utc es =
     (case find (\<lambda>(_, entry). entry_unusable cfg now utc entry) (lru_iter (tcc_lib cfg) es) of
        Some (key, _) \<Rightarrow> lru_pop (tcc_lib cfg) key es
      | None \<Rightarrow> lru_pop_lru (tcc_lib cfg) es)"

definition insert_bearer_context ::
    "'s cache_config \<Rightarrow> string \<Rightarrow> bearer_token_context \<Rightarrow> nat \<Rightarrow> timestamp \<Rightarrow> 's option \<Rightarrow> 's option" where
  "insert_bearer_context cfg raw_token context now utc s =
     (case build_cache_key cfg raw_token of
        None \<Rightarrow> s
      | Some key \<Rightarrow>
          (case s of None \<Rightarrow> None
           | Some es \<Rightarrow>
               (let es = (if lru_peek (tcc_lib cfg) key es = None \<and> lru_cap (tcc_lib cfg) es \<le> lru_len (tcc_lib cfg) es
                          then evict_prefer_expired_entry cfg now utc es else es)
                in Some (lru_put (tcc_lib cfg) key \<lparr>tce_context = context, tce_inserted_at = now\<rparr> es))))"

definition invalidate_key :: "'s cache_config \<Rightarrow> token_cache_key \<Rightarrow> 's option \<Rightarrow> 's option" where
  "invalidate_key cfg key s = map_option (lru_pop (tcc_lib cfg) key) s"

definition invalidate_raw_token :: "'s cache_config \<Rightarrow> string \<Rightarrow> 's option \<Rightarrow> 's option" where
  "invalidate_raw_token cfg raw_token s =
     (case build_cache_key cfg raw_token of None \<Rightarrow> s | Some key \<Rightarrow> invalidate_key cfg key s)"

definition invalidate_hashed_token :: "'s cache_config \<Rightarrow> string \<Rightarrow> string \<Rightarrow> 's option \<Rightarrow> 's option" where
  "invalidate_hashed_token cfg token_prefix token_hash =
     invalidate_key cfg \<lparr>tck_token_prefix = token_prefix, tck_token_hash = token_hash\<rparr>"

section \<open>What the cache serves\<close>

text \<open>The sections that change the cache, as steps; a trace of them is a list, the latest step last.\<close>

datatype cache_step =
    Insert string bearer_token_context nat timestamp
  | InvalidateRaw string
  | InvalidateKey token_cache_key
  | RemoveExpired token_cache_key nat timestamp
  | Promote token_cache_key nat timestamp

fun run_cache_step :: "'s cache_config \<Rightarrow> cache_step \<Rightarrow> 's option \<Rightarrow> 's option" where
  "run_cache_step cfg (Insert raw context now utc) s = insert_bearer_context cfg raw context now utc s"
| "run_cache_step cfg (InvalidateRaw raw) s = invalidate_raw_token cfg raw s"
| "run_cache_step cfg (InvalidateKey key) s = invalidate_key cfg key s"
| "run_cache_step cfg (RemoveExpired key now utc) s = remove_if_still_expired cfg key now utc s"
| "run_cache_step cfg (Promote key now utc) s = snd (take_and_promote cfg key now utc s)"

definition run_cache :: "'s cache_config \<Rightarrow> cache_step list \<Rightarrow> 's option \<Rightarrow> 's option" where
  "run_cache cfg steps s = foldl (\<lambda>s step. run_cache_step cfg step s) s steps"

text \<open>What the latest insertion or invalidation of a key left: the reference an entry is held against.\<close>

fun write_of :: "'s cache_config \<Rightarrow> token_cache_key \<Rightarrow> token_cache_entry option \<Rightarrow> cache_step \<Rightarrow> token_cache_entry option" where
  "write_of cfg key e (Insert raw context now utc) =
     (if build_cache_key cfg raw = Some key then Some \<lparr>tce_context = context, tce_inserted_at = now\<rparr> else e)"
| "write_of cfg key e (InvalidateRaw raw) = (if build_cache_key cfg raw = Some key then None else e)"
| "write_of cfg key e (InvalidateKey key') = (if key' = key then None else e)"
| "write_of cfg key e (RemoveExpired key' now utc) = e"
| "write_of cfg key e (Promote key' now utc) = e"

definition latest_write :: "'s cache_config \<Rightarrow> token_cache_key \<Rightarrow> cache_step list \<Rightarrow> token_cache_entry option" where
  "latest_write cfg key steps = foldl (write_of cfg key) None steps"

text \<open>Every entry of the cache is its key's latest write.\<close>

definition holds_latest :: "'s cache_config \<Rightarrow> (token_cache_key \<Rightarrow> token_cache_entry option) \<Rightarrow> 's option \<Rightarrow> bool" where
  "holds_latest cfg w s \<longleftrightarrow>
     (case s of None \<Rightarrow> True
      | Some es \<Rightarrow> \<forall>key e. lru_peek (tcc_lib cfg) key es = Some e \<longrightarrow> w key = Some e)"

lemma holds_latest_pop:
  assumes "lru_map_laws (tcc_lib cfg)" "holds_latest cfg w (Some es)"
  shows "holds_latest cfg w (Some (lru_pop (tcc_lib cfg) key es))"
    and "holds_latest cfg (w(key := None)) (Some (lru_pop (tcc_lib cfg) key es))"
  using assms(2) unfolding holds_latest_def
  by (auto simp: lru_law_simps [OF assms(1)] split: if_splits)

lemma holds_latest_evict:
  assumes "lru_map_laws (tcc_lib cfg)" "holds_latest cfg w (Some es)"
  shows "holds_latest cfg w (Some (evict_prefer_expired_entry cfg now utc es))"
proof -
  have "holds_latest cfg w (Some (lru_pop_lru (tcc_lib cfg) es))"
    using assms(2) unfolding holds_latest_def option.case
    by (blast dest: lru_pop_lru_Some [OF assms(1)])
  then show ?thesis
    using holds_latest_pop(1) [OF assms]
    by (auto simp: evict_prefer_expired_entry_def split: option.splits)
qed

lemma holds_latest_put:
  assumes "lru_map_laws (tcc_lib cfg)" "holds_latest cfg w (Some es)"
  shows "holds_latest cfg (w(key \<mapsto> e)) (Some (lru_put (tcc_lib cfg) key e es))"
  unfolding holds_latest_def option.case
proof (intro allI impI)
  fix key' e'
  assume p: "lru_peek (tcc_lib cfg) key' (lru_put (tcc_lib cfg) key e es) = Some e'"
  show "(w(key \<mapsto> e)) key' = Some e'"
  proof (cases "key' = key")
    case True
    with p lru_law_simps(4) [OF assms(1)] show ?thesis by simp
  next
    case False
    with lru_put_other [OF assms(1) p] assms(2) show ?thesis by (simp add: holds_latest_def)
  qed
qed

lemma run_cache_step_holds_latest:
  assumes "lru_map_laws (tcc_lib cfg)" "holds_latest cfg w s"
  shows "holds_latest cfg (\<lambda>key. write_of cfg key (w key) step) (run_cache_step cfg step s)"
proof (cases s)
  case None
  then show ?thesis
    by (cases step) (auto simp: holds_latest_def insert_bearer_context_def invalidate_raw_token_def
      invalidate_key_def remove_if_still_expired_def take_and_promote_def split: option.splits)
next
  case (Some es)
  note h = assms(2) [unfolded Some]
  show ?thesis
  proof (cases step)
    case (Insert raw ctx now utc)
    show ?thesis
    proof (cases "build_cache_key cfg raw")
      case None
      then show ?thesis using h Insert Some by (simp add: insert_bearer_context_def)
    next
      case key: (Some key)
      have w: "(\<lambda>k. write_of cfg k (w k) step) = w(key \<mapsto> \<lparr>tce_context = ctx, tce_inserted_at = now\<rparr>)"
        using key Insert by auto
      show ?thesis
        unfolding w using Insert Some key h holds_latest_put [OF assms(1)] holds_latest_evict [OF assms(1)]
        by (simp add: insert_bearer_context_def Let_def)
    qed
  next
    case (InvalidateRaw raw)
    show ?thesis
    proof (cases "build_cache_key cfg raw")
      case None
      then show ?thesis using h InvalidateRaw Some by (simp add: invalidate_raw_token_def)
    next
      case key: (Some key)
      have "(\<lambda>k. write_of cfg k (w k) step) = w(key := None)"
        using key InvalidateRaw by auto
      then show ?thesis
        using holds_latest_pop(2) [OF assms(1) h] InvalidateRaw Some key
        by (simp add: invalidate_raw_token_def invalidate_key_def)
    qed
  next
    case (InvalidateKey key)
    have "(\<lambda>k. write_of cfg k (w k) step) = w(key := None)"
      using InvalidateKey by auto
    then show ?thesis
      using holds_latest_pop(2) [OF assms(1) h] InvalidateKey Some by (simp add: invalidate_key_def)
  next
    case (RemoveExpired key now utc)
    then show ?thesis
      using h holds_latest_pop(1) [OF assms(1) h] Some
      by (auto simp: remove_if_still_expired_def split: option.splits)
  next
    case (Promote key now utc)
    have "holds_latest cfg w (Some (lru_promote (tcc_lib cfg) key es))"
      using h unfolding holds_latest_def by (simp add: lru_law_simps(6) [OF assms(1)])
    then show ?thesis
      using h Promote holds_latest_pop(1) [OF assms(1) h] Some
      by (auto simp: take_and_promote_def split: option.splits)
  qed
qed

lemma run_cache_holds_latest:
  assumes "lru_map_laws (tcc_lib cfg)"
  shows "holds_latest cfg (\<lambda>key. latest_write cfg key steps) (run_cache cfg steps (with_capacity_and_ttl cfg capacity))"
proof (induction steps rule: rev_induct)
  case Nil
  then show ?case
    by (simp add: holds_latest_def run_cache_def with_capacity_and_ttl_def lru_law_simps(1) [OF assms])
next
  case (snoc step steps)
  from run_cache_step_holds_latest [OF assms snoc] show ?case
    by (simp add: run_cache_def latest_write_def)
qed

lemma take_and_promote_Some:
  assumes "holds_latest cfg w s" "take_and_promote cfg key now utc s = (Some ctx, s')"
  shows "\<exists>e. w key = Some e \<and> tce_context e = ctx \<and> \<not> entry_unusable cfg now utc e"
  using assms by (auto simp: take_and_promote_def holds_latest_def split: option.splits if_splits)

lemma run_cache_append: "run_cache cfg (steps @ steps') s = run_cache cfg steps' (run_cache cfg steps s)"
  by (simp add: run_cache_def)

lemma get_after_insert:
  assumes "lru_map_laws (tcc_lib cfg)"
  shows "fst (get_bearer_context cfg raw now utc utc' (\<lambda>s. s) (insert_bearer_context cfg raw ctx t u s)) =
    (if raw \<noteq> [] \<and> s \<noteq> None \<and> now - t < tcc_ttl cfg \<and> utc < context_expires_at ctx \<and> utc' < context_expires_at ctx
     then Some ctx else None)"
proof (cases "raw = [] \<or> s = None")
  case True
  then show ?thesis
    by (auto simp: get_bearer_context_def insert_bearer_context_def build_cache_key_def)
next
  case False
  then obtain key es where k: "build_cache_key cfg raw = Some key" "s = Some es"
    by (auto simp: build_cache_key_def)
  obtain es' where es': "insert_bearer_context cfg raw ctx t u s =
      Some (lru_put (tcc_lib cfg) key \<lparr>tce_context = ctx, tce_inserted_at = t\<rparr> es')"
    using k by (simp add: insert_bearer_context_def Let_def)
  show ?thesis
    unfolding es' using False
    by (simp add: get_bearer_context_def k(1) lru_law_simps(4) [OF assms] take_and_promote_def
      entry_unusable_def entry_is_expired_def is_context_token_expired_def not_le)
qed

lemma run_cache_keeps_disabled: "run_cache cfg steps s = None \<longleftrightarrow> s = None"
proof (induction steps rule: rev_induct)
  case (snoc step steps)
  have "run_cache_step cfg step s' = None \<longleftrightarrow> s' = None" for s'
    by (cases step) (auto simp: insert_bearer_context_def invalidate_raw_token_def invalidate_key_def
      remove_if_still_expired_def take_and_promote_def Let_def split: option.splits)
  with snoc show ?case
    by (simp add: run_cache_def)
qed (simp add: run_cache_def)

text \<open>
  Whatever steps other tasks take before and during a lookup, it returns a context only if that is
  what was last stored for the token's key, with no invalidation of the key since, less than the time
  to live ago, and the token itself has not expired. A cache with room for entries does return what
  was just stored, until one of the two times has passed.
\<close>

theorem cache_serves_latest_fresh_context:
  assumes "lru_map_laws (tcc_lib cfg)"
  shows "(case fst (get_bearer_context cfg raw now utc utc' (run_cache cfg steps')
              (run_cache cfg steps (with_capacity_and_ttl cfg capacity))) of
            None \<Rightarrow> True
          | Some ctx \<Rightarrow>
              (case build_cache_key cfg raw of None \<Rightarrow> False
               | Some key \<Rightarrow>
                   (case latest_write cfg key (steps @ steps') of None \<Rightarrow> False
                    | Some e \<Rightarrow> tce_context e = ctx \<and> now - tce_inserted_at e < tcc_ttl cfg \<and>
                        utc' < context_expires_at ctx))) \<and>
     fst (get_bearer_context cfg raw now utc utc' (\<lambda>s. s)
            (insert_bearer_context cfg raw ctx t u (run_cache cfg steps (with_capacity_and_ttl cfg capacity)))) =
       (if raw \<noteq> [] \<and> capacity \<noteq> 0 \<and> now - t < tcc_ttl cfg \<and> utc < context_expires_at ctx \<and> utc' < context_expires_at ctx
        then Some ctx else None)"
proof (intro conjI)
  let ?s = "run_cache cfg steps (with_capacity_and_ttl cfg capacity)"
  let ?s' = "run_cache cfg steps' ?s"
  have l: "holds_latest cfg (\<lambda>key. latest_write cfg key (steps @ steps')) ?s'"
    using run_cache_holds_latest [OF assms, of "steps @ steps'"] by (simp add: run_cache_append)
  show "case fst (get_bearer_context cfg raw now utc utc' (run_cache cfg steps') ?s) of
            None \<Rightarrow> True
          | Some ctx \<Rightarrow>
              (case build_cache_key cfg raw of None \<Rightarrow> False
               | Some key \<Rightarrow>
                   (case latest_write cfg key (steps @ steps') of None \<Rightarrow> False
                    | Some e \<Rightarrow> tce_context e = ctx \<and> now - tce_inserted_at e < tcc_ttl cfg \<and>
                        utc' < context_expires_at ctx))"
  proof (cases "fst (get_bearer_context cfg raw now utc utc' (run_cache cfg steps') ?s)")
    case (Some ctx)
    then obtain key s'' where "build_cache_key cfg raw = Some key" "take_and_promote cfg key now utc' ?s' = (Some ctx, s'')"
      unfolding get_bearer_context_def by (auto split: option.splits if_splits) (metis prod.collapse)
    with take_and_promote_Some [OF l] Some show ?thesis
      by (fastforce simp: entry_unusable_def entry_is_expired_def is_context_token_expired_def)
  qed simp
  show "fst (get_bearer_context cfg raw now utc utc' (\<lambda>s. s) (insert_bearer_context cfg raw ctx t u ?s)) =
       (if raw \<noteq> [] \<and> capacity \<noteq> 0 \<and> now - t < tcc_ttl cfg \<and> utc < context_expires_at ctx \<and> utc' < context_expires_at ctx
        then Some ctx else None)"
    unfolding get_after_insert [OF assms] run_cache_keeps_disabled with_capacity_and_ttl_def by simp
qed

definition sample_cache :: "(token_cache_key, token_cache_entry) lru_list cache_config" where
  "sample_cache = \<lparr>tcc_lib = lru_list_lib, tcc_ttl = 30, tcc_hash_token = (\<lambda>t. t)\<rparr>"

definition sample_context :: bearer_token_context where
  "sample_context = BtcApiClient
     \<lparr>atc_token = \<lparr>at_id = 1, at_owner = 1, at_token_hash = ''a'', at_token_prefix = ''a'', at_expires_at = 100,
        at_revoked_at = None, at_revoked_reason = None, at_last_used_at = None, at_created_at = 0\<rparr>,
      atc_client = \<lparr>ac_id = 1, ac_uuid = ''u'', ac_name = ''n'', ac_description = None,
        ac_client_type = InstallationClient, ac_client_id = ''c'', ac_client_secret_hash = ''h'',
        ac_secret_prefix = ''p'', ac_is_active = True, ac_last_used_at = None, ac_created_by_user_id = None,
        ac_created_at = 0, ac_updated_at = 0\<rparr>,
      atc_scopes = [''sites:read''], atc_permissions = {SitesRead}\<rparr>"

theorem cache_serves_latest_fresh_context_witness:
  "fst (get_bearer_context sample_cache ''a'' 29 9 9 (run_cache sample_cache [Promote \<lparr>tck_token_prefix = ''a'', tck_token_hash = ''a''\<rparr> 3 9])
     (run_cache sample_cache [Insert ''a'' sample_context 0 0] (with_capacity_and_ttl sample_cache 2))) = Some sample_context \<and>
   latest_write sample_cache \<lparr>tck_token_prefix = ''a'', tck_token_hash = ''a''\<rparr>
     [Insert ''a'' sample_context 0 0, Promote \<lparr>tck_token_prefix = ''a'', tck_token_hash = ''a''\<rparr> 3 9] \<noteq> None \<and>
   fst (get_bearer_context sample_cache ''a'' 30 9 9 (\<lambda>s. s)
     (insert_bearer_context sample_cache ''a'' sample_context 0 0 (run_cache sample_cache [] (with_capacity_and_ttl sample_cache 2)))) = None"
proof -
  have laws: "lru_map_laws (tcc_lib sample_cache)"
    by (simp add: sample_cache_def lru_list_map_laws)
  have served: "fst (get_bearer_context sample_cache ''a'' 29 9 9 (run_cache sample_cache [Promote \<lparr>tck_token_prefix = ''a'', tck_token_hash = ''a''\<rparr> 3 9])
     (run_cache sample_cache [Insert ''a'' sample_context 0 0] (with_capacity_and_ttl sample_cache 2))) = Some sample_context"
    by (simp add: sample_cache_def sample_context_def get_bearer_context_def run_cache_def with_capacity_and_ttl_def
      insert_bearer_context_def build_cache_key_def token_prefix_len_def lru_list_lib_def Let_def take_and_promote_def
      entry_unusable_def entry_is_expired_def is_context_token_expired_def drop_key_def bring_forward_def)
  note t = cache_serves_latest_fresh_context [OF laws, where raw = "''a''" and now = 29 and utc = 9
    and utc' = 9 and steps' = "[Promote \<lparr>tck_token_prefix = ''a'', tck_token_hash = ''a''\<rparr> 3 9]"
    and steps = "[Insert ''a'' sample_context 0 0]" and capacity = 2]
  have "latest_write sample_cache \<lparr>tck_token_prefix = ''a'', tck_token_hash = ''a''\<rparr>
     [Insert ''a'' sample_context 0 0, Promote \<lparr>tck_token_prefix = ''a'', tck_token_hash = ''a''\<rparr> 3 9] \<noteq> None"
    using t [THEN conjunct1] served
    by (auto simp: build_cache_key_def token_prefix_len_def sample_cache_def split: option.splits)
  moreover have "tcc_ttl sample_cache = 30"
    by (simp add: sample_cache_def)
  ultimately show ?thesis
    using served cache_serves_latest_fresh_context [OF laws, where raw = "''a''" and now = 30 and utc = 9
      and utc' = 9 and steps = "[]" and capacity = 2 and ctx = sample_context and t = 0 and u = 0, THEN conjunct2]
    by simp
qed

end
