(* ===== verification/Auth_Service.thy ===== *)
theory Auth_Service
  imports Role_Repository Token_Cache
begin

text \<open>
  The authentication service (\<^verbatim>\<open>src/auth/service.rs\<close>): credentials, issuing tokens, bearer tokens,
  revocation. A service call runs statements one after the other, outside a transaction: what an
  earlier statement wrote stays when a later one fails. \<open>now\<close> is the database's clock and \<open>utc\<close> the
  program's; the token and its hash are arguments, since the code draws the token at random.
\<close>

section \<open>Service calls\<close>

datatype anyhow_error =
    DbError db_error
  | Message string

type_synonym ('s, 'e, 'a) call = "'s \<Rightarrow> ('e + 'a) \<times> 's"
type_synonym ('e, 'a) service = "(auth_db, 'e, 'a) call"

definition svc_return :: "'a \<Rightarrow> ('s, 'e, 'a) call" where
  "svc_return x d = (Inr x, d)"

definition svc_fail :: "'e \<Rightarrow> ('s, 'e, 'a) call" where
  "svc_fail e d = (Inl e, d)"

definition svc_bind :: "('s, 'e, 'a) call \<Rightarrow> ('a \<Rightarrow> ('s, 'e, 'b) call) \<Rightarrow> ('s, 'e, 'b) call" where
  "svc_bind m k d = (case m d of (Inl e, d) \<Rightarrow> (Inl e, d) | (Inr x, d) \<Rightarrow> k x d)"

definition svc_map_err :: "('e \<Rightarrow> 'f) \<Rightarrow> ('s, 'e, 'a) call \<Rightarrow> ('s, 'f, 'a) call" where
  "svc_map_err f m d = (case m d of (r, d) \<Rightarrow> (map_err f r, d))"

text \<open>A statement in a transaction of its own, a query, a result without effect.\<close>

definition svc_stmt :: "('s, 'a) stmt \<Rightarrow> ('s, anyhow_error, 'a) call" where
  "svc_stmt m d = (case m d of Inl e \<Rightarrow> (Inl (DbError e), d) | Inr (x, d) \<Rightarrow> (Inr x, d))"

definition svc_read :: "('s \<Rightarrow> 'a) \<Rightarrow> ('s, 'e, 'a) call" where
  "svc_read f d = (Inr (f d), d)"

definition svc_result :: "'e + 'a \<Rightarrow> ('s, 'e, 'a) call" where
  "svc_result r d = (r, d)"

lemma svc_simps [simp]:
  "svc_return x d = (Inr x, d)"
  "svc_fail e d = (Inl e, d)"
  "svc_read f d = (Inr (f d), d)"
  "svc_result r d = (r, d)"
  "m d = Inl er \<Longrightarrow> svc_stmt m d = (Inl (DbError er), d)"
  "m d = Inr (y, d') \<Longrightarrow> svc_stmt m d = (Inr y, d')"
  by (simp_all add: svc_return_def svc_fail_def svc_read_def svc_result_def svc_stmt_def)

lemma svc_bind_simps [simp]:
  "svc_bind (svc_return x) k = k x"
  "svc_bind (svc_fail e) k' = svc_fail e"
  "svc_bind (svc_read f) k'' d = k'' (f d) d"
  "m d = (Inr y, d') \<Longrightarrow> svc_bind m h d = h y d'"
  "m' d = (Inl er, d') \<Longrightarrow> svc_bind m' h' d = (Inl er, d')"
  by (simp_all add: svc_bind_def svc_return_def svc_fail_def fun_eq_iff)

lemma svc_bind_Inr: "svc_bind m k d = (Inr y, d'') \<longleftrightarrow> (\<exists>x d'. m d = (Inr x, d') \<and> k x d' = (Inr y, d''))"
  by (auto simp: svc_bind_def split: prod.splits sum.splits)

section \<open>Secrets\<close>

record auth_config =
  access_token_ttl_seconds :: int

definition hash_password :: "auth_env \<Rightarrow> string \<Rightarrow> string \<Rightarrow> anyhow_error + string" where
  "hash_password env salt password =
     (if password = [] then Inl (Message ''password can not be empty'')
      else map_err (\<lambda>e. Message (''failed to hash password: '' @ e)) (ae_hash_password env salt password))"

definition hash_client_secret :: "auth_env \<Rightarrow> string \<Rightarrow> string \<Rightarrow> anyhow_error + string" where
  "hash_client_secret = hash_password"

definition verify_password_hash :: "auth_env \<Rightarrow> string \<Rightarrow> string \<Rightarrow> anyhow_error + bool" where
  "verify_password_hash env password_hash password =
     map_err (\<lambda>e. Message (''invalid password hash format: '' @ e)) (ae_verify_password env password_hash password)"

definition verify_client_secret :: "auth_env \<Rightarrow> string \<Rightarrow> string \<Rightarrow> anyhow_error + bool" where
  "verify_client_secret = verify_password_hash"

section \<open>Audit entries\<close>

definition write_audit_log ::
    "auth_env \<Rightarrow> timestamp \<Rightarrow> id option \<Rightarrow> string \<Rightarrow> string option \<Rightarrow> string option \<Rightarrow> (anyhow_error, audit_log) service" where
  "write_audit_log env now client action ip ua =
     svc_stmt (create_api_client_audit_log env now
       \<lparr>nal_owner = client, nal_action = action, nal_ip_address = ip, nal_user_agent = ua, nal_meta_json = None\<rparr>)"

definition write_auth_failed_audit ::
    "auth_env \<Rightarrow> timestamp \<Rightarrow> id option \<Rightarrow> string option \<Rightarrow> string option \<Rightarrow> (anyhow_error, audit_log) service" where
  "write_auth_failed_audit env now client ip ua = write_audit_log env now client ''auth_failed'' ip ua"

definition write_admin_auth_audit_log ::
    "auth_env \<Rightarrow> timestamp \<Rightarrow> new_audit_log \<Rightarrow> (anyhow_error, audit_log) service" where
  "write_admin_auth_audit_log env now event = svc_stmt (create_admin_auth_audit_log env now event)"

definition write_admin_auth_failed_audit ::
    "auth_env \<Rightarrow> timestamp \<Rightarrow> id option \<Rightarrow> string \<Rightarrow> string option \<Rightarrow> string option \<Rightarrow> (anyhow_error, audit_log) service" where
  "write_admin_auth_failed_audit env now user email ip ua =
     write_admin_auth_audit_log env now
       \<lparr>nal_owner = user, nal_action = ''auth_failed'', nal_ip_address = ip, nal_user_agent = ua,
        nal_meta_json = Some (JObject [(''email'', JString email)])\<rparr>"

section \<open>API clients\<close>

record authenticated_client =
  acl_client :: api_client
  acl_scopes :: "string list"

definition load_client_scopes :: "auth_env \<Rightarrow> id \<Rightarrow> (anyhow_error, string list) service" where
  "load_client_scopes env i = svc_read (\<lambda>d. map acs_scope (list_api_client_scopes env i d))"

definition authenticate_client_credentials ::
    "auth_env \<Rightarrow> timestamp \<Rightarrow> string \<Rightarrow> string \<Rightarrow> string option \<Rightarrow> string option
      \<Rightarrow> (anyhow_error, authenticated_client) service" where
  "authenticate_client_credentials env now client_id client_secret ip ua =
     svc_bind (svc_read (get_api_client_by_client_id client_id)) (\<lambda>found.
       case found of
         None \<Rightarrow> svc_bind (write_auth_failed_audit env now None ip ua)
                  (\<lambda>_. svc_fail (Message ''invalid client credentials''))
       | Some client \<Rightarrow>
           if \<not> ac_is_active client
           then svc_bind (write_auth_failed_audit env now (Some (ac_id client)) ip ua)
                  (\<lambda>_. svc_fail (Message ''api client is inactive''))
           else svc_bind (svc_result (verify_client_secret env (ac_client_secret_hash client) client_secret)) (\<lambda>ok.
             if \<not> ok
             then svc_bind (write_auth_failed_audit env now (Some (ac_id client)) ip ua)
                    (\<lambda>_. svc_fail (Message ''invalid client credentials''))
             else svc_bind (load_client_scopes env (ac_id client))
                    (\<lambda>scopes. svc_return \<lparr>acl_client = client, acl_scopes = scopes\<rparr>)))"

record issued_access_token =
  iat_token :: string
  iat_token_prefix :: string
  iat_expires_at :: timestamp
  iat_client :: api_client
  iat_scopes :: "string list"

definition issue_access_token ::
    "auth_env \<Rightarrow> auth_config \<Rightarrow> timestamp \<Rightarrow> timestamp \<Rightarrow> string \<Rightarrow> string \<Rightarrow> string \<Rightarrow> string option \<Rightarrow> string option
      \<Rightarrow> (anyhow_error, issued_access_token) service" where
  "issue_access_token env config now utc raw_token client_id client_secret ip ua =
     svc_bind (authenticate_client_credentials env now client_id client_secret ip ua) (\<lambda>authenticated.
       let token_hash = ae_hash_token env raw_token;
           token_prefix = take token_prefix_len raw_token;
           expires_at = add_seconds utc (access_token_ttl_seconds config);
           client = acl_client authenticated
       in svc_bind (svc_stmt (create_access_token now
              \<lparr>nat_owner = ac_id client, nat_token_hash = token_hash, nat_token_prefix = token_prefix,
               nat_expires_at = expires_at\<rparr>)) (\<lambda>_.
          svc_bind (svc_stmt (update_api_client_last_used now (ac_id client))) (\<lambda>_.
          svc_bind (write_audit_log env now (Some (ac_id client)) ''token_issued'' ip ua) (\<lambda>_.
          svc_return \<lparr>iat_token = raw_token, iat_token_prefix = token_prefix, iat_expires_at = expires_at,
            iat_client = client, iat_scopes = acl_scopes authenticated\<rparr>))))"

section \<open>Administrators\<close>

record authenticated_admin_user =
  aau_user :: admin_user
  aau_roles :: "string list"
  aau_permissions :: permission_set

definition authenticate_admin_credentials ::
    "auth_env \<Rightarrow> timestamp \<Rightarrow> string \<Rightarrow> string \<Rightarrow> string option \<Rightarrow> string option
      \<Rightarrow> (anyhow_error, authenticated_admin_user) service" where
  "authenticate_admin_credentials env now email password ip ua =
     (let email = trim email
      in svc_bind (svc_read (get_admin_user_by_email env email)) (\<lambda>found.
        case found of
          None \<Rightarrow> svc_bind (write_admin_auth_failed_audit env now None email ip ua)
                   (\<lambda>_. svc_fail (Message ''invalid admin credentials''))
        | Some user \<Rightarrow>
            if \<not> au_is_active user
            then svc_bind (write_admin_auth_failed_audit env now (Some (au_id user)) email ip ua)
                   (\<lambda>_. svc_fail (Message ''admin user is inactive''))
            else svc_bind (svc_result (verify_password_hash env (au_password_hash user) password)) (\<lambda>ok.
              if \<not> ok
              then svc_bind (write_admin_auth_failed_audit env now (Some (au_id user)) email ip ua)
                     (\<lambda>_. svc_fail (Message ''invalid admin credentials''))
              else svc_bind (svc_read (list_role_keys_for_admin_user env (au_id user))) (\<lambda>roles.
                   svc_bind (svc_read (list_permission_keys_for_admin_user env (au_id user))) (\<lambda>keys.
                   svc_bind (svc_result (map_err Message (from_strs keys))) (\<lambda>permissions.
                   svc_return \<lparr>aau_user = user, aau_roles = roles, aau_permissions = permissions\<rparr>))))))"

record issued_admin_access_token =
  iaat_token :: string
  iaat_token_prefix :: string
  iaat_expires_at :: timestamp
  iaat_user :: admin_user
  iaat_roles :: "string list"
  iaat_permissions :: permission_set

definition issue_admin_access_token ::
    "auth_env \<Rightarrow> auth_config \<Rightarrow> timestamp \<Rightarrow> timestamp \<Rightarrow> string \<Rightarrow> string \<Rightarrow> string \<Rightarrow> string option \<Rightarrow> string option
      \<Rightarrow> (anyhow_error, issued_admin_access_token) service" where
  "issue_admin_access_token env config now utc raw_token email password ip ua =
     svc_bind (authenticate_admin_credentials env now email password ip ua) (\<lambda>authenticated.
       let token_hash = ae_hash_token env raw_token;
           token_prefix = take token_prefix_len raw_token;
           expires_at = add_seconds utc (access_token_ttl_seconds config);
           user = aau_user authenticated
       in svc_bind (svc_stmt (create_admin_access_token now
              \<lparr>nat_owner = au_id user, nat_token_hash = token_hash, nat_token_prefix = token_prefix,
               nat_expires_at = expires_at\<rparr>)) (\<lambda>_.
          svc_bind (svc_stmt (update_admin_user_last_login now (au_id user))) (\<lambda>_.
          svc_bind (write_admin_auth_audit_log env now
            \<lparr>nal_owner = Some (au_id user), nal_action = ''token_issued'', nal_ip_address = ip,
             nal_user_agent = ua, nal_meta_json = None\<rparr>) (\<lambda>_.
          svc_return \<lparr>iaat_token = raw_token, iaat_token_prefix = token_prefix, iaat_expires_at = expires_at,
            iaat_user = user, iaat_roles = aau_roles authenticated,
            iaat_permissions = aau_permissions authenticated\<rparr>))))"

section \<open>Bearer tokens\<close>

datatype bearer_auth_error =
    BearerUnauthorized string
  | BearerInternal anyhow_error

definition refuse_bearer ::
    "auth_env \<Rightarrow> timestamp \<Rightarrow> id option \<Rightarrow> string option \<Rightarrow> string option \<Rightarrow> string \<Rightarrow> (bearer_auth_error, 'a) service" where
  "refuse_bearer env now client ip ua message =
     svc_bind (svc_map_err BearerInternal (write_auth_failed_audit env now client ip ua))
       (\<lambda>_. svc_fail (BearerUnauthorized message))"

definition authenticate_bearer_token ::
    "auth_env \<Rightarrow> timestamp \<Rightarrow> timestamp \<Rightarrow> string \<Rightarrow> string option \<Rightarrow> string option
      \<Rightarrow> (bearer_auth_error, access_token_context) service" where
  "authenticate_bearer_token env now utc raw_token ip ua =
     svc_bind (svc_read (get_access_token_auth_context_by_token_hash env (ae_hash_token env raw_token))) (\<lambda>row.
       case row of
         None \<Rightarrow> refuse_bearer env now None ip ua ''invalid access token''
       | Some (token, client, scopes) \<Rightarrow>
           if at_revoked_at token \<noteq> None then refuse_bearer env now None ip ua ''access token has been revoked''
           else if at_expires_at token \<le> utc then refuse_bearer env now None ip ua ''access token has expired''
           else if \<not> ac_is_active client
           then refuse_bearer env now (Some (ac_id client)) ip ua ''api client is inactive''
           else svc_bind (svc_map_err BearerInternal (svc_stmt (update_access_token_last_used now (at_id token)))) (\<lambda>_.
                svc_bind (svc_map_err BearerInternal (svc_stmt (update_api_client_last_used now (ac_id client)))) (\<lambda>_.
                svc_return \<lparr>atc_token = token, atc_client = client, atc_scopes = scopes,
                  atc_permissions = permissions_from_api_client_scopes scopes\<rparr>)))"

definition authenticate_admin_bearer_token ::
    "auth_env \<Rightarrow> timestamp \<Rightarrow> timestamp \<Rightarrow> string \<Rightarrow> (bearer_auth_error, admin_access_token_context) service" where
  "authenticate_admin_bearer_token env now utc raw_token =
     svc_bind (svc_read (get_admin_access_token_auth_context_by_token_hash env (ae_hash_token env raw_token))) (\<lambda>row.
       case row of
         None \<Rightarrow> svc_fail (BearerUnauthorized ''invalid admin access token'')
       | Some (token, user, roles, permission_keys) \<Rightarrow>
           if at_revoked_at token \<noteq> None then svc_fail (BearerUnauthorized ''admin access token has been revoked'')
           else if at_expires_at token \<le> utc then svc_fail (BearerUnauthorized ''admin access token has expired'')
           else if \<not> au_is_active user then svc_fail (BearerUnauthorized ''admin user is inactive'')
           else svc_bind (svc_result (map_err (\<lambda>e. BearerInternal (Message e)) (from_strs permission_keys))) (\<lambda>permissions.
                svc_bind (svc_map_err BearerInternal (svc_stmt (update_admin_access_token_last_used now (at_id token)))) (\<lambda>_.
                svc_return \<lparr>aatc_token = token, aatc_user = user, aatc_roles = roles, aatc_permissions = permissions\<rparr>)))"

definition lookup_bearer_token_kind :: "string \<Rightarrow> auth_db \<Rightarrow> string option" where
  "lookup_bearer_token_kind h d =
     map_option fst (fetch_optional (limit_rows 1 (order_by snd
       (map (\<lambda>_. (''admin'', 0 :: nat)) (filter (\<lambda>t. at_token_hash t = h) (ad_admin_tokens d)) @
        map (\<lambda>_. (''api'', 1)) (filter (\<lambda>t. at_token_hash t = h) (ad_tokens d))))))"

definition hide_reason :: "bearer_auth_error \<Rightarrow> bearer_auth_error" where
  "hide_reason e = (case e of BearerUnauthorized _ \<Rightarrow> BearerUnauthorized ''invalid bearer token'' | BearerInternal x \<Rightarrow> BearerInternal x)"

definition authenticate_any_bearer_token ::
    "auth_env \<Rightarrow> timestamp \<Rightarrow> timestamp \<Rightarrow> string \<Rightarrow> (bearer_auth_error, bearer_token_context) service" where
  "authenticate_any_bearer_token env now utc raw_token =
     svc_bind (svc_read (lookup_bearer_token_kind (ae_hash_token env raw_token))) (\<lambda>kind.
       case kind of
         None \<Rightarrow> svc_fail (BearerUnauthorized ''invalid bearer token'')
       | Some k \<Rightarrow>
           if k = ''admin''
           then svc_bind (svc_map_err hide_reason (authenticate_admin_bearer_token env now utc raw_token))
                  (\<lambda>c. svc_return (BtcAdminUser c))
           else if k = ''api''
           then svc_bind (svc_map_err hide_reason (authenticate_bearer_token env now utc raw_token None None))
                  (\<lambda>c. svc_return (BtcApiClient c))
           else svc_fail (BearerUnauthorized ''invalid bearer token''))"

section \<open>Revocation\<close>

definition revoke_admin_access_token_svc :: "timestamp \<Rightarrow> id \<Rightarrow> string option \<Rightarrow> (anyhow_error, unit) service" where
  "revoke_admin_access_token_svc now i reason = svc_stmt (revoke_admin_access_token now i reason)"

definition revoke_access_token_svc ::
    "auth_env \<Rightarrow> timestamp \<Rightarrow> string \<Rightarrow> string option \<Rightarrow> string option \<Rightarrow> string option \<Rightarrow> (anyhow_error, unit) service" where
  "revoke_access_token_svc env now raw_token reason ip ua =
     svc_bind (svc_read (get_access_token_by_token_hash (ae_hash_token env raw_token))) (\<lambda>found.
       case found of
         None \<Rightarrow> svc_fail (Message ''access token not found'')
       | Some token \<Rightarrow>
           svc_bind (svc_stmt (revoke_access_token now (at_id token) reason)) (\<lambda>_.
           svc_bind (svc_read (get_api_client_by_id (at_owner token))) (\<lambda>client.
           svc_bind (write_audit_log env now (map_option ac_id client) ''token_revoked'' ip ua) (\<lambda>_.
           svc_return ()))))"

definition revoke_access_token_by_id ::
    "auth_env \<Rightarrow> timestamp \<Rightarrow> id \<Rightarrow> id \<Rightarrow> string option \<Rightarrow> string option \<Rightarrow> string option \<Rightarrow> (anyhow_error, unit) service" where
  "revoke_access_token_by_id env now token_id client_id reason ip ua =
     svc_bind (svc_stmt (revoke_access_token now token_id reason)) (\<lambda>_.
     svc_bind (write_audit_log env now (Some client_id) ''token_revoked'' ip ua) (\<lambda>_.
     svc_return ()))"

section \<open>Which bearer tokens are accepted\<close>

text \<open>
  What the tables guarantee by their constraints: ids and token hashes are unique, a token's owner
  exists, and the next id is fresh.
\<close>

definition auth_db_ok :: "auth_db \<Rightarrow> bool" where
  "auth_db_ok d \<longleftrightarrow>
     distinct (map ac_id (ad_clients d)) \<and> distinct (map au_id (ad_users d)) \<and>
     distinct (map ac_client_id (ad_clients d)) \<and>
     distinct (map at_id (ad_tokens d)) \<and> distinct (map at_id (ad_admin_tokens d)) \<and>
     distinct (map at_token_hash (ad_tokens d)) \<and> distinct (map at_token_hash (ad_admin_tokens d)) \<and>
     at_owner ` set (ad_tokens d) \<subseteq> ac_id ` set (ad_clients d) \<and>
     at_owner ` set (ad_admin_tokens d) \<subseteq> au_id ` set (ad_users d) \<and>
     list_all (\<lambda>t. at_id t < ad_next_token d) (ad_tokens d)"

definition live_token :: "timestamp \<Rightarrow> access_token \<Rightarrow> bool" where
  "live_token utc t \<longleftrightarrow> at_revoked_at t = None \<and> utc < at_expires_at t"

lemma fetch_unique:
  assumes "distinct (map k xs)" "x \<in> set xs"
  shows "filter (\<lambda>y. k y = k x) xs = [x]"
  using assms by (induction xs) (auto simp: filter_empty_conv, metis image_eqI)

lemma filter_by_key_None: "k \<notin> f ` set xs \<Longrightarrow> filter (\<lambda>y. f y = k) xs = []"
  by (auto simp: filter_empty_conv)

lemma token_context_row:
  assumes "auth_db_ok d" "t \<in> set (ad_tokens d)" "c \<in> set (ad_clients d)" "ac_id c = at_owner t"
  shows "get_access_token_auth_context_by_token_hash env (at_token_hash t) d =
    Some (t, c, array_agg_distinct env (map acs_scope (filter (\<lambda>s. acs_api_client_id s = ac_id c) (ad_scopes d))))"
proof -
  have "filter (\<lambda>x. at_token_hash x = at_token_hash t) (ad_tokens d) = [t]"
    and "filter (\<lambda>x. ac_id x = at_owner t) (ad_clients d) = [c]"
    using assms fetch_unique [of at_token_hash "ad_tokens d" t] fetch_unique [of ac_id "ad_clients d" c]
    by (simp_all add: auth_db_ok_def)
  then show ?thesis
    by (simp add: get_access_token_auth_context_by_token_hash_def)
qed

lemma admin_token_context_row:
  assumes "auth_db_ok d" "t \<in> set (ad_admin_tokens d)" "u \<in> set (ad_users d)" "au_id u = at_owner t"
  shows "get_admin_access_token_auth_context_by_token_hash env (at_token_hash t) d =
    Some (t, u, array_agg_distinct env (map r_key (roles_of_user (au_id u) d)),
      array_agg_distinct env (map p_key (concat (map (\<lambda>r. permissions_of_role (r_id r) d) (roles_of_user (au_id u) d)))))"
proof -
  have "filter (\<lambda>x. at_token_hash x = at_token_hash t) (ad_admin_tokens d) = [t]"
    and "filter (\<lambda>x. au_id x = at_owner t) (ad_users d) = [u]"
    using assms fetch_unique [of at_token_hash "ad_admin_tokens d" t] fetch_unique [of au_id "ad_users d" u]
    by (simp_all add: auth_db_ok_def)
  then show ?thesis
    by (simp add: get_admin_access_token_auth_context_by_token_hash_def)
qed

lemma lookup_kind:
  "lookup_bearer_token_kind h d =
     (if h \<in> at_token_hash ` set (ad_admin_tokens d) then Some ''admin''
      else if h \<in> at_token_hash ` set (ad_tokens d) then Some ''api'' else None)"
proof -
  let ?as = "map (\<lambda>_. (''admin'', 0 :: nat)) (filter (\<lambda>t. at_token_hash t = h) (ad_admin_tokens d))"
  let ?bs = "map (\<lambda>_. (''api'', 1 :: nat)) (filter (\<lambda>t. at_token_hash t = h) (ad_tokens d))"
  have "sorted (map snd (?as @ ?bs))"
    by (auto simp: sorted_append o_def map_replicate_const)
  then have "order_by snd (?as @ ?bs) = ?as @ ?bs"
    by (simp add: order_by_def sort_key_id_if_sorted)
  moreover have "?as = [] \<longleftrightarrow> h \<notin> at_token_hash ` set (ad_admin_tokens d)"
    "?bs = [] \<longleftrightarrow> h \<notin> at_token_hash ` set (ad_tokens d)"
    by (auto simp: filter_empty_conv)
  ultimately show ?thesis
    unfolding lookup_bearer_token_kind_def
    by (cases ?as; cases ?bs) (auto simp: limit_rows_def)
qed

text \<open>What a database says about who may do what: everything but logs and times of use,
  and the next id of a token.\<close>

definition same_authority :: "auth_db \<Rightarrow> auth_db \<Rightarrow> bool" where
  "same_authority d d' \<longleftrightarrow>
     map (\<lambda>t. t\<lparr>at_last_used_at := None\<rparr>) (ad_tokens d') = map (\<lambda>t. t\<lparr>at_last_used_at := None\<rparr>) (ad_tokens d) \<and>
     map (\<lambda>t. t\<lparr>at_last_used_at := None\<rparr>) (ad_admin_tokens d') = map (\<lambda>t. t\<lparr>at_last_used_at := None\<rparr>) (ad_admin_tokens d) \<and>
     map (\<lambda>c. c\<lparr>ac_last_used_at := None, ac_updated_at := 0\<rparr>) (ad_clients d') =
       map (\<lambda>c. c\<lparr>ac_last_used_at := None, ac_updated_at := 0\<rparr>) (ad_clients d) \<and>
     ad_scopes d' = ad_scopes d \<and> ad_users d' = ad_users d \<and> ad_roles d' = ad_roles d \<and>
     ad_user_roles d' = ad_user_roles d \<and> ad_permissions d' = ad_permissions d \<and>
     ad_role_permissions d' = ad_role_permissions d \<and> ad_next_token d' = ad_next_token d"

lemma same_authority_refl [simp]: "same_authority d d"
  by (simp add: same_authority_def)

lemma refuse_bearer_refuses:
  assumes "case client of None \<Rightarrow> True | Some i \<Rightarrow> i \<in> ac_id ` set (ad_clients d)"
  shows "fst (refuse_bearer env now client None ua m d) = Inl (BearerUnauthorized m) \<and>
    same_authority d (snd (refuse_bearer env now client None ua m d))"
  using assms
  by (cases client) (simp_all add: refuse_bearer_def write_auth_failed_audit_def write_audit_log_def
    create_api_client_audit_log_def cast_inet_def svc_bind_def svc_map_err_def svc_stmt_def Let_def same_authority_def)

lemma svc_stmt_Inr: "svc_stmt (\<lambda>d. Inr (x d, f d)) d = (Inr (x d), f d)"
  by (simp add: svc_stmt_def)

lemma bearer_of_client:
  fixes now utc :: timestamp and ua :: "string option"
  assumes "auth_db_ok d" "t \<in> set (ad_tokens d)" "c \<in> set (ad_clients d)" "ac_id c = at_owner t"
    "ae_hash_token env raw = at_token_hash t"
  defines "scopes \<equiv> array_agg_distinct env (map acs_scope (filter (\<lambda>s. acs_api_client_id s = ac_id c) (ad_scopes d)))"
    and "r \<equiv> authenticate_bearer_token env now utc raw None ua d"
  shows "if live_token utc t \<and> ac_is_active c
    then fst r = Inr \<lparr>atc_token = t, atc_client = c, atc_scopes = scopes,
           atc_permissions = permissions_from_api_client_scopes scopes\<rparr>
    else (\<exists>m. fst r = Inl (BearerUnauthorized m))"
    and "same_authority d (snd r)"
proof -
  have row: "get_access_token_auth_context_by_token_hash env (ae_hash_token env raw) d = Some (t, c, scopes)"
    unfolding scopes_def assms(5) using token_context_row [OF assms(1-4)] .
  have "ac_id c \<in> ac_id ` set (ad_clients d)"
    using assms(3) by simp
  note refused = refuse_bearer_refuses [where client = None and d = d and env = env and now = now and ua = ua, simplified]
    refuse_bearer_refuses [where client = "Some (ac_id c)" and d = d and env = env and now = now and ua = ua, simplified, OF this]
  have used: "same_authority d (d\<lparr>ad_tokens := update_rows p (\<lambda>t. t\<lparr>at_last_used_at := Some now\<rparr>) (ad_tokens d),
      ad_clients := update_rows q (\<lambda>c. c\<lparr>ac_last_used_at := Some now, ac_updated_at := now\<rparr>) (ad_clients d)\<rparr>)" for p q
    by (simp add: same_authority_def update_rows_map)
  show "same_authority d (snd r)"
    unfolding r_def authenticate_bearer_token_def using row used
    by (simp add: refused svc_bind_def svc_map_err_def svc_stmt_def update_access_token_last_used_def update_api_client_last_used_def)
  show "if live_token utc t \<and> ac_is_active c
    then fst r = Inr \<lparr>atc_token = t, atc_client = c, atc_scopes = scopes,
           atc_permissions = permissions_from_api_client_scopes scopes\<rparr>
    else (\<exists>m. fst r = Inl (BearerUnauthorized m))"
    unfolding r_def authenticate_bearer_token_def using row
    by (simp add: refused live_token_def svc_bind_def svc_map_err_def svc_stmt_def update_access_token_last_used_def update_api_client_last_used_def)
qed

definition granted_keys :: "auth_db \<Rightarrow> id \<Rightarrow> string set" where
  "granted_keys d u = {p_key p | p r. r \<in> set (roles_of_user u d) \<and> p \<in> set (permissions_of_role (r_id r) d)}"

lemma set_array_agg_distinct [simp]: "set (array_agg_distinct env xs) = set xs"
  by (simp add: array_agg_distinct_def)

lemma is_ok_from_strs_range: "is_ok (from_strs keys) \<longleftrightarrow> set keys \<subseteq> range permission_as_str"
  unfolding is_ok_from_strs by (auto simp: ex_map_conv)

lemma from_strs_mem: "from_strs keys = Inr s \<Longrightarrow> k \<in> s \<longleftrightarrow> permission_as_str k \<in> set keys"
  by (auto simp: from_strs_Inr permission_as_str_inj)

lemma bearer_of_admin:
  fixes now utc :: timestamp
  assumes "auth_db_ok d" "t \<in> set (ad_admin_tokens d)" "u \<in> set (ad_users d)" "au_id u = at_owner t"
    "ae_hash_token env raw = at_token_hash t"
  defines "r \<equiv> authenticate_admin_bearer_token env now utc raw d"
  shows "if live_token utc t \<and> au_is_active u
    then (if granted_keys d (au_id u) \<subseteq> range permission_as_str
          then (\<exists>roles ps. fst r = Inr \<lparr>aatc_token = t, aatc_user = u, aatc_roles = roles, aatc_permissions = ps\<rparr> \<and>
                 (\<forall>k. k \<in> ps \<longleftrightarrow> permission_as_str k \<in> granted_keys d (au_id u)))
          else \<exists>e. fst r = Inl (BearerInternal e))
    else (\<exists>m. fst r = Inl (BearerUnauthorized m))"
    and "same_authority d (snd r)"
proof -
  define keys where "keys = array_agg_distinct env (map p_key (concat (map (\<lambda>r. permissions_of_role (r_id r) d) (roles_of_user (au_id u) d))))"
  have row: "get_admin_access_token_auth_context_by_token_hash env (ae_hash_token env raw) d =
      Some (t, u, array_agg_distinct env (map r_key (roles_of_user (au_id u) d)), keys)"
    unfolding assms(5) keys_def using admin_token_context_row [OF assms(1-4)] .
  have set_keys: "set keys = granted_keys d (au_id u)"
    by (auto simp: keys_def granted_keys_def)
  show "same_authority d (snd r)"
    unfolding r_def authenticate_admin_bearer_token_def using row
    by (cases "from_strs keys") (simp_all add: svc_bind_def svc_map_err_def svc_stmt_def
      update_admin_access_token_last_used_def same_authority_def update_rows_map)
  show "if live_token utc t \<and> au_is_active u
    then (if granted_keys d (au_id u) \<subseteq> range permission_as_str
          then (\<exists>roles ps. fst r = Inr \<lparr>aatc_token = t, aatc_user = u, aatc_roles = roles, aatc_permissions = ps\<rparr> \<and>
                 (\<forall>k. k \<in> ps \<longleftrightarrow> permission_as_str k \<in> granted_keys d (au_id u)))
          else \<exists>e. fst r = Inl (BearerInternal e))
    else (\<exists>m. fst r = Inl (BearerUnauthorized m))"
  proof (cases "from_strs keys")
    case (Inl e)
    then have "\<not> granted_keys d (au_id u) \<subseteq> range permission_as_str"
      using is_ok_from_strs_range [of keys] set_keys by simp
    then show ?thesis
      unfolding r_def authenticate_admin_bearer_token_def using row Inl
      by (simp add: live_token_def svc_bind_def)
  next
    case (Inr ps)
    then have "granted_keys d (au_id u) \<subseteq> range permission_as_str"
      "\<forall>k. k \<in> ps \<longleftrightarrow> permission_as_str k \<in> granted_keys d (au_id u)"
      using is_ok_from_strs_range [of keys] from_strs_mem [OF Inr] set_keys by simp_all
    then show ?thesis
      unfolding r_def authenticate_admin_bearer_token_def using row Inr
      by (simp add: live_token_def svc_bind_def svc_map_err_def svc_stmt_def update_admin_access_token_last_used_def)
  qed
qed

definition admin_may :: "auth_db \<Rightarrow> id \<Rightarrow> permission_key \<Rightarrow> bool" where
  "admin_may d u k \<longleftrightarrow> permission_as_str k \<in> granted_keys d u"

definition client_may :: "auth_db \<Rightarrow> id \<Rightarrow> permission_key \<Rightarrow> bool" where
  "client_may d i k \<longleftrightarrow> list_ex (\<lambda>s. acs_api_client_id s = i \<and> k \<in> set (scope_permissions (acs_scope s))) (ad_scopes d)"

text \<open>The tokens a request with the hash can be accepted for.\<close>

definition admin_token_valid :: "timestamp \<Rightarrow> string \<Rightarrow> auth_db \<Rightarrow> bool" where
  "admin_token_valid utc h d \<longleftrightarrow>
     list_ex (\<lambda>t. at_token_hash t = h \<and> live_token utc t \<and>
       list_ex (\<lambda>u. au_id u = at_owner t \<and> au_is_active u) (ad_users d)) (ad_admin_tokens d)"

definition client_token_valid :: "timestamp \<Rightarrow> string \<Rightarrow> auth_db \<Rightarrow> bool" where
  "client_token_valid utc h d \<longleftrightarrow>
     list_ex (\<lambda>t. at_token_hash t = h \<and> live_token utc t \<and>
       list_ex (\<lambda>c. ac_id c = at_owner t \<and> ac_is_active c) (ad_clients d)) (ad_tokens d)"

lemma client_scopes_permissions:
  "permissions_from_api_client_scopes (array_agg_distinct env (map acs_scope (filter (\<lambda>s. acs_api_client_id s = i) (ad_scopes d)))) =
   {k. client_may d i k}"
  by (auto simp: permissions_from_api_client_scopes_def client_may_def list_ex_iff)

lemma any_bearer_cases:
  "authenticate_any_bearer_token env now utc raw d =
     (if ae_hash_token env raw \<in> at_token_hash ` set (ad_admin_tokens d)
      then (case authenticate_admin_bearer_token env now utc raw d of
              (Inl e, d') \<Rightarrow> (Inl (hide_reason e), d') | (Inr c, d') \<Rightarrow> (Inr (BtcAdminUser c), d'))
      else if ae_hash_token env raw \<in> at_token_hash ` set (ad_tokens d)
      then (case authenticate_bearer_token env now utc raw None None d of
              (Inl e, d') \<Rightarrow> (Inl (hide_reason e), d') | (Inr c, d') \<Rightarrow> (Inr (BtcApiClient c), d'))
      else (Inl (BearerUnauthorized ''invalid bearer token''), d))"
  by (simp add: authenticate_any_bearer_token_def lookup_kind svc_bind_def svc_map_err_def map_err_def
    split: prod.splits sum.splits)

lemma valid_token_unique:
  assumes "auth_db_ok d"
  shows "t \<in> set (ad_admin_tokens d) \<Longrightarrow> u \<in> set (ad_users d) \<Longrightarrow> au_id u = at_owner t \<Longrightarrow>
      admin_token_valid utc (at_token_hash t) d \<longleftrightarrow> live_token utc t \<and> au_is_active u"
    and "t \<in> set (ad_tokens d) \<Longrightarrow> c \<in> set (ad_clients d) \<Longrightarrow> ac_id c = at_owner t \<Longrightarrow>
      client_token_valid utc (at_token_hash t) d \<longleftrightarrow> live_token utc t \<and> ac_is_active c"
proof -
  have d: "distinct (map at_token_hash (ad_admin_tokens d))" "distinct (map au_id (ad_users d))"
    "distinct (map at_token_hash (ad_tokens d))" "distinct (map ac_id (ad_clients d))"
    using assms by (simp_all add: auth_db_ok_def)
  show "t \<in> set (ad_admin_tokens d) \<Longrightarrow> u \<in> set (ad_users d) \<Longrightarrow> au_id u = at_owner t \<Longrightarrow>
      admin_token_valid utc (at_token_hash t) d \<longleftrightarrow> live_token utc t \<and> au_is_active u"
    unfolding admin_token_valid_def list_ex_iff
    using distinct_map_eqD [OF d(1)] distinct_map_eqD [OF d(2)] by metis
  show "t \<in> set (ad_tokens d) \<Longrightarrow> c \<in> set (ad_clients d) \<Longrightarrow> ac_id c = at_owner t \<Longrightarrow>
      client_token_valid utc (at_token_hash t) d \<longleftrightarrow> live_token utc t \<and> ac_is_active c"
    unfolding client_token_valid_def list_ex_iff
    using distinct_map_eqD [OF d(3)] distinct_map_eqD [OF d(4)] by metis
qed

lemma no_admin_token: "h \<notin> at_token_hash ` set (ad_admin_tokens d) \<Longrightarrow> \<not> admin_token_valid utc h d"
  by (auto simp: admin_token_valid_def list_ex_iff)

lemma no_client_token: "h \<notin> at_token_hash ` set (ad_tokens d) \<Longrightarrow> \<not> client_token_valid utc h d"
  by (auto simp: client_token_valid_def list_ex_iff)

text \<open>What a request may conclude from the answer to its token.\<close>

definition answer_sound :: "auth_env \<Rightarrow> timestamp \<Rightarrow> string \<Rightarrow> auth_db \<Rightarrow> bearer_auth_error + bearer_token_context \<Rightarrow> bool" where
  "answer_sound env utc raw d r =
     (let h = ae_hash_token env raw
      in case r of
        Inr (BtcAdminUser c) \<Rightarrow>
          admin_token_valid utc h d \<and> aatc_token c \<in> set (ad_admin_tokens d) \<and> at_token_hash (aatc_token c) = h \<and>
          aatc_user c \<in> set (ad_users d) \<and> au_id (aatc_user c) = at_owner (aatc_token c) \<and>
          aatc_permissions c = {k. admin_may d (au_id (aatc_user c)) k}
      | Inr (BtcApiClient c) \<Rightarrow>
          client_token_valid utc h d \<and> h \<notin> at_token_hash ` set (ad_admin_tokens d) \<and>
          atc_token c \<in> set (ad_tokens d) \<and> at_token_hash (atc_token c) = h \<and>
          atc_client c \<in> set (ad_clients d) \<and> ac_id (atc_client c) = at_owner (atc_token c) \<and>
          atc_permissions c = {k. client_may d (ac_id (atc_client c)) k}
      | Inl (BearerUnauthorized m) \<Rightarrow>
          m = ''invalid bearer token'' \<and> \<not> admin_token_valid utc h d \<and>
          (h \<in> at_token_hash ` set (ad_admin_tokens d) \<or> \<not> client_token_valid utc h d)
      | Inl (BearerInternal e) \<Rightarrow>
          list_ex (\<lambda>t. at_token_hash t = h \<and> \<not> granted_keys d (at_owner t) \<subseteq> range permission_as_str) (ad_admin_tokens d))"

lemma any_bearer_sound:
  assumes "auth_db_ok d"
  shows "answer_sound env utc raw d (fst (authenticate_any_bearer_token env now utc raw d)) \<and>
    same_authority d (snd (authenticate_any_bearer_token env now utc raw d))"
proof (cases "ae_hash_token env raw \<in> at_token_hash ` set (ad_admin_tokens d)")
  case True
  then obtain t where t: "t \<in> set (ad_admin_tokens d)" "ae_hash_token env raw = at_token_hash t" by auto
  then obtain u where u: "u \<in> set (ad_users d)" "au_id u = at_owner t"
    using assms unfolding auth_db_ok_def by (metis (no_types, lifting) imageE imageI subsetD)
  obtain r d' where r: "authenticate_admin_bearer_token env now utc raw d = (r, d')" by fastforce
  note b = bearer_of_admin [OF assms t(1) u t(2), where now = now and utc = utc, unfolded r fst_conv snd_conv]
  note v = valid_token_unique(1) [OF assms t(1) u]
  show ?thesis
  proof (cases r)
    case (Inl e)
    with b(1) v t u(2) True show ?thesis
      unfolding any_bearer_cases r using b(2)
      by (auto simp: answer_sound_def Let_def list_ex_iff hide_reason_def split: if_splits bearer_auth_error.splits)
  next
    case (Inr c)
    with b(1) v t u True show ?thesis
      unfolding any_bearer_cases r using b(2)
      by (auto simp: answer_sound_def Let_def admin_may_def split: if_splits)
  qed
next
  case no_admin: False
  show ?thesis
  proof (cases "ae_hash_token env raw \<in> at_token_hash ` set (ad_tokens d)")
    case True
    then obtain t where t: "t \<in> set (ad_tokens d)" "ae_hash_token env raw = at_token_hash t" by auto
    then obtain c where c: "c \<in> set (ad_clients d)" "ac_id c = at_owner t"
      using assms unfolding auth_db_ok_def by (metis (no_types, lifting) imageE imageI subsetD)
    obtain r d' where r: "authenticate_bearer_token env now utc raw None None d = (r, d')" by fastforce
    note b = bearer_of_client [OF assms t(1) c t(2), where now = now and utc = utc and ua = None, unfolded r fst_conv snd_conv client_scopes_permissions]
    note v = valid_token_unique(2) [OF assms t(1) c]
    show ?thesis
    proof (cases r)
      case (Inl e)
      with b(1) v t c True no_admin no_admin_token [OF no_admin] show ?thesis
        unfolding any_bearer_cases r using b(2)
        by (auto simp: answer_sound_def Let_def hide_reason_def split: if_splits)
    next
      case (Inr x)
      with b(1) v t c True no_admin show ?thesis
        unfolding any_bearer_cases r using b(2)
        by (auto simp: answer_sound_def Let_def split: if_splits)
    qed
  next
    case False
    with no_admin show ?thesis
      using no_admin_token no_client_token by (simp add: any_bearer_cases answer_sound_def Let_def)
  qed
qed

section \<open>The life of a token\<close>

lemma svc_stmt_Inr_iff: "svc_stmt m d = (Inr x, d') \<longleftrightarrow> m d = Inr (x, d')"
  by (auto simp: svc_stmt_def split: sum.splits)

lemma authenticate_client_Inr:
  assumes "authenticate_client_credentials env now cid secret ip ua d = (Inr a, d')"
  shows "d' = d \<and> get_api_client_by_client_id cid d = Some (acl_client a) \<and> ac_is_active (acl_client a) \<and>
    verify_client_secret env (ac_client_secret_hash (acl_client a)) secret = Inr True"
  using assms
  by (auto simp: authenticate_client_credentials_def load_client_scopes_def svc_bind_Inr
    split: option.splits if_splits)

lemma create_access_token_Inr:
  "create_access_token now n d = Inr (t, d') \<longleftrightarrow>
     is_hex_digest (nat_token_hash n) \<and> nat_token_hash n \<notin> at_token_hash ` set (ad_tokens d) \<and>
     nat_owner n \<in> ac_id ` set (ad_clients d) \<and> t = token_row now (ad_next_token d) n \<and>
     d' = d\<lparr>ad_tokens := ad_tokens d @ [t], ad_next_token := ad_next_token d + 1\<rparr>"
  by (auto simp: create_access_token_def Let_def)

lemma create_api_client_audit_log_Inr:
  "create_api_client_audit_log env now n d = Inr (l, d') \<Longrightarrow>
     d' = d\<lparr>ad_client_logs := ad_client_logs d @ [l], ad_next_client_log := ad_next_client_log d + 1\<rparr>"
  by (auto simp: create_api_client_audit_log_def and_then_eq_Inr Let_def split: if_splits)

lemma issue_access_token_Inr:
  assumes "issue_access_token env config now utc raw cid secret ip ua d = (Inr issued, d')"
  shows "\<exists>c \<in> set (ad_clients d). \<exists>p. iat_client issued = c \<and> ac_client_id c = cid \<and> ac_is_active c \<and> iat_token issued = raw \<and>
    iat_expires_at issued = add_seconds utc (access_token_ttl_seconds config) \<and>
    ae_hash_token env raw \<notin> at_token_hash ` set (ad_tokens d) \<and>
    ad_tokens d' = ad_tokens d @ [token_row now (ad_next_token d)
      \<lparr>nat_owner = ac_id c, nat_token_hash = ae_hash_token env raw, nat_token_prefix = p, nat_expires_at = iat_expires_at issued\<rparr>] \<and>
    ad_next_token d' = ad_next_token d + 1 \<and>
    ad_clients d' = update_rows (\<lambda>x. ac_id x = ac_id c) (\<lambda>x. x\<lparr>ac_last_used_at := Some now, ac_updated_at := now\<rparr>) (ad_clients d) \<and>
    ad_scopes d' = ad_scopes d \<and> ad_admin_tokens d' = ad_admin_tokens d \<and> ad_users d' = ad_users d"
proof -
  let ?n = "\<lambda>a. \<lparr>nat_owner = ac_id (acl_client a), nat_token_hash = ae_hash_token env raw,
    nat_token_prefix = take token_prefix_len raw, nat_expires_at = add_seconds utc (access_token_ttl_seconds config)\<rparr>"
  from assms obtain a d1 t d2 d3 l where steps:
    "authenticate_client_credentials env now cid secret ip ua d = (Inr a, d1)"
    "create_access_token now (?n a) d1 = Inr (t, d2)"
    "update_api_client_last_used now (ac_id (acl_client a)) d2 = Inr ((), d3)"
    "write_audit_log env now (Some (ac_id (acl_client a))) ''token_issued'' ip ua d3 = (Inr l, d')"
    "issued = \<lparr>iat_token = raw, iat_token_prefix = take token_prefix_len raw,
       iat_expires_at = add_seconds utc (access_token_ttl_seconds config), iat_client = acl_client a, iat_scopes = acl_scopes a\<rparr>"
    unfolding issue_access_token_def by (auto simp: svc_bind_Inr svc_stmt_Inr_iff Let_def)
  have c: "acl_client a \<in> set (ad_clients d)" "ac_client_id (acl_client a) = cid" "ac_is_active (acl_client a)" "d1 = d"
    using authenticate_client_Inr [OF steps(1)] fetch_optional_Some_mem
    by (fastforce simp: get_api_client_by_client_id_def)+
  have "d' = d3\<lparr>ad_client_logs := ad_client_logs d3 @ [l], ad_next_client_log := ad_next_client_log d3 + 1\<rparr>"
    using steps(4) create_api_client_audit_log_Inr by (simp add: write_audit_log_def svc_stmt_Inr_iff)
  then show ?thesis
    using c steps(2,3,5) by (intro bexI [of _ "acl_client a"]) (auto simp: create_access_token_Inr update_api_client_last_used_def)
qed

lemma auth_db_ok_after_issue:
  assumes "auth_db_ok d" "issue_access_token env config now utc raw cid secret ip ua d = (Inr issued, d')"
  shows "auth_db_ok d'"
proof -
  let ?f = "\<lambda>x. x\<lparr>ac_last_used_at := Some now, ac_updated_at := now\<rparr>"
  have same: "map ac_id (update_rows p ?f cs) = map ac_id cs" "map ac_client_id (update_rows p ?f cs) = map ac_client_id cs" for p cs
    by (simp_all add: update_rows_map)
  have ids: "ac_id ` set (update_rows p ?f cs) = ac_id ` set cs" for p cs
    using same(1) [of p cs] by (metis list.set_map)
  show ?thesis
    using assms(1) issue_access_token_Inr [OF assms(2)]
    by (auto simp: auth_db_ok_def same ids token_row_def list_all_iff) (fastforce simp: token_row_def)+
qed

lemma any_bearer_of_client:
  assumes "auth_db_ok d" "t \<in> set (ad_tokens d)" "c \<in> set (ad_clients d)" "ac_id c = at_owner t"
    "ae_hash_token env raw = at_token_hash t" "ae_hash_token env raw \<notin> at_token_hash ` set (ad_admin_tokens d)"
  shows "if live_token utc t \<and> ac_is_active c
    then \<exists>x. fst (authenticate_any_bearer_token env now utc raw d) = Inr (BtcApiClient x) \<and>
           atc_client x = c \<and> atc_permissions x = {k. client_may d (ac_id c) k}
    else fst (authenticate_any_bearer_token env now utc raw d) = Inl (BearerUnauthorized ''invalid bearer token'')"
proof -
  obtain r d' where r: "authenticate_bearer_token env now utc raw None None d = (r, d')" by fastforce
  note b = bearer_of_client [OF assms(1-5), where now = now and utc = utc and ua = None, unfolded r fst_conv snd_conv client_scopes_permissions]
  show ?thesis
    using b(1) assms(2,5,6) unfolding any_bearer_cases r
    by (cases r) (auto simp: hide_reason_def split: if_splits)
qed

lemma no_bearer_of_unknown:
  "ae_hash_token env raw \<notin> at_token_hash ` set (ad_admin_tokens d) \<Longrightarrow> ae_hash_token env raw \<notin> at_token_hash ` set (ad_tokens d) \<Longrightarrow>
   fst (authenticate_any_bearer_token env now utc raw d) = Inl (BearerUnauthorized ''invalid bearer token'')"
  by (simp add: any_bearer_cases)

text \<open>A revocation by the token's own text, and what a client's deactivation and deletion leave of it.\<close>

lemma revoke_access_token_svc_db:
  fixes now :: timestamp and reason ip ua :: "string option"
  assumes "auth_db_ok d" "t \<in> set (ad_tokens d)" "ae_hash_token env raw = at_token_hash t"
  defines "d' \<equiv> snd (revoke_access_token_svc env now raw reason ip ua d)"
  shows "ad_tokens d' = update_rows (\<lambda>x. at_id x = at_id t) (revoke_token_row now reason) (ad_tokens d) \<and>
    ad_clients d' = ad_clients d \<and> ad_users d' = ad_users d \<and> ad_admin_tokens d' = ad_admin_tokens d \<and>
    ad_next_token d' = ad_next_token d"
proof -
  have t: "get_access_token_by_token_hash (ae_hash_token env raw) d = Some t"
    using fetch_unique [of at_token_hash "ad_tokens d" t] assms(1-3)
    by (simp add: get_access_token_by_token_hash_def auth_db_ok_def)
  let ?d1 = "d\<lparr>ad_tokens := update_rows (\<lambda>x. at_id x = at_id t) (revoke_token_row now reason) (ad_tokens d)\<rparr>"
  obtain r where r: "write_audit_log env now (map_option ac_id (get_api_client_by_id (at_owner t) ?d1)) ''token_revoked'' ip ua ?d1 = r"
    by simp
  have "snd r = ?d1 \<or> (\<exists>l. snd r = ?d1\<lparr>ad_client_logs := ad_client_logs ?d1 @ [l], ad_next_client_log := ad_next_client_log ?d1 + 1\<rparr>)"
    unfolding r [symmetric] write_audit_log_def svc_stmt_def
    by (auto split: sum.splits dest!: create_api_client_audit_log_Inr)
  moreover have "d' = snd r"
    unfolding d'_def revoke_access_token_svc_def svc_bind_simps t option.case
    by (simp add: svc_bind_def revoke_access_token_def svc_stmt_def r split: prod.splits sum.splits)
  ultimately show ?thesis
    by auto
qed

lemma auth_db_ok_frame:
  assumes "auth_db_ok d" "ad_tokens d' = update_rows p f (ad_tokens d)" "ad_clients d' = update_rows q g (ad_clients d)"
    "\<And>t. at_id (f t) = at_id t \<and> at_owner (f t) = at_owner t \<and> at_token_hash (f t) = at_token_hash t"
    "\<And>c. ac_id (g c) = ac_id c \<and> ac_client_id (g c) = ac_client_id c"
    "ad_users d' = ad_users d" "ad_admin_tokens d' = ad_admin_tokens d" "ad_next_token d' = ad_next_token d"
  shows "auth_db_ok d'"
proof -
  have m: "map at_id (ad_tokens d') = map at_id (ad_tokens d)" "map at_owner (ad_tokens d') = map at_owner (ad_tokens d)"
    "map at_token_hash (ad_tokens d') = map at_token_hash (ad_tokens d)"
    "map ac_id (ad_clients d') = map ac_id (ad_clients d)" "map ac_client_id (ad_clients d') = map ac_client_id (ad_clients d)"
    unfolding assms(2,3) using assms(4,5) by (simp_all add: update_rows_map)
  have "list_all (\<lambda>i. i < ad_next_token d') (map at_id (ad_tokens d'))"
    unfolding m assms(8) using assms(1) by (simp add: auth_db_ok_def list.pred_map o_def)
  then have "list_all (\<lambda>t. at_id t < ad_next_token d') (ad_tokens d')"
    by (simp add: list.pred_map o_def)
  moreover have "at_owner ` set (ad_tokens d') \<subseteq> ac_id ` set (ad_clients d')"
    unfolding list.set_map [symmetric] m using assms(1) by (simp add: auth_db_ok_def)
  ultimately show ?thesis
    using assms(1,6,7) by (simp add: auth_db_ok_def m)
qed

lemma update_no_rows:
  "update_rows (\<lambda>_. False) (\<lambda>x. x) xs = xs"
  by (simp add: update_rows_def)

lemma issued_token_lifecycle_lemma:
  assumes ok: "auth_db_ok d"
    and issue: "issue_access_token env config now utc raw cid secret ip ua d = (Inr issued, d')"
    and fresh: "ae_hash_token env raw \<notin> at_token_hash ` set (ad_admin_tokens d)"
  shows "(case fst (authenticate_any_bearer_token env now' utc' raw d') of
      Inr (BtcApiClient c) \<Rightarrow> utc' < iat_expires_at issued \<and> ac_id (atc_client c) = ac_id (iat_client issued) \<and>
        atc_permissions c = {k. client_may d (ac_id (iat_client issued)) k}
    | Inr (BtcAdminUser _) \<Rightarrow> False
    | Inl (BearerUnauthorized _) \<Rightarrow> iat_expires_at issued \<le> utc'
    | Inl (BearerInternal _) \<Rightarrow> False)"
    and "fst (authenticate_any_bearer_token env now' utc' raw (snd (revoke_access_token_svc env now'' raw reason ip' ua' d'))) =
      Inl (BearerUnauthorized ''invalid bearer token'')"
    and "fst (authenticate_any_bearer_token env now' utc' raw (run_stmt (update_api_client now'' (ac_id (iat_client issued)) name desc False) d')) =
      Inl (BearerUnauthorized ''invalid bearer token'')"
    and "fst (authenticate_any_bearer_token env now' utc' raw (run_stmt (delete_api_client (ac_id (iat_client issued))) d')) =
      Inl (BearerUnauthorized ''invalid bearer token'')"
proof -
  obtain c p where c: "c \<in> set (ad_clients d)" "iat_client issued = c" "ac_is_active c"
    "ae_hash_token env raw \<notin> at_token_hash ` set (ad_tokens d)"
    "ad_tokens d' = ad_tokens d @ [token_row now (ad_next_token d)
      \<lparr>nat_owner = ac_id c, nat_token_hash = ae_hash_token env raw, nat_token_prefix = p, nat_expires_at = iat_expires_at issued\<rparr>]"
    "ad_clients d' = update_rows (\<lambda>x. ac_id x = ac_id c) (\<lambda>x. x\<lparr>ac_last_used_at := Some now, ac_updated_at := now\<rparr>) (ad_clients d)"
    "ad_scopes d' = ad_scopes d" "ad_admin_tokens d' = ad_admin_tokens d" "ad_users d' = ad_users d"
    using issue_access_token_Inr [OF issue] by auto
  define t where "t = token_row now (ad_next_token d)
    \<lparr>nat_owner = ac_id c, nat_token_hash = ae_hash_token env raw, nat_token_prefix = p, nat_expires_at = iat_expires_at issued\<rparr>"
  define c' where "c' = c\<lparr>ac_last_used_at := Some now, ac_updated_at := now\<rparr>"
  have ok': "auth_db_ok d'"
    by (rule auth_db_ok_after_issue [OF ok issue])
  have t: "t \<in> set (ad_tokens d')" "at_token_hash t = ae_hash_token env raw" "at_owner t = ac_id c"
    "live_token x t \<longleftrightarrow> x < iat_expires_at issued" for x
    by (simp_all add: c(5) t_def token_row_def live_token_def)
  have c': "c' \<in> set (ad_clients d')" "ac_id c' = at_owner t" "ac_is_active c'"
    using c(1,3) t(3) by (auto simp: c(6) c'_def set_update_rows)
  have fresh': "ae_hash_token env raw \<notin> at_token_hash ` set (ad_admin_tokens d')"
    using fresh c(8) by simp
  have "client_may d' i k = client_may d i k" for i k
    by (simp add: client_may_def c(7))
  then show "(case fst (authenticate_any_bearer_token env now' utc' raw d') of
      Inr (BtcApiClient c) \<Rightarrow> utc' < iat_expires_at issued \<and> ac_id (atc_client c) = ac_id (iat_client issued) \<and>
        atc_permissions c = {k. client_may d (ac_id (iat_client issued)) k}
    | Inr (BtcAdminUser _) \<Rightarrow> False
    | Inl (BearerUnauthorized _) \<Rightarrow> iat_expires_at issued \<le> utc'
    | Inl (BearerInternal _) \<Rightarrow> False)"
    using any_bearer_of_client [OF ok' t(1) c'(1,2) t(2) [symmetric] fresh', of utc' now'] c'(2,3) c(2) t(3,4)
    by (auto split: if_splits)
  let ?r = "snd (revoke_access_token_svc env now'' raw reason ip' ua' d')"
  note r = revoke_access_token_svc_db [OF ok' t(1) t(2) [symmetric], of now'' reason ip' ua']
  have "auth_db_ok ?r"
    by (rule auth_db_ok_frame [OF ok', where p = "\<lambda>x. at_id x = at_id t" and f = "revoke_token_row now'' reason"
          and q = "\<lambda>_. False" and g = "\<lambda>x. x"])
      (use r in \<open>simp_all add: revoke_token_row_def update_no_rows\<close>)
  moreover have "revoke_token_row now'' reason t \<in> set (ad_tokens ?r)"
    using r t(1) by (auto simp: set_update_rows)
  ultimately show "fst (authenticate_any_bearer_token env now' utc' raw ?r) = Inl (BearerUnauthorized ''invalid bearer token'')"
    using any_bearer_of_client [of ?r "revoke_token_row now'' reason t" c' env raw utc' now'] r c' t fresh'
    by (simp add: revoke_token_row_def live_token_def)
  let ?u = "run_stmt (update_api_client now'' (ac_id (iat_client issued)) name desc False) d'"
  have u: "?u = d'\<lparr>ad_clients := update_rows (\<lambda>x. ac_id x = ac_id c) (update_client_row now'' name desc False) (ad_clients d')\<rparr>"
    by (simp add: update_api_client_def run_stmt_def c(2) Let_def)
  have "auth_db_ok ?u"
    by (rule auth_db_ok_frame [OF ok', where p = "\<lambda>_. False" and f = "\<lambda>x. x"
          and q = "\<lambda>x. ac_id x = ac_id c" and g = "update_client_row now'' name desc False"])
      (simp_all add: u update_client_row_def update_no_rows)
  moreover have "update_client_row now'' name desc False c' \<in> set (ad_clients ?u)"
    using c'(1,2) t(3) by (auto simp: u set_update_rows)
  ultimately show "fst (authenticate_any_bearer_token env now' utc' raw ?u) = Inl (BearerUnauthorized ''invalid bearer token'')"
    using any_bearer_of_client [of ?u t "update_client_row now'' name desc False c'" env raw utc' now'] c' t fresh'
    by (simp add: u update_client_row_def)
  have "filter (\<lambda>x. at_token_hash x = ae_hash_token env raw) (ad_tokens d') = [t]"
    using fetch_unique [of at_token_hash "ad_tokens d'" t] ok' t(1,2) by (simp add: auth_db_ok_def)
  then have only: "x = t" if "x \<in> set (ad_tokens d')" "at_token_hash x = ae_hash_token env raw" for x
    using that by (metis (mono_tags, lifting) filter_set mem_Collect_eq set_filter empty_iff insert_iff list.set(1,2))
  show "fst (authenticate_any_bearer_token env now' utc' raw (run_stmt (delete_api_client (ac_id (iat_client issued))) d')) =
      Inl (BearerUnauthorized ''invalid bearer token'')"
  proof (rule no_bearer_of_unknown)
    have "list_ex (\<lambda>x. ac_id x = ac_id c) (ad_clients d')"
      using c'(1,2) t(3) by (auto simp: list_ex_iff)
    then show "ae_hash_token env raw \<notin> at_token_hash ` set (ad_tokens (run_stmt (delete_api_client (ac_id (iat_client issued))) d'))"
      using only t(3) by (auto simp: delete_api_client_def run_stmt_def c(2) delete_rows_def)
    show "ae_hash_token env raw \<notin> at_token_hash ` set (ad_admin_tokens (run_stmt (delete_api_client (ac_id (iat_client issued))) d'))"
      using fresh' by (simp add: delete_api_client_def run_stmt_def)
  qed
qed

text \<open>
  C22: a bearer token is accepted exactly when an unrevoked, unexpired token with its hash belongs to an
  active administrator or, if no administrator's token has the hash, to an active API client; the
  context is that of the token's owner and carries the permissions its roles or scopes grant, and
  nothing else. Every refusal reads the same, and an internal error is answered only for a stored
  permission the program does not know. Asking changes no token, account, role or permission, only
  logs and times of use.
\<close>

theorem bearer_token_accepted_iff_valid:
  assumes "auth_db_ok d"
  shows "answer_sound env utc raw d (fst (authenticate_any_bearer_token env now utc raw d)) \<and>
    same_authority d (snd (authenticate_any_bearer_token env now utc raw d))"
  using any_bearer_sound [OF assms] .

text \<open>An environment and a database with one active client.\<close>

definition sample_auth_env :: auth_env where
  "sample_auth_env =
     \<lparr>ae_hash_token = (\<lambda>_. replicate 64 CHR ''a''), ae_hash_password = (\<lambda>_. Inr),
      ae_verify_password = (\<lambda>h p. Inr (h = p)), ae_collate = (\<lambda>_ _. True), ae_lower = (\<lambda>s. s), ae_inet = Some\<rparr>"

definition sample_auth_db :: auth_db where
  "sample_auth_db = empty_auth_db
     \<lparr>ad_clients := [\<lparr>ac_id = 1, ac_uuid = ''u'', ac_name = ''n'', ac_description = None,
        ac_client_type = InstallationClient, ac_client_id = ''c'', ac_client_secret_hash = ''s'',
        ac_secret_prefix = ''s'', ac_is_active = True, ac_last_used_at = None, ac_created_by_user_id = None,
        ac_created_at = 0, ac_updated_at = 0\<rparr>],
      ad_scopes := [\<lparr>acs_id = 1, acs_api_client_id = 1, acs_scope = ''sites:read'', acs_created_at = 0\<rparr>],
      ad_next_client := 2, ad_next_scope := 2\<rparr>"

lemma sample_hash: "is_hex_digest (replicate 64 CHR ''a'')"
  by (simp add: is_hex_digest_def list_all_iff)

lemma sample_auth_db_ok: "auth_db_ok sample_auth_db"
  by (simp add: sample_auth_db_def empty_auth_db_def auth_db_ok_def)

theorem bearer_token_accepted_iff_valid_witness:
  "fst (authenticate_any_bearer_token sample_auth_env 0 0 ''t'' sample_auth_db) = Inl (BearerUnauthorized ''invalid bearer token'') \<and>
   \<not> client_token_valid 0 (replicate 64 CHR ''a'') sample_auth_db"
proof
  show r: "fst (authenticate_any_bearer_token sample_auth_env 0 0 ''t'' sample_auth_db) = Inl (BearerUnauthorized ''invalid bearer token'')"
    by (rule no_bearer_of_unknown) (simp_all add: sample_auth_db_def empty_auth_db_def)
  show "\<not> client_token_valid 0 (replicate 64 CHR ''a'') sample_auth_db"
    using bearer_token_accepted_iff_valid [OF sample_auth_db_ok, of sample_auth_env 0 "''t''" 0]
    unfolding r by (simp add: answer_sound_def Let_def sample_auth_env_def sample_auth_db_def empty_auth_db_def)
qed

text \<open>
  a token issued to an API client is accepted for that client, with the permissions of its scopes,
  until the instant it was issued for, and refused from then on; a revocation, a deactivation or a
  deletion of the client ends it at once.
\<close>

theorem issued_token_lifecycle:
  assumes "auth_db_ok d"
    and "issue_access_token env config now utc raw cid secret ip ua d = (Inr issued, d')"
    and "ae_hash_token env raw \<notin> at_token_hash ` set (ad_admin_tokens d)"
  shows "(case fst (authenticate_any_bearer_token env now' utc' raw d') of
      Inr (BtcApiClient c) \<Rightarrow> utc' < iat_expires_at issued \<and> ac_id (atc_client c) = ac_id (iat_client issued) \<and>
        atc_permissions c = {k. client_may d (ac_id (iat_client issued)) k}
    | Inr (BtcAdminUser _) \<Rightarrow> False
    | Inl (BearerUnauthorized _) \<Rightarrow> iat_expires_at issued \<le> utc'
    | Inl (BearerInternal _) \<Rightarrow> False) \<and>
    fst (authenticate_any_bearer_token env now' utc' raw (snd (revoke_access_token_svc env now'' raw reason ip' ua' d'))) =
      Inl (BearerUnauthorized ''invalid bearer token'') \<and>
    fst (authenticate_any_bearer_token env now' utc' raw (run_stmt (update_api_client now'' (ac_id (iat_client issued)) name desc False) d')) =
      Inl (BearerUnauthorized ''invalid bearer token'') \<and>
    fst (authenticate_any_bearer_token env now' utc' raw (run_stmt (delete_api_client (ac_id (iat_client issued))) d')) =
      Inl (BearerUnauthorized ''invalid bearer token'')"
  by (intro conjI issued_token_lifecycle_lemma [OF assms])

theorem issued_token_lifecycle_witness:
  "case issue_access_token sample_auth_env \<lparr>access_token_ttl_seconds = 60\<rparr> 0 0 ''t'' ''c'' ''s'' None None sample_auth_db of
     (Inl _, _) \<Rightarrow> False
   | (Inr issued, d') \<Rightarrow>
       fst (authenticate_any_bearer_token sample_auth_env 0 0 ''t''
         (snd (revoke_access_token_svc sample_auth_env 0 ''t'' None None None d'))) = Inl (BearerUnauthorized ''invalid bearer token'')"
proof -
  obtain issued d' where i:
    "issue_access_token sample_auth_env \<lparr>access_token_ttl_seconds = 60\<rparr> 0 0 ''t'' ''c'' ''s'' None None sample_auth_db = (Inr issued, d')"
    by (simp add: issue_access_token_def authenticate_client_credentials_def svc_bind_def svc_stmt_def Let_def
      sample_auth_env_def sample_auth_db_def empty_auth_db_def get_api_client_by_client_id_def verify_client_secret_def
      verify_password_hash_def load_client_scopes_def create_access_token_def sample_hash
      update_api_client_last_used_def update_rows_def write_audit_log_def create_api_client_audit_log_def cast_inet_def)
  have "ae_hash_token sample_auth_env ''t'' \<notin> at_token_hash ` set (ad_admin_tokens sample_auth_db)"
    by (simp add: sample_auth_db_def empty_auth_db_def)
  from issued_token_lifecycle [OF sample_auth_db_ok i this] show ?thesis
    unfolding i by simp
qed

lemma map_reset:
  assumes "map g xs' = map g xs" "\<And>x. k (g x) = k x"
  shows "map k xs' = map k xs"
proof -
  have "map k ys = map k (map g ys)" for ys
    by (simp add: o_def assms(2))
  with assms(1) show ?thesis by metis
qed

lemma same_authority_ok:
  assumes "same_authority d d'" "auth_db_ok d"
  shows "auth_db_ok d'"
proof -
  note s = assms(1) [unfolded same_authority_def]
  have m: "map at_id (ad_tokens d') = map at_id (ad_tokens d)" "map at_owner (ad_tokens d') = map at_owner (ad_tokens d)"
    "map at_token_hash (ad_tokens d') = map at_token_hash (ad_tokens d)"
    by (rule map_reset [OF s [THEN conjunct1]], simp)+
  have m': "map at_id (ad_admin_tokens d') = map at_id (ad_admin_tokens d)" "map at_owner (ad_admin_tokens d') = map at_owner (ad_admin_tokens d)"
    "map at_token_hash (ad_admin_tokens d') = map at_token_hash (ad_admin_tokens d)"
    by (rule map_reset [OF s [THEN conjunct2, THEN conjunct1]], simp)+
  have m'': "map ac_id (ad_clients d') = map ac_id (ad_clients d)" "map ac_client_id (ad_clients d') = map ac_client_id (ad_clients d)"
    by (rule map_reset [OF s [THEN conjunct2, THEN conjunct2, THEN conjunct1]], simp)+
  note m = m m' m''
  have "list_all (\<lambda>i. i < ad_next_token d') (map at_id (ad_tokens d'))"
    unfolding m using assms by (simp add: auth_db_ok_def same_authority_def list.pred_map o_def)
  then have "list_all (\<lambda>t. at_id t < ad_next_token d') (ad_tokens d')"
    by (simp add: list.pred_map o_def)
  moreover have "at_owner ` set (ad_tokens d') \<subseteq> ac_id ` set (ad_clients d')"
    "at_owner ` set (ad_admin_tokens d') \<subseteq> au_id ` set (ad_users d')"
    unfolding list.set_map [symmetric] m using assms by (simp_all add: auth_db_ok_def same_authority_def)
  ultimately show ?thesis
    using assms by (simp add: auth_db_ok_def m same_authority_def)
qed

end
