(* ===== verification/Rate_Limit.thy ===== *)
theory Rate_Limit
  imports Lru_Cache
begin

text \<open>
  The limiter of authentication attempts and the cache of public status pages
  (\<^verbatim>\<open>src/api/rate_limit.rs\<close>). An \<open>Instant\<close> is a number of nanoseconds; the difference of two is
  zero when it would be negative, as \<open>duration_since\<close> has it. The request counter is a \<open>usize\<close> that
  wraps around.
\<close>

section \<open>The limiter\<close>

record rate_limit_key =
  rk_bucket :: string
  rk_ip_address :: string

record rate_limit_entry =
  window_started_at :: nat
  request_count :: nat

record auth_rate_limiter =
  max_requests :: nat
  window :: duration
  entries :: "rate_limit_key \<Rightarrow> rate_limit_entry option"
  request_counter :: nat

definition rate_limiter_new :: "nat \<Rightarrow> duration \<Rightarrow> auth_rate_limiter" where
  "rate_limiter_new m w =
     \<lparr>max_requests = m, window = w, entries = (\<lambda>_. None), request_counter = 0\<rparr>"

definition retain_open_windows ::
    "nat \<Rightarrow> duration \<Rightarrow> (rate_limit_key \<Rightarrow> rate_limit_entry option) \<Rightarrow> rate_limit_key \<Rightarrow> rate_limit_entry option" where
  "retain_open_windows now w es k = option_filter (\<lambda>e. now - window_started_at e < w) (es k)"

definition check_rate_limit :: "auth_rate_limiter \<Rightarrow> string \<Rightarrow> string \<Rightarrow> nat \<Rightarrow> bool \<times> auth_rate_limiter" where
  "check_rate_limit l bucket ip_address now =
     (let key = \<lparr>rk_bucket = bucket, rk_ip_address = ip_address\<rparr>;
          es = (if request_counter l mod 256 = 0
                then retain_open_windows now (window l) (entries l) else entries l);
          l = l\<lparr>request_counter := as_u64 (request_counter l + 1)\<rparr>;
          entry = unwrap_or (es key) \<lparr>window_started_at = now, request_count = 0\<rparr>;
          entry = (if window l \<le> now - window_started_at entry
                   then \<lparr>window_started_at = now, request_count = 0\<rparr> else entry)
      in if max_requests l \<le> request_count entry
         then (False, l\<lparr>entries := es(key \<mapsto> entry)\<rparr>)
         else (True, l\<lparr>entries := es(key \<mapsto> entry\<lparr>request_count := request_count entry + 1\<rparr>)\<rparr>))"

text \<open>The requests in the order in which they take the lock, each with the instant it read.\<close>

record auth_request =
  rq_bucket :: string
  rq_ip :: string
  rq_now :: nat

fun check_requests :: "auth_rate_limiter \<Rightarrow> auth_request list \<Rightarrow> bool list" where
  "check_requests l [] = []"
| "check_requests l (r # rs) =
     (case check_rate_limit l (rq_bucket r) (rq_ip r) (rq_now r) of (ok, l) \<Rightarrow> ok # check_requests l rs)"

section \<open>The reference: one fixed window per key, never cleaned up\<close>

fun window_step :: "nat \<Rightarrow> duration \<Rightarrow> rate_limit_entry option \<Rightarrow> nat \<Rightarrow> bool \<times> rate_limit_entry" where
  "window_step m w e now =
     (let e = (case e of
                 None \<Rightarrow> \<lparr>window_started_at = now, request_count = 0\<rparr>
               | Some e \<Rightarrow> if w \<le> now - window_started_at e
                          then \<lparr>window_started_at = now, request_count = 0\<rparr> else e)
      in if m \<le> request_count e then (False, e) else (True, e\<lparr>request_count := request_count e + 1\<rparr>))"

fun fixed_window :: "nat \<Rightarrow> duration \<Rightarrow> rate_limit_entry option \<Rightarrow> nat list \<Rightarrow> bool list" where
  "fixed_window m w e [] = []"
| "fixed_window m w e (t # ts) =
     (case window_step m w e t of (ok, e) \<Rightarrow> ok # fixed_window m w (Some e) ts)"

text \<open>The requests of one bucket and address, their instants, and the limiter's answers to them.\<close>

definition own :: "string \<Rightarrow> string \<Rightarrow> auth_request \<Rightarrow> bool" where
  "own b ip r \<longleftrightarrow> rq_bucket r = b \<and> rq_ip r = ip"

definition own_times :: "string \<Rightarrow> string \<Rightarrow> auth_request list \<Rightarrow> nat list" where
  "own_times b ip rs = map rq_now (filter (own b ip) rs)"

definition own_answers :: "string \<Rightarrow> string \<Rightarrow> auth_request list \<Rightarrow> bool list \<Rightarrow> bool list" where
  "own_answers b ip rs as = map snd (filter (\<lambda>p. own b ip (fst p)) (zip rs as))"

definition accepted_between :: "nat \<Rightarrow> nat \<Rightarrow> nat list \<Rightarrow> bool list \<Rightarrow> nat" where
  "accepted_between lo hi ts as = length (filter (\<lambda>(t, ok). ok \<and> lo \<le> t \<and> t < hi) (zip ts as))"

lemma accepted_between_simps [simp]:
  "accepted_between lo hi [] as = 0"
  "accepted_between lo hi (t # ts) (a # as) =
     (if a \<and> lo \<le> t \<and> t < hi then 1 else 0) + accepted_between lo hi ts as"
  by (simp_all add: accepted_between_def)

section \<open>The cleanup is invisible\<close>

text \<open>
  The entry of a key agrees with the one the reference keeps, or the key has none and the reference's
  window has ended.
\<close>

definition agrees :: "duration \<Rightarrow> nat \<Rightarrow> rate_limit_entry option \<Rightarrow> rate_limit_entry option \<Rightarrow> bool" where
  "agrees w now e r \<longleftrightarrow> e = r \<or> (e = None \<and> (case r of None \<Rightarrow> True | Some r \<Rightarrow> w \<le> now - window_started_at r))"

lemma agrees_later: "agrees w t e r \<Longrightarrow> t \<le> t' \<Longrightarrow> agrees w t' e r"
  by (auto simp: agrees_def split: option.splits)

lemma agrees_retain:
  "agrees w t (es k) r \<Longrightarrow> agrees w t (retain_open_windows t w es k) r"
  by (cases "es k") (auto simp: agrees_def retain_open_windows_def not_less split: option.splits)

lemma agrees_step:
  "agrees w t e r \<Longrightarrow> window_step m w e t = window_step m w r t"
  by (auto simp: agrees_def split: option.splits)

lemma check_rate_limit_cases:
  fixes l :: auth_rate_limiter and now :: nat
  defines "es \<equiv> (if request_counter l mod 256 = 0 then retain_open_windows now (window l) (entries l) else entries l)"
  shows "fst (check_rate_limit l b ip now) =
      fst (window_step (max_requests l) (window l) (es \<lparr>rk_bucket = b, rk_ip_address = ip\<rparr>) now)"
    and "entries (snd (check_rate_limit l b ip now)) =
      es (\<lparr>rk_bucket = b, rk_ip_address = ip\<rparr> \<mapsto>
        snd (window_step (max_requests l) (window l) (es \<lparr>rk_bucket = b, rk_ip_address = ip\<rparr>) now))"
    and "max_requests (snd (check_rate_limit l b ip now)) = max_requests l"
    and "window (snd (check_rate_limit l b ip now)) = window l"
  unfolding check_rate_limit_def es_def [symmetric] Let_def
  by (auto split: option.splits)

lemma limiter_is_fixed_window:
  assumes "sorted (map rq_now rs)" "\<forall>r \<in> set rs. start \<le> rq_now r"
    and "agrees (window l) start (entries l \<lparr>rk_bucket = b, rk_ip_address = ip\<rparr>) e"
  shows "own_answers b ip rs (check_requests l rs) =
    fixed_window (max_requests l) (window l) e (own_times b ip rs)"
  using assms
proof (induction rs arbitrary: l start e)
  case Nil
  then show ?case by (simp add: own_answers_def own_times_def)
next
  case (Cons r rs)
  let ?k = "\<lparr>rk_bucket = b, rk_ip_address = ip\<rparr>"
  let ?kr = "\<lparr>rk_bucket = rq_bucket r, rk_ip_address = rq_ip r\<rparr>"
  define es where "es = (if request_counter l mod 256 = 0
    then retain_open_windows (rq_now r) (window l) (entries l) else entries l)"
  note c = check_rate_limit_cases [where l = l and now = "rq_now r", folded es_def]
  obtain ok l' where l': "check_rate_limit l (rq_bucket r) (rq_ip r) (rq_now r) = (ok, l')"
    by fastforce
  have le: "start \<le> rq_now r" and later: "\<forall>x \<in> set rs. rq_now r \<le> rq_now x" "sorted (map rq_now rs)"
    using Cons.prems by auto
  have ag: "agrees (window l) (rq_now r) (es ?k) e"
    unfolding es_def using agrees_retain agrees_later [OF Cons.prems(3) le] by simp
  have l'_simps: "max_requests l' = max_requests l" "window l' = window l"
    "entries l' = es(?kr \<mapsto> snd (window_step (max_requests l) (window l) (es ?kr) (rq_now r)))"
    "ok = fst (window_step (max_requests l) (window l) (es ?kr) (rq_now r))"
    using c [of "rq_bucket r" "rq_ip r"] l' by simp_all
  show ?case
  proof (cases "own b ip r")
    case True
    then have k: "?kr = ?k"
      by (simp add: own_def)
    obtain e' where e': "window_step (max_requests l) (window l) e (rq_now r) = (ok, e')"
      using l'_simps(4) agrees_step [OF ag, of "max_requests l"] k
      by (cases "window_step (max_requests l) (window l) e (rq_now r)") (simp del: window_step.simps)
    have "agrees (window l') (rq_now r) (entries l' ?k) (Some e')"
      using l'_simps(3) agrees_step [OF ag] k e' by (simp add: agrees_def)
    from Cons.IH [OF later(2,1) this] show ?thesis
      using True e' l' l'_simps(1,2) by (simp add: own_answers_def own_times_def del: window_step.simps)
  next
    case False
    then have "entries l' ?k = es ?k"
      using l'_simps(3) by (auto simp: own_def)
    with ag have "agrees (window l') (rq_now r) (entries l' ?k) e"
      by (simp add: l'_simps)
    from Cons.IH [OF later(2,1) this] show ?thesis
      using False l' l'_simps(1,2) by (simp add: own_answers_def own_times_def)
  qed
qed

section \<open>How many requests pass\<close>

lemma fixed_window_length [simp]: "length (fixed_window m w e ts) = length ts"
  by (induction ts arbitrary: e) (simp_all split: prod.splits)

text \<open>No more than the rest of the window passes in an interval that the window began in.\<close>

lemma window_rest:
  assumes "sorted ts" "list_all (\<lambda>t. window_started_at e \<le> t) ts" "lo \<le> window_started_at e"
    "request_count e \<le> m"
  shows "accepted_between lo (lo + w) ts (fixed_window m w (Some e) ts) \<le> m - request_count e"
  using assms
proof (induction ts arbitrary: e)
  case (Cons t ts)
  have s: "sorted ts" "list_all (\<lambda>x. t \<le> x) ts"
    using Cons.prems(1) by (simp_all add: list_all_iff)
  show ?case
  proof (cases "w \<le> t - window_started_at e")
    case True
    then have out: "w = 0 \<or> lo + w \<le> t"
      using Cons.prems(3) by linarith
    have none: "accepted_between lo (lo + w) (t # ts) as = 0" for as
    proof -
      have "\<not> (lo \<le> x \<and> x < lo + w)" if "x \<in> set (t # ts)" for x
        using out that s(2) Cons.prems(2,3) by (auto simp: list_all_iff)
      then show ?thesis
        unfolding accepted_between_def length_0_conv filter_empty_conv by (auto dest!: set_zip_leftD)
    qed
    show ?thesis
      unfolding none by simp
  next
    case False
    show ?thesis
    proof (cases "m \<le> request_count e")
      case True
      then have "m = request_count e"
        using Cons.prems(4) by simp
      then show ?thesis
        using False Cons.IH [of e] Cons.prems s by simp
    next
      case less: False
      let ?e = "e\<lparr>request_count := request_count e + 1\<rparr>"
      have "accepted_between lo (lo + w) ts (fixed_window m w (Some ?e) ts) \<le> m - (request_count e + 1)"
        using Cons.IH [of ?e] Cons.prems s less by simp
      then show ?thesis
        using False less by simp arith
    qed
  qed
qed simp

lemma window_two:
  assumes "sorted ts" "list_all (\<lambda>t. lo \<le> t) ts"
    "case e of None \<Rightarrow> True | Some e \<Rightarrow> request_count e \<le> m \<and> list_all (\<lambda>t. window_started_at e \<le> t) ts"
  shows "accepted_between lo (lo + w) ts (fixed_window m w e ts) \<le>
    m + (case e of None \<Rightarrow> m | Some e \<Rightarrow> m - request_count e)"
  using assms
proof (induction ts arbitrary: e)
  case (Cons t ts)
  have s: "sorted ts" "list_all (\<lambda>x. t \<le> x) ts"
    using Cons.prems(1) by (simp_all add: list_all_iff)
  define new where "new = \<lparr>window_started_at = t, request_count = if m = 0 then 0 else 1\<rparr>"
  have fresh: "accepted_between lo (lo + w) (t # ts) (fixed_window m w e (t # ts)) \<le> m"
    if h: "window_step m w e t = (0 < m, new)"
  proof -
    have "accepted_between lo (lo + w) ts (fixed_window m w (Some new) ts) \<le> m - request_count new"
      by (rule window_rest) (use s Cons.prems(2) in \<open>auto simp: new_def\<close>)
    then show ?thesis
      using h by (auto simp: new_def simp del: window_step.simps)
  qed
  show ?case
  proof (cases e)
    case None
    then show ?thesis
      using fresh by (cases "m = 0") (auto simp: new_def)
  next
    case (Some e')
    show ?thesis
    proof (cases "w \<le> t - window_started_at e'")
      case True
      then have "window_step m w e t = (0 < m, new)"
        using Some by (simp add: new_def)
      from fresh [OF this] show ?thesis
        using Some by simp
    next
      case inside: False
      let ?e = "e'\<lparr>request_count := request_count e' + 1\<rparr>"
      have b: "request_count e' \<le> m" "list_all (\<lambda>t. window_started_at e' \<le> t) ts"
        using Cons.prems(3) Some by simp_all
      show ?thesis
      proof (cases "m \<le> request_count e'")
        case True
        then show ?thesis
          using inside Some b Cons.IH [of "Some e'"] Cons.prems(2) s by simp
      next
        case False
        then have "accepted_between lo (lo + w) ts (fixed_window m w (Some ?e) ts) \<le> m + (m - (request_count e' + 1))"
          using Cons.IH [of "Some ?e"] Cons.prems(2) s b by simp
        then show ?thesis
          using inside Some False by simp arith
      qed
    qed
  qed
qed simp

lemma window_twice:
  "sorted ts \<Longrightarrow> accepted_between lo (lo + w) ts (fixed_window m w e ts) \<le> 2 * m"
  if "case e of None \<Rightarrow> True | Some e \<Rightarrow> request_count e \<le> m \<and> list_all (\<lambda>t. window_started_at e \<le> t) ts"
  using that
proof (induction ts arbitrary: e)
  case (Cons t ts)
  show ?case
  proof (cases "lo \<le> t")
    case True
    have "list_all (\<lambda>t. lo \<le> t) (t # ts)"
      using True Cons.prems(1) by (auto simp: list_all_iff)
    from window_two [OF Cons.prems(1) this Cons.prems(2)] show ?thesis
      by (rule order_trans) (simp split: option.splits)
  next
    case False
    obtain ok e' where e': "window_step m w e t = (ok, e')"
      by fastforce
    have "request_count e' \<le> m \<and> window_started_at e' \<le> t"
      using e' Cons.prems(2) by (auto simp: Let_def split: option.splits if_splits)
    then have "request_count e' \<le> m \<and> list_all (\<lambda>t. window_started_at e' \<le> t) ts"
      using Cons.prems(1) by (auto simp: list_all_iff)
    with Cons.IH [of "Some e'"] Cons.prems(1) show ?thesis
      using e' False by (simp del: window_step.simps)
  qed
qed simp

fun window_state :: "nat \<Rightarrow> duration \<Rightarrow> rate_limit_entry option \<Rightarrow> nat list \<Rightarrow> rate_limit_entry option" where
  "window_state m w e [] = e"
| "window_state m w e (t # ts) = window_state m w (Some (snd (window_step m w e t))) ts"

lemma fixed_window_snoc:
  "fixed_window m w e (ts @ [t]) = fixed_window m w e ts @ [fst (window_step m w (window_state m w e ts) t)]"
  by (induction ts arbitrary: e) (auto simp del: window_step.simps split: prod.splits)

lemma window_state_snoc:
  "window_state m w e (ts @ [t]) = Some (snd (window_step m w (window_state m w e ts) t))"
  by (induction ts arbitrary: e) (simp_all del: window_step.simps)

lemma accepted_between_snoc:
  "length ts = length as \<Longrightarrow> accepted_between lo hi (ts @ [t]) (as @ [a]) =
     accepted_between lo hi ts as + (if a \<and> lo \<le> t \<and> t < hi then 1 else 0)"
  by (simp add: accepted_between_def)

lemma accepted_between_mono: "lo' \<le> lo \<Longrightarrow> accepted_between lo hi ts as \<le> accepted_between lo' hi ts as"
  unfolding accepted_between_def
  by (induction "zip ts as") (auto simp: length_filter_conv_card intro!: card_mono)

text \<open>The count of a window is at most what passed since it began.\<close>

lemma window_count:
  assumes "sorted ts" "list_all (\<lambda>t. t < hi) ts"
  shows "case window_state m w None ts of None \<Rightarrow> ts = []
     | Some e \<Rightarrow> request_count e \<le> accepted_between (window_started_at e) hi ts (fixed_window m w None ts) \<and>
         list_ex (\<lambda>t. t = window_started_at e) ts"
  using assms
proof (induction ts rule: rev_induct)
  case (snoc t ts)
  have ih: "case window_state m w None ts of None \<Rightarrow> ts = []
     | Some e \<Rightarrow> request_count e \<le> accepted_between (window_started_at e) hi ts (fixed_window m w None ts) \<and>
         list_ex (\<lambda>t. t = window_started_at e) ts"
    using snoc by (simp add: sorted_append)
  show ?case
  proof (cases "window_state m w None ts")
    case None
    then show ?thesis
      using ih snoc.prems(2) by (auto simp: window_state_snoc Let_def)
  next
    case (Some e)
    have "window_started_at e \<le> t"
      using ih Some snoc.prems(1) by (auto simp: sorted_append list_ex_iff)
    then show ?thesis
      using ih Some snoc.prems(2)
      by (auto simp: window_state_snoc fixed_window_snoc accepted_between_snoc Let_def)
  qed
qed simp

lemma refusal_is_due:
  assumes "sorted ts" "i < length ts" "\<not> fixed_window m w None ts ! i"
  shows "m \<le> accepted_between (ts ! i + 1 - w) (ts ! i + 1) (take i ts) (take i (fixed_window m w None ts))"
proof -
  define pre where "pre = take i ts"
  have split: "ts = pre @ ts ! i # drop (Suc i) ts" "length pre = i"
    using assms(2) by (simp_all add: pre_def id_take_nth_drop)
  have prefix: "fixed_window m w e (a @ b) = fixed_window m w e a @ fixed_window m w (window_state m w e a) b" for e a b
    by (induction a arbitrary: e) (auto simp del: window_step.simps split: prod.splits)
  let ?e = "window_state m w None pre"
  have fw: "fixed_window m w None ts = fixed_window m w None pre @ fixed_window m w ?e (ts ! i # drop (Suc i) ts)"
    by (subst split(1)) (rule prefix)
  have tk: "take i (fixed_window m w None ts) = fixed_window m w None pre"
    by (subst fw) (simp add: split(2))
  have no: "\<not> fst (window_step m w ?e (ts ! i))"
    using assms(3) by (subst (asm) fw) (auto simp: nth_append split(2) simp del: window_step.simps split: prod.splits)
  have le: "list_all (\<lambda>t. t \<le> ts ! i) pre" and so: "sorted pre"
    using assms(1) by (subst (asm) split(1); auto simp: sorted_append list_all_iff)+
  have "list_all (\<lambda>t. t < ts ! i + 1) pre"
    using le by (auto simp: list_all_iff)
  note inv = window_count [OF so this, of m w]
  show ?thesis
  proof (cases ?e)
    case None
    then show ?thesis
      using no by (simp add: Let_def split: if_splits)
  next
    case (Some e)
    show ?thesis
    proof (cases "w \<le> ts ! i - window_started_at e")
      case True
      then show ?thesis
        using no Some by (simp add: Let_def split: if_splits)
    next
      case False
      then have m: "m \<le> request_count e"
        using no Some by (simp split: if_splits)
      have "window_started_at e \<le> ts ! i"
        using inv Some le by (auto simp: list_all_iff list_ex_iff)
      then have "ts ! i + 1 - w \<le> window_started_at e"
        using False by linarith
      from accepted_between_mono [OF this, of "ts ! i + 1" pre "fixed_window m w None pre"] m inv Some
      show ?thesis
        unfolding tk pre_def [symmetric] by simp
    qed
  qed
qed

text \<open>
  C29: for requests that take the lock in the order of their instants, the limiter answers each bucket
  and address exactly as a counter of its own with fixed windows would, whatever the others request
  and whenever the limiter cleans up. At most twice the limit passes within any interval of the
  window's length, and a request is refused only when the limit has passed in such an interval before
  it.
\<close>

theorem limiter_bounds_each_key:
  assumes "sorted (map rq_now rs)"
  shows "own_answers b ip rs (check_requests (rate_limiter_new m w) rs) = fixed_window m w None (own_times b ip rs) \<and>
    accepted_between lo (lo + w) (own_times b ip rs) (own_answers b ip rs (check_requests (rate_limiter_new m w) rs)) \<le> 2 * m \<and>
    list_all (\<lambda>i. own_answers b ip rs (check_requests (rate_limiter_new m w) rs) ! i \<or>
        m \<le> accepted_between (own_times b ip rs ! i + 1 - w) (own_times b ip rs ! i + 1) (take i (own_times b ip rs))
              (take i (own_answers b ip rs (check_requests (rate_limiter_new m w) rs))))
      [0..<length (own_times b ip rs)]"
proof -
  have "sorted (own_times b ip rs)"
    unfolding own_times_def using assms by (simp add: sorted_wrt_map sorted_wrt_filterI)
  moreover have "own_answers b ip rs (check_requests (rate_limiter_new m w) rs) = fixed_window m w None (own_times b ip rs)"
    using limiter_is_fixed_window [where e = None and start = 0 and l = "rate_limiter_new m w"] assms
    by (simp add: rate_limiter_new_def agrees_def)
  moreover have "fixed_window m w None ts ! i \<or>
      m \<le> accepted_between (ts ! i + 1 - w) (ts ! i + 1) (take i ts) (take i (fixed_window m w None ts))"
    if h: "sorted ts" "i \<in> set [0..<length ts]" for ts i
    using refusal_is_due [of ts i m w] h by (cases "fixed_window m w None ts ! i") simp_all
  ultimately show ?thesis
    using window_twice [where e = None] by (simp only: list_all_iff) simp
qed

theorem limiter_bounds_each_key_witness:
  "check_requests (rate_limiter_new 1 10)
     [\<lparr>rq_bucket = ''token'', rq_ip = ''1'', rq_now = 5\<rparr>, \<lparr>rq_bucket = ''token'', rq_ip = ''1'', rq_now = 9\<rparr>,
      \<lparr>rq_bucket = ''token'', rq_ip = ''2'', rq_now = 9\<rparr>, \<lparr>rq_bucket = ''token'', rq_ip = ''1'', rq_now = 15\<rparr>] =
     [True, False, True, True] \<and>
   own_answers ''token'' ''1''
     [\<lparr>rq_bucket = ''token'', rq_ip = ''1'', rq_now = 5\<rparr>, \<lparr>rq_bucket = ''token'', rq_ip = ''1'', rq_now = 9\<rparr>]
     (check_requests (rate_limiter_new 1 10)
       [\<lparr>rq_bucket = ''token'', rq_ip = ''1'', rq_now = 5\<rparr>, \<lparr>rq_bucket = ''token'', rq_ip = ''1'', rq_now = 9\<rparr>]) =
     fixed_window 1 10 None [5, 9]"
proof
  show "check_requests (rate_limiter_new 1 10)
     [\<lparr>rq_bucket = ''token'', rq_ip = ''1'', rq_now = 5\<rparr>, \<lparr>rq_bucket = ''token'', rq_ip = ''1'', rq_now = 9\<rparr>,
      \<lparr>rq_bucket = ''token'', rq_ip = ''2'', rq_now = 9\<rparr>, \<lparr>rq_bucket = ''token'', rq_ip = ''1'', rq_now = 15\<rparr>] =
     [True, False, True, True]"
    by (simp add: rate_limiter_new_def check_rate_limit_def retain_open_windows_def as_u64_mod Let_def)
next
  show "own_answers ''token'' ''1''
     [\<lparr>rq_bucket = ''token'', rq_ip = ''1'', rq_now = 5\<rparr>, \<lparr>rq_bucket = ''token'', rq_ip = ''1'', rq_now = 9\<rparr>]
     (check_requests (rate_limiter_new 1 10)
       [\<lparr>rq_bucket = ''token'', rq_ip = ''1'', rq_now = 5\<rparr>, \<lparr>rq_bucket = ''token'', rq_ip = ''1'', rq_now = 9\<rparr>]) =
     fixed_window 1 10 None [5, 9]"
    using limiter_bounds_each_key [of "[\<lparr>rq_bucket = ''token'', rq_ip = ''1'', rq_now = 5\<rparr>,
      \<lparr>rq_bucket = ''token'', rq_ip = ''1'', rq_now = 9\<rparr>]" "''token''" "''1''" 1 10]
    by (simp add: own_times_def own_def)
qed

section \<open>The cache of status pages\<close>

record status_page_cache_entry =
  spc_bytes :: string
  spc_cached_at :: nat

definition status_page_cache_get ::
    "(string, status_page_cache_entry, 's) lru_lib \<Rightarrow> duration \<Rightarrow> string \<Rightarrow> nat \<Rightarrow> 's \<Rightarrow> string option \<times> 's" where
  "status_page_cache_get lib ttl slug now s =
     (case lru_get lib slug s of
        (None, s) \<Rightarrow> (None, s)
      | (Some entry, s) \<Rightarrow> (if now - spc_cached_at entry < ttl then Some (spc_bytes entry) else None, s))"

definition status_page_cache_set ::
    "(string, status_page_cache_entry, 's) lru_lib \<Rightarrow> string \<Rightarrow> string \<Rightarrow> nat \<Rightarrow> 's \<Rightarrow> 's" where
  "status_page_cache_set lib slug bytes now s =
     lru_put lib slug \<lparr>spc_bytes = bytes, spc_cached_at = now\<rparr> s"

text \<open>A page that was just stored is served until its time to live has passed, and not after.\<close>

lemma status_page_cache_fresh:
  assumes "lru_map_laws lib"
  shows "fst (status_page_cache_get lib ttl slug now' (status_page_cache_set lib slug bytes now s)) =
    (if now' - now < ttl then Some bytes else None)"
proof -
  obtain e s' where "lru_get lib slug (status_page_cache_set lib slug bytes now s) = (e, s')"
    by fastforce
  moreover have "e = Some \<lparr>spc_bytes = bytes, spc_cached_at = now\<rparr>"
    using calculation lru_law_simps(2,4) [OF assms] unfolding status_page_cache_set_def by (metis fst_conv)
  ultimately show ?thesis
    by (simp add: status_page_cache_get_def)
qed

end
