(* ===== verification/Extractors.thy ===== *)
theory Extractors
  imports Auth_Service Rate_Limit Pagination Ip_Text Domain_Model
begin

text \<open>
  What every request passes through before its handler: the state of the API (\<^verbatim>\<open>src/api/state.rs\<close>), its
  errors (\<^verbatim>\<open>src/api/error.rs\<close>), and the extractors of the client's address and of the token
  (\<^verbatim>\<open>src/api/extractors.rs\<close>). A request reads each clock once. A header is looked up by its
  lower-case name; its value is text if all its bytes are visible ASCII or tabs.
\<close>

section \<open>State and errors\<close>

record ('s, 'p) app_state =
  app_auth :: auth_db
  app_db :: db
  app_tokens :: "'s option"
  app_limiter :: auth_rate_limiter
  app_public_limiter :: auth_rate_limiter
  app_pages :: 'p

record ('s, 'p) app_config =
  cfg_auth_env :: auth_env
  cfg_auth :: auth_config
  cfg_token_lru :: "(token_cache_key, token_cache_entry, 's) lru_lib"
  cfg_token_ttl :: duration
  cfg_page_lru :: "(string, status_page_cache_entry, 'p) lru_lib"
  cfg_page_ttl :: duration
  cfg_trust_proxy_headers :: bool
  cfg_trusted_proxy_ips :: "ip_addr list"
  cfg_cookie_secure :: bool
  cfg_rfc3339 :: "timestamp \<Rightarrow> string"
  cfg_parse_rfc3339 :: "string \<Rightarrow> timestamp option"
  cfg_db_error_text :: "db_error \<Rightarrow> string"

definition cache_of :: "('s, 'p) app_config \<Rightarrow> 's cache_config" where
  "cache_of cfg =
     \<lparr>tcc_lib = cfg_token_lru cfg, tcc_ttl = cfg_token_ttl cfg, tcc_hash_token = ae_hash_token (cfg_auth_env cfg)\<rparr>"

record request_clock =
  ck_now :: timestamp
  ck_utc :: timestamp
  ck_instant :: nat

type_synonym ('s, 'p, 'a) handler = "(('s, 'p) app_state, api_error, 'a) call"

fun anyhow_text :: "('s, 'p) app_config \<Rightarrow> anyhow_error \<Rightarrow> string" where
  "anyhow_text cfg (Message m) = m"
| "anyhow_text cfg (DbError e) = cfg_db_error_text cfg e"

definition internal_server_error :: "anyhow_error \<Rightarrow> api_error" where
  "internal_server_error e = InternalError ''internal server error''"

definition unauthorized_error :: "('s, 'p) app_config \<Rightarrow> anyhow_error \<Rightarrow> api_error" where
  "unauthorized_error cfg e = Unauthorized (anyhow_text cfg e)"

definition bad_request_error :: "('s, 'p) app_config \<Rightarrow> anyhow_error \<Rightarrow> api_error" where
  "bad_request_error cfg e = BadRequest (anyhow_text cfg e)"

fun api_status :: "api_error \<Rightarrow> nat" where
  "api_status (BadRequest _) = 400"
| "api_status (Unauthorized _) = 401"
| "api_status (Forbidden _) = 403"
| "api_status (NotFound _) = 404"
| "api_status (Conflict _) = 409"
| "api_status (TooManyRequests _) = 429"
| "api_status (InternalError _) = 500"

fun api_message :: "api_error \<Rightarrow> string" where
  "api_message (BadRequest m) = m"
| "api_message (Unauthorized m) = m"
| "api_message (Forbidden m) = m"
| "api_message (NotFound m) = m"
| "api_message (Conflict m) = m"
| "api_message (TooManyRequests m) = m"
| "api_message (InternalError m) = m"

text \<open>\<open>IntoResponse\<close>: the status with the message as the \<open>error\<close> field of a JSON object.\<close>

definition error_response :: "api_error \<Rightarrow> nat \<times> json" where
  "error_response e = (api_status e, JObject [(''error'', JString (api_message e))])"

text \<open>A call on one part of the state.\<close>

definition on_auth :: "(auth_db, 'e, 'a) call \<Rightarrow> (('s, 'p) app_state, 'e, 'a) call" where
  "on_auth m a = (case m (app_auth a) of (r, d) \<Rightarrow> (r, a\<lparr>app_auth := d\<rparr>))"

definition on_db :: "(db, 'e, 'a) call \<Rightarrow> (('s, 'p) app_state, 'e, 'a) call" where
  "on_db m a = (case m (app_db a) of (r, d) \<Rightarrow> (r, a\<lparr>app_db := d\<rparr>))"

definition on_tokens :: "('s option \<Rightarrow> 'a \<times> 's option) \<Rightarrow> (('s, 'p) app_state, 'e, 'a) call" where
  "on_tokens f a = (case f (app_tokens a) of (x, s) \<Rightarrow> (Inr x, a\<lparr>app_tokens := s\<rparr>))"

section \<open>Requests\<close>

record request_parts =
  rp_headers :: "(string \<times> string) list"
  rp_peer :: "ip_addr option"

definition header_str :: "request_parts \<Rightarrow> string \<Rightarrow> string option" where
  "header_str parts name =
     option_filter (list_all (\<lambda>c. c = CHR 0x09 \<or> 32 \<le> char_code c \<and> char_code c < 127)) (map_of (rp_headers parts) name)"

definition extract_forwarded_ip_address :: "request_parts \<Rightarrow> api_error + string" where
  "extract_forwarded_ip_address parts =
     and_then (ok_or (BadRequest ''missing x-forwarded-for header'') (header_str parts ''x-forwarded-for'')) (\<lambda>forwarded_for.
     and_then (ok_or (BadRequest ''x-forwarded-for header is empty'')
       (find (\<lambda>v. v \<noteq> []) (map trim (split_char CHR '','' forwarded_for)))) (\<lambda>forwarded_ip.
     map_err (\<lambda>_. BadRequest ''x-forwarded-for header must end with a valid IP address'')
       (ok_or () (map_option show_ip (parse_ip forwarded_ip)))))"

definition extract_request_ip_address :: "('s, 'p) app_config \<Rightarrow> request_parts \<Rightarrow> api_error + string" where
  "extract_request_ip_address cfg parts =
     (case rp_peer parts of
        None \<Rightarrow> Inl (InternalError ''internal server error'')
      | Some peer \<Rightarrow>
          if cfg_trust_proxy_headers cfg \<and> peer \<in> set (cfg_trusted_proxy_ips cfg)
          then extract_forwarded_ip_address parts
          else Inr (show_ip peer))"

record request_context =
  rc_ip_address :: string
  rc_user_agent :: "string option"

definition request_context_of :: "('s, 'p) app_config \<Rightarrow> request_parts \<Rightarrow> api_error + request_context" where
  "request_context_of cfg parts =
     and_then (extract_request_ip_address cfg parts)
       (\<lambda>ip. Inr \<lparr>rc_ip_address = ip, rc_user_agent = header_str parts ''user-agent''\<rparr>)"

definition extract_admin_session_cookie :: "request_parts \<Rightarrow> api_error + string" where
  "extract_admin_session_cookie parts =
     and_then (ok_or (Unauthorized ''admin session cookie required'') (header_str parts ''cookie'')) (\<lambda>cookie_header.
     ok_or (Unauthorized ''admin session cookie required'')
       (option_filter (\<lambda>t. t \<noteq> [])
         (fetch_optional (List.map_filter (strip_prefix ''admin_session='') (map trim (split_char CHR '';'' cookie_header))))))"

definition extract_bearer_token :: "request_parts \<Rightarrow> api_error + string" where
  "extract_bearer_token parts =
     and_then (ok_or (Unauthorized ''missing authorization header'') (header_str parts ''authorization'')) (\<lambda>authorization.
     ok_or (Unauthorized ''invalid authorization scheme'') (strip_prefix ''Bearer '' authorization))"

section \<open>Authentication\<close>

fun map_bearer_auth_error :: "bearer_auth_error \<Rightarrow> api_error" where
  "map_bearer_auth_error (BearerUnauthorized m) = Unauthorized m"
| "map_bearer_auth_error (BearerInternal e) = internal_server_error e"

definition authenticate_cached_bearer_token ::
    "('s, 'p) app_config \<Rightarrow> request_clock \<Rightarrow> string \<Rightarrow> ('s, 'p, bearer_token_context) handler" where
  "authenticate_cached_bearer_token cfg clk token =
     svc_bind (on_tokens (get_bearer_context (cache_of cfg) token (ck_instant clk) (ck_utc clk) (ck_utc clk) (\<lambda>s. s))) (\<lambda>cached.
       case cached of
         Some ctx \<Rightarrow> svc_return ctx
       | None \<Rightarrow>
           svc_bind (svc_map_err map_bearer_auth_error
             (on_auth (authenticate_any_bearer_token (cfg_auth_env cfg) (ck_now clk) (ck_utc clk) token))) (\<lambda>ctx.
           svc_bind (on_tokens (\<lambda>s. ((), insert_bearer_context (cache_of cfg) token ctx (ck_instant clk) (ck_utc clk) s))) (\<lambda>_.
           svc_return ctx)))"

definition authenticate_cached_admin_bearer_token ::
    "('s, 'p) app_config \<Rightarrow> request_clock \<Rightarrow> string \<Rightarrow> ('s, 'p, admin_access_token_context) handler" where
  "authenticate_cached_admin_bearer_token cfg clk token =
     svc_bind (on_tokens (get_admin_context (cache_of cfg) token (ck_instant clk) (ck_utc clk) (ck_utc clk) (\<lambda>s. s))) (\<lambda>cached.
       case cached of
         Some ctx \<Rightarrow> svc_return ctx
       | None \<Rightarrow>
           svc_bind (svc_map_err map_bearer_auth_error
             (on_auth (authenticate_admin_bearer_token (cfg_auth_env cfg) (ck_now clk) (ck_utc clk) token))) (\<lambda>ctx.
           svc_bind (on_tokens (\<lambda>s. ((), insert_bearer_context (cache_of cfg) token (BtcAdminUser ctx) (ck_instant clk) (ck_utc clk) s))) (\<lambda>_.
           svc_return ctx)))"

text \<open>\<open>AuthenticatedRequest\<close>: a bearer token if there is one, else the session cookie.\<close>

definition authenticated_request :: "('s, 'p) app_config \<Rightarrow> request_clock \<Rightarrow> request_parts \<Rightarrow> ('s, 'p, permission_set) handler" where
  "authenticated_request cfg clk parts =
     (case extract_bearer_token parts of
        Inr token \<Rightarrow>
          svc_bind (authenticate_cached_bearer_token cfg clk token) (\<lambda>auth. svc_return (context_permissions auth))
      | Inl _ \<Rightarrow>
          svc_bind (svc_result (extract_admin_session_cookie parts)) (\<lambda>token.
          svc_bind (authenticate_cached_admin_bearer_token cfg clk token) (\<lambda>auth. svc_return (aatc_permissions auth))))"

definition or_else :: "'e + 'a \<Rightarrow> 'e + 'a \<Rightarrow> 'e + 'a" where
  "or_else r s = (case r of Inl _ \<Rightarrow> s | Inr x \<Rightarrow> Inr x)"

definition authenticated_admin_request ::
    "('s, 'p) app_config \<Rightarrow> request_clock \<Rightarrow> request_parts \<Rightarrow> ('s, 'p, admin_access_token_context) handler" where
  "authenticated_admin_request cfg clk parts =
     svc_bind (svc_result (or_else (extract_admin_session_cookie parts) (extract_bearer_token parts)))
       (authenticate_cached_admin_bearer_token cfg clk)"

definition authenticated_api_client_request ::
    "('s, 'p) app_config \<Rightarrow> request_clock \<Rightarrow> request_parts \<Rightarrow> ('s, 'p, access_token_context \<times> string) handler" where
  "authenticated_api_client_request cfg clk parts =
     svc_bind (svc_result (extract_bearer_token parts)) (\<lambda>token.
     svc_bind (authenticate_cached_bearer_token cfg clk token) (\<lambda>auth.
       case auth of
         BtcApiClient ctx \<Rightarrow> svc_return (ctx, token)
       | BtcAdminUser _ \<Rightarrow> svc_fail (Unauthorized ''admin bearer token is not valid for this endpoint'')))"

section \<open>How old an accepted identity can be\<close>

text \<open>
  The API serves requests one after the other while the tables of accounts change in any way (other
  handlers, other processes, the provisioning programs) and handlers invalidate cache entries. The
  history records, for every request, the instant, the time and the tables it read.
\<close>

type_synonym snapshot = "nat \<times> timestamp \<times> auth_db"

definition snapshot_of :: "request_clock \<Rightarrow> ('s, 'p) app_state \<Rightarrow> snapshot" where
  "snapshot_of clk a = (ck_instant clk, ck_utc clk, app_auth a)"

inductive auth_reach :: "('s, 'p) app_config \<Rightarrow> ('s, 'p) app_state \<Rightarrow> snapshot list \<Rightarrow> bool"
  for cfg :: "('s, 'p) app_config" where
  start: "app_tokens a = with_capacity_and_ttl (cache_of cfg) capacity \<Longrightarrow> auth_db_ok (app_auth a) \<Longrightarrow> auth_reach cfg a []"
| request: "auth_reach cfg a h \<Longrightarrow> authenticated_request cfg clk parts a = (r, a') \<Longrightarrow>
     auth_reach cfg a' (snapshot_of clk a # h)"
| admin_request: "auth_reach cfg a h \<Longrightarrow> authenticated_admin_request cfg clk parts a = (r, a') \<Longrightarrow>
     auth_reach cfg a' (snapshot_of clk a # h)"
| client_request: "auth_reach cfg a h \<Longrightarrow> authenticated_api_client_request cfg clk parts a = (r, a') \<Longrightarrow>
     auth_reach cfg a' (snapshot_of clk a # h)"
| tables_change: "auth_reach cfg a h \<Longrightarrow> auth_db_ok d \<Longrightarrow> auth_reach cfg (a\<lparr>app_auth := d\<rparr>) h"
| invalidation: "auth_reach cfg a h \<Longrightarrow> auth_reach cfg (a\<lparr>app_tokens := invalidate_key (cache_of cfg) key (app_tokens a)\<rparr>) h"

text \<open>A context is backed if some recorded request read it from tables that gave it to the token's hash.\<close>

definition hash_answer :: "timestamp \<Rightarrow> string \<Rightarrow> auth_db \<Rightarrow> bearer_token_context \<Rightarrow> bool" where
  "hash_answer utc h d ctx =
     (case ctx of
        BtcAdminUser c \<Rightarrow>
          aatc_token c \<in> set (ad_admin_tokens d) \<and> at_token_hash (aatc_token c) = h \<and> live_token utc (aatc_token c) \<and>
          aatc_user c \<in> set (ad_users d) \<and> au_id (aatc_user c) = at_owner (aatc_token c) \<and> au_is_active (aatc_user c) \<and>
          aatc_permissions c = {k. admin_may d (au_id (aatc_user c)) k}
      | BtcApiClient c \<Rightarrow>
          atc_token c \<in> set (ad_tokens d) \<and> at_token_hash (atc_token c) = h \<and> live_token utc (atc_token c) \<and>
          atc_client c \<in> set (ad_clients d) \<and> ac_id (atc_client c) = at_owner (atc_token c) \<and> ac_is_active (atc_client c) \<and>
          atc_permissions c = {k. client_may d (ac_id (atc_client c)) k})"

definition backed :: "snapshot list \<Rightarrow> nat \<Rightarrow> string \<Rightarrow> bearer_token_context \<Rightarrow> bool" where
  "backed h i hash ctx \<longleftrightarrow> list_ex (\<lambda>(i', utc, d). i' = i \<and> hash_answer utc hash d ctx) h"

definition cache_backed :: "('s, 'p) app_config \<Rightarrow> 's option \<Rightarrow> snapshot list \<Rightarrow> bool" where
  "cache_backed cfg s h \<longleftrightarrow>
     (case s of None \<Rightarrow> True
      | Some es \<Rightarrow> \<forall>key e. lru_peek (cfg_token_lru cfg) key es = Some e \<longrightarrow>
          backed h (tce_inserted_at e) (tck_token_hash key) (tce_context e))"

lemma backed_mono: "backed h i hash ctx \<Longrightarrow> backed (x # h) i hash ctx"
  by (simp add: backed_def)

lemma cache_backed_mono: "cache_backed cfg s h \<Longrightarrow> cache_backed cfg s (x # h)"
  by (auto simp: cache_backed_def backed_mono split: option.splits)

lemma any_bearer_answer:
  assumes "auth_db_ok d" "authenticate_any_bearer_token env now utc raw d = (Inr ctx, d')"
  shows "hash_answer utc (ae_hash_token env raw) d ctx"
proof (cases ctx)
  case (BtcApiClient c)
  then show ?thesis
    using any_bearer_sound [OF assms(1), of env utc raw now] assms(2)
      valid_token_unique(2) [OF assms(1), of "atc_token c" "atc_client c" utc]
    by (simp add: answer_sound_def hash_answer_def Let_def)
next
  case (BtcAdminUser c)
  then show ?thesis
    using any_bearer_sound [OF assms(1), of env utc raw now] assms(2)
      valid_token_unique(1) [OF assms(1), of "aatc_token c" "aatc_user c" utc]
    by (simp add: answer_sound_def hash_answer_def Let_def)
qed

lemma any_bearer_ok: "auth_db_ok d \<Longrightarrow> auth_db_ok (snd (authenticate_any_bearer_token env now utc raw d))"
  using any_bearer_sound same_authority_ok by blast

lemma admin_bearer_ok:
  assumes "auth_db_ok d"
  shows "auth_db_ok (snd (authenticate_admin_bearer_token env now utc raw d))"
proof (cases "ae_hash_token env raw \<in> at_token_hash ` set (ad_admin_tokens d)")
  case True
  then show ?thesis
    using any_bearer_ok [OF assms, of env now utc raw]
    by (simp add: any_bearer_cases split: prod.splits sum.splits)
next
  case False
  then have "get_admin_access_token_auth_context_by_token_hash env (ae_hash_token env raw) d = None"
    using filter_by_key_None [of _ at_token_hash "ad_admin_tokens d"]
    by (simp add: get_admin_access_token_auth_context_by_token_hash_def)
  with assms show ?thesis
    by (simp add: authenticate_admin_bearer_token_def)
qed

lemma admin_bearer_answer:
  assumes "auth_db_ok d" "authenticate_admin_bearer_token env now utc raw d = (Inr c, d')"
  shows "hash_answer utc (ae_hash_token env raw) d (BtcAdminUser c)"
proof (cases "ae_hash_token env raw \<in> at_token_hash ` set (ad_admin_tokens d)")
  case True
  with assms(2) have "authenticate_any_bearer_token env now utc raw d = (Inr (BtcAdminUser c), d')"
    by (simp add: any_bearer_cases)
  then show ?thesis
    by (rule any_bearer_answer [OF assms(1)])
next
  case False
  then show ?thesis
    using assms(2) filter_by_key_None [of _ at_token_hash "ad_admin_tokens d"]
    by (simp add: authenticate_admin_bearer_token_def get_admin_access_token_auth_context_by_token_hash_def)
qed

lemma hash_answer_expiry: "hash_answer utc h d ctx \<Longrightarrow> utc < context_expires_at ctx"
  by (cases ctx) (simp_all add: hash_answer_def live_token_def)

text \<open>What the cache operations of a request do to the cache's entries.\<close>

definition entry_of :: "'s cache_config \<Rightarrow> 's option \<Rightarrow> token_cache_key \<Rightarrow> token_cache_entry option" where
  "entry_of c s key = (case s of None \<Rightarrow> None | Some es \<Rightarrow> lru_peek (tcc_lib c) key es)"

lemma cache_backed_iff:
  "cache_backed cfg s h \<longleftrightarrow>
     (\<forall>key e. entry_of (cache_of cfg) s key = Some e \<longrightarrow> backed h (tce_inserted_at e) (tck_token_hash key) (tce_context e))"
  by (cases s) (simp_all add: cache_backed_def entry_of_def cache_of_def)

lemma entry_after_step:
  assumes "lru_map_laws (tcc_lib c)" "entry_of c (run_cache_step c step s) key = Some e"
  shows "write_of c key (entry_of c s key) step = Some e"
proof -
  have "holds_latest c (entry_of c s) s"
    by (simp add: holds_latest_def entry_of_def split: option.splits)
  from run_cache_step_holds_latest [OF assms(1) this, of step] assms(2) show ?thesis
    by (auto simp: holds_latest_def entry_of_def split: option.splits)
qed

lemma get_is_step:
  "snd (get_bearer_context c raw now utc utc (\<lambda>s. s) s) = s \<or>
   (\<exists>key. snd (get_bearer_context c raw now utc utc (\<lambda>s. s) s) = run_cache_step c (RemoveExpired key now utc) s) \<or>
   (\<exists>key. snd (get_bearer_context c raw now utc utc (\<lambda>s. s) s) = run_cache_step c (Promote key now utc) s)"
  by (auto simp: get_bearer_context_def split: option.splits)

lemma cache_backed_get:
  assumes "lru_map_laws (cfg_token_lru cfg)" "cache_backed cfg s h"
  shows "cache_backed cfg (snd (get_bearer_context (cache_of cfg) raw now utc utc (\<lambda>s. s) s)) h"
proof -
  have l: "lru_map_laws (tcc_lib (cache_of cfg))"
    using assms(1) by (simp add: cache_of_def)
  have "entry_of (cache_of cfg) s key = Some e"
    if "entry_of (cache_of cfg) (snd (get_bearer_context (cache_of cfg) raw now utc utc (\<lambda>s. s) s)) key = Some e" for key e
    using get_is_step [of "cache_of cfg" raw now utc s] that entry_after_step [OF l]
    by (metis (no_types) write_of.simps(4,5))
  with assms(2) show ?thesis
    unfolding cache_backed_iff by blast
qed

lemma get_returns_backed:
  assumes "lru_map_laws (cfg_token_lru cfg)" "cache_backed cfg s h"
    "fst (get_bearer_context (cache_of cfg) raw now utc utc (\<lambda>s. s) s) = Some ctx"
  shows "\<exists>i. now - i < cfg_token_ttl cfg \<and> utc < context_expires_at ctx \<and>
    backed h i (ae_hash_token (cfg_auth_env cfg) raw) ctx"
proof -
  obtain key e where key: "build_cache_key (cache_of cfg) raw = Some key" and e: "entry_of (cache_of cfg) s key = Some e"
    "tce_context e = ctx" "\<not> entry_unusable (cache_of cfg) now utc e"
    using assms(3)
    by (auto simp: get_bearer_context_def take_and_promote_def entry_of_def split: option.splits if_splits)
  have "tck_token_hash key = ae_hash_token (cfg_auth_env cfg) raw"
    using key by (auto simp: build_cache_key_def cache_of_def split: if_splits)
  moreover have "backed h (tce_inserted_at e) (tck_token_hash key) ctx"
    using e(1,2) assms(2) unfolding cache_backed_iff by blast
  ultimately show ?thesis
    using e(2,3) by (intro exI [of _ "tce_inserted_at e"])
      (simp add: entry_unusable_def entry_is_expired_def is_context_token_expired_def cache_of_def not_le)
qed

lemma cache_backed_insert:
  assumes "lru_map_laws (cfg_token_lru cfg)" "cache_backed cfg s h"
    "backed h now (ae_hash_token (cfg_auth_env cfg) raw) ctx"
  shows "cache_backed cfg (insert_bearer_context (cache_of cfg) raw ctx now utc s) h"
proof -
  have l: "lru_map_laws (tcc_lib (cache_of cfg))"
    using assms(1) by (simp add: cache_of_def)
  show ?thesis
    unfolding cache_backed_iff
  proof (intro allI impI)
    fix key e
    assume e: "entry_of (cache_of cfg) (insert_bearer_context (cache_of cfg) raw ctx now utc s) key = Some e"
    have w: "write_of (cache_of cfg) key (entry_of (cache_of cfg) s key) (Insert raw ctx now utc) = Some e"
      by (rule entry_after_step [OF l]) (use e in simp)
    show "backed h (tce_inserted_at e) (tck_token_hash key) (tce_context e)"
      using w assms(2,3) unfolding cache_backed_iff
      by (auto simp: build_cache_key_def cache_of_def split: if_splits)
  qed
qed

lemma cache_backed_invalidate:
  assumes "lru_map_laws (cfg_token_lru cfg)" "cache_backed cfg s h"
  shows "cache_backed cfg (invalidate_key (cache_of cfg) key s) h"
proof -
  have l: "lru_map_laws (tcc_lib (cache_of cfg))"
    using assms(1) by (simp add: cache_of_def)
  have "entry_of (cache_of cfg) s key' = Some e" if "entry_of (cache_of cfg) (invalidate_key (cache_of cfg) key s) key' = Some e" for key' e
    using entry_after_step [OF l, of "InvalidateKey key" s key' e] that by (simp split: if_splits)
  with assms(2) show ?thesis
    unfolding cache_backed_iff by blast
qed

text \<open>
  An identity is recent for a token if it is what the tables answered to the token's hash at a recorded
  request, now or less than the time to live ago, and the token has not expired.
\<close>

definition recent_identity ::
    "('s, 'p) app_config \<Rightarrow> request_clock \<Rightarrow> snapshot list \<Rightarrow> string \<Rightarrow> bearer_token_context \<Rightarrow> bool" where
  "recent_identity cfg clk h token ctx \<longleftrightarrow>
     ck_utc clk < context_expires_at ctx \<and>
     list_ex (\<lambda>(i, utc, d). (i = ck_instant clk \<or> ck_instant clk - i < cfg_token_ttl cfg) \<and>
       hash_answer utc (ae_hash_token (cfg_auth_env cfg) token) d ctx) h"

lemma recent_identityI:
  assumes "i = ck_instant clk \<or> ck_instant clk - i < cfg_token_ttl cfg" "ck_utc clk < context_expires_at ctx"
    "backed h i (ae_hash_token (cfg_auth_env cfg) token) ctx"
  shows "recent_identity cfg clk h token ctx"
  using assms by (auto simp: recent_identity_def backed_def list_ex_iff)

lemma backed_now:
  "hash_answer (ck_utc clk) hash (app_auth a) ctx \<Longrightarrow> backed (snapshot_of clk a # h) (ck_instant clk) hash ctx"
  by (simp add: backed_def snapshot_of_def)

definition auth_inv :: "('s, 'p) app_config \<Rightarrow> ('s, 'p) app_state \<Rightarrow> snapshot list \<Rightarrow> bool" where
  "auth_inv cfg a h \<longleftrightarrow> auth_db_ok (app_auth a) \<and> cache_backed cfg (app_tokens a) h"

lemma cached_bearer_request:
  assumes "lru_map_laws (cfg_token_lru cfg)" "auth_inv cfg a h" "authenticate_cached_bearer_token cfg clk token a = (r, a')"
  shows "auth_inv cfg a' (snapshot_of clk a # h) \<and>
    (case r of Inl _ \<Rightarrow> True | Inr ctx \<Rightarrow> recent_identity cfg clk (snapshot_of clk a # h) token ctx)"
proof -
  let ?h = "snapshot_of clk a # h"
  obtain cached s where g: "get_bearer_context (cache_of cfg) token (ck_instant clk) (ck_utc clk) (ck_utc clk) (\<lambda>s. s) (app_tokens a) = (cached, s)"
    by fastforce
  have inv: "auth_db_ok (app_auth a)" "cache_backed cfg (app_tokens a) ?h"
    using assms(2) by (auto simp: auth_inv_def intro: cache_backed_mono)
  have s: "cache_backed cfg s ?h"
    using cache_backed_get [OF assms(1) inv(2)] g by (metis snd_conv)
  show ?thesis
  proof (cases cached)
    case (Some ctx)
    then have "r = Inr ctx" "a' = a\<lparr>app_tokens := s\<rparr>"
      using assms(3) g by (simp_all add: authenticate_cached_bearer_token_def on_tokens_def svc_bind_def)
    moreover have "recent_identity cfg clk ?h token ctx"
    proof -
      have "fst (get_bearer_context (cache_of cfg) token (ck_instant clk) (ck_utc clk) (ck_utc clk) (\<lambda>s. s) (app_tokens a)) = Some ctx"
        using g Some by simp
      from get_returns_backed [OF assms(1) inv(2) this] show ?thesis
        by (blast intro: recent_identityI)
    qed
    ultimately show ?thesis
      using inv s by (simp add: auth_inv_def)
  next
    case None
    obtain r' d where q: "authenticate_any_bearer_token (cfg_auth_env cfg) (ck_now clk) (ck_utc clk) token (app_auth a) = (r', d)"
      by fastforce
    have d: "auth_db_ok d"
      using any_bearer_ok [OF inv(1)] q by (metis snd_conv)
    show ?thesis
    proof (cases r')
      case (Inl e)
      then show ?thesis
        using assms(3) g None q d s
        by (auto simp: authenticate_cached_bearer_token_def on_tokens_def on_auth_def svc_bind_def svc_map_err_def auth_inv_def)
    next
      case (Inr ctx)
      then have ra: "r = Inr ctx" "app_auth a' = d"
        "app_tokens a' = insert_bearer_context (cache_of cfg) token ctx (ck_instant clk) (ck_utc clk) s"
        using assms(3) g None q
        by (auto simp: authenticate_cached_bearer_token_def on_tokens_def on_auth_def svc_bind_def svc_map_err_def)
      have answer: "hash_answer (ck_utc clk) (ae_hash_token (cfg_auth_env cfg) token) (app_auth a) ctx"
        using any_bearer_answer [OF inv(1)] q Inr by blast
      note b = backed_now [OF answer, of h]
      show ?thesis
        using cache_backed_insert [OF assms(1) s b] recent_identityI [OF _ hash_answer_expiry [OF answer] b] d
        by (simp add: ra auth_inv_def)
    qed
  qed
qed

lemma cached_admin_request:
  assumes "lru_map_laws (cfg_token_lru cfg)" "auth_inv cfg a h" "authenticate_cached_admin_bearer_token cfg clk token a = (r, a')"
  shows "auth_inv cfg a' (snapshot_of clk a # h) \<and>
    (case r of Inl _ \<Rightarrow> True | Inr ctx \<Rightarrow> recent_identity cfg clk (snapshot_of clk a # h) token (BtcAdminUser ctx))"
proof -
  let ?h = "snapshot_of clk a # h"
  obtain cached s where g: "get_bearer_context (cache_of cfg) token (ck_instant clk) (ck_utc clk) (ck_utc clk) (\<lambda>s. s) (app_tokens a) = (cached, s)"
    by fastforce
  have inv: "auth_db_ok (app_auth a)" "cache_backed cfg (app_tokens a) ?h"
    using assms(2) by (auto simp: auth_inv_def intro: cache_backed_mono)
  have s: "cache_backed cfg s ?h"
    using cache_backed_get [OF assms(1) inv(2)] g by (metis snd_conv)
  obtain adm where adm: "get_admin_context (cache_of cfg) token (ck_instant clk) (ck_utc clk) (ck_utc clk) (\<lambda>s. s) (app_tokens a) = (adm, s)"
    "case adm of None \<Rightarrow> True | Some ctx \<Rightarrow> cached = Some (BtcAdminUser ctx)"
  proof (cases "\<exists>c. cached = Some (BtcAdminUser c)")
    case True
    then obtain c where "cached = Some (BtcAdminUser c)" by blast
    with g have "get_admin_context (cache_of cfg) token (ck_instant clk) (ck_utc clk) (ck_utc clk) (\<lambda>s. s) (app_tokens a) = (Some c, s)"
      by (simp add: get_admin_context_def)
    with \<open>cached = Some (BtcAdminUser c)\<close> show ?thesis by (intro that [of "Some c"]) simp_all
  next
    case False
    with g have "get_admin_context (cache_of cfg) token (ck_instant clk) (ck_utc clk) (ck_utc clk) (\<lambda>s. s) (app_tokens a) = (None, s)"
      by (auto simp: get_admin_context_def split: option.splits bearer_token_context.splits)
    then show ?thesis by (intro that [of None]) simp_all
  qed
  show ?thesis
  proof (cases adm)
    case (Some ctx)
    then have "r = Inr ctx" "a' = a\<lparr>app_tokens := s\<rparr>"
      using assms(3) adm(1) by (simp_all add: authenticate_cached_admin_bearer_token_def on_tokens_def svc_bind_def)
    moreover have "recent_identity cfg clk ?h token (BtcAdminUser ctx)"
    proof -
      have "fst (get_bearer_context (cache_of cfg) token (ck_instant clk) (ck_utc clk) (ck_utc clk) (\<lambda>s. s) (app_tokens a)) = Some (BtcAdminUser ctx)"
        using g adm(2) Some by simp
      from get_returns_backed [OF assms(1) inv(2) this] show ?thesis
        by (blast intro: recent_identityI)
    qed
    ultimately show ?thesis
      using inv s by (simp add: auth_inv_def)
  next
    case None
    obtain r' d where q: "authenticate_admin_bearer_token (cfg_auth_env cfg) (ck_now clk) (ck_utc clk) token (app_auth a) = (r', d)"
      by fastforce
    have d: "auth_db_ok d"
      using admin_bearer_ok [OF inv(1)] q by (metis snd_conv)
    show ?thesis
    proof (cases r')
      case (Inl e)
      then show ?thesis
        using assms(3) adm(1) None q d s
        by (auto simp: authenticate_cached_admin_bearer_token_def on_tokens_def on_auth_def svc_bind_def svc_map_err_def auth_inv_def)
    next
      case (Inr ctx)
      then have ra: "r = Inr ctx" "app_auth a' = d"
        "app_tokens a' = insert_bearer_context (cache_of cfg) token (BtcAdminUser ctx) (ck_instant clk) (ck_utc clk) s"
        using assms(3) adm(1) None q
        by (auto simp: authenticate_cached_admin_bearer_token_def on_tokens_def on_auth_def svc_bind_def svc_map_err_def)
      have answer: "hash_answer (ck_utc clk) (ae_hash_token (cfg_auth_env cfg) token) (app_auth a) (BtcAdminUser ctx)"
        using admin_bearer_answer [OF inv(1)] q Inr by blast
      note b = backed_now [OF answer, of h]
      show ?thesis
        using cache_backed_insert [OF assms(1) s b] recent_identityI [OF _ hash_answer_expiry [OF answer] b] d
        by (simp add: ra auth_inv_def)
    qed
  qed
qed

lemma auth_inv_mono: "auth_inv cfg a h \<Longrightarrow> auth_inv cfg a (x # h)"
  by (simp add: auth_inv_def cache_backed_mono)

lemma authenticated_request_inv:
  assumes "lru_map_laws (cfg_token_lru cfg)" "auth_inv cfg a h" "authenticated_request cfg clk parts a = (r, a')"
  shows "auth_inv cfg a' (snapshot_of clk a # h) \<and>
    (case r of Inl _ \<Rightarrow> True
     | Inr perms \<Rightarrow> \<exists>token ctx. (extract_bearer_token parts = Inr token \<or> extract_admin_session_cookie parts = Inr token) \<and>
         perms = context_permissions ctx \<and> recent_identity cfg clk (snapshot_of clk a # h) token ctx)"
proof (cases "extract_bearer_token parts")
  case (Inr token)
  obtain x a1 where x: "authenticate_cached_bearer_token cfg clk token a = (x, a1)" by fastforce
  from cached_bearer_request [OF assms(1,2) x] show ?thesis
    using assms(3) Inr x by (cases x) (auto simp: authenticated_request_def svc_bind_def intro!: exI [of _ token])
next
  case (Inl e)
  show ?thesis
  proof (cases "extract_admin_session_cookie parts")
    case (Inl e')
    then show ?thesis
      using assms(3) \<open>extract_bearer_token parts = Inl e\<close> auth_inv_mono [OF assms(2), of "snapshot_of clk a"]
      by (auto simp: authenticated_request_def svc_bind_def)
  next
    case (Inr token)
    obtain x a1 where x: "authenticate_cached_admin_bearer_token cfg clk token a = (x, a1)" by fastforce
    have "aatc_permissions c = context_permissions (BtcAdminUser c)" for c
      by simp
    with cached_admin_request [OF assms(1,2) x] show ?thesis
      using assms(3) Inr \<open>extract_bearer_token parts = Inl e\<close> x
      by (cases x) (auto simp: authenticated_request_def svc_bind_def simp del: context_permissions.simps intro!: exI [of _ token])
  qed
qed

lemma authenticated_admin_request_inv:
  assumes "lru_map_laws (cfg_token_lru cfg)" "auth_inv cfg a h" "authenticated_admin_request cfg clk parts a = (r, a')"
  shows "auth_inv cfg a' (snapshot_of clk a # h) \<and>
    (case r of Inl _ \<Rightarrow> True
     | Inr ctx \<Rightarrow> \<exists>token. or_else (extract_admin_session_cookie parts) (extract_bearer_token parts) = Inr token \<and>
         recent_identity cfg clk (snapshot_of clk a # h) token (BtcAdminUser ctx))"
proof (cases "or_else (extract_admin_session_cookie parts) (extract_bearer_token parts)")
  case (Inl e)
  then show ?thesis
    using assms(3) auth_inv_mono [OF assms(2), of "snapshot_of clk a"] by (auto simp: authenticated_admin_request_def svc_bind_def)
next
  case (Inr token)
  then have "authenticate_cached_admin_bearer_token cfg clk token a = (r, a')"
    using assms(3) by (simp add: authenticated_admin_request_def svc_bind_def)
  from cached_admin_request [OF assms(1,2) this] show ?thesis
    using Inr by (cases r) auto
qed

lemma authenticated_api_client_request_inv:
  assumes "lru_map_laws (cfg_token_lru cfg)" "auth_inv cfg a h" "authenticated_api_client_request cfg clk parts a = (r, a')"
  shows "auth_inv cfg a' (snapshot_of clk a # h)"
proof (cases "extract_bearer_token parts")
  case (Inl e)
  then show ?thesis
    using assms(3) auth_inv_mono [OF assms(2), of "snapshot_of clk a"] by (auto simp: authenticated_api_client_request_def svc_bind_def)
next
  case (Inr token)
  obtain x a1 where x: "authenticate_cached_bearer_token cfg clk token a = (x, a1)" by fastforce
  have "a' = a1"
    using assms(3) Inr x by (auto simp: authenticated_api_client_request_def svc_bind_def split: sum.splits bearer_token_context.splits)
  with cached_bearer_request [OF assms(1,2) x] show ?thesis by simp
qed

lemma auth_reach_inv:
  assumes "lru_map_laws (cfg_token_lru cfg)" "auth_reach cfg a h"
  shows "auth_inv cfg a h"
  using assms(2)
proof (induction rule: auth_reach.induct)
  case (start a capacity)
  have "lru_map_laws (tcc_lib (cache_of cfg))"
    using assms(1) by (simp add: cache_of_def)
  from lru_law_simps(1) [OF this] start show ?case
    by (simp add: auth_inv_def cache_backed_def with_capacity_and_ttl_def cache_of_def)
next
  case (request a h clk parts r a')
  then show ?case using authenticated_request_inv [OF assms(1)] by blast
next
  case (admin_request a h clk parts r a')
  then show ?case using authenticated_admin_request_inv [OF assms(1)] by blast
next
  case (client_request a h clk parts r a')
  then show ?case using authenticated_api_client_request_inv [OF assms(1)] by blast
next
  case (tables_change a h d)
  then show ?case by (simp add: auth_inv_def)
next
  case (invalidation a h key)
  then show ?case using cache_backed_invalidate [OF assms(1)] by (simp add: auth_inv_def)
qed

text \<open>
  C23: however the tables of accounts change between requests and whatever the handlers invalidate, a
  request that is let through carries a token that has not expired, and its permissions are those that
  the tables gave to the token's active owner at this request or at an earlier one whose answer was
  stored less than the cache's time to live ago. A revocation, a deactivation or a change of roles can
  therefore be missed for at most that time.
\<close>

theorem accepted_identity_is_recent:
  assumes "lru_map_laws (cfg_token_lru cfg)" "auth_reach cfg a h"
  shows "case fst (authenticated_request cfg clk parts a) of
      Inl _ \<Rightarrow> True
    | Inr perms \<Rightarrow> \<exists>token ctx. (extract_bearer_token parts = Inr token \<or> extract_admin_session_cookie parts = Inr token) \<and>
        perms = context_permissions ctx \<and> recent_identity cfg clk (snapshot_of clk a # h) token ctx"
  using authenticated_request_inv [OF assms(1) auth_reach_inv [OF assms], of clk parts]
  by (metis (no_types, lifting) prod.collapse)

definition sample_config :: "((token_cache_key, token_cache_entry) lru_list, (string, status_page_cache_entry) lru_list) app_config" where
  "sample_config =
     \<lparr>cfg_auth_env = sample_auth_env, cfg_auth = \<lparr>access_token_ttl_seconds = 60\<rparr>, cfg_token_lru = lru_list_lib,
      cfg_token_ttl = 30, cfg_page_lru = lru_list_lib, cfg_page_ttl = 30, cfg_trust_proxy_headers = False,
      cfg_trusted_proxy_ips = [], cfg_cookie_secure = False, cfg_rfc3339 = show_int, cfg_parse_rfc3339 = (\<lambda>_. None),
      cfg_db_error_text = (\<lambda>_. ''error'')\<rparr>"

definition sample_app :: "((token_cache_key, token_cache_entry) lru_list, (string, status_page_cache_entry) lru_list) app_state" where
  "sample_app =
     \<lparr>app_auth = sample_auth_db\<lparr>ad_tokens := [\<lparr>at_id = 1, at_owner = 1, at_token_hash = replicate 64 CHR ''a'',
        at_token_prefix = ''t'', at_expires_at = 60, at_revoked_at = None, at_revoked_reason = None,
        at_last_used_at = None, at_created_at = 0\<rparr>], ad_next_token := 2\<rparr>,
      app_db = empty_db, app_tokens = with_capacity_and_ttl (cache_of sample_config) 2,
      app_limiter = rate_limiter_new 1 1, app_public_limiter = rate_limiter_new 1 1, app_pages = (2, [])\<rparr>"

theorem accepted_identity_is_recent_witness:
  "\<exists>ctx. fst (authenticated_request sample_config \<lparr>ck_now = 0, ck_utc = 0, ck_instant = 0\<rparr>
        \<lparr>rp_headers = [(''authorization'', ''Bearer t'')], rp_peer = None\<rparr> sample_app) = Inr (context_permissions ctx) \<and>
     recent_identity sample_config \<lparr>ck_now = 0, ck_utc = 0, ck_instant = 0\<rparr>
       [snapshot_of \<lparr>ck_now = 0, ck_utc = 0, ck_instant = 0\<rparr> sample_app] ''t'' ctx"
proof -
  let ?clk = "\<lparr>ck_now = 0, ck_utc = 0, ck_instant = 0\<rparr>"
  let ?parts = "\<lparr>rp_headers = [(''authorization'', ''Bearer t'')], rp_peer = None\<rparr>"
  have ok: "auth_db_ok (app_auth sample_app)"
    by (simp add: sample_app_def sample_auth_db_def empty_auth_db_def auth_db_ok_def)
  have reach: "auth_reach sample_config sample_app []"
    by (rule auth_reach.start [OF _ ok]) (simp add: sample_app_def)
  have laws: "lru_map_laws (cfg_token_lru sample_config)"
    by (simp add: sample_config_def lru_list_map_laws)
  have token: "extract_bearer_token ?parts = Inr ''t''"
    by (simp add: extract_bearer_token_def header_str_def char_code_def)
  have no_cookie: "extract_admin_session_cookie ?parts = Inl (Unauthorized ''admin session cookie required'')"
    by (simp add: extract_admin_session_cookie_def header_str_def)
  have missed: "get_bearer_context (cache_of sample_config) ''t'' 0 0 0 (\<lambda>s. s) (app_tokens sample_app) = (None, app_tokens sample_app)"
    by (simp add: get_bearer_context_def build_cache_key_def sample_app_def with_capacity_and_ttl_def cache_of_def
      sample_config_def lru_list_lib_def)
  obtain t c where tc: "t \<in> set (ad_tokens (app_auth sample_app))" "c \<in> set (ad_clients (app_auth sample_app))"
    "ac_id c = at_owner t" "ae_hash_token sample_auth_env ''t'' = at_token_hash t" "live_token 0 t" "ac_is_active c"
    by (simp add: sample_app_def sample_auth_db_def empty_auth_db_def sample_auth_env_def live_token_def)
  have "ae_hash_token sample_auth_env ''t'' \<notin> at_token_hash ` set (ad_admin_tokens (app_auth sample_app))"
    by (simp add: sample_app_def sample_auth_db_def empty_auth_db_def)
  from any_bearer_of_client [OF ok tc(1-4) this, of 0 0] tc(5,6)
  obtain x where x: "fst (authenticate_any_bearer_token sample_auth_env 0 0 ''t'' (app_auth sample_app)) = Inr (BtcApiClient x)"
    by auto
  then obtain d where "authenticate_any_bearer_token sample_auth_env 0 0 ''t'' (app_auth sample_app) = (Inr (BtcApiClient x), d)"
    by (metis prod.collapse)
  then have "fst (authenticated_request sample_config ?clk ?parts sample_app) = Inr (atc_permissions x)"
    using missed token
    by (simp add: authenticated_request_def authenticate_cached_bearer_token_def on_tokens_def on_auth_def svc_bind_def
      svc_map_err_def sample_config_def)
  with accepted_identity_is_recent [OF laws reach, where clk = ?clk and parts = ?parts] token no_cookie show ?thesis
    by auto
qed

end
