(* ===== verification/Auth_Routes.thy ===== *)
theory Auth_Routes
  imports Extractors
begin

text \<open>
  The endpoints under \<^verbatim>\<open>/v1/auth\<close> and \<^verbatim>\<open>/v1/admin/auth\<close> (\<^verbatim>\<open>src/api/routes/auth.rs\<close>). A handler gets what
  its extractors produced; the token it issues is an argument. \<open>HeaderValue::from_str\<close> accepts a text
  without control characters, tabs aside.
\<close>

section \<open>Answers\<close>

record issue_token_response =
  itr_access_token :: string
  itr_expires_at :: string
  itr_expires_in :: int
  itr_scope :: "string list"

record admin_user_response =
  aur_user_id :: id
  aur_email :: string
  aur_display_name :: string
  aur_is_active :: bool
  aur_last_login_at :: "string option"
  aur_user_created_at :: string
  aur_updated_at :: string

definition admin_user_response_of :: "('s, 'p) app_config \<Rightarrow> admin_user \<Rightarrow> admin_user_response" where
  "admin_user_response_of cfg u =
     \<lparr>aur_user_id = au_id u, aur_email = au_email u, aur_display_name = au_display_name u,
      aur_is_active = au_is_active u, aur_last_login_at = map_option (cfg_rfc3339 cfg) (au_last_login_at u),
      aur_user_created_at = cfg_rfc3339 cfg (au_created_at u), aur_updated_at = cfg_rfc3339 cfg (au_updated_at u)\<rparr>"

record issue_admin_token_response =
  iatr_access_token :: string
  iatr_expires_at :: string
  iatr_expires_in :: int
  iatr_roles :: "string list"
  iatr_permissions :: "string list"
  iatr_user :: admin_user_response

record admin_session_response =
  asr_roles :: "string list"
  asr_permissions :: "string list"
  asr_user :: admin_user_response

definition expires_in :: "timestamp \<Rightarrow> timestamp \<Rightarrow> int" where
  "expires_in expires_at utc = max 0 (num_seconds (expires_at - utc))"

definition issue_admin_token_response_of ::
    "('s, 'p) app_config \<Rightarrow> timestamp \<Rightarrow> issued_admin_access_token \<Rightarrow> issue_admin_token_response" where
  "issue_admin_token_response_of cfg utc t =
     \<lparr>iatr_access_token = iaat_token t, iatr_expires_at = cfg_rfc3339 cfg (iaat_expires_at t),
      iatr_expires_in = expires_in (iaat_expires_at t) utc, iatr_roles = iaat_roles t,
      iatr_permissions = to_strings (iaat_permissions t), iatr_user = admin_user_response_of cfg (iaat_user t)\<rparr>"

definition build_session_cookie :: "string \<Rightarrow> int \<Rightarrow> bool \<Rightarrow> string" where
  "build_session_cookie token max_age_seconds secure =
     ''admin_session='' @ token @ ''; HttpOnly; SameSite=Strict; Path=/; Max-Age='' @ show_int max_age_seconds @
     (if secure then ''; Secure'' else [])"

definition clear_session_cookie :: "bool \<Rightarrow> string" where
  "clear_session_cookie secure =
     ''admin_session=; HttpOnly; SameSite=Strict; Path=/; Max-Age=0'' @ (if secure then ''; Secure'' else [])"

definition header_value :: "string \<Rightarrow> string option" where
  "header_value s = (if list_all (\<lambda>c. c = CHR 0x09 \<or> 32 \<le> char_code c \<and> char_code c \<noteq> 127) s then Some s else None)"

section \<open>Handlers\<close>

definition enforce_auth_rate_limit :: "string \<Rightarrow> string \<Rightarrow> nat \<Rightarrow> ('s, 'p, unit) handler" where
  "enforce_auth_rate_limit bucket ip_address now a =
     (case check_rate_limit (app_limiter a) bucket ip_address now of
        (True, l) \<Rightarrow> (Inr (), a\<lparr>app_limiter := l\<rparr>)
      | (False, l) \<Rightarrow>
          (Inl (TooManyRequests ''too many authentication attempts from this IP address''), a\<lparr>app_limiter := l\<rparr>))"

definition issue_token ::
    "('s, 'p) app_config \<Rightarrow> request_clock \<Rightarrow> string \<Rightarrow> request_context \<Rightarrow> string \<Rightarrow> string
      \<Rightarrow> ('s, 'p, issue_token_response) handler" where
  "issue_token cfg clk raw_token ctx client_id client_secret =
     svc_bind (enforce_auth_rate_limit ''api_token'' (rc_ip_address ctx) (ck_instant clk)) (\<lambda>_.
       if trim client_id = [] \<or> client_secret = []
       then svc_fail (BadRequest ''client_id and client_secret are required'')
       else svc_bind (svc_map_err (unauthorized_error cfg) (on_auth
              (issue_access_token (cfg_auth_env cfg) (cfg_auth cfg) (ck_now clk) (ck_utc clk) raw_token
                 client_id client_secret (Some (rc_ip_address ctx)) (rc_user_agent ctx)))) (\<lambda>t.
            svc_return \<lparr>itr_access_token = iat_token t, itr_expires_at = cfg_rfc3339 cfg (iat_expires_at t),
              itr_expires_in = expires_in (iat_expires_at t) (ck_utc clk), itr_scope = iat_scopes t\<rparr>))"

definition revoke_token ::
    "('s, 'p) app_config \<Rightarrow> request_clock \<Rightarrow> access_token_context \<times> string \<Rightarrow> request_context \<Rightarrow> string \<Rightarrow> string option
      \<Rightarrow> ('s, 'p, bool) handler" where
  "revoke_token cfg clk auth ctx token reason =
     (if trim token = [] then svc_fail (BadRequest ''token is required'')
      else if token \<noteq> snd auth then svc_fail (Forbidden ''can only revoke the current access token'')
      else svc_bind (svc_map_err (bad_request_error cfg) (on_auth
             (revoke_access_token_by_id (cfg_auth_env cfg) (ck_now clk) (at_id (atc_token (fst auth)))
                (ac_id (atc_client (fst auth))) reason (Some (rc_ip_address ctx)) (rc_user_agent ctx)))) (\<lambda>_.
           svc_bind (on_tokens (\<lambda>s. ((), invalidate_raw_token (cache_of cfg) (snd auth) s))) (\<lambda>_.
           svc_return True)))"

text \<open>The answer with the cookie of the response.\<close>

definition issue_admin_token ::
    "('s, 'p) app_config \<Rightarrow> request_clock \<Rightarrow> string \<Rightarrow> request_context \<Rightarrow> string \<Rightarrow> string
      \<Rightarrow> ('s, 'p, string \<times> issue_admin_token_response) handler" where
  "issue_admin_token cfg clk raw_token ctx email password =
     svc_bind (enforce_auth_rate_limit ''admin_login'' (rc_ip_address ctx) (ck_instant clk)) (\<lambda>_.
       if trim email = [] \<or> password = []
       then svc_fail (BadRequest ''email and password are required'')
       else svc_bind (svc_map_err (unauthorized_error cfg) (on_auth
              (issue_admin_access_token (cfg_auth_env cfg) (cfg_auth cfg) (ck_now clk) (ck_utc clk) raw_token
                 (trim email) password (Some (rc_ip_address ctx)) (rc_user_agent ctx)))) (\<lambda>t.
            svc_bind (svc_result (ok_or (InternalError ''failed to build session cookie'')
              (header_value (build_session_cookie (iaat_token t) (expires_in (iaat_expires_at t) (ck_utc clk))
                 (cfg_cookie_secure cfg))))) (\<lambda>cookie.
            svc_return (cookie, issue_admin_token_response_of cfg (ck_utc clk) t))))"

definition logout_admin ::
    "('s, 'p) app_config \<Rightarrow> request_clock \<Rightarrow> admin_access_token_context \<Rightarrow> ('s, 'p, string \<times> bool) handler" where
  "logout_admin cfg clk auth =
     svc_bind (svc_map_err internal_server_error (on_auth
       (revoke_admin_access_token_svc (ck_now clk) (at_id (aatc_token auth)) (Some ''admin_logout'')))) (\<lambda>_.
     svc_bind (on_tokens (\<lambda>s. ((), invalidate_hashed_token (cache_of cfg) (at_token_prefix (aatc_token auth))
       (at_token_hash (aatc_token auth)) s))) (\<lambda>_.
     svc_bind (svc_result (ok_or (InternalError ''failed to build session cookie'')
       (header_value (clear_session_cookie (cfg_cookie_secure cfg))))) (\<lambda>cookie.
     svc_return (cookie, True))))"

definition get_admin_me :: "('s, 'p) app_config \<Rightarrow> admin_access_token_context \<Rightarrow> ('s, 'p, admin_session_response) handler" where
  "get_admin_me cfg auth =
     svc_return \<lparr>asr_roles = aatc_roles auth, asr_permissions = to_strings (aatc_permissions auth),
       asr_user = admin_user_response_of cfg (aatc_user auth)\<rparr>"

section \<open>Ending a session\<close>

text \<open>
  A handler ended the session of the raw token: a logout of the administrator's token with that hash,
  or a revocation by the client itself. The stored prefix is the one the token was issued with, and the
  hash belongs to that token alone.
\<close>

definition logged_out :: "('s, 'p) app_config \<Rightarrow> ('s, 'p) app_state \<Rightarrow> string \<Rightarrow> ('s, 'p) app_state \<Rightarrow> bool" where
  "logged_out cfg a raw a' \<longleftrightarrow>
     (\<exists>clk auth. logout_admin cfg clk auth a = (Inr (clear_session_cookie (cfg_cookie_secure cfg), True), a') \<and>
        at_token_prefix (aatc_token auth) = take token_prefix_len raw \<and>
        at_token_hash (aatc_token auth) = ae_hash_token (cfg_auth_env cfg) raw \<and>
        list_all (\<lambda>t. at_token_hash t = ae_hash_token (cfg_auth_env cfg) raw \<longrightarrow> at_id t = at_id (aatc_token auth))
          (ad_admin_tokens (app_auth a)) \<and>
        ae_hash_token (cfg_auth_env cfg) raw \<notin> at_token_hash ` set (ad_tokens (app_auth a)))"

definition self_revoked :: "('s, 'p) app_config \<Rightarrow> ('s, 'p) app_state \<Rightarrow> string \<Rightarrow> ('s, 'p) app_state \<Rightarrow> bool" where
  "self_revoked cfg a raw a' \<longleftrightarrow>
     (\<exists>clk auth ctx reason. revoke_token cfg clk (auth, raw) ctx raw reason a = (Inr True, a') \<and>
        list_all (\<lambda>t. at_token_hash t = ae_hash_token (cfg_auth_env cfg) raw \<longrightarrow> at_id t = at_id (atc_token auth))
          (ad_tokens (app_auth a)) \<and>
        ae_hash_token (cfg_auth_env cfg) raw \<notin> at_token_hash ` set (ad_admin_tokens (app_auth a)))"

definition is_unauthorized :: "api_error + 'a \<Rightarrow> bool" where
  "is_unauthorized r = (case r of Inl (Unauthorized _) \<Rightarrow> True | _ \<Rightarrow> False)"

text \<open>No unrevoked token with the hash is left, and no cache entry.\<close>

definition token_ended :: "('s, 'p) app_config \<Rightarrow> string \<Rightarrow> ('s, 'p) app_state \<Rightarrow> bool" where
  "token_ended cfg raw a \<longleftrightarrow>
     list_all (\<lambda>t. at_token_hash t = ae_hash_token (cfg_auth_env cfg) raw \<longrightarrow> at_revoked_at t \<noteq> None)
       (ad_admin_tokens (app_auth a) @ ad_tokens (app_auth a)) \<and>
     (case build_cache_key (cache_of cfg) raw of None \<Rightarrow> True | Some key \<Rightarrow> entry_of (cache_of cfg) (app_tokens a) key = None)"

lemma invalidated_entry:
  assumes "lru_map_laws (cfg_token_lru cfg)"
  shows "entry_of (cache_of cfg) (invalidate_key (cache_of cfg) key s) key = None"
  using lru_law_simps(5) [OF assms] by (cases s) (simp_all add: entry_of_def invalidate_key_def cache_of_def)

lemma revoked_rows:
  assumes "list_all (\<lambda>t. at_token_hash t = h \<longrightarrow> at_id t = i) ts"
  shows "list_all (\<lambda>t. at_token_hash t = h \<longrightarrow> at_revoked_at t \<noteq> None)
    (update_rows (\<lambda>t. at_id t = i) (revoke_token_row now reason) ts)"
  using assms by (auto simp: list_all_iff set_update_rows revoke_token_row_def)

lemma absent_rows: "h \<notin> at_token_hash ` set ts \<Longrightarrow> list_all (\<lambda>t. at_token_hash t = h \<longrightarrow> P t) ts"
  by (auto simp: list_all_iff)

lemma logged_out_ends:
  assumes "lru_map_laws (cfg_token_lru cfg)" "logged_out cfg a raw a'"
  shows "token_ended cfg raw a'"
proof -
  obtain clk auth where l: "logout_admin cfg clk auth a = (Inr (clear_session_cookie (cfg_cookie_secure cfg), True), a')"
    "at_token_prefix (aatc_token auth) = take token_prefix_len raw"
    "at_token_hash (aatc_token auth) = ae_hash_token (cfg_auth_env cfg) raw"
    "list_all (\<lambda>t. at_token_hash t = ae_hash_token (cfg_auth_env cfg) raw \<longrightarrow> at_id t = at_id (aatc_token auth))
       (ad_admin_tokens (app_auth a))"
    "ae_hash_token (cfg_auth_env cfg) raw \<notin> at_token_hash ` set (ad_tokens (app_auth a))"
    using assms(2) unfolding logged_out_def by blast
  let ?key = "\<lparr>tck_token_prefix = take token_prefix_len raw, tck_token_hash = ae_hash_token (cfg_auth_env cfg) raw\<rparr>"
  have a': "ad_admin_tokens (app_auth a') = update_rows (\<lambda>t. at_id t = at_id (aatc_token auth))
      (revoke_token_row (ck_now clk) (Some ''admin_logout'')) (ad_admin_tokens (app_auth a))"
    "ad_tokens (app_auth a') = ad_tokens (app_auth a)"
    "app_tokens a' = invalidate_key (cache_of cfg) ?key (app_tokens a)"
    using l(1-3) by (auto simp: logout_admin_def svc_bind_Inr svc_map_err_def on_auth_def on_tokens_def
      revoke_admin_access_token_svc_def svc_stmt_def revoke_admin_access_token_def invalidate_hashed_token_def)
  have "build_cache_key (cache_of cfg) raw \<in> {None, Some ?key}"
    by (simp add: build_cache_key_def cache_of_def)
  then show ?thesis
    using revoked_rows [OF l(4)] absent_rows [OF l(5)] invalidated_entry [OF assms(1)]
    by (auto simp: token_ended_def a')
qed

lemma self_revoked_ends:
  assumes "lru_map_laws (cfg_token_lru cfg)" "self_revoked cfg a raw a'"
  shows "token_ended cfg raw a'"
proof -
  obtain clk auth ctx reason where l: "revoke_token cfg clk (auth, raw) ctx raw reason a = (Inr True, a')"
    "list_all (\<lambda>t. at_token_hash t = ae_hash_token (cfg_auth_env cfg) raw \<longrightarrow> at_id t = at_id (atc_token auth))
       (ad_tokens (app_auth a))"
    "ae_hash_token (cfg_auth_env cfg) raw \<notin> at_token_hash ` set (ad_admin_tokens (app_auth a))"
    using assms(2) unfolding self_revoked_def by blast
  have key: "build_cache_key (cache_of cfg) raw = Some \<lparr>tck_token_prefix = take token_prefix_len raw,
      tck_token_hash = ae_hash_token (cfg_auth_env cfg) raw\<rparr>"
    using l(1) by (auto simp: revoke_token_def build_cache_key_def cache_of_def trim_def trim_start_def trim_end_def split: if_splits)
  have a': "ad_tokens (app_auth a') = update_rows (\<lambda>t. at_id t = at_id (atc_token auth))
      (revoke_token_row (ck_now clk) reason) (ad_tokens (app_auth a))"
    "ad_admin_tokens (app_auth a') = ad_admin_tokens (app_auth a)"
    "app_tokens a' = invalidate_raw_token (cache_of cfg) raw (app_tokens a)"
    using l(1) by (auto simp: revoke_token_def svc_bind_Inr svc_map_err_def on_auth_def on_tokens_def
      revoke_access_token_by_id_def svc_stmt_Inr_iff revoke_access_token_def write_audit_log_def map_err_def
      split: if_splits prod.splits sum.splits dest!: create_api_client_audit_log_Inr)
  show ?thesis
    using revoked_rows [OF l(2)] absent_rows [OF l(3)] invalidated_entry [OF assms(1)]
    by (simp add: token_ended_def a' key invalidate_raw_token_def)
qed

lemma context_row_mem:
  "get_admin_access_token_auth_context_by_token_hash env h d = Some (t, u, x) \<Longrightarrow> t \<in> set (ad_admin_tokens d) \<and> at_token_hash t = h"
  "get_access_token_auth_context_by_token_hash env h d = Some (t, c, y) \<Longrightarrow> t \<in> set (ad_tokens d) \<and> at_token_hash t = h"
  unfolding get_admin_access_token_auth_context_by_token_hash_def get_access_token_auth_context_by_token_hash_def
  by (auto dest!: fetch_optional_Some_mem)

lemma ended_token_refused_by_tables:
  assumes "token_ended cfg raw a"
  shows "\<exists>m. fst (authenticate_admin_bearer_token (cfg_auth_env cfg) now utc raw (app_auth a)) = Inl (BearerUnauthorized m)"
    and "\<exists>m. fst (authenticate_bearer_token (cfg_auth_env cfg) now utc raw None None (app_auth a)) = Inl (BearerUnauthorized m)"
proof -
  let ?h = "ae_hash_token (cfg_auth_env cfg) raw"
  have e: "t \<in> set (ad_admin_tokens (app_auth a)) \<union> set (ad_tokens (app_auth a)) \<Longrightarrow> at_token_hash t = ?h \<Longrightarrow> at_revoked_at t \<noteq> None" for t
    using assms by (auto simp: token_ended_def list_all_iff)
  show "\<exists>m. fst (authenticate_admin_bearer_token (cfg_auth_env cfg) now utc raw (app_auth a)) = Inl (BearerUnauthorized m)"
    using e context_row_mem(1) [of "cfg_auth_env cfg" ?h "app_auth a"]
    by (cases "get_admin_access_token_auth_context_by_token_hash (cfg_auth_env cfg) ?h (app_auth a)")
      (fastforce simp: authenticate_admin_bearer_token_def)+
  show "\<exists>m. fst (authenticate_bearer_token (cfg_auth_env cfg) now utc raw None None (app_auth a)) = Inl (BearerUnauthorized m)"
    using e context_row_mem(2) [of "cfg_auth_env cfg" ?h "app_auth a"]
      refuse_bearer_refuses [where client = None and d = "app_auth a" and env = "cfg_auth_env cfg" and now = now and ua = None]
    by (cases "get_access_token_auth_context_by_token_hash (cfg_auth_env cfg) ?h (app_auth a)")
      (fastforce simp: authenticate_bearer_token_def)+
qed

lemma ended_token_refused:
  assumes "token_ended cfg raw a"
  shows "is_unauthorized (fst (authenticate_cached_bearer_token cfg clk raw a))"
    and "is_unauthorized (fst (authenticate_cached_admin_bearer_token cfg clk raw a))"
proof -
  have missed: "get_bearer_context (cache_of cfg) raw (ck_instant clk) (ck_utc clk) (ck_utc clk) (\<lambda>s. s) (app_tokens a) = (None, app_tokens a)"
    using assms by (auto simp: token_ended_def get_bearer_context_def entry_of_def split: option.splits)
  then have missed': "get_admin_context (cache_of cfg) raw (ck_instant clk) (ck_utc clk) (ck_utc clk) (\<lambda>s. s) (app_tokens a) = (None, app_tokens a)"
    by (simp add: get_admin_context_def)
  obtain m d where adm: "authenticate_admin_bearer_token (cfg_auth_env cfg) (ck_now clk) (ck_utc clk) raw (app_auth a) = (Inl (BearerUnauthorized m), d)"
    using ended_token_refused_by_tables(1) [OF assms] by (metis prod.collapse)
  obtain m' d' where api: "authenticate_bearer_token (cfg_auth_env cfg) (ck_now clk) (ck_utc clk) raw None None (app_auth a) = (Inl (BearerUnauthorized m'), d')"
    using ended_token_refused_by_tables(2) [OF assms] by (metis prod.collapse)
  show "is_unauthorized (fst (authenticate_cached_admin_bearer_token cfg clk raw a))"
    using missed' adm
    by (simp add: authenticate_cached_admin_bearer_token_def on_tokens_def on_auth_def svc_bind_def svc_map_err_def is_unauthorized_def)
  have "fst (authenticate_any_bearer_token (cfg_auth_env cfg) (ck_now clk) (ck_utc clk) raw (app_auth a)) = Inl (BearerUnauthorized ''invalid bearer token'')"
    using adm api by (simp add: any_bearer_cases hide_reason_def)
  then show "is_unauthorized (fst (authenticate_cached_bearer_token cfg clk raw a))"
    using missed by (auto simp: authenticate_cached_bearer_token_def on_tokens_def on_auth_def svc_bind_def svc_map_err_def
      is_unauthorized_def split: prod.splits)
qed

text \<open>
  C28: once a logout has answered, or a client's revocation of its own token, the token is refused by
  every extractor, although it was in the cache: the handler revokes the stored token and removes the
  very entry a lookup of the raw token would find.
\<close>

theorem ended_session_is_refused:
  assumes "lru_map_laws (cfg_token_lru cfg)" "logged_out cfg a raw a' \<or> self_revoked cfg a raw a'"
  shows "is_unauthorized (fst (authenticate_cached_bearer_token cfg clk raw a')) \<and>
    is_unauthorized (fst (authenticate_cached_admin_bearer_token cfg clk raw a'))"
  using assms(2) ended_token_refused logged_out_ends [OF assms(1)] self_revoked_ends [OF assms(1)] by blast

definition sample_admin_context :: admin_access_token_context where
  "sample_admin_context =
     \<lparr>aatc_token = \<lparr>at_id = 1, at_owner = 1, at_token_hash = replicate 64 CHR ''a'', at_token_prefix = ''t'',
        at_expires_at = 60, at_revoked_at = None, at_revoked_reason = None, at_last_used_at = None, at_created_at = 0\<rparr>,
      aatc_user = \<lparr>au_id = 1, au_uuid = ''u'', au_email = ''e'', au_display_name = ''d'', au_password_hash = ''h'',
        au_is_active = True, au_last_login_at = None, au_created_at = 0, au_updated_at = 0\<rparr>,
      aatc_roles = [], aatc_permissions = {}\<rparr>"

definition sample_admin_app :: "((token_cache_key, token_cache_entry) lru_list, (string, status_page_cache_entry) lru_list) app_state" where
  "sample_admin_app = sample_app\<lparr>app_auth := empty_auth_db\<lparr>ad_admin_tokens := [aatc_token sample_admin_context],
     ad_users := [aatc_user sample_admin_context]\<rparr>\<rparr>"

theorem ended_session_is_refused_witness:
  "is_unauthorized (fst (authenticate_cached_bearer_token sample_config \<lparr>ck_now = 0, ck_utc = 0, ck_instant = 0\<rparr> ''t''
     (snd (logout_admin sample_config \<lparr>ck_now = 0, ck_utc = 0, ck_instant = 0\<rparr> sample_admin_context sample_admin_app))))"
proof -
  let ?clk = "\<lparr>ck_now = 0, ck_utc = 0, ck_instant = 0\<rparr>"
  let ?a = "snd (logout_admin sample_config ?clk sample_admin_context sample_admin_app)"
  have "header_value (clear_session_cookie (cfg_cookie_secure sample_config)) = Some (clear_session_cookie (cfg_cookie_secure sample_config))"
    by (simp add: header_value_def clear_session_cookie_def sample_config_def char_code_def)
  then have out: "logout_admin sample_config ?clk sample_admin_context sample_admin_app =
      (Inr (clear_session_cookie (cfg_cookie_secure sample_config), True), ?a)"
    by (simp add: logout_admin_def svc_bind_def svc_map_err_def on_auth_def on_tokens_def
      revoke_admin_access_token_svc_def svc_stmt_def revoke_admin_access_token_def)
  have "logged_out sample_config sample_admin_app ''t'' ?a"
    unfolding logged_out_def
    by (rule exI [of _ ?clk], rule exI [of _ sample_admin_context], intro conjI, rule out)
      (simp_all add: sample_admin_context_def sample_admin_app_def sample_app_def sample_config_def sample_auth_env_def
        empty_auth_db_def token_prefix_len_def)
  moreover have "lru_map_laws (cfg_token_lru sample_config)"
    by (simp add: sample_config_def lru_list_map_laws)
  ultimately show ?thesis
    using ended_session_is_refused by blast
qed

end
