(* ===== verification/Handlers.thy ===== *)
theory Handlers
  imports Auth_Routes
begin

text \<open>
  The steps handlers are made of: a permission that is demanded, a statement or a query on one of the two
  groups of tables, a transaction. With them goes a small calculus: which handlers can answer Forbidden,
  which leave the state alone, and what a handler does that starts by demanding a permission.
\<close>

section \<open>Steps\<close>

definition demand :: "permission_set \<Rightarrow> permission_key \<Rightarrow> ('s, 'p, unit) handler" where
  "demand permissions required = svc_result (map_err Forbidden (require_permission permissions required))"

definition auth_call :: "(auth_db, 'a) stmt \<Rightarrow> ('s, 'p, 'a) handler" where
  "auth_call m = svc_map_err internal_server_error (on_auth (svc_stmt m))"

definition auth_query :: "(auth_db \<Rightarrow> 'a) \<Rightarrow> ('s, 'p, 'a) handler" where
  "auth_query f = on_auth (svc_read f)"

definition db_call :: "(db, 'a) stmt \<Rightarrow> ('s, 'p, 'a) handler" where
  "db_call m = svc_map_err internal_server_error (on_db (svc_stmt m))"

definition db_query :: "(db \<Rightarrow> 'a) \<Rightarrow> ('s, 'p, 'a) handler" where
  "db_query f = on_db (svc_read f)"

text \<open>A statement whose violated unique constraints are answered with a message of their own.\<close>

definition db_call_unique :: "string \<Rightarrow> (db, 'a) stmt \<Rightarrow> ('s, 'p, 'a) handler" where
  "db_call_unique message m =
     svc_map_err (\<lambda>e. case e of DbError (UniqueViolation _) \<Rightarrow> Conflict message | _ \<Rightarrow> internal_server_error e)
       (on_db (svc_stmt m))"

text \<open>A transaction that is dropped without a commit leaves nothing behind.\<close>

definition in_transaction :: "('s, 'e, 'a) call \<Rightarrow> ('s, 'e, 'a) call" where
  "in_transaction m s = (case m s of (Inl e, _) \<Rightarrow> (Inl e, s) | (Inr x, s') \<Rightarrow> (Inr x, s'))"

definition not_blank :: "string option \<Rightarrow> string option" where
  "not_blank s = option_filter (\<lambda>v. v \<noteq> []) (map_option trim s)"

section \<open>What steps can do\<close>

definition is_forbidden :: "api_error + 'a \<Rightarrow> bool" where
  "is_forbidden r = (case r of Inl (Forbidden _) \<Rightarrow> True | _ \<Rightarrow> False)"

definition never_forbids :: "('s, 'p, 'a) handler \<Rightarrow> bool" where
  "never_forbids m \<longleftrightarrow> (\<forall>a r a'. m a = (r, a') \<longrightarrow> \<not> is_forbidden r)"

definition reads_only :: "('s, 'p, 'a) handler \<Rightarrow> bool" where
  "reads_only m \<longleftrightarrow> (\<forall>a. snd (m a) = a)"

named_theorems call_rules

lemma is_forbidden_simps [simp]:
  "\<not> is_forbidden (Inr x)"
  "is_forbidden (Inl (Forbidden m))"
  "\<not> is_forbidden (Inl (BadRequest m))"
  "\<not> is_forbidden (Inl (NotFound m))"
  "\<not> is_forbidden (Inl (InternalError m))"
  "\<not> is_forbidden (ok_or (NotFound m) o')"
  "\<not> is_forbidden (map_err internal_server_error r)"
  "\<not> is_forbidden (map_err (bad_request_error cfg) r')"
  by (auto simp: is_forbidden_def ok_or_def map_err_def internal_server_error_def bad_request_error_def
      split: option.splits sum.splits)

lemma never_forbids_bind [call_rules]:
  "\<lbrakk>never_forbids m; \<And>x. never_forbids (k x)\<rbrakk> \<Longrightarrow> never_forbids (svc_bind m k)"
  unfolding never_forbids_def svc_bind_def is_forbidden_def
  by (auto split: prod.splits sum.splits api_error.splits)

lemma never_forbids_rules [call_rules]:
  "never_forbids (auth_call m1)" "never_forbids (auth_query f1)" "never_forbids (db_call m2)" "never_forbids (db_query f2)"
  "never_forbids (svc_return x)"
  "\<not> is_forbidden r \<Longrightarrow> never_forbids (svc_result r)"
  "e \<notin> range Forbidden \<Longrightarrow> never_forbids (svc_fail e)"
  "never_forbids (on_tokens g)"
  by (auto simp: never_forbids_def auth_call_def auth_query_def db_call_def db_query_def svc_map_err_def
      on_auth_def on_db_def on_tokens_def svc_stmt_def svc_fail_def is_forbidden_def internal_server_error_def
      split: prod.splits sum.splits api_error.splits)

lemma never_forbids_cases [call_rules]:
  "\<lbrakk>b \<Longrightarrow> never_forbids m; \<not> b \<Longrightarrow> never_forbids n\<rbrakk> \<Longrightarrow> never_forbids (if b then m else n)"
  "\<lbrakk>v = None \<Longrightarrow> never_forbids m; \<And>x. v = Some x \<Longrightarrow> never_forbids (k x)\<rbrakk>
    \<Longrightarrow> never_forbids (case v of None \<Rightarrow> m | Some x \<Rightarrow> k x)"
  "(\<And>x y. p = (x, y) \<Longrightarrow> never_forbids (h x y)) \<Longrightarrow> never_forbids (case p of (x, y) \<Rightarrow> h x y)"
  by (auto split: option.split prod.split)

lemma never_forbids_transaction [call_rules]: "never_forbids n \<Longrightarrow> never_forbids (in_transaction n)"
  unfolding never_forbids_def in_transaction_def is_forbidden_def
  by (auto split: prod.splits sum.splits api_error.splits)

lemma reads_only_rules [call_rules]:
  "reads_only (auth_query f1)" "reads_only (db_query f2)" "reads_only (svc_return x)" "reads_only (svc_result r)"
  "reads_only (svc_fail e)"
  by (simp_all add: reads_only_def auth_query_def db_query_def on_auth_def on_db_def)

lemma reads_only_cases [call_rules]:
  "(\<And>x y. p = (x, y) \<Longrightarrow> reads_only (h x y)) \<Longrightarrow> reads_only (case p of (x, y) \<Rightarrow> h x y)"
  by (auto split: prod.split)

lemma reads_only_bind [call_rules]:
  "\<lbrakk>reads_only m; \<And>x. reads_only (k x)\<rbrakk> \<Longrightarrow> reads_only (svc_bind m k)"
  unfolding reads_only_def svc_bind_def by (auto split: prod.splits sum.splits) (metis snd_conv)+

text \<open>Every handler asks for its permission first, and a call without it ends there.\<close>

lemma demand_bind:
  "svc_bind (demand perms p) k a =
     (if p \<in> perms then k () a
      else (Inl (Forbidden (''missing required permission: '' @ permission_as_str p)), a))"
  by (simp add: svc_bind_def demand_def require_permission_def map_err_def)

definition guarded :: "permission_set \<Rightarrow> permission_key \<Rightarrow> ('s, 'p, 'a) handler \<Rightarrow> bool" where
  "guarded perms p m \<longleftrightarrow> (\<exists>k. m = svc_bind (demand perms p) k \<and> never_forbids (k ()))"

lemma guardedI [call_rules]: "never_forbids (k ()) \<Longrightarrow> guarded perms p (svc_bind (demand perms p) k)"
  by (auto simp: guarded_def)

lemma svc_bind_assoc: "svc_bind (svc_bind m k) h = svc_bind m (\<lambda>x. svc_bind (k x) h)"
  by (auto simp: svc_bind_def fun_eq_iff split: prod.splits sum.splits)

lemma guarded_call:
  assumes "guarded perms p m"
  shows "if p \<in> perms then \<not> is_forbidden (fst (m a))
    else m a = (Inl (Forbidden (''missing required permission: '' @ permission_as_str p)), a)"
proof -
  obtain k where k: "m = svc_bind (demand perms p) k" "never_forbids (k ())"
    using assms by (auto simp: guarded_def)
  have "\<not> is_forbidden (fst (k () a))"
    using k(2) by (cases "k () a") (auto simp: never_forbids_def)
  then show ?thesis by (simp add: k(1) demand_bind)
qed

text \<open>Some handlers demand several permissions, one after the other.\<close>

definition guards :: "permission_set \<Rightarrow> permission_key list \<Rightarrow> ('s, 'p, 'a) handler \<Rightarrow> bool" where
  "guards perms ps m \<longleftrightarrow>
     (\<forall>a. case find (\<lambda>p. p \<notin> perms) ps of
        None \<Rightarrow> \<not> is_forbidden (fst (m a))
      | Some p \<Rightarrow> m a = (Inl (Forbidden (''missing required permission: '' @ permission_as_str p)), a))"

lemma guards_Nil: "never_forbids m \<Longrightarrow> guards perms [] m"
  by (simp add: guards_def never_forbids_def) (metis prod.collapse)

lemma guards_Cons: "guards perms ps (k ()) \<Longrightarrow> guards perms (p # ps) (svc_bind (demand perms p) k)"
  by (cases "find (\<lambda>p. p \<notin> perms) ps") (auto simp: guards_def demand_bind)

lemma guards_answer:
  assumes "guards perms ps m"
  shows "guards perms ps (svc_bind m (\<lambda>x. svc_return (f x)))"
proof (cases "find (\<lambda>p. p \<notin> perms) ps")
  case None
  show ?thesis unfolding guards_def
  proof (rule allI)
    fix a
    have "\<not> is_forbidden (fst (m a))"
      using assms None by (simp add: guards_def)
    then show "case find (\<lambda>p. p \<notin> perms) ps of
        None \<Rightarrow> \<not> is_forbidden (fst (svc_bind m (\<lambda>x. svc_return (f x)) a))
      | Some p \<Rightarrow> svc_bind m (\<lambda>x. svc_return (f x)) a =
          (Inl (Forbidden (''missing required permission: '' @ permission_as_str p)), a)"
      using None by (auto simp: svc_bind_def is_forbidden_def split: prod.splits sum.splits api_error.splits)
  qed
next
  case (Some p)
  then show ?thesis
    using assms by (simp add: guards_def svc_bind_def)
qed

lemma is_forbidden_and_then:
  "\<not> is_forbidden r \<Longrightarrow> (\<And>x. \<not> is_forbidden (f x)) \<Longrightarrow> \<not> is_forbidden (and_then r f)"
  by (cases r) (auto simp: is_forbidden_def)

lemma auth_call_Inr: "auth_call m a = (Inr x, a') \<longleftrightarrow> (\<exists>d'. m (app_auth a) = Inr (x, d') \<and> a' = a\<lparr>app_auth := d'\<rparr>)"
  by (auto simp: auth_call_def on_auth_def svc_map_err_def svc_stmt_def map_err_def split: sum.splits prod.splits)

lemma auth_query_run [simp]: "auth_query f a = (Inr (f (app_auth a)), a)"
  by (simp add: auth_query_def on_auth_def)

lemma demand_Inr: "demand perms p a = (Inr x, a') \<longleftrightarrow> p \<in> perms \<and> a' = a"
  by (auto simp: demand_def require_permission_def map_err_def)

lemma ok_or_Inr: "ok_or e v = Inr x \<longleftrightarrow> v = Some x"
  by (auto simp: ok_or_def split: option.splits)


lemma db_call_Inr: "db_call m a = (Inr x, a') \<longleftrightarrow> (\<exists>d'. m (app_db a) = Inr (x, d') \<and> a' = a\<lparr>app_db := d'\<rparr>)"
  by (auto simp: db_call_def on_db_def svc_map_err_def svc_stmt_def map_err_def split: sum.splits prod.splits)

lemma db_query_run [simp]: "db_query f a = (Inr (f (app_db a)), a)"
  by (simp add: db_query_def on_db_def)

end
