(* ===== verification/Site_Views.thy ===== *)
theory Site_Views
  imports Extractors Incident_Repository Channel_Repository
begin

text \<open>
  Queries over sites that only the API asks (\<^verbatim>\<open>src/domain/sites/repository.rs\<close>: search and dashboard)
  and the incidents as the API shows them (\<^verbatim>\<open>src/api/routes/sites/incidents.rs\<close>,
  \<^verbatim>\<open>src/api/routes/admin.rs\<close>). A page is its rows with the cursor of the next one, which the response
  carries in a header.
\<close>

section \<open>Searching sites\<close>

text \<open>SQL's \<open>LIKE\<close>: \<open>%\<close> matches any text, \<open>_\<close> any character, a backslash quotes the next character.\<close>

fun like_match :: "string \<Rightarrow> string \<Rightarrow> bool" where
  "like_match [] t = (t = [])"
| "like_match (p # ps) [] = (p = CHR ''%'' \<and> like_match ps [])"
| "like_match (p # ps) (c # t) =
     (if p = CHR ''%'' then like_match ps (c # t) \<or> like_match (p # ps) t
      else if p = CHR ''_'' then like_match ps t
      else if p = CHR 0x5C then (case ps of [] \<Rightarrow> False | q # qs \<Rightarrow> q = c \<and> like_match qs t)
      else p = c \<and> like_match ps t)"

definition ilike :: "auth_env \<Rightarrow> string \<Rightarrow> string \<Rightarrow> bool" where
  "ilike env text pat = like_match (ae_lower env pat) (ae_lower env text)"

definition site_matches :: "auth_env \<Rightarrow> string \<Rightarrow> site \<Rightarrow> bool" where
  "site_matches env q s =
     (let pat = ''%'' @ q @ ''%''
      in ilike env (s_name s) pat \<or> ilike env (s_base_url s) pat \<or> ilike env (show_int (s_id s)) pat)"

definition list_sites_matching :: "auth_env \<Rightarrow> string option \<Rightarrow> int \<Rightarrow> id option \<Rightarrow> db \<Rightarrow> site list" where
  "list_sites_matching env q limit cursor_id d =
     limit_rows limit (order_by s_id (filter
       (\<lambda>s. (case q of None \<Rightarrow> True | Some q \<Rightarrow> site_matches env q s) \<and>
            (case cursor_id of None \<Rightarrow> True | Some i \<Rightarrow> i < s_id s)) (db_sites d)))"

section \<open>The dashboard\<close>

record dashboard_site_row =
  dsr_id :: id
  dsr_name :: string
  dsr_base_url :: string
  dsr_is_active :: bool
  dsr_monitors_total :: int
  dsr_monitors_active_count :: int
  dsr_any_failing :: "bool option"
  dsr_any_succeeding :: "bool option"
  dsr_last_checked_at :: "timestamp option"
  dsr_last_response_time_ms :: "int option"
  dsr_has_open_incident :: bool

text \<open>\<open>MAX\<close> over nullable values: nulls are left out, no value at all is null.\<close>

definition max_column :: "int option list \<Rightarrow> int option" where
  "max_column xs = (case List.map_filter (\<lambda>x. x) xs of [] \<Rightarrow> None | y # ys \<Rightarrow> Some (fold max ys y))"

definition dashboard_row :: "db \<Rightarrow> site \<Rightarrow> dashboard_site_row" where
  "dashboard_row d s =
     (let ms = filter (\<lambda>m. sm_site_id m = s_id s) (db_monitors d); active = filter sm_is_active ms
      in \<lparr>dsr_id = s_id s, dsr_name = s_name s, dsr_base_url = s_base_url s, dsr_is_active = s_is_active s,
          dsr_monitors_total = int (length ms), dsr_monitors_active_count = int (length active),
          dsr_any_failing = bool_or (map (\<lambda>m. map_option Not (sm_last_is_success m)) active),
          dsr_any_succeeding = bool_or (map sm_last_is_success active),
          dsr_last_checked_at = max_column (map sm_last_checked_at ms),
          dsr_last_response_time_ms =
            max_column (map sm_last_response_time_ms (filter (\<lambda>m. sm_monitor_type m = Http) active)),
          dsr_has_open_incident = list_ex (\<lambda>i. inc_site_id i = s_id s \<and> is_open i) (db_incidents d)\<rparr>)"

definition get_dashboard_sites :: "db \<Rightarrow> dashboard_site_row list" where
  "get_dashboard_sites d = map (dashboard_row d) (order_by s_id (db_sites d))"

record site_dashboard_counts =
  sdc_total :: int
  sdc_active :: int
  sdc_with_any_monitor :: int
  sdc_without_any_monitor :: int

text \<open>The left join repeats a site for each of its active monitors.\<close>

definition get_dashboard_counts :: "db \<Rightarrow> site_dashboard_counts" where
  "get_dashboard_counts d =
     (let joined = concat (map (\<lambda>s. case filter (\<lambda>m. sm_site_id m = s_id s \<and> sm_is_active m) (db_monitors d) of
                                    [] \<Rightarrow> [(s, None)] | ms \<Rightarrow> map (\<lambda>m. (s, Some (sm_site_id m))) ms) (db_sites d));
          total = int (length joined);
          with_any = int (length (remdups (List.map_filter snd joined)))
      in \<lparr>sdc_total = total, sdc_active = int (length (filter (\<lambda>p. s_is_active (fst p)) joined)),
          sdc_with_any_monitor = with_any, sdc_without_any_monitor = total - with_any\<rparr>)"

section \<open>Incidents in responses\<close>

type_synonym 'a page = "'a list \<times> string option"

definition json_with_next_cursor :: "'a list \<Rightarrow> string option \<Rightarrow> 'a page" where
  "json_with_next_cursor payload next_cursor = (payload, next_cursor)"

record site_incident_response =
  sir_id :: id
  sir_monitor_id :: id
  sir_monitor_type :: string
  sir_target_url :: string
  sir_expected_status_code :: int
  sir_status :: string
  sir_opened_at :: string
  sir_resolved_at :: "string option"
  sir_started_check_id :: "id option"
  sir_resolved_check_id :: "id option"
  sir_opened_status_code :: "int option"
  sir_opened_failure_reason :: "string option"
  sir_opened_error_message :: "string option"
  sir_failure_count :: int
  sir_last_status_code :: "int option"
  sir_last_failure_reason :: "string option"
  sir_last_error_message :: "string option"
  sir_resolved_reason :: "string option"
  sir_resolved_status_code :: "int option"
  sir_resolved_response_time_ms :: "int option"
  sir_downtime_seconds :: "int option"
  sir_acknowledged_at :: "string option"
  sir_acknowledged_by :: "id option"

definition site_incident_response_of :: "('s, 'p) app_config \<Rightarrow> site_monitor_incident \<Rightarrow> site_incident_response" where
  "site_incident_response_of cfg = (\<lambda>i.
     \<lparr>sir_id = inc_id i,
      sir_monitor_id = inc_site_monitor_id i,
      sir_monitor_type = monitor_type_as_str (inc_monitor_type i),
      sir_target_url = inc_target_url i,
      sir_expected_status_code = inc_expected_status_code i,
      sir_status = (case inc_status i of StatusOpen \<Rightarrow> ''open'' | StatusResolved \<Rightarrow> ''resolved''),
      sir_opened_at = cfg_rfc3339 cfg (inc_opened_at i),
      sir_resolved_at = map_option (cfg_rfc3339 cfg) (inc_resolved_at i),
      sir_started_check_id = inc_opened_check_id i,
      sir_resolved_check_id = inc_resolved_check_id i,
      sir_opened_status_code = inc_opened_status_code i,
      sir_opened_failure_reason = inc_opened_failure_reason i,
      sir_opened_error_message = inc_opened_error_message i,
      sir_failure_count = inc_failure_count i,
      sir_last_status_code = inc_last_status_code i,
      sir_last_failure_reason = inc_last_failure_reason i,
      sir_last_error_message = inc_last_error_message i,
      sir_resolved_reason = map_option resolved_reason_as_str (inc_resolved_reason i),
      sir_resolved_status_code = inc_resolved_status_code i,
      sir_resolved_response_time_ms = inc_resolved_response_time_ms i,
      sir_downtime_seconds = inc_downtime_seconds i,
      sir_acknowledged_at = map_option (cfg_rfc3339 cfg) (inc_acknowledged_at i),
      sir_acknowledged_by = inc_acknowledged_by i\<rparr>)"

record global_incident_response =
  gir_id :: id
  gir_site_id :: id
  gir_site_name :: string
  gir_site_base_url :: string
  gir_monitor_id :: id
  gir_monitor_type :: string
  gir_target_url :: string
  gir_expected_status_code :: int
  gir_status :: string
  gir_opened_at :: string
  gir_resolved_at :: "string option"
  gir_started_check_id :: "id option"
  gir_resolved_check_id :: "id option"
  gir_opened_status_code :: "int option"
  gir_opened_failure_reason :: "string option"
  gir_opened_error_message :: "string option"
  gir_failure_count :: int
  gir_last_status_code :: "int option"
  gir_last_failure_reason :: "string option"
  gir_last_error_message :: "string option"
  gir_resolved_reason :: "string option"
  gir_resolved_status_code :: "int option"
  gir_resolved_response_time_ms :: "int option"
  gir_downtime_seconds :: "int option"
  gir_acknowledged_at :: "string option"
  gir_acknowledged_by :: "id option"

definition global_incident_response_of :: "('s, 'p) app_config \<Rightarrow> site_monitor_incident \<times> site \<Rightarrow> global_incident_response" where
  "global_incident_response_of cfg = (\<lambda>(i, s).
     \<lparr>gir_id = inc_id i,
      gir_site_id = inc_site_id i,
      gir_site_name = s_name s,
      gir_site_base_url = s_base_url s,
      gir_monitor_id = inc_site_monitor_id i,
      gir_monitor_type = monitor_type_as_str (inc_monitor_type i),
      gir_target_url = inc_target_url i,
      gir_expected_status_code = inc_expected_status_code i,
      gir_status = (case inc_status i of StatusOpen \<Rightarrow> ''open'' | StatusResolved \<Rightarrow> ''resolved''),
      gir_opened_at = cfg_rfc3339 cfg (inc_opened_at i),
      gir_resolved_at = map_option (cfg_rfc3339 cfg) (inc_resolved_at i),
      gir_started_check_id = inc_opened_check_id i,
      gir_resolved_check_id = inc_resolved_check_id i,
      gir_opened_status_code = inc_opened_status_code i,
      gir_opened_failure_reason = inc_opened_failure_reason i,
      gir_opened_error_message = inc_opened_error_message i,
      gir_failure_count = inc_failure_count i,
      gir_last_status_code = inc_last_status_code i,
      gir_last_failure_reason = inc_last_failure_reason i,
      gir_last_error_message = inc_last_error_message i,
      gir_resolved_reason = map_option resolved_reason_as_str (inc_resolved_reason i),
      gir_resolved_status_code = inc_resolved_status_code i,
      gir_resolved_response_time_ms = inc_resolved_response_time_ms i,
      gir_downtime_seconds = inc_downtime_seconds i,
      gir_acknowledged_at = map_option (cfg_rfc3339 cfg) (inc_acknowledged_at i),
      gir_acknowledged_by = inc_acknowledged_by i\<rparr>)"

end
