(* ===== verification/Admin_Routes.thy ===== *)
theory Admin_Routes
  imports Handlers Role_Repository Site_Views
begin

text \<open>
  The administration endpoints (\<^verbatim>\<open>src/api/routes/admin.rs\<close>): administrators, roles, permissions, API
  clients, the dashboard and the incidents. A handler gets the administrator its extractor accepted, and
  the random texts it draws (tokens, salts, the \<open>uuid\<close> of a row) as arguments.
\<close>

abbreviation require :: "admin_access_token_context \<Rightarrow> permission_key \<Rightarrow> ('s, 'p, unit) handler" where
  "require auth \<equiv> demand (aatc_permissions auth)"

section \<open>Answers and requests\<close>

record managed_admin_user_response =
  mau_id :: id
  mau_email :: string
  mau_display_name :: string
  mau_is_active :: bool
  mau_last_login_at :: "string option"
  mau_created_at :: string
  mau_updated_at :: string
  mau_roles :: "string list"
  mau_permissions :: "string list"

record managed_role_response =
  mr_id :: id
  mr_key :: string
  mr_name :: string
  mr_description :: "string option"
  mr_is_system :: bool
  mr_created_at :: string
  mr_updated_at :: string
  mr_permissions :: "string list"

record managed_permission_response =
  mp_id :: id
  mp_key :: string
  mp_name :: string
  mp_description :: "string option"
  mp_created_at :: string
  mp_roles :: "string list"

record create_admin_user_request =
  caur_email :: string
  caur_display_name :: string
  caur_password :: string
  caur_is_active :: "bool option"
  caur_role_keys :: "string list"

record update_admin_user_request =
  uaur_email :: string
  uaur_display_name :: string
  uaur_password :: "string option"
  uaur_is_active :: bool
  uaur_role_keys :: "string list"

record create_role_request =
  crr_key :: string
  crr_name :: string
  crr_description :: "string option"
  crr_permission_keys :: "string list"

record update_role_request =
  urr_name :: string
  urr_description :: "string option"
  urr_permission_keys :: "string list"

definition managed_user_of ::
    "('s, 'p) app_config \<Rightarrow> admin_user \<Rightarrow> string list \<Rightarrow> string list \<Rightarrow> managed_admin_user_response" where
  "managed_user_of cfg u role_keys permission_keys =
     \<lparr>mau_id = au_id u, mau_email = au_email u, mau_display_name = au_display_name u,
      mau_is_active = au_is_active u, mau_last_login_at = map_option (cfg_rfc3339 cfg) (au_last_login_at u),
      mau_created_at = cfg_rfc3339 cfg (au_created_at u), mau_updated_at = cfg_rfc3339 cfg (au_updated_at u),
      mau_roles = role_keys, mau_permissions = permission_keys\<rparr>"

definition managed_role_of :: "('s, 'p) app_config \<Rightarrow> role \<Rightarrow> string list \<Rightarrow> managed_role_response" where
  "managed_role_of cfg r permission_keys =
     \<lparr>mr_id = r_id r, mr_key = r_key r, mr_name = r_name r, mr_description = r_description r,
      mr_is_system = r_is_system r, mr_created_at = cfg_rfc3339 cfg (r_created_at r),
      mr_updated_at = cfg_rfc3339 cfg (r_updated_at r), mr_permissions = permission_keys\<rparr>"

definition build_managed_admin_user_response ::
    "('s, 'p) app_config \<Rightarrow> admin_user \<Rightarrow> ('s, 'p, managed_admin_user_response) handler" where
  "build_managed_admin_user_response cfg u =
     svc_bind (auth_query (list_role_keys_for_admin_user (cfg_auth_env cfg) (au_id u))) (\<lambda>role_keys.
     svc_bind (auth_query (list_permission_keys_for_admin_user (cfg_auth_env cfg) (au_id u))) (\<lambda>permission_keys.
     svc_return (managed_user_of cfg u role_keys permission_keys)))"

definition build_managed_role_response :: "('s, 'p) app_config \<Rightarrow> role \<Rightarrow> ('s, 'p, managed_role_response) handler" where
  "build_managed_role_response cfg r =
     svc_bind (auth_query (list_permission_keys_for_role (cfg_auth_env cfg) (r_id r))) (\<lambda>permission_keys.
     svc_return (managed_role_of cfg r permission_keys))"

section \<open>Validation\<close>

definition validate_admin_user_payload :: "string \<Rightarrow> string \<Rightarrow> string option \<Rightarrow> api_error + unit" where
  "validate_admin_user_payload email display_name password =
     (if trim email = [] then Inl (BadRequest ''email is required'')
      else if trim display_name = [] then Inl (BadRequest ''display_name is required'')
      else if (case password of Some p \<Rightarrow> trim p = [] | None \<Rightarrow> False)
      then Inl (BadRequest ''password can not be empty'')
      else Inr ())"

definition validate_role_payload :: "string \<Rightarrow> string \<Rightarrow> api_error + unit" where
  "validate_role_payload key name =
     (if trim key = [] then Inl (BadRequest ''key is required'')
      else if trim name = [] then Inl (BadRequest ''name is required'')
      else Inr ())"

definition resolve_role_ids :: "('s, 'p) app_config \<Rightarrow> string list \<Rightarrow> ('s, 'p, id list) handler" where
  "resolve_role_ids cfg role_keys =
     (if role_keys = [] then svc_return []
      else svc_bind (auth_query (list_roles_by_keys (cfg_auth_env cfg) role_keys)) (\<lambda>rows.
        if length rows \<noteq> length role_keys then svc_fail (BadRequest ''one or more role_keys are invalid'')
        else svc_return (map r_id rows)))"

text \<open>\<open>collect\<close> into a \<open>Result\<close>: the first error, or all values.\<close>

primrec collect_results :: "('e + 'a) list \<Rightarrow> 'e + 'a list" where
  "collect_results [] = Inr []"
| "collect_results (r # rs) = and_then r (\<lambda>x. and_then (collect_results rs) (\<lambda>xs. Inr (x # xs)))"

definition canonical_permission_keys :: "string list \<Rightarrow> api_error + string list" where
  "canonical_permission_keys keys =
     collect_results (map (\<lambda>key. case permission_from_str key of
         Inr p \<Rightarrow> Inr (permission_as_str p)
       | Inl _ \<Rightarrow> Inl (BadRequest ''one or more permission_keys are invalid'')) keys)"

definition resolve_permission_ids :: "('s, 'p) app_config \<Rightarrow> string list \<Rightarrow> ('s, 'p, id list) handler" where
  "resolve_permission_ids cfg permission_keys =
     (if permission_keys = [] then svc_return []
      else svc_bind (svc_result (canonical_permission_keys permission_keys)) (\<lambda>canonical.
        svc_bind (auth_query (list_permissions_by_keys (cfg_auth_env cfg) canonical)) (\<lambda>rows.
          if length rows \<noteq> length canonical
          then svc_fail (InternalError ''one or more built-in permission records are missing'')
          else svc_return (map p_id rows))))"

section \<open>Administrators\<close>

definition drop_tokens :: "'s cache_config \<Rightarrow> access_token list \<Rightarrow> 's option \<Rightarrow> 's option" where
  "drop_tokens cc tokens s =
     fold (\<lambda>t. invalidate_hashed_token cc (at_token_prefix t) (at_token_hash t)) tokens s"

definition invalidate_tokens_for_user :: "('s, 'p) app_config \<Rightarrow> request_clock \<Rightarrow> id \<Rightarrow> ('s, 'p, unit) handler" where
  "invalidate_tokens_for_user cfg clk admin_user_id =
     svc_bind (auth_query (list_active_tokens_for_admin_user (ck_now clk) admin_user_id)) (\<lambda>tokens.
     on_tokens (\<lambda>s. ((), drop_tokens (cache_of cfg) tokens s)))"

definition list_admin_users_handler ::
    "('s, 'p) app_config \<Rightarrow> admin_access_token_context \<Rightarrow> ('s, 'p, managed_admin_user_response list) handler" where
  "list_admin_users_handler cfg auth =
     svc_bind (require auth UsersRead) (\<lambda>_.
     svc_bind (auth_query (list_admin_users (cfg_auth_env cfg))) (\<lambda>users.
     svc_bind (auth_query (list_role_keys_for_admin_users (cfg_auth_env cfg) (map au_id users))) (\<lambda>role_keys.
     svc_bind (auth_query (list_permission_keys_for_admin_users (cfg_auth_env cfg) (map au_id users))) (\<lambda>permission_keys.
     svc_return (map (\<lambda>u. managed_user_of cfg u (unwrap_or (role_keys (au_id u)) [])
       (unwrap_or (permission_keys (au_id u)) [])) users)))))"

definition create_admin_user_handler ::
    "('s, 'p) app_config \<Rightarrow> request_clock \<Rightarrow> string \<Rightarrow> string \<Rightarrow> admin_access_token_context \<Rightarrow> create_admin_user_request
      \<Rightarrow> ('s, 'p, managed_admin_user_response) handler" where
  "create_admin_user_handler cfg clk salt uuid auth payload =
     svc_bind (require auth UsersWrite) (\<lambda>_.
     svc_bind (svc_result (validate_admin_user_payload (caur_email payload) (caur_display_name payload)
       (Some (caur_password payload)))) (\<lambda>_.
     svc_bind (resolve_role_ids cfg (caur_role_keys payload)) (\<lambda>role_ids.
     svc_bind (svc_result (map_err (bad_request_error cfg)
       (hash_password (cfg_auth_env cfg) salt (caur_password payload)))) (\<lambda>password_hash.
     svc_bind (in_transaction (
       svc_bind (auth_call (create_admin_user_in_tx (ck_now clk) uuid
         \<lparr>nau_email = trim (caur_email payload), nau_display_name = trim (caur_display_name payload),
          nau_password_hash = password_hash\<rparr>)) (\<lambda>user.
       svc_bind (auth_call (replace_roles_for_admin_user_in_tx (ck_now clk) (au_id user) role_ids)) (\<lambda>_.
       if caur_is_active payload = Some False
       then svc_bind (auth_call (update_admin_user_in_tx (ck_now clk) (au_id user)
              \<lparr>aup_email = trim (caur_email payload), aup_display_name = trim (caur_display_name payload),
               aup_password_hash = None, aup_is_active = False\<rparr>)) (\<lambda>updated.
            svc_result (ok_or (NotFound ''admin user not found'') updated))
       else svc_return user)))) (\<lambda>user.
     build_managed_admin_user_response cfg user)))))"

definition update_admin_user ::
    "('s, 'p) app_config \<Rightarrow> request_clock \<Rightarrow> string \<Rightarrow> admin_access_token_context \<Rightarrow> id \<Rightarrow> update_admin_user_request
      \<Rightarrow> ('s, 'p, managed_admin_user_response) handler" where
  "update_admin_user cfg clk salt auth user_id payload =
     svc_bind (require auth UsersWrite) (\<lambda>_.
     svc_bind (svc_result (validate_admin_user_payload (uaur_email payload) (uaur_display_name payload)
       (uaur_password payload))) (\<lambda>_.
     svc_bind (resolve_role_ids cfg (uaur_role_keys payload)) (\<lambda>role_ids.
     svc_bind (case not_blank (uaur_password payload) of
         Some password \<Rightarrow> svc_result (map_err (bad_request_error cfg)
           (and_then (hash_password (cfg_auth_env cfg) salt password) (\<lambda>h. Inr (Some h))))
       | None \<Rightarrow> svc_return None) (\<lambda>password_hash.
     svc_bind (auth_call (update_admin_user_stmt (ck_now clk) user_id
       \<lparr>aup_email = trim (uaur_email payload), aup_display_name = trim (uaur_display_name payload),
        aup_password_hash = password_hash, aup_is_active = uaur_is_active payload\<rparr>)) (\<lambda>updated.
     svc_bind (svc_result (ok_or (NotFound ''admin user not found'') updated)) (\<lambda>user.
     svc_bind (auth_call (replace_roles_for_admin_user (ck_now clk) (au_id user) role_ids)) (\<lambda>_.
     svc_bind (invalidate_tokens_for_user cfg clk (au_id user)) (\<lambda>_.
     build_managed_admin_user_response cfg user))))))))"

definition delete_admin_user ::
    "('s, 'p) app_config \<Rightarrow> request_clock \<Rightarrow> admin_access_token_context \<Rightarrow> id \<Rightarrow> ('s, 'p, bool) handler" where
  "delete_admin_user cfg clk auth user_id =
     svc_bind (require auth UsersWrite) (\<lambda>_.
     if user_id = au_id (aatc_user auth) then svc_fail (BadRequest ''cannot delete your own account'')
     else svc_bind (auth_query count_active_admin_users) (\<lambda>active_count.
       if active_count \<le> 1 then svc_fail (BadRequest ''cannot delete the last active admin user'')
       else svc_bind (invalidate_tokens_for_user cfg clk user_id) (\<lambda>_.
         svc_bind (auth_call (delete_admin_user_stmt user_id)) (\<lambda>deleted.
           if deleted = None then svc_fail (NotFound ''admin user not found'') else svc_return True))))"

section \<open>Roles and permissions\<close>

definition list_roles_handler ::
    "('s, 'p) app_config \<Rightarrow> admin_access_token_context \<Rightarrow> ('s, 'p, managed_role_response list) handler" where
  "list_roles_handler cfg auth =
     svc_bind (require auth RolesRead) (\<lambda>_.
     svc_bind (auth_query (list_roles (cfg_auth_env cfg))) (\<lambda>roles_list.
     svc_bind (auth_query (list_permission_keys_for_roles (cfg_auth_env cfg) (map r_id roles_list))) (\<lambda>permission_keys.
     svc_return (map (\<lambda>r. managed_role_of cfg r (unwrap_or (permission_keys (r_id r)) [])) roles_list))))"

definition create_role ::
    "('s, 'p) app_config \<Rightarrow> request_clock \<Rightarrow> admin_access_token_context \<Rightarrow> create_role_request
      \<Rightarrow> ('s, 'p, managed_role_response) handler" where
  "create_role cfg clk auth payload =
     svc_bind (require auth RolesWrite) (\<lambda>_.
     svc_bind (svc_result (validate_role_payload (crr_key payload) (crr_name payload))) (\<lambda>_.
     svc_bind (resolve_permission_ids cfg (crr_permission_keys payload)) (\<lambda>permission_ids.
     svc_bind (auth_call (create_role_stmt (ck_now clk) (trim (crr_key payload)) (trim (crr_name payload))
       (not_blank (crr_description payload)))) (\<lambda>role.
     svc_bind (auth_call (replace_permissions_for_role (ck_now clk) (r_id role) permission_ids)) (\<lambda>_.
     build_managed_role_response cfg role)))))"

fun invalidate_tokens_for_users :: "('s, 'p) app_config \<Rightarrow> request_clock \<Rightarrow> id list \<Rightarrow> ('s, 'p, unit) handler" where
  "invalidate_tokens_for_users cfg clk [] = svc_return ()"
| "invalidate_tokens_for_users cfg clk (u # us) =
     svc_bind (invalidate_tokens_for_user cfg clk u) (\<lambda>_. invalidate_tokens_for_users cfg clk us)"

definition update_role ::
    "('s, 'p) app_config \<Rightarrow> request_clock \<Rightarrow> admin_access_token_context \<Rightarrow> id \<Rightarrow> update_role_request
      \<Rightarrow> ('s, 'p, managed_role_response) handler" where
  "update_role cfg clk auth role_id payload =
     svc_bind (require auth RolesWrite) (\<lambda>_.
     if trim (urr_name payload) = [] then svc_fail (BadRequest ''name is required'')
     else svc_bind (resolve_permission_ids cfg (urr_permission_keys payload)) (\<lambda>permission_ids.
       svc_bind (auth_call (update_role_stmt (ck_now clk) role_id (trim (urr_name payload))
         (not_blank (urr_description payload)))) (\<lambda>updated.
       svc_bind (svc_result (ok_or (NotFound ''role not found'') updated)) (\<lambda>role.
       svc_bind (auth_query (list_admin_user_ids_for_role (r_id role))) (\<lambda>affected_user_ids.
       svc_bind (auth_call (replace_permissions_for_role (ck_now clk) (r_id role) permission_ids)) (\<lambda>_.
       svc_bind (invalidate_tokens_for_users cfg clk affected_user_ids) (\<lambda>_.
       build_managed_role_response cfg role)))))))"

definition delete_role ::
    "('s, 'p) app_config \<Rightarrow> request_clock \<Rightarrow> admin_access_token_context \<Rightarrow> id \<Rightarrow> ('s, 'p, bool) handler" where
  "delete_role cfg clk auth role_id =
     svc_bind (require auth RolesWrite) (\<lambda>_.
     svc_bind (auth_query (get_role_by_id role_id)) (\<lambda>found.
     svc_bind (svc_result (ok_or (NotFound ''role not found'') found)) (\<lambda>role.
     if r_is_system role then svc_fail (BadRequest ''system roles can not be deleted'')
     else svc_bind (auth_query (list_admin_user_ids_for_role role_id)) (\<lambda>affected_user_ids.
       svc_bind (auth_call (delete_role_stmt role_id)) (\<lambda>deleted.
       svc_bind (invalidate_tokens_for_users cfg clk affected_user_ids) (\<lambda>_.
       svc_return (deleted \<noteq> None)))))))"

definition list_permissions_handler ::
    "('s, 'p) app_config \<Rightarrow> admin_access_token_context \<Rightarrow> ('s, 'p, managed_permission_response list) handler" where
  "list_permissions_handler cfg auth =
     svc_bind (require auth RolesRead) (\<lambda>_.
     svc_bind (auth_query (list_permissions (cfg_auth_env cfg))) (\<lambda>rows.
     svc_bind (auth_query (list_role_keys_for_permissions (cfg_auth_env cfg) (map p_id rows))) (\<lambda>role_keys.
     svc_return (map (\<lambda>p. \<lparr>mp_id = p_id p, mp_key = p_key p, mp_name = p_name p, mp_description = p_description p,
       mp_created_at = cfg_rfc3339 cfg (p_created_at p), mp_roles = unwrap_or (role_keys (p_id p)) []\<rparr>) rows))))"

end
