(* ===== verification/Admin_Views.thy ===== *)
theory Admin_Views
  imports Admin_Routes
begin

text \<open>
  The rest of \<^verbatim>\<open>src/api/routes/admin.rs\<close>: the dashboard, the incidents of all sites and the API clients.
  The three queries of the dashboard run at once (\<open>try_join!\<close>) and are read from one state.
\<close>

section \<open>The dashboard\<close>

record dashboard_summary =
  dsm_sites_total :: int
  dsm_sites_active :: int
  dsm_sites_up :: int
  dsm_sites_down :: int
  dsm_sites_paused :: int
  dsm_sites_unchecked :: int
  dsm_sites_with_monitor :: int
  dsm_sites_without_monitor :: int
  dsm_open_incidents :: int
  dsm_monitors_active :: int

record dashboard_site_entry =
  dse_id :: id
  dse_name :: string
  dse_base_url :: string
  dse_is_active :: bool
  dse_status :: string
  dse_has_open_incident :: bool
  dse_last_checked_at :: "string option"
  dse_last_response_time_ms :: "int option"
  dse_monitors_active :: int
  dse_monitors_total :: int

record dashboard_incident_entry =
  die_id :: id
  die_site_id :: id
  die_site_name :: string
  die_monitor_type :: string
  die_target_url :: string
  die_opened_at :: string
  die_failure_count :: int
  die_last_failure_reason :: "string option"
  die_acknowledged_at :: "string option"

record dashboard_response =
  dr_summary :: dashboard_summary
  dr_sites :: "dashboard_site_entry list"
  dr_recent_incidents :: "dashboard_incident_entry list"

definition dashboard_site_status :: "dashboard_site_row \<Rightarrow> string" where
  "dashboard_site_status row =
     (if \<not> dsr_is_active row then ''inactive''
      else if dsr_any_failing row = Some True then ''down''
      else if dsr_any_succeeding row = Some True then ''up''
      else if dsr_monitors_active_count row = 0 \<and> 0 < dsr_monitors_total row then ''paused''
      else ''unchecked'')"

definition dashboard_site_entry_of :: "('s, 'p) app_config \<Rightarrow> dashboard_site_row \<Rightarrow> dashboard_site_entry" where
  "dashboard_site_entry_of cfg row =
     \<lparr>dse_id = dsr_id row, dse_name = dsr_name row, dse_base_url = dsr_base_url row,
      dse_is_active = dsr_is_active row, dse_status = dashboard_site_status row,
      dse_has_open_incident = dsr_has_open_incident row,
      dse_last_checked_at = map_option (cfg_rfc3339 cfg) (dsr_last_checked_at row),
      dse_last_response_time_ms = dsr_last_response_time_ms row,
      dse_monitors_active = dsr_monitors_active_count row, dse_monitors_total = dsr_monitors_total row\<rparr>"

text \<open>The counters the closure over the rows updates: active, up, down, paused, unchecked, active monitors.\<close>

type_synonym dashboard_counts = "int \<times> int \<times> int \<times> int \<times> int \<times> int"

definition count_site :: "dashboard_site_row \<Rightarrow> dashboard_counts \<Rightarrow> dashboard_counts" where
  "count_site row counts =
     (case counts of (active, up, down, paused, unchecked, monitors) \<Rightarrow>
        let status = dashboard_site_status row; monitors' = monitors + dsr_monitors_active_count row
        in if \<not> dsr_is_active row then (active, up, down, paused, unchecked, monitors')
           else if status = ''up'' then (active + 1, up + 1, down, paused, unchecked, monitors')
           else if status = ''down'' then (active + 1, up, down + 1, paused, unchecked, monitors')
           else if status = ''paused'' then (active + 1, up, down, paused + 1, unchecked, monitors')
           else (active + 1, up, down, paused, unchecked + 1, monitors'))"

definition status_rank :: "string \<Rightarrow> nat" where
  "status_rank s =
     (if s = ''down'' then 0 else if s = ''up'' then 1 else if s = ''paused'' then 2
      else if s = ''unchecked'' then 3 else 4)"

definition dashboard_incident_entry_of ::
    "('s, 'p) app_config \<Rightarrow> site_monitor_incident \<times> site \<Rightarrow> dashboard_incident_entry" where
  "dashboard_incident_entry_of cfg = (\<lambda>(i, s).
     \<lparr>die_id = inc_id i, die_site_id = inc_site_id i, die_site_name = s_name s,
      die_monitor_type = monitor_type_as_str (inc_monitor_type i), die_target_url = inc_target_url i,
      die_opened_at = cfg_rfc3339 cfg (inc_opened_at i), die_failure_count = inc_failure_count i,
      die_last_failure_reason = inc_last_failure_reason i,
      die_acknowledged_at = map_option (cfg_rfc3339 cfg) (inc_acknowledged_at i)\<rparr>)"

definition get_dashboard :: "('s, 'p) app_config \<Rightarrow> admin_access_token_context \<Rightarrow> ('s, 'p, dashboard_response) handler" where
  "get_dashboard cfg auth =
     svc_bind (require auth SitesRead) (\<lambda>_.
     svc_bind (db_query (\<lambda>d. (get_dashboard_sites d, count_open_incidents d,
       list_global_incidents None None (Some StatusOpen) 5 d))) (\<lambda>(site_rows, open_incident_count, recent_raw).
     case fold count_site site_rows (0, 0, 0, 0, 0, 0) of (active, up, down, paused, unchecked, monitors) \<Rightarrow>
     svc_return
       \<lparr>dr_summary =
          \<lparr>dsm_sites_total = int (length site_rows), dsm_sites_active = active, dsm_sites_up = up,
           dsm_sites_down = down, dsm_sites_paused = paused, dsm_sites_unchecked = unchecked,
           dsm_sites_with_monitor = int (length (filter (\<lambda>r. 0 < dsr_monitors_total r) site_rows)),
           dsm_sites_without_monitor = int (length (filter (\<lambda>r. dsr_monitors_total r = 0) site_rows)),
           dsm_open_incidents = open_incident_count, dsm_monitors_active = monitors\<rparr>,
        dr_sites = sort_key (\<lambda>s. status_rank (dse_status s)) (map (dashboard_site_entry_of cfg) site_rows),
        dr_recent_incidents = map (dashboard_incident_entry_of cfg) recent_raw\<rparr>))"

section \<open>Incidents\<close>

definition list_global_incidents_handler ::
    "('s, 'p) app_config \<Rightarrow> admin_access_token_context \<Rightarrow> string option \<Rightarrow> nat option \<Rightarrow> incident_status option
      \<Rightarrow> ('s, 'p, global_incident_response page) handler" where
  "list_global_incidents_handler cfg auth query_cursor query_limit query_status =
     svc_bind (require auth SiteIncidentsRead) (\<lambda>_.
     svc_bind (svc_result (history_limit query_limit)) (\<lambda>limit.
     svc_bind (svc_result (parse_cursor (cfg_parse_rfc3339 cfg) query_cursor)) (\<lambda>cursor.
     svc_bind (db_query (list_global_incidents (map_option ct_timestamp cursor) (map_option ct_id cursor)
       query_status (page_fetch_limit (nat limit)))) (\<lambda>incidents.
     case paginate_vec_with_cursor incidents (nat limit)
            (\<lambda>i. encode_cursor (cfg_rfc3339 cfg) (inc_opened_at (fst i)) (inc_id (fst i))) of
       (incidents, next_cursor) \<Rightarrow>
         svc_return (json_with_next_cursor (map (global_incident_response_of cfg) incidents) next_cursor)))))"

definition acknowledge_incident_handler ::
    "('s, 'p) app_config \<Rightarrow> request_clock \<Rightarrow> admin_access_token_context \<Rightarrow> id \<Rightarrow> id \<Rightarrow> ('s, 'p, site_incident_response) handler" where
  "acknowledge_incident_handler cfg clk auth site_id incident_id =
     svc_bind (require auth IncidentsWrite) (\<lambda>_.
     svc_bind (db_call (acknowledge_incident (ck_now clk) incident_id site_id (au_id (aatc_user auth)))) (\<lambda>found.
     svc_bind (svc_result (ok_or (NotFound ''incident not found'') found)) (\<lambda>incident.
     svc_return (site_incident_response_of cfg incident))))"

section \<open>API clients\<close>

record api_client_response =
  acr_id :: id
  acr_name :: string
  acr_description :: "string option"
  acr_client_type :: string
  acr_client_id :: string
  acr_secret_prefix :: string
  acr_scopes :: "string list"
  acr_is_active :: bool
  acr_last_used_at :: "string option"
  acr_created_by_user_id :: "string option"
  acr_created_at :: string
  acr_updated_at :: string

record created_api_client_response =
  cac_client :: api_client_response
  cac_client_secret :: string

record create_api_client_request =
  cacr_name :: string
  cacr_description :: "string option"
  cacr_client_type :: string
  cacr_scopes :: "string list"

record update_api_client_request =
  uacr_name :: string
  uacr_description :: "string option"
  uacr_is_active :: bool

definition build_api_client_response :: "('s, 'p) app_config \<Rightarrow> api_client \<Rightarrow> string list \<Rightarrow> api_client_response" where
  "build_api_client_response cfg c scopes =
     \<lparr>acr_id = ac_id c, acr_name = ac_name c, acr_description = ac_description c,
      acr_client_type = (case ac_client_type c of
          InternalService \<Rightarrow> ''internal_service'' | InstallationClient \<Rightarrow> ''installation_client''),
      acr_client_id = ac_client_id c, acr_secret_prefix = ac_secret_prefix c, acr_scopes = scopes,
      acr_is_active = ac_is_active c, acr_last_used_at = map_option (cfg_rfc3339 cfg) (ac_last_used_at c),
      acr_created_by_user_id = ac_created_by_user_id c, acr_created_at = cfg_rfc3339 cfg (ac_created_at c),
      acr_updated_at = cfg_rfc3339 cfg (ac_updated_at c)\<rparr>"

definition parse_api_client_type :: "string \<Rightarrow> api_error + api_client_type" where
  "parse_api_client_type s =
     (if s = ''internal_service'' then Inr InternalService
      else if s = ''installation_client'' then Inr InstallationClient
      else Inl (BadRequest ''client_type must be internal_service or installation_client''))"

definition validate_scopes :: "string list \<Rightarrow> api_error + unit" where
  "validate_scopes scopes =
     (if list_all (\<lambda>s. s \<in> {''sites:read'', ''sites:write''}) scopes then Inr ()
      else Inl (BadRequest ''scopes must be one of: sites:read, sites:write''))"

definition client_scopes :: "('s, 'p) app_config \<Rightarrow> id \<Rightarrow> ('s, 'p, string list) handler" where
  "client_scopes cfg i = auth_query (\<lambda>d. map acs_scope (list_api_client_scopes (cfg_auth_env cfg) i d))"

fun scopes_of_clients :: "('s, 'p) app_config \<Rightarrow> api_client list \<Rightarrow> ('s, 'p, (api_client \<times> string list) list) handler" where
  "scopes_of_clients cfg [] = svc_return []"
| "scopes_of_clients cfg (c # cs) =
     svc_bind (client_scopes cfg (ac_id c)) (\<lambda>scopes.
     svc_bind (scopes_of_clients cfg cs) (\<lambda>rest.
     svc_return ((c, scopes) # rest)))"

definition list_api_clients_handler ::
    "('s, 'p) app_config \<Rightarrow> admin_access_token_context \<Rightarrow> ('s, 'p, api_client_response list) handler" where
  "list_api_clients_handler cfg auth =
     svc_bind (require auth ApiClientsRead) (\<lambda>_.
     svc_bind (auth_query list_api_clients) (\<lambda>clients.
     svc_bind (scopes_of_clients cfg clients) (\<lambda>rows.
     svc_return (map (\<lambda>(c, scopes). build_api_client_response cfg c scopes) rows))))"

text \<open>\<open>raw_id\<close> and \<open>raw_secret\<close> are the two random tokens; a token has 64 characters.\<close>

definition create_api_client_handler ::
    "('s, 'p) app_config \<Rightarrow> request_clock \<Rightarrow> string \<Rightarrow> string \<Rightarrow> string \<Rightarrow> string \<Rightarrow> admin_access_token_context
      \<Rightarrow> create_api_client_request \<Rightarrow> ('s, 'p, created_api_client_response) handler" where
  "create_api_client_handler cfg clk raw_id raw_secret salt uuid auth payload =
     svc_bind (require auth ApiClientsWrite) (\<lambda>_.
     if trim (cacr_name payload) = [] then svc_fail (BadRequest ''name is required'')
     else svc_bind (svc_result (parse_api_client_type (cacr_client_type payload))) (\<lambda>client_type.
       svc_bind (svc_result (validate_scopes (cacr_scopes payload))) (\<lambda>_.
       svc_bind (svc_result (map_err internal_server_error
         (hash_client_secret (cfg_auth_env cfg) salt raw_secret))) (\<lambda>secret_hash.
       svc_bind (auth_call (create_api_client (ck_now clk) uuid
         \<lparr>nac_name = trim (cacr_name payload), nac_description = cacr_description payload,
          nac_client_type = client_type, nac_client_id = ''ac_'' @ take 16 raw_id,
          nac_client_secret_hash = secret_hash, nac_secret_prefix = take token_prefix_len raw_secret,
          nac_created_by_user_id = Some (show_int (au_id (aatc_user auth)))\<rparr>)) (\<lambda>client.
       svc_bind (auth_call (replace_api_client_scopes (ck_now clk) (ac_id client) (cacr_scopes payload))) (\<lambda>_.
       svc_return \<lparr>cac_client = build_api_client_response cfg client (cacr_scopes payload),
         cac_client_secret = raw_secret\<rparr>))))))"

definition update_api_client_handler ::
    "('s, 'p) app_config \<Rightarrow> request_clock \<Rightarrow> admin_access_token_context \<Rightarrow> id \<Rightarrow> update_api_client_request
      \<Rightarrow> ('s, 'p, api_client_response) handler" where
  "update_api_client_handler cfg clk auth client_id payload =
     svc_bind (require auth ApiClientsWrite) (\<lambda>_.
     if trim (uacr_name payload) = [] then svc_fail (BadRequest ''name is required'')
     else svc_bind (auth_call (update_api_client (ck_now clk) client_id (trim (uacr_name payload))
         (uacr_description payload) (uacr_is_active payload))) (\<lambda>updated.
       svc_bind (svc_result (ok_or (NotFound ''api client not found'') updated)) (\<lambda>client.
       svc_bind (client_scopes cfg (ac_id client)) (\<lambda>scopes.
       svc_return (build_api_client_response cfg client scopes)))))"

definition delete_api_client_handler ::
    "('s, 'p) app_config \<Rightarrow> admin_access_token_context \<Rightarrow> id \<Rightarrow> ('s, 'p, unit) handler" where
  "delete_api_client_handler cfg auth client_id =
     svc_bind (require auth ApiClientsWrite) (\<lambda>_.
     svc_bind (auth_call (delete_api_client client_id)) (\<lambda>deleted.
     if \<not> deleted then svc_fail (NotFound ''api client not found'') else svc_return ()))"

definition rotate_api_client_secret_handler ::
    "('s, 'p) app_config \<Rightarrow> request_clock \<Rightarrow> string \<Rightarrow> string \<Rightarrow> admin_access_token_context \<Rightarrow> id
      \<Rightarrow> ('s, 'p, created_api_client_response) handler" where
  "rotate_api_client_secret_handler cfg clk raw_secret salt auth client_id =
     svc_bind (require auth ApiClientsWrite) (\<lambda>_.
     svc_bind (svc_result (map_err internal_server_error
       (hash_client_secret (cfg_auth_env cfg) salt raw_secret))) (\<lambda>secret_hash.
     svc_bind (auth_call (rotate_api_client_secret (ck_now clk) client_id secret_hash (take token_prefix_len raw_secret))) (\<lambda>rotated.
     svc_bind (svc_result (ok_or (NotFound ''api client not found'') rotated)) (\<lambda>client.
     svc_bind (client_scopes cfg (ac_id client)) (\<lambda>scopes.
     svc_return \<lparr>cac_client = build_api_client_response cfg client scopes, cac_client_secret = raw_secret\<rparr>)))))"

end
