(* ===== verification/Admin_Api.thy ===== *)
theory Admin_Api
  imports Admin_Views "HOL-Library.Multiset"
begin

text \<open>
  The router of \<^verbatim>\<open>src/api/routes/admin.rs\<close>: one constructor per route and method, dispatched to its handler,
  and what holds of every call: who may make it, what it can change, and when a change of rights is in force.
\<close>

section \<open>Dispatch\<close>

text \<open>The random texts a handler draws come first.\<close>

datatype admin_call =
    GetDashboard
  | ListGlobalIncidents "string option" "nat option" "incident_status option"
  | ListAdminUsers
  | CreateAdminUser string string create_admin_user_request
  | UpdateAdminUser string id update_admin_user_request
  | DeleteAdminUser id
  | ListRoles
  | CreateRole create_role_request
  | UpdateRole id update_role_request
  | DeleteRole id
  | ListPermissions
  | AcknowledgeIncident id id
  | ListApiClients
  | CreateApiClient string string string string create_api_client_request
  | UpdateApiClient id update_api_client_request
  | DeleteApiClient id
  | RotateApiClientSecret string string id

datatype admin_answer =
    AnsDashboard dashboard_response
  | AnsIncidents "global_incident_response page"
  | AnsUsers "managed_admin_user_response list"
  | AnsUser managed_admin_user_response
  | AnsRoles "managed_role_response list"
  | AnsRole managed_role_response
  | AnsPermissions "managed_permission_response list"
  | AnsIncident site_incident_response
  | AnsClients "api_client_response list"
  | AnsClient api_client_response
  | AnsCreatedClient created_api_client_response
  | AnsDeleted bool
  | AnsNoContent

definition answer :: "('a \<Rightarrow> admin_answer) \<Rightarrow> ('s, 'p, 'a) handler \<Rightarrow> ('s, 'p, admin_answer) handler" where
  "answer f m = svc_bind m (\<lambda>x. svc_return (f x))"

fun handle_admin ::
    "('s, 'p) app_config \<Rightarrow> request_clock \<Rightarrow> admin_access_token_context \<Rightarrow> admin_call \<Rightarrow> ('s, 'p, admin_answer) handler" where
  "handle_admin cfg clk auth GetDashboard = answer AnsDashboard (get_dashboard cfg auth)"
| "handle_admin cfg clk auth (ListGlobalIncidents cursor limit status) =
     answer AnsIncidents (list_global_incidents_handler cfg auth cursor limit status)"
| "handle_admin cfg clk auth ListAdminUsers = answer AnsUsers (list_admin_users_handler cfg auth)"
| "handle_admin cfg clk auth (CreateAdminUser salt uuid payload) =
     answer AnsUser (create_admin_user_handler cfg clk salt uuid auth payload)"
| "handle_admin cfg clk auth (UpdateAdminUser salt i payload) =
     answer AnsUser (update_admin_user cfg clk salt auth i payload)"
| "handle_admin cfg clk auth (DeleteAdminUser i) = answer AnsDeleted (delete_admin_user cfg clk auth i)"
| "handle_admin cfg clk auth ListRoles = answer AnsRoles (list_roles_handler cfg auth)"
| "handle_admin cfg clk auth (CreateRole payload) = answer AnsRole (create_role cfg clk auth payload)"
| "handle_admin cfg clk auth (UpdateRole i payload) = answer AnsRole (update_role cfg clk auth i payload)"
| "handle_admin cfg clk auth (DeleteRole i) = answer AnsDeleted (delete_role cfg clk auth i)"
| "handle_admin cfg clk auth ListPermissions = answer AnsPermissions (list_permissions_handler cfg auth)"
| "handle_admin cfg clk auth (AcknowledgeIncident site incident) =
     answer AnsIncident (acknowledge_incident_handler cfg clk auth site incident)"
| "handle_admin cfg clk auth ListApiClients = answer AnsClients (list_api_clients_handler cfg auth)"
| "handle_admin cfg clk auth (CreateApiClient raw_id raw_secret salt uuid payload) =
     answer AnsCreatedClient (create_api_client_handler cfg clk raw_id raw_secret salt uuid auth payload)"
| "handle_admin cfg clk auth (UpdateApiClient i payload) =
     answer AnsClient (update_api_client_handler cfg clk auth i payload)"
| "handle_admin cfg clk auth (DeleteApiClient i) =
     answer (\<lambda>_. AnsNoContent) (delete_api_client_handler cfg auth i)"
| "handle_admin cfg clk auth (RotateApiClientSecret raw_secret salt i) =
     answer AnsCreatedClient (rotate_api_client_secret_handler cfg clk raw_secret salt auth i)"

section \<open>Who may call\<close>

fun needed_permission :: "admin_call \<Rightarrow> permission_key" where
  "needed_permission GetDashboard = SitesRead"
| "needed_permission (ListGlobalIncidents _ _ _) = SiteIncidentsRead"
| "needed_permission ListAdminUsers = UsersRead"
| "needed_permission (CreateAdminUser _ _ _) = UsersWrite"
| "needed_permission (UpdateAdminUser _ _ _) = UsersWrite"
| "needed_permission (DeleteAdminUser _) = UsersWrite"
| "needed_permission ListRoles = RolesRead"
| "needed_permission (CreateRole _) = RolesWrite"
| "needed_permission (UpdateRole _ _) = RolesWrite"
| "needed_permission (DeleteRole _) = RolesWrite"
| "needed_permission ListPermissions = RolesRead"
| "needed_permission (AcknowledgeIncident _ _) = IncidentsWrite"
| "needed_permission ListApiClients = ApiClientsRead"
| "needed_permission (CreateApiClient _ _ _ _ _) = ApiClientsWrite"
| "needed_permission (UpdateApiClient _ _) = ApiClientsWrite"
| "needed_permission (DeleteApiClient _) = ApiClientsWrite"
| "needed_permission (RotateApiClientSecret _ _ _) = ApiClientsWrite"

fun only_reads :: "admin_call \<Rightarrow> bool" where
  "only_reads GetDashboard = True"
| "only_reads (ListGlobalIncidents _ _ _) = True"
| "only_reads ListAdminUsers = True"
| "only_reads ListRoles = True"
| "only_reads ListPermissions = True"
| "only_reads ListApiClients = True"
| "only_reads _ = False"

lemma guarded_answer: "guarded perms p m \<Longrightarrow> guarded perms p (answer f m)"
  by (auto simp: guarded_def answer_def svc_bind_assoc intro!: never_forbids_bind never_forbids_rules)

lemma validation_never_forbids [simp]:
  "\<not> is_forbidden (validate_admin_user_payload email name password)"
  "\<not> is_forbidden (validate_role_payload key name)"
  "\<not> is_forbidden (parse_api_client_type s)"
  "\<not> is_forbidden (validate_scopes scopes)"
  "\<not> is_forbidden (history_limit limit)"
  "\<not> is_forbidden (parse_cursor parse cursor)"
  by (simp_all add: is_forbidden_def validate_admin_user_payload_def validate_role_payload_def parse_api_client_type_def
      validate_scopes_def history_limit_def bounded_limit_def parse_cursor_def ok_or_def map_err_def Let_def
      split: option.splits prod.splits)

lemma canonical_never_forbids [simp]: "\<not> is_forbidden (canonical_permission_keys keys)"
  by (induction keys)
    (auto simp: canonical_permission_keys_def is_forbidden_def and_then_def split: sum.splits api_error.splits)

lemma invalidate_users_never_forbids [call_rules]: "never_forbids (invalidate_tokens_for_users cfg clk us)"
  by (induction us) (simp_all only: invalidate_tokens_for_users.simps invalidate_tokens_for_user_def call_rules)

lemma scopes_of_clients_rules [call_rules]:
  "never_forbids (scopes_of_clients cfg cs)" "reads_only (scopes_of_clients cfg cs)"
  by (induction cs) (simp_all only: scopes_of_clients.simps client_scopes_def call_rules)

lemmas handler_defs = get_dashboard_def list_global_incidents_handler_def list_admin_users_handler_def
  create_admin_user_handler_def update_admin_user_def delete_admin_user_def list_roles_handler_def create_role_def
  update_role_def delete_role_def list_permissions_handler_def acknowledge_incident_handler_def
  list_api_clients_handler_def create_api_client_handler_def update_api_client_handler_def
  delete_api_client_handler_def rotate_api_client_secret_handler_def

lemmas helper_defs = resolve_role_ids_def resolve_permission_ids_def invalidate_tokens_for_user_def
  build_managed_admin_user_response_def build_managed_role_response_def client_scopes_def

lemma handlers_guarded:
  "guarded (aatc_permissions auth) SitesRead (get_dashboard cfg auth)"
  "guarded (aatc_permissions auth) SiteIncidentsRead (list_global_incidents_handler cfg auth cursor limit status)"
  "guarded (aatc_permissions auth) UsersRead (list_admin_users_handler cfg auth)"
  "guarded (aatc_permissions auth) UsersWrite (create_admin_user_handler cfg clk salt uuid auth cu)"
  "guarded (aatc_permissions auth) UsersWrite (update_admin_user cfg clk salt auth i uu)"
  "guarded (aatc_permissions auth) UsersWrite (delete_admin_user cfg clk auth i)"
  "guarded (aatc_permissions auth) RolesRead (list_roles_handler cfg auth)"
  "guarded (aatc_permissions auth) RolesWrite (create_role cfg clk auth cr)"
  "guarded (aatc_permissions auth) RolesWrite (update_role cfg clk auth i ur)"
  "guarded (aatc_permissions auth) RolesWrite (delete_role cfg clk auth i)"
  "guarded (aatc_permissions auth) RolesRead (list_permissions_handler cfg auth)"
  "guarded (aatc_permissions auth) IncidentsWrite (acknowledge_incident_handler cfg clk auth site incident)"
  "guarded (aatc_permissions auth) ApiClientsRead (list_api_clients_handler cfg auth)"
  "guarded (aatc_permissions auth) ApiClientsWrite (create_api_client_handler cfg clk raw_id raw salt uuid auth cc)"
  "guarded (aatc_permissions auth) ApiClientsWrite (update_api_client_handler cfg clk auth i uc)"
  "guarded (aatc_permissions auth) ApiClientsWrite (delete_api_client_handler cfg auth i)"
  "guarded (aatc_permissions auth) ApiClientsWrite (rotate_api_client_secret_handler cfg clk raw salt auth i)"
  by (unfold handler_defs helper_defs) (intro call_rules; auto)+

lemma handle_admin_guarded: "guarded (aatc_permissions auth) (needed_permission c) (handle_admin cfg clk auth c)"
  by (cases c) (simp_all add: guarded_answer handlers_guarded)

lemma handlers_read_only:
  "reads_only (get_dashboard cfg auth)"
  "reads_only (list_global_incidents_handler cfg auth cursor limit status)"
  "reads_only (list_admin_users_handler cfg auth)"
  "reads_only (list_roles_handler cfg auth)"
  "reads_only (list_permissions_handler cfg auth)"
  "reads_only (list_api_clients_handler cfg auth)"
  by (unfold handler_defs demand_def) (intro call_rules; auto)+

lemma handle_admin_reads_only: "only_reads c \<Longrightarrow> reads_only (handle_admin cfg clk auth c)"
  by (cases c) (auto simp: answer_def intro!: reads_only_bind reads_only_rules handlers_read_only)

text \<open>
  C25: every administration call asks for its permission before anything else. Without it the call is
  answered Forbidden and the state stays as it is; with it the call is never answered Forbidden. The
  calls of GET routes change nothing at all.
\<close>

theorem admin_calls_are_guarded:
  "(if needed_permission c \<in> aatc_permissions auth then \<not> is_forbidden (fst (handle_admin cfg clk auth c a))
    else handle_admin cfg clk auth c a =
      (Inl (Forbidden (''missing required permission: '' @ permission_as_str (needed_permission c))), a)) \<and>
   (if only_reads c then snd (handle_admin cfg clk auth c a) = a else True)"
proof (rule conjI)
  show "if only_reads c then snd (handle_admin cfg clk auth c a) = a else True"
    using handle_admin_reads_only [of c cfg clk auth] by (simp add: reads_only_def)
qed (rule guarded_call [OF handle_admin_guarded])

section \<open>When a change of rights is in force\<close>

fun affected_users :: "admin_call \<Rightarrow> auth_db \<Rightarrow> id list" where
  "affected_users (UpdateAdminUser _ i _) d = [i]"
| "affected_users (DeleteAdminUser i) d = [i]"
| "affected_users (UpdateRole r _) d = list_admin_user_ids_for_role r d"
| "affected_users (DeleteRole r) d = list_admin_user_ids_for_role r d"
| "affected_users _ d = []"

definition token_key :: "access_token \<Rightarrow> token_cache_key" where
  "token_key t = \<lparr>tck_token_prefix = at_token_prefix t, tck_token_hash = at_token_hash t\<rparr>"

text \<open>No entry of the cache answers for the tokens.\<close>

definition uncached :: "('s, 'p) app_config \<Rightarrow> access_token list \<Rightarrow> ('s, 'p) app_state \<Rightarrow> bool" where
  "uncached cfg ts a \<longleftrightarrow> list_all (\<lambda>t. entry_of (cache_of cfg) (app_tokens a) (token_key t) = None) ts"

lemma entry_of_drop_tokens:
  assumes "lru_map_laws (cfg_token_lru cfg)"
  shows "entry_of (cache_of cfg) (drop_tokens (cache_of cfg) ts s) key =
    (if key \<in> token_key ` set ts then None else entry_of (cache_of cfg) s key)"
  using lru_law_simps(5) [OF assms]
  by (induction ts arbitrary: s)
    (auto simp: drop_tokens_def invalidate_hashed_token_def invalidate_key_def entry_of_def cache_of_def token_key_def
      split: option.splits)

lemma invalidate_user:
  "invalidate_tokens_for_user cfg clk u a =
     (Inr (), a\<lparr>app_tokens := drop_tokens (cache_of cfg)
        (list_active_tokens_for_admin_user (ck_now clk) u (app_auth a)) (app_tokens a)\<rparr>)"
  by (simp add: invalidate_tokens_for_user_def auth_query_def on_auth_def on_tokens_def svc_bind_def)

lemma invalidate_users:
  "invalidate_tokens_for_users cfg clk us a =
     (Inr (), a\<lparr>app_tokens := drop_tokens (cache_of cfg)
        (concat (map (\<lambda>u. list_active_tokens_for_admin_user (ck_now clk) u (app_auth a)) us)) (app_tokens a)\<rparr>)"
  by (induction us arbitrary: a) (simp_all add: invalidate_user svc_bind_def drop_tokens_def)

lemma admin_tokens_unchanged:
  "update_admin_user_stmt now i p d = Inr (x1, d') \<Longrightarrow> ad_admin_tokens d' = ad_admin_tokens d"
  "update_role_stmt now i name description d = Inr (x2, d') \<Longrightarrow> ad_admin_tokens d' = ad_admin_tokens d"
  "delete_role_stmt i d = Inr (x3, d') \<Longrightarrow> ad_admin_tokens d' = ad_admin_tokens d"
  by (auto simp: update_admin_user_stmt_def update_role_stmt_def delete_role_stmt_def Let_def
      split: option.splits if_splits)

text \<open>The statements on the tables between roles touch nothing else.\<close>

definition drop_links :: "auth_db \<Rightarrow> auth_db" where
  "drop_links d = d\<lparr>ad_user_roles := [], ad_next_user_role := 0, ad_role_permissions := [], ad_next_role_permission := 0\<rparr>"

lemma drop_links_updates [simp]:
  "drop_links (d\<lparr>ad_user_roles := rs\<rparr>) = drop_links d"
  "drop_links (d\<lparr>ad_next_user_role := n\<rparr>) = drop_links d"
  "drop_links (d\<lparr>ad_role_permissions := ps\<rparr>) = drop_links d"
  "drop_links (d\<lparr>ad_next_role_permission := k\<rparr>) = drop_links d"
  by (simp_all add: drop_links_def)

lemma drop_links_selects:
  "ad_admin_tokens (drop_links d) = ad_admin_tokens d" "ad_users (drop_links d) = ad_users d"
  "ad_clients (drop_links d) = ad_clients d" "ad_tokens (drop_links d) = ad_tokens d"
  "ad_next_user (drop_links d) = ad_next_user d" "ad_next_client (drop_links d) = ad_next_client d"
  "ad_next_token (drop_links d) = ad_next_token d" "ad_next_admin_token (drop_links d) = ad_next_admin_token d"
  by (simp_all add: drop_links_def)

lemma insert_links_frame:
  "insert_user_roles now u rs d = Inr (x, d') \<Longrightarrow> drop_links d' = drop_links d"
  "insert_role_permissions now r ps d = Inr (y, d') \<Longrightarrow> drop_links d' = drop_links d"
  by (induction rs arbitrary: d; fastforce simp: stmt_bind_Inr_iff assign_role_to_admin_user_def Let_def
      split: if_splits option.splits)
    (induction ps arbitrary: d; fastforce simp: stmt_bind_Inr_iff insert_role_permission_def Let_def split: if_splits)

lemma replace_links_frame:
  "replace_roles_for_admin_user now u role_ids d = Inr (x, d') \<Longrightarrow> drop_links d' = drop_links d"
  "replace_permissions_for_role now r permission_ids d = Inr (y, d') \<Longrightarrow> drop_links d' = drop_links d"
  unfolding replace_roles_for_admin_user_def replace_permissions_for_role_def
  by (auto dest: insert_links_frame)

lemma replace_links_tokens:
  "replace_roles_for_admin_user now u role_ids d = Inr (x, d') \<Longrightarrow> ad_admin_tokens d' = ad_admin_tokens d"
  "replace_permissions_for_role now r permission_ids d = Inr (y, d') \<Longrightarrow> ad_admin_tokens d' = ad_admin_tokens d"
  using replace_links_frame drop_links_selects(1) by metis+

lemma resolve_ids_state:
  "resolve_role_ids cfg keys a = (Inr ids, a') \<Longrightarrow> a' = a"
  "resolve_permission_ids cfg keys a = (Inr ids', a') \<Longrightarrow> a' = a"
  by (auto simp: resolve_role_ids_def resolve_permission_ids_def svc_bind_Inr split: if_splits)

lemma build_responses_state:
  "build_managed_admin_user_response cfg u a = (Inr x, a') \<Longrightarrow> a' = a"
  "build_managed_role_response cfg r a = (Inr y, a') \<Longrightarrow> a' = a"
  by (auto simp: build_managed_admin_user_response_def build_managed_role_response_def svc_bind_Inr)

lemma answer_Inr: "answer f m a = (Inr x, a') \<longleftrightarrow> (\<exists>y. m a = (Inr y, a') \<and> x = f y)"
  by (auto simp: answer_def svc_bind_Inr)

lemma active_tokens_cong:
  "ad_admin_tokens d' = ad_admin_tokens d \<Longrightarrow> list_active_tokens_for_admin_user now u d' = list_active_tokens_for_admin_user now u d"
  by (simp add: list_active_tokens_for_admin_user_def)

lemma updated_row_effect:
  "update_admin_user_stmt now i p d = Inr (Some u, d') \<Longrightarrow> au_id u = i \<and> ad_admin_tokens d' = ad_admin_tokens d"
  "update_role_stmt now i name description d = Inr (Some r, d') \<Longrightarrow>
     r_id r = i \<and> ad_admin_tokens d' = ad_admin_tokens d \<and> ad_user_roles d' = ad_user_roles d"
  by (auto simp: update_admin_user_stmt_def update_role_stmt_def get_admin_user_by_id_def update_user_row_def
      update_role_row_def Let_def returning_rows_def dest!: fetch_optional_Some_mem split: option.splits if_splits)

text \<open>What the calls that change rights do to the cache.\<close>

lemma rights_changes_drop_tokens:
  "update_admin_user cfg clk salt auth i uu a = (Inr x, a') \<Longrightarrow>
     app_tokens a' = drop_tokens (cache_of cfg) (list_active_tokens_for_admin_user (ck_now clk) i (app_auth a)) (app_tokens a)"
  "delete_admin_user cfg clk auth i a = (Inr y, a') \<Longrightarrow>
     app_tokens a' = drop_tokens (cache_of cfg) (list_active_tokens_for_admin_user (ck_now clk) i (app_auth a)) (app_tokens a)"
  unfolding update_admin_user_def delete_admin_user_def
  by (auto simp: svc_bind_Inr auth_call_Inr demand_Inr invalidate_user ok_or_Inr split: if_splits option.splits
      dest!: resolve_ids_state build_responses_state updated_row_effect(1) replace_links_tokens(1)
      intro!: arg_cong2 [of _ _ _ _ "drop_tokens (cache_of cfg)"] active_tokens_cong)

lemma role_changes_drop_tokens:
  "update_role cfg clk auth r ur a = (Inr x, a') \<Longrightarrow>
     app_tokens a' = drop_tokens (cache_of cfg) (concat (map (\<lambda>u. list_active_tokens_for_admin_user (ck_now clk) u (app_auth a))
       (list_admin_user_ids_for_role r (app_auth a)))) (app_tokens a)"
  "delete_role cfg clk auth r a = (Inr y, a') \<Longrightarrow>
     app_tokens a' = drop_tokens (cache_of cfg) (concat (map (\<lambda>u. list_active_tokens_for_admin_user (ck_now clk) u (app_auth a))
       (list_admin_user_ids_for_role r (app_auth a)))) (app_tokens a)"
  unfolding update_role_def delete_role_def
  by (auto simp: svc_bind_Inr auth_call_Inr demand_Inr invalidate_users ok_or_Inr list_admin_user_ids_for_role_def
      list_active_tokens_for_admin_user_def split: if_splits option.splits
      dest!: resolve_ids_state build_responses_state updated_row_effect(2) replace_links_tokens(2) admin_tokens_unchanged(3))

lemma affected_tokens_dropped:
  assumes "handle_admin cfg clk auth c a = (Inr x, a')" "affected_users c (app_auth a) \<noteq> []"
  shows "app_tokens a' = drop_tokens (cache_of cfg) (concat (map (\<lambda>u. list_active_tokens_for_admin_user (ck_now clk) u (app_auth a))
    (affected_users c (app_auth a)))) (app_tokens a)"
  using assms by (cases c) (auto simp: answer_Inr dest: rights_changes_drop_tokens role_changes_drop_tokens)

lemma uncached_lookup_misses:
  assumes "entry_of (cache_of cfg) (app_tokens a) (token_key t) = None"
    "at_token_hash t = ae_hash_token (cfg_auth_env cfg) raw" "at_token_prefix t = take token_prefix_len raw"
  shows "get_bearer_context (cache_of cfg) raw i u u' f (app_tokens a) = (None, app_tokens a)"
    and "get_admin_context (cache_of cfg) raw i u u' f (app_tokens a) = (None, app_tokens a)"
proof -
  show "get_bearer_context (cache_of cfg) raw i u u' f (app_tokens a) = (None, app_tokens a)"
    using assms
    by (auto simp: get_bearer_context_def entry_of_def build_cache_key_def token_key_def cache_of_def split: option.splits)
  then show "get_admin_context (cache_of cfg) raw i u u' f (app_tokens a) = (None, app_tokens a)"
    by (simp add: get_admin_context_def)
qed

text \<open>
  C26: once a change of an administrator or a role has answered, or a deletion of either, no cached
  identity of an affected administrator is served any more: the next request with one of the tokens
  they had active at the change is decided by the tables as the change left them, whichever extractor reads it.
\<close>

theorem changed_rights_are_in_force:
  assumes "lru_map_laws (cfg_token_lru cfg)" "handle_admin cfg clk auth c a = (Inr x, a')"
    "u \<in> set (affected_users c (app_auth a))"
    "t \<in> set (list_active_tokens_for_admin_user (ck_now clk) u (app_auth a))"
    "at_token_hash t = ae_hash_token (cfg_auth_env cfg) raw" "at_token_prefix t = take token_prefix_len raw"
  shows "fst (authenticate_cached_admin_bearer_token cfg clk' raw a') =
      map_err map_bearer_auth_error
        (fst (authenticate_admin_bearer_token (cfg_auth_env cfg) (ck_now clk') (ck_utc clk') raw (app_auth a'))) \<and>
    fst (authenticate_cached_bearer_token cfg clk' raw a') =
      map_err map_bearer_auth_error
        (fst (authenticate_any_bearer_token (cfg_auth_env cfg) (ck_now clk') (ck_utc clk') raw (app_auth a')))"
proof -
  have "entry_of (cache_of cfg) (app_tokens a') (token_key t) = None"
    using assms(3,4) affected_tokens_dropped [OF assms(2)]
    by (fastforce simp: entry_of_drop_tokens [OF assms(1)])
  then show ?thesis
    by (auto simp: uncached_lookup_misses [OF _ assms(5,6)] authenticate_cached_admin_bearer_token_def authenticate_cached_bearer_token_def on_tokens_def on_auth_def
      svc_bind_def svc_map_err_def map_err_def split: prod.splits sum.splits)
qed

definition two_admins_app :: "((token_cache_key, token_cache_entry) lru_list, (string, status_page_cache_entry) lru_list) app_state" where
  "two_admins_app = sample_app\<lparr>app_auth := empty_auth_db\<lparr>ad_admin_tokens := [aatc_token sample_admin_context],
     ad_users := [aatc_user sample_admin_context, (aatc_user sample_admin_context)\<lparr>au_id := 2\<rparr>]\<rparr>\<rparr>"

definition second_admin :: admin_access_token_context where
  "second_admin = sample_admin_context
     \<lparr>aatc_user := (aatc_user sample_admin_context)\<lparr>au_id := 2\<rparr>, aatc_permissions := {UsersWrite}\<rparr>"

lemma second_admin_deletes_first:
  "handle_admin sample_config clk second_admin (DeleteAdminUser 1) two_admins_app =
     (Inr (AnsDeleted True), two_admins_app
       \<lparr>app_auth := empty_auth_db\<lparr>ad_users := [(aatc_user sample_admin_context)\<lparr>au_id := 2\<rparr>]\<rparr>,
        app_tokens := drop_tokens (cache_of sample_config)
          (list_active_tokens_for_admin_user (ck_now clk) 1 (app_auth two_admins_app)) (app_tokens two_admins_app)\<rparr>)"
  by (simp add: answer_def delete_admin_user_def svc_bind_def demand_def require_permission_def map_err_def
    invalidate_user auth_call_def svc_map_err_def on_auth_def svc_stmt_def delete_admin_user_stmt_def
    get_admin_user_by_id_def count_active_admin_users_def second_admin_def two_admins_app_def sample_admin_context_def
    sample_app_def empty_auth_db_def delete_rows_def orphan_logs_def update_rows_def)

theorem changed_rights_are_in_force_witness:
  "fst (authenticate_cached_admin_bearer_token sample_config \<lparr>ck_now = 0, ck_utc = 0, ck_instant = 0\<rparr> ''t''
     (snd (handle_admin sample_config \<lparr>ck_now = 0, ck_utc = 0, ck_instant = 0\<rparr> second_admin (DeleteAdminUser 1) two_admins_app))) =
   Inl (Unauthorized ''invalid admin access token'')"
proof -
  let ?clk = "\<lparr>ck_now = 0, ck_utc = 0, ck_instant = 0\<rparr>"
  have "lru_map_laws (cfg_token_lru sample_config)"
    by (simp add: sample_config_def lru_list_map_laws)
  from changed_rights_are_in_force [OF this second_admin_deletes_first, of 1 "aatc_token sample_admin_context" "?clk" "''t''" ?clk]
  show ?thesis
    unfolding second_admin_deletes_first
    by (simp add: two_admins_app_def sample_admin_context_def sample_config_def sample_auth_env_def sample_app_def
      list_active_tokens_for_admin_user_def token_prefix_len_def authenticate_admin_bearer_token_def
      get_admin_access_token_auth_context_by_token_hash_def map_err_def empty_auth_db_def)
qed

lemma distinct_key_filter: "distinct (map k xs) \<Longrightarrow> length (filter (\<lambda>x. k x = i) xs) \<le> 1"
  by (induction xs) (auto simp: filter_empty_conv image_iff)

text \<open>
  C27: a deletion of an administrator never removes the account that asks for it, nor the last active
  one: afterwards at least one active administrator is left, every other account is as it was, and
  nothing of the deleted one can be used any more.
\<close>

theorem deletion_keeps_an_active_admin:
  assumes "auth_db_ok (app_auth a)" "delete_admin_user cfg clk auth i a = (Inr x, a')"
  shows "1 \<le> count_active_admin_users (app_auth a') \<and> i \<noteq> au_id (aatc_user auth) \<and>
    ad_users (app_auth a') = filter (\<lambda>u. au_id u \<noteq> i) (ad_users (app_auth a)) \<and>
    filter (\<lambda>t. at_owner t = i) (ad_admin_tokens (app_auth a')) = [] \<and>
    filter (\<lambda>r. aur_admin_user_id r = i) (ad_user_roles (app_auth a')) = []"
proof -
  let ?us = "ad_users (app_auth a)"
  have d: "app_auth a' = (app_auth a)\<lparr>ad_users := delete_rows (\<lambda>u. au_id u = i) ?us,
      ad_user_roles := delete_rows (\<lambda>ur. aur_admin_user_id ur = i) (ad_user_roles (app_auth a)),
      ad_admin_tokens := delete_rows (\<lambda>t. at_owner t = i) (ad_admin_tokens (app_auth a)),
      ad_admin_logs := orphan_logs i (ad_admin_logs (app_auth a))\<rparr>" "i \<noteq> au_id (aatc_user auth)"
    "1 < count_active_admin_users (app_auth a)"
    using assms(2) by (auto simp: delete_admin_user_def svc_bind_Inr demand_Inr invalidate_user auth_call_Inr
      delete_admin_user_stmt_def split: if_splits option.splits)
  have "distinct (map au_id (filter au_is_active ?us))"
    using assms(1) by (simp add: auth_db_ok_def distinct_map_filter)
  then have "length (filter (\<lambda>u. au_id u = i) (filter au_is_active ?us)) \<le> 1"
    by (rule distinct_key_filter)
  moreover have "length (filter au_is_active ?us) =
      length (filter (\<lambda>u. au_id u = i) (filter au_is_active ?us)) + length (filter (\<lambda>u. au_id u \<noteq> i) (filter au_is_active ?us))"
    by (rule sum_length_filter_compl [symmetric])
  ultimately have "1 \<le> length (filter au_is_active (filter (\<lambda>u. au_id u \<noteq> i) ?us))"
    using d(3) by (simp add: count_active_admin_users_def conj_commute)
  then show ?thesis
    using d(2) by (simp add: d(1) count_active_admin_users_def delete_rows_def)
qed

theorem deletion_keeps_an_active_admin_witness:
  "1 \<le> count_active_admin_users (app_auth (snd (delete_admin_user sample_config \<lparr>ck_now = 0, ck_utc = 0, ck_instant = 0\<rparr>
     second_admin 1 two_admins_app)))"
proof -
  let ?clk = "\<lparr>ck_now = 0, ck_utc = 0, ck_instant = 0\<rparr>"
  obtain y where "delete_admin_user sample_config ?clk second_admin 1 two_admins_app =
      (Inr y, snd (delete_admin_user sample_config ?clk second_admin 1 two_admins_app))"
    using second_admin_deletes_first [of ?clk] by (auto simp: answer_Inr)
  moreover have "auth_db_ok (app_auth two_admins_app)"
    by (simp add: two_admins_app_def sample_app_def sample_admin_context_def empty_auth_db_def auth_db_ok_def)
  ultimately show ?thesis
    using deletion_keeps_an_active_admin by blast
qed

section \<open>The dashboard\<close>

text \<open>The counters after a list of sites.\<close>

lemma fold_count_site:
  "fold count_site rows (act, up, down, paused, unchecked, mons) =
     (let of_status = (\<lambda>s. int (length (filter (\<lambda>r. dsr_is_active r \<and> dashboard_site_status r = s) rows)))
      in (act + int (length (filter dsr_is_active rows)), up + of_status ''up'', down + of_status ''down'',
          paused + of_status ''paused'', unchecked + of_status ''unchecked'',
          mons + sum_list (map dsr_monitors_active_count rows)))"
  by (induction rows arbitrary: act up "down" paused "unchecked" mons)
    (auto simp: count_site_def dashboard_site_status_def Let_def)

lemma status_counts_partition:
  "int (length (filter dsr_is_active rows)) =
     (let of_status = (\<lambda>s. int (length (filter (\<lambda>r. dsr_is_active r \<and> dashboard_site_status r = s) rows)))
      in of_status ''up'' + of_status ''down'' + of_status ''paused'' + of_status ''unchecked'')"
  by (induction rows) (auto simp: dashboard_site_status_def Let_def)

text \<open>
  The dashboard adds up. Every site of the table is listed exactly once, the failing ones first; the
  active sites are those that are up, down, paused or unchecked; every site has a monitor or has none;
  the number of open incidents is that of the table, and the recent ones are open and at most five.
\<close>

theorem dashboard_adds_up:
  assumes "get_dashboard cfg auth a = (Inr r, a')"
  shows "mset (map dse_id (dr_sites r)) = mset (map s_id (db_sites (app_db a))) \<and>
    sorted (map (\<lambda>s. status_rank (dse_status s)) (dr_sites r)) \<and>
    dsm_sites_total (dr_summary r) = int (length (db_sites (app_db a))) \<and>
    dsm_sites_active (dr_summary r) = dsm_sites_up (dr_summary r) + dsm_sites_down (dr_summary r) +
      dsm_sites_paused (dr_summary r) + dsm_sites_unchecked (dr_summary r) \<and>
    dsm_sites_active (dr_summary r) = int (length (filter s_is_active (db_sites (app_db a)))) \<and>
    dsm_sites_with_monitor (dr_summary r) + dsm_sites_without_monitor (dr_summary r) = dsm_sites_total (dr_summary r) \<and>
    dsm_sites_down (dr_summary r) = int (length (filter (\<lambda>s. dse_status s = ''down'') (dr_sites r))) \<and>
    dsm_open_incidents (dr_summary r) = int (length (filter is_open (db_incidents (app_db a)))) \<and>
    length (dr_recent_incidents r) \<le> 5"
proof -
  let ?rows = "get_dashboard_sites (app_db a)"
  have r: "dr_sites r = sort_key (\<lambda>s. status_rank (dse_status s)) (map (dashboard_site_entry_of cfg) ?rows)"
    "dsm_sites_total (dr_summary r) = int (length ?rows)"
    "dsm_sites_active (dr_summary r) = int (length (filter dsr_is_active ?rows))"
    "dsm_sites_up (dr_summary r) = int (length (filter (\<lambda>r. dsr_is_active r \<and> dashboard_site_status r = ''up'') ?rows))"
    "dsm_sites_down (dr_summary r) = int (length (filter (\<lambda>r. dsr_is_active r \<and> dashboard_site_status r = ''down'') ?rows))"
    "dsm_sites_paused (dr_summary r) = int (length (filter (\<lambda>r. dsr_is_active r \<and> dashboard_site_status r = ''paused'') ?rows))"
    "dsm_sites_unchecked (dr_summary r) = int (length (filter (\<lambda>r. dsr_is_active r \<and> dashboard_site_status r = ''unchecked'') ?rows))"
    "dsm_sites_with_monitor (dr_summary r) = int (length (filter (\<lambda>r. 0 < dsr_monitors_total r) ?rows))"
    "dsm_sites_without_monitor (dr_summary r) = int (length (filter (\<lambda>r. dsr_monitors_total r = 0) ?rows))"
    "dsm_open_incidents (dr_summary r) = count_open_incidents (app_db a)"
    "dr_recent_incidents r = map (dashboard_incident_entry_of cfg) (list_global_incidents None None (Some StatusOpen) 5 (app_db a))"
    using assms by (auto simp: get_dashboard_def svc_bind_Inr demand_Inr db_query_def on_db_def fold_count_site Let_def)
  have ids: "mset (map dse_id (dr_sites r)) = mset (map s_id (db_sites (app_db a)))"
    by (simp add: r(1) dashboard_site_entry_of_def get_dashboard_sites_def dashboard_row_def Let_def order_by_def
      multiset.map_comp o_def)
  have len: "length ?rows = length (db_sites (app_db a))"
    by (simp add: get_dashboard_sites_def order_by_def)
  have act: "length (filter dsr_is_active ?rows) = length (filter s_is_active (db_sites (app_db a)))"
    by (simp add: get_dashboard_sites_def order_by_def filter_map o_def dashboard_row_def Let_def filter_sort)
  have mons: "length (filter (\<lambda>r. 0 < dsr_monitors_total r) rows) + length (filter (\<lambda>r. dsr_monitors_total r = 0) rows) = length rows"
    if "list_all (\<lambda>r. 0 \<le> dsr_monitors_total r) rows" for rows
    using that by (induction rows) auto
  have pos: "list_all (\<lambda>r. 0 \<le> dsr_monitors_total r) ?rows"
    by (simp add: get_dashboard_sites_def dashboard_row_def Let_def list_all_iff)
  have "down": "length (filter (\<lambda>s. dse_status s = ''down'') (dr_sites r)) =
      length (filter (\<lambda>r. dsr_is_active r \<and> dashboard_site_status r = ''down'') ?rows)"
    by (simp add: r(1) filter_sort filter_map o_def dashboard_site_entry_of_def)
      (rule arg_cong [where f = length], rule filter_cong, auto simp: dashboard_site_status_def)
  have recent: "length (dr_recent_incidents r) \<le> 5"
    by (simp add: r(11) list_global_incidents_def limit_rows_def)
  have total: "int (length (filter (\<lambda>r. 0 < dsr_monitors_total r) ?rows)) + int (length (filter (\<lambda>r. dsr_monitors_total r = 0) ?rows)) =
      int (length ?rows)"
    using mons [OF pos] by presburger
  show ?thesis
    using ids recent status_counts_partition [of ?rows]
    by (simp add: r(2-10) len act "down" total count_open_incidents_def Let_def) (simp add: r(1))
qed

theorem dashboard_adds_up_witness:
  "\<exists>r. fst (get_dashboard sample_config (sample_admin_context\<lparr>aatc_permissions := {SitesRead}\<rparr>) sample_app) = Inr r \<and>
     dsm_sites_total (dr_summary r) = 0"
proof -
  let ?auth = "sample_admin_context\<lparr>aatc_permissions := {SitesRead}\<rparr>"
  have "\<exists>r. fst (get_dashboard sample_config ?auth sample_app) = Inr r"
    by (simp add: get_dashboard_def svc_bind_def demand_def require_permission_def map_err_def db_query_def on_db_def
      split: prod.split)
  then obtain r where r: "fst (get_dashboard sample_config ?auth sample_app) = Inr r" ..
  then have "get_dashboard sample_config ?auth sample_app = (Inr r, snd (get_dashboard sample_config ?auth sample_app))"
    by (metis prod.collapse)
  from dashboard_adds_up [OF this] have "dsm_sites_total (dr_summary r) = 0"
    by (simp add: sample_app_def empty_db_def)
  with r show ?thesis by blast
qed

end
