(* ===== verification/Monitor_Views.thy ===== *)
theory Monitor_Views
  imports Handlers Monitor_Admin_Repository Channel_Repository Incident_Repository
begin

text \<open>
  Sites and monitors as the API shows them (\<^verbatim>\<open>src/api/routes/sites/mod.rs\<close> and
  \<^verbatim>\<open>src/api/routes/sites/monitors/*.rs\<close>): the fields of a response are columns of the row, times in RFC 3339.
\<close>

section \<open>Sites\<close>

record site_response =
  sr_id :: id
  sr_name :: string
  sr_base_url :: string
  sr_is_active :: bool
  sr_has_http_monitor :: bool
  sr_http_monitor_status :: string
  sr_has_open_incident :: bool
  sr_current_state :: string
  sr_created_at :: string
  sr_updated_at :: string

definition from_site :: "('s, 'p) app_config \<Rightarrow> site \<Rightarrow> string \<Rightarrow> bool \<Rightarrow> string \<Rightarrow> site_response" where
  "from_site cfg s http_monitor_status has_open_incident current_state =
     \<lparr>sr_id = s_id s,
      sr_name = s_name s,
      sr_base_url = s_base_url s,
      sr_is_active = s_is_active s,
      sr_has_http_monitor = (http_monitor_status \<noteq> ''not_configured''),
      sr_http_monitor_status = http_monitor_status,
      sr_has_open_incident = has_open_incident,
      sr_current_state = current_state,
      sr_created_at = cfg_rfc3339 cfg (s_created_at s),
      sr_updated_at = cfg_rfc3339 cfg (s_updated_at s)\<rparr>"

definition site_current_state :: "site_health_state option \<Rightarrow> string" where
  "site_current_state health =
     (case health of
        None \<Rightarrow> ''not_configured''
      | Some h \<Rightarrow>
          if \<not> shs_has_active_monitor h then ''disabled''
          else if shs_any_failing h = Some True then ''failing''
          else if shs_any_succeeding h = Some True then ''healthy''
          else ''pending_first_check'')"

definition http_monitor_status :: "site_monitor list \<Rightarrow> string" where
  "http_monitor_status http_monitors =
     (if list_ex sm_is_active http_monitors then ''active''
      else if http_monitors = [] then ''not_configured''
      else ''disabled'')"

section \<open>Monitors\<close>

record http_site_monitor_response =
  hmr_id :: id
  hmr_site_id :: id
  hmr_monitor_type :: string
  hmr_target_url :: string
  hmr_check_interval_seconds :: int
  hmr_expected_status_code :: int
  hmr_body_must_contain :: "string option"
  hmr_body_must_not_contain :: "string option"
  hmr_body_must_contain_texts :: "(string list) option"
  hmr_body_must_not_contain_texts :: "(string list) option"
  hmr_json_path_exists :: "(string list) option"
  hmr_json_path_equals :: "(json_path_value_assertion list) option"
  hmr_json_path_not_equals :: "(json_path_value_assertion list) option"
  hmr_max_response_time_ms :: "int option"
  hmr_required_header_name :: "string option"
  hmr_required_header_value :: "string option"
  hmr_header_assertions :: "(http_header_assertion list) option"
  hmr_ssl_certificate_checks_enabled :: bool
  hmr_ssl_expiry_warning_days :: "int option"
  hmr_http_check_timeout_seconds_override :: "int option"
  hmr_http_check_max_attempts_override :: "int option"
  hmr_http_check_retry_delays_ms_override :: "(int list) option"
  hmr_is_active :: bool
  hmr_last_checked_at :: "string option"
  hmr_last_successful_check_at :: "string option"
  hmr_last_is_success :: "bool option"
  hmr_last_status_code :: "int option"
  hmr_last_response_time_ms :: "int option"
  hmr_last_failure_reason :: "string option"
  hmr_last_error_message :: "string option"
  hmr_created_at :: string
  hmr_updated_at :: string

definition http_site_monitor_response_of :: "('s, 'p) app_config \<Rightarrow> site_monitor \<Rightarrow> http_site_monitor_response" where
  "http_site_monitor_response_of cfg m =
     \<lparr>hmr_id = sm_id m,
      hmr_site_id = sm_site_id m,
      hmr_monitor_type = ''http'',
      hmr_target_url = sm_target_url m,
      hmr_check_interval_seconds = sm_check_interval_seconds m,
      hmr_expected_status_code = sm_expected_status_code m,
      hmr_body_must_contain = sm_body_must_contain m,
      hmr_body_must_not_contain = sm_body_must_not_contain m,
      hmr_body_must_contain_texts = sm_body_must_contain_texts m,
      hmr_body_must_not_contain_texts = sm_body_must_not_contain_texts m,
      hmr_json_path_exists = sm_json_path_exists m,
      hmr_json_path_equals = sm_json_path_equals m,
      hmr_json_path_not_equals = sm_json_path_not_equals m,
      hmr_max_response_time_ms = sm_max_response_time_ms m,
      hmr_required_header_name = sm_required_header_name m,
      hmr_required_header_value = sm_required_header_value m,
      hmr_header_assertions = sm_header_assertions m,
      hmr_ssl_certificate_checks_enabled = sm_ssl_certificate_checks_enabled m,
      hmr_ssl_expiry_warning_days = sm_ssl_expiry_warning_days m,
      hmr_http_check_timeout_seconds_override = sm_http_check_timeout_seconds_override m,
      hmr_http_check_max_attempts_override = sm_http_check_max_attempts_override m,
      hmr_http_check_retry_delays_ms_override = sm_http_check_retry_delays_ms_override m,
      hmr_is_active = sm_is_active m,
      hmr_last_checked_at = map_option (cfg_rfc3339 cfg) (sm_last_checked_at m),
      hmr_last_successful_check_at = map_option (cfg_rfc3339 cfg) (sm_last_successful_check_at m),
      hmr_last_is_success = sm_last_is_success m,
      hmr_last_status_code = sm_last_status_code m,
      hmr_last_response_time_ms = sm_last_response_time_ms m,
      hmr_last_failure_reason = sm_last_failure_reason m,
      hmr_last_error_message = sm_last_error_message m,
      hmr_created_at = cfg_rfc3339 cfg (sm_created_at m),
      hmr_updated_at = cfg_rfc3339 cfg (sm_updated_at m)\<rparr>"

record ssl_site_monitor_response =
  slr_id :: id
  slr_site_id :: id
  slr_monitor_type :: string
  slr_target_url :: string
  slr_check_interval_seconds :: int
  slr_ssl_expiry_warning_days :: "int option"
  slr_http_check_timeout_seconds_override :: "int option"
  slr_http_check_max_attempts_override :: "int option"
  slr_http_check_retry_delays_ms_override :: "(int list) option"
  slr_is_active :: bool
  slr_last_checked_at :: "string option"
  slr_last_successful_check_at :: "string option"
  slr_last_is_success :: "bool option"
  slr_last_failure_reason :: "string option"
  slr_last_error_message :: "string option"
  slr_last_certificate_expires_at :: "string option"
  slr_last_certificate_days_remaining :: "int option"
  slr_last_certificate_issuer :: "string option"
  slr_last_certificate_subject :: "string option"
  slr_last_certificate_domain :: "string option"
  slr_created_at :: string
  slr_updated_at :: string

definition ssl_site_monitor_response_of :: "('s, 'p) app_config \<Rightarrow> site_monitor \<Rightarrow> ssl_site_monitor_response" where
  "ssl_site_monitor_response_of cfg m =
     \<lparr>slr_id = sm_id m,
      slr_site_id = sm_site_id m,
      slr_monitor_type = ''ssl'',
      slr_target_url = sm_target_url m,
      slr_check_interval_seconds = sm_check_interval_seconds m,
      slr_ssl_expiry_warning_days = sm_ssl_expiry_warning_days m,
      slr_http_check_timeout_seconds_override = sm_http_check_timeout_seconds_override m,
      slr_http_check_max_attempts_override = sm_http_check_max_attempts_override m,
      slr_http_check_retry_delays_ms_override = sm_http_check_retry_delays_ms_override m,
      slr_is_active = sm_is_active m,
      slr_last_checked_at = map_option (cfg_rfc3339 cfg) (sm_last_checked_at m),
      slr_last_successful_check_at = map_option (cfg_rfc3339 cfg) (sm_last_successful_check_at m),
      slr_last_is_success = sm_last_is_success m,
      slr_last_failure_reason = sm_last_failure_reason m,
      slr_last_error_message = sm_last_error_message m,
      slr_last_certificate_expires_at = map_option (cfg_rfc3339 cfg) (sm_last_certificate_expires_at m),
      slr_last_certificate_days_remaining = sm_last_certificate_days_remaining m,
      slr_last_certificate_issuer = sm_last_certificate_issuer m,
      slr_last_certificate_subject = sm_last_certificate_subject m,
      slr_last_certificate_domain = sm_last_certificate_domain m,
      slr_created_at = cfg_rfc3339 cfg (sm_created_at m),
      slr_updated_at = cfg_rfc3339 cfg (sm_updated_at m)\<rparr>"

record tcp_site_monitor_response =
  tcr_id :: id
  tcr_site_id :: id
  tcr_monitor_type :: string
  tcr_target_host :: string
  tcr_target_port :: int
  tcr_check_interval_seconds :: int
  tcr_max_connect_time_ms :: "int option"
  tcr_timeout_seconds_override :: "int option"
  tcr_max_attempts_override :: "int option"
  tcr_retry_delays_ms_override :: "(int list) option"
  tcr_is_active :: bool
  tcr_last_checked_at :: "string option"
  tcr_last_successful_check_at :: "string option"
  tcr_last_is_success :: "bool option"
  tcr_last_response_time_ms :: "int option"
  tcr_last_failure_reason :: "string option"
  tcr_last_error_message :: "string option"
  tcr_created_at :: string
  tcr_updated_at :: string

definition tcp_site_monitor_response_of :: "('s, 'p) app_config \<Rightarrow> site_monitor \<Rightarrow> tcp_site_monitor_response" where
  "tcp_site_monitor_response_of cfg m =
     \<lparr>tcr_id = sm_id m,
      tcr_site_id = sm_site_id m,
      tcr_monitor_type = ''tcp'',
      tcr_target_host = unwrap_or (sm_tcp_target_host m) [],
      tcr_target_port = unwrap_or (sm_tcp_target_port m) 0,
      tcr_check_interval_seconds = sm_check_interval_seconds m,
      tcr_max_connect_time_ms = sm_max_response_time_ms m,
      tcr_timeout_seconds_override = sm_http_check_timeout_seconds_override m,
      tcr_max_attempts_override = sm_http_check_max_attempts_override m,
      tcr_retry_delays_ms_override = sm_http_check_retry_delays_ms_override m,
      tcr_is_active = sm_is_active m,
      tcr_last_checked_at = map_option (cfg_rfc3339 cfg) (sm_last_checked_at m),
      tcr_last_successful_check_at = map_option (cfg_rfc3339 cfg) (sm_last_successful_check_at m),
      tcr_last_is_success = sm_last_is_success m,
      tcr_last_response_time_ms = sm_last_response_time_ms m,
      tcr_last_failure_reason = sm_last_failure_reason m,
      tcr_last_error_message = sm_last_error_message m,
      tcr_created_at = cfg_rfc3339 cfg (sm_created_at m),
      tcr_updated_at = cfg_rfc3339 cfg (sm_updated_at m)\<rparr>"

record dns_site_monitor_response =
  dnr_id :: id
  dnr_site_id :: id
  dnr_monitor_type :: string
  dnr_hostname :: string
  dnr_record_type :: string
  dnr_expected_value :: "string option"
  dnr_nameserver :: "string option"
  dnr_check_interval_seconds :: int
  dnr_timeout_seconds_override :: "int option"
  dnr_max_attempts_override :: "int option"
  dnr_retry_delays_ms_override :: "(int list) option"
  dnr_is_active :: bool
  dnr_last_checked_at :: "string option"
  dnr_last_successful_check_at :: "string option"
  dnr_last_is_success :: "bool option"
  dnr_last_response_time_ms :: "int option"
  dnr_last_failure_reason :: "string option"
  dnr_last_error_message :: "string option"
  dnr_created_at :: string
  dnr_updated_at :: string

definition dns_site_monitor_response_of :: "('s, 'p) app_config \<Rightarrow> site_monitor \<Rightarrow> dns_site_monitor_response" where
  "dns_site_monitor_response_of cfg m =
     \<lparr>dnr_id = sm_id m,
      dnr_site_id = sm_site_id m,
      dnr_monitor_type = ''dns'',
      dnr_hostname = unwrap_or (sm_dns_hostname m) [],
      dnr_record_type = unwrap_or (sm_dns_record_type m) [],
      dnr_expected_value = sm_dns_expected_value m,
      dnr_nameserver = sm_dns_nameserver m,
      dnr_check_interval_seconds = sm_check_interval_seconds m,
      dnr_timeout_seconds_override = sm_http_check_timeout_seconds_override m,
      dnr_max_attempts_override = sm_http_check_max_attempts_override m,
      dnr_retry_delays_ms_override = sm_http_check_retry_delays_ms_override m,
      dnr_is_active = sm_is_active m,
      dnr_last_checked_at = map_option (cfg_rfc3339 cfg) (sm_last_checked_at m),
      dnr_last_successful_check_at = map_option (cfg_rfc3339 cfg) (sm_last_successful_check_at m),
      dnr_last_is_success = sm_last_is_success m,
      dnr_last_response_time_ms = sm_last_response_time_ms m,
      dnr_last_failure_reason = sm_last_failure_reason m,
      dnr_last_error_message = sm_last_error_message m,
      dnr_created_at = cfg_rfc3339 cfg (sm_created_at m),
      dnr_updated_at = cfg_rfc3339 cfg (sm_updated_at m)\<rparr>"

record heartbeat_site_monitor_response =
  hbr_id :: id
  hbr_site_id :: id
  hbr_monitor_type :: string
  hbr_ping_path :: string
  hbr_check_interval_seconds :: int
  hbr_heartbeat_grace_seconds :: "int option"
  hbr_is_active :: bool
  hbr_last_heartbeat_received_at :: "string option"
  hbr_last_checked_at :: "string option"
  hbr_last_successful_check_at :: "string option"
  hbr_last_is_success :: "bool option"
  hbr_last_failure_reason :: "string option"
  hbr_last_error_message :: "string option"
  hbr_created_at :: string
  hbr_updated_at :: string

definition heartbeat_site_monitor_response_of :: "('s, 'p) app_config \<Rightarrow> site_monitor \<Rightarrow> heartbeat_site_monitor_response" where
  "heartbeat_site_monitor_response_of cfg m =
     \<lparr>hbr_id = sm_id m,
      hbr_site_id = sm_site_id m,
      hbr_monitor_type = ''heartbeat'',
      hbr_ping_path = sm_target_url m,
      hbr_check_interval_seconds = sm_check_interval_seconds m,
      hbr_heartbeat_grace_seconds = sm_heartbeat_grace_seconds m,
      hbr_is_active = sm_is_active m,
      hbr_last_heartbeat_received_at = map_option (cfg_rfc3339 cfg) (sm_last_heartbeat_received_at m),
      hbr_last_checked_at = map_option (cfg_rfc3339 cfg) (sm_last_checked_at m),
      hbr_last_successful_check_at = map_option (cfg_rfc3339 cfg) (sm_last_successful_check_at m),
      hbr_last_is_success = sm_last_is_success m,
      hbr_last_failure_reason = sm_last_failure_reason m,
      hbr_last_error_message = sm_last_error_message m,
      hbr_created_at = cfg_rfc3339 cfg (sm_created_at m),
      hbr_updated_at = cfg_rfc3339 cfg (sm_updated_at m)\<rparr>"

end
