(* ===== verification/Monitor_Payloads.thy ===== *)
theory Monitor_Payloads
  imports Monitor_Views Probe_Checkers
begin

text \<open>
  What a monitor may be configured to: the requests of \<^verbatim>\<open>src/api/routes/sites/monitors/*.rs\<close>, their
  validation and normalisation, and the parameters the statements get. The URL parser, the resolver and the
  syntax of header names are the environment; a lookup that times out finds nothing.
\<close>

record monitor_env =
  me_parse_url :: "string \<Rightarrow> parsed_url option"
  me_lookup_host :: "string \<Rightarrow> socket_addr list option"
  me_valid_header_name :: "string \<Rightarrow> bool"
  me_allow_private_targets :: bool

section \<open>Steps\<close>

text \<open>The first condition that holds rejects the request with its message.\<close>

definition reject :: "(bool \<times> string) list \<Rightarrow> api_error + unit" where
  "reject problems = (case find fst problems of None \<Rightarrow> Inr () | Some (_, message) \<Rightarrow> Inl (BadRequest message))"

definition blank :: "string \<Rightarrow> bool" where
  "blank s \<longleftrightarrow> trim s = []"

definition blank_option :: "string option \<Rightarrow> bool" where
  "blank_option v = (case v of Some s \<Rightarrow> blank s | None \<Rightarrow> False)"

definition cast_i32 :: "nat option \<Rightarrow> int option" where
  "cast_i32 = map_option (\<lambda>v. as_i32 (int v))"

definition cast_delays :: "nat list option \<Rightarrow> int list option" where
  "cast_delays = map_option (map (\<lambda>v. as_i64 (int v)))"

section \<open>Targets\<close>

definition validate_monitor_target_url :: "monitor_env \<Rightarrow> string \<Rightarrow> bool \<Rightarrow> api_error + unit" where
  "validate_monitor_target_url env target_url allow_private =
     and_then (ok_or (BadRequest ''target_url is not a valid URL'') (me_parse_url env target_url)) (\<lambda>url.
     if pu_scheme url \<noteq> ''http'' \<and> pu_scheme url \<noteq> ''https''
     then Inl (BadRequest (''target_url scheme '' @ quoted (pu_scheme url) @ '' is not allowed; use http or https''))
     else and_then (ok_or (BadRequest ''target_url must have a host'') (pu_host url)) (\<lambda>host.
       let internal = ''target_url must not resolve to a loopback, private, or link-local address'' in
       case parse_ip host of
         Some ip \<Rightarrow> reject [(\<not> allow_private \<and> \<not> check_ip_is_public ip, internal)]
       | None \<Rightarrow>
           and_then (ok_or (BadRequest ''target_url hostname could not be resolved'')
             (me_lookup_host env (host @ '':'' @ show_nat (unwrap_or (pu_port_or_default url) 80)))) (\<lambda>resolved.
           reject (map (\<lambda>addr. (\<not> allow_private \<and> \<not> check_ip_is_public (fst addr), internal)) resolved))))"

definition validate_tcp_target :: "monitor_env \<Rightarrow> string \<Rightarrow> nat \<Rightarrow> api_error + unit" where
  "validate_tcp_target env host port =
     (let host = trim host in
      case parse_ip host of
        Some ip \<Rightarrow> reject [(\<not> check_ip_is_public ip, ''target_host must be a public IP address'')]
      | None \<Rightarrow>
          and_then (ok_or (BadRequest ''target_host could not be resolved'')
            (me_lookup_host env (host @ '':'' @ show_nat port))) (\<lambda>resolved.
          reject (map (\<lambda>addr. (\<not> check_ip_is_public (fst addr), ''target_host resolves to a non-public IP address''))
            resolved)))"

definition validate_ssl_certificate_check_target_url :: "monitor_env \<Rightarrow> string \<Rightarrow> bool \<Rightarrow> api_error + unit" where
  "validate_ssl_certificate_check_target_url env target_url ssl_certificate_checks_enabled =
     (if \<not> ssl_certificate_checks_enabled then Inr ()
      else and_then (ok_or (BadRequest ''target_url is not a valid URL'') (me_parse_url env target_url)) (\<lambda>parsed.
        reject [(pu_scheme parsed \<noteq> ''https'', ''ssl_certificate_checks_enabled requires an https target_url'')]))"

definition normalize_ssl_expiry_warning_days :: "bool \<Rightarrow> nat option \<Rightarrow> api_error + int option" where
  "normalize_ssl_expiry_warning_days enabled days =
     (if \<not> enabled then
        if days \<noteq> None
        then Inl (BadRequest ''ssl_expiry_warning_days requires ssl_certificate_checks_enabled to be true'')
        else Inr None
      else
        let warning_days = unwrap_or days 14 in
        if warning_days \<le> 7 then Inl (BadRequest ''ssl_expiry_warning_days must be greater than 7'')
        else if 2147483647 < warning_days then Inl (BadRequest ''ssl_expiry_warning_days is too large'')
        else Inr (Some (as_i32 (int warning_days))))"

section \<open>Assertions\<close>

definition normalize_http_assertion_text :: "string option \<Rightarrow> string \<Rightarrow> api_error + string option" where
  "normalize_http_assertion_text value_text field_name =
     (case map_option trim value_text of
        Some v \<Rightarrow> if v = [] then Inl (BadRequest (field_name @ '' must not be blank'')) else Inr (Some v)
      | None \<Rightarrow> Inr None)"

definition normalize_http_assertion_texts :: "string list option \<Rightarrow> string \<Rightarrow> api_error + string list option" where
  "normalize_http_assertion_texts values field_name =
     (case values of
        None \<Rightarrow> Inr None
      | Some vs \<Rightarrow>
          if vs = [] then Inl (BadRequest (field_name @ '' must not be empty''))
          else and_then (try_map (\<lambda>v. if trim v = [] then Inl (BadRequest (field_name @ '' must not contain blank values''))
                                      else Inr (trim v)) vs) (\<lambda>normalized. Inr (Some normalized)))"

definition normalize_json_path_exists :: "string list option \<Rightarrow> string \<Rightarrow> api_error + string list option" where
  "normalize_json_path_exists values field_name =
     (case values of
        None \<Rightarrow> Inr None
      | Some vs \<Rightarrow>
          if vs = [] then Inl (BadRequest (field_name @ '' must not be empty''))
          else and_then (try_map (\<lambda>v. if trim v = [] then Inl (BadRequest (field_name @ '' must not contain blank values''))
                                      else Inr (trim v)) vs) (\<lambda>normalized. Inr (Some normalized)))"

definition normalize_json_path_value_assertions ::
    "json_path_value_assertion list option \<Rightarrow> string \<Rightarrow> api_error + json_path_value_assertion list option" where
  "normalize_json_path_value_assertions assertions field_name =
     (case assertions of
        None \<Rightarrow> Inr None
      | Some as \<Rightarrow>
          if as = [] then Inl (BadRequest (field_name @ '' must not be empty''))
          else and_then (try_map (\<lambda>a.
              if trim (jpva_path a) = [] then Inl (BadRequest (field_name @ '' paths must not be blank''))
              else Inr \<lparr>jpva_path = trim (jpva_path a), jpva_value = jpva_value a\<rparr>) as)
            (\<lambda>normalized. Inr (Some normalized)))"

definition normalize_http_assertion_header_name :: "monitor_env \<Rightarrow> string option \<Rightarrow> api_error + string option" where
  "normalize_http_assertion_header_name env value_text =
     (case map_option trim value_text of
        None \<Rightarrow> Inr None
      | Some v \<Rightarrow>
          if v = [] then Inl (BadRequest ''required_header_name must not be blank'')
          else if \<not> me_valid_header_name env v
          then Inl (BadRequest ''required_header_name is not a valid HTTP header name'')
          else Inr (Some v))"

definition normalize_header_assertion :: "monitor_env \<Rightarrow> http_header_assertion \<Rightarrow> api_error + http_header_assertion" where
  "normalize_header_assertion env a =
     (let name = trim (hha_name a) in
      and_then (reject
        [(name = [], ''header_assertions names must not be blank''),
         (\<not> me_valid_header_name env name, ''header_assertions contain an invalid HTTP header name'')]) (\<lambda>_.
      and_then (normalize_http_assertion_text (hha_equals a) ''equals'') (\<lambda>equals.
      and_then (normalize_http_assertion_text (hha_contains a) ''contains'') (\<lambda>contains.
      and_then (reject
        [(equals \<noteq> None \<and> contains \<noteq> None, ''header_assertions may specify only one of equals or contains'')]) (\<lambda>_.
      Inr \<lparr>hha_name = name, hha_equals = equals, hha_contains = contains\<rparr>)))))"

definition normalize_http_header_assertions ::
    "monitor_env \<Rightarrow> http_header_assertion list option \<Rightarrow> api_error + http_header_assertion list option" where
  "normalize_http_header_assertions env assertions =
     (case assertions of
        None \<Rightarrow> Inr None
      | Some as \<Rightarrow>
          if as = [] then Inl (BadRequest ''header_assertions must not be empty'')
          else and_then (try_map (normalize_header_assertion env) as) (\<lambda>normalized. Inr (Some normalized)))"

section \<open>Overrides of the check policy\<close>

definition delay_problems :: "nat list option \<Rightarrow> (bool \<times> string) list" where
  "delay_problems delays =
     (case delays of
        None \<Rightarrow> []
      | Some ds \<Rightarrow>
          [(ds = [], ''http_check_retry_delays_ms_override must not be empty''),
           (0 \<in> set ds, ''http_check_retry_delays_ms_override values must be greater than 0''),
           (list_ex (\<lambda>v. 9223372036854775807 < v) ds, ''http_check_retry_delays_ms_override values are too large'')])"

definition policy_override_problems :: "nat option \<Rightarrow> nat option \<Rightarrow> nat list option \<Rightarrow> (bool \<times> string) list" where
  "policy_override_problems timeout max_attempts delays =
     [(timeout = Some 0, ''http_check_timeout_seconds_override must be greater than 0''),
      (max_attempts = Some 0, ''http_check_max_attempts_override must be greater than 0'')] @
     delay_problems delays @
     [(case (max_attempts, delays) of (Some n, Some ds) \<Rightarrow> length ds < sat_sub_u64 n 1 | _ \<Rightarrow> False,
       ''http_check_retry_delays_ms_override must provide at least max_attempts - 1 values'')]"

section \<open>HTTP monitors\<close>

record upsert_http_site_monitor_request =
  uhm_target_url :: string
  uhm_check_interval_seconds :: int
  uhm_expected_status_code :: int
  uhm_body_must_contain :: "string option"
  uhm_body_must_not_contain :: "string option"
  uhm_body_must_contain_texts :: "(string list) option"
  uhm_body_must_not_contain_texts :: "(string list) option"
  uhm_json_path_exists :: "(string list) option"
  uhm_json_path_equals :: "(json_path_value_assertion list) option"
  uhm_json_path_not_equals :: "(json_path_value_assertion list) option"
  uhm_max_response_time_ms :: "nat option"
  uhm_required_header_name :: "string option"
  uhm_required_header_value :: "string option"
  uhm_header_assertions :: "(http_header_assertion list) option"
  uhm_ssl_certificate_checks_enabled :: "bool option"
  uhm_ssl_expiry_warning_days :: "nat option"
  uhm_http_check_timeout_seconds_override :: "nat option"
  uhm_http_check_max_attempts_override :: "nat option"
  uhm_http_check_retry_delays_ms_override :: "(nat list) option"
  uhm_is_active :: bool

record normalized_http_monitor_payload =
  nhp_target_url :: string
  nhp_body_must_contain :: "string option"
  nhp_body_must_not_contain :: "string option"
  nhp_body_must_contain_texts :: "(string list) option"
  nhp_body_must_not_contain_texts :: "(string list) option"
  nhp_json_path_exists :: "(string list) option"
  nhp_json_path_equals :: "(json_path_value_assertion list) option"
  nhp_json_path_not_equals :: "(json_path_value_assertion list) option"
  nhp_required_header_name :: "string option"
  nhp_required_header_value :: "string option"
  nhp_header_assertions :: "(http_header_assertion list) option"
  nhp_ssl_certificate_checks_enabled :: bool
  nhp_ssl_expiry_warning_days :: "int option"
  nhp_retry_delays_override :: "(int list) option"

definition list_problems :: "string \<Rightarrow> string \<Rightarrow> ('a \<Rightarrow> string) \<Rightarrow> 'a list option \<Rightarrow> (bool \<times> string) list" where
  "list_problems field_name complaint text values =
     (case values of
        None \<Rightarrow> []
      | Some vs \<Rightarrow> [(vs = [], field_name @ '' must not be empty''), (list_ex (\<lambda>v. blank (text v)) vs, field_name @ complaint)])"

definition header_assertion_problems :: "monitor_env \<Rightarrow> http_header_assertion \<Rightarrow> (bool \<times> string) list" where
  "header_assertion_problems env a =
     [(blank (hha_name a), ''header_assertions names must not be blank''),
      (\<not> me_valid_header_name env (trim (hha_name a)), ''header_assertions contain an invalid HTTP header name''),
      (blank_option (hha_equals a), ''header_assertions equals values must not be blank''),
      (blank_option (hha_contains a), ''header_assertions contains values must not be blank''),
      (hha_equals a \<noteq> None \<and> hha_contains a \<noteq> None,
       ''header_assertions may specify only one of equals or contains'')]"

definition validate_http_monitor_policy_overrides ::
    "monitor_env \<Rightarrow> upsert_http_site_monitor_request \<Rightarrow> api_error + unit" where
  "validate_http_monitor_policy_overrides env p = reject
     ([(blank_option (uhm_body_must_contain p), ''body_must_contain must not be blank''),
       (blank_option (uhm_body_must_not_contain p), ''body_must_not_contain must not be blank'')] @
      list_problems ''body_must_contain_texts'' '' must not contain blank values'' id (uhm_body_must_contain_texts p) @
      list_problems ''body_must_not_contain_texts'' '' must not contain blank values'' id (uhm_body_must_not_contain_texts p) @
      list_problems ''json_path_exists'' '' must not contain blank values'' id (uhm_json_path_exists p) @
      list_problems ''json_path_equals'' '' paths must not be blank'' jpva_path (uhm_json_path_equals p) @
      list_problems ''json_path_not_equals'' '' paths must not be blank'' jpva_path (uhm_json_path_not_equals p) @
      [(uhm_max_response_time_ms p = Some 0, ''max_response_time_ms must be greater than 0''),
       (blank_option (uhm_required_header_name p), ''required_header_name must not be blank''),
       (blank_option (uhm_required_header_value p), ''required_header_value must not be blank''),
       (uhm_required_header_name p = None \<and> uhm_required_header_value p \<noteq> None,
        ''required_header_name is required when required_header_value is provided'')] @
      (case uhm_header_assertions p of
         None \<Rightarrow> []
       | Some as \<Rightarrow> (as = [], ''header_assertions must not be empty'') # concat (map (header_assertion_problems env) as)) @
      [(case uhm_max_response_time_ms p of Some v \<Rightarrow> 2147483647 < v | None \<Rightarrow> False,
        ''max_response_time_ms is too large'')] @
      policy_override_problems (uhm_http_check_timeout_seconds_override p) (uhm_http_check_max_attempts_override p)
        (uhm_http_check_retry_delays_ms_override p))"

definition validate_and_normalize_http_monitor_payload ::
    "monitor_env \<Rightarrow> upsert_http_site_monitor_request \<Rightarrow> bool \<Rightarrow> api_error + normalized_http_monitor_payload" where
  "validate_and_normalize_http_monitor_payload env p allow_private =
     (let target_url = trim (uhm_target_url p); ssl_enabled = unwrap_or (uhm_ssl_certificate_checks_enabled p) False in
      and_then (reject [(target_url = [], ''target_url is required'')]) (\<lambda>_.
      and_then (validate_monitor_target_url env target_url allow_private) (\<lambda>_.
      and_then (reject
        [(uhm_check_interval_seconds p < 30, ''check_interval_seconds must be at least 30''),
         (\<not> (100 \<le> uhm_expected_status_code p \<and> uhm_expected_status_code p \<le> 599),
          ''expected_status_code must be between 100 and 599'')]) (\<lambda>_.
      and_then (validate_http_monitor_policy_overrides env p) (\<lambda>_.
      and_then (validate_ssl_certificate_check_target_url env target_url ssl_enabled) (\<lambda>_.
      and_then (normalize_ssl_expiry_warning_days ssl_enabled (uhm_ssl_expiry_warning_days p)) (\<lambda>ssl_expiry_warning_days.
      and_then (normalize_http_assertion_text (uhm_body_must_contain p) ''body_must_contain'') (\<lambda>body_must_contain.
      and_then (normalize_http_assertion_text (uhm_body_must_not_contain p) ''body_must_not_contain'') (\<lambda>body_must_not_contain.
      and_then (normalize_http_assertion_texts (uhm_body_must_contain_texts p) ''body_must_contain_texts'') (\<lambda>contain_texts.
      and_then (normalize_http_assertion_texts (uhm_body_must_not_contain_texts p) ''body_must_not_contain_texts'')
        (\<lambda>not_contain_texts.
      and_then (normalize_json_path_exists (uhm_json_path_exists p) ''json_path_exists'') (\<lambda>json_path_exists.
      and_then (normalize_json_path_value_assertions (uhm_json_path_equals p) ''json_path_equals'') (\<lambda>json_path_equals.
      and_then (normalize_json_path_value_assertions (uhm_json_path_not_equals p) ''json_path_not_equals'')
        (\<lambda>json_path_not_equals.
      and_then (normalize_http_assertion_header_name env (uhm_required_header_name p)) (\<lambda>required_header_name.
      and_then (normalize_http_assertion_text (uhm_required_header_value p) ''required_header_value'')
        (\<lambda>required_header_value.
      and_then (normalize_http_header_assertions env (uhm_header_assertions p)) (\<lambda>header_assertions.
      Inr \<lparr>nhp_target_url = target_url,
           nhp_body_must_contain = body_must_contain,
           nhp_body_must_not_contain = body_must_not_contain,
           nhp_body_must_contain_texts = contain_texts,
           nhp_body_must_not_contain_texts = not_contain_texts,
           nhp_json_path_exists = json_path_exists,
           nhp_json_path_equals = json_path_equals,
           nhp_json_path_not_equals = json_path_not_equals,
           nhp_required_header_name = required_header_name,
           nhp_required_header_value = required_header_value,
           nhp_header_assertions = header_assertions,
           nhp_ssl_certificate_checks_enabled = ssl_enabled,
           nhp_ssl_expiry_warning_days = ssl_expiry_warning_days,
           nhp_retry_delays_override = cast_delays (uhm_http_check_retry_delays_ms_override p)\<rparr>)))))))))))))))))"

text \<open>The parameters both statements are given; \<open>as i32\<close> keeps the low 32 bits of a number.\<close>

definition http_params :: "upsert_http_site_monitor_request \<Rightarrow> normalized_http_monitor_payload \<Rightarrow> http_monitor_params" where
  "http_params p n =
     \<lparr>hmp_target_url = nhp_target_url n,
      hmp_check_interval_seconds = uhm_check_interval_seconds p,
      hmp_expected_status_code = uhm_expected_status_code p,
      hmp_body_must_contain = nhp_body_must_contain n,
      hmp_body_must_not_contain = nhp_body_must_not_contain n,
      hmp_body_must_contain_texts = nhp_body_must_contain_texts n,
      hmp_body_must_not_contain_texts = nhp_body_must_not_contain_texts n,
      hmp_json_path_exists = nhp_json_path_exists n,
      hmp_json_path_equals = nhp_json_path_equals n,
      hmp_json_path_not_equals = nhp_json_path_not_equals n,
      hmp_max_response_time_ms = cast_i32 (uhm_max_response_time_ms p),
      hmp_required_header_name = nhp_required_header_name n,
      hmp_required_header_value = nhp_required_header_value n,
      hmp_header_assertions = nhp_header_assertions n,
      hmp_ssl_certificate_checks_enabled = nhp_ssl_certificate_checks_enabled n,
      hmp_ssl_expiry_warning_days = nhp_ssl_expiry_warning_days n,
      hmp_http_check_timeout_seconds_override = cast_i32 (uhm_http_check_timeout_seconds_override p),
      hmp_http_check_max_attempts_override = cast_i32 (uhm_http_check_max_attempts_override p),
      hmp_http_check_retry_delays_ms_override = nhp_retry_delays_override n,
      hmp_is_active = uhm_is_active p\<rparr>"

section \<open>Certificate monitors\<close>

record upsert_ssl_site_monitor_request =
  usl_target_url :: string
  usl_check_interval_seconds :: int
  usl_ssl_expiry_warning_days :: "nat option"
  usl_http_check_timeout_seconds_override :: "nat option"
  usl_http_check_max_attempts_override :: "nat option"
  usl_http_check_retry_delays_ms_override :: "(nat list) option"
  usl_is_active :: bool

record normalized_ssl_monitor_payload =
  nsp_target_url :: string
  nsp_ssl_expiry_warning_days :: "int option"
  nsp_retry_delays_override :: "(int list) option"

definition validate_ssl_monitor_policy_overrides :: "upsert_ssl_site_monitor_request \<Rightarrow> api_error + unit" where
  "validate_ssl_monitor_policy_overrides p = reject
     (policy_override_problems (usl_http_check_timeout_seconds_override p) (usl_http_check_max_attempts_override p)
        (usl_http_check_retry_delays_ms_override p))"

definition validate_and_normalize_ssl_monitor_payload ::
    "monitor_env \<Rightarrow> upsert_ssl_site_monitor_request \<Rightarrow> bool \<Rightarrow> api_error + normalized_ssl_monitor_payload" where
  "validate_and_normalize_ssl_monitor_payload env p allow_private =
     (let target_url = trim (usl_target_url p) in
      and_then (reject [(target_url = [], ''target_url is required'')]) (\<lambda>_.
      and_then (validate_monitor_target_url env target_url allow_private) (\<lambda>_.
      and_then (validate_ssl_certificate_check_target_url env target_url True) (\<lambda>_.
      and_then (reject [(usl_check_interval_seconds p < 30, ''check_interval_seconds must be at least 30'')]) (\<lambda>_.
      and_then (validate_ssl_monitor_policy_overrides p) (\<lambda>_.
      and_then (normalize_ssl_expiry_warning_days True (usl_ssl_expiry_warning_days p)) (\<lambda>ssl_expiry_warning_days.
      Inr \<lparr>nsp_target_url = target_url,
           nsp_ssl_expiry_warning_days = ssl_expiry_warning_days,
           nsp_retry_delays_override = cast_delays (usl_http_check_retry_delays_ms_override p)\<rparr>)))))))"

definition ssl_params :: "upsert_ssl_site_monitor_request \<Rightarrow> normalized_ssl_monitor_payload \<Rightarrow> ssl_monitor_params" where
  "ssl_params p n =
     \<lparr>smp_target_url = nsp_target_url n,
      smp_check_interval_seconds = usl_check_interval_seconds p,
      smp_ssl_expiry_warning_days = nsp_ssl_expiry_warning_days n,
      smp_http_check_timeout_seconds_override = cast_i32 (usl_http_check_timeout_seconds_override p),
      smp_http_check_max_attempts_override = cast_i32 (usl_http_check_max_attempts_override p),
      smp_http_check_retry_delays_ms_override = nsp_retry_delays_override n,
      smp_is_active = usl_is_active p\<rparr>"

section \<open>TCP monitors\<close>

record upsert_tcp_site_monitor_request =
  utm_target_host :: string
  utm_target_port :: nat
  utm_check_interval_seconds :: int
  utm_max_connect_time_ms :: "nat option"
  utm_timeout_seconds_override :: "nat option"
  utm_max_attempts_override :: "nat option"
  utm_retry_delays_ms_override :: "(nat list) option"
  utm_is_active :: bool

definition validate_and_normalize_tcp_monitor_payload :: "upsert_tcp_site_monitor_request \<Rightarrow> api_error + int list option" where
  "validate_and_normalize_tcp_monitor_payload p =
     and_then (reject
       [(blank (utm_target_host p), ''target_host is required''),
        (utm_target_port p = 0, ''target_port must be between 1 and 65535''),
        (utm_check_interval_seconds p < 30, ''check_interval_seconds must be at least 30''),
        (utm_timeout_seconds_override p = Some 0, ''timeout_seconds_override must be greater than 0''),
        (utm_max_attempts_override p = Some 0, ''max_attempts_override must be greater than 0'')])
       (\<lambda>_. Inr (cast_delays (utm_retry_delays_ms_override p)))"

definition tcp_params :: "upsert_tcp_site_monitor_request \<Rightarrow> int list option \<Rightarrow> tcp_monitor_params" where
  "tcp_params p retry_delays =
     \<lparr>tmp_target_host = trim (utm_target_host p),
      tmp_target_port = int (utm_target_port p),
      tmp_check_interval_seconds = utm_check_interval_seconds p,
      tmp_max_connect_time_ms = cast_i32 (utm_max_connect_time_ms p),
      tmp_timeout_seconds_override = cast_i32 (utm_timeout_seconds_override p),
      tmp_max_attempts_override = cast_i32 (utm_max_attempts_override p),
      tmp_retry_delays_ms_override = retry_delays,
      tmp_is_active = utm_is_active p\<rparr>"

section \<open>DNS monitors\<close>

record upsert_dns_site_monitor_request =
  udm_hostname :: string
  udm_record_type :: string
  udm_expected_value :: "string option"
  udm_nameserver :: "string option"
  udm_check_interval_seconds :: int
  udm_timeout_seconds_override :: "nat option"
  udm_max_attempts_override :: "nat option"
  udm_retry_delays_ms_override :: "(nat list) option"
  udm_is_active :: bool

definition validate_and_normalize_dns_monitor_payload :: "upsert_dns_site_monitor_request \<Rightarrow> api_error + int list option" where
  "validate_and_normalize_dns_monitor_payload p =
     and_then (reject
       [(blank (udm_hostname p), ''hostname is required''),
        (\<not> is_valid_record_type (trim (udm_record_type p)), ''record_type must be one of: A, AAAA, CNAME, MX, TXT, NS''),
        (udm_check_interval_seconds p < 30, ''check_interval_seconds must be at least 30''),
        (udm_timeout_seconds_override p = Some 0, ''timeout_seconds_override must be greater than 0''),
        (udm_max_attempts_override p = Some 0, ''max_attempts_override must be greater than 0''),
        (case udm_nameserver p of Some ns \<Rightarrow> parse_ip (trim ns) = None | None \<Rightarrow> False,
         ''nameserver must be an IP address (e.g. 8.8.8.8)'')])
       (\<lambda>_. Inr (cast_delays (udm_retry_delays_ms_override p)))"

definition dns_params :: "upsert_dns_site_monitor_request \<Rightarrow> int list option \<Rightarrow> dns_monitor_params" where
  "dns_params p retry_delays =
     \<lparr>dmp_hostname = trim (udm_hostname p),
      dmp_record_type = to_uppercase (trim (udm_record_type p)),
      dmp_expected_value = udm_expected_value p,
      dmp_nameserver = udm_nameserver p,
      dmp_check_interval_seconds = udm_check_interval_seconds p,
      dmp_timeout_seconds_override = cast_i32 (udm_timeout_seconds_override p),
      dmp_max_attempts_override = cast_i32 (udm_max_attempts_override p),
      dmp_retry_delays_ms_override = retry_delays,
      dmp_is_active = udm_is_active p\<rparr>"

section \<open>Heartbeat monitors\<close>

record upsert_heartbeat_site_monitor_request =
  uhb_check_interval_seconds :: int
  uhb_heartbeat_grace_seconds :: "nat option"
  uhb_is_active :: bool

definition validate_and_normalize_heartbeat_monitor_payload ::
    "upsert_heartbeat_site_monitor_request \<Rightarrow> api_error + int option" where
  "validate_and_normalize_heartbeat_monitor_payload p =
     and_then (reject [(uhb_check_interval_seconds p < 30, ''check_interval_seconds must be at least 30'')]) (\<lambda>_.
     case uhb_heartbeat_grace_seconds p of
       None \<Rightarrow> Inr None
     | Some v \<Rightarrow>
         if 2147483647 < v then Inl (BadRequest ''heartbeat_grace_seconds is too large'') else Inr (Some (int v)))"

definition heartbeat_params :: "upsert_heartbeat_site_monitor_request \<Rightarrow> int option \<Rightarrow> heartbeat_monitor_update_params" where
  "heartbeat_params p grace =
     \<lparr>hbu_check_interval_seconds = uhb_check_interval_seconds p,
      hbu_heartbeat_grace_seconds = grace,
      hbu_is_active = uhb_is_active p\<rparr>"

definition heartbeat_ping_path :: "string \<Rightarrow> string" where
  "heartbeat_ping_path heartbeat_token = ''/v1/heartbeat/'' @ heartbeat_token"

end
