(* ===== verification/Monitor_Routes.thy ===== *)
theory Monitor_Routes
  imports Monitor_Payloads
begin

text \<open>
  The endpoints of the monitors (\<^verbatim>\<open>src/api/routes/sites/monitors/*.rs\<close>). The five types have the same seven
  handlers, which differ in their statements and messages: each is an instance of one of the calls of the
  first section. The permissions are those of the identity the request was authenticated with.
\<close>

section \<open>The handlers of one type\<close>

record 'm site_monitoring_response =
  smg_site :: site_response
  smg_monitors :: "'m list"

definition site_found :: "id \<Rightarrow> ('s, 'p, site) handler" where
  "site_found site_id =
     svc_bind (db_query (get_site_by_id site_id)) (\<lambda>s. svc_result (ok_or (NotFound ''site not found'') s))"

definition get_other_monitors ::
    "('s, 'p) app_config \<Rightarrow> (site_monitor \<Rightarrow> 'm) \<Rightarrow> (id \<Rightarrow> db \<Rightarrow> site_monitor list) \<Rightarrow> permission_set \<Rightarrow> id \<Rightarrow>
      ('s, 'p, 'm site_monitoring_response) handler" where
  "get_other_monitors cfg response list_monitors perms site_id =
     svc_bind (demand perms SiteMonitorsRead) (\<lambda>_.
     svc_bind (site_found site_id) (\<lambda>s.
     svc_bind (db_query (list_http_monitors_by_site_id site_id)) (\<lambda>http_monitors.
     svc_bind (db_query (list_monitors site_id)) (\<lambda>monitors.
     svc_return
       \<lparr>smg_site = from_site cfg s (http_monitor_status http_monitors) False ''not_configured'',
        smg_monitors = map response monitors\<rparr>))))"

definition close_incidents_of :: "timestamp \<Rightarrow> id \<Rightarrow> ('s, 'p, unit) handler" where
  "close_incidents_of now monitor_id =
     svc_bind (db_call (resolve_open_incidents_for_monitor now monitor_id MonitoringDisabled)) (\<lambda>_. svc_return ())"

definition close_unless_active :: "timestamp \<Rightarrow> bool \<Rightarrow> id \<Rightarrow> ('s, 'p, unit) handler" where
  "close_unless_active now is_active monitor_id =
     (if is_active then svc_return () else close_incidents_of now monitor_id)"

definition upsert_monitor_call ::
    "timestamp \<Rightarrow> (site_monitor \<Rightarrow> 'm) \<Rightarrow> permission_set \<Rightarrow> id \<Rightarrow> bool \<Rightarrow> api_error + 'n \<Rightarrow>
      ('n \<Rightarrow> ('s, 'p, site_monitor) handler) \<Rightarrow> ('s, 'p, 'm) handler" where
  "upsert_monitor_call now response perms site_id is_active payload save =
     svc_bind (demand perms SiteMonitorsCreate) (\<lambda>_.
     svc_bind (demand perms SiteMonitorsUpdate) (\<lambda>_.
     svc_bind (svc_result payload) (\<lambda>n.
     svc_bind (site_found site_id) (\<lambda>_.
     svc_bind (save n) (\<lambda>monitor.
     svc_bind (close_unless_active now is_active (sm_id monitor)) (\<lambda>_.
     svc_return (response monitor)))))))"

definition update_monitor_call ::
    "timestamp \<Rightarrow> (site_monitor \<Rightarrow> 'm) \<Rightarrow> permission_set \<Rightarrow> id \<Rightarrow> id \<Rightarrow> bool \<Rightarrow> api_error + 'n \<Rightarrow>
      ('n \<Rightarrow> db \<Rightarrow> site_monitor option) \<Rightarrow> string \<Rightarrow> ('n \<Rightarrow> (db, site_monitor option) stmt) \<Rightarrow> string \<Rightarrow>
      ('s, 'p, 'm) handler" where
  "update_monitor_call now response perms site_id monitor_id is_active payload existing taken update missing =
     svc_bind (demand perms SiteMonitorsUpdate) (\<lambda>_.
     svc_bind (svc_result payload) (\<lambda>n.
     svc_bind (site_found site_id) (\<lambda>_.
     svc_bind (db_query (existing n)) (\<lambda>found.
     svc_bind (svc_result (reject [(case found of Some m \<Rightarrow> sm_id m \<noteq> monitor_id | None \<Rightarrow> False, taken)])) (\<lambda>_.
     svc_bind (db_call (update n)) (\<lambda>updated.
     svc_bind (svc_result (ok_or (NotFound missing) updated)) (\<lambda>monitor.
     svc_bind (close_unless_active now is_active monitor_id) (\<lambda>_.
     svc_return (response monitor)))))))))"

definition disable_monitors_call ::
    "timestamp \<Rightarrow> permission_set \<Rightarrow> id \<Rightarrow> (db, site_monitor list) stmt \<Rightarrow> string \<Rightarrow>
      ('s, 'p, bool) handler" where
  "disable_monitors_call now perms site_id disable missing =
     svc_bind (demand perms SiteMonitorsDelete) (\<lambda>_.
     svc_bind (db_call disable) (\<lambda>monitors.
     if monitors = [] then svc_fail (NotFound missing)
     else svc_bind (db_call (resolve_open_incidents_for_site now site_id MonitoringDisabled)) (\<lambda>_.
       svc_return True)))"

definition disable_monitor_call ::
    "timestamp \<Rightarrow> permission_set \<Rightarrow> id \<Rightarrow> (db, site_monitor option) stmt \<Rightarrow> string \<Rightarrow>
      ('s, 'p, bool) handler" where
  "disable_monitor_call now perms monitor_id disable missing =
     svc_bind (demand perms SiteMonitorsDelete) (\<lambda>_.
     svc_bind (db_call disable) (\<lambda>disabled.
     if disabled = None then svc_fail (NotFound missing)
     else svc_bind (close_incidents_of now monitor_id) (\<lambda>_. svc_return True)))"

definition pause_monitor_call ::
    "timestamp \<Rightarrow> (site_monitor \<Rightarrow> 'm) \<Rightarrow> permission_set \<Rightarrow> id \<Rightarrow> (db, site_monitor option) stmt \<Rightarrow> string \<Rightarrow>
      ('s, 'p, 'm) handler" where
  "pause_monitor_call now response perms monitor_id pause missing =
     svc_bind (demand perms SiteMonitorsUpdate) (\<lambda>_.
     svc_bind (db_call pause) (\<lambda>paused.
     svc_bind (svc_result (ok_or (NotFound missing) paused)) (\<lambda>monitor.
     svc_bind (close_incidents_of now monitor_id) (\<lambda>_.
     svc_return (response monitor)))))"

definition resume_monitor_call ::
    "(site_monitor \<Rightarrow> 'm) \<Rightarrow> permission_set \<Rightarrow> (db, site_monitor option) stmt \<Rightarrow> string \<Rightarrow>
      ('s, 'p, 'm) handler" where
  "resume_monitor_call response perms resume missing =
     svc_bind (demand perms SiteMonitorsUpdate) (\<lambda>_.
     svc_bind (db_call resume) (\<lambda>resumed.
     svc_bind (svc_result (ok_or (NotFound missing) resumed)) (\<lambda>monitor.
     svc_return (response monitor))))"


section \<open>HTTP monitors\<close>

definition get_http_site_monitor ::
    "('s, 'p) app_config \<Rightarrow> permission_set \<Rightarrow> id \<Rightarrow>
      ('s, 'p, http_site_monitor_response site_monitoring_response) handler" where
  "get_http_site_monitor cfg perms site_id =
     svc_bind (demand perms SiteMonitorsRead) (\<lambda>_.
     svc_bind (site_found site_id) (\<lambda>s.
     svc_bind (db_query (list_http_monitors_by_site_id site_id)) (\<lambda>http_monitors.
     svc_return
       \<lparr>smg_site = from_site cfg s (http_monitor_status http_monitors) False ''not_configured'',
        smg_monitors = map (http_site_monitor_response_of cfg) http_monitors\<rparr>)))"

definition upsert_http_site_monitor ::
    "('s, 'p) app_config \<Rightarrow> monitor_env \<Rightarrow> request_clock \<Rightarrow> permission_set \<Rightarrow> id \<Rightarrow> upsert_http_site_monitor_request \<Rightarrow>
      ('s, 'p, http_site_monitor_response) handler" where
  "upsert_http_site_monitor cfg env clk perms site_id p =
     upsert_monitor_call (ck_now clk) (http_site_monitor_response_of cfg) perms site_id (uhm_is_active p)
       (validate_and_normalize_http_monitor_payload env p (me_allow_private_targets env))
       (\<lambda>n. db_call (upsert_http_monitor_by_site_id_and_target_url (ck_now clk) site_id (http_params p n)))"

definition update_http_site_monitor ::
    "('s, 'p) app_config \<Rightarrow> monitor_env \<Rightarrow> request_clock \<Rightarrow> permission_set \<Rightarrow> id \<Rightarrow> id \<Rightarrow> upsert_http_site_monitor_request \<Rightarrow>
      ('s, 'p, http_site_monitor_response) handler" where
  "update_http_site_monitor cfg env clk perms site_id monitor_id p =
     update_monitor_call (ck_now clk) (http_site_monitor_response_of cfg) perms site_id monitor_id (uhm_is_active p)
       (validate_and_normalize_http_monitor_payload env p (me_allow_private_targets env))
       (\<lambda>n. get_http_monitor_by_site_id_and_target_url site_id (nhp_target_url n))
       ''target_url already exists for another http monitor on this site''
       (\<lambda>n. update_http_site_monitor_by_id (ck_now clk) site_id monitor_id (http_params p n))
       ''http monitor not found''"

definition disable_http_site_monitor ::
    "request_clock \<Rightarrow> permission_set \<Rightarrow> id \<Rightarrow> ('s, 'p, bool) handler" where
  "disable_http_site_monitor clk perms site_id =
     disable_monitors_call (ck_now clk) perms site_id (disable_http_monitors_by_site_id (ck_now clk) site_id)
       ''http monitor not found''"

definition disable_http_site_monitor_by_id ::
    "request_clock \<Rightarrow> permission_set \<Rightarrow> id \<Rightarrow> id \<Rightarrow>
      ('s, 'p, bool) handler" where
  "disable_http_site_monitor_by_id clk perms site_id monitor_id =
     disable_monitor_call (ck_now clk) perms monitor_id (disable_http_monitor_by_id (ck_now clk) site_id monitor_id)
       ''http monitor not found''"

definition pause_http_site_monitor_by_id ::
    "('s, 'p) app_config \<Rightarrow> request_clock \<Rightarrow> permission_set \<Rightarrow> id \<Rightarrow> id \<Rightarrow>
      ('s, 'p, http_site_monitor_response) handler" where
  "pause_http_site_monitor_by_id cfg clk perms site_id monitor_id =
     pause_monitor_call (ck_now clk) (http_site_monitor_response_of cfg) perms monitor_id
       (pause_http_monitor_by_id (ck_now clk) site_id monitor_id) ''http monitor not found''"

definition resume_http_site_monitor_by_id ::
    "('s, 'p) app_config \<Rightarrow> request_clock \<Rightarrow> permission_set \<Rightarrow> id \<Rightarrow> id \<Rightarrow>
      ('s, 'p, http_site_monitor_response) handler" where
  "resume_http_site_monitor_by_id cfg clk perms site_id monitor_id =
     resume_monitor_call (http_site_monitor_response_of cfg) perms
       (resume_http_monitor_by_id (ck_now clk) site_id monitor_id) ''http monitor not found''"

section \<open>Certificate monitors\<close>

definition get_ssl_site_monitor ::
    "('s, 'p) app_config \<Rightarrow> permission_set \<Rightarrow> id \<Rightarrow>
      ('s, 'p, ssl_site_monitor_response site_monitoring_response) handler" where
  "get_ssl_site_monitor cfg perms site_id =
     get_other_monitors cfg (ssl_site_monitor_response_of cfg) list_ssl_monitors_by_site_id perms site_id"

definition upsert_ssl_site_monitor ::
    "('s, 'p) app_config \<Rightarrow> monitor_env \<Rightarrow> request_clock \<Rightarrow> permission_set \<Rightarrow> id \<Rightarrow> upsert_ssl_site_monitor_request \<Rightarrow>
      ('s, 'p, ssl_site_monitor_response) handler" where
  "upsert_ssl_site_monitor cfg env clk perms site_id p =
     upsert_monitor_call (ck_now clk) (ssl_site_monitor_response_of cfg) perms site_id (usl_is_active p)
       (validate_and_normalize_ssl_monitor_payload env p (me_allow_private_targets env))
       (\<lambda>n. db_call (upsert_ssl_monitor_by_site_id_and_target_url (ck_now clk) site_id (ssl_params p n)))"

definition update_ssl_site_monitor ::
    "('s, 'p) app_config \<Rightarrow> monitor_env \<Rightarrow> request_clock \<Rightarrow> permission_set \<Rightarrow> id \<Rightarrow> id \<Rightarrow> upsert_ssl_site_monitor_request \<Rightarrow>
      ('s, 'p, ssl_site_monitor_response) handler" where
  "update_ssl_site_monitor cfg env clk perms site_id monitor_id p =
     update_monitor_call (ck_now clk) (ssl_site_monitor_response_of cfg) perms site_id monitor_id (usl_is_active p)
       (validate_and_normalize_ssl_monitor_payload env p (me_allow_private_targets env))
       (\<lambda>n. get_ssl_monitor_by_site_id_and_target_url site_id (nsp_target_url n))
       ''target_url already exists for another ssl monitor on this site''
       (\<lambda>n. update_ssl_site_monitor_by_id (ck_now clk) site_id monitor_id (ssl_params p n))
       ''ssl monitor not found''"

definition disable_ssl_site_monitor ::
    "request_clock \<Rightarrow> permission_set \<Rightarrow> id \<Rightarrow> ('s, 'p, bool) handler" where
  "disable_ssl_site_monitor clk perms site_id =
     disable_monitors_call (ck_now clk) perms site_id (disable_ssl_monitors_by_site_id (ck_now clk) site_id)
       ''ssl monitor not found''"

definition disable_ssl_site_monitor_by_id ::
    "request_clock \<Rightarrow> permission_set \<Rightarrow> id \<Rightarrow> id \<Rightarrow>
      ('s, 'p, bool) handler" where
  "disable_ssl_site_monitor_by_id clk perms site_id monitor_id =
     disable_monitor_call (ck_now clk) perms monitor_id (disable_ssl_monitor_by_id (ck_now clk) site_id monitor_id)
       ''ssl monitor not found''"

definition pause_ssl_site_monitor_by_id ::
    "('s, 'p) app_config \<Rightarrow> request_clock \<Rightarrow> permission_set \<Rightarrow> id \<Rightarrow> id \<Rightarrow>
      ('s, 'p, ssl_site_monitor_response) handler" where
  "pause_ssl_site_monitor_by_id cfg clk perms site_id monitor_id =
     pause_monitor_call (ck_now clk) (ssl_site_monitor_response_of cfg) perms monitor_id
       (pause_ssl_monitor_by_id (ck_now clk) site_id monitor_id) ''ssl monitor not found''"

definition resume_ssl_site_monitor_by_id ::
    "('s, 'p) app_config \<Rightarrow> request_clock \<Rightarrow> permission_set \<Rightarrow> id \<Rightarrow> id \<Rightarrow>
      ('s, 'p, ssl_site_monitor_response) handler" where
  "resume_ssl_site_monitor_by_id cfg clk perms site_id monitor_id =
     resume_monitor_call (ssl_site_monitor_response_of cfg) perms
       (resume_ssl_monitor_by_id (ck_now clk) site_id monitor_id) ''ssl monitor not found''"

section \<open>TCP monitors\<close>

definition get_tcp_site_monitor ::
    "('s, 'p) app_config \<Rightarrow> permission_set \<Rightarrow> id \<Rightarrow>
      ('s, 'p, tcp_site_monitor_response site_monitoring_response) handler" where
  "get_tcp_site_monitor cfg perms site_id =
     get_other_monitors cfg (tcp_site_monitor_response_of cfg) list_tcp_monitors_by_site_id perms site_id"

text \<open>Both handlers validate the payload, then its target.\<close>

definition checked_tcp_payload :: "monitor_env \<Rightarrow> upsert_tcp_site_monitor_request \<Rightarrow> api_error + int list option" where
  "checked_tcp_payload env p =
     and_then (validate_and_normalize_tcp_monitor_payload p) (\<lambda>retry_delays.
     and_then (validate_tcp_target env (trim (utm_target_host p)) (utm_target_port p)) (\<lambda>_. Inr retry_delays))"

definition upsert_tcp_site_monitor ::
    "('s, 'p) app_config \<Rightarrow> monitor_env \<Rightarrow> request_clock \<Rightarrow> permission_set \<Rightarrow> id \<Rightarrow> upsert_tcp_site_monitor_request \<Rightarrow>
      ('s, 'p, tcp_site_monitor_response) handler" where
  "upsert_tcp_site_monitor cfg env clk perms site_id p =
     upsert_monitor_call (ck_now clk) (tcp_site_monitor_response_of cfg) perms site_id (utm_is_active p)
       (checked_tcp_payload env p)
       (\<lambda>n. db_call (upsert_tcp_monitor_by_site_id_and_host_port (ck_now clk) site_id (tcp_params p n)))"

definition update_tcp_site_monitor ::
    "('s, 'p) app_config \<Rightarrow> monitor_env \<Rightarrow> request_clock \<Rightarrow> permission_set \<Rightarrow> id \<Rightarrow> id \<Rightarrow> upsert_tcp_site_monitor_request \<Rightarrow>
      ('s, 'p, tcp_site_monitor_response) handler" where
  "update_tcp_site_monitor cfg env clk perms site_id monitor_id p =
     update_monitor_call (ck_now clk) (tcp_site_monitor_response_of cfg) perms site_id monitor_id (utm_is_active p)
       (checked_tcp_payload env p)
       (\<lambda>n. get_tcp_monitor_by_site_id_and_host_port site_id (trim (utm_target_host p)) (int (utm_target_port p)))
       ''target_host:target_port already exists for another tcp monitor on this site''
       (\<lambda>n. update_tcp_site_monitor_by_id (ck_now clk) site_id monitor_id (tcp_params p n))
       ''tcp monitor not found''"

definition disable_tcp_site_monitor ::
    "request_clock \<Rightarrow> permission_set \<Rightarrow> id \<Rightarrow> ('s, 'p, bool) handler" where
  "disable_tcp_site_monitor clk perms site_id =
     disable_monitors_call (ck_now clk) perms site_id (disable_tcp_monitors_by_site_id (ck_now clk) site_id)
       ''tcp monitor not found''"

definition disable_tcp_site_monitor_by_id ::
    "request_clock \<Rightarrow> permission_set \<Rightarrow> id \<Rightarrow> id \<Rightarrow>
      ('s, 'p, bool) handler" where
  "disable_tcp_site_monitor_by_id clk perms site_id monitor_id =
     disable_monitor_call (ck_now clk) perms monitor_id (disable_tcp_monitor_by_id (ck_now clk) site_id monitor_id)
       ''tcp monitor not found''"

definition pause_tcp_site_monitor_by_id ::
    "('s, 'p) app_config \<Rightarrow> request_clock \<Rightarrow> permission_set \<Rightarrow> id \<Rightarrow> id \<Rightarrow>
      ('s, 'p, tcp_site_monitor_response) handler" where
  "pause_tcp_site_monitor_by_id cfg clk perms site_id monitor_id =
     pause_monitor_call (ck_now clk) (tcp_site_monitor_response_of cfg) perms monitor_id
       (pause_tcp_monitor_by_id (ck_now clk) site_id monitor_id) ''tcp monitor not found''"

definition resume_tcp_site_monitor_by_id ::
    "('s, 'p) app_config \<Rightarrow> request_clock \<Rightarrow> permission_set \<Rightarrow> id \<Rightarrow> id \<Rightarrow>
      ('s, 'p, tcp_site_monitor_response) handler" where
  "resume_tcp_site_monitor_by_id cfg clk perms site_id monitor_id =
     resume_monitor_call (tcp_site_monitor_response_of cfg) perms
       (resume_tcp_monitor_by_id (ck_now clk) site_id monitor_id) ''tcp monitor not found''"

section \<open>DNS monitors\<close>

definition get_dns_site_monitor ::
    "('s, 'p) app_config \<Rightarrow> permission_set \<Rightarrow> id \<Rightarrow>
      ('s, 'p, dns_site_monitor_response site_monitoring_response) handler" where
  "get_dns_site_monitor cfg perms site_id =
     get_other_monitors cfg (dns_site_monitor_response_of cfg) list_dns_monitors_by_site_id perms site_id"

definition upsert_dns_site_monitor ::
    "('s, 'p) app_config \<Rightarrow> request_clock \<Rightarrow> permission_set \<Rightarrow> id \<Rightarrow> upsert_dns_site_monitor_request \<Rightarrow>
      ('s, 'p, dns_site_monitor_response) handler" where
  "upsert_dns_site_monitor cfg clk perms site_id p =
     upsert_monitor_call (ck_now clk) (dns_site_monitor_response_of cfg) perms site_id (udm_is_active p)
       (validate_and_normalize_dns_monitor_payload p)
       (\<lambda>n. db_call (upsert_dns_monitor_by_site_id_and_hostname_record_type (ck_now clk) site_id (dns_params p n)))"

definition update_dns_site_monitor ::
    "('s, 'p) app_config \<Rightarrow> request_clock \<Rightarrow> permission_set \<Rightarrow> id \<Rightarrow> id \<Rightarrow> upsert_dns_site_monitor_request \<Rightarrow>
      ('s, 'p, dns_site_monitor_response) handler" where
  "update_dns_site_monitor cfg clk perms site_id monitor_id p =
     update_monitor_call (ck_now clk) (dns_site_monitor_response_of cfg) perms site_id monitor_id (udm_is_active p)
       (validate_and_normalize_dns_monitor_payload p)
       (\<lambda>n. get_dns_monitor_by_site_id_and_hostname_record_type site_id (trim (udm_hostname p)) (to_uppercase (trim (udm_record_type p))))
       ''hostname+record_type already exists for another dns monitor on this site''
       (\<lambda>n. update_dns_site_monitor_by_id (ck_now clk) site_id monitor_id (dns_params p n))
       ''dns monitor not found''"

definition disable_dns_site_monitor ::
    "request_clock \<Rightarrow> permission_set \<Rightarrow> id \<Rightarrow> ('s, 'p, bool) handler" where
  "disable_dns_site_monitor clk perms site_id =
     disable_monitors_call (ck_now clk) perms site_id (disable_dns_monitors_by_site_id (ck_now clk) site_id)
       ''dns monitor not found''"

definition disable_dns_site_monitor_by_id ::
    "request_clock \<Rightarrow> permission_set \<Rightarrow> id \<Rightarrow> id \<Rightarrow>
      ('s, 'p, bool) handler" where
  "disable_dns_site_monitor_by_id clk perms site_id monitor_id =
     disable_monitor_call (ck_now clk) perms monitor_id (disable_dns_monitor_by_id (ck_now clk) site_id monitor_id)
       ''dns monitor not found''"

definition pause_dns_site_monitor_by_id ::
    "('s, 'p) app_config \<Rightarrow> request_clock \<Rightarrow> permission_set \<Rightarrow> id \<Rightarrow> id \<Rightarrow>
      ('s, 'p, dns_site_monitor_response) handler" where
  "pause_dns_site_monitor_by_id cfg clk perms site_id monitor_id =
     pause_monitor_call (ck_now clk) (dns_site_monitor_response_of cfg) perms monitor_id
       (pause_dns_monitor_by_id (ck_now clk) site_id monitor_id) ''dns monitor not found''"

definition resume_dns_site_monitor_by_id ::
    "('s, 'p) app_config \<Rightarrow> request_clock \<Rightarrow> permission_set \<Rightarrow> id \<Rightarrow> id \<Rightarrow>
      ('s, 'p, dns_site_monitor_response) handler" where
  "resume_dns_site_monitor_by_id cfg clk perms site_id monitor_id =
     resume_monitor_call (dns_site_monitor_response_of cfg) perms
       (resume_dns_monitor_by_id (ck_now clk) site_id monitor_id) ''dns monitor not found''"

section \<open>Heartbeat monitors\<close>

definition get_heartbeat_site_monitor ::
    "('s, 'p) app_config \<Rightarrow> permission_set \<Rightarrow> id \<Rightarrow>
      ('s, 'p, heartbeat_site_monitor_response site_monitoring_response) handler" where
  "get_heartbeat_site_monitor cfg perms site_id =
     get_other_monitors cfg (heartbeat_site_monitor_response_of cfg) list_heartbeat_monitors_by_site_id perms site_id"

definition save_heartbeat_monitor ::
    "timestamp \<Rightarrow> string \<Rightarrow> id \<Rightarrow> heartbeat_monitor_update_params \<Rightarrow>
      ('s, 'p, site_monitor) handler" where
  "save_heartbeat_monitor now heartbeat_token site_id params =
     svc_bind (db_query (get_heartbeat_monitor_by_site_id site_id)) (\<lambda>existing.
     case existing of
       Some m \<Rightarrow>
         svc_bind (db_call (update_heartbeat_site_monitor_by_id now site_id (sm_id m) params)) (\<lambda>updated.
         svc_result (ok_or (NotFound ''heartbeat monitor not found'') updated))
     | None \<Rightarrow>
         db_call (create_heartbeat_site_monitor now site_id
           \<lparr>hbp_target_url = heartbeat_ping_path heartbeat_token, hbp_heartbeat_token = heartbeat_token,
            hbp_check_interval_seconds = hbu_check_interval_seconds params,
            hbp_heartbeat_grace_seconds = hbu_heartbeat_grace_seconds params,
            hbp_is_active = hbu_is_active params\<rparr>))"

definition upsert_heartbeat_site_monitor ::
    "('s, 'p) app_config \<Rightarrow> request_clock \<Rightarrow> string \<Rightarrow> permission_set \<Rightarrow> id \<Rightarrow> upsert_heartbeat_site_monitor_request \<Rightarrow>
      ('s, 'p, heartbeat_site_monitor_response) handler" where
  "upsert_heartbeat_site_monitor cfg clk heartbeat_token perms site_id p =
     upsert_monitor_call (ck_now clk) (heartbeat_site_monitor_response_of cfg) perms site_id (uhb_is_active p)
       (validate_and_normalize_heartbeat_monitor_payload p)
       (\<lambda>n. save_heartbeat_monitor (ck_now clk) heartbeat_token site_id (heartbeat_params p n))"

definition update_heartbeat_site_monitor ::
    "('s, 'p) app_config \<Rightarrow> request_clock \<Rightarrow> permission_set \<Rightarrow> id \<Rightarrow> id \<Rightarrow> upsert_heartbeat_site_monitor_request \<Rightarrow>
      ('s, 'p, heartbeat_site_monitor_response) handler" where
  "update_heartbeat_site_monitor cfg clk perms site_id monitor_id p =
     update_monitor_call (ck_now clk) (heartbeat_site_monitor_response_of cfg) perms site_id monitor_id (uhb_is_active p)
       (validate_and_normalize_heartbeat_monitor_payload p) (\<lambda>n d. None) []
       (\<lambda>n. update_heartbeat_site_monitor_by_id (ck_now clk) site_id monitor_id (heartbeat_params p n))
       ''heartbeat monitor not found''"

definition disable_heartbeat_site_monitor ::
    "request_clock \<Rightarrow> permission_set \<Rightarrow> id \<Rightarrow> ('s, 'p, bool) handler" where
  "disable_heartbeat_site_monitor clk perms site_id =
     disable_monitors_call (ck_now clk) perms site_id (disable_heartbeat_monitors_by_site_id (ck_now clk) site_id)
       ''heartbeat monitor not found''"

definition disable_heartbeat_site_monitor_by_id ::
    "request_clock \<Rightarrow> permission_set \<Rightarrow> id \<Rightarrow> id \<Rightarrow>
      ('s, 'p, bool) handler" where
  "disable_heartbeat_site_monitor_by_id clk perms site_id monitor_id =
     disable_monitor_call (ck_now clk) perms monitor_id (disable_heartbeat_monitor_by_id (ck_now clk) site_id monitor_id)
       ''heartbeat monitor not found''"

definition pause_heartbeat_site_monitor_by_id ::
    "('s, 'p) app_config \<Rightarrow> request_clock \<Rightarrow> permission_set \<Rightarrow> id \<Rightarrow> id \<Rightarrow>
      ('s, 'p, heartbeat_site_monitor_response) handler" where
  "pause_heartbeat_site_monitor_by_id cfg clk perms site_id monitor_id =
     pause_monitor_call (ck_now clk) (heartbeat_site_monitor_response_of cfg) perms monitor_id
       (pause_heartbeat_monitor_by_id (ck_now clk) site_id monitor_id) ''heartbeat monitor not found''"

definition resume_heartbeat_site_monitor_by_id ::
    "('s, 'p) app_config \<Rightarrow> request_clock \<Rightarrow> permission_set \<Rightarrow> id \<Rightarrow> id \<Rightarrow>
      ('s, 'p, heartbeat_site_monitor_response) handler" where
  "resume_heartbeat_site_monitor_by_id cfg clk perms site_id monitor_id =
     resume_monitor_call (heartbeat_site_monitor_response_of cfg) perms
       (resume_heartbeat_monitor_by_id (ck_now clk) site_id monitor_id) ''heartbeat monitor not found''"

section \<open>Pings\<close>

text \<open>The route is public: the token is all a caller needs.\<close>

definition record_heartbeat_ping_handler :: "request_clock \<Rightarrow> string \<Rightarrow> ('s, 'p, unit) handler" where
  "record_heartbeat_ping_handler clk heartbeat_token =
     (if blank heartbeat_token then svc_fail (NotFound ''heartbeat monitor not found'')
      else
        svc_bind (db_call (record_heartbeat_ping (ck_now clk) heartbeat_token)) (\<lambda>updated.
        if updated = None then svc_fail (NotFound ''heartbeat monitor not found'') else svc_return ()))"

end
