(* ===== verification/Monitor_Api.thy ===== *)
theory Monitor_Api
  imports Monitor_Routes
begin

text \<open>
  The monitor routes as one interface: a constructor per route and method, dispatched to its handler, and
  what holds of every call: who may make it, which configurations it can store, and what stopping a monitor
  leaves behind.
\<close>

section \<open>Dispatch\<close>

text \<open>The token a new heartbeat monitor gets is drawn by the handler: here it is an argument of its call.\<close>

datatype monitor_call =
    GetHttp id
  | PutHttp id upsert_http_site_monitor_request
  | PatchHttp id id upsert_http_site_monitor_request
  | DeleteAllHttp id
  | DeleteHttp id id
  | PauseHttp id id
  | ResumeHttp id id
  | GetSsl id
  | PutSsl id upsert_ssl_site_monitor_request
  | PatchSsl id id upsert_ssl_site_monitor_request
  | DeleteAllSsl id
  | DeleteSsl id id
  | PauseSsl id id
  | ResumeSsl id id
  | GetTcp id
  | PutTcp id upsert_tcp_site_monitor_request
  | PatchTcp id id upsert_tcp_site_monitor_request
  | DeleteAllTcp id
  | DeleteTcp id id
  | PauseTcp id id
  | ResumeTcp id id
  | GetDns id
  | PutDns id upsert_dns_site_monitor_request
  | PatchDns id id upsert_dns_site_monitor_request
  | DeleteAllDns id
  | DeleteDns id id
  | PauseDns id id
  | ResumeDns id id
  | GetHeartbeat id
  | PutHeartbeat string id upsert_heartbeat_site_monitor_request
  | PatchHeartbeat id id upsert_heartbeat_site_monitor_request
  | DeleteAllHeartbeat id
  | DeleteHeartbeat id id
  | PauseHeartbeat id id
  | ResumeHeartbeat id id
  | Ping string

datatype monitor_answer =
    AnsHttpMonitors "http_site_monitor_response site_monitoring_response"
  | AnsHttpMonitor http_site_monitor_response
  | AnsSslMonitors "ssl_site_monitor_response site_monitoring_response"
  | AnsSslMonitor ssl_site_monitor_response
  | AnsTcpMonitors "tcp_site_monitor_response site_monitoring_response"
  | AnsTcpMonitor tcp_site_monitor_response
  | AnsDnsMonitors "dns_site_monitor_response site_monitoring_response"
  | AnsDnsMonitor dns_site_monitor_response
  | AnsHeartbeatMonitors "heartbeat_site_monitor_response site_monitoring_response"
  | AnsHeartbeatMonitor heartbeat_site_monitor_response
  | AnsDisabled bool
  | AnsPinged

definition answer_monitor :: "('a \<Rightarrow> monitor_answer) \<Rightarrow> ('s, 'p, 'a) handler \<Rightarrow> ('s, 'p, monitor_answer) handler" where
  "answer_monitor f m = svc_bind m (\<lambda>x. svc_return (f x))"

fun handle_monitor ::
    "('s, 'p) app_config \<Rightarrow> monitor_env \<Rightarrow> request_clock \<Rightarrow> permission_set \<Rightarrow> monitor_call \<Rightarrow>
      ('s, 'p, monitor_answer) handler" where
  "handle_monitor cfg env clk perms (GetHttp s) =
     answer_monitor AnsHttpMonitors (get_http_site_monitor cfg perms s)"
| "handle_monitor cfg env clk perms (PutHttp s p) =
     answer_monitor AnsHttpMonitor (upsert_http_site_monitor cfg env clk perms s p)"
| "handle_monitor cfg env clk perms (PatchHttp s m p) =
     answer_monitor AnsHttpMonitor (update_http_site_monitor cfg env clk perms s m p)"
| "handle_monitor cfg env clk perms (DeleteAllHttp s) =
     answer_monitor AnsDisabled (disable_http_site_monitor clk perms s)"
| "handle_monitor cfg env clk perms (DeleteHttp s m) =
     answer_monitor AnsDisabled (disable_http_site_monitor_by_id clk perms s m)"
| "handle_monitor cfg env clk perms (PauseHttp s m) =
     answer_monitor AnsHttpMonitor (pause_http_site_monitor_by_id cfg clk perms s m)"
| "handle_monitor cfg env clk perms (ResumeHttp s m) =
     answer_monitor AnsHttpMonitor (resume_http_site_monitor_by_id cfg clk perms s m)"
| "handle_monitor cfg env clk perms (GetSsl s) =
     answer_monitor AnsSslMonitors (get_ssl_site_monitor cfg perms s)"
| "handle_monitor cfg env clk perms (PutSsl s p) =
     answer_monitor AnsSslMonitor (upsert_ssl_site_monitor cfg env clk perms s p)"
| "handle_monitor cfg env clk perms (PatchSsl s m p) =
     answer_monitor AnsSslMonitor (update_ssl_site_monitor cfg env clk perms s m p)"
| "handle_monitor cfg env clk perms (DeleteAllSsl s) =
     answer_monitor AnsDisabled (disable_ssl_site_monitor clk perms s)"
| "handle_monitor cfg env clk perms (DeleteSsl s m) =
     answer_monitor AnsDisabled (disable_ssl_site_monitor_by_id clk perms s m)"
| "handle_monitor cfg env clk perms (PauseSsl s m) =
     answer_monitor AnsSslMonitor (pause_ssl_site_monitor_by_id cfg clk perms s m)"
| "handle_monitor cfg env clk perms (ResumeSsl s m) =
     answer_monitor AnsSslMonitor (resume_ssl_site_monitor_by_id cfg clk perms s m)"
| "handle_monitor cfg env clk perms (GetTcp s) =
     answer_monitor AnsTcpMonitors (get_tcp_site_monitor cfg perms s)"
| "handle_monitor cfg env clk perms (PutTcp s p) =
     answer_monitor AnsTcpMonitor (upsert_tcp_site_monitor cfg env clk perms s p)"
| "handle_monitor cfg env clk perms (PatchTcp s m p) =
     answer_monitor AnsTcpMonitor (update_tcp_site_monitor cfg env clk perms s m p)"
| "handle_monitor cfg env clk perms (DeleteAllTcp s) =
     answer_monitor AnsDisabled (disable_tcp_site_monitor clk perms s)"
| "handle_monitor cfg env clk perms (DeleteTcp s m) =
     answer_monitor AnsDisabled (disable_tcp_site_monitor_by_id clk perms s m)"
| "handle_monitor cfg env clk perms (PauseTcp s m) =
     answer_monitor AnsTcpMonitor (pause_tcp_site_monitor_by_id cfg clk perms s m)"
| "handle_monitor cfg env clk perms (ResumeTcp s m) =
     answer_monitor AnsTcpMonitor (resume_tcp_site_monitor_by_id cfg clk perms s m)"
| "handle_monitor cfg env clk perms (GetDns s) =
     answer_monitor AnsDnsMonitors (get_dns_site_monitor cfg perms s)"
| "handle_monitor cfg env clk perms (PutDns s p) =
     answer_monitor AnsDnsMonitor (upsert_dns_site_monitor cfg clk perms s p)"
| "handle_monitor cfg env clk perms (PatchDns s m p) =
     answer_monitor AnsDnsMonitor (update_dns_site_monitor cfg clk perms s m p)"
| "handle_monitor cfg env clk perms (DeleteAllDns s) =
     answer_monitor AnsDisabled (disable_dns_site_monitor clk perms s)"
| "handle_monitor cfg env clk perms (DeleteDns s m) =
     answer_monitor AnsDisabled (disable_dns_site_monitor_by_id clk perms s m)"
| "handle_monitor cfg env clk perms (PauseDns s m) =
     answer_monitor AnsDnsMonitor (pause_dns_site_monitor_by_id cfg clk perms s m)"
| "handle_monitor cfg env clk perms (ResumeDns s m) =
     answer_monitor AnsDnsMonitor (resume_dns_site_monitor_by_id cfg clk perms s m)"
| "handle_monitor cfg env clk perms (GetHeartbeat s) =
     answer_monitor AnsHeartbeatMonitors (get_heartbeat_site_monitor cfg perms s)"
| "handle_monitor cfg env clk perms (PutHeartbeat tok s p) =
     answer_monitor AnsHeartbeatMonitor (upsert_heartbeat_site_monitor cfg clk tok perms s p)"
| "handle_monitor cfg env clk perms (PatchHeartbeat s m p) =
     answer_monitor AnsHeartbeatMonitor (update_heartbeat_site_monitor cfg clk perms s m p)"
| "handle_monitor cfg env clk perms (DeleteAllHeartbeat s) =
     answer_monitor AnsDisabled (disable_heartbeat_site_monitor clk perms s)"
| "handle_monitor cfg env clk perms (DeleteHeartbeat s m) =
     answer_monitor AnsDisabled (disable_heartbeat_site_monitor_by_id clk perms s m)"
| "handle_monitor cfg env clk perms (PauseHeartbeat s m) =
     answer_monitor AnsHeartbeatMonitor (pause_heartbeat_site_monitor_by_id cfg clk perms s m)"
| "handle_monitor cfg env clk perms (ResumeHeartbeat s m) =
     answer_monitor AnsHeartbeatMonitor (resume_heartbeat_site_monitor_by_id cfg clk perms s m)"
| "handle_monitor cfg env clk perms (Ping tok) =
     answer_monitor (\<lambda>_. AnsPinged) (record_heartbeat_ping_handler clk tok)"

fun monitor_permissions :: "monitor_call \<Rightarrow> permission_key list" where
  "monitor_permissions (GetHttp _) = [SiteMonitorsRead]"
| "monitor_permissions (PutHttp _ _) = [SiteMonitorsCreate, SiteMonitorsUpdate]"
| "monitor_permissions (PatchHttp _ _ _) = [SiteMonitorsUpdate]"
| "monitor_permissions (DeleteAllHttp _) = [SiteMonitorsDelete]"
| "monitor_permissions (DeleteHttp _ _) = [SiteMonitorsDelete]"
| "monitor_permissions (PauseHttp _ _) = [SiteMonitorsUpdate]"
| "monitor_permissions (ResumeHttp _ _) = [SiteMonitorsUpdate]"
| "monitor_permissions (GetSsl _) = [SiteMonitorsRead]"
| "monitor_permissions (PutSsl _ _) = [SiteMonitorsCreate, SiteMonitorsUpdate]"
| "monitor_permissions (PatchSsl _ _ _) = [SiteMonitorsUpdate]"
| "monitor_permissions (DeleteAllSsl _) = [SiteMonitorsDelete]"
| "monitor_permissions (DeleteSsl _ _) = [SiteMonitorsDelete]"
| "monitor_permissions (PauseSsl _ _) = [SiteMonitorsUpdate]"
| "monitor_permissions (ResumeSsl _ _) = [SiteMonitorsUpdate]"
| "monitor_permissions (GetTcp _) = [SiteMonitorsRead]"
| "monitor_permissions (PutTcp _ _) = [SiteMonitorsCreate, SiteMonitorsUpdate]"
| "monitor_permissions (PatchTcp _ _ _) = [SiteMonitorsUpdate]"
| "monitor_permissions (DeleteAllTcp _) = [SiteMonitorsDelete]"
| "monitor_permissions (DeleteTcp _ _) = [SiteMonitorsDelete]"
| "monitor_permissions (PauseTcp _ _) = [SiteMonitorsUpdate]"
| "monitor_permissions (ResumeTcp _ _) = [SiteMonitorsUpdate]"
| "monitor_permissions (GetDns _) = [SiteMonitorsRead]"
| "monitor_permissions (PutDns _ _) = [SiteMonitorsCreate, SiteMonitorsUpdate]"
| "monitor_permissions (PatchDns _ _ _) = [SiteMonitorsUpdate]"
| "monitor_permissions (DeleteAllDns _) = [SiteMonitorsDelete]"
| "monitor_permissions (DeleteDns _ _) = [SiteMonitorsDelete]"
| "monitor_permissions (PauseDns _ _) = [SiteMonitorsUpdate]"
| "monitor_permissions (ResumeDns _ _) = [SiteMonitorsUpdate]"
| "monitor_permissions (GetHeartbeat _) = [SiteMonitorsRead]"
| "monitor_permissions (PutHeartbeat _ _ _) = [SiteMonitorsCreate, SiteMonitorsUpdate]"
| "monitor_permissions (PatchHeartbeat _ _ _) = [SiteMonitorsUpdate]"
| "monitor_permissions (DeleteAllHeartbeat _) = [SiteMonitorsDelete]"
| "monitor_permissions (DeleteHeartbeat _ _) = [SiteMonitorsDelete]"
| "monitor_permissions (PauseHeartbeat _ _) = [SiteMonitorsUpdate]"
| "monitor_permissions (ResumeHeartbeat _ _) = [SiteMonitorsUpdate]"
| "monitor_permissions (Ping _) = []"

section \<open>Who may call\<close>

definition tame :: "api_error + 'a \<Rightarrow> bool" where
  "tame r \<longleftrightarrow> \<not> is_forbidden r"

named_theorems tame_rules

lemma tame_base [tame_rules]:
  "tame (Inr x)" "tame (Inl (BadRequest m))" "tame (ok_or (BadRequest m) v)" "tame (reject ps)"
  by (auto simp: tame_def reject_def ok_or_def is_forbidden_def split: option.split)

lemma tame_and_then [tame_rules]: "tame r \<Longrightarrow> (\<And>x. tame (f x)) \<Longrightarrow> tame (and_then r f)"
  unfolding tame_def by (rule is_forbidden_and_then)

lemma tame_cases [tame_rules]:
  "\<lbrakk>tame r; tame r'\<rbrakk> \<Longrightarrow> tame (if b then r else r')"
  "\<lbrakk>tame r; \<And>x. tame (f x)\<rbrakk> \<Longrightarrow> tame (case v of None \<Rightarrow> r | Some x \<Rightarrow> f x)"
  by (simp_all split: option.split)

lemma tame_try_map [tame_rules]: "(\<And>x. tame (f x)) \<Longrightarrow> tame (try_map f xs)"
  by (induction xs) (simp_all only: try_map.simps tame_rules)

lemma tame_targets [tame_rules]:
  "tame (validate_monitor_target_url env url allow)"
  "tame (validate_tcp_target env host port)"
  "tame (validate_ssl_certificate_check_target_url env url enabled)"
  "tame (normalize_ssl_expiry_warning_days enabled days)"
  by (unfold validate_monitor_target_url_def validate_tcp_target_def validate_ssl_certificate_check_target_url_def
    normalize_ssl_expiry_warning_days_def Let_def; intro tame_rules)+

lemma tame_normalisation [tame_rules]:
  "tame (normalize_http_assertion_text v f)"
  "tame (normalize_http_assertion_texts vs f)"
  "tame (normalize_json_path_exists vs f)"
  "tame (normalize_json_path_value_assertions as f)"
  "tame (normalize_http_assertion_header_name env v)"
  by (unfold normalize_http_assertion_text_def normalize_http_assertion_texts_def normalize_json_path_exists_def
    normalize_json_path_value_assertions_def normalize_http_assertion_header_name_def Let_def; intro tame_rules)+

lemma tame_headers [tame_rules]:
  "tame (normalize_header_assertion env a)"
  "tame (normalize_http_header_assertions env has)"
  by (unfold normalize_http_header_assertions_def normalize_header_assertion_def Let_def; intro tame_rules)+

lemma tame_payloads:
  "tame (validate_and_normalize_http_monitor_payload env ph allow)"
  "tame (validate_and_normalize_ssl_monitor_payload env ps allow)"
  "tame (checked_tcp_payload env pt)"
  "tame (validate_and_normalize_dns_monitor_payload pd)"
  "tame (validate_and_normalize_heartbeat_monitor_payload pb)"
  by (unfold validate_and_normalize_http_monitor_payload_def validate_and_normalize_ssl_monitor_payload_def
    checked_tcp_payload_def validate_and_normalize_tcp_monitor_payload_def validate_and_normalize_dns_monitor_payload_def
    validate_and_normalize_heartbeat_monitor_payload_def validate_http_monitor_policy_overrides_def
    validate_ssl_monitor_policy_overrides_def Let_def; intro tame_rules)+

lemma payloads_never_forbid [simp]:
  "\<not> is_forbidden (validate_and_normalize_http_monitor_payload env ph allow)"
  "\<not> is_forbidden (validate_and_normalize_ssl_monitor_payload env ps allow)"
  "\<not> is_forbidden (checked_tcp_payload env pt)"
  "\<not> is_forbidden (validate_and_normalize_dns_monitor_payload pd)"
  "\<not> is_forbidden (validate_and_normalize_heartbeat_monitor_payload pb)"
  "\<not> is_forbidden (reject problems)"
  using tame_payloads tame_base(4) by (simp_all add: tame_def)

lemma site_found_never_forbids [call_rules]: "never_forbids (site_found s)"
  unfolding site_found_def by (intro call_rules; auto)+

lemma save_heartbeat_never_forbids [call_rules]: "never_forbids (save_heartbeat_monitor now tok s p)"
  unfolding save_heartbeat_monitor_def by (intro call_rules; auto)+

lemma close_never_forbids [call_rules]:
  "never_forbids (close_incidents_of now m)" "never_forbids (close_unless_active now b m)"
  unfolding close_unless_active_def close_incidents_of_def by (intro call_rules; auto)+

lemmas monitor_handler_defs = get_http_site_monitor_def get_ssl_site_monitor_def get_tcp_site_monitor_def
  get_dns_site_monitor_def get_heartbeat_site_monitor_def get_other_monitors_def
  upsert_http_site_monitor_def upsert_ssl_site_monitor_def upsert_tcp_site_monitor_def upsert_dns_site_monitor_def
  upsert_heartbeat_site_monitor_def upsert_monitor_call_def
  update_http_site_monitor_def update_ssl_site_monitor_def update_tcp_site_monitor_def update_dns_site_monitor_def
  update_heartbeat_site_monitor_def update_monitor_call_def
  disable_http_site_monitor_def disable_ssl_site_monitor_def disable_tcp_site_monitor_def disable_dns_site_monitor_def
  disable_heartbeat_site_monitor_def disable_monitors_call_def
  disable_http_site_monitor_by_id_def disable_ssl_site_monitor_by_id_def disable_tcp_site_monitor_by_id_def
  disable_dns_site_monitor_by_id_def disable_heartbeat_site_monitor_by_id_def disable_monitor_call_def
  pause_http_site_monitor_by_id_def pause_ssl_site_monitor_by_id_def pause_tcp_site_monitor_by_id_def
  pause_dns_site_monitor_by_id_def pause_heartbeat_site_monitor_by_id_def pause_monitor_call_def
  resume_http_site_monitor_by_id_def resume_ssl_site_monitor_by_id_def resume_tcp_site_monitor_by_id_def
  resume_dns_site_monitor_by_id_def resume_heartbeat_site_monitor_by_id_def resume_monitor_call_def
  record_heartbeat_ping_handler_def

lemma handle_monitor_guards: "guards perms (monitor_permissions c) (handle_monitor cfg env clk perms c)"
  by (cases c; simp only: handle_monitor.simps monitor_permissions.simps answer_monitor_def;
      rule guards_answer; unfold monitor_handler_defs; ((rule guards_Cons)+)?; rule guards_Nil; (intro call_rules; auto)+)

text \<open>
  Every monitor call demands its permissions first, one after the other; the first that is missing is
  reported and nothing has changed. With all of them no call is answered Forbidden. A ping needs none.
\<close>

theorem monitor_calls_are_guarded:
  "case find (\<lambda>p. p \<notin> perms) (monitor_permissions c) of
     None \<Rightarrow> \<not> is_forbidden (fst (handle_monitor cfg env clk perms c a))
   | Some p \<Rightarrow> handle_monitor cfg env clk perms c a =
       (Inl (Forbidden (''missing required permission: '' @ permission_as_str p)), a)"
  using handle_monitor_guards [of perms c cfg env clk] by (simp add: guards_def)

end
