(* ===== verification/Monitor_Config.thy ===== *)
theory Monitor_Config
  imports Monitor_Api
begin

text \<open>
  The configurations the monitor routes let into the table, type by type, and the invariant that every
  stored monitor has one: what the checkers may rely on.
\<close>

section \<open>Configurations\<close>

definition text_ok :: "string \<Rightarrow> bool" where
  "text_ok s \<longleftrightarrow> s \<noteq> [] \<and> trim s = s"

definition texts_ok :: "('a \<Rightarrow> string) \<Rightarrow> 'a list option \<Rightarrow> bool" where
  "texts_ok text v \<longleftrightarrow> pred_option (\<lambda>xs. xs \<noteq> [] \<and> list_all (\<lambda>x. text_ok (text x)) xs) v"

definition header_ok :: "http_header_assertion \<Rightarrow> bool" where
  "header_ok a \<longleftrightarrow> pred_option text_ok (hha_equals a) \<and> pred_option text_ok (hha_contains a) \<and>
     (hha_equals a = None \<or> hha_contains a = None)"

definition delays_ok :: "int list option \<Rightarrow> bool" where
  "delays_ok v \<longleftrightarrow> pred_option (\<lambda>ds. ds \<noteq> [] \<and> list_all (\<lambda>d. 0 < d) ds) v"

definition warning_days_ok :: "bool \<Rightarrow> int option \<Rightarrow> bool" where
  "warning_days_ok enabled v \<longleftrightarrow> (case v of None \<Rightarrow> \<not> enabled | Some w \<Rightarrow> enabled \<and> 7 < w)"

definition http_configured :: "site_monitor \<Rightarrow> bool" where
  "http_configured m \<longleftrightarrow>
     text_ok (sm_target_url m) \<and> 100 \<le> sm_expected_status_code m \<and> sm_expected_status_code m \<le> 599 \<and>
     pred_option text_ok (sm_body_must_contain m) \<and> pred_option text_ok (sm_body_must_not_contain m) \<and>
     texts_ok id (sm_body_must_contain_texts m) \<and> texts_ok id (sm_body_must_not_contain_texts m) \<and>
     texts_ok id (sm_json_path_exists m) \<and> texts_ok jpva_path (sm_json_path_equals m) \<and>
     texts_ok jpva_path (sm_json_path_not_equals m) \<and> pred_option (\<lambda>t. 0 < t) (sm_max_response_time_ms m) \<and>
     pred_option text_ok (sm_required_header_name m) \<and> pred_option text_ok (sm_required_header_value m) \<and>
     (sm_required_header_name m = None \<longrightarrow> sm_required_header_value m = None) \<and>
     texts_ok hha_name (sm_header_assertions m) \<and> pred_option (list_all header_ok) (sm_header_assertions m) \<and>
     warning_days_ok (sm_ssl_certificate_checks_enabled m) (sm_ssl_expiry_warning_days m) \<and>
     delays_ok (sm_http_check_retry_delays_ms_override m)"

definition ssl_configured :: "site_monitor \<Rightarrow> bool" where
  "ssl_configured m \<longleftrightarrow>
     text_ok (sm_target_url m) \<and> sm_ssl_certificate_checks_enabled m \<and>
     warning_days_ok True (sm_ssl_expiry_warning_days m) \<and> delays_ok (sm_http_check_retry_delays_ms_override m)"

definition tcp_configured :: "site_monitor \<Rightarrow> bool" where
  "tcp_configured m \<longleftrightarrow>
     (case (sm_tcp_target_host m, sm_tcp_target_port m) of
        (Some host, Some port) \<Rightarrow> text_ok host \<and> 0 < port \<and> sm_target_url m = ''tcp://'' @ host @ '':'' @ show_int port
      | _ \<Rightarrow> False)"

definition dns_configured :: "site_monitor \<Rightarrow> bool" where
  "dns_configured m \<longleftrightarrow>
     (case (sm_dns_hostname m, sm_dns_record_type m) of
        (Some host, Some rt) \<Rightarrow>
          text_ok host \<and> rt \<in> {''A'', ''AAAA'', ''CNAME'', ''MX'', ''TXT'', ''NS''} \<and>
          sm_target_url m = ''dns://'' @ host @ ''/'' @ rt
      | _ \<Rightarrow> False) \<and>
     pred_option (\<lambda>ns. parse_ip (trim ns) \<noteq> None) (sm_dns_nameserver m)"

definition heartbeat_configured :: "site_monitor \<Rightarrow> bool" where
  "heartbeat_configured m \<longleftrightarrow>
     (case sm_heartbeat_token m of
        Some token \<Rightarrow> sm_target_url m = heartbeat_ping_path token
      | None \<Rightarrow> False) \<and>
     pred_option (\<lambda>g. 0 \<le> g) (sm_heartbeat_grace_seconds m)"

definition monitor_configured :: "site_monitor \<Rightarrow> bool" where
  "monitor_configured m \<longleftrightarrow> 30 \<le> sm_check_interval_seconds m \<and>
     (case sm_monitor_type m of
        Http \<Rightarrow> http_configured m
      | Ssl \<Rightarrow> ssl_configured m
      | Tcp \<Rightarrow> tcp_configured m
      | Dns \<Rightarrow> dns_configured m
      | Heartbeat \<Rightarrow> heartbeat_configured m)"

definition monitors_configured :: "db \<Rightarrow> bool" where
  "monitors_configured d \<longleftrightarrow> list_all monitor_configured (db_monitors d)"

section \<open>What a validated payload is\<close>

lemma trim_start_hd: "trim_start s = c # r \<Longrightarrow> \<not> is_whitespace c"
  unfolding trim_start_def by (metis hd_dropWhile list.distinct(1) list.sel(1))

lemma trim_end_append: "trim_end s @ rev (takeWhile is_whitespace (rev s)) = s"
  unfolding trim_end_def by (metis rev_append rev_rev_ident takeWhile_dropWhile_id)

lemma trim_end_last: "trim_end s \<noteq> [] \<Longrightarrow> \<not> is_whitespace (last (trim_end s))"
  unfolding trim_end_def by (simp add: last_rev hd_dropWhile)

lemma trim_trim [simp]: "trim (trim s) = trim s"
proof (rule trim_id, cases "trim s")
  case (Cons c r)
  have "trim_start s = c # (r @ rev (takeWhile is_whitespace (rev (trim_start s))))"
    using trim_end_append [of "trim_start s"] Cons by (simp add: trim_def)
  then have "\<not> is_whitespace c" by (rule trim_start_hd)
  moreover have "\<not> is_whitespace (last (trim s))"
    using trim_end_last [of "trim_start s"] Cons by (simp add: trim_def)
  ultimately show "trim s = [] \<or> \<not> is_whitespace (hd (trim s)) \<and> \<not> is_whitespace (last (trim s))"
    using Cons by simp
qed simp

lemma text_ok_trim [simp]: "text_ok (trim s) \<longleftrightarrow> trim s \<noteq> []"
  by (auto simp: text_ok_def)

lemma reject_Inr: "reject ps = Inr u \<longleftrightarrow> list_all (\<lambda>p. \<not> fst p) ps"
  by (auto simp: reject_def find_None_iff list_all_iff dest: find_Some_mem split: option.splits)

lemma reject_append: "reject (ps @ qs) = Inr u \<longleftrightarrow> reject ps = Inr u \<and> reject qs = Inr u"
  by (simp add: reject_Inr)

lemma normalized_text: "normalize_http_assertion_text v f = Inr r \<Longrightarrow> pred_option text_ok r \<and> (r = None \<longleftrightarrow> v = None)"
  by (auto simp: normalize_http_assertion_text_def split: option.splits if_splits)

lemma try_map_list_all: "try_map f xs = Inr ys \<Longrightarrow> (\<And>x y. f x = Inr y \<Longrightarrow> P y) \<Longrightarrow> list_all P ys"
  by (induction xs arbitrary: ys) (auto simp: and_then_eq_Inr)

lemma try_map_Nil: "try_map f xs = Inr [] \<longleftrightarrow> xs = []"
  by (cases xs) (auto simp: and_then_eq_Inr)

lemma normalized_texts:
  "normalize_http_assertion_texts v f = Inr r \<Longrightarrow> texts_ok id r"
  "normalize_json_path_exists v f = Inr r \<Longrightarrow> texts_ok id r"
  "normalize_json_path_value_assertions a f = Inr r' \<Longrightarrow> texts_ok jpva_path r'"
  unfolding normalize_http_assertion_texts_def normalize_json_path_exists_def normalize_json_path_value_assertions_def
  by (auto simp: texts_ok_def and_then_eq_Inr try_map_Nil elim!: try_map_list_all split: option.splits if_splits)

lemma normalized_header_name:
  "normalize_http_assertion_header_name env v = Inr r \<Longrightarrow> pred_option text_ok r \<and> (r = None \<longleftrightarrow> v = None)"
  by (auto simp: normalize_http_assertion_header_name_def split: option.splits if_splits)

lemma normalized_header:
  assumes "normalize_header_assertion env a = Inr r"
  shows "text_ok (hha_name r) \<and> header_ok r"
proof -
  obtain e c where r: "trim (hha_name a) \<noteq> []" "normalize_http_assertion_text (hha_equals a) ''equals'' = Inr e"
    "normalize_http_assertion_text (hha_contains a) ''contains'' = Inr c" "e = None \<or> c = None"
    "r = \<lparr>hha_name = trim (hha_name a), hha_equals = e, hha_contains = c\<rparr>"
    using assms by (auto simp: normalize_header_assertion_def Let_def and_then_eq_Inr reject_Inr)
  then show ?thesis
    using normalized_text [OF r(2)] normalized_text [OF r(3)] by (simp add: header_ok_def)
qed

lemma normalized_headers:
  assumes "normalize_http_header_assertions env v = Inr r"
  shows "texts_ok hha_name r \<and> pred_option (list_all header_ok) r"
proof (cases r)
  case (Some hs)
  then obtain as where "as \<noteq> []" "try_map (normalize_header_assertion env) as = Inr hs"
    using assms by (auto simp: normalize_http_header_assertions_def and_then_eq_Inr split: option.splits if_splits)
  moreover from this(2) have "list_all (\<lambda>h. text_ok (hha_name h) \<and> header_ok h) hs"
    by (rule try_map_list_all) (rule normalized_header)
  ultimately show ?thesis
    using Some by (auto simp: texts_ok_def list_all_iff try_map_Nil)
qed (simp add: texts_ok_def)

lemma normalized_warning_days:
  "normalize_ssl_expiry_warning_days enabled days = Inr r \<Longrightarrow> warning_days_ok enabled r"
  by (auto simp: normalize_ssl_expiry_warning_days_def warning_days_ok_def Let_def as_i32_small i32_in_range_def
      split: if_splits option.splits)

lemma as_i64_positive: "x \<noteq> 0 \<Longrightarrow> x \<le> 9223372036854775807 \<Longrightarrow> 0 < as_i64 (int x)"
  by (subst as_i64_small) auto

lemma checked_delays:
  "reject (policy_override_problems t n ds) = Inr u \<Longrightarrow> delays_ok (cast_delays ds)"
  by (cases ds) (auto simp: policy_override_problems_def reject_append reject_Inr delay_problems_def delays_ok_def
      cast_delays_def list_all_iff list_ex_iff not_less intro!: as_i64_positive, metis gr0I)

lemma checked_response_time:
  assumes "\<not> (case v of Some t \<Rightarrow> 2147483647 < t | None \<Rightarrow> False)" "v \<noteq> Some 0"
  shows "pred_option (\<lambda>t. 0 < t) (cast_i32 v)"
  using assms by (cases v) (auto simp: cast_i32_def as_i32_small i32_in_range_def)

section \<open>Handlers keep the configurations\<close>

lemma http_payload_configured:
  assumes "validate_and_normalize_http_monitor_payload env p allow = Inr n" "sm_monitor_type m = Http"
  shows "monitor_configured (http_columns (http_params p n) m)"
proof -
  obtain days bc bn bct bnt je jeq jne hn hv hs where
    n: "trim (uhm_target_url p) \<noteq> []" "30 \<le> uhm_check_interval_seconds p"
      "100 \<le> uhm_expected_status_code p" "uhm_expected_status_code p \<le> 599"
    and overrides: "validate_http_monitor_policy_overrides env p = Inr ()"
    and parts: "normalize_ssl_expiry_warning_days (unwrap_or (uhm_ssl_certificate_checks_enabled p) False)
        (uhm_ssl_expiry_warning_days p) = Inr days"
      "normalize_http_assertion_text (uhm_body_must_contain p) ''body_must_contain'' = Inr bc"
      "normalize_http_assertion_text (uhm_body_must_not_contain p) ''body_must_not_contain'' = Inr bn"
      "normalize_http_assertion_texts (uhm_body_must_contain_texts p) ''body_must_contain_texts'' = Inr bct"
      "normalize_http_assertion_texts (uhm_body_must_not_contain_texts p) ''body_must_not_contain_texts'' = Inr bnt"
      "normalize_json_path_exists (uhm_json_path_exists p) ''json_path_exists'' = Inr je"
      "normalize_json_path_value_assertions (uhm_json_path_equals p) ''json_path_equals'' = Inr jeq"
      "normalize_json_path_value_assertions (uhm_json_path_not_equals p) ''json_path_not_equals'' = Inr jne"
      "normalize_http_assertion_header_name env (uhm_required_header_name p) = Inr hn"
      "normalize_http_assertion_text (uhm_required_header_value p) ''required_header_value'' = Inr hv"
      "normalize_http_header_assertions env (uhm_header_assertions p) = Inr hs"
    and n_eq: "n = \<lparr>nhp_target_url = trim (uhm_target_url p), nhp_body_must_contain = bc,
        nhp_body_must_not_contain = bn, nhp_body_must_contain_texts = bct, nhp_body_must_not_contain_texts = bnt,
        nhp_json_path_exists = je, nhp_json_path_equals = jeq, nhp_json_path_not_equals = jne,
        nhp_required_header_name = hn, nhp_required_header_value = hv, nhp_header_assertions = hs,
        nhp_ssl_certificate_checks_enabled = unwrap_or (uhm_ssl_certificate_checks_enabled p) False,
        nhp_ssl_expiry_warning_days = days,
        nhp_retry_delays_override = cast_delays (uhm_http_check_retry_delays_ms_override p)\<rparr>"
    using assms(1)
    by (auto simp: validate_and_normalize_http_monitor_payload_def Let_def and_then_eq_Inr reject_Inr)
  have checks: "uhm_max_response_time_ms p \<noteq> Some 0"
      "\<not> (case uhm_max_response_time_ms p of Some t \<Rightarrow> 2147483647 < t | None \<Rightarrow> False)"
      "uhm_required_header_name p = None \<longrightarrow> uhm_required_header_value p = None"
      "reject (policy_override_problems (uhm_http_check_timeout_seconds_override p)
        (uhm_http_check_max_attempts_override p) (uhm_http_check_retry_delays_ms_override p)) = Inr ()"
    using overrides unfolding validate_http_monitor_policy_overrides_def reject_append
    by (auto simp: reject_Inr)
  show ?thesis
    using n checks(3) assms(2) normalized_text [OF parts(2)] normalized_text [OF parts(3)] normalized_texts(1) [OF parts(4)]
      normalized_texts(1) [OF parts(5)] normalized_texts(2) [OF parts(6)] normalized_texts(3) [OF parts(7)]
      normalized_texts(3) [OF parts(8)] normalized_header_name [OF parts(9)] normalized_text [OF parts(10)]
      normalized_headers [OF parts(11)] normalized_warning_days [OF parts(1)] checked_delays [OF checks(4)]
      checked_response_time [OF checks(2,1)]
    by (simp add: monitor_configured_def http_columns_def http_params_def n_eq http_configured_def)
qed

lemma ssl_payload_configured:
  assumes "validate_and_normalize_ssl_monitor_payload env p allow = Inr n" "sm_monitor_type m = Ssl"
  shows "monitor_configured (ssl_columns (ssl_params p n) m)"
proof -
  obtain days where n: "trim (usl_target_url p) \<noteq> []" "30 \<le> usl_check_interval_seconds p"
    "validate_ssl_monitor_policy_overrides p = Inr ()"
    "normalize_ssl_expiry_warning_days True (usl_ssl_expiry_warning_days p) = Inr days"
    "n = \<lparr>nsp_target_url = trim (usl_target_url p), nsp_ssl_expiry_warning_days = days,
          nsp_retry_delays_override = cast_delays (usl_http_check_retry_delays_ms_override p)\<rparr>"
    using assms(1)
    by (auto simp: validate_and_normalize_ssl_monitor_payload_def Let_def and_then_eq_Inr reject_Inr)
  show ?thesis
    using n(1,2) assms(2) normalized_warning_days [OF n(4)]
      checked_delays [OF n(3) [unfolded validate_ssl_monitor_policy_overrides_def]]
    by (simp add: monitor_configured_def ssl_columns_def ssl_params_def n(5) ssl_configured_def)
qed

lemma tcp_payload_configured:
  assumes "checked_tcp_payload env p = Inr n" "sm_monitor_type m = Tcp"
  shows "monitor_configured (tcp_settings (tcp_params p n) (tcp_target (tcp_params p n) m))"
  using assms
  by (auto simp: checked_tcp_payload_def validate_and_normalize_tcp_monitor_payload_def and_then_eq_Inr reject_Inr
      monitor_configured_def tcp_configured_def tcp_settings_def tcp_target_def tcp_target_url_def tcp_params_def blank_def)

lemma valid_record_type: "is_valid_record_type s \<Longrightarrow> to_uppercase s \<in> {''A'', ''AAAA'', ''CNAME'', ''MX'', ''TXT'', ''NS''}"
  unfolding is_valid_record_type_def parse_record_type_def Let_def by (auto split: if_splits)

lemma dns_payload_configured:
  assumes "validate_and_normalize_dns_monitor_payload p = Inr n" "sm_monitor_type m = Dns"
  shows "monitor_configured (dns_settings (dns_params p n) (dns_target (dns_params p n) m))"
proof -
  have n: "trim (udm_hostname p) \<noteq> []" "is_valid_record_type (trim (udm_record_type p))"
    "30 \<le> udm_check_interval_seconds p" "\<not> (case udm_nameserver p of Some ns \<Rightarrow> parse_ip (trim ns) = None | None \<Rightarrow> False)"
    using assms(1) by (auto simp: validate_and_normalize_dns_monitor_payload_def and_then_eq_Inr reject_Inr blank_def)
  have "pred_option (\<lambda>ns. parse_ip (trim ns) \<noteq> None) (udm_nameserver p)"
    using n(4) by (cases "udm_nameserver p") simp_all
  then show ?thesis
    using n(1,3) valid_record_type [OF n(2)] assms(2)
    by (simp add: monitor_configured_def dns_configured_def dns_settings_def dns_target_def dns_target_url_def dns_params_def)
qed

lemma heartbeat_payload:
  "validate_and_normalize_heartbeat_monitor_payload p = Inr g \<Longrightarrow>
    30 \<le> uhb_check_interval_seconds p \<and> pred_option (\<lambda>g. 0 \<le> g) g"
  by (auto simp: validate_and_normalize_heartbeat_monitor_payload_def and_then_eq_Inr reject_Inr split: option.splits if_splits)

lemma tcp_settings_configured:
  assumes "checked_tcp_payload env p = Inr n" "monitor_configured m" "sm_monitor_type m = Tcp"
  shows "monitor_configured (tcp_settings (tcp_params p n) m)"
  using assms
  by (auto simp: checked_tcp_payload_def validate_and_normalize_tcp_monitor_payload_def and_then_eq_Inr reject_Inr
      monitor_configured_def tcp_configured_def tcp_settings_def tcp_params_def split: option.splits)

lemma dns_settings_configured:
  assumes "validate_and_normalize_dns_monitor_payload p = Inr n" "monitor_configured m" "sm_monitor_type m = Dns"
  shows "monitor_configured (dns_settings (dns_params p n) m)"
  using assms
  by (auto simp: validate_and_normalize_dns_monitor_payload_def and_then_eq_Inr reject_Inr
      monitor_configured_def dns_configured_def dns_settings_def dns_params_def split: option.splits)

lemma touched_configured [simp]:
  "monitor_configured (touch now m) = monitor_configured m"
  "monitor_configured (set_active now b m) = monitor_configured m"
  "monitor_configured (ping_row now m) = monitor_configured m"
  by (simp_all add: monitor_configured_def http_configured_def ssl_configured_def tcp_configured_def dns_configured_def
      heartbeat_configured_def touch_def set_active_def ping_row_def split: site_monitor_type.split option.split)

text \<open>A handler keeps a property of the tables if each statement it runs does.\<close>

definition keeps :: "(db \<Rightarrow> bool) \<Rightarrow> ('s, 'p, 'a) handler \<Rightarrow> bool" where
  "keeps P m \<longleftrightarrow> (\<forall>a. P (app_db a) \<longrightarrow> P (app_db (snd (m a))))"

definition stmt_keeps :: "(db \<Rightarrow> bool) \<Rightarrow> (db, 'a) stmt \<Rightarrow> bool" where
  "stmt_keeps P m \<longleftrightarrow> (\<forall>d x d'. P d \<longrightarrow> m d = Inr (x, d') \<longrightarrow> P d')"

named_theorems keep_rules

lemma keeps_result [keep_rules]:
  "(\<And>n. r = Inr n \<Longrightarrow> keeps P (k n)) \<Longrightarrow> keeps P (svc_bind (svc_result r) k)"
  by (cases r) (simp_all add: keeps_def svc_bind_def)

lemma keeps_demand [keep_rules]: "keeps P (k ()) \<Longrightarrow> keeps P (svc_bind (demand perms p) k)"
  by (simp add: keeps_def demand_bind)

lemma keeps_bind [keep_rules]:
  fixes m :: "('s, 'p, 'a) handler"
  assumes "keeps P m" "\<And>x. keeps P (k x)"
  shows "keeps P (svc_bind m k)"
  unfolding keeps_def
proof (intro allI impI)
  fix a :: "('s, 'p) app_state"
  assume "P (app_db a)"
  then have "P (app_db (snd (m a)))"
    using assms(1) by (simp add: keeps_def)
  then show "P (app_db (snd (svc_bind m k a)))"
    using assms(2) by (auto simp: keeps_def svc_bind_def split: prod.splits sum.splits)
qed

lemma keeps_steps [keep_rules]:
  "stmt_keeps P s \<Longrightarrow> keeps P (db_call s)"
  "keeps P (db_query f)" "keeps P (svc_return x)" "keeps P (svc_result r)" "keeps P (svc_fail e)"
  by (auto simp: keeps_def stmt_keeps_def db_call_def db_query_def on_db_def svc_map_err_def svc_stmt_def map_err_def
      split: prod.splits sum.splits)

lemma keeps_cases [keep_rules]:
  "\<lbrakk>b \<Longrightarrow> keeps P m; \<not> b \<Longrightarrow> keeps P n\<rbrakk> \<Longrightarrow> keeps P (if b then m else n)"
  "\<lbrakk>v = None \<Longrightarrow> keeps P m; \<And>x. v = Some x \<Longrightarrow> keeps P (k x)\<rbrakk>
    \<Longrightarrow> keeps P (case v of None \<Rightarrow> m | Some x \<Rightarrow> k x)"
  by (auto split: option.split)

text \<open>The statements on monitors keep the configurations if their rows are configured.\<close>

lemma update_monitors_keeps:
  assumes "\<And>m. monitor_configured m \<Longrightarrow> p m \<Longrightarrow> monitor_configured (f m)"
  shows "stmt_keeps monitors_configured (update_monitors p f)"
  using assms by (auto simp: stmt_keeps_def update_monitors_def monitors_configured_def list_all_iff set_update_rows)

lemma update_monitors_checked_keeps:
  assumes "\<And>m. monitor_configured m \<Longrightarrow> p m \<Longrightarrow> monitor_configured (f m)"
  shows "stmt_keeps monitors_configured (update_monitors_checked p f)"
  using update_monitors_keeps [of p f] assms
  by (auto simp: stmt_keeps_def update_monitors_checked_def split: if_splits)

lemma fetch_one_of_keeps: "stmt_keeps P s \<Longrightarrow> stmt_keeps P (fetch_one_of s)"
  by (auto simp: stmt_keeps_def fetch_one_of_def stmt_bind_Inr_iff)

lemma insert_monitor_keeps:
  "(\<And>i. monitor_configured (mk i)) \<Longrightarrow> stmt_keeps monitors_configured (insert_monitor mk)"
  by (auto simp: stmt_keeps_def insert_monitor_def Let_def monitors_configured_def split: if_splits)

lemma upsert_monitor_keeps:
  assumes "\<And>i. monitor_configured (mk i)"
    "\<And>m i. monitor_configured m \<Longrightarrow> sm_monitor_type m = sm_monitor_type (mk i) \<Longrightarrow> monitor_configured (f m)"
  shows "stmt_keeps monitors_configured (upsert_monitor mk f)"
  unfolding stmt_keeps_def
proof (intro allI impI)
  fix d x d'
  assume d: "monitors_configured d" "upsert_monitor mk f d = Inr (x, d')"
  show "monitors_configured d'"
  proof (cases "find (\<lambda>m. monitor_key m = monitor_key (mk (db_next_monitor d))) (db_monitors d)")
    case None
    then show ?thesis
      using d insert_monitor_keeps [of mk, OF assms(1)] by (auto simp: upsert_monitor_def stmt_keeps_def)
  next
    case (Some m)
    then show ?thesis
      using d assms(2) by (auto simp: upsert_monitor_def monitors_configured_def list_all_iff set_update_rows monitor_key_def)
  qed
qed

lemma incident_statements_keep [keep_rules]:
  "stmt_keeps monitors_configured (resolve_open_incidents_for_monitor now m r)"
  "stmt_keeps monitors_configured (resolve_open_incidents_for_site now s r)"
  by (auto simp: stmt_keeps_def resolve_open_incidents_for_monitor_def resolve_open_incidents_for_site_def
      update_incidents_def monitors_configured_def split: sum.splits)

lemma switches_keep [keep_rules]:
  "stmt_keeps monitors_configured (disable_monitors_of_type now t s)"
  "stmt_keeps monitors_configured (disable_monitor_of_type now t s i)"
  "stmt_keeps monitors_configured (switch_monitor_of_type now t b s i)"
  "stmt_keeps monitors_configured (record_heartbeat_ping now token)"
  unfolding disable_monitors_of_type_def disable_monitor_of_type_def switch_monitor_of_type_def record_heartbeat_ping_def
  by (intro fetch_one_of_keeps update_monitors_keeps; simp)+

lemmas switch_defs = disable_http_monitors_by_site_id_def disable_ssl_monitors_by_site_id_def
  disable_tcp_monitors_by_site_id_def disable_dns_monitors_by_site_id_def disable_heartbeat_monitors_by_site_id_def
  disable_http_monitor_by_id_def disable_ssl_monitor_by_id_def disable_tcp_monitor_by_id_def disable_dns_monitor_by_id_def
  disable_heartbeat_monitor_by_id_def pause_http_monitor_by_id_def pause_ssl_monitor_by_id_def
  pause_tcp_monitor_by_id_def pause_dns_monitor_by_id_def pause_heartbeat_monitor_by_id_def
  resume_http_monitor_by_id_def resume_ssl_monitor_by_id_def resume_tcp_monitor_by_id_def resume_dns_monitor_by_id_def
  resume_heartbeat_monitor_by_id_def

lemma column_types:
  "sm_monitor_type (http_columns p1 m) = sm_monitor_type m"
  "sm_monitor_type (ssl_columns p2 m) = sm_monitor_type m"
  "sm_monitor_type (tcp_settings p3 m) = sm_monitor_type m" "sm_monitor_type (tcp_target p3 m) = sm_monitor_type m"
  "sm_monitor_type (dns_settings p4 m) = sm_monitor_type m" "sm_monitor_type (dns_target p4 m) = sm_monitor_type m"
  "sm_monitor_type (clear_http_assertions u m) = sm_monitor_type m"
  "sm_monitor_type (monitor_defaults now i s t url) = t"
  by (simp_all add: http_columns_def ssl_columns_def tcp_settings_def tcp_target_def dns_settings_def dns_target_def
      clear_http_assertions_def monitor_defaults_def)

lemma upserts_keep [keep_rules]:
  "validate_and_normalize_http_monitor_payload env ph allow = Inr nh \<Longrightarrow>
    stmt_keeps monitors_configured (upsert_http_monitor_by_site_id_and_target_url now s (http_params ph nh))"
  "validate_and_normalize_ssl_monitor_payload env ps allow = Inr ns \<Longrightarrow>
    stmt_keeps monitors_configured (upsert_ssl_monitor_by_site_id_and_target_url now s (ssl_params ps ns))"
  "checked_tcp_payload env pt = Inr nt \<Longrightarrow>
    stmt_keeps monitors_configured (upsert_tcp_monitor_by_site_id_and_host_port now s (tcp_params pt nt))"
  "validate_and_normalize_dns_monitor_payload pd = Inr nd \<Longrightarrow>
    stmt_keeps monitors_configured (upsert_dns_monitor_by_site_id_and_hostname_record_type now s (dns_params pd nd))"
  unfolding upsert_http_monitor_by_site_id_and_target_url_def upsert_ssl_monitor_by_site_id_and_target_url_def
    upsert_tcp_monitor_by_site_id_and_host_port_def upsert_dns_monitor_by_site_id_and_hostname_record_type_def
  by (rule upsert_monitor_keeps;
      simp add: http_payload_configured ssl_payload_configured tcp_payload_configured dns_payload_configured
        tcp_settings_configured dns_settings_configured column_types)+

lemma updates_keep [keep_rules]:
  "validate_and_normalize_http_monitor_payload env ph allow = Inr nh \<Longrightarrow>
    stmt_keeps monitors_configured (update_http_site_monitor_by_id now s i (http_params ph nh))"
  "validate_and_normalize_ssl_monitor_payload env ps allow = Inr ns \<Longrightarrow>
    stmt_keeps monitors_configured (update_ssl_site_monitor_by_id now s i (ssl_params ps ns))"
  "checked_tcp_payload env pt = Inr nt \<Longrightarrow>
    stmt_keeps monitors_configured (update_tcp_site_monitor_by_id now s i (tcp_params pt nt))"
  "validate_and_normalize_dns_monitor_payload pd = Inr nd \<Longrightarrow>
    stmt_keeps monitors_configured (update_dns_site_monitor_by_id now s i (dns_params pd nd))"
  unfolding update_http_site_monitor_by_id_def update_ssl_site_monitor_by_id_def update_tcp_site_monitor_by_id_def
    update_dns_site_monitor_by_id_def
  by (rule fetch_one_of_keeps, rule update_monitors_checked_keeps,
      simp add: http_payload_configured ssl_payload_configured tcp_payload_configured dns_payload_configured
        column_types monitor_by_id_def monitor_of_type_def)+

lemma heartbeats_keep:
  assumes "validate_and_normalize_heartbeat_monitor_payload p = Inr g"
  shows "stmt_keeps monitors_configured (update_heartbeat_site_monitor_by_id now s i (heartbeat_params p g))"
    "keeps monitors_configured (save_heartbeat_monitor now token s (heartbeat_params p g))"
proof -
  have row: "monitor_configured (heartbeat_columns (heartbeat_params p g) m)"
    if "monitor_configured m" "sm_monitor_type m = Heartbeat" for m
    using heartbeat_payload [OF assms] that
    by (simp add: monitor_configured_def heartbeat_configured_def heartbeat_columns_def heartbeat_params_def
        split: option.splits)
  show update: "stmt_keeps monitors_configured (update_heartbeat_site_monitor_by_id now s i (heartbeat_params p g))" for i
    unfolding update_heartbeat_site_monitor_by_id_def
    by (rule fetch_one_of_keeps, rule update_monitors_keeps, simp add: row monitor_by_id_def monitor_of_type_def)
  have "stmt_keeps monitors_configured (create_heartbeat_site_monitor now s
      \<lparr>hbp_target_url = heartbeat_ping_path token, hbp_heartbeat_token = token,
       hbp_check_interval_seconds = hbu_check_interval_seconds (heartbeat_params p g),
       hbp_heartbeat_grace_seconds = hbu_heartbeat_grace_seconds (heartbeat_params p g),
       hbp_is_active = hbu_is_active (heartbeat_params p g)\<rparr>)"
    unfolding create_heartbeat_site_monitor_def
    using heartbeat_payload [OF assms]
    by (intro insert_monitor_keeps)
      (simp add: monitor_configured_def heartbeat_configured_def monitor_defaults_def heartbeat_params_def)
  then show "keeps monitors_configured (save_heartbeat_monitor now token s (heartbeat_params p g))"
    unfolding save_heartbeat_monitor_def by (intro keep_rules update)
qed

lemma handle_monitor_keeps: "keeps monitors_configured (handle_monitor cfg env clk perms c)"
  by (cases c; simp only: handle_monitor.simps answer_monitor_def; unfold monitor_handler_defs switch_defs site_found_def
      close_unless_active_def close_incidents_of_def; (intro keep_rules heartbeats_keep; assumption)+)

text \<open>
  C30: Whatever monitor call is made and however it ends, a table whose monitors are all configured as their
  checkers expect stays so: no payload gets past the validation with a blank text, an empty list, a check
  interval under 30 seconds, a status outside 100..599, a header assertion with two conditions, a warning
  threshold of 7 days or less, a retry delay of 0 (HTTP and certificate monitors) or a ping path that does
  not carry the monitor's token.
\<close>

theorem monitor_calls_keep_configurations:
  assumes "monitors_configured (app_db a)"
  shows "monitors_configured (app_db (snd (handle_monitor cfg env clk perms c a)))"
  using handle_monitor_keeps [of cfg env clk perms c] assms by (auto simp: keeps_def)

definition sample_monitor_env :: monitor_env where
  "sample_monitor_env =
     \<lparr>me_parse_url = (\<lambda>u. Some \<lparr>pu_href = u, pu_scheme = ''https'', pu_host = Some ''a.test'', pu_port_or_default = Some 443\<rparr>),
      me_lookup_host = (\<lambda>_. Some [(V4 8 8 8 8, 443)]), me_valid_header_name = (\<lambda>n. n \<noteq> []),
      me_allow_private_targets = False\<rparr>"

theorem monitor_calls_keep_configurations_witness:
  "monitors_configured sample_db \<and>
   monitors_configured (app_db (snd (handle_monitor sample_config sample_monitor_env
     \<lparr>ck_now = 9, ck_utc = 9, ck_instant = 9\<rparr> {SiteMonitorsUpdate} (PauseHttp 1 1) (sample_app\<lparr>app_db := sample_db\<rparr>))))"
proof -
  have "trim ''https://a.test/1'' = ''https://a.test/1''" "trim ''https://a.test/2'' = ''https://a.test/2''"
    by code_simp+
  then have "monitors_configured sample_db"
    by (simp add: monitors_configured_def sample_db_def monitor_configured_def monitor_defaults_def http_configured_def
        text_ok_def texts_ok_def warning_days_ok_def delays_ok_def)
  then show ?thesis
    using monitor_calls_keep_configurations [of "sample_app\<lparr>app_db := sample_db\<rparr>"] by (simp del: handle_monitor.simps)
qed

end
