(* ===== verification/Monitor_Stop.thy ===== *)
theory Monitor_Stop
  imports Monitor_Config
begin

text \<open>
  What stopping monitors leaves behind: a monitor that is disabled, paused or saved as inactive is not
  checked any more and has no open incident; a call that disables all monitors of a type closes more than
  the incidents of those.
\<close>

section \<open>Stopping monitors\<close>

text \<open>The monitor a call names and stops when it succeeds: one that is disabled, paused, or saved as inactive.\<close>

fun stopped_monitor :: "monitor_call \<Rightarrow> id option" where
  "stopped_monitor (PatchHttp s m p) = (if uhm_is_active p then None else Some m)"
| "stopped_monitor (PatchSsl s m p) = (if usl_is_active p then None else Some m)"
| "stopped_monitor (PatchTcp s m p) = (if utm_is_active p then None else Some m)"
| "stopped_monitor (PatchDns s m p) = (if udm_is_active p then None else Some m)"
| "stopped_monitor (PatchHeartbeat s m p) = (if uhb_is_active p then None else Some m)"
| "stopped_monitor (DeleteHttp s m) = Some m"
| "stopped_monitor (DeleteSsl s m) = Some m"
| "stopped_monitor (DeleteTcp s m) = Some m"
| "stopped_monitor (DeleteDns s m) = Some m"
| "stopped_monitor (DeleteHeartbeat s m) = Some m"
| "stopped_monitor (PauseHttp s m) = Some m"
| "stopped_monitor (PauseSsl s m) = Some m"
| "stopped_monitor (PauseTcp s m) = Some m"
| "stopped_monitor (PauseDns s m) = Some m"
| "stopped_monitor (PauseHeartbeat s m) = Some m"
| "stopped_monitor _ = None"

text \<open>A PUT that saves a monitor as inactive stops the one it answers with.\<close>

fun puts_inactive :: "monitor_call \<Rightarrow> bool" where
  "puts_inactive (PutHttp s p) = (\<not> uhm_is_active p)"
| "puts_inactive (PutSsl s p) = (\<not> usl_is_active p)"
| "puts_inactive (PutTcp s p) = (\<not> utm_is_active p)"
| "puts_inactive (PutDns s p) = (\<not> udm_is_active p)"
| "puts_inactive (PutHeartbeat tok s p) = (\<not> uhb_is_active p)"
| "puts_inactive _ = False"

fun answered_id :: "monitor_answer \<Rightarrow> id option" where
  "answered_id (AnsHttpMonitor r) = Some (hmr_id r)"
| "answered_id (AnsSslMonitor r) = Some (slr_id r)"
| "answered_id (AnsTcpMonitor r) = Some (tcr_id r)"
| "answered_id (AnsDnsMonitor r) = Some (dnr_id r)"
| "answered_id (AnsHeartbeatMonitor r) = Some (hbr_id r)"
| "answered_id _ = None"

text \<open>A call that disables all monitors of a type on a site.\<close>

fun disabled_type :: "monitor_call \<Rightarrow> (site_monitor_type \<times> id) option" where
  "disabled_type (DeleteAllHttp s) = Some (Http, s)"
| "disabled_type (DeleteAllSsl s) = Some (Ssl, s)"
| "disabled_type (DeleteAllTcp s) = Some (Tcp, s)"
| "disabled_type (DeleteAllDns s) = Some (Dns, s)"
| "disabled_type (DeleteAllHeartbeat s) = Some (Heartbeat, s)"
| "disabled_type _ = None"

text \<open>Every monitor a call stops, given its answer and the database it found.\<close>

definition stopped_monitors :: "monitor_call \<Rightarrow> monitor_answer \<Rightarrow> db \<Rightarrow> id list" where
  "stopped_monitors c r d =
     (case (stopped_monitor c, disabled_type c) of
        (Some i, _) \<Rightarrow> [i]
      | (None, Some (t, s)) \<Rightarrow> map sm_id (filter (monitor_of_type t s) (db_monitors d))
      | (None, None) \<Rightarrow> if puts_inactive c then List.map_filter id [answered_id r] else [])"

definition at_rest :: "id \<Rightarrow> db \<Rightarrow> bool" where
  "at_rest i d \<longleftrightarrow>
     list_ex (\<lambda>m. sm_id m = i) (db_monitors d) \<and>
     list_all (\<lambda>m. if sm_id m = i then \<not> sm_is_active m else True) (db_monitors d) \<and>
     list_all (\<lambda>n. if inc_site_monitor_id n = i then \<not> is_open n else True) (db_incidents d)"

text \<open>An update of the one row with an id leaves that row inactive, if the function makes it so.\<close>

definition inactive :: "id \<Rightarrow> db \<Rightarrow> bool" where
  "inactive i d \<longleftrightarrow> list_ex (\<lambda>m. sm_id m = i) (db_monitors d) \<and>
     list_all (\<lambda>m. if sm_id m = i then \<not> sm_is_active m else True) (db_monitors d)"

lemma update_leaves_inactive:
  assumes "update_monitors p f d = Inr (rs, d')" "fetch_optional rs = Some r" "distinct (map sm_id (db_monitors d))"
    "\<And>m. p m \<Longrightarrow> sm_id m = i" "\<And>m. sm_id (f m) = sm_id m" "\<And>m. p m \<Longrightarrow> \<not> sm_is_active (f m)"
  shows "inactive i d'"
proof -
  have d': "db_monitors d' = update_rows p f (db_monitors d)" "rs = returning_rows p f (db_monitors d)"
    using assms(1) by (auto simp: update_monitors_def)
  obtain m where m: "m \<in> set (db_monitors d)" "p m"
    using fetch_optional_Some_mem [OF assms(2)] by (auto simp: d'(2) returning_rows_def)
  have "\<not> sm_is_active x" if x: "x \<in> set (db_monitors d')" "sm_id x = i" for x
  proof -
    consider y where "y \<in> set (db_monitors d)" "p y" "x = f y" | "x \<in> set (db_monitors d)" "\<not> p x"
      using x(1) unfolding d'(1) set_update_rows by blast
    then show ?thesis
    proof cases
      case 2
      then have "x = m"
        using distinct_map_eqD [OF assms(3) _ m(1)] x(2) assms(4) [OF m(2)] by simp
      then show ?thesis using 2 m(2) by simp
    qed (simp add: assms(6))
  qed
  moreover have "f m \<in> set (db_monitors d')" "sm_id (f m) = i"
    using m assms(4,5) by (auto simp: d'(1) set_update_rows)
  ultimately show ?thesis
    by (auto simp: inactive_def list_ex_iff list_all_iff)
qed

lemma closing_leaves_at_rest:
  assumes "close_incidents_of now i a = (Inr u, a')" "inactive i (app_db a)"
  shows "at_rest i (app_db a')"
proof -
  obtain n d' where r: "resolve_open_incidents_for_monitor now i MonitoringDisabled (app_db a) = Inr (n, d')"
    "a' = a\<lparr>app_db := d'\<rparr>"
    using assms(1) by (auto simp: close_incidents_of_def svc_bind_Inr db_call_Inr)
  note closed = closing_incidents [OF r(1) [unfolded resolve_open_incidents_for_monitor_def]]
  have "db_monitors d' = db_monitors (app_db a)"
    by (subst closed(2)) simp
  then show ?thesis
    using assms(2) closed(1) by (simp add: r(2) at_rest_def inactive_def)
qed

definition stops :: "id \<Rightarrow> (db, site_monitor option) stmt \<Rightarrow> bool" where
  "stops i s \<longleftrightarrow> (\<forall>d m d'. distinct (map sm_id (db_monitors d)) \<longrightarrow> s d = Inr (Some m, d') \<longrightarrow> inactive i d')"

lemma switching_off_stops:
  "stops i (disable_monitor_of_type now t s i)" "stops i (switch_monitor_of_type now t False s i)"
  by (auto simp: stops_def disable_monitor_of_type_def switch_monitor_of_type_def fetch_one_of_def stmt_bind_Inr_iff
      set_active_def monitor_by_id_def intro: update_leaves_inactive)

lemma saving_inactive_stops:
  "\<not> hmp_is_active ph \<Longrightarrow> stops i (update_http_site_monitor_by_id now s i ph)"
  "\<not> smp_is_active ps \<Longrightarrow> stops i (update_ssl_site_monitor_by_id now s i ps)"
  "\<not> tmp_is_active pt \<Longrightarrow> stops i (update_tcp_site_monitor_by_id now s i pt)"
  "\<not> dmp_is_active pd \<Longrightarrow> stops i (update_dns_site_monitor_by_id now s i pd)"
  "\<not> hbu_is_active pb \<Longrightarrow> stops i (update_heartbeat_site_monitor_by_id now s i pb)"
  unfolding update_http_site_monitor_by_id_def update_ssl_site_monitor_by_id_def update_tcp_site_monitor_by_id_def
    update_dns_site_monitor_by_id_def update_heartbeat_site_monitor_by_id_def
  by (auto simp: stops_def fetch_one_of_def stmt_bind_Inr_iff update_monitors_checked_def monitor_by_id_def
      http_columns_def ssl_columns_def clear_http_assertions_def tcp_settings_def tcp_target_def dns_settings_def
      dns_target_def heartbeat_columns_def touch_def split: if_splits intro: update_leaves_inactive)

lemma stopping_calls:
  assumes "distinct (map sm_id (db_monitors (app_db a)))"
  shows "disable_monitor_call now perms i s missing a = (Inr b, a') \<Longrightarrow> stops i s \<Longrightarrow> at_rest i (app_db a')"
    "pause_monitor_call now response perms i s missing a = (Inr r, a') \<Longrightarrow> stops i s \<Longrightarrow> at_rest i (app_db a')"
    "update_monitor_call now response perms site i False payload existing taken upd missing a = (Inr r, a') \<Longrightarrow>
      (\<And>n. stops i (upd n)) \<Longrightarrow> at_rest i (app_db a')"
  using assms
  by (auto simp: disable_monitor_call_def pause_monitor_call_def update_monitor_call_def site_found_def
      close_unless_active_def svc_bind_Inr demand_Inr db_call_Inr ok_or_Inr stops_def intro: closing_leaves_at_rest
      split: if_splits)

lemmas stopping_handler_defs = disable_http_site_monitor_by_id_def disable_ssl_site_monitor_by_id_def
  disable_tcp_site_monitor_by_id_def disable_dns_site_monitor_by_id_def disable_heartbeat_site_monitor_by_id_def
  pause_http_site_monitor_by_id_def pause_ssl_site_monitor_by_id_def pause_tcp_site_monitor_by_id_def
  pause_dns_site_monitor_by_id_def pause_heartbeat_site_monitor_by_id_def
  update_http_site_monitor_def update_ssl_site_monitor_def update_tcp_site_monitor_def update_dns_site_monitor_def
  update_heartbeat_site_monitor_def switch_defs

lemma stopped_at_rest:
  assumes "distinct (map sm_id (db_monitors (app_db a)))" "handle_monitor cfg env clk perms c a = (Inr r, a')"
    "stopped_monitor c = Some i"
  shows "at_rest i (app_db a')"
  using assms(2,3)
  by (cases c; clarsimp simp: answer_monitor_def svc_bind_Inr stopping_handler_defs split: if_splits)
    (erule stopping_calls [OF assms(1)], rule switching_off_stops saving_inactive_stops;
      simp add: http_params_def ssl_params_def tcp_params_def dns_params_def heartbeat_params_def)+

lemma resolve_for_site_Inr:
  assumes "resolve_open_incidents_for_site now site reason d = Inr (n, d')"
  shows "\<not> has_open_incident_for_site site d' \<and> db_monitors d' = db_monitors d"
proof
  show "\<not> has_open_incident_for_site site d'"
    using resolve_for_site_closes_exactly_its_open_incidents [of d site now reason] by (simp add: assms)
qed (use assms in \<open>auto simp: resolve_open_incidents_for_site_def update_incidents_Inr\<close>)

lemma disable_all_call:
  assumes "disable_monitors_call now perms s (disable_monitors_of_type now t s) missing a = (Inr b, a')"
  shows "\<not> has_open_incident_for_site s (app_db a') \<and>
    db_monitors (app_db a') = map (\<lambda>m. if monitor_of_type t s m \<and> sm_is_active m then set_active now False m else m)
      (db_monitors (app_db a))"
  using assms
  by (auto simp: disable_monitors_call_def svc_bind_Inr demand_Inr db_call_Inr disable_monitors_of_type_def
      update_monitors_def update_rows_def resolve_for_site_Inr split: if_splits)

text \<open>The monitor a PUT saved as inactive.\<close>

lemma upsert_leaves_inactive:
  assumes "upsert_monitor mk f d = Inr (m, d')" "distinct (map sm_id (db_monitors d))"
    and "list_all (\<lambda>m. sm_id m < db_next_monitor d) (db_monitors d)"
    and "\<And>i. sm_id (mk i) = i \<and> \<not> sm_is_active (mk i)" "\<And>m. sm_id (f m) = sm_id m \<and> \<not> sm_is_active (f m)"
  shows "inactive (sm_id m) d'"
proof (cases "find (\<lambda>m. monitor_key m = monitor_key (mk (db_next_monitor d))) (db_monitors d)")
  case None
  then have "m = mk (db_next_monitor d)" "db_monitors d' = db_monitors d @ [m]"
    using assms(1) by (auto simp: upsert_monitor_def insert_monitor_def Let_def split: if_splits)
  then show ?thesis
    using assms(3,4) by (fastforce simp: inactive_def list_ex_iff list_all_iff)
next
  case (Some m0)
  let ?p = "\<lambda>m. monitor_key m = monitor_key (mk (db_next_monitor d))"
  have m: "m = f m0" "db_monitors d' = update_rows ?p f (db_monitors d)"
    using assms(1) Some by (auto simp: upsert_monitor_def Let_def)
  have m0: "m0 \<in> set (db_monitors d)" "?p m0"
    using find_Some_mem [OF Some] by simp_all
  have "\<not> sm_is_active x" if x: "x \<in> set (db_monitors d')" "sm_id x = sm_id m0" for x
  proof -
    obtain y where y: "y \<in> set (db_monitors d)" "x = (if ?p y then f y else y)"
      using update_rows_memD [OF x(1) [unfolded m(2)]] by blast
    then have "sm_id y = sm_id m0"
      using x(2) assms(5) by (auto split: if_splits)
    then have "y = m0"
      using distinct_map_eqD [OF assms(2) y(1) m0(1)] by simp
    then show ?thesis
      using y(2) m0(2) assms(5) by simp
  qed
  moreover have "f m0 \<in> set (db_monitors d')"
    using m0 by (auto simp: m(2) set_update_rows)
  ultimately show ?thesis
    using assms(5) by (auto simp: inactive_def list_ex_iff list_all_iff m(1))
qed

definition saves_inactive :: "db \<Rightarrow> ('s, 'p, site_monitor) handler \<Rightarrow> bool" where
  "saves_inactive d save \<longleftrightarrow>
     (\<forall>a m a'. app_db a = d \<longrightarrow> save a = (Inr m, a') \<longrightarrow> inactive (sm_id m) (app_db a'))"

lemma upserts_save_inactive:
  assumes "distinct (map sm_id (db_monitors d))" "list_all (\<lambda>m. sm_id m < db_next_monitor d) (db_monitors d)"
  shows "\<not> hmp_is_active ph \<Longrightarrow> saves_inactive d (db_call (upsert_http_monitor_by_site_id_and_target_url now s ph))"
    "\<not> smp_is_active ps \<Longrightarrow> saves_inactive d (db_call (upsert_ssl_monitor_by_site_id_and_target_url now s ps))"
    "\<not> tmp_is_active pt \<Longrightarrow> saves_inactive d (db_call (upsert_tcp_monitor_by_site_id_and_host_port now s pt))"
    "\<not> dmp_is_active pd \<Longrightarrow> saves_inactive d
      (db_call (upsert_dns_monitor_by_site_id_and_hostname_record_type now s pd))"
  unfolding upsert_http_monitor_by_site_id_and_target_url_def upsert_ssl_monitor_by_site_id_and_target_url_def
    upsert_tcp_monitor_by_site_id_and_host_port_def upsert_dns_monitor_by_site_id_and_hostname_record_type_def
  by (auto simp: saves_inactive_def db_call_Inr http_columns_def ssl_columns_def tcp_settings_def tcp_target_def
      dns_settings_def dns_target_def touch_def monitor_defaults_def
      intro!: upsert_leaves_inactive [OF _ assms])

lemma created_heartbeat_inactive:
  assumes "create_heartbeat_site_monitor now s p d = Inr (m, d')" "\<not> hbp_is_active p"
    and "list_all (\<lambda>m. sm_id m < db_next_monitor d) (db_monitors d)"
  shows "inactive (sm_id m) d'"
  using assms
  by (fastforce simp: create_heartbeat_site_monitor_def insert_monitor_def Let_def monitor_defaults_def inactive_def
      list_ex_iff list_all_iff split: if_splits)

lemma heartbeat_saves_inactive:
  assumes "distinct (map sm_id (db_monitors d))" "list_all (\<lambda>m. sm_id m < db_next_monitor d) (db_monitors d)"
    and "\<not> hbu_is_active p"
  shows "saves_inactive d (save_heartbeat_monitor now token s p)"
  unfolding saves_inactive_def
proof (intro allI impI)
  fix a m a'
  assume d: "app_db a = d" and save: "save_heartbeat_monitor now token s p a = (Inr m, a')"
  show "inactive (sm_id m) (app_db a')"
  proof (cases "get_heartbeat_monitor_by_site_id s d")
    case None
    then show ?thesis
      using save d assms(2,3)
      by (auto simp: save_heartbeat_monitor_def svc_bind_Inr db_call_Inr intro: created_heartbeat_inactive)
  next
    case (Some m0)
    then obtain d' where u: "update_heartbeat_site_monitor_by_id now s (sm_id m0) p d = Inr (Some m, d')"
      "app_db a' = d'"
      using save d by (auto simp: save_heartbeat_monitor_def svc_bind_Inr db_call_Inr ok_or_Inr)
    moreover have "sm_id m = sm_id m0"
      using u(1) by (auto simp: update_heartbeat_site_monitor_by_id_def fetch_one_of_def stmt_bind_Inr_iff
          update_monitors_def returning_rows_def monitor_by_id_def touch_def heartbeat_columns_def
          dest!: fetch_optional_Some_mem)
    ultimately show ?thesis
      using saving_inactive_stops(5) [OF assms(3)] assms(1) by (auto simp: stops_def)
  qed
qed

lemma upserting_call:
  assumes "upsert_monitor_call now response perms s False payload save a = (Inr r, a')"
    and "\<And>n. saves_inactive (app_db a) (save n)"
  shows "\<exists>m. r = response m \<and> at_rest (sm_id m) (app_db a')"
  using assms
  by (auto simp: upsert_monitor_call_def site_found_def close_unless_active_def svc_bind_Inr demand_Inr ok_or_Inr
      saves_inactive_def split: if_splits) (metis closing_leaves_at_rest)

lemmas upserting_handler_defs = upsert_http_site_monitor_def upsert_ssl_site_monitor_def
  upsert_tcp_site_monitor_def upsert_dns_site_monitor_def upsert_heartbeat_site_monitor_def

lemmas response_ids = http_site_monitor_response_of_def ssl_site_monitor_response_of_def
  tcp_site_monitor_response_of_def dns_site_monitor_response_of_def heartbeat_site_monitor_response_of_def

lemma put_at_rest:
  assumes "distinct (map sm_id (db_monitors (app_db a)))"
    and "list_all (\<lambda>m. sm_id m < db_next_monitor (app_db a)) (db_monitors (app_db a))"
    and "handle_monitor cfg env clk perms c a = (Inr r, a')" "puts_inactive c"
  shows "\<exists>i. answered_id r = Some i \<and> at_rest i (app_db a')"
  using assms(3,4)
  by (cases c; clarsimp simp: answer_monitor_def svc_bind_Inr upserting_handler_defs)
    (drule upserting_call, rule upserts_save_inactive [OF assms(1,2)] heartbeat_saves_inactive [OF assms(1,2)];
      auto simp: http_params_def ssl_params_def tcp_params_def dns_params_def heartbeat_params_def response_ids)+

text \<open>All monitors of a type on a site.\<close>

definition incidents_name_their_site :: "db \<Rightarrow> bool" where
  "incidents_name_their_site d \<longleftrightarrow>
     (\<forall>n \<in> set (db_incidents d). \<forall>m \<in> set (db_monitors d).
        sm_id m = inc_site_monitor_id n \<longrightarrow> sm_site_id m = inc_site_id n)"

lemma disabled_type_handler:
  assumes "handle_monitor cfg env clk perms c a = (Inr r, a')" "disabled_type c = Some (t, s)"
  shows "\<exists>b missing. disable_monitors_call (ck_now clk) perms s (disable_monitors_of_type (ck_now clk) t s) missing a =
    (Inr b, a')"
  using assms
  by (cases c; clarsimp simp: answer_monitor_def svc_bind_Inr disable_http_site_monitor_def disable_ssl_site_monitor_def
      disable_tcp_site_monitor_def disable_dns_site_monitor_def disable_heartbeat_site_monitor_def switch_defs)
    blast+

lemma disabling_keeps_incidents:
  assumes "disable_monitors_call now perms s (disable_monitors_of_type now t s) missing a = (Inr b, a')"
    and "n \<in> set (db_incidents (app_db a'))"
  shows "\<exists>n0 \<in> set (db_incidents (app_db a)).
    inc_site_monitor_id n = inc_site_monitor_id n0 \<and> inc_site_id n = inc_site_id n0"
proof -
  have "\<exists>ns. try_update_rows (\<lambda>i. inc_site_id i = s \<and> is_open i) (closed_row now MonitoringDisabled)
      (db_incidents (app_db a)) = Inr ns \<and> db_incidents (app_db a') = ns"
    using assms(1)
    by (auto simp: disable_monitors_call_def svc_bind_Inr demand_Inr db_call_Inr disable_monitors_of_type_def
        update_monitors_def resolve_open_incidents_for_site_def update_incidents_Inr split: if_splits)
  then obtain ns where ns: "try_update_rows (\<lambda>i. inc_site_id i = s \<and> is_open i) (closed_row now MonitoringDisabled)
      (db_incidents (app_db a)) = Inr ns" "db_incidents (app_db a') = ns"
    by blast
  show ?thesis
    using list_all2_memD [OF ns(1) [unfolded try_update_rows_Inr] assms(2) [unfolded ns(2)]]
    by (auto simp: closed_row_def and_then_eq_Inr split: if_splits)
qed

lemma inactive_map:
  assumes "db_monitors d' = map g ms" "\<And>x. sm_id (g x) = sm_id x"
    and "\<And>x. x \<in> set ms \<Longrightarrow> sm_id x = i \<Longrightarrow> \<not> sm_is_active (g x)" "m \<in> set ms" "sm_id m = i"
  shows "inactive i d'"
  using assms by (auto simp: inactive_def list_ex_iff list_all_iff)

lemma disabled_type_at_rest:
  assumes "distinct (map sm_id (db_monitors (app_db a)))" "incidents_name_their_site (app_db a)"
    and "disable_monitors_call now perms s (disable_monitors_of_type now t s) missing a = (Inr b, a')"
    and "m \<in> set (db_monitors (app_db a))" "monitor_of_type t s m"
  shows "at_rest (sm_id m) (app_db a')"
proof -
  let ?f = "\<lambda>m. if monitor_of_type t s m \<and> sm_is_active m then set_active now False m else m"
  note d = disable_all_call [OF assms(3)]
  have mons: "db_monitors (app_db a') = map ?f (db_monitors (app_db a))"
    using d by blast
  have id: "sm_id (?f x) = sm_id x" for x
    by (simp add: set_active_def)
  have "inactive (sm_id m) (app_db a')"
  proof -
    have "\<not> sm_is_active (?f x)" if "x \<in> set (db_monitors (app_db a))" "sm_id x = sm_id m" for x
      using distinct_map_eqD [OF assms(1) that(1) assms(4)] that(2) assms(5) by (simp add: set_active_def)
    then show ?thesis
      using inactive_map [OF mons id _ assms(4) refl] by blast
  qed
  moreover have "\<not> is_open n" if n: "n \<in> set (db_incidents (app_db a'))" "inc_site_monitor_id n = sm_id m" for n
  proof -
    obtain n0 where n0: "n0 \<in> set (db_incidents (app_db a))" "inc_site_monitor_id n = inc_site_monitor_id n0"
      "inc_site_id n = inc_site_id n0"
      using disabling_keeps_incidents [OF assms(3) n(1)] by blast
    then have "inc_site_id n = s"
      using assms(2,4,5) n(2) by (auto simp: incidents_name_their_site_def monitor_of_type_def)
    then show ?thesis
      using d n(1) by (auto simp: has_open_incident_for_site_def)
  qed
  ultimately show ?thesis
    by (auto simp: at_rest_def inactive_def list_all_iff)
qed

lemma all_stopped_at_rest:
  assumes "distinct (map sm_id (db_monitors (app_db a)))"
    and "list_all (\<lambda>m. sm_id m < db_next_monitor (app_db a)) (db_monitors (app_db a))"
    and "incidents_name_their_site (app_db a)"
    and "handle_monitor cfg env clk perms c a = (Inr r, a')"
  shows "list_all (\<lambda>i. at_rest i (app_db a')) (stopped_monitors c r (app_db a))"
proof (cases "stopped_monitor c")
  case (Some i)
  then show ?thesis
    using stopped_at_rest [OF assms(1,4)] by (simp add: stopped_monitors_def)
next
  case None
  show ?thesis
  proof (cases "disabled_type c")
    case (Some ts)
    then show ?thesis
      using disabled_type_handler [OF assms(4)] disabled_type_at_rest [OF assms(1,3)] None
      by (cases ts) (fastforce simp: stopped_monitors_def list_all_iff)
  next
    case no_type: None
    then show ?thesis
      using None put_at_rest [OF assms(1,2,4)] by (auto simp: stopped_monitors_def List.map_filter_def)
  qed
qed

text \<open>
  C31: A call that succeeds in stopping monitors leaves each of them in the table, inactive and without an open
  incident, and no worker's claim takes one from there: the monitor that is disabled, paused, or saved as
  inactive by a PATCH, the one a PUT creates or overwrites as inactive, and all monitors of a type on a site
  when the type is disabled there. (Ids are unique and below the sequence, and an incident carries the site of
  its monitor.)
\<close>

theorem stopped_monitor_is_at_rest:
  assumes "distinct (map sm_id (db_monitors (app_db a)))"
    and "list_all (\<lambda>m. sm_id m < db_next_monitor (app_db a)) (db_monitors (app_db a))"
    and "incidents_name_their_site (app_db a)"
  shows "case handle_monitor cfg env clk perms c a of
      (Inr r, a') \<Rightarrow>
        list_all (\<lambda>i. at_rest i (app_db a') \<and> i \<notin> sm_id ` set (due_monitors now locked limit (app_db a')))
          (stopped_monitors c r (app_db a))
    | _ \<Rightarrow> True"
proof (cases "handle_monitor cfg env clk perms c a")
  case (Pair res a')
  have unclaimed: "i \<notin> sm_id ` set (due_monitors now locked limit d)" if "at_rest i d" for i d
    using that set_limit_rows by (fastforce simp: due_monitors_def claimable_def at_rest_def list_all_iff)
  have "list_all (\<lambda>i. at_rest i (app_db a')) (stopped_monitors c r (app_db a))" if "res = Inr r" for r
    by (rule all_stopped_at_rest [OF assms Pair [unfolded that]])
  then show ?thesis
    using unclaimed by (auto simp: Pair list_all_iff split: sum.split)
qed

text \<open>A monitor of the sample database that is paused while its incident is open.\<close>

definition sample_incident :: "id \<Rightarrow> id \<Rightarrow> site_monitor_type \<Rightarrow> site_monitor_incident" where
  "sample_incident i m t =
     \<lparr>inc_id = i, inc_site_id = 1, inc_site_monitor_id = m, inc_status = StatusOpen, inc_opened_at = 0,
      inc_resolved_at = None, inc_opened_check_id = None, inc_resolved_check_id = None,
      inc_last_check_id = None, inc_monitor_type = t, inc_target_url = ''https://a.test/1'',
      inc_expected_status_code = 200, inc_opened_status_code = None, inc_opened_failure_reason = None,
      inc_opened_error_message = None, inc_failure_count = 1, inc_last_checked_at = 0,
      inc_last_status_code = None, inc_last_failure_reason = None, inc_last_error_message = None,
      inc_resolved_reason = None, inc_resolved_status_code = None, inc_resolved_response_time_ms = None,
      inc_downtime_seconds = None, inc_acknowledged_at = None, inc_acknowledged_by = None,
      inc_created_at = 0, inc_updated_at = 0\<rparr>"

definition sample_open_app :: "((token_cache_key, token_cache_entry) lru_list, (string, status_page_cache_entry) lru_list) app_state" where
  "sample_open_app = sample_app\<lparr>app_db := sample_db\<lparr>db_incidents := [sample_incident 1 1 Http]\<rparr>\<rparr>"

theorem stopped_monitor_is_at_rest_witness:
  "case handle_monitor sample_config sample_monitor_env \<lparr>ck_now = 9, ck_utc = 9, ck_instant = 9\<rparr> {SiteMonitorsDelete}
      (DeleteAllHttp 1) sample_open_app of
     (Inr r, a') \<Rightarrow>
       list_all (\<lambda>i. at_rest i (app_db a') \<and> i \<notin> sm_id ` set (due_monitors 99 {} 5 (app_db a'))) [1, 2]
   | _ \<Rightarrow> False"
proof -
  let ?clk = "\<lparr>ck_now = 9, ck_utc = 9, ck_instant = 9\<rparr>"
  let ?call = "handle_monitor sample_config sample_monitor_env ?clk {SiteMonitorsDelete} (DeleteAllHttp 1) sample_open_app"
  have "distinct (map sm_id (db_monitors (app_db sample_open_app)))"
    "list_all (\<lambda>m. sm_id m < db_next_monitor (app_db sample_open_app)) (db_monitors (app_db sample_open_app))"
    "incidents_name_their_site (app_db sample_open_app)"
    by (simp_all add: sample_open_app_def sample_db_def monitor_defaults_def incidents_name_their_site_def
        sample_incident_def)
  from stopped_monitor_is_at_rest [OF this]
  have "case ?call of
      (Inr r, a') \<Rightarrow>
        list_all (\<lambda>i. at_rest i (app_db a') \<and> i \<notin> sm_id ` set (due_monitors 99 {} 5 (app_db a')))
          (stopped_monitors (DeleteAllHttp 1) r (app_db sample_open_app))
    | _ \<Rightarrow> True" .
  moreover have "stopped_monitors (DeleteAllHttp 1) r (app_db sample_open_app) = [1, 2]" for r
    by (simp add: stopped_monitors_def sample_open_app_def sample_db_def monitor_defaults_def monitor_of_type_def)
  moreover have "is_ok (fst ?call)"
    by (simp add: answer_monitor_def disable_http_site_monitor_def disable_monitors_call_def svc_bind_def demand_bind
        db_call_def on_db_def svc_map_err_def svc_stmt_def disable_http_monitors_by_site_id_def
        disable_monitors_of_type_def update_monitors_def returning_rows_def update_rows_def
        monitor_of_type_def sample_open_app_def sample_db_def monitor_defaults_def
        resolve_open_incidents_for_site_def update_incidents_def try_update_rows_def
        closed_row_def pg_int4_def i32_in_range_def epoch_seconds_def sample_incident_def is_open_def demand_def
        require_permission_def)
  ultimately show ?thesis
    by (cases ?call; cases "fst ?call") (simp_all del: handle_monitor.simps)
qed

section \<open>Disabling all monitors of a type\<close>

text \<open>
  Disabling all monitors of one type on a site switches off exactly the active monitors of that type and
  leaves the rows of every other monitor as they are, but it closes every open incident of the site: also
  those of monitors of another type, which are still active and may still be failing.
\<close>

theorem disabling_a_type_closes_all_incidents_of_the_site:
  "case (handle_monitor cfg env clk perms c a, disabled_type c) of
     ((Inr r, a'), Some (t, s)) \<Rightarrow>
       \<not> has_open_incident_for_site s (app_db a') \<and>
       db_monitors (app_db a') =
         map (\<lambda>m. if monitor_of_type t s m \<and> sm_is_active m then set_active (ck_now clk) False m else m)
           (db_monitors (app_db a))
   | _ \<Rightarrow> True"
proof -
  have "\<not> has_open_incident_for_site s (app_db a') \<and> db_monitors (app_db a') =
      map (\<lambda>m. if monitor_of_type t s m \<and> sm_is_active m then set_active (ck_now clk) False m else m)
        (db_monitors (app_db a))"
    if "handle_monitor cfg env clk perms c a = (Inr r, a')" "disabled_type c = Some (t, s)" for r a' t s
    using that
    by (cases c; clarsimp simp: answer_monitor_def svc_bind_Inr disable_http_site_monitor_def disable_ssl_site_monitor_def
        disable_tcp_site_monitor_def disable_dns_site_monitor_def disable_heartbeat_site_monitor_def switch_defs)
      (drule disable_all_call, simp)+
  then show ?thesis
    by (cases "handle_monitor cfg env clk perms c a"; cases "fst (handle_monitor cfg env clk perms c a)";
        cases "disabled_type c") auto
qed

end
