(* ===== verification/Site_Routes.thy ===== *)
theory Site_Routes
  imports Monitor_Routes Status_Page_Repository Site_Views Delivery_Repository
begin

text \<open>
  The endpoints of sites (\<^verbatim>\<open>src/api/routes/sites/mod.rs\<close>): the sites themselves, their notification channels
  and deliveries, and the configuration of their public status page.
\<close>

section \<open>Sites\<close>

text \<open>The three lists are read beside the sites; the state of a site is looked up by its id.\<close>

definition listed_site ::
    "('s, 'p) app_config \<Rightarrow> (id \<times> bool) list \<Rightarrow> site_health_state list \<Rightarrow> id list \<Rightarrow> site \<Rightarrow> site_response" where
  "listed_site cfg monitor_states health_states incident_site_ids s =
     from_site cfg s
       (case map_of monitor_states (s_id s) of
          Some True \<Rightarrow> ''active'' | Some False \<Rightarrow> ''disabled'' | None \<Rightarrow> ''not_configured'')
       (s_id s \<in> set incident_site_ids)
       (site_current_state (find (\<lambda>h. shs_site_id h = s_id s) health_states))"

definition list_sites ::
    "('s, 'p) app_config \<Rightarrow> permission_set \<Rightarrow> string option \<Rightarrow> nat option \<Rightarrow> string option \<Rightarrow>
      ('s, 'p, site_response page) handler" where
  "list_sites cfg perms q query_limit query_cursor =
     svc_bind (demand perms SitesRead) (\<lambda>_.
     svc_bind (svc_result (sites_limit query_limit)) (\<lambda>limit.
     svc_bind (svc_result (parse_sites_cursor query_cursor)) (\<lambda>cursor_id.
     svc_bind (db_query (list_sites_matching (cfg_auth_env cfg) (not_blank q) (limit + 1) cursor_id)) (\<lambda>sites.
     svc_bind (db_query list_http_monitor_states) (\<lambda>monitor_states.
     svc_bind (db_query list_site_health_states) (\<lambda>health_states.
     svc_bind (db_query get_site_ids_with_open_incidents) (\<lambda>incident_site_ids.
     case paginate_vec_with_cursor
            (map (listed_site cfg monitor_states health_states incident_site_ids) sites)
            (nat limit) (\<lambda>s. show_int (sr_id s)) of
       (payload, next_cursor) \<Rightarrow> svc_return (json_with_next_cursor payload next_cursor))))))))"

record create_site_request =
  csr_name :: string
  csr_base_url :: string

record update_site_request =
  usr_name :: string
  usr_base_url :: string
  usr_is_active :: bool

definition site_fields_required :: "string \<Rightarrow> string \<Rightarrow> api_error + unit" where
  "site_fields_required name base_url =
     reject [(blank name \<or> blank base_url, ''name and base_url are required'')]"

definition create_site_handler ::
    "('s, 'p) app_config \<Rightarrow> request_clock \<Rightarrow> permission_set \<Rightarrow> create_site_request \<Rightarrow> ('s, 'p, site_response) handler" where
  "create_site_handler cfg clk perms payload =
     svc_bind (demand perms SitesCreate) (\<lambda>_.
     svc_bind (svc_result (site_fields_required (csr_name payload) (csr_base_url payload))) (\<lambda>_.
     svc_bind (db_call_unique ''a site with this base_url already exists''
       (create_site (ck_now clk) (trim (csr_name payload)) (trim (csr_base_url payload)))) (\<lambda>s.
     svc_return (from_site cfg s ''not_configured'' False ''not_configured''))))"

definition update_site_handler ::
    "('s, 'p) app_config \<Rightarrow> request_clock \<Rightarrow> permission_set \<Rightarrow> id \<Rightarrow> update_site_request \<Rightarrow> ('s, 'p, site_response) handler" where
  "update_site_handler cfg clk perms site_id payload =
     svc_bind (demand perms SitesUpdate) (\<lambda>_.
     svc_bind (svc_result (site_fields_required (usr_name payload) (usr_base_url payload))) (\<lambda>_.
     svc_bind (db_call (update_site (ck_now clk) site_id (trim (usr_name payload)) (trim (usr_base_url payload))
       (usr_is_active payload))) (\<lambda>updated.
     svc_bind (svc_result (ok_or (NotFound ''site not found'') updated)) (\<lambda>s.
     svc_bind (if usr_is_active payload then svc_return ()
       else svc_bind (db_call (resolve_open_incidents_for_site (ck_now clk) site_id SiteDeactivated))
              (\<lambda>_. svc_return ())) (\<lambda>_.
     svc_bind (db_query (list_http_monitors_by_site_id site_id)) (\<lambda>http_monitors.
     svc_bind (db_query (get_site_health_state_by_id site_id)) (\<lambda>health_state.
     svc_return (from_site cfg s (http_monitor_status http_monitors) False (site_current_state health_state)))))))))"

definition delete_site_handler :: "permission_set \<Rightarrow> id \<Rightarrow> ('s, 'p, bool) handler" where
  "delete_site_handler perms site_id =
     svc_bind (demand perms SitesDelete) (\<lambda>_.
     svc_bind (db_call (delete_site site_id)) (\<lambda>deleted.
     if deleted = None then svc_fail (NotFound ''site not found'') else svc_return True))"

section \<open>Deliveries\<close>

record site_notification_delivery_response =
  sdr_id :: id
  sdr_notification_channel_id :: id
  sdr_site_monitor_id :: id
  sdr_site_monitor_check_id :: id
  sdr_incident_id :: "id option"
  sdr_event_type :: notification_event_type
  sdr_payload :: json
  sdr_status :: delivery_status
  sdr_attempts :: int
  sdr_next_attempt_at :: "string option"
  sdr_claimed_at :: "string option"
  sdr_lease_until :: "string option"
  sdr_claimed_by :: "string option"
  sdr_delivered_at :: "string option"
  sdr_last_error :: "string option"
  sdr_created_at :: string
  sdr_updated_at :: string
  sdr_channel_type :: notification_channel_type
  sdr_channel_name :: string
  sdr_destination :: string

definition site_notification_delivery_response_of ::
    "('s, 'p) app_config \<Rightarrow> site_notification_delivery \<Rightarrow> site_notification_delivery_response" where
  "site_notification_delivery_response_of cfg n =
     \<lparr>sdr_id = snd_id n,
      sdr_notification_channel_id = snd_notification_channel_id n,
      sdr_site_monitor_id = snd_site_monitor_id n,
      sdr_site_monitor_check_id = snd_site_monitor_check_id n,
      sdr_incident_id = snd_incident_id n,
      sdr_event_type = snd_event_type n,
      sdr_payload = snd_payload n,
      sdr_status = snd_status n,
      sdr_attempts = snd_attempts n,
      sdr_next_attempt_at = map_option (cfg_rfc3339 cfg) (snd_next_attempt_at n),
      sdr_claimed_at = map_option (cfg_rfc3339 cfg) (snd_claimed_at n),
      sdr_lease_until = map_option (cfg_rfc3339 cfg) (snd_lease_until n),
      sdr_claimed_by = snd_claimed_by n,
      sdr_delivered_at = map_option (cfg_rfc3339 cfg) (snd_delivered_at n),
      sdr_last_error = snd_last_error n,
      sdr_created_at = cfg_rfc3339 cfg (snd_created_at n),
      sdr_updated_at = cfg_rfc3339 cfg (snd_updated_at n),
      sdr_channel_type = snd_channel_type n,
      sdr_channel_name = snd_channel_name n,
      sdr_destination = snd_destination n\<rparr>"

definition list_site_notification_deliveries ::
    "('s, 'p) app_config \<Rightarrow> permission_set \<Rightarrow> id \<Rightarrow> nat option \<Rightarrow> string option \<Rightarrow> delivery_status option \<Rightarrow>
      notification_event_type option \<Rightarrow> ('s, 'p, site_notification_delivery_response page) handler" where
  "list_site_notification_deliveries cfg perms site_id query_limit query_cursor status event_type =
     svc_bind (demand perms NotificationDeliveriesRead) (\<lambda>_.
     svc_bind (site_found site_id) (\<lambda>_.
     svc_bind (svc_result (history_limit query_limit)) (\<lambda>limit.
     svc_bind (svc_result (parse_cursor (cfg_parse_rfc3339 cfg) query_cursor)) (\<lambda>cursor.
     svc_bind (db_query (list_deliveries_by_site_id site_id
       \<lparr>dcq_cursor_created_at = map_option ct_timestamp cursor, dcq_cursor_id = map_option ct_id cursor,
        dcq_status = status, dcq_event_type = event_type, dcq_limit = page_fetch_limit (nat limit)\<rparr>)) (\<lambda>deliveries.
     case paginate_vec_with_cursor deliveries (nat limit)
            (\<lambda>n. encode_cursor (cfg_rfc3339 cfg) (snd_created_at n) (snd_id n)) of
       (deliveries, next_cursor) \<Rightarrow>
         svc_return (json_with_next_cursor (map (site_notification_delivery_response_of cfg) deliveries) next_cursor))))))"

section \<open>Channels of a site\<close>

record site_notification_channel_response =
  scr_id :: id
  scr_channel_type :: notification_channel_type
  scr_name :: string
  scr_destination :: string
  scr_default_notify_on_failure :: bool
  scr_default_notify_on_recovery :: bool
  scr_default_is_active :: bool
  scr_effective_notify_on_failure :: bool
  scr_effective_notify_on_recovery :: bool
  scr_effective_is_active :: bool
  scr_override_id :: "id option"
  scr_override_notify_on_failure :: "bool option"
  scr_override_notify_on_recovery :: "bool option"
  scr_override_is_active :: "bool option"

definition site_notification_channel_response_of ::
    "effective_notification_channel \<Rightarrow> site_notification_channel_response" where
  "site_notification_channel_response_of c =
     \<lparr>scr_id = enc_id c,
      scr_channel_type = enc_channel_type c,
      scr_name = enc_name c,
      scr_destination = enc_destination c,
      scr_default_notify_on_failure = enc_default_notify_on_failure c,
      scr_default_notify_on_recovery = enc_default_notify_on_recovery c,
      scr_default_is_active = enc_default_is_active c,
      scr_effective_notify_on_failure = enc_notify_on_failure c,
      scr_effective_notify_on_recovery = enc_notify_on_recovery c,
      scr_effective_is_active = enc_is_active c,
      scr_override_id = enc_override_id c,
      scr_override_notify_on_failure = enc_override_notify_on_failure c,
      scr_override_notify_on_recovery = enc_override_notify_on_recovery c,
      scr_override_is_active = enc_override_is_active c\<rparr>"

definition list_site_notification_channels ::
    "permission_set \<Rightarrow> id \<Rightarrow> ('s, 'p, site_notification_channel_response list) handler" where
  "list_site_notification_channels perms site_id =
     svc_bind (demand perms SiteNotificationChannelOverridesRead) (\<lambda>_.
     svc_bind (site_found site_id) (\<lambda>_.
     svc_bind (db_query (list_effective_by_site_id site_id)) (\<lambda>channels.
     svc_return (map site_notification_channel_response_of channels))))"

record upsert_site_notification_channel_override_request =
  uor_notify_on_failure :: "bool option"
  uor_notify_on_recovery :: "bool option"
  uor_is_active :: "bool option"

definition validate_site_notification_channel_override_payload ::
    "upsert_site_notification_channel_override_request \<Rightarrow> api_error + unit" where
  "validate_site_notification_channel_override_payload p =
     reject [(uor_notify_on_failure p = None \<and> uor_notify_on_recovery p = None \<and> uor_is_active p = None,
       ''at least one override field must be provided'')]"

text \<open>The payload is looked at before the permissions.\<close>

definition upsert_site_notification_channel_override ::
    "request_clock \<Rightarrow> permission_set \<Rightarrow> id \<Rightarrow> id \<Rightarrow> upsert_site_notification_channel_override_request \<Rightarrow>
      ('s, 'p, site_notification_channel_response) handler" where
  "upsert_site_notification_channel_override clk perms site_id channel_id payload =
     svc_bind (svc_result (validate_site_notification_channel_override_payload payload)) (\<lambda>_.
     svc_bind (demand perms SiteNotificationChannelOverridesCreate) (\<lambda>_.
     svc_bind (demand perms SiteNotificationChannelOverridesUpdate) (\<lambda>_.
     svc_bind (db_call (upsert_override_for_site (ck_now clk) site_id
       \<lparr>cop_notification_channel_id = channel_id, cop_notify_on_failure = uor_notify_on_failure payload,
        cop_notify_on_recovery = uor_notify_on_recovery payload, cop_is_active = uor_is_active payload\<rparr>)) (\<lambda>saved.
     if saved = None then svc_fail (NotFound ''site or notification channel not found'')
     else
       svc_bind (db_query (list_effective_by_site_id site_id)) (\<lambda>channels.
       svc_bind (svc_result (ok_or (NotFound ''site or notification channel not found'')
         (find (\<lambda>c. enc_id c = channel_id) channels))) (\<lambda>channel.
       svc_return (site_notification_channel_response_of channel)))))))"

definition delete_site_notification_channel_override ::
    "permission_set \<Rightarrow> id \<Rightarrow> id \<Rightarrow> ('s, 'p, bool) handler" where
  "delete_site_notification_channel_override perms site_id channel_id =
     svc_bind (demand perms SiteNotificationChannelOverridesDelete) (\<lambda>_.
     svc_bind (db_call (delete_override_for_site site_id channel_id)) (\<lambda>deleted.
     if deleted = None then svc_fail (NotFound ''notification channel override not found'')
     else svc_return True))"

section \<open>The status page\<close>

record status_page_config_response =
  spc_site_id :: id
  spc_is_enabled :: bool
  spc_slug :: string
  spc_page_title :: "string option"
  spc_show_monitor_details :: bool
  spc_show_uptime_percentages :: bool

definition status_page_config_response_of :: "site_status_page \<Rightarrow> status_page_config_response" where
  "status_page_config_response_of p =
     \<lparr>spc_site_id = ssp_site_id p,
      spc_is_enabled = ssp_is_enabled p,
      spc_slug = ssp_slug p,
      spc_page_title = ssp_page_title p,
      spc_show_monitor_details = ssp_show_monitor_details p,
      spc_show_uptime_percentages = ssp_show_uptime_percentages p\<rparr>"

text \<open>\<open>str::len\<close> counts bytes: characters from U+0080 take two.\<close>

definition byte_len :: "string \<Rightarrow> nat" where
  "byte_len s = sum_list (map (\<lambda>c. if char_code c < 128 then 1 else 2) s)"

definition is_slug_char :: "char \<Rightarrow> bool" where
  "is_slug_char c \<longleftrightarrow> is_ascii_lowercase c \<or> is_ascii_digit c \<or> c = CHR ''-''"

definition slugify :: "string \<Rightarrow> string" where
  "slugify name =
     str_join ''-'' (filter (\<lambda>s. s \<noteq> [])
       (split_char CHR ''-'' (map (\<lambda>c. if is_ascii_alphanumeric c then to_ascii_lower c else CHR ''-'') name)))"

definition validate_slug :: "string \<Rightarrow> api_error + unit" where
  "validate_slug slug = reject
     [(byte_len slug < 3 \<or> 60 < byte_len slug, ''slug must be between 3 and 60 characters''),
      (\<not> list_all is_slug_char slug, ''slug may only contain lowercase letters, digits, and hyphens'')]"

definition get_status_page_config ::
    "request_clock \<Rightarrow> permission_set \<Rightarrow> id \<Rightarrow> ('s, 'p, status_page_config_response) handler" where
  "get_status_page_config clk perms site_id =
     svc_bind (demand perms SitesRead) (\<lambda>_.
     svc_bind (site_found site_id) (\<lambda>s.
     svc_bind (db_query (get_status_page_by_site_id site_id)) (\<lambda>config.
     svc_return (status_page_config_response_of (unwrap_or config
       \<lparr>ssp_id = 0, ssp_site_id = site_id, ssp_is_enabled = False, ssp_slug = slugify (s_name s), ssp_page_title = None,
        ssp_show_monitor_details = True, ssp_show_uptime_percentages = True,
        ssp_created_at = ck_utc clk, ssp_updated_at = ck_utc clk\<rparr>)))))"

record upsert_status_page_config_body =
  ubd_is_enabled :: bool
  ubd_slug :: string
  ubd_page_title :: "string option"
  ubd_show_monitor_details :: bool
  ubd_show_uptime_percentages :: bool

definition upsert_status_page_config ::
    "request_clock \<Rightarrow> permission_set \<Rightarrow> id \<Rightarrow> upsert_status_page_config_body \<Rightarrow>
      ('s, 'p, status_page_config_response) handler" where
  "upsert_status_page_config clk perms site_id body =
     svc_bind (demand perms SitesUpdate) (\<lambda>_.
     svc_bind (site_found site_id) (\<lambda>_.
     svc_bind (svc_result (validate_slug (trim (ubd_slug body)))) (\<lambda>_.
     svc_bind (db_call_unique ''slug already in use'' (upsert_status_page (ck_now clk)
       \<lparr>usp_site_id = site_id, usp_is_enabled = ubd_is_enabled body, usp_slug = trim (ubd_slug body),
        usp_page_title = not_blank (ubd_page_title body), usp_show_monitor_details = ubd_show_monitor_details body,
        usp_show_uptime_percentages = ubd_show_uptime_percentages body\<rparr>)) (\<lambda>config.
     svc_return (status_page_config_response_of config)))))"

end
