(* ===== verification/Site_History.thy ===== *)
theory Site_History
  imports Complex_Main Monitor_Routes Site_Views Check_Repository
begin

text \<open>
  What the API tells of a site's past: its summary and checks (\<^verbatim>\<open>src/api/routes/sites/checks.rs\<close>), its
  incidents (\<^verbatim>\<open>src/api/routes/sites/incidents.rs\<close>) and its uptime (\<^verbatim>\<open>src/api/routes/sites/uptime.rs\<close>). The
  percentages, which the program computes in \<^verbatim>\<open>f64\<close>, are exact rationals: the error of floating point is not
  modelled. A day is its number since the epoch; PostgreSQL renders it.
\<close>

section \<open>The summary\<close>

record site_monitor_check_response =
  mcr_id :: id
  mcr_site_monitor_id :: id
  mcr_checked_at :: string
  mcr_monitor_type :: string
  mcr_url_checked :: string
  mcr_expected_status_code :: "int option"
  mcr_is_success :: bool
  mcr_status_code :: "int option"
  mcr_response_time_ms :: "int option"
  mcr_total_duration_ms :: "int option"
  mcr_attempt_count :: int
  mcr_was_retried :: bool
  mcr_failure_reason :: "string option"
  mcr_error_message :: "string option"
  mcr_certificate_expires_at :: "string option"
  mcr_certificate_days_remaining :: "int option"
  mcr_certificate_issuer :: "string option"
  mcr_certificate_subject :: "string option"
  mcr_certificate_domain :: "string option"

definition site_monitor_check_response_of ::
    "('s, 'p) app_config \<Rightarrow> site_monitor_check \<Rightarrow> site_monitor_check_response" where
  "site_monitor_check_response_of cfg c =
     \<lparr>mcr_id = smc_id c,
      mcr_site_monitor_id = smc_site_monitor_id c,
      mcr_checked_at = cfg_rfc3339 cfg (smc_checked_at c),
      mcr_monitor_type = monitor_type_as_str (smc_monitor_type c),
      mcr_url_checked = smc_url_checked c,
      mcr_expected_status_code = smc_expected_status_code c,
      mcr_is_success = smc_is_success c,
      mcr_status_code = smc_status_code c,
      mcr_response_time_ms = smc_response_time_ms c,
      mcr_total_duration_ms = smc_total_duration_ms c,
      mcr_attempt_count = smc_attempt_count c,
      mcr_was_retried = smc_was_retried c,
      mcr_failure_reason = smc_failure_reason c,
      mcr_error_message = smc_error_message c,
      mcr_certificate_expires_at = map_option (cfg_rfc3339 cfg) (smc_certificate_expires_at c),
      mcr_certificate_days_remaining = smc_certificate_days_remaining c,
      mcr_certificate_issuer = smc_certificate_issuer c,
      mcr_certificate_subject = smc_certificate_subject c,
      mcr_certificate_domain = smc_certificate_domain c\<rparr>"

record recent_check_stats_response =
  rcs_window_size :: nat
  rcs_total_checks :: nat
  rcs_successful_checks :: nat
  rcs_failed_checks :: nat
  rcs_success_rate :: "rat option"

record site_summary_response =
  ssr_site :: site_response
  ssr_http_monitors :: "http_site_monitor_response list"
  ssr_ssl_monitors :: "ssl_site_monitor_response list"
  ssr_heartbeat_monitors :: "heartbeat_site_monitor_response list"
  ssr_current_state :: string
  ssr_incident_open :: bool
  ssr_recent_checks :: recent_check_stats_response
  ssr_latest_check :: "site_monitor_check_response option"
  ssr_latest_failure :: "site_monitor_check_response option"

definition summary_window :: "nat option \<Rightarrow> api_error + nat" where
  "summary_window limit = and_then (bounded_limit limit 20 200 ''limit'') (\<lambda>v. Inr (nat v))"

definition summary_current_state :: "site_monitor list \<Rightarrow> site_monitor list \<Rightarrow> site_monitor list \<Rightarrow> string" where
  "summary_current_state http_monitors ssl_monitors heartbeat_monitors =
     (let all_monitors = http_monitors @ ssl_monitors @ heartbeat_monitors;
          active_monitors = filter sm_is_active all_monitors
      in if all_monitors = [] then ''not_configured''
         else if active_monitors = [] then ''disabled''
         else if list_ex (\<lambda>m. sm_last_is_success m = Some False) active_monitors then ''failing''
         else if list_ex (\<lambda>m. sm_last_is_success m = Some True) active_monitors then ''healthy''
         else ''pending_first_check'')"

text \<open>\<open>f64::round\<close> rounds halves away from zero; the rate is not negative.\<close>

definition percent :: "int \<Rightarrow> int \<Rightarrow> rat" where
  "percent part whole = of_int part / of_int whole * 100"

definition round_hundredths :: "rat \<Rightarrow> rat" where
  "round_hundredths x = of_int \<lfloor>x * 100 + 1 / 2\<rfloor> / 100"

definition build_recent_check_stats :: "site_monitor_check list \<Rightarrow> nat \<Rightarrow> recent_check_stats_response" where
  "build_recent_check_stats checks window_size =
     (let total_checks = length checks; successful_checks = length (filter smc_is_success checks)
      in \<lparr>rcs_window_size = window_size,
          rcs_total_checks = total_checks,
          rcs_successful_checks = successful_checks,
          rcs_failed_checks = total_checks - successful_checks,
          rcs_success_rate =
            (if 0 < total_checks then Some (round_hundredths (percent (int successful_checks) (int total_checks)))
             else None)\<rparr>)"

definition get_site_summary ::
    "('s, 'p) app_config \<Rightarrow> permission_set \<Rightarrow> id \<Rightarrow> nat option \<Rightarrow> ('s, 'p, site_summary_response) handler" where
  "get_site_summary cfg perms site_id query_limit =
     svc_bind (demand perms SiteChecksRead) (\<lambda>_.
     svc_bind (site_found site_id) (\<lambda>s.
     svc_bind (db_query (list_http_monitors_by_site_id site_id)) (\<lambda>http_monitors.
     svc_bind (db_query (list_ssl_monitors_by_site_id site_id)) (\<lambda>ssl_monitors.
     svc_bind (db_query (list_heartbeat_monitors_by_site_id site_id)) (\<lambda>heartbeat_monitors.
     svc_bind (svc_result (summary_window query_limit)) (\<lambda>window_size.
     svc_bind (db_query (list_checks_by_site_id site_id
       \<lparr>ccq_cursor_checked_at = None, ccq_cursor_id = None, ccq_is_success = None, ccq_limit = int window_size\<rparr>))
       (\<lambda>recent_checks.
     svc_bind (db_query (has_open_incident_for_site site_id)) (\<lambda>incident_open.
     let current_state = summary_current_state http_monitors ssl_monitors heartbeat_monitors
     in svc_return
       \<lparr>ssr_site = from_site cfg s (http_monitor_status http_monitors) False current_state,
        ssr_http_monitors = map (http_site_monitor_response_of cfg) http_monitors,
        ssr_ssl_monitors = map (ssl_site_monitor_response_of cfg) ssl_monitors,
        ssr_heartbeat_monitors = map (heartbeat_site_monitor_response_of cfg) heartbeat_monitors,
        ssr_current_state = current_state,
        ssr_incident_open = incident_open,
        ssr_recent_checks = build_recent_check_stats recent_checks window_size,
        ssr_latest_check = map_option (site_monitor_check_response_of cfg) (fetch_optional recent_checks),
        ssr_latest_failure =
          map_option (site_monitor_check_response_of cfg) (find (\<lambda>c. \<not> smc_is_success c) recent_checks)\<rparr>))))))))"

section \<open>Checks and incidents\<close>

datatype check_outcome_filter = Success | Failure

definition check_outcome_to_is_success :: "check_outcome_filter option \<Rightarrow> bool option" where
  "check_outcome_to_is_success outcome =
     (case outcome of Some Success \<Rightarrow> Some True | Some Failure \<Rightarrow> Some False | None \<Rightarrow> None)"

definition list_site_checks ::
    "('s, 'p) app_config \<Rightarrow> permission_set \<Rightarrow> id \<Rightarrow> nat option \<Rightarrow> string option \<Rightarrow> check_outcome_filter option \<Rightarrow>
      ('s, 'p, site_monitor_check_response page) handler" where
  "list_site_checks cfg perms site_id query_limit query_cursor outcome =
     svc_bind (demand perms SiteChecksRead) (\<lambda>_.
     svc_bind (site_found site_id) (\<lambda>_.
     svc_bind (svc_result (checks_limit query_limit)) (\<lambda>limit.
     svc_bind (svc_result (parse_cursor (cfg_parse_rfc3339 cfg) query_cursor)) (\<lambda>cursor.
     svc_bind (db_query (list_checks_by_site_id site_id
       \<lparr>ccq_cursor_checked_at = map_option ct_timestamp cursor, ccq_cursor_id = map_option ct_id cursor,
        ccq_is_success = check_outcome_to_is_success outcome, ccq_limit = page_fetch_limit (nat limit)\<rparr>)) (\<lambda>checks.
     case paginate_vec_with_cursor checks (nat limit)
            (\<lambda>c. encode_cursor (cfg_rfc3339 cfg) (smc_checked_at c) (smc_id c)) of
       (checks, next_cursor) \<Rightarrow>
         svc_return (json_with_next_cursor (map (site_monitor_check_response_of cfg) checks) next_cursor))))))"

definition list_site_incidents ::
    "('s, 'p) app_config \<Rightarrow> permission_set \<Rightarrow> id \<Rightarrow> nat option \<Rightarrow> string option \<Rightarrow> incident_status option \<Rightarrow>
      ('s, 'p, site_incident_response page) handler" where
  "list_site_incidents cfg perms site_id query_limit query_cursor status =
     svc_bind (demand perms SiteIncidentsRead) (\<lambda>_.
     svc_bind (site_found site_id) (\<lambda>_.
     svc_bind (svc_result (history_limit query_limit)) (\<lambda>limit.
     svc_bind (svc_result (parse_cursor (cfg_parse_rfc3339 cfg) query_cursor)) (\<lambda>cursor.
     svc_bind (db_query (list_incidents_by_site_id site_id
       \<lparr>icq_cursor_opened_at = map_option ct_timestamp cursor, icq_cursor_id = map_option ct_id cursor,
        icq_status = status, icq_limit = page_fetch_limit (nat limit)\<rparr>)) (\<lambda>incidents.
     case paginate_vec_with_cursor incidents (nat limit)
            (\<lambda>i. encode_cursor (cfg_rfc3339 cfg) (inc_opened_at i) (inc_id i)) of
       (incidents, next_cursor) \<Rightarrow>
         svc_return (json_with_next_cursor (map (site_incident_response_of cfg) incidents) next_cursor))))))"

section \<open>Uptime\<close>

record daily_uptime_bucket_response =
  dub_date :: int
  dub_total_checks :: int
  dub_successful_checks :: int
  dub_uptime_percent :: "rat option"

record site_uptime_daily_response =
  sud_days :: int
  sud_buckets :: "daily_uptime_bucket_response list"

record site_uptime_response =
  sup_window :: string
  sup_window_days :: int
  sup_uptime_percent :: "rat option"
  sup_total_checks :: int
  sup_successful_checks :: int
  sup_failed_checks :: int

definition uptime_percent :: "int \<Rightarrow> int \<Rightarrow> rat option" where
  "uptime_percent successful_checks total_checks =
     (if 0 < total_checks then Some (percent successful_checks total_checks) else None)"

definition clamp :: "int \<Rightarrow> int \<Rightarrow> int \<Rightarrow> int" where
  "clamp lo hi x = max lo (min hi x)"

definition get_site_uptime_daily ::
    "request_clock \<Rightarrow> permission_set \<Rightarrow> id \<Rightarrow> int option \<Rightarrow> ('s, 'p, site_uptime_daily_response) handler" where
  "get_site_uptime_daily clk perms site_id query_days =
     svc_bind (demand perms SitesRead) (\<lambda>_.
     svc_bind (site_found site_id) (\<lambda>_.
     let days = clamp 7 90 (unwrap_or query_days 90) in
     svc_bind (db_query (get_daily_uptime_stats (ck_now clk) site_id days)) (\<lambda>buckets.
     svc_return
       \<lparr>sud_days = days,
        sud_buckets = map (\<lambda>(day, checked, successful).
          \<lparr>dub_date = day, dub_total_checks = checked, dub_successful_checks = successful,
           dub_uptime_percent = uptime_percent successful checked\<rparr>) buckets\<rparr>)))"

definition get_site_uptime ::
    "request_clock \<Rightarrow> permission_set \<Rightarrow> id \<Rightarrow> string option \<Rightarrow> ('s, 'p, site_uptime_response) handler" where
  "get_site_uptime clk perms site_id query_window =
     svc_bind (demand perms SitesRead) (\<lambda>_.
     svc_bind (site_found site_id) (\<lambda>_.
     let (window_label, window_days) = (if query_window = Some ''7d'' then (''7d'', 7) else (''30d'', 30)) in
     svc_bind (db_query (get_site_uptime_stats site_id (add_days (ck_utc clk) (- window_days)))) (\<lambda>(checked, successful).
     svc_return
       \<lparr>sup_window = window_label, sup_window_days = window_days, sup_uptime_percent = uptime_percent successful checked,
        sup_total_checks = checked, sup_successful_checks = successful, sup_failed_checks = checked - successful\<rparr>)))"

end
