(* ===== verification/Channel_Routes.thy ===== *)
theory Channel_Routes
  imports Site_Routes Notification_Service Crypto
begin

text \<open>
  The endpoints of notification channels (\<^verbatim>\<open>src/api/routes/notifications.rs\<close>). The channel's destination is
  checked as the sender would use it; a webhook's secret is stored encrypted, with a nonce the request draws.
\<close>

record channel_env =
  che_send :: send_env
  che_crypto :: crypto_lib
  che_key :: encryption_key

record notification_channel_response =
  ncr_id :: id
  ncr_channel_type :: notification_channel_type
  ncr_name :: string
  ncr_destination :: string
  ncr_has_webhook_secret :: bool
  ncr_notify_on_failure :: bool
  ncr_notify_on_recovery :: bool
  ncr_is_active :: bool
  ncr_created_at :: string
  ncr_updated_at :: string

definition notification_channel_response_of ::
    "('s, 'p) app_config \<Rightarrow> notification_channel \<Rightarrow> notification_channel_response" where
  "notification_channel_response_of cfg c =
     \<lparr>ncr_id = nc_id c,
      ncr_channel_type = nc_channel_type c,
      ncr_name = nc_name c,
      ncr_destination = nc_destination c,
      ncr_has_webhook_secret = (nc_webhook_secret_ciphertext c \<noteq> None),
      ncr_notify_on_failure = nc_notify_on_failure c,
      ncr_notify_on_recovery = nc_notify_on_recovery c,
      ncr_is_active = nc_is_active c,
      ncr_created_at = cfg_rfc3339 cfg (nc_created_at c),
      ncr_updated_at = cfg_rfc3339 cfg (nc_updated_at c)\<rparr>"

record upsert_notification_channel_request =
  unc_channel_type :: notification_channel_type
  unc_name :: string
  unc_destination :: string
  unc_webhook_secret :: "string option"
  unc_notify_on_failure :: bool
  unc_notify_on_recovery :: bool
  unc_is_active :: bool

definition validate_notification_channel_payload ::
    "channel_env \<Rightarrow> upsert_notification_channel_request \<Rightarrow> api_error + unit" where
  "validate_notification_channel_payload env p =
     and_then (reject
       [(blank (unc_name p), ''name is required''),
        (blank (unc_destination p), ''destination is required''),
        (\<not> unc_notify_on_failure p \<and> \<not> unc_notify_on_recovery p, ''at least one notification event must be enabled'')])
       (\<lambda>_.
     and_then (map_err BadRequest
       (validate_channel_destination (che_send env) (unc_channel_type p) (trim (unc_destination p)))) (\<lambda>_.
     reject [(blank_option (unc_webhook_secret p), ''webhook_secret can not be empty'')]))"

definition resolve_webhook_secret_ciphertext ::
    "channel_env \<Rightarrow> bytes \<Rightarrow> upsert_notification_channel_request \<Rightarrow> notification_channel option \<Rightarrow>
      api_error + string option" where
  "resolve_webhook_secret_ciphertext env nonce p existing_channel =
     (let provided_secret = not_blank (unc_webhook_secret p) in
      if unc_channel_type p = Webhook then
        (case provided_secret of
           Some secret \<Rightarrow>
             and_then (map_err (\<lambda>e. internal_server_error (Message e))
               (encrypt_webhook_secret (che_crypto env) nonce (che_key env) secret)) (\<lambda>c. Inr (Some c))
         | None \<Rightarrow>
             and_then (ok_or (BadRequest ''webhook_secret is required for webhook channels'')
               (Option.bind existing_channel nc_webhook_secret_ciphertext)) (\<lambda>c. Inr (Some c)))
      else if provided_secret \<noteq> None
      then Inl (BadRequest ''webhook_secret is only supported for webhook channels'')
      else Inr None)"

definition channel_params :: "upsert_notification_channel_request \<Rightarrow> string option \<Rightarrow> notification_channel_params" where
  "channel_params p ciphertext =
     \<lparr>ncp_channel_type = unc_channel_type p, ncp_name = trim (unc_name p), ncp_destination = trim (unc_destination p),
      ncp_webhook_secret_ciphertext = ciphertext, ncp_notify_on_failure = unc_notify_on_failure p,
      ncp_notify_on_recovery = unc_notify_on_recovery p, ncp_is_active = unc_is_active p\<rparr>"

definition list_notification_channels ::
    "('s, 'p) app_config \<Rightarrow> permission_set \<Rightarrow> ('s, 'p, notification_channel_response list) handler" where
  "list_notification_channels cfg perms =
     svc_bind (demand perms NotificationChannelsRead) (\<lambda>_.
     svc_bind (db_query list_channels) (\<lambda>channels.
     svc_return (map (notification_channel_response_of cfg) channels)))"

definition create_notification_channel ::
    "('s, 'p) app_config \<Rightarrow> channel_env \<Rightarrow> request_clock \<Rightarrow> bytes \<Rightarrow> permission_set \<Rightarrow>
      upsert_notification_channel_request \<Rightarrow> ('s, 'p, notification_channel_response) handler" where
  "create_notification_channel cfg env clk nonce perms payload =
     svc_bind (demand perms NotificationChannelsCreate) (\<lambda>_.
     svc_bind (svc_result (validate_notification_channel_payload env payload)) (\<lambda>_.
     svc_bind (svc_result (resolve_webhook_secret_ciphertext env nonce payload None)) (\<lambda>ciphertext.
     svc_bind (db_call (create_channel (ck_now clk) (channel_params payload ciphertext))) (\<lambda>channel.
     svc_return (notification_channel_response_of cfg channel)))))"

definition update_notification_channel ::
    "('s, 'p) app_config \<Rightarrow> channel_env \<Rightarrow> request_clock \<Rightarrow> bytes \<Rightarrow> permission_set \<Rightarrow> id \<Rightarrow>
      upsert_notification_channel_request \<Rightarrow> ('s, 'p, notification_channel_response) handler" where
  "update_notification_channel cfg env clk nonce perms channel_id payload =
     svc_bind (demand perms NotificationChannelsUpdate) (\<lambda>_.
     svc_bind (svc_result (validate_notification_channel_payload env payload)) (\<lambda>_.
     svc_bind (db_query (get_channel_by_id channel_id)) (\<lambda>found.
     svc_bind (svc_result (ok_or (NotFound ''notification channel not found'') found)) (\<lambda>existing_channel.
     svc_bind (svc_result (resolve_webhook_secret_ciphertext env nonce payload (Some existing_channel))) (\<lambda>ciphertext.
     svc_bind (db_call (update_channel (ck_now clk) channel_id (channel_params payload ciphertext))) (\<lambda>updated.
     svc_bind (svc_result (ok_or (NotFound ''notification channel not found'') updated)) (\<lambda>channel.
     svc_return (notification_channel_response_of cfg channel))))))))"

definition delete_notification_channel :: "permission_set \<Rightarrow> id \<Rightarrow> ('s, 'p, bool) handler" where
  "delete_notification_channel perms channel_id =
     svc_bind (demand perms NotificationChannelsDelete) (\<lambda>_.
     svc_bind (db_call (delete_channel channel_id)) (\<lambda>deleted.
     if deleted = None then svc_fail (NotFound ''notification channel not found'') else svc_return True))"

end
