(* ===== verification/Site_Api.thy ===== *)
theory Site_Api
  imports Monitor_Stop Site_Routes Site_History Channel_Routes
begin

text \<open>
  The routers of \<^verbatim>\<open>src/api/routes/sites/mod.rs\<close> and \<^verbatim>\<open>src/api/routes/notifications.rs\<close> as one interface: a
  constructor per route and method (those of monitors are the calls of \<^verbatim>\<open>Monitor_Api\<close>), dispatched to its
  handler, and what holds of every call.
\<close>

section \<open>Dispatch\<close>

datatype site_call =
    ListSites "string option" "nat option" "string option"
  | CreateSite create_site_request
  | UpdateSite id update_site_request
  | DeleteSite id
  | GetSummary id "nat option"
  | GetUptime id "string option"
  | GetUptimeDaily id "int option"
  | ListChecks id "nat option" "string option" "check_outcome_filter option"
  | ListIncidents id "nat option" "string option" "incident_status option"
  | ListDeliveries id "nat option" "string option" "delivery_status option" "notification_event_type option"
  | MonitorCall monitor_call
  | ListSiteChannels id
  | UpsertOverride id id upsert_site_notification_channel_override_request
  | DeleteOverride id id
  | GetStatusPage id
  | PutStatusPage id upsert_status_page_config_body
  | ListChannels
  | CreateChannel bytes upsert_notification_channel_request
  | UpdateChannel bytes id upsert_notification_channel_request
  | DeleteChannel id

datatype site_answer =
    AnsSites "site_response page"
  | AnsSite site_response
  | AnsSiteDeleted bool
  | AnsSummary site_summary_response
  | AnsUptime site_uptime_response
  | AnsUptimeDaily site_uptime_daily_response
  | AnsChecks "site_monitor_check_response page"
  | AnsSiteIncidents "site_incident_response page"
  | AnsDeliveries "site_notification_delivery_response page"
  | AnsMonitorCall monitor_answer
  | AnsSiteChannels "site_notification_channel_response list"
  | AnsSiteChannel site_notification_channel_response
  | AnsStatusPage status_page_config_response
  | AnsChannels "notification_channel_response list"
  | AnsChannel notification_channel_response

definition answer_site :: "('a \<Rightarrow> site_answer) \<Rightarrow> ('s, 'p, 'a) handler \<Rightarrow> ('s, 'p, site_answer) handler" where
  "answer_site f m = svc_bind m (\<lambda>x. svc_return (f x))"

fun handle_site ::
    "('s, 'p) app_config \<Rightarrow> monitor_env \<Rightarrow> channel_env \<Rightarrow> request_clock \<Rightarrow> permission_set \<Rightarrow> site_call \<Rightarrow>
      ('s, 'p, site_answer) handler" where
  "handle_site cfg menv cenv clk perms (ListSites q limit cursor) = answer_site AnsSites (list_sites cfg perms q limit cursor)"
| "handle_site cfg menv cenv clk perms (CreateSite p) = answer_site AnsSite (create_site_handler cfg clk perms p)"
| "handle_site cfg menv cenv clk perms (UpdateSite s p) = answer_site AnsSite (update_site_handler cfg clk perms s p)"
| "handle_site cfg menv cenv clk perms (DeleteSite s) = answer_site AnsSiteDeleted (delete_site_handler perms s)"
| "handle_site cfg menv cenv clk perms (GetSummary s limit) = answer_site AnsSummary (get_site_summary cfg perms s limit)"
| "handle_site cfg menv cenv clk perms (GetUptime s win) = answer_site AnsUptime (get_site_uptime clk perms s win)"
| "handle_site cfg menv cenv clk perms (GetUptimeDaily s days) =
     answer_site AnsUptimeDaily (get_site_uptime_daily clk perms s days)"
| "handle_site cfg menv cenv clk perms (ListChecks s limit cursor outcome) =
     answer_site AnsChecks (list_site_checks cfg perms s limit cursor outcome)"
| "handle_site cfg menv cenv clk perms (ListIncidents s limit cursor status) =
     answer_site AnsSiteIncidents (list_site_incidents cfg perms s limit cursor status)"
| "handle_site cfg menv cenv clk perms (ListDeliveries s limit cursor status event) =
     answer_site AnsDeliveries (list_site_notification_deliveries cfg perms s limit cursor status event)"
| "handle_site cfg menv cenv clk perms (MonitorCall c) = answer_site AnsMonitorCall (handle_monitor cfg menv clk perms c)"
| "handle_site cfg menv cenv clk perms (ListSiteChannels s) =
     answer_site AnsSiteChannels (list_site_notification_channels perms s)"
| "handle_site cfg menv cenv clk perms (UpsertOverride s c p) =
     answer_site AnsSiteChannel (upsert_site_notification_channel_override clk perms s c p)"
| "handle_site cfg menv cenv clk perms (DeleteOverride s c) =
     answer_site AnsSiteDeleted (delete_site_notification_channel_override perms s c)"
| "handle_site cfg menv cenv clk perms (GetStatusPage s) = answer_site AnsStatusPage (get_status_page_config clk perms s)"
| "handle_site cfg menv cenv clk perms (PutStatusPage s p) =
     answer_site AnsStatusPage (upsert_status_page_config clk perms s p)"
| "handle_site cfg menv cenv clk perms ListChannels = answer_site AnsChannels (list_notification_channels cfg perms)"
| "handle_site cfg menv cenv clk perms (CreateChannel nonce p) =
     answer_site AnsChannel (create_notification_channel cfg cenv clk nonce perms p)"
| "handle_site cfg menv cenv clk perms (UpdateChannel nonce c p) =
     answer_site AnsChannel (update_notification_channel cfg cenv clk nonce perms c p)"
| "handle_site cfg menv cenv clk perms (DeleteChannel c) = answer_site AnsSiteDeleted (delete_notification_channel perms c)"

fun site_permissions :: "site_call \<Rightarrow> permission_key list" where
  "site_permissions (ListSites _ _ _) = [SitesRead]"
| "site_permissions (CreateSite _) = [SitesCreate]"
| "site_permissions (UpdateSite _ _) = [SitesUpdate]"
| "site_permissions (DeleteSite _) = [SitesDelete]"
| "site_permissions (GetSummary _ _) = [SiteChecksRead]"
| "site_permissions (GetUptime _ _) = [SitesRead]"
| "site_permissions (GetUptimeDaily _ _) = [SitesRead]"
| "site_permissions (ListChecks _ _ _ _) = [SiteChecksRead]"
| "site_permissions (ListIncidents _ _ _ _) = [SiteIncidentsRead]"
| "site_permissions (ListDeliveries _ _ _ _ _) = [NotificationDeliveriesRead]"
| "site_permissions (MonitorCall c) = monitor_permissions c"
| "site_permissions (ListSiteChannels _) = [SiteNotificationChannelOverridesRead]"
| "site_permissions (UpsertOverride _ _ _) =
     [SiteNotificationChannelOverridesCreate, SiteNotificationChannelOverridesUpdate]"
| "site_permissions (DeleteOverride _ _) = [SiteNotificationChannelOverridesDelete]"
| "site_permissions (GetStatusPage _) = [SitesRead]"
| "site_permissions (PutStatusPage _ _) = [SitesUpdate]"
| "site_permissions ListChannels = [NotificationChannelsRead]"
| "site_permissions (CreateChannel _ _) = [NotificationChannelsCreate]"
| "site_permissions (UpdateChannel _ _ _) = [NotificationChannelsUpdate]"
| "site_permissions (DeleteChannel _) = [NotificationChannelsDelete]"

section \<open>Who may call\<close>

lemmas site_handler_defs = list_sites_def create_site_handler_def update_site_handler_def delete_site_handler_def
  get_site_summary_def get_site_uptime_def get_site_uptime_daily_def list_site_checks_def list_site_incidents_def
  list_site_notification_deliveries_def list_site_notification_channels_def
  delete_site_notification_channel_override_def get_status_page_config_def upsert_status_page_config_def
  list_notification_channels_def create_notification_channel_def update_notification_channel_def
  delete_notification_channel_def

lemma page_parameters_tame [tame_rules]:
  "tame (bounded_limit v dflt m f)" "tame (parse_cursor parse c)" "tame (parse_sites_cursor c)"
  "tame (map_err BadRequest r)" "tame (map_err (\<lambda>e. internal_server_error (Message e)) r')"
  "tame (ok_or (NotFound message) x)" "tame (ok_or (BadRequest message) x)"
  unfolding bounded_limit_def parse_cursor_def parse_sites_cursor_def Let_def
  by (auto simp: map_err_def ok_or_def tame_def is_forbidden_def and_then_def internal_server_error_def
      split: option.split prod.split sum.split)

lemma site_results_tame:
  "tame (site_fields_required name url)" "tame (summary_window v)" "tame (history_limit v)" "tame (checks_limit v)"
  "tame (sites_limit v)" "tame (validate_slug slug)" "tame (validate_notification_channel_payload env p)"
  "tame (resolve_webhook_secret_ciphertext env nonce p existing)"
  "tame (validate_site_notification_channel_override_payload op)"
  by (unfold site_fields_required_def summary_window_def history_limit_def checks_limit_def sites_limit_def
      validate_slug_def validate_notification_channel_payload_def resolve_webhook_secret_ciphertext_def
      validate_site_notification_channel_override_payload_def Let_def; intro tame_rules)+

lemma site_results_never_forbid [simp]:
  "\<not> is_forbidden (site_fields_required name url)" "\<not> is_forbidden (summary_window v)"
  "\<not> is_forbidden (history_limit v)" "\<not> is_forbidden (checks_limit v)"
  "\<not> is_forbidden (sites_limit v)" "\<not> is_forbidden (validate_slug slug)"
  "\<not> is_forbidden (validate_notification_channel_payload env p)"
  "\<not> is_forbidden (resolve_webhook_secret_ciphertext env nonce p existing)"
  "\<not> is_forbidden (parse_cursor parse c)" "\<not> is_forbidden (parse_sites_cursor c)"
  using site_results_tame page_parameters_tame by (simp_all add: tame_def)

lemma db_call_unique_never_forbids [call_rules]: "never_forbids (db_call_unique message m)"
  by (auto simp: never_forbids_def db_call_unique_def svc_map_err_def on_db_def svc_stmt_def is_forbidden_def
      internal_server_error_def map_err_def split: prod.splits sum.splits api_error.splits anyhow_error.splits db_error.splits)

text \<open>An override without a field is rejected before any permission is looked at.\<close>

fun empty_override :: "site_call \<Rightarrow> bool" where
  "empty_override (UpsertOverride _ _ p) \<longleftrightarrow>
     uor_notify_on_failure p = None \<and> uor_notify_on_recovery p = None \<and> uor_is_active p = None"
| "empty_override _ \<longleftrightarrow> False"

lemma override_guards:
  assumes "\<not> empty_override (UpsertOverride s c p)"
  shows "guards perms (site_permissions (UpsertOverride s c p)) (upsert_site_notification_channel_override clk perms s c p)"
proof -
  have ok: "validate_site_notification_channel_override_payload p = Inr ()"
    using assms by (auto simp: validate_site_notification_channel_override_payload_def reject_def)
  have skip: "svc_bind (svc_result (validate_site_notification_channel_override_payload p)) k = k ()"
    for k :: "unit \<Rightarrow> ('s, 'p, site_notification_channel_response) handler"
    by (simp add: ok svc_bind_def fun_eq_iff)
  show ?thesis
    unfolding upsert_site_notification_channel_override_def skip site_permissions.simps
    by (rule guards_Cons, rule guards_Cons, rule guards_Nil) (intro call_rules; auto)
qed

lemma site_handlers_guarded:
  "guards perms [SitesRead] (list_sites cfg perms q limit cursor)"
  "guards perms [SitesCreate] (create_site_handler cfg clk perms cp)"
  "guards perms [SitesUpdate] (update_site_handler cfg clk perms s up)"
  "guards perms [SitesDelete] (delete_site_handler perms s)"
  "guards perms [SiteChecksRead] (get_site_summary cfg perms s limit)"
  "guards perms [SitesRead] (get_site_uptime clk perms s win)"
  "guards perms [SitesRead] (get_site_uptime_daily clk perms s days)"
  "guards perms [SiteChecksRead] (list_site_checks cfg perms s limit cursor outcome)"
  "guards perms [SiteIncidentsRead] (list_site_incidents cfg perms s limit cursor status)"
  "guards perms [NotificationDeliveriesRead]
     (list_site_notification_deliveries cfg perms s limit cursor dstatus event)"
  "guards perms [SiteNotificationChannelOverridesRead] (list_site_notification_channels perms s)"
  "guards perms [SiteNotificationChannelOverridesDelete] (delete_site_notification_channel_override perms s ch)"
  "guards perms [SitesRead] (get_status_page_config clk perms s)"
  "guards perms [SitesUpdate] (upsert_status_page_config clk perms s body)"
  "guards perms [NotificationChannelsRead] (list_notification_channels cfg perms)"
  "guards perms [NotificationChannelsCreate] (create_notification_channel cfg cenv clk nonce perms np)"
  "guards perms [NotificationChannelsUpdate] (update_notification_channel cfg cenv clk nonce perms ch np)"
  "guards perms [NotificationChannelsDelete] (delete_notification_channel perms ch)"
  by (unfold site_handler_defs Let_def, (rule guards_Cons, rule guards_Nil, (intro call_rules; auto))+)

lemma handle_site_guards:
  assumes "\<not> empty_override c"
  shows "guards perms (site_permissions c) (handle_site cfg menv cenv clk perms c)"
proof (cases "\<exists>s ch p. c = UpsertOverride s ch p")
  case True
  then obtain s ch p where "c = UpsertOverride s ch p" by blast
  with assms show ?thesis
    by (simp only: handle_site.simps answer_site_def) (rule guards_answer, rule override_guards)
next
  case False
  then show ?thesis
    by (cases c) (simp_all add: answer_site_def guards_answer site_handlers_guarded handle_monitor_guards)
qed

text \<open>
  Every call under \<^verbatim>\<open>/v1/sites\<close>, \<^verbatim>\<open>/v1/heartbeat\<close> and \<^verbatim>\<open>/v1/notifications\<close> demands its permissions first:
  the first that is missing is reported and nothing has changed; with all of them no call is answered
  Forbidden. The one exception is an override without a field, which is a bad request for everyone.
\<close>

theorem site_calls_are_guarded:
  "if empty_override c then
     handle_site cfg menv cenv clk perms c a = (Inl (BadRequest ''at least one override field must be provided''), a)
   else case find (\<lambda>p. p \<notin> perms) (site_permissions c) of
     None \<Rightarrow> \<not> is_forbidden (fst (handle_site cfg menv cenv clk perms c a))
   | Some p \<Rightarrow> handle_site cfg menv cenv clk perms c a =
       (Inl (Forbidden (''missing required permission: '' @ permission_as_str p)), a)"
proof (cases "empty_override c")
  case True
  then show ?thesis
    by (cases c) (auto simp: answer_site_def upsert_site_notification_channel_override_def svc_bind_def
        validate_site_notification_channel_override_payload_def reject_def)
next
  case False
  then show ?thesis
    using handle_site_guards [of c perms cfg menv cenv clk] by (simp add: guards_def)
qed

end
