(* ===== verification/Site_Lifecycle.thy ===== *)
theory Site_Lifecycle
  imports Site_Routes Monitor_Stop Check_Repository
begin

text \<open>
  The end of a site: what deactivating it stops, and that deleting it leaves nothing behind that refers to it.
\<close>

section \<open>Referential integrity\<close>

definition refers :: "('a \<Rightarrow> id) \<Rightarrow> 'a list \<Rightarrow> id set \<Rightarrow> bool" where
  "refers key rows targets \<longleftrightarrow> list_all (\<lambda>r. key r \<in> targets) rows"

definition refers_if_any :: "('a \<Rightarrow> id option) \<Rightarrow> 'a list \<Rightarrow> id set \<Rightarrow> bool" where
  "refers_if_any key rows targets \<longleftrightarrow> list_all (\<lambda>r. pred_option (\<lambda>i. i \<in> targets) (key r)) rows"

text \<open>The foreign keys of the migrations.\<close>

definition foreign_keys_hold :: "db \<Rightarrow> bool" where
  "foreign_keys_hold d \<longleftrightarrow>
     refers sm_site_id (db_monitors d) (s_id ` set (db_sites d)) \<and>
     refers smc_site_monitor_id (db_checks d) (sm_id ` set (db_monitors d)) \<and>
     refers inc_site_id (db_incidents d) (s_id ` set (db_sites d)) \<and>
     refers inc_site_monitor_id (db_incidents d) (sm_id ` set (db_monitors d)) \<and>
     refers_if_any inc_opened_check_id (db_incidents d) (smc_id ` set (db_checks d)) \<and>
     refers_if_any inc_resolved_check_id (db_incidents d) (smc_id ` set (db_checks d)) \<and>
     refers_if_any inc_last_check_id (db_incidents d) (smc_id ` set (db_checks d)) \<and>
     refers snco_site_id (db_overrides d) (s_id ` set (db_sites d)) \<and>
     refers snco_notification_channel_id (db_overrides d) (nc_id ` set (db_channels d)) \<and>
     refers nd_notification_channel_id (db_deliveries d) (nc_id ` set (db_channels d)) \<and>
     refers nd_site_monitor_id (db_deliveries d) (sm_id ` set (db_monitors d)) \<and>
     refers nd_site_monitor_check_id (db_deliveries d) (smc_id ` set (db_checks d)) \<and>
     refers_if_any nd_incident_id (db_deliveries d) (inc_id ` set (db_incidents d)) \<and>
     refers ssp_site_id (db_status_pages d) (s_id ` set (db_sites d))"

lemma refers_to_others: "refers key rows ts \<Longrightarrow> i \<notin> ts \<Longrightarrow> list_all (\<lambda>r. key r \<noteq> i) rows"
  by (auto simp: refers_def list_all_iff)

text \<open>Deleted rows take along the rows that refer to them.\<close>

lemma refers_delete:
  assumes "refers key rows (k ` set ts)" "\<And>r t. r \<in> set rows \<Longrightarrow> t \<in> set ts \<Longrightarrow> key r = k t \<Longrightarrow> q t \<Longrightarrow> p r"
  shows "refers key (delete_rows p rows) (k ` set (delete_rows q ts))"
  using assms by (fastforce simp: refers_def delete_rows_def list_all_iff image_iff)

lemma refers_map: "(\<And>r. key (f r) = key r) \<Longrightarrow> refers key (map f rows) ts = refers key rows ts"
  by (simp add: refers_def list_all_iff)

lemma refers_fewer: "refers key rows ts \<Longrightarrow> refers key (delete_rows p rows) ts"
  by (auto simp: refers_def delete_rows_def list_all_iff)

text \<open>Or a nullable reference is forgotten.\<close>

lemma refers_if_any_forget:
  assumes "refers_if_any key rows (k ` set ts)" "\<And>r. key (f r) = option_filter (\<lambda>i. i \<notin> gone) (key r)"
    and "\<And>t. t \<in> set ts \<Longrightarrow> q t \<Longrightarrow> k t \<in> gone"
  shows "refers_if_any key (map f (delete_rows p rows)) (k ` set (delete_rows q ts))"
  using assms unfolding refers_if_any_def delete_rows_def list_all_iff pred_option_def
  by (fastforce simp: option_filter_eq_Some image_iff simp flip: not_None_eq)

lemma delete_site_keeps_foreign_keys:
  assumes fk: "foreign_keys_hold d" and "delete_site i d = Inr (x, d')"
  shows "foreign_keys_hold d'"
proof -
  define mons where "mons = sm_id ` set (filter (\<lambda>m. sm_site_id m = i) (db_monitors d))"
  define chks where "chks = smc_id ` set (filter (\<lambda>c. smc_site_monitor_id c \<in> mons) (db_checks d))"
  define gone where "gone = (\<lambda>x :: site_monitor_incident. inc_site_id x = i \<or> inc_site_monitor_id x \<in> mons)"
  define incs where "incs = inc_id ` set (filter gone (db_incidents d))"
  define forget where "forget = (\<lambda>x. x\<lparr>inc_opened_check_id := option_filter (\<lambda>c. c \<notin> chks) (inc_opened_check_id x),
    inc_resolved_check_id := option_filter (\<lambda>c. c \<notin> chks) (inc_resolved_check_id x),
    inc_last_check_id := option_filter (\<lambda>c. c \<notin> chks) (inc_last_check_id x)\<rparr> :: site_monitor_incident)"
  have rows: "db_sites d' = delete_rows (\<lambda>s. s_id s = i) (db_sites d)"
    "db_monitors d' = delete_rows (\<lambda>m. sm_id m \<in> mons) (db_monitors d)"
    "db_checks d' = delete_rows (\<lambda>c. smc_id c \<in> chks) (db_checks d)"
    "db_incidents d' = map forget (delete_rows gone (db_incidents d))"
    "db_overrides d' = delete_rows (\<lambda>x. snco_site_id x = i) (db_overrides d)"
    "db_status_pages d' = delete_rows (\<lambda>p. ssp_site_id p = i) (db_status_pages d)"
    "db_deliveries d' = map (forget_incidents incs)
      (delete_rows (\<lambda>n. nd_site_monitor_id n \<in> mons \<or> nd_site_monitor_check_id n \<in> chks) (db_deliveries d))"
    "db_channels d' = db_channels d"
    using assms(2) by (auto simp: delete_site_def Let_def mons_def chks_def gone_def incs_def forget_def)
  have keys [simp]: "inc_id (forget r) = inc_id r" "inc_site_id (forget r) = inc_site_id r"
    "inc_site_monitor_id (forget r) = inc_site_monitor_id r" for r
    by (simp_all add: forget_def)
  have [simp]: "inc_id ` forget ` X = inc_id ` X" for X
    by (simp add: image_image)
  have [simp]: "nd_notification_channel_id (forget_incidents incs r) = nd_notification_channel_id r"
    "nd_site_monitor_id (forget_incidents incs r) = nd_site_monitor_id r"
    "nd_site_monitor_check_id (forget_incidents incs r) = nd_site_monitor_check_id r" for r
    by (simp_all add: forget_incidents_def)
  note fks = fk [unfolded foreign_keys_hold_def]
  have checks: "refers_if_any key (db_incidents d') (smc_id ` set (db_checks d'))"
    if "refers_if_any key (db_incidents d) (smc_id ` set (db_checks d))"
      "\<And>r. key (forget r) = option_filter (\<lambda>c. c \<notin> chks) (key r)" for key
    unfolding rows by (rule refers_if_any_forget [OF that]) simp
  have "refers sm_site_id (db_monitors d') (s_id ` set (db_sites d'))"
    unfolding rows using fks by (intro refers_delete) (auto simp: mons_def)
  moreover have "refers smc_site_monitor_id (db_checks d') (sm_id ` set (db_monitors d'))"
    unfolding rows using fks by (intro refers_delete) (auto simp: chks_def)
  moreover have "refers inc_site_id (db_incidents d') (s_id ` set (db_sites d'))"
    unfolding rows using fks by (simp add: refers_map) (intro refers_delete; auto simp: gone_def)
  moreover have "refers inc_site_monitor_id (db_incidents d') (sm_id ` set (db_monitors d'))"
    unfolding rows using fks by (simp add: refers_map) (intro refers_delete; auto simp: gone_def)
  moreover have "refers_if_any inc_opened_check_id (db_incidents d') (smc_id ` set (db_checks d'))"
    "refers_if_any inc_resolved_check_id (db_incidents d') (smc_id ` set (db_checks d'))"
    "refers_if_any inc_last_check_id (db_incidents d') (smc_id ` set (db_checks d'))"
    using fks by (intro checks; simp add: forget_def)+
  moreover have "refers snco_site_id (db_overrides d') (s_id ` set (db_sites d'))"
    unfolding rows using fks by (intro refers_delete) auto
  moreover have "refers snco_notification_channel_id (db_overrides d') (nc_id ` set (db_channels d'))"
    unfolding rows using fks by (intro refers_fewer) auto
  moreover have "refers nd_notification_channel_id (db_deliveries d') (nc_id ` set (db_channels d'))"
    unfolding rows using fks by (simp add: refers_map refers_fewer)
  moreover have "refers nd_site_monitor_id (db_deliveries d') (sm_id ` set (db_monitors d'))"
    unfolding rows using fks by (simp add: refers_map) (intro refers_delete; auto)
  moreover have "refers nd_site_monitor_check_id (db_deliveries d') (smc_id ` set (db_checks d'))"
    unfolding rows using fks by (simp add: refers_map) (intro refers_delete; auto)
  moreover have "refers_if_any nd_incident_id (db_deliveries d') (inc_id ` set (db_incidents d'))"
    unfolding rows using fks by simp (rule refers_if_any_forget [where gone = incs]; auto simp: forget_incidents_def incs_def)
  moreover have "refers ssp_site_id (db_status_pages d') (s_id ` set (db_sites d'))"
    unfolding rows using fks by (intro refers_delete) auto
  ultimately show ?thesis by (simp add: foreign_keys_hold_def)
qed

text \<open>
  With the primary keys unique, the cascade takes the rows of the site and no other: what stays, in
  its order and with its references to deleted checks and incidents forgotten.
\<close>

lemma delete_site_rows:
  assumes "distinct (map sm_id (db_monitors d))" "distinct (map smc_id (db_checks d))"
    and "delete_site site d = Inr (x, d')"
  shows "let mons = sm_id ` set (filter (\<lambda>m. sm_site_id m = site) (db_monitors d));
             chks = smc_id ` set (filter (\<lambda>c. smc_site_monitor_id c \<in> mons) (db_checks d));
             mine = (\<lambda>i. inc_site_id i = site \<or> inc_site_monitor_id i \<in> mons);
             incs = inc_id ` set (filter mine (db_incidents d))
    in d' = d\<lparr>db_sites := filter (\<lambda>s. s_id s \<noteq> site) (db_sites d),
              db_monitors := filter (\<lambda>m. sm_site_id m \<noteq> site) (db_monitors d),
              db_checks := filter (\<lambda>c. smc_site_monitor_id c \<notin> mons) (db_checks d),
              db_incidents := map (forget_check chks) (filter (\<lambda>i. \<not> mine i) (db_incidents d)),
              db_overrides := filter (\<lambda>o'. snco_site_id o' \<noteq> site) (db_overrides d),
              db_status_pages := filter (\<lambda>p. ssp_site_id p \<noteq> site) (db_status_pages d),
              db_deliveries := map (forget_incidents incs)
                (filter (\<lambda>n. nd_site_monitor_id n \<notin> mons \<and> nd_site_monitor_check_id n \<notin> chks)
                   (db_deliveries d))\<rparr>"
proof -
  have "filter (\<lambda>m. sm_id m \<notin> sm_id ` set (filter (\<lambda>m. sm_site_id m = site) (db_monitors d))) (db_monitors d) =
      filter (\<lambda>m. sm_site_id m \<noteq> site) (db_monitors d)"
    by (rule filter_cong [OF refl]) (auto dest: distinct_map_eqD [OF assms(1)])
  moreover have "filter (\<lambda>c. smc_id c \<notin> smc_id ` set (filter (\<lambda>c. smc_site_monitor_id c \<in> M) (db_checks d)))
      (db_checks d) = filter (\<lambda>c. smc_site_monitor_id c \<notin> M) (db_checks d)" for M
    by (rule filter_cong [OF refl]) (auto dest: distinct_map_eqD [OF assms(2)])
  ultimately show ?thesis
    using assms(3) by (simp add: delete_site_def Let_def delete_rows_def forget_check_def [abs_def])
qed

text \<open>
  C32: Deleting a site keeps every foreign key and removes exactly what belongs to it: the site, its monitors
  with their checks, its incidents, overrides and status page, and the deliveries of those monitors and checks.
  Every other row stays where it was; an incident that stays only forgets deleted checks, a delivery that
  stays only forgets a deleted incident. Channels, accounts and caches do not change.
\<close>

theorem deleted_site_leaves_nothing_behind:
  assumes "foreign_keys_hold (app_db a)" "distinct (map sm_id (db_monitors (app_db a)))"
    and "distinct (map smc_id (db_checks (app_db a)))" "delete_site_handler perms site_id a = (Inr r, a')"
  shows "let d = app_db a;
             mons = sm_id ` set (filter (\<lambda>m. sm_site_id m = site_id) (db_monitors d));
             chks = smc_id ` set (filter (\<lambda>c. smc_site_monitor_id c \<in> mons) (db_checks d));
             mine = (\<lambda>i. inc_site_id i = site_id \<or> inc_site_monitor_id i \<in> mons);
             incs = inc_id ` set (filter mine (db_incidents d))
    in foreign_keys_hold (app_db a') \<and>
       a' = a\<lparr>app_db := d
         \<lparr>db_sites := filter (\<lambda>s. s_id s \<noteq> site_id) (db_sites d),
          db_monitors := filter (\<lambda>m. sm_site_id m \<noteq> site_id) (db_monitors d),
          db_checks := filter (\<lambda>c. smc_site_monitor_id c \<notin> mons) (db_checks d),
          db_incidents := map (forget_check chks) (filter (\<lambda>i. \<not> mine i) (db_incidents d)),
          db_overrides := filter (\<lambda>o'. snco_site_id o' \<noteq> site_id) (db_overrides d),
          db_status_pages := filter (\<lambda>p. ssp_site_id p \<noteq> site_id) (db_status_pages d),
          db_deliveries := map (forget_incidents incs)
            (filter (\<lambda>n. nd_site_monitor_id n \<notin> mons \<and> nd_site_monitor_check_id n \<notin> chks)
               (db_deliveries d))\<rparr>\<rparr>"
proof -
  obtain x d' where d': "delete_site site_id (app_db a) = Inr (x, d')" "a' = a\<lparr>app_db := d'\<rparr>"
    using assms(4) by (auto simp: delete_site_handler_def svc_bind_Inr demand_Inr db_call_Inr split: if_splits)
  have "foreign_keys_hold d'"
    by (rule delete_site_keeps_foreign_keys [OF assms(1) d'(1)])
  then show ?thesis
    using delete_site_rows [OF assms(2,3) d'(1)] by (simp add: d'(2) Let_def)
qed

text \<open>A second site with a monitor and a check beside the sample's site.\<close>

definition sample_two_sites :: db where
  "sample_two_sites = sample_db
     \<lparr>db_sites := db_sites sample_db @ [sample_site\<lparr>s_id := 2\<rparr>],
      db_monitors := db_monitors sample_db @ [monitor_defaults 0 3 2 Tcp ''tcp://b.test:1''],
      db_checks := [sample_check 1 10, (sample_check 2 20)\<lparr>smc_site_monitor_id := 3\<rparr>],
      db_incidents := [sample_incident 1 1 Http, (sample_incident 2 3 Tcp)\<lparr>inc_site_id := 2\<rparr>]\<rparr>"

theorem deleted_site_leaves_nothing_behind_witness:
  "foreign_keys_hold sample_two_sites \<and>
   (let d = app_db (snd (delete_site_handler {SitesDelete} 1 (sample_app\<lparr>app_db := sample_two_sites\<rparr>)))
    in foreign_keys_hold d \<and> map s_id (db_sites d) = [2] \<and> map sm_id (db_monitors d) = [3] \<and>
       map smc_id (db_checks d) = [2] \<and> map inc_id (db_incidents d) = [2])"
proof -
  let ?a = "sample_app\<lparr>app_db := sample_two_sites\<rparr>"
  have fk: "foreign_keys_hold (app_db ?a)"
    by (simp add: foreign_keys_hold_def sample_two_sites_def sample_db_def sample_site_def monitor_defaults_def
        sample_check_def sample_incident_def empty_db_def refers_def refers_if_any_def)
  have keys: "distinct (map sm_id (db_monitors (app_db ?a)))" "distinct (map smc_id (db_checks (app_db ?a)))"
    by (simp_all add: sample_two_sites_def sample_db_def monitor_defaults_def sample_check_def)
  obtain r a' where call: "delete_site_handler {SitesDelete} 1 ?a = (r, a')" by fastforce
  then have "r = Inr True"
    by (auto simp: delete_site_handler_def svc_bind_def demand_def require_permission_def db_call_def on_db_def
        svc_map_err_def svc_stmt_def delete_site_def Let_def sample_two_sites_def sample_db_def sample_site_def
        find_site_def)
  then have deleted: "delete_site_handler {SitesDelete} 1 ?a = (Inr True, a')"
    using call by simp
  note after = deleted_site_leaves_nothing_behind [OF fk keys deleted, unfolded Let_def]
  have "map s_id (db_sites (app_db a')) = [2] \<and> map sm_id (db_monitors (app_db a')) = [3] \<and>
      map smc_id (db_checks (app_db a')) = [2] \<and> map inc_id (db_incidents (app_db a')) = [2]"
    by (subst (1 2 3 4) after [THEN conjunct2])
      (simp add: sample_two_sites_def sample_db_def sample_site_def monitor_defaults_def sample_check_def
        sample_incident_def)
  then show ?thesis
    using after [THEN conjunct1] fk by (simp add: call Let_def)
qed

section \<open>Deactivation\<close>

lemma updated_site_inactive:
  assumes "update_site now i name url False d = Inr (x, d')"
  shows "\<not> site_active i d'"
proof -
  have "db_sites d' = update_rows (\<lambda>s. s_id s = i)
      (\<lambda>s. s\<lparr>s_name := name, s_base_url := url, s_is_active := False, s_updated_at := now\<rparr>) (db_sites d)"
    using assms unfolding update_site_def Let_def
    by (simp only: split: if_split_asm) (drule sum.inject(2) [THEN iffD1], fastforce+)
  then show ?thesis
    by (simp add: site_active_def update_rows_def ball_Un)
qed

text \<open>Right after the call the site is inactive, none of its incidents is open and none of its monitors is due.\<close>

lemma deactivation_leaves_site_at_rest:
  assumes "update_site_handler cfg clk perms site_id payload a = (Inr r, a')" "\<not> usr_is_active payload"
  shows "\<not> site_active site_id (app_db a')"
    and "list_all (\<lambda>i. if inc_site_id i = site_id then \<not> is_open i else True) (db_incidents (app_db a'))"
proof -
  obtain x d1 n d2 where u: "update_site (ck_now clk) site_id (trim (usr_name payload)) (trim (usr_base_url payload)) False
      (app_db a) = Inr (x, d1)"
    and c: "resolve_open_incidents_for_site (ck_now clk) site_id SiteDeactivated d1 = Inr (n, d2)"
    and a': "app_db a' = d2"
    using assms by (auto simp: update_site_handler_def svc_bind_Inr demand_Inr db_call_Inr ok_or_Inr)
  note closed = closing_incidents [OF c [unfolded resolve_open_incidents_for_site_def]]
  have "db_sites d2 = db_sites d1"
    by (subst closed(2)) simp
  moreover have "\<not> site_active site_id d1"
    by (rule updated_site_inactive [OF u])
  ultimately show "\<not> site_active site_id (app_db a')"
    by (simp add: site_active_def a')
  show "list_all (\<lambda>i. if inc_site_id i = site_id then \<not> is_open i else True) (db_incidents (app_db a'))"
    using closed(1) by (simp add: a')
qed

lemma inactive_site_never_due:
  "\<not> site_active site d \<Longrightarrow> list_all (\<lambda>m. sm_site_id m \<noteq> site) (due_monitors later locked limit d)"
  by (auto simp: due_monitors_def limit_rows_def claimable_def list_all_iff dest!: in_set_takeD)

end
