(* ===== verification/Site_Rest.thy ===== *)
theory Site_Rest
  imports Site_Lifecycle Worker_System
begin

text \<open>
  A deactivated site under the workers: what stays true of it while they and the API go on, and the one thing
  deactivation does not reach, a check that was already running.
\<close>

section \<open>Sites with open incidents\<close>

definition open_sites :: "db \<Rightarrow> id set" where
  "open_sites d = inc_site_id ` set (filter is_open (db_incidents d))"

lemma open_sites_empty:
  "site \<notin> open_sites d \<longleftrightarrow> list_all (\<lambda>i. if inc_site_id i = site then \<not> is_open i else True) (db_incidents d)"
  by (auto simp: open_sites_def list_all_iff image_iff)

lemma open_sites_cong: "db_incidents d' = db_incidents d \<Longrightarrow> open_sites d' = open_sites d"
  by (simp add: open_sites_def)

lemma open_sites_fewer:
  assumes "\<And>x. x \<in> set (db_incidents d') \<Longrightarrow> is_open x \<Longrightarrow>
    \<exists>y \<in> set (db_incidents d). is_open y \<and> inc_site_id y = inc_site_id x"
  shows "open_sites d' \<subseteq> open_sites d"
proof
  fix i assume "i \<in> open_sites d'"
  then obtain x where "x \<in> set (db_incidents d')" "is_open x" "i = inc_site_id x"
    by (auto simp: open_sites_def)
  with assms obtain y where "y \<in> set (db_incidents d)" "is_open y" "inc_site_id y = i"
    by metis
  then show "i \<in> open_sites d"
    by (auto simp: open_sites_def)
qed

lemma forget_check_open [simp]: "is_open (forget_check g i) = is_open i"
  by (simp add: is_open_def)

lemma update_incidents_open_sites:
  assumes "update_incidents p f d = Inr (n, d')" "keeps_incident f"
  shows "open_sites d' \<subseteq> open_sites d"
proof (rule open_sites_fewer)
  fix x assume x: "x \<in> set (db_incidents d')" "is_open x"
  obtain t where t: "try_update_rows p f (db_incidents d) = Inr t" "db_incidents d' = t"
    using assms(1) by (auto simp: update_incidents_Inr)
  obtain y where "y \<in> set (db_incidents d)" "if p y then f y = Inr x else x = y"
    using list_all2_memD [OF t(1) [unfolded try_update_rows_Inr] x(1) [unfolded t(2)]] by blast
  then show "\<exists>y \<in> set (db_incidents d). is_open y \<and> inc_site_id y = inc_site_id x"
    using x(2) assms(2) by (auto simp: keeps_incident_def split: if_splits)
qed

lemma acknowledge_open_sites:
  "acknowledge_incident now i s a d = Inr (r, d') \<Longrightarrow> open_sites d' \<subseteq> open_sites d"
  by (rule open_sites_fewer)
    (force simp: acknowledge_incident_def Let_def update_rows_def acknowledge_row_def is_open_def)

lemma forgetting_open_sites:
  "db_incidents d' = map (forget_check g) (filter p (db_incidents d)) \<Longrightarrow> open_sites d' \<subseteq> open_sites d"
  by (rule open_sites_fewer) force

lemma prune_open_sites:
  assumes "prune_checks_older_than lock cutoff limit d = Inr (r, d')"
  shows "open_sites d' \<subseteq> open_sites d"
proof -
  obtain g where "d' = d \<or> d' = delete_checks g d"
    using assms by (auto simp: prune_checks_older_than_def Let_def split: if_splits)
  then show ?thesis
    using forgetting_open_sites [of d' g "\<lambda>_. True" d] by (auto simp: delete_checks_def)
qed

lemma delete_site_open_sites:
  assumes "delete_site site d = Inr (r, d')"
  shows "open_sites d' \<subseteq> open_sites d"
proof -
  obtain g p where "db_incidents d' = map (forget_check g) (filter p (db_incidents d))"
    using assms by (auto simp: delete_site_def Let_def delete_rows_def forget_check_def [abs_def])
  then show ?thesis
    by (rule forgetting_open_sites)
qed

text \<open>Only a save opens an incident, and for the site of its monitor.\<close>

lemma lifecycle_open_sites:
  assumes "manage_incident_lifecycle now m check d = Inr (r, d')"
  shows "open_sites d' \<subseteq> insert (sm_site_id m) (open_sites d)"
proof -
  have opened: "open_sites d1 \<subseteq> insert s (open_sites d)" if "open_incident now s p d = Inr (i, d1)" for s p i d1
    using that by (auto simp: open_incident_Inr open_sites_def incident_row_def)
  have updating: "open_sites d1 \<subseteq> insert s (open_sites d)"
    if "update_incidents p (failure_row now fp) d = Inr (n, d1) \<or> update_incidents p (recovered_row now rp) d = Inr (n, d1)"
    for s p fp rp n d1
    using that update_incidents_open_sites row_ops_keep_incident(1,2) by blast
  show ?thesis
    using assms
    by (auto simp: manage_incident_lifecycle_def Let_def with_open_def stmt_bind_Inr_iff update_incident_failure_def
        resolve_incident_def dest: subsetD [OF opened] subsetD [OF updating [OF disjI1]] subsetD [OF updating [OF disjI2]]
        split: incident_action.splits option.splits)
qed

lemma save_open_sites:
  assumes "save_check_result f now m w completed d = Inr (u, d')"
  shows "open_sites d' \<subseteq> insert (sm_site_id m) (open_sites d)"
proof -
  obtain check d1 d2 d3 inc k where
    st: "d1 = d\<lparr>db_checks := db_checks d @ [check], db_next_check := db_next_check d + 1\<rparr>"
    "manage_incident_lifecycle now m check d1 = Inr (inc, d2)"
    "enqueue_site_monitor_notifications f now m check inc d2 = Inr (k, d3)"
    "d' = d3\<lparr>db_monitors := update_rows (owns_claim (sm_id m) w)
        (last_check_row now (last_check_params (cmk_result completed))) (db_monitors d3)\<rparr>"
    by (rule save_check_result_Inr [OF assms])
  have "open_sites d1 = open_sites d"
    by (rule open_sites_cong) (simp add: st(1))
  moreover have "open_sites d' = open_sites d2"
    by (rule open_sites_cong) (use enqueue_notifications_frame [OF st(3)] in \<open>simp add: st(4)\<close>)
  ultimately show ?thesis
    using lifecycle_open_sites [OF st(2)] by simp
qed

section \<open>A site without checks in flight\<close>

definition no_checks_of :: "id \<Rightarrow> sys \<Rightarrow> bool" where
  "no_checks_of site = (\<lambda>(d, T). list_all (\<lambda>(w, m). sm_site_id m \<noteq> site) T)"

definition site_at_rest :: "id \<Rightarrow> sys \<Rightarrow> bool" where
  "site_at_rest site = (\<lambda>(d, T). \<not> site_active site d \<and> site \<notin> open_sites d \<and> no_checks_of site (d, T))"

lemma rest_run_stmt:
  assumes "site \<notin> open_sites d" "\<And>x d'. s d = Inr (x, d') \<Longrightarrow> open_sites d' \<subseteq> open_sites d"
  shows "site \<notin> open_sites (run_stmt s d)"
  using assms by (auto simp: run_stmt_def split: sum.splits)

lemma claimed_from_active:
  assumes "monitors_wf d" "claim_site_monitors_due_for_check now locked w limit s d = Inr (ms, d')"
    and "\<not> site_active site d"
  shows "list_all (\<lambda>m. sm_site_id m \<noteq> site) ms" "db_incidents d' = db_incidents d"
proof -
  show "db_incidents d' = db_incidents d"
    using assms(2) by (auto simp: claim_Inr_iff Let_def)
  show "list_all (\<lambda>m. sm_site_id m \<noteq> site) ms"
    using claim_returns_set(1) [OF assms(1,2)] inactive_site_never_due [OF assms(3), of now locked limit]
    by (auto simp: list_all_iff claim_row_def)
qed

lemma exec_monitor_open_sites: "exec_monitor_stmt now st d = Inr (u, d') \<Longrightarrow> open_sites d' \<subseteq> open_sites d"
  using exec_monitor_stmt_effect [of now st d d'] open_sites_cong [of d' d]
  by (simp add: admin_effect_def)

lemma side_open_sites: "exec_side_stmt now st d = Inr (u, d') \<Longrightarrow> open_sites d' \<subseteq> open_sites d"
  using side_stmt_frame [of now st d d'] open_sites_cong [of d' d]
  by (simp add: check_tables_def)

lemma site_stmts_open_sites:
  "create_site now name url d = Inr (x, d') \<Longrightarrow> open_sites d' \<subseteq> open_sites d"
  "update_site now i name url b d = Inr (y, d') \<Longrightarrow> open_sites d' \<subseteq> open_sites d"
  by (auto simp: open_sites_def create_site_def update_site_def Let_def split: if_splits)

lemma resolve_open_sites:
  "resolve_open_incidents_for_monitor now i reason d = Inr (n, d') \<Longrightarrow> open_sites d' \<subseteq> open_sites d"
  "resolve_open_incidents_for_site now i reason d = Inr (n, d') \<Longrightarrow> open_sites d' \<subseteq> open_sites d"
  unfolding resolve_open_incidents_for_monitor_def resolve_open_incidents_for_site_def
  by (erule update_incidents_open_sites [OF _ row_ops_keep_incident(3)])+

lemma quiet_rest:
  assumes "\<And>x d'. s d = Inr (x, d') \<Longrightarrow> open_sites d' \<subseteq> open_sites d" "site_at_rest site (d, T)"
    and "\<not> site_active site (fst (run_stmt s d, T))"
  shows "site_at_rest site (run_stmt s d, T)"
  using assms rest_run_stmt [of site d s] by (auto simp: site_at_rest_def no_checks_of_def)

text \<open>While the site is inactive, no step starts a check of it or opens an incident on it.\<close>

lemma rest_step:
  assumes "sys_step s s'" "sys_inv s" "site_at_rest site s" "\<not> site_active site (fst s')"
  shows "site_at_rest site s'"
  using assms
proof (induction rule: sys_step.induct)
  case (Claim w T now locked limit sec d ms d')
  have "monitors_wf d"
    using sys_inv_ok [OF Claim.prems(1)] by (simp add: db_ok_def monitor_ids_ok_def)
  moreover have "\<not> site_active site d"
    using Claim.prems(2) by (simp add: site_at_rest_def)
  ultimately show ?case
    using claimed_from_active [OF _ Claim.hyps(2), of site] Claim.prems(2,3) open_sites_cong [of d' d]
    by (auto simp: site_at_rest_def no_checks_of_def list_all_iff)
next
  case (Extend w m T now sec d b d')
  then have "open_sites d' = open_sites d"
    by (intro open_sites_cong) (auto simp: extend_site_monitor_claim_def update_claimed_def)
  then show ?case
    using Extend.prems by (simp add: site_at_rest_def no_checks_of_def)
next
  case (Save w m T d f now completed)
  have "sm_site_id m \<noteq> site"
    using Save.hyps Save.prems(2) by (auto simp: site_at_rest_def no_checks_of_def list_all_iff)
  moreover have "site \<notin> open_sites d"
    using Save.prems(2) by (simp add: site_at_rest_def)
  ultimately have "site \<notin> open_sites (run_stmt (save_check_result f now m w completed) d)"
    using save_open_sites [of f now m w completed d] by (auto simp: run_stmt_def split: sum.splits)
  then show ?case
    using Save.prems notin_set_remove1 [of _ T "(w, m)"]
    by (auto simp: site_at_rest_def no_checks_of_def list_all_iff dest: set_remove1_subset [THEN subsetD])
next
  case (Release w m T d now)
  have "open_sites (run_stmt (release_site_monitor_claim now (sm_id m) w) d) = open_sites d"
    by (intro open_sites_cong) (auto simp: release_site_monitor_claim_def update_claimed_def run_stmt_def)
  then show ?case
    using Release.prems
    by (auto simp: site_at_rest_def no_checks_of_def list_all_iff dest: set_remove1_subset [THEN subsetD])
next
  case (Lose d T w m)
  then show ?case
    by (auto simp: site_at_rest_def no_checks_of_def list_all_iff dest: set_remove1_subset [THEN subsetD])
next
  case (Crash d T w)
  then show ?case
    by (auto simp: site_at_rest_def no_checks_of_def list_all_iff)
next
  case (Prune d T lock cutoff limit)
  show ?case
    by (rule quiet_rest [OF _ Prune.prems(2,3)]) (erule prune_open_sites)
next
  case (Api d T now st)
  show ?case
    by (rule quiet_rest [OF _ Api.prems(2,3)]) (erule exec_monitor_open_sites)
next
  case (ResolveMonitor d T now i reason)
  show ?case
    by (rule quiet_rest [OF _ ResolveMonitor.prems(2,3)]) (erule resolve_open_sites(1))
next
  case (ResolveSite d T now i reason)
  show ?case
    by (rule quiet_rest [OF _ ResolveSite.prems(2,3)]) (erule resolve_open_sites(2))
next
  case (Acknowledge d T now i k admin)
  show ?case
    by (rule quiet_rest [OF _ Acknowledge.prems(2,3)]) (erule acknowledge_open_sites)
next
  case (CreateSite d T now name url)
  show ?case
    by (rule quiet_rest [OF _ CreateSite.prems(2,3)]) (erule site_stmts_open_sites(1))
next
  case (UpdateSite d T now i name url active)
  show ?case
    by (rule quiet_rest [OF _ UpdateSite.prems(2,3)]) (erule site_stmts_open_sites(2))
next
  case (DeleteSite d T i)
  show ?case
    by (rule quiet_rest [OF _ DeleteSite.prems(2,3)]) (erule delete_site_open_sites)
next
  case (Side d T now st)
  show ?case
    by (rule quiet_rest [OF _ Side.prems(2,3)]) (erule side_open_sites)
qed

text \<open>Any steps at all of the workers and the API, as long as nobody activates the site again.\<close>

inductive stays_inactive :: "id \<Rightarrow> sys \<Rightarrow> sys \<Rightarrow> bool" where
  Stay: "stays_inactive site s s"
| Go: "stays_inactive site s s' \<Longrightarrow> sys_step s' s'' \<Longrightarrow> \<not> site_active site (fst s'') \<Longrightarrow>
    stays_inactive site s s''"

lemma stays_at_rest:
  "stays_inactive site s s' \<Longrightarrow> sys_inv s \<Longrightarrow> site_at_rest site s \<Longrightarrow> sys_inv s' \<and> site_at_rest site s'"
  by (induction rule: stays_inactive.induct) (auto dest: sys_step_ok rest_step)

text \<open>The call itself is two steps of the system.\<close>

lemma deactivation_reachable:
  assumes "reachable (app_db a, T)" "update_site_handler cfg clk perms site_id payload a = (Inr r, a')"
    and "\<not> usr_is_active payload"
  shows "reachable (app_db a', T)"
proof -
  obtain x d1 n d2 where u: "update_site (ck_now clk) site_id (trim (usr_name payload)) (trim (usr_base_url payload)) False
      (app_db a) = Inr (x, d1)"
    and c: "resolve_open_incidents_for_site (ck_now clk) site_id SiteDeactivated d1 = Inr (n, d2)"
    and a': "app_db a' = d2"
    using assms(2,3) by (auto simp: update_site_handler_def svc_bind_Inr demand_Inr db_call_Inr ok_or_Inr)
  have "reachable (d1, T)"
    using Step [OF assms(1) UpdateSite [where now = "ck_now clk" and site = site_id and active = False
          and name = "trim (usr_name payload)" and url = "trim (usr_base_url payload)"]] u
    by (simp add: run_stmt_def)
  then show ?thesis
    using Step [OF _ ResolveSite [where now = "ck_now clk" and site = site_id and reason = SiteDeactivated]] c a'
    by (fastforce simp: run_stmt_def)
qed

section \<open>Properties of deactivation\<close>

text \<open>
  C33: Once a site has been deactivated with no check of it in flight, it stays at rest whatever the workers
  and the API do, until somebody activates it again: no incident of it is open, no worker has a check of
  one of its monitors, and none of its monitors is due, at any time and limit. (A check that is in flight is
  not stopped: see \<open>running_check_reopens_deactivated_site\<close>.)
\<close>

theorem deactivated_site_stays_at_rest:
  assumes "reachable (app_db a, T)" "list_all (\<lambda>(w, m). sm_site_id m \<noteq> site_id) T"
    and "update_site_handler cfg clk perms site_id payload a = (Inr r, a')" "\<not> usr_is_active payload"
    and "stays_inactive site_id (app_db a', T) (d, T')"
  shows "list_all (\<lambda>i. if inc_site_id i = site_id then \<not> is_open i else True) (db_incidents d) \<and>
    list_all (\<lambda>(w, m). sm_site_id m \<noteq> site_id) T' \<and>
    list_all (\<lambda>m. sm_site_id m \<noteq> site_id) (due_monitors later locked limit d)"
proof -
  have "sys_inv (app_db a', T)"
    by (rule reachable_inv [OF deactivation_reachable [OF assms(1,3,4)]])
  moreover have "site_at_rest site_id (app_db a', T)"
    using deactivation_leaves_site_at_rest [OF assms(3,4)] assms(2)
    by (simp add: site_at_rest_def no_checks_of_def open_sites_empty)
  ultimately have "site_at_rest site_id (d, T')"
    using stays_at_rest [OF assms(5)] by blast
  then show ?thesis
    using inactive_site_never_due [of site_id d later locked limit]
    by (simp add: site_at_rest_def no_checks_of_def open_sites_empty)
qed

lemma sample_sys_db_value:
  "sample_sys_db = empty_db
     \<lparr>db_sites := [\<lparr>s_id = 1, s_name = ''Shop'', s_base_url = ''https://a.test'', s_is_active = True,
                     s_created_at = 4, s_updated_at = 4\<rparr>],
      db_monitors := [(monitor_defaults 5 1 1 Heartbeat ''/hb'')
         \<lparr>sm_check_interval_seconds := 60, sm_heartbeat_token := Some ''t'', sm_heartbeat_grace_seconds := None,
          sm_is_active := True, sm_last_checked_at := Some 5\<rparr>],
      db_next_site := 2, db_next_monitor := 2\<rparr>"
  by (simp add: sample_sys_db_def create_site_def empty_db_def run_stmt_def drop_result_def stmt_bind_def
      create_heartbeat_site_monitor_def insert_monitor_def Let_def monitor_defaults_def find_site_def
      monitor_constraints_def List.map_filter_def)

text \<open>The reachable sample with its site deactivated; then a worker claims, and finds nothing.\<close>

theorem deactivated_site_stays_at_rest_witness:
  "due_monitors 9000000000 {} 10 sample_sys_db \<noteq> [] \<and>
   (\<exists>r a' ms d. update_site_handler sample_config \<lparr>ck_now = 9, ck_utc = 9, ck_instant = 9\<rparr> {SitesUpdate} 1
       \<lparr>usr_name = ''a'', usr_base_url = ''b'', usr_is_active = False\<rparr> (sample_app\<lparr>app_db := sample_sys_db\<rparr>) = (Inr r, a') \<and>
     claim_site_monitors_due_for_check 9000000000 {} ''w1'' 10 90 (app_db a') = Inr (ms, d) \<and>
     list_all (\<lambda>m. sm_site_id m \<noteq> 1) ms \<and> list_all (\<lambda>m. sm_site_id m \<noteq> 1) (due_monitors 9000000000 {} 10 d))"
proof -
  let ?p = "\<lparr>usr_name = ''a'', usr_base_url = ''b'', usr_is_active = False\<rparr>"
    and ?a = "sample_app\<lparr>app_db := sample_sys_db\<rparr>" and ?clk = "\<lparr>ck_now = 9, ck_utc = 9, ck_instant = 9\<rparr>"
  have "\<not> blank ''a''" "\<not> blank ''b''" by code_simp+
  then have fields: "site_fields_required ''a'' ''b'' = Inr ()"
    by (simp add: site_fields_required_def reject_def)
  have "is_ok (fst (update_site_handler sample_config ?clk {SitesUpdate} 1 ?p ?a))"
    by (simp add: update_site_handler_def svc_bind_def demand_def require_permission_def fields db_call_def on_db_def
        svc_map_err_def svc_stmt_def update_site_def Let_def sample_sys_db_value update_rows_def
        returning_rows_def fetch_optional_def resolve_open_incidents_for_site_def update_incidents_def
        try_update_rows_def empty_db_def)
  then obtain r a' where call: "update_site_handler sample_config ?clk {SitesUpdate} 1 ?p ?a = (Inr r, a')"
    by (cases "update_site_handler sample_config ?clk {SitesUpdate} 1 ?p ?a")
      (auto simp: is_ok_def split: sum.splits)
  obtain ms d where claim: "claim_site_monitors_due_for_check 9000000000 {} ''w1'' 10 90 (app_db a') = Inr (ms, d)"
    by (simp add: claim_site_monitors_due_for_check_def Let_def)
  have inactive: "\<not> site_active 1 (app_db a')"
    by (rule deactivation_leaves_site_at_rest(1) [OF call]) simp
  have "db_sites d = db_sites (app_db a')"
    using claim by (auto simp: claim_Inr_iff Let_def)
  then have "stays_inactive 1 (app_db a', []) (d, map (Pair ''w1'') ms @ [])"
    using Go [OF Stay Claim [OF _ claim, of "[]"], of 1] inactive by (simp add: site_active_def)
  moreover have "reachable (app_db ?a, [])"
    using sample_sys_reachable by simp
  ultimately have "list_all (\<lambda>(w, m). sm_site_id m \<noteq> 1) (map (Pair ''w1'') ms @ []) \<and>
      list_all (\<lambda>m. sm_site_id m \<noteq> 1) (due_monitors 9000000000 {} 10 d)"
    using deactivated_site_stays_at_rest [OF _ _ call] by simp
  then have "list_all (\<lambda>m. sm_site_id m \<noteq> 1) ms" "list_all (\<lambda>m. sm_site_id m \<noteq> 1) (due_monitors 9000000000 {} 10 d)"
    by (simp_all add: list.pred_map comp_def)
  moreover have "due_monitors 9000000000 {} 10 sample_sys_db \<noteq> []"
    by (simp add: due_monitors_def limit_rows_def order_by_def claimable_def sample_sys_db_value
        monitor_defaults_def site_active_def check_is_due_def check_lease_free_def filter_empty_conv
        interval_micros_def)
  ultimately show ?thesis
    using call claim by blast
qed

text \<open>
  A check that was claimed before the deactivation and fails after it is saved all the same: the inactive site
  has an open incident again, which nothing closes while the site is inactive.
\<close>

definition claimed_site_db :: db where
  "claimed_site_db = run_stmt (claim_site_monitors_due_for_check 9000000000 {} ''w1'' 1 90) sample_db"

definition deactivated_site_db :: db where
  "deactivated_site_db =
     run_stmt (resolve_open_incidents_for_site 9000000001 1 SiteDeactivated)
       (run_stmt (update_site 9000000001 1 ''site'' ''https://a.test'' False) claimed_site_db)"

theorem running_check_reopens_deactivated_site:
  "let m = hd (db_monitors claimed_site_db);
       d = run_stmt (save_check_result (\<lambda>_. []) 9000000002 m ''w1'' sample_completed) deactivated_site_db
   in owns_claim 1 ''w1'' m \<and> 1 \<notin> open_sites deactivated_site_db \<and>
      \<not> site_active 1 d \<and> 1 \<in> open_sites d"
  by code_simp

end
