(* ===== verification/Site_Health.thy ===== *)
theory Site_Health
  imports Site_History
begin

text \<open>
  The state of a site is computed twice: in SQL for the list of sites, and from the monitors for the summary.
  They agree, but for the monitors the summary does not read.
\<close>

section \<open>Two ways to the state of a site\<close>

lemma health_state_of_rows:
  "site_current_state (if ms = [] then None else Some (health_of site ms)) =
     (if ms = [] then ''not_configured''
      else if filter sm_is_active ms = [] then ''disabled''
      else if list_ex (\<lambda>m. sm_last_is_success m = Some False) (filter sm_is_active ms) then ''failing''
      else if list_ex (\<lambda>m. sm_last_is_success m = Some True) (filter sm_is_active ms) then ''healthy''
      else ''pending_first_check'')"
proof -
  have "Some True = map_option (\<lambda>b. b = v) r \<longleftrightarrow> r = Some v" for v :: bool and r
    by (cases r) auto
  then have ex: "bool_or (map (\<lambda>m. map_option (\<lambda>b. b = v) (sm_last_is_success m)) xs) = Some True \<longleftrightarrow>
      list_ex (\<lambda>m. sm_last_is_success m = Some v) xs" for v xs
    unfolding bool_or_some_true by (induction xs) simp_all
  have act: "(\<exists>m \<in> set ms. sm_is_active m) \<longleftrightarrow> filter sm_is_active ms \<noteq> []"
    by (simp add: filter_empty_conv)
  show ?thesis
  proof (cases "ms = []")
    case True
    then show ?thesis by (simp add: site_current_state_def)
  next
    case False
    then show ?thesis
      by (simp only: site_current_state_def health_of_def Let_def option.case site_health_state.select_convs ex act
          if_False not_not)
  qed
qed

text \<open>The summary reads the HTTP, SSL and heartbeat monitors.\<close>

definition read_by_summary :: "site_monitor \<Rightarrow> bool" where
  "read_by_summary m \<longleftrightarrow> sm_monitor_type m \<noteq> Tcp \<and> sm_monitor_type m \<noteq> Dns"

lemma summary_state_of_rows:
  assumes "set xs = set ms"
  shows "(if xs = [] then ''not_configured''
      else if filter sm_is_active xs = [] then ''disabled''
      else if list_ex (\<lambda>m. sm_last_is_success m = Some False) (filter sm_is_active xs) then ''failing''
      else if list_ex (\<lambda>m. sm_last_is_success m = Some True) (filter sm_is_active xs) then ''healthy''
      else ''pending_first_check'') = site_current_state (if ms = [] then None else Some (health_of site ms))"
proof -
  have "xs = [] \<longleftrightarrow> ms = []" "filter sm_is_active xs = [] \<longleftrightarrow> filter sm_is_active ms = []"
    using assms by (metis set_empty, metis set_empty set_filter)
  moreover have "list_ex q (filter sm_is_active xs) \<longleftrightarrow> list_ex q (filter sm_is_active ms)" for q
    using assms by (simp add: list_ex_iff)
  ultimately show ?thesis
    by (simp only: health_state_of_rows)
qed

text \<open>
  For a site that exists, the summary shows the state that the list of sites would show if the site had no TCP
  and no DNS monitors; so a site that is watched over TCP or DNS alone is summarised as not configured.
\<close>

theorem summary_state_ignores_tcp_and_dns:
  "summary_current_state (list_http_monitors_by_site_id site d) (list_ssl_monitors_by_site_id site d)
     (list_heartbeat_monitors_by_site_id site d) =
   (if find_site site d = None then ''not_configured''
    else site_current_state (get_site_health_state_by_id site (d\<lparr>db_monitors := filter read_by_summary (db_monitors d)\<rparr>)))"
proof (cases "find_site site d = None")
  case True
  then show ?thesis
    by (simp add: summary_current_state_def list_http_monitors_by_site_id_def list_ssl_monitors_by_site_id_def
        list_heartbeat_monitors_by_site_id_def list_monitors_of_type_def)
next
  case False
  let ?xs = "list_http_monitors_by_site_id site d @ list_ssl_monitors_by_site_id site d @
    list_heartbeat_monitors_by_site_id site d"
  let ?ms = "filter (\<lambda>m. sm_site_id m = site) (filter read_by_summary (db_monitors d))"
  have "sm_monitor_type m \<in> {Http, Ssl, Heartbeat} \<longleftrightarrow> read_by_summary m" for m
    by (cases "sm_monitor_type m") (simp_all add: read_by_summary_def)
  then have "set ?xs = set ?ms"
    using False by (auto simp: list_http_monitors_by_site_id_def list_ssl_monitors_by_site_id_def
        list_heartbeat_monitors_by_site_id_def list_monitors_of_type_def monitor_of_type_def)
  then show ?thesis
    using False summary_state_of_rows [of ?xs ?ms site]
    by (simp only: summary_current_state_def Let_def get_site_health_state_by_id_def if_False) simp
qed

end
