(* ===== verification/Public_Routes.thy ===== *)
theory Public_Routes
  imports Site_History Status_Page_Repository
begin

text \<open>
  The public status page (\<^verbatim>\<open>src/api/routes/public.rs\<close>): what anyone who knows the slug of an enabled page is
  shown of a site, rate-limited by address and cached. Serialisation to JSON is serde's, an argument.
\<close>

section \<open>The page\<close>

record public_uptime_day_bucket =
  pdb_date :: int
  pdb_total :: int
  pdb_success :: int

record public_monitor_status =
  pms_label :: string
  pms_monitor_type :: string
  pms_status :: string
  pms_response_time_ms :: "int option"
  pms_last_checked_at :: "string option"
  pms_uptime_7d :: "rat option"
  pms_uptime_30d :: "rat option"
  pms_uptime_history :: "public_uptime_day_bucket list"

record public_open_incident =
  poi_opened_at :: string
  poi_monitor_label :: string
  poi_monitor_type :: string

record public_resolved_incident =
  pri_opened_at :: string
  pri_resolved_at :: string
  pri_monitor_label :: string
  pri_monitor_type :: string
  pri_downtime_seconds :: "int option"
  pri_failure_reason :: "string option"

record public_status_page_response =
  psr_slug :: string
  psr_page_title :: string
  psr_overall_status :: string
  psr_show_monitor_details :: bool
  psr_show_uptime_percentages :: bool
  psr_monitors :: "public_monitor_status list"
  psr_uptime_7d :: "rat option"
  psr_uptime_30d :: "rat option"
  psr_open_incidents :: "public_open_incident list"
  psr_incident_history :: "public_resolved_incident list"
  psr_last_updated :: string

section \<open>Labels and states\<close>

definition monitor_label :: "site_monitor \<Rightarrow> string \<times> string" where
  "monitor_label m =
     (case sm_monitor_type m of
        Tcp \<Rightarrow> (''TCP '' @ unwrap_or (sm_tcp_target_host m) ''?'' @ '':'' @ show_int (unwrap_or (sm_tcp_target_port m) 0), ''tcp'')
      | Dns \<Rightarrow> (''DNS '' @ unwrap_or (sm_dns_record_type m) ''?'' @ '' '' @ unwrap_or (sm_dns_hostname m) ''?'', ''dns'')
      | _ \<Rightarrow> (sm_target_url m, monitor_type_as_str (sm_monitor_type m)))"

definition incident_label :: "site_monitor_incident \<Rightarrow> string \<times> string" where
  "incident_label i =
     (case inc_monitor_type i of
        Tcp \<Rightarrow> ''TCP '' @ inc_target_url i
      | Dns \<Rightarrow> ''DNS '' @ inc_target_url i
      | _ \<Rightarrow> inc_target_url i,
      monitor_type_as_str (inc_monitor_type i))"

definition monitor_status :: "site_monitor \<Rightarrow> string" where
  "monitor_status m =
     (if \<not> sm_is_active m then ''paused''
      else
        (case sm_last_is_success m of
           None \<Rightarrow> ''pending''
         | Some False \<Rightarrow> ''down''
         | Some True \<Rightarrow>
             (case (sm_last_response_time_ms m, sm_max_response_time_ms m) of
                (Some actual, Some threshold) \<Rightarrow> if threshold < actual then ''degraded'' else ''up''
              | _ \<Rightarrow> ''up'')))"

definition derive_overall_status :: "site_monitor list \<Rightarrow> string" where
  "derive_overall_status active_monitors =
     (if active_monitors = [] then ''unknown''
      else if list_ex (\<lambda>m. sm_last_is_success m = Some False) active_monitors then ''outage''
      else if list_ex (\<lambda>m. monitor_status m = ''degraded'') active_monitors then ''degraded''
      else if list_all (\<lambda>m. sm_last_is_success m = Some True) active_monitors then ''operational''
      else ''unknown'')"

section \<open>Building the page\<close>

definition all_monitors_of_site :: "id \<Rightarrow> db \<Rightarrow> site_monitor list" where
  "all_monitors_of_site site_id d =
     list_http_monitors_by_site_id site_id d @ list_ssl_monitors_by_site_id site_id d @
     list_heartbeat_monitors_by_site_id site_id d @ list_tcp_monitors_by_site_id site_id d @
     list_dns_monitors_by_site_id site_id d"

definition public_incidents :: "id \<Rightarrow> incident_status \<Rightarrow> db \<Rightarrow> site_monitor_incident list" where
  "public_incidents site_id status =
     list_incidents_by_site_id site_id
       \<lparr>icq_cursor_opened_at = None, icq_cursor_id = None, icq_status = Some status, icq_limit = 10\<rparr>"

text \<open>The uptime of the active monitors is read only if the page shows it; a paused monitor has none.\<close>

definition public_monitor ::
    "('s, 'p) app_config \<Rightarrow> request_clock \<Rightarrow> id list \<Rightarrow> db \<Rightarrow> site_monitor \<Rightarrow> public_monitor_status" where
  "public_monitor cfg clk measured d m =
     (let u = (if sm_id m \<in> set measured then Some (get_monitor_uptime_stats (ck_now clk) (sm_id m) d) else None);
          history = (if sm_id m \<in> set measured then get_monitor_daily_uptime_stats (ck_now clk) (sm_id m) 90 d else [])
      in case monitor_label m of (label, monitor_type) \<Rightarrow>
        \<lparr>pms_label = label,
         pms_monitor_type = monitor_type,
         pms_status = monitor_status m,
         pms_response_time_ms = sm_last_response_time_ms m,
         pms_last_checked_at = map_option (cfg_rfc3339 cfg) (sm_last_checked_at m),
         pms_uptime_7d = Option.bind u (\<lambda>u. uptime_percent (success_7d u) (total_7d u)),
         pms_uptime_30d = Option.bind u (\<lambda>u. uptime_percent (success_30d u) (total_30d u)),
         pms_uptime_history = map (\<lambda>(day, checked, successful).
           \<lparr>pdb_date = day, pdb_total = checked, pdb_success = successful\<rparr>) history\<rparr>)"

definition public_open :: "('s, 'p) app_config \<Rightarrow> site_monitor_incident \<Rightarrow> public_open_incident" where
  "public_open cfg i =
     \<lparr>poi_opened_at = cfg_rfc3339 cfg (inc_opened_at i), poi_monitor_label = fst (incident_label i),
      poi_monitor_type = snd (incident_label i)\<rparr>"

definition public_resolved :: "('s, 'p) app_config \<Rightarrow> site_monitor_incident \<Rightarrow> public_resolved_incident option" where
  "public_resolved cfg i =
     map_option (\<lambda>resolved_at.
       \<lparr>pri_opened_at = cfg_rfc3339 cfg (inc_opened_at i), pri_resolved_at = cfg_rfc3339 cfg resolved_at,
        pri_monitor_label = fst (incident_label i), pri_monitor_type = snd (incident_label i),
        pri_downtime_seconds = inc_downtime_seconds i, pri_failure_reason = inc_opened_failure_reason i\<rparr>)
     (inc_resolved_at i)"

definition site_uptime :: "request_clock \<Rightarrow> id \<Rightarrow> int \<Rightarrow> db \<Rightarrow> rat option" where
  "site_uptime clk site_id days d =
     (case get_site_uptime_stats site_id (add_days (ck_utc clk) (- days)) d of
        (checked, successful) \<Rightarrow> uptime_percent successful checked)"

definition public_page ::
    "('s, 'p) app_config \<Rightarrow> request_clock \<Rightarrow> site_status_page \<Rightarrow> site \<Rightarrow> db \<Rightarrow> public_status_page_response" where
  "public_page cfg clk p s d =
     (let all_monitors = all_monitors_of_site (s_id s) d;
          all_active = filter sm_is_active all_monitors;
          measured = (if ssp_show_uptime_percentages p then map sm_id all_active else [])
      in \<lparr>psr_slug = ssp_slug p,
          psr_page_title = unwrap_or (ssp_page_title p) (s_name s),
          psr_overall_status = derive_overall_status all_active,
          psr_show_monitor_details = ssp_show_monitor_details p,
          psr_show_uptime_percentages = ssp_show_uptime_percentages p,
          psr_monitors = (if ssp_show_monitor_details p then map (public_monitor cfg clk measured d) all_monitors else []),
          psr_uptime_7d = (if measured = [] then None else site_uptime clk (s_id s) 7 d),
          psr_uptime_30d = (if measured = [] then None else site_uptime clk (s_id s) 30 d),
          psr_open_incidents = map (public_open cfg) (public_incidents (s_id s) StatusOpen d),
          psr_incident_history = List.map_filter (public_resolved cfg) (public_incidents (s_id s) StatusResolved d),
          psr_last_updated = cfg_rfc3339 cfg (ck_utc clk)\<rparr>)"

section \<open>The handler\<close>

definition enforce_public_rate_limit :: "string \<Rightarrow> nat \<Rightarrow> ('s, 'p, unit) handler" where
  "enforce_public_rate_limit ip_address now a =
     (case check_rate_limit (app_public_limiter a) ''status_page'' ip_address now of
        (True, l) \<Rightarrow> (Inr (), a\<lparr>app_public_limiter := l\<rparr>)
      | (False, l) \<Rightarrow> (Inl (TooManyRequests ''too many requests''), a\<lparr>app_public_limiter := l\<rparr>))"

definition on_pages :: "('p \<Rightarrow> 'a \<times> 'p) \<Rightarrow> ('s, 'p, 'a) handler" where
  "on_pages f a = (case f (app_pages a) of (x, p) \<Rightarrow> (Inr x, a\<lparr>app_pages := p\<rparr>))"

definition get_public_status_page ::
    "('s, 'p) app_config \<Rightarrow> (public_status_page_response \<Rightarrow> string option) \<Rightarrow> request_clock \<Rightarrow> request_context \<Rightarrow> string \<Rightarrow>
      ('s, 'p, string) handler" where
  "get_public_status_page cfg to_json clk ctx slug =
     svc_bind (enforce_public_rate_limit (rc_ip_address ctx) (ck_instant clk)) (\<lambda>_.
     svc_bind (on_pages (status_page_cache_get (cfg_page_lru cfg) (cfg_page_ttl cfg) slug (ck_instant clk))) (\<lambda>cached.
     case cached of
       Some bytes \<Rightarrow> svc_return bytes
     | None \<Rightarrow>
         svc_bind (db_query (get_status_page_by_slug slug)) (\<lambda>found.
         svc_bind (svc_result (ok_or (NotFound ''status page not found'') (option_filter ssp_is_enabled found))) (\<lambda>p.
         svc_bind (db_query (get_site_by_id (ssp_site_id p))) (\<lambda>s.
         svc_bind (svc_result (ok_or (NotFound ''status page not found'') s)) (\<lambda>s.
         svc_bind (db_query (public_page cfg clk p s)) (\<lambda>page.
         svc_bind (svc_result (ok_or (internal_server_error (Message ''serialize'')) (to_json page))) (\<lambda>bytes.
         svc_bind (on_pages (\<lambda>c. ((), status_page_cache_set (cfg_page_lru cfg) slug bytes (ck_instant clk) c))) (\<lambda>_.
         svc_return bytes)))))))))"

end
