(* ===== verification/Public_Page.thy ===== *)
theory Public_Page
  imports Public_Routes Monitor_Config
begin

text \<open>
  What the public status page promises and what it gives away: its headline is a function of the states of
  its monitors, it is served only for an enabled page, or for one a recent request saw, and changes no table, and
  the label of a heartbeat monitor is the path that pings it.
\<close>

section \<open>The headline\<close>

text \<open>The headline a reader would derive from the states of all monitors, paused ones aside.\<close>

definition headline :: "string list \<Rightarrow> string" where
  "headline states =
     (let running = filter (\<lambda>s. s \<noteq> ''paused'') states
      in if ''down'' \<in> set running then ''outage''
         else if ''degraded'' \<in> set running then ''degraded''
         else if running \<noteq> [] \<and> list_all (\<lambda>s. s = ''up'') running then ''operational''
         else ''unknown'')"

lemma monitor_status_active:
  assumes "sm_is_active m"
  shows "monitor_status m \<noteq> ''paused''" "monitor_status m = ''down'' \<longleftrightarrow> sm_last_is_success m = Some False"
    "monitor_status m \<in> {''up'', ''degraded''} \<longleftrightarrow> sm_last_is_success m = Some True"
  using assms by (auto simp: monitor_status_def split: option.splits bool.splits if_splits)

lemma monitor_status_paused: "monitor_status m = ''paused'' \<longleftrightarrow> \<not> sm_is_active m"
  using monitor_status_active(1) by (auto simp: monitor_status_def)

lemma derive_overall_status_headline:
  "derive_overall_status (filter sm_is_active ms) = headline (map monitor_status ms)"
proof -
  let ?act = "filter sm_is_active ms"
  have running: "filter (\<lambda>s. s \<noteq> ''paused'') (map monitor_status ms) = map monitor_status ?act"
    by (simp add: filter_map o_def monitor_status_paused)
  have down: "''down'' \<in> set (map monitor_status ?act) \<longleftrightarrow> list_ex (\<lambda>m. sm_last_is_success m = Some False) ?act"
    by (auto simp: list_ex_iff image_iff monitor_status_active(2) eq_commute [of "''down''"])
  have degraded: "''degraded'' \<in> set (map monitor_status ?act) \<longleftrightarrow> list_ex (\<lambda>m. monitor_status m = ''degraded'') ?act"
    by (auto simp: list_ex_iff image_iff eq_commute [of "''degraded''"])
  have up: "list_all (\<lambda>s. s = ''up'') (map monitor_status ?act) \<longleftrightarrow> list_all (\<lambda>m. sm_last_is_success m = Some True) ?act"
    if "\<not> list_ex (\<lambda>m. monitor_status m = ''degraded'') ?act"
  proof -
    have "monitor_status m = ''up'' \<longleftrightarrow> sm_last_is_success m = Some True" if "m \<in> set ?act" for m
      using monitor_status_active(3) [of m] that \<open>\<not> list_ex _ ?act\<close> by (auto simp: list_ex_iff)
    then show ?thesis by (simp add: list_all_iff)
  qed
  show ?thesis
  proof (cases "list_ex (\<lambda>m. monitor_status m = ''degraded'') ?act")
    case True
    then have "?act \<noteq> []" by (cases ?act) simp_all
    then show ?thesis
      by (simp only: headline_def running Let_def down degraded derive_overall_status_def True if_True if_False)
  next
    case False
    have "\<not> list_ex q ?act" if "?act = []" for q
      unfolding that by simp
    then show ?thesis
      unfolding headline_def running Let_def down degraded derive_overall_status_def up [OF False] if_not_P [OF False]
      by (cases "?act = []") (simp_all only: if_True if_False list.map map_is_Nil_conv simp_thms)
  qed
qed

text \<open>
  C35: The overall status of a public page is the headline of the states of all the site's monitors, and the
  states it lists, if it lists monitors at all, are those same states in the same order.
\<close>

theorem headline_follows_monitors:
  "psr_overall_status (public_page cfg clk p s d) = headline (map monitor_status (all_monitors_of_site (s_id s) d)) \<and>
   map pms_status (psr_monitors (public_page cfg clk p s d)) =
     (if ssp_show_monitor_details p then map monitor_status (all_monitors_of_site (s_id s) d) else [])"
  by (simp add: public_page_def Let_def derive_overall_status_headline public_monitor_def o_def split: prod.split)

section \<open>What is served\<close>

definition enabled_page :: "string \<Rightarrow> db \<Rightarrow> (site_status_page \<times> site) option" where
  "enabled_page slug d =
     Option.bind (option_filter ssp_is_enabled (get_status_page_by_slug slug d))
       (\<lambda>p. map_option (Pair p) (get_site_by_id (ssp_site_id p) d))"

text \<open>
  A history of requests for public pages: each with its slug, its clocks and the tables it ran on. Between two
  requests anything may happen to the rest of the API, tables included; only these requests touch the cache of pages,
  which is empty at first.
\<close>

record page_request =
  pr_slug :: string
  pr_clock :: request_clock
  pr_db :: db

definition page_request_of :: "string \<Rightarrow> request_clock \<Rightarrow> ('s, 'p) app_state \<Rightarrow> page_request" where
  "page_request_of slug clk a = \<lparr>pr_slug = slug, pr_clock = clk, pr_db = app_db a\<rparr>"

inductive page_reach ::
    "('s, 'p) app_config \<Rightarrow> (public_status_page_response \<Rightarrow> string option) \<Rightarrow> ('s, 'p) app_state \<Rightarrow> page_request list \<Rightarrow> bool"
  for cfg to_json where
  start: "app_pages a = lru_new (cfg_page_lru cfg) n \<Longrightarrow> page_reach cfg to_json a []"
| request: "page_reach cfg to_json a h \<Longrightarrow> get_public_status_page cfg to_json clk ctx slug a = (r, a') \<Longrightarrow>
    page_reach cfg to_json a' (page_request_of slug clk a # h)"
| elsewhere: "page_reach cfg to_json a h \<Longrightarrow> app_pages a' = app_pages a \<Longrightarrow> page_reach cfg to_json a' h"

text \<open>The tables of the request had an enabled page of that slug, and these bytes are its rendering then.\<close>

definition rendered_by ::
    "('s, 'p) app_config \<Rightarrow> (public_status_page_response \<Rightarrow> string option) \<Rightarrow> string \<Rightarrow> string \<Rightarrow> page_request \<Rightarrow> bool" where
  "rendered_by cfg to_json slug bytes q \<longleftrightarrow> pr_slug q = slug \<and>
     (case enabled_page slug (pr_db q) of
        None \<Rightarrow> False
      | Some (p, s) \<Rightarrow> to_json (public_page cfg (pr_clock q) p s (pr_db q)) = Some bytes)"

definition pages_backed ::
    "('s, 'p) app_config \<Rightarrow> (public_status_page_response \<Rightarrow> string option) \<Rightarrow> 'p \<Rightarrow> page_request list \<Rightarrow> bool" where
  "pages_backed cfg to_json pages h \<longleftrightarrow>
     (\<forall>slug e. lru_peek (cfg_page_lru cfg) slug pages = Some e \<longrightarrow>
        (\<exists>q\<in>set h. rendered_by cfg to_json slug (spc_bytes e) q \<and> ck_instant (pr_clock q) = spc_cached_at e))"

definition served_page ::
    "('s, 'p) app_config \<Rightarrow> (public_status_page_response \<Rightarrow> string option) \<Rightarrow> page_request \<Rightarrow> page_request list \<Rightarrow> string \<Rightarrow> bool" where
  "served_page cfg to_json q h bytes \<longleftrightarrow>
     rendered_by cfg to_json (pr_slug q) bytes q \<or>
     list_ex (\<lambda>q'. rendered_by cfg to_json (pr_slug q) bytes q' \<and>
       ck_instant (pr_clock q) - ck_instant (pr_clock q') < cfg_page_ttl cfg) h"

definition refused_page :: "page_request \<Rightarrow> api_error" where
  "refused_page q =
     (if enabled_page (pr_slug q) (pr_db q) = None then NotFound ''status page not found''
      else InternalError ''internal server error'')"

lemma cached_page:
  assumes "lru_map_laws (cfg_page_lru cfg)" "pages_backed cfg to_json pages h"
    and "status_page_cache_get (cfg_page_lru cfg) (cfg_page_ttl cfg) slug now pages = (cached, pages')"
  shows "pages_backed cfg to_json pages' h"
    and "cached = Some bytes \<Longrightarrow>
      list_ex (\<lambda>q. rendered_by cfg to_json slug bytes q \<and> now - ck_instant (pr_clock q) < cfg_page_ttl cfg) h"
proof -
  obtain e where e: "lru_get (cfg_page_lru cfg) slug pages = (e, pages')"
    using assms(3) by (auto simp: status_page_cache_get_def split: prod.splits option.splits)
  have peek: "e = lru_peek (cfg_page_lru cfg) slug pages"
    using lru_law_simps(2) [OF assms(1), of slug pages] e by simp
  have same: "lru_peek (cfg_page_lru cfg) k pages' = lru_peek (cfg_page_lru cfg) k pages" for k
    using lru_law_simps(3) [OF assms(1), of k slug pages] e by simp
  then show "pages_backed cfg to_json pages' h"
    using assms(2) by (simp add: pages_backed_def)
  assume "cached = Some bytes"
  then obtain entry where entry: "e = Some entry" "now - spc_cached_at entry < cfg_page_ttl cfg" "spc_bytes entry = bytes"
    using assms(3) e by (auto simp: status_page_cache_get_def split: option.splits if_splits)
  then obtain q where "q \<in> set h" "rendered_by cfg to_json slug bytes q" "ck_instant (pr_clock q) = spc_cached_at entry"
    using assms(2) peek unfolding pages_backed_def by metis
  then show "list_ex (\<lambda>q. rendered_by cfg to_json slug bytes q \<and> now - ck_instant (pr_clock q) < cfg_page_ttl cfg) h"
    using entry(2) by (auto simp: list_ex_iff)
qed

lemma pages_backed_more: "pages_backed cfg to_json pages h \<Longrightarrow> pages_backed cfg to_json pages (q # h)"
  unfolding pages_backed_def by (meson list.set_intros(2))

lemma stored_page:
  assumes "lru_map_laws (cfg_page_lru cfg)" "pages_backed cfg to_json pages h" "rendered_by cfg to_json slug bytes q"
  shows "pages_backed cfg to_json (status_page_cache_set (cfg_page_lru cfg) slug bytes (ck_instant (pr_clock q)) pages) (q # h)"
  unfolding pages_backed_def status_page_cache_set_def
proof (intro allI impI)
  fix k e assume e: "lru_peek (cfg_page_lru cfg) k
    (lru_put (cfg_page_lru cfg) slug \<lparr>spc_bytes = bytes, spc_cached_at = ck_instant (pr_clock q)\<rparr> pages) = Some e"
  show "\<exists>q'\<in>set (q # h). rendered_by cfg to_json k (spc_bytes e) q' \<and> ck_instant (pr_clock q') = spc_cached_at e"
  proof (cases "k = slug")
    case True
    then show ?thesis using e assms(3) by (auto simp: lru_law_simps(4) [OF assms(1)])
  next
    case False
    from lru_put_other [OF assms(1) e False] show ?thesis
      using assms(2) unfolding pages_backed_def by (meson list.set_intros(2))
  qed
qed

lemma page_request_step:
  assumes "lru_map_laws (cfg_page_lru cfg)" "pages_backed cfg to_json (app_pages a) h"
    and "get_public_status_page cfg to_json clk ctx slug a = (r, a')"
  shows "pages_backed cfg to_json (app_pages a') (page_request_of slug clk a # h) \<and>
    app_db a' = app_db a \<and> app_auth a' = app_auth a \<and> app_tokens a' = app_tokens a \<and>
    (if \<not> fst (check_rate_limit (app_public_limiter a) ''status_page'' (rc_ip_address ctx) (ck_instant clk))
     then r = Inl (TooManyRequests ''too many requests'')
     else case r of
       Inr bytes \<Rightarrow> served_page cfg to_json (page_request_of slug clk a) h bytes
     | Inl e \<Rightarrow> e = refused_page (page_request_of slug clk a) \<and>
         (\<forall>bytes. \<not> rendered_by cfg to_json slug bytes (page_request_of slug clk a)))"
proof -
  let ?q = "page_request_of slug clk a"
  have q: "pr_slug ?q = slug" "pr_clock ?q = clk" "pr_db ?q = app_db a"
    by (simp_all add: page_request_of_def)
  obtain ok l where l: "check_rate_limit (app_public_limiter a) ''status_page'' (rc_ip_address ctx) (ck_instant clk) = (ok, l)"
    by fastforce
  obtain cached c where c:
    "status_page_cache_get (cfg_page_lru cfg) (cfg_page_ttl cfg) slug (ck_instant clk) (app_pages a) = (cached, c)"
    by fastforce
  note step = get_public_status_page_def enforce_public_rate_limit_def on_pages_def svc_bind_def ok_or_def
    internal_server_error_def
  note kept = pages_backed_more [OF assms(2)] pages_backed_more [OF cached_page(1) [OF assms(1,2) c]]
  show ?thesis
  proof (cases "\<not> ok")
    case True
    then have "r = Inl (TooManyRequests ''too many requests'')" "a' = a\<lparr>app_public_limiter := l\<rparr>"
      using assms(3) by (simp_all add: step l)
    then show ?thesis using kept True l by simp
  next
    case ok: False
    show ?thesis
    proof (cases cached)
      case (Some bytes)
      then have "r = Inr bytes" "a' = a\<lparr>app_public_limiter := l, app_pages := c\<rparr>"
        using assms(3) ok by (simp_all add: step l c)
      moreover have "served_page cfg to_json ?q h bytes"
        using cached_page(2) [OF assms(1,2) c Some] by (simp add: served_page_def q)
      ultimately show ?thesis using kept ok l by simp
    next
      case missed: None
      let ?a = "a\<lparr>app_public_limiter := l, app_pages := c\<rparr>"
      show ?thesis
      proof (cases "enabled_page slug (app_db a)")
        case None
        then have "r = Inl (NotFound ''status page not found'')" "a' = ?a"
          using assms(3) ok
          by (cases "option_filter ssp_is_enabled (get_status_page_by_slug slug (app_db a))",
              auto simp: step l c missed enabled_page_def split: option.splits)
        then show ?thesis using kept ok l None by (simp add: refused_page_def rendered_by_def q)
      next
        case (Some ps)
        then obtain p s where ps: "enabled_page slug (app_db a) = Some (p, s)"
            "option_filter ssp_is_enabled (get_status_page_by_slug slug (app_db a)) = Some p"
            "get_site_by_id (ssp_site_id p) (app_db a) = Some s"
          by (cases "option_filter ssp_is_enabled (get_status_page_by_slug slug (app_db a))") (auto simp: enabled_page_def)
        show ?thesis
        proof (cases "to_json (public_page cfg clk p s (app_db a))")
          case None
          then have "r = Inl (InternalError ''internal server error'')" "a' = ?a"
            using assms(3) ok by (simp_all add: step l c missed ps)
          then show ?thesis using kept ok l None ps by (simp add: refused_page_def rendered_by_def q)
        next
          case (Some bytes)
          have "r = Inr bytes" "a' = ?a\<lparr>app_pages := status_page_cache_set (cfg_page_lru cfg) slug bytes (ck_instant clk) c\<rparr>"
            using assms(3) ok by (simp_all add: step l c missed ps Some)
          moreover have rendered: "rendered_by cfg to_json slug bytes ?q"
            using ps Some by (simp add: rendered_by_def q)
          moreover have "pages_backed cfg to_json (status_page_cache_set (cfg_page_lru cfg) slug bytes (ck_instant clk) c) (?q # h)"
            using stored_page [OF assms(1) cached_page(1) [OF assms(1,2) c] rendered] by (simp add: q)
          ultimately show ?thesis using ok l by (simp add: served_page_def q)
        qed
      qed
    qed
  qed
qed

lemma page_reach_backed:
  assumes "lru_map_laws (cfg_page_lru cfg)" "page_reach cfg to_json a h"
  shows "pages_backed cfg to_json (app_pages a) h"
  using assms(2)
proof (induction rule: page_reach.induct)
  case (start a n)
  then show ?case by (simp add: pages_backed_def lru_law_simps(1) [OF assms(1)])
next
  case (request a h clk ctx slug r a')
  then show ?case using page_request_step [OF assms(1)] by blast
qed simp

text \<open>
  C34: A public page is served only while it is enabled, or for the time to live of the cache after that. Whatever a
  request within the rate limit is answered is the rendering of an enabled page of an existing site with the slug
  asked for, either from the tables as they are or as an earlier request for that slug saw them less than the time
  to live ago. It is refused only if there is nothing to render now: not found without an enabled page. No request
  changes a table or a token.
\<close>

theorem public_page_is_served_only_when_enabled:
  assumes "lru_map_laws (cfg_page_lru cfg)" "page_reach cfg to_json a h"
  shows "case get_public_status_page cfg to_json clk ctx slug a of
    (r, a') \<Rightarrow>
      app_db a' = app_db a \<and> app_auth a' = app_auth a \<and> app_tokens a' = app_tokens a \<and>
      (if \<not> fst (check_rate_limit (app_public_limiter a) ''status_page'' (rc_ip_address ctx) (ck_instant clk))
       then r = Inl (TooManyRequests ''too many requests'')
       else case r of
         Inr bytes \<Rightarrow> served_page cfg to_json (page_request_of slug clk a) h bytes
       | Inl e \<Rightarrow> e = refused_page (page_request_of slug clk a) \<and>
           (\<forall>bytes. \<not> rendered_by cfg to_json slug bytes (page_request_of slug clk a)))"
proof (cases "get_public_status_page cfg to_json clk ctx slug a")
  case (Pair r a')
  show ?thesis
    unfolding Pair prod.case using page_request_step [OF assms(1) page_reach_backed [OF assms] Pair] by blast
qed

definition heartbeat_page_db :: db where
  "heartbeat_page_db = sample_db\<lparr>db_monitors :=
     [(monitor_defaults 1 1 1 Heartbeat ''/v1/heartbeat/t'')\<lparr>sm_check_interval_seconds := 60, sm_heartbeat_token := Some ''t''\<rparr>]\<rparr>"

definition heartbeat_page :: site_status_page where
  "heartbeat_page = \<lparr>ssp_id = 1, ssp_site_id = 1, ssp_is_enabled = True, ssp_slug = ''acme'', ssp_page_title = None,
     ssp_show_monitor_details = True, ssp_show_uptime_percentages = False, ssp_created_at = 1, ssp_updated_at = 1\<rparr>"

text \<open>A page that was asked for at instant 9 and disabled afterwards is still served at instant 20.\<close>

definition page_app where
  "page_app enabled pages =
     sample_app\<lparr>app_db := heartbeat_page_db\<lparr>db_status_pages := [heartbeat_page\<lparr>ssp_is_enabled := enabled\<rparr>]\<rparr>, app_pages := pages\<rparr>"

theorem public_page_is_served_only_when_enabled_witness:
  "enabled_page ''acme'' (app_db (page_app False (2, [(''acme'', \<lparr>spc_bytes = ''page'', spc_cached_at = 9\<rparr>)]))) = None \<and>
   fst (get_public_status_page sample_config (\<lambda>_. Some ''page'') \<lparr>ck_now = 20, ck_utc = 20, ck_instant = 20\<rparr>
     \<lparr>rc_ip_address = ''1'', rc_user_agent = None\<rparr> ''acme''
     (page_app False (2, [(''acme'', \<lparr>spc_bytes = ''page'', spc_cached_at = 9\<rparr>)]))) = Inr ''page'' \<and>
   served_page sample_config (\<lambda>_. Some ''page'')
     (page_request_of ''acme'' \<lparr>ck_now = 20, ck_utc = 20, ck_instant = 20\<rparr>
       (page_app False (2, [(''acme'', \<lparr>spc_bytes = ''page'', spc_cached_at = 9\<rparr>)])))
     [page_request_of ''acme'' \<lparr>ck_now = 9, ck_utc = 9, ck_instant = 9\<rparr> (page_app True (2, []))] ''page''"
proof -
  let ?clk = "\<lparr>ck_now = 9, ck_utc = 9, ck_instant = 9\<rparr>" and ?clk' = "\<lparr>ck_now = 20, ck_utc = 20, ck_instant = 20\<rparr>"
  let ?ctx = "\<lparr>rc_ip_address = ''1'', rc_user_agent = None\<rparr>" and ?json = "\<lambda>_. Some ''page''"
  let ?a = "page_app True (2, [])" and ?b = "page_app False (2, [(''acme'', \<lparr>spc_bytes = ''page'', spc_cached_at = 9\<rparr>)])"
  let ?h = "[page_request_of ''acme'' ?clk ?a]"
  note app = page_app_def sample_app_def heartbeat_page_db_def heartbeat_page_def sample_db_def empty_db_def sample_site_def
  note run = get_public_status_page_def enforce_public_rate_limit_def on_pages_def svc_bind_def ok_or_def
  have laws: "lru_map_laws (cfg_page_lru sample_config)"
    by (simp add: sample_config_def lru_list_map_laws)
  have allowed: "\<exists>l. check_rate_limit (app_public_limiter (page_app e ps)) ''status_page'' ''1'' n = (True, l)" for e ps n
    by (simp add: page_app_def sample_app_def check_rate_limit_def rate_limiter_new_def
        retain_open_windows_def Let_def unwrap_or_def)
  obtain l where l: "check_rate_limit (app_public_limiter ?a) ''status_page'' ''1'' 9 = (True, l)"
    using allowed by blast
  obtain l' where l': "check_rate_limit (app_public_limiter ?b) ''status_page'' ''1'' 20 = (True, l')"
    using allowed by blast
  have page: "option_filter ssp_is_enabled (get_status_page_by_slug ''acme'' (app_db ?a)) = Some heartbeat_page"
    "get_site_by_id (ssp_site_id heartbeat_page) (app_db ?a) = Some sample_site"
    by (simp_all add: app get_status_page_by_slug_def fetch_optional_def get_site_by_id_def find_site_def)
  have disabled: "enabled_page ''acme'' (app_db ?b) = None"
    by (simp add: app enabled_page_def get_status_page_by_slug_def fetch_optional_def)
  obtain r a' where first: "get_public_status_page sample_config ?json ?clk ?ctx ''acme'' ?a = (r, a')" by fastforce
  have start: "page_reach sample_config ?json ?a []"
    by (rule page_reach.start [of _ _ 2]) (simp add: page_app_def sample_config_def lru_list_lib_def)
  have pages: "app_pages a' = (2, [(''acme'', \<lparr>spc_bytes = ''page'', spc_cached_at = 9\<rparr>)])"
  proof -
    have "status_page_cache_get (cfg_page_lru sample_config) (cfg_page_ttl sample_config) ''acme'' 9 (app_pages ?a) = (None, (2, []))"
      by (simp add: status_page_cache_get_def sample_config_def lru_list_lib_def page_app_def bring_forward_def)
    moreover have "status_page_cache_set (cfg_page_lru sample_config) ''acme'' ''page'' 9 (2, []) =
        (2, [(''acme'', \<lparr>spc_bytes = ''page'', spc_cached_at = 9\<rparr>)])"
      by (simp add: status_page_cache_set_def sample_config_def lru_list_lib_def drop_key_def)
    ultimately show ?thesis
      using first by (auto simp: run l page)
  qed
  have "page_reach sample_config ?json ?b ?h"
    using page_reach.elsewhere [OF page_reach.request [OF start first], of ?b] pages by (simp add: page_app_def)
  note served = public_page_is_served_only_when_enabled [OF laws this, of ?ctx ?clk' "''acme''"]
  have answer: "fst (get_public_status_page sample_config ?json ?clk' ?ctx ''acme'' ?b) = Inr ''page''"
  proof -
    have "status_page_cache_get (cfg_page_lru sample_config) (cfg_page_ttl sample_config) ''acme'' 20 (app_pages ?b) =
        (Some ''page'', app_pages ?b)"
      by (simp add: status_page_cache_get_def sample_config_def lru_list_lib_def page_app_def bring_forward_def drop_key_def)
    then show ?thesis by (simp add: run l')
  qed
  show ?thesis
    using served answer disabled by (simp add: split_beta l')
qed

section \<open>What it gives away\<close>

lemma shown_monitor:
  assumes "ssp_show_monitor_details p" "find_site (s_id s) d \<noteq> None"
    "m \<in> set (db_monitors d)" "sm_monitor_type m = Heartbeat" "sm_site_id m = s_id s"
  shows "sm_target_url m \<in> set (map pms_label (psr_monitors (public_page cfg clk p s d)))"
proof -
  have "m \<in> set (all_monitors_of_site (s_id s) d)"
    using assms by (auto simp: all_monitors_of_site_def list_heartbeat_monitors_by_site_id_def list_monitors_of_type_def
        monitor_of_type_def)
  moreover have "pms_label (public_monitor cfg clk measured d m) = sm_target_url m" for measured
    using assms(4) by (simp add: public_monitor_def Let_def monitor_label_def)
  ultimately show ?thesis
    using assms(1) by (auto simp: public_page_def Let_def image_iff intro!: bexI [of _ m])
qed

lemma ping_with_token:
  assumes "m \<in> set (db_monitors (app_db a))" "sm_monitor_type m = Heartbeat" "sm_heartbeat_token m = Some token"
    "\<not> blank token"
  shows "fst (record_heartbeat_ping_handler clk token a) = Inr ()"
proof -
  have "filter (has_heartbeat_token token) (db_monitors (app_db a)) \<noteq> []"
    using assms(1-3) by (auto simp: filter_empty_conv has_heartbeat_token_def)
  then show ?thesis
    using assms(4)
    by (auto simp: record_heartbeat_ping_handler_def svc_bind_def db_call_def on_db_def svc_map_err_def svc_stmt_def
        record_heartbeat_ping_def fetch_one_of_def update_monitors_def stmt_bind_def stmt_return_def map_err_def
        fetch_optional_def returning_rows_def split: list.split)
qed

text \<open>
  C36: A status page that shows details publishes the secret of every heartbeat monitor of its site: the label of
  the monitor is the path with its token, and a ping with that token is accepted. Whoever can read the page can
  keep a dead heartbeat alive.
\<close>

theorem public_page_reveals_heartbeat_tokens:
  assumes "monitors_configured (app_db a)" "ssp_show_monitor_details p" "find_site (s_id s) (app_db a) \<noteq> None"
    and "m \<in> set (db_monitors (app_db a))" "sm_monitor_type m = Heartbeat" "sm_site_id m = s_id s"
    and "sm_heartbeat_token m = Some token" "\<not> blank token"
  shows "''/v1/heartbeat/'' @ token \<in> set (map pms_label (psr_monitors (public_page cfg clk p s (app_db a)))) \<and>
    fst (record_heartbeat_ping_handler clk token a) = Inr ()"
proof -
  have "monitor_configured m"
    using assms(1,4) by (simp add: monitors_configured_def list_all_iff)
  then have "sm_target_url m = ''/v1/heartbeat/'' @ token"
    using assms(5,7) by (simp add: monitor_configured_def heartbeat_configured_def heartbeat_ping_path_def)
  then show ?thesis
    using shown_monitor [OF assms(2,3,4,5,6)] ping_with_token [OF assms(4,5,7,8)] by simp
qed

theorem public_page_reveals_heartbeat_tokens_witness:
  "''/v1/heartbeat/t'' \<in> set (map pms_label (psr_monitors (public_page sample_config
     \<lparr>ck_now = 9, ck_utc = 9, ck_instant = 9\<rparr> heartbeat_page (hd (db_sites heartbeat_page_db)) heartbeat_page_db)))"
proof -
  let ?m = "hd (db_monitors heartbeat_page_db)" and ?a = "sample_app\<lparr>app_db := heartbeat_page_db\<rparr>"
  have "\<not> blank ''t''" by code_simp
  moreover have "monitors_configured (app_db ?a)"
    by (simp add: monitors_configured_def heartbeat_page_db_def monitor_configured_def monitor_defaults_def
        heartbeat_configured_def heartbeat_ping_path_def)
  moreover have "find_site (s_id (hd (db_sites heartbeat_page_db))) (app_db ?a) \<noteq> None"
    by (simp add: heartbeat_page_db_def sample_db_def find_site_def)
  ultimately show ?thesis
    using public_page_reveals_heartbeat_tokens [of ?a heartbeat_page "hd (db_sites heartbeat_page_db)" ?m "''t''"
        sample_config "\<lparr>ck_now = 9, ck_utc = 9, ck_instant = 9\<rparr>"]
    by (simp add: heartbeat_page_def heartbeat_page_db_def monitor_defaults_def sample_db_def sample_site_def)
qed

end
