(* ===== verification/Metrics.thy ===== *)
theory Metrics
  imports Complex_Main Handlers Monitor_Repository Delivery_Repository
begin

text \<open>
  The metrics a scrape collects (\<^verbatim>\<open>src/api/routes/metrics.rs\<close>). The registry and the text encoder are the
  prometheus crate's: the model ends with the values and observations the handler hands to them. Every query may
  fail, which leaves its metric without a value. Seconds in \<^verbatim>\<open>f64\<close> are exact rationals.
\<close>

section \<open>Metrics\<close>

datatype metric =
    IntGauge string int
  | Gauge string rat
  | IntGaugeVec string "string list" "(string list \<times> int) list"
  | HistogramVec string "rat list" "string list" "(string list \<times> rat) list"

fun metric_name :: "metric \<Rightarrow> string" where
  "metric_name (IntGauge n _) = n"
| "metric_name (Gauge n _) = n"
| "metric_name (IntGaugeVec n _ _) = n"
| "metric_name (HistogramVec n _ _ _) = n"

text \<open>What the process and its libraries report of themselves, and which queries the database fails.\<close>

record metrics_env =
  mt_db_max_connections :: nat
  mt_pool_size :: nat
  mt_pool_idle :: nat
  mt_proc_status :: "string option"
  mt_alive_tasks :: nat
  mt_workers :: nat
  mt_elapsed_seconds :: rat
  mt_query_fails :: "string \<Rightarrow> bool"
  mt_encode :: "metric list \<Rightarrow> string"

section \<open>Memory of the process\<close>

definition strip_suffix :: "string \<Rightarrow> string \<Rightarrow> string option" where
  "strip_suffix p s = map_option rev (strip_prefix (rev p) (rev s))"

text \<open>\<open>str::lines\<close> without the last empty piece; a carriage return would be trimmed with the rest.\<close>

definition lines :: "string \<Rightarrow> string list" where
  "lines s = (case rev (split_char (CHR 0x0A) s) of [] # ls \<Rightarrow> rev ls | ls \<Rightarrow> rev ls)"

definition kilobytes :: "string \<Rightarrow> int option" where
  "kilobytes rest = Option.bind (strip_suffix '' kB'' (trim rest)) (\<lambda>s. parse_i64 (trim s))"

fun scan_status :: "int option \<Rightarrow> int option \<Rightarrow> string list \<Rightarrow> int option \<times> int option" where
  "scan_status rss vm [] = (rss, vm)"
| "scan_status rss vm (line # ls) =
     (let (rss, vm) =
        (case strip_prefix ''VmRSS:'' line of
           Some rest \<Rightarrow> (kilobytes rest, vm)
         | None \<Rightarrow>
             (case strip_prefix ''VmSize:'' line of
                Some rest \<Rightarrow> (rss, kilobytes rest)
              | None \<Rightarrow> (rss, vm)))
      in if rss \<noteq> None \<and> vm \<noteq> None then (rss, vm) else scan_status rss vm ls)"

definition read_process_memory_bytes :: "string option \<Rightarrow> (int \<times> int) option" where
  "read_process_memory_bytes status =
     (case status of
        None \<Rightarrow> None
      | Some text \<Rightarrow>
          (case scan_status None None (lines text) of
             (Some rss_kb, Some vm_kb) \<Rightarrow> Some (as_i64 (rss_kb * 1024), as_i64 (vm_kb * 1024))
           | _ \<Rightarrow> None))"

section \<open>Aggregates\<close>

definition group_by :: "('r \<Rightarrow> 'k) \<Rightarrow> ('r list \<Rightarrow> 'v) \<Rightarrow> 'r list \<Rightarrow> ('k \<times> 'v) list" where
  "group_by key agg rows = map (\<lambda>k. (k, agg (filter (\<lambda>r. key r = k) rows))) (remdups (map key rows))"

definition count_by :: "('r \<Rightarrow> 'k) \<Rightarrow> 'r list \<Rightarrow> ('k \<times> int) list" where
  "count_by key = group_by key (\<lambda>rs. int (length rs))"

definition channel_type_text :: "notification_channel_type \<Rightarrow> string" where
  "channel_type_text t =
     (case t of Webhook \<Rightarrow> ''webhook'' | Email \<Rightarrow> ''email'' | Slack \<Rightarrow> ''slack'' | Discord \<Rightarrow> ''discord'')"

definition delivery_status_text :: "delivery_status \<Rightarrow> string" where
  "delivery_status_text s = (case s of Pending \<Rightarrow> ''pending'' | Delivered \<Rightarrow> ''delivered'' | Failed \<Rightarrow> ''failed'')"

definition worker_queue_depth :: "timestamp \<Rightarrow> db \<Rightarrow> int" where
  "worker_queue_depth now d =
     int (length (filter (\<lambda>m.
       sm_is_active m \<and> site_active (sm_site_id m) d \<and>
       (case sm_last_checked_at m of None \<Rightarrow> True | Some t \<Rightarrow> t \<le> now - interval_micros m) \<and>
       (case sm_check_lease_until m of None \<Rightarrow> True | Some l \<Rightarrow> l < now)) (db_monitors d)))"

definition worker_active_leases :: "timestamp \<Rightarrow> db \<Rightarrow> int" where
  "worker_active_leases now d =
     int (length (filter (\<lambda>m.
       sm_check_claimed_by m \<noteq> None \<and> (case sm_check_lease_until m of None \<Rightarrow> False | Some l \<Rightarrow> now < l)) (db_monitors d)))"

definition monitors_active :: "db \<Rightarrow> (string list \<times> int) list" where
  "monitors_active d = count_by (\<lambda>m. [monitor_type_as_str (sm_monitor_type m)]) (filter sm_is_active (db_monitors d))"

definition incidents_open :: "db \<Rightarrow> int" where
  "incidents_open d = int (length (filter (\<lambda>i. inc_resolved_at i = None) (db_incidents d)))"

definition checks_since :: "timestamp \<Rightarrow> int \<Rightarrow> db \<Rightarrow> site_monitor_check list" where
  "checks_since now seconds d = filter (\<lambda>c. add_seconds now (- seconds) < smc_checked_at c) (db_checks d)"

definition checks_recent :: "timestamp \<Rightarrow> db \<Rightarrow> (string list \<times> int) list" where
  "checks_recent now d =
     count_by (\<lambda>c. [if smc_is_success c then ''success'' else ''failure'']) (checks_since now 60 d)"

definition check_label :: "site_monitor_check \<Rightarrow> string list" where
  "check_label c = [monitor_type_as_str (smc_monitor_type c)]"

definition milliseconds :: "(site_monitor_check \<Rightarrow> int option) \<Rightarrow> timestamp \<Rightarrow> db \<Rightarrow> (string list \<times> rat) list" where
  "milliseconds column now d =
     List.map_filter (\<lambda>c. map_option (\<lambda>ms. (check_label c, of_int ms / 1000)) (column c)) (checks_since now 300 d)"

definition ssl_days_remaining :: "db \<Rightarrow> (string list \<times> rat) list" where
  "ssl_days_remaining d =
     List.map_filter (\<lambda>m. map_option (\<lambda>days. ([], of_int days)) (sm_last_certificate_days_remaining m))
       (filter (\<lambda>m. sm_monitor_type m = Ssl \<and> sm_is_active m) (db_monitors d))"

definition check_status_codes :: "timestamp \<Rightarrow> db \<Rightarrow> (string list \<times> int) list" where
  "check_status_codes now d =
     count_by (\<lambda>c. [monitor_type_as_str (smc_monitor_type c), show_int (unwrap_or (smc_status_code c) 0)])
       (filter (\<lambda>c. smc_status_code c \<noteq> None) (checks_since now 300 d))"

definition retried_checks :: "timestamp \<Rightarrow> db \<Rightarrow> (string list \<times> int \<times> int) list" where
  "retried_checks now d =
     group_by check_label (\<lambda>cs. (int (length cs), sum_list (map (\<lambda>c. smc_attempt_count c - 1) cs)))
       (filter smc_was_retried (checks_since now 300 d))"

definition check_timeouts :: "timestamp \<Rightarrow> db \<Rightarrow> (string list \<times> int) list" where
  "check_timeouts now d =
     count_by check_label (filter (\<lambda>c. smc_failure_reason c = Some ''timeout'') (checks_since now 300 d))"

text \<open>The deliveries joined with their channels.\<close>

definition delivered_rows :: "db \<Rightarrow> (notification_delivery \<times> string list) list" where
  "delivered_rows d =
     List.map_filter (\<lambda>n. map_option (\<lambda>c. (n, [channel_type_text (nc_channel_type c)]))
       (find_channel (nd_notification_channel_id n) d)) (db_deliveries d)"

definition send_latency :: "timestamp \<Rightarrow> db \<Rightarrow> (string list \<times> rat) list" where
  "send_latency now d =
     List.map_filter (\<lambda>(n, label).
       map_option (\<lambda>t. (label, of_int (t - nd_created_at n) / 1000000))
         (option_filter (\<lambda>t. add_seconds now (- 300) < t) (nd_delivered_at n))) (delivered_rows d)"

definition retried_deliveries :: "timestamp \<Rightarrow> db \<Rightarrow> (string list \<times> int \<times> int) list" where
  "retried_deliveries now d =
     group_by snd (\<lambda>rs. (int (length rs), sum_list (map (\<lambda>(n, _). nd_attempts n - 1) rs)))
       (filter (\<lambda>(n, _). 1 < nd_attempts n \<and> add_seconds now (- 300) < nd_updated_at n) (delivered_rows d))"

definition delivery_failures :: "db \<Rightarrow> (string list \<times> int) list" where
  "delivery_failures d = count_by snd (filter (\<lambda>(n, _). nd_status n = Failed) (delivered_rows d))"

definition deliveries_by_status :: "db \<Rightarrow> (string list \<times> int) list" where
  "deliveries_by_status d = count_by (\<lambda>n. [delivery_status_text (nd_status n)]) (db_deliveries d)"

section \<open>The scrape\<close>

definition measured :: "metrics_env \<Rightarrow> string \<Rightarrow> 'a \<Rightarrow> 'a \<Rightarrow> 'a" where
  "measured env query without v = (if mt_query_fails env query then without else v)"

definition collected :: "metrics_env \<Rightarrow> timestamp \<Rightarrow> db \<Rightarrow> metric list" where
  "collected env now d =
     (let vec = (\<lambda>name query labels rows. IntGaugeVec name labels (measured env query [] rows));
          hist = (\<lambda>name query bounds labels rows. HistogramVec name bounds labels (measured env query [] rows));
          memory = (case read_process_memory_bytes (mt_proc_status env) of None \<Rightarrow> (0, 0) | Some m \<Rightarrow> m);
          checks = measured env ''check retries'' [] (retried_checks now d);
          sends = measured env ''notification retries'' [] (retried_deliveries now d)
      in
        [Gauge ''alon_sentinel_scrape_duration_seconds'' (mt_elapsed_seconds env),
         vec ''alon_sentinel_monitors_active'' ''active monitors'' [''monitor_type''] (monitors_active d),
         IntGauge ''alon_sentinel_incidents_open'' (measured env ''open incidents'' 0 (incidents_open d)),
         vec ''alon_sentinel_checks_recent'' ''recent checks'' [''result''] (checks_recent now d),
         vec ''alon_sentinel_notification_deliveries'' ''notification deliveries'' [''status''] (deliveries_by_status d),
         IntGauge ''alon_sentinel_db_pool_connections_max'' (int (mt_db_max_connections env)),
         IntGauge ''alon_sentinel_db_pool_connections_open'' (int (mt_pool_size env)),
         IntGauge ''alon_sentinel_db_pool_connections_idle'' (as_i64 (int (mt_pool_idle env))),
         IntGauge ''alon_sentinel_process_resident_memory_bytes'' (fst memory),
         IntGauge ''alon_sentinel_process_virtual_memory_bytes'' (snd memory),
         IntGauge ''alon_sentinel_tokio_alive_tasks'' (as_i64 (int (mt_alive_tasks env))),
         IntGauge ''alon_sentinel_tokio_worker_threads'' (as_i64 (int (mt_workers env))),
         IntGauge ''alon_sentinel_worker_queue_depth'' (measured env ''worker queue depth'' 0 (worker_queue_depth now d)),
         IntGauge ''alon_sentinel_worker_active_leases''
           (measured env ''worker active leases'' 0 (worker_active_leases now d)),
         hist ''alon_sentinel_check_duration_seconds'' ''check durations''
           [1 / 10, 1 / 4, 1 / 2, 1, 5 / 2, 5, 10, 30] [''monitor_type''] (milliseconds smc_total_duration_ms now d),
         hist ''alon_sentinel_ssl_certificate_days_remaining'' ''SSL certificate expiry''
           [7, 14, 21, 30, 60, 90] [] (ssl_days_remaining d),
         hist ''alon_sentinel_check_response_time_seconds'' ''check response times''
           [1 / 20, 1 / 10, 1 / 4, 1 / 2, 1, 5 / 2, 5, 10] [''monitor_type''] (milliseconds smc_response_time_ms now d),
         vec ''alon_sentinel_check_status_codes'' ''check status codes'' [''monitor_type'', ''status_code'']
           (check_status_codes now d),
         IntGaugeVec ''alon_sentinel_check_retried'' [''monitor_type''] (map (\<lambda>(l, n, _). (l, n)) checks),
         IntGaugeVec ''alon_sentinel_check_extra_attempts'' [''monitor_type''] (map (\<lambda>(l, _, n). (l, n)) checks),
         vec ''alon_sentinel_check_timeouts'' ''check timeouts'' [''monitor_type''] (check_timeouts now d),
         hist ''alon_sentinel_notification_send_latency_seconds'' ''notification send latency''
           [1 / 10, 1 / 4, 1 / 2, 1, 5 / 2, 5, 10, 30] [''channel_type''] (send_latency now d),
         IntGaugeVec ''alon_sentinel_notification_retried'' [''channel_type''] (map (\<lambda>(l, n, _). (l, n)) sends),
         IntGaugeVec ''alon_sentinel_notification_extra_attempts'' [''channel_type''] (map (\<lambda>(l, _, n). (l, n)) sends),
         vec ''alon_sentinel_notification_delivery_failures'' ''notification delivery failures'' [''channel_type'']
           (delivery_failures d)])"

definition metrics_handler :: "metrics_env \<Rightarrow> request_clock \<Rightarrow> ('s, 'p, string) handler" where
  "metrics_handler env clk =
     svc_bind (db_query (collected env (ck_now clk))) (\<lambda>ms. svc_return (mt_encode env ms))"

section \<open>What the numbers mean\<close>

text \<open>Groups partition the rows.\<close>

lemma groups_partition:
  "finite K \<Longrightarrow> key ` set rs \<subseteq> K \<Longrightarrow> (\<Sum>k \<in> K. int (length (filter (\<lambda>r. key r = k) rs))) = int (length rs)"
proof (induction rs)
  case (Cons r rs)
  have "int (length (filter (\<lambda>r. key r = k) (r # rs))) =
      (if key r = k then 1 else 0) + int (length (filter (\<lambda>r. key r = k) rs))" for k
    by simp
  then show ?case
    using Cons by (simp only: sum.distrib sum.delta') simp
qed simp

lemma count_by_total: "sum_list (map snd (count_by key rows)) = int (length rows)"
  using groups_partition [of "key ` set rows" key rows]
  by (simp add: count_by_def group_by_def o_def sum_list_distinct_conv_sum_set)

text \<open>
  C40: The queue depth a scrape reports is the number of monitors a claim could take at that instant: a claim with
  at least that limit, no row being locked by others, takes exactly so many, and a scrape at the instant of the
  claim finds the queue empty.
\<close>

theorem queue_depth_is_what_a_claim_takes:
  assumes "monitors_wf d" "worker_queue_depth now d \<le> limit" "0 \<le> lease"
  shows "case claim_site_monitors_due_for_check now {} w limit lease d of
      Inl e \<Rightarrow> False
    | Inr (ms, d') \<Rightarrow> int (length ms) = worker_queue_depth now d \<and> worker_queue_depth now d' = 0"
proof -
  let ?q = "filter (claimable now d) (db_monitors d)"
  have depth: "worker_queue_depth now d = int (length (filter (claimable now d) (db_monitors d)))" for d
    by (simp add: worker_queue_depth_def claimable_def [abs_def] check_is_due_def check_lease_free_def lease_free_def)
  have due: "due_monitors now {} limit d = order_by (\<lambda>m. (sm_last_checked_at m, sm_id m)) ?q"
    using assms(2) by (simp add: due_monitors_def limit_rows_def depth order_by_def)
  obtain ms d' where c: "claim_site_monitors_due_for_check now {} w limit lease d = Inr (ms, d')"
    using assms(2) by (simp add: claim_site_monitors_due_for_check_def Let_def depth)
  have "length ms = length ?q"
    using claim_returns_set(2) [OF assms(1) c] by (simp add: due order_by_def)
  moreover have "\<not> claimable now d' m'" if m': "m' \<in> set (db_monitors d')" for m'
  proof -
    have sites: "db_sites d' = db_sites d"
      using c by (simp add: claim_Inr_iff Let_def)
    obtain m where m: "m \<in> set (db_monitors d)"
      "m' = (if sm_id m \<in> sm_id ` set ?q then claim_row now w lease m else m)"
      using m' c by (auto simp: claim_Inr_iff Let_def due update_rows_def)
    show ?thesis
    proof (cases "sm_id m \<in> sm_id ` set ?q")
      case True
      then show ?thesis
        using m(2) assms(3) by (simp add: claimable_def check_lease_free_def claim_row_def add_seconds_def)
    next
      case False
      then have "\<not> claimable now d m"
        using m(1) by auto
      then show ?thesis
        using m(2) False by (simp add: claimable_def site_active_def sites)
    qed
  qed
  then have "filter (claimable now d') (db_monitors d') = []"
    by (simp add: filter_empty_conv)
  ultimately show ?thesis
    by (simp add: c depth)
qed

theorem queue_depth_is_what_a_claim_takes_witness:
  "worker_queue_depth 600000000 sample_db = 2 \<and>
   (\<exists>ms d'. claim_site_monitors_due_for_check 600000000 {} ''w1'' 5 30 sample_db = Inr (ms, d') \<and>
      length ms = 2 \<and> worker_queue_depth 600000000 d' = 0)"
proof -
  have depth: "worker_queue_depth 600000000 sample_db = 2"
    by (simp add: worker_queue_depth_def sample_db_def sample_site_def monitor_defaults_def site_active_def
        interval_micros_def)
  then have "case claim_site_monitors_due_for_check 600000000 {} ''w1'' 5 30 sample_db of
      Inl e \<Rightarrow> False
    | Inr (ms, d') \<Rightarrow> int (length ms) = worker_queue_depth 600000000 sample_db \<and> worker_queue_depth 600000000 d' = 0"
    by (intro queue_depth_is_what_a_claim_takes [OF sample_db_wf]) simp_all
  then show ?thesis
    using depth by (auto split: sum.splits)
qed

text \<open>
  The groups a scrape reports add up: the active monitors by type to the active monitors, the deliveries by
  status to all deliveries, the recent checks by result to the recent checks; and a scrape changes nothing,
  whichever of its queries fail.
\<close>

theorem scraped_groups_add_up:
  "sum_list (map snd (monitors_active d)) = int (length (filter sm_is_active (db_monitors d))) \<and>
   sum_list (map snd (deliveries_by_status d)) = int (length (db_deliveries d)) \<and>
   sum_list (map snd (checks_recent now d)) = int (length (checks_since now 60 d)) \<and>
   metrics_handler env clk a = (Inr (mt_encode env (collected env (ck_now clk) (app_db a))), a)"
  by (simp add: monitors_active_def deliveries_by_status_def checks_recent_def count_by_total metrics_handler_def
      svc_bind_def)

end
