(* ===== verification/Migrations.thy ===== *)
theory Migrations
  imports Auth_Service Rust_Str
begin

text \<open>
  The migration runner (\<^verbatim>\<open>src/db/migrations.rs\<close>) and the readiness of the API, which looks at its table
  (\<^verbatim>\<open>src/api/routes/health.rs\<close>). The directory of migrations is an argument, its names are text; so is what
  the SQL of a file does to the rest of the database, or that PostgreSQL rejects it, and which statements of the
  runner itself fail, because the connection is lost or the table is locked for too long. A file's SQL does not touch
  the table of migrations. The rest of the database is an arbitrary state.
\<close>

section \<open>State\<close>

text \<open>The names in \<^verbatim>\<open>schema_migrations\<close> in insertion order, if the table exists, and the successful versions in
  \<^verbatim>\<open>_sqlx_migrations\<close>, if that table exists.\<close>

record 's schema_db =
  sd_applied :: "string list option"
  sd_legacy :: "int list option"
  sd_data :: 's

record migration_report =
  mr_applied :: "string list"
  mr_skipped :: "string list"

text \<open>
  The statements the runner sends: on a connection of their own, each committed by itself, or in the transaction of a
  file.
\<close>

datatype migration_statement =
    EnsureTable
  | CountApplied
  | LegacyTable
  | LegacyVersions
  | ImportVersion int
  | ListApplied
  | BeginFile string
  | RecordFile string
  | CommitFile string

datatype migration_error =
    NoDirectory
  | UnreadableFile string
  | FailedSql string string
  | FailedStatement migration_statement

record 's migration_env =
  me_directory :: "(string \<times> string option) list option"
  me_exec :: "string \<Rightarrow> 's \<Rightarrow> string + 's"
  me_fails :: "migration_statement \<Rightarrow> bool"

definition attempt :: "'s migration_env \<Rightarrow> migration_statement \<Rightarrow> ('d, migration_error, unit) call" where
  "attempt env stmt d = (if me_fails env stmt then Inl (FailedStatement stmt) else Inr (), d)"

section \<open>The files\<close>

text \<open>\<open>Path::extension\<close>: what follows the last dot of the name, unless only the first character is a dot.\<close>

definition path_extension :: "string \<Rightarrow> string option" where
  "path_extension name =
     (let ext = takeWhile (\<lambda>c. c \<noteq> CHR ''.'') (rev name)
      in if length ext + 1 < length name then Some (rev ext) else None)"

definition is_sql :: "string \<Rightarrow> bool" where
  "is_sql name = (case path_extension name of None \<Rightarrow> False | Some ext \<Rightarrow> map to_ascii_lower ext = ''sql'')"

definition migration_paths :: "'s migration_env \<Rightarrow> migration_error + string list" where
  "migration_paths env =
     (case me_directory env of
        None \<Rightarrow> Inl NoDirectory
      | Some entries \<Rightarrow> Inr (sort (filter is_sql (map fst entries))))"

definition read_file :: "'s migration_env \<Rightarrow> string \<Rightarrow> migration_error + string" where
  "read_file env name =
     (case Option.bind (me_directory env) (\<lambda>entries. Option.bind (map_of entries name) id) of
        None \<Rightarrow> Inl (UnreadableFile name)
      | Some sql \<Rightarrow> Inr sql)"

section \<open>The table\<close>

abbreviation recorded :: "'s schema_db \<Rightarrow> string list" where
  "recorded d \<equiv> unwrap_or (sd_applied d) []"

definition ensure_migrations_table :: "'s migration_env \<Rightarrow> ('s schema_db, migration_error, unit) call" where
  "ensure_migrations_table env =
     svc_bind (attempt env EnsureTable) (\<lambda>_ d. (Inr (), if sd_applied d = None then d\<lparr>sd_applied := Some []\<rparr> else d))"

definition list_applied_migrations :: "'s migration_env \<Rightarrow> ('s schema_db, migration_error, string list) call" where
  "list_applied_migrations env = svc_bind (attempt env ListApplied) (\<lambda>_ d. (Inr (sort (recorded d)), d))"

definition record_migration :: "string \<Rightarrow> 's schema_db \<Rightarrow> 's schema_db" where
  "record_migration name d = d\<lparr>sd_applied := Some (recorded d @ [name])\<rparr>"

text \<open>
  Versions recorded by the former tool are taken over, for the first file whose name starts with them. Each insert
  commits by itself: when one fails, those before it stay.
\<close>

fun import_versions :: "'s migration_env \<Rightarrow> string list \<Rightarrow> int list \<Rightarrow> ('s schema_db, migration_error, unit) call" where
  "import_versions env paths [] d = (Inr (), d)"
| "import_versions env paths (version # versions) d =
     (case find (\<lambda>name. strip_prefix (show_int version) name \<noteq> None) paths of
        None \<Rightarrow> import_versions env paths versions d
      | Some name \<Rightarrow>
          if me_fails env (ImportVersion version) then (Inl (FailedStatement (ImportVersion version)), d)
          else import_versions env paths versions (if name \<in> set (recorded d) then d else record_migration name d))"

definition import_legacy_sqlx_migrations :: "'s migration_env \<Rightarrow> ('s schema_db, migration_error, unit) call" where
  "import_legacy_sqlx_migrations env =
     svc_bind (attempt env CountApplied) (\<lambda>_ d.
     if recorded d \<noteq> [] then (Inr (), d)
     else svc_bind (attempt env LegacyTable) (\<lambda>_ d.
       case sd_legacy d of
         None \<Rightarrow> (Inr (), d)
       | Some versions \<Rightarrow>
           svc_bind (attempt env LegacyVersions) (\<lambda>_ d.
           if versions = [] then (Inr (), d)
           else svc_bind (svc_result (migration_paths env)) (\<lambda>paths. import_versions env paths (sort versions)) d) d) d)"

section \<open>Running\<close>

text \<open>
  A file is executed and recorded in one transaction: unless it commits, nothing of it stays. The files are run in
  order, with the report so far; an error ends the run, what was committed stays.
\<close>

definition run_file :: "'s migration_env \<Rightarrow> string \<Rightarrow> ('s schema_db, migration_error, unit) call" where
  "run_file env name d =
     (case read_file env name of
        Inl e \<Rightarrow> (Inl e, d)
      | Inr sql \<Rightarrow>
          if me_fails env (BeginFile name) then (Inl (FailedStatement (BeginFile name)), d)
          else
            (case me_exec env sql (sd_data d) of
               Inl message \<Rightarrow> (Inl (FailedSql name message), d)
             | Inr data \<Rightarrow>
                 if me_fails env (RecordFile name) then (Inl (FailedStatement (RecordFile name)), d)
                 else if me_fails env (CommitFile name) then (Inl (FailedStatement (CommitFile name)), d)
                 else (Inr (), record_migration name (d\<lparr>sd_data := data\<rparr>))))"

fun run_files ::
    "'s migration_env \<Rightarrow> string set \<Rightarrow> string list \<Rightarrow> migration_report \<Rightarrow>
      ('s schema_db, migration_error, migration_report) call" where
  "run_files env applied [] report d = (Inr report, d)"
| "run_files env applied (name # names) report d =
     (if name \<in> applied then
        run_files env applied names (report\<lparr>mr_skipped := mr_skipped report @ [name]\<rparr>) d
      else
        (case run_file env name d of
           (Inl e, d) \<Rightarrow> (Inl e, d)
         | (Inr _, d) \<Rightarrow> run_files env applied names (report\<lparr>mr_applied := mr_applied report @ [name]\<rparr>) d))"

definition run_pending_migrations :: "'s migration_env \<Rightarrow> ('s schema_db, migration_error, migration_report) call" where
  "run_pending_migrations env =
     svc_bind (ensure_migrations_table env) (\<lambda>_.
     svc_bind (import_legacy_sqlx_migrations env) (\<lambda>_.
     svc_bind (list_applied_migrations env) (\<lambda>applied.
     svc_bind (svc_result (migration_paths env)) (\<lambda>paths.
     run_files env (set applied) paths \<lparr>mr_applied = [], mr_skipped = []\<rparr>))))"

section \<open>Readiness\<close>

record ready_response =
  rr_code :: int
  rr_status :: string
  rr_error :: "string option"

definition ready :: "bool \<Rightarrow> 's schema_db \<Rightarrow> ready_response" where
  "ready reachable d =
     (if \<not> reachable then \<lparr>rr_code = 503, rr_status = ''not_ready'', rr_error = Some ''db_unavailable''\<rparr>
      else
        (case sd_applied d of
           None \<Rightarrow> \<lparr>rr_code = 503, rr_status = ''not_ready'', rr_error = Some ''migrations_not_applied''\<rparr>
         | Some names \<Rightarrow>
             if length names = 0 then
               \<lparr>rr_code = 503, rr_status = ''not_ready'', rr_error = Some ''migrations_not_applied''\<rparr>
             else \<lparr>rr_code = 200, rr_status = ''ok'', rr_error = None\<rparr>))"

section \<open>A run applies a prefix\<close>

text \<open>What the files do to the data, one after the other, without any bookkeeping.\<close>

fun replay :: "'s migration_env \<Rightarrow> string list \<Rightarrow> 's \<Rightarrow> 's option" where
  "replay env [] s = Some s"
| "replay env (name # names) s =
     (case read_file env name of
        Inl _ \<Rightarrow> None
      | Inr sql \<Rightarrow> (case me_exec env sql s of Inl _ \<Rightarrow> None | Inr s' \<Rightarrow> replay env names s'))"

lemma record_migration_sel [simp]:
  "recorded (record_migration name d) = recorded d @ [name]" "sd_data (record_migration name d) = sd_data d"
  "sd_legacy (record_migration name d) = sd_legacy d"
  by (simp_all add: record_migration_def)

lemma run_file_cases:
  obtains (failed) e where "run_file env name d = (Inl e, d)"
  | (committed) sql data where "read_file env name = Inr sql" "me_exec env sql (sd_data d) = Inr data"
      "run_file env name d = (Inr (), record_migration name (d\<lparr>sd_data := data\<rparr>))"
proof (cases "fst (run_file env name d)")
  case (Inl e)
  then have "run_file env name d = (Inl e, d)"
    by (auto simp: run_file_def split: sum.splits if_splits)
  then show ?thesis by (rule failed)
next
  case (Inr u)
  then obtain sql data where sql: "read_file env name = Inr sql" "me_exec env sql (sd_data d) = Inr data"
    by (auto simp: run_file_def split: sum.splits if_splits)
  moreover have "run_file env name d = (Inr (), record_migration name (d\<lparr>sd_data := data\<rparr>))"
    using Inr sql by (auto simp: run_file_def split: if_splits)
  ultimately show ?thesis by (rule committed)
qed

lemma run_files_prefix:
  "run_files env applied names report d = (r, d') \<Longrightarrow>
    \<exists>did rest. filter (\<lambda>n. n \<notin> applied) names = did @ rest \<and> recorded d' = recorded d @ did \<and>
      replay env did (sd_data d) = Some (sd_data d') \<and> (is_ok r \<longleftrightarrow> rest = [])"
proof (induction names arbitrary: report d)
  case Nil
  then show ?case by auto
next
  case (Cons name names)
  show ?case
  proof (cases "name \<in> applied")
    case True
    then show ?thesis using Cons by auto
  next
    case new: False
    show ?thesis
    proof (cases rule: run_file_cases [of env name d])
      case (failed e)
      then have "r = Inl e" "d' = d" using Cons.prems new by auto
      then show ?thesis
        using new by (intro exI [of _ "[]"] exI [of _ "name # filter (\<lambda>n. n \<notin> applied) names"]) simp
    next
      case (committed sql data)
      then obtain did rest where ih: "filter (\<lambda>n. n \<notin> applied) names = did @ rest"
        "recorded d' = recorded d @ name # did" "replay env did data = Some (sd_data d')" "is_ok r \<longleftrightarrow> rest = []"
        using Cons.IH [of "report\<lparr>mr_applied := mr_applied report @ [name]\<rparr>" "record_migration name (d\<lparr>sd_data := data\<rparr>)"]
          Cons.prems new by auto
      then show ?thesis
        using new committed by (intro exI [of _ "name # did"] exI [of _ rest]) simp
    qed
  qed
qed

text \<open>What an import may do to the table, whether it ends well or not.\<close>

definition import_adds :: "'s schema_db \<Rightarrow> 's schema_db \<Rightarrow> bool" where
  "import_adds d d' \<longleftrightarrow> sd_data d' = sd_data d \<and> (sd_applied d \<noteq> None \<longrightarrow> sd_applied d' \<noteq> None) \<and>
     length (recorded d) \<le> length (recorded d') \<and> (recorded d' = recorded d \<longrightarrow> d' = d)"

lemma import_versions_adds: "import_versions env paths vs d = (r, d') \<Longrightarrow> import_adds d d'"
proof (induction vs arbitrary: d)
  case Nil
  then show ?case by (simp add: import_adds_def)
next
  case (Cons v vs)
  show ?case
  proof (cases "find (\<lambda>name. strip_prefix (show_int v) name \<noteq> None) paths")
    case None
    then show ?thesis using Cons by auto
  next
    case (Some name)
    let ?d = "if name \<in> set (recorded d) then d else record_migration name d"
    have adds: "d' = d \<or> import_adds ?d d'"
      using Cons Some by (auto split: if_splits)
    show ?thesis
    proof (cases "name \<in> set (recorded d) \<or> d' = d")
      case True
      then show ?thesis using adds by (auto simp: import_adds_def)
    next
      case False
      then show ?thesis using adds by (auto simp: import_adds_def record_migration_def)
    qed
  qed
qed

lemma import_adds:
  assumes "import_legacy_sqlx_migrations env d = (r, d')"
  shows "import_adds d d'"
proof -
  have refl: "import_adds d d" by (simp add: import_adds_def)
  show ?thesis
    using assms refl unfolding import_legacy_sqlx_migrations_def
    by (auto simp: svc_bind_def attempt_def split: if_splits option.splits sum.splits dest: import_versions_adds)
qed

lemma ensured_table:
  "ensure_migrations_table env d = (Inr (), d') \<Longrightarrow> recorded d' = recorded d \<and> sd_data d' = sd_data d \<and> sd_applied d' \<noteq> None"
  "ensure_migrations_table env d = (Inl e, d') \<Longrightarrow> d' = d"
  by (auto simp: ensure_migrations_table_def svc_bind_def attempt_def split: if_splits)

text \<open>
  C37: Whatever happens once the table is there and the former tool's versions are in it, a run executes and records
  a prefix of the pending files in the order of their names, each completely or not at all, and it succeeds exactly
  when the prefix is everything, unless it could not even read the table.
\<close>

theorem migrations_apply_a_prefix:
  assumes "ensure_migrations_table env d = (Inr (), d1)" "import_legacy_sqlx_migrations env d1 = (Inr (), d0)"
    and "migration_paths env = Inr paths" "run_pending_migrations env d = (r, d')"
  shows "\<exists>did rest. filter (\<lambda>n. n \<notin> set (unwrap_or (sd_applied d0) [])) paths = did @ rest \<and>
    unwrap_or (sd_applied d') [] = unwrap_or (sd_applied d0) [] @ did \<and>
    replay env did (sd_data d) = Some (sd_data d') \<and> (is_ok r \<longleftrightarrow> rest = [] \<and> \<not> me_fails env ListApplied)"
proof -
  have data: "sd_data d0 = sd_data d"
    using ensured_table(1) [OF assms(1)] import_adds [OF assms(2)] by (simp add: import_adds_def)
  show ?thesis
  proof (cases "me_fails env ListApplied")
    case True
    then have "r = Inl (FailedStatement ListApplied)" "d' = d0"
      using assms by (simp_all add: run_pending_migrations_def list_applied_migrations_def attempt_def)
    then show ?thesis
      using True data by (intro exI [of _ "[]"] exI [of _ "filter (\<lambda>n. n \<notin> set (recorded d0)) paths"]) simp
  next
    case False
    then have "run_files env (set (recorded d0)) paths \<lparr>mr_applied = [], mr_skipped = []\<rparr> d0 = (r, d')"
      using assms by (simp add: run_pending_migrations_def list_applied_migrations_def attempt_def)
    from run_files_prefix [OF this] show ?thesis
      using data False by simp
  qed
qed

section \<open>An interrupted run is taken up\<close>

text \<open>An environment in which at least the same statements and files can be executed, with the same effect.\<close>

definition at_least :: "'s migration_env \<Rightarrow> 's migration_env \<Rightarrow> bool" where
  "at_least env env' \<longleftrightarrow> me_directory env' = me_directory env \<and>
     (\<forall>sql s s'. me_exec env sql s = Inr s' \<longrightarrow> me_exec env' sql s = Inr s') \<and>
     (\<forall>stmt. me_fails env' stmt \<longrightarrow> me_fails env stmt)"

definition outcome :: "('e + 'a) \<times> 'b \<Rightarrow> bool \<times> 'b" where
  "outcome x = (is_ok (fst x), snd x)"

lemma run_files_report: "outcome (run_files env A names rep d) = outcome (run_files env A names rep' d)"
proof (induction names arbitrary: rep rep' d)
  case (Cons n ns)
  show ?case
    unfolding run_files.simps using Cons.IH by (simp add: outcome_def split: sum.split prod.split)
qed (simp add: outcome_def)

lemma run_files_applied_cong:
  "A \<inter> set names = B \<inter> set names \<Longrightarrow> run_files env A names rep d = run_files env B names rep d"
proof (induction names arbitrary: rep d)
  case (Cons n ns)
  then have "n \<in> A \<longleftrightarrow> n \<in> B" "A \<inter> set ns = B \<inter> set ns" by auto
  then show ?case using Cons.IH by (auto split: sum.split prod.split)
qed simp

lemma at_least_files:
  assumes "at_least env env'"
  shows "read_file env' = read_file env" "migration_paths env' = migration_paths env"
    "me_fails env' stmt \<Longrightarrow> me_fails env stmt"
    "run_file env name d = (Inr u, d') \<Longrightarrow> run_file env' name d = (Inr u, d')"
proof -
  have dir: "me_directory env' = me_directory env"
    using assms by (simp add: at_least_def)
  then show read: "read_file env' = read_file env" and "migration_paths env' = migration_paths env"
    by (simp_all add: read_file_def migration_paths_def fun_eq_iff)
  show "me_fails env' stmt \<Longrightarrow> me_fails env stmt"
    using assms by (simp add: at_least_def)
  assume "run_file env name d = (Inr u, d')"
  then show "run_file env' name d = (Inr u, d')"
    using assms unfolding run_file_def read at_least_def by (auto split: sum.splits if_splits)
qed

lemma run_files_resume:
  assumes "at_least env env'" "distinct names" "run_files env A names rep d = (r, d1)"
  shows "\<exists>did. recorded d1 = recorded d @ did \<and> set did \<subseteq> set names \<and>
    (sd_applied d \<noteq> None \<longrightarrow> sd_applied d1 \<noteq> None) \<and> (did = [] \<longrightarrow> d1 = d) \<and>
    outcome (run_files env' (A \<union> set did) names rep' d1) = outcome (run_files env' A names rep' d)"
  using assms(2,3)
proof (induction names arbitrary: rep rep' d)
  case Nil
  then show ?case by auto
next
  case (Cons n ns)
  show ?case
  proof (cases "n \<in> A")
    case True
    then show ?thesis using Cons by fastforce
  next
    case new: False
    show ?thesis
    proof (cases rule: run_file_cases [of env n d])
      case (failed e)
      then have "d1 = d" using Cons.prems(2) new by simp
      then show ?thesis by (intro exI [of _ "[]"]) simp
    next
      case (committed sql data)
      let ?d = "record_migration n (d\<lparr>sd_data := data\<rparr>)"
      have "run_files env A ns (rep\<lparr>mr_applied := mr_applied rep @ [n]\<rparr>) ?d = (r, d1)"
        using Cons.prems(2) new committed by simp
      from Cons.IH [OF _ this, of "rep'\<lparr>mr_skipped := mr_skipped rep' @ [n]\<rparr>"] Cons.prems(1)
      obtain did where ih: "recorded d1 = recorded d @ n # did" "set did \<subseteq> set ns"
        "sd_applied ?d \<noteq> None \<longrightarrow> sd_applied d1 \<noteq> None"
        "outcome (run_files env' (A \<union> set did) ns (rep'\<lparr>mr_skipped := mr_skipped rep' @ [n]\<rparr>) d1) =
         outcome (run_files env' A ns (rep'\<lparr>mr_skipped := mr_skipped rep' @ [n]\<rparr>) ?d)"
        by auto
      have "run_files env' (A \<union> set (n # did)) ns (rep'\<lparr>mr_skipped := mr_skipped rep' @ [n]\<rparr>) d1 =
          run_files env' (A \<union> set did) ns (rep'\<lparr>mr_skipped := mr_skipped rep' @ [n]\<rparr>) d1"
        using Cons.prems(1) by (intro run_files_applied_cong) auto
      then have "outcome (run_files env' (A \<union> set (n # did)) (n # ns) rep' d1) = outcome (run_files env' A (n # ns) rep' d)"
        using ih(4) new at_least_files(4) [OF assms(1) committed(3)]
          run_files_report [of env' A ns "rep'\<lparr>mr_skipped := mr_skipped rep' @ [n]\<rparr>" ?d "rep'\<lparr>mr_applied := mr_applied rep' @ [n]\<rparr>"]
        by simp
      then show ?thesis
        using ih(1-3) by (intro exI [of _ "n # did"]) (auto simp: record_migration_def)
    qed
  qed
qed

lemma import_versions_more:
  "at_least env env' \<Longrightarrow> import_versions env paths vs d = (Inr u, d') \<Longrightarrow> import_versions env' paths vs d = (Inr u, d')"
proof (induction vs arbitrary: d)
  case (Cons v vs)
  then show ?case using at_least_files(3) [OF Cons.prems(1)] by (auto split: option.splits if_splits)
qed simp

lemma import_more:
  assumes "at_least env env'" "import_legacy_sqlx_migrations env d = (Inr u, d')"
  shows "import_legacy_sqlx_migrations env' d = (Inr u, d')"
  using assms(2) at_least_files(3) [OF assms(1)]
  by (auto simp: import_legacy_sqlx_migrations_def svc_bind_def attempt_def at_least_files(2) [OF assms(1)]
      split: if_splits option.splits sum.splits intro: import_versions_more [OF assms(1)])

text \<open>Importing again, after a run on the result, adds nothing.\<close>

lemma import_again:
  assumes "at_least env env'" "import_legacy_sqlx_migrations env d = (Inr (), d0)"
    and "recorded d1 = recorded d0 @ did" "did = [] \<longrightarrow> d1 = d0"
  shows "import_legacy_sqlx_migrations env' d1 = (Inr (), d1)"
proof (cases "recorded d1 = []")
  case False
  have "\<not> me_fails env CountApplied"
    using assms(2) by (auto simp: import_legacy_sqlx_migrations_def svc_bind_def attempt_def)
  then have "\<not> me_fails env' CountApplied"
    using at_least_files(3) [OF assms(1)] by blast
  then show ?thesis
    using False by (simp add: import_legacy_sqlx_migrations_def svc_bind_def attempt_def)
next
  case True
  then have "d1 = d0" "recorded d0 = []" using assms(3,4) by auto
  then have "d1 = d" "d0 = d" using import_adds [OF assms(2)] by (simp_all add: import_adds_def)
  then show ?thesis
    using import_more [OF assms(1,2)] by simp
qed

text \<open>An import that failed after it had taken over some versions.\<close>

definition import_interrupted :: "'s migration_env \<Rightarrow> 's schema_db \<Rightarrow> bool" where
  "import_interrupted env d =
     (case ensure_migrations_table env d of
        (Inl _, _) \<Rightarrow> False
      | (Inr _, d1) \<Rightarrow>
          (case import_legacy_sqlx_migrations env d1 of
             (Inl _, d2) \<Rightarrow> recorded d2 \<noteq> recorded d1
           | (Inr _, _) \<Rightarrow> False))"

lemma ensured_again:
  assumes "ensure_migrations_table env d = (Inr (), d1)" "at_least env env'"
  shows "ensure_migrations_table env' d = (Inr (), d1)" "sd_applied d2 \<noteq> None \<Longrightarrow> ensure_migrations_table env' d2 = (Inr (), d2)"
  using assms(1) at_least_files(3) [OF assms(2)]
  by (auto simp: ensure_migrations_table_def svc_bind_def attempt_def split: if_splits)

lemma failed_import_leaves:
  assumes "ensure_migrations_table env d = (Inr (), d1)" "import_legacy_sqlx_migrations env d1 = (Inl e, d2)"
    and "\<not> import_interrupted env d"
  shows "d2 = d1"
  using import_adds [OF assms(2)] assms(3) by (simp add: import_interrupted_def assms(1,2) import_adds_def)

text \<open>
  C38: A run that was stopped, by the SQL of a file, an unreadable file or any failing statement, can simply be
  repeated once the cause is removed: the repeated run ends as a run that had never been stopped, with the same
  outcome, table and data. The exception is an import of the former tool's versions that failed after it had taken
  over some of them. In particular a run after a successful one changes nothing.
\<close>

theorem interrupted_migrations_resume:
  assumes "at_least env env'" "distinct (map fst (unwrap_or (me_directory env) []))"
    and "run_pending_migrations env d = (r, d1)" "\<not> import_interrupted env d"
  shows "outcome (run_pending_migrations env' d1) = outcome (run_pending_migrations env' d)"
proof -
  note files = at_least_files [OF assms(1)]
  obtain re d2 where ensure: "ensure_migrations_table env d = (re, d2)" by fastforce
  show ?thesis
  proof (cases re)
    case (Inl e)
    then have "d1 = d"
      using assms(3) ensured_table(2) [of env d e d2] ensure by (simp add: run_pending_migrations_def)
    then show ?thesis by simp
  next
    case (Inr u)
    then have e: "ensure_migrations_table env d = (Inr (), d2)" using ensure by simp
    have table: "sd_applied d2 \<noteq> None" using ensured_table(1) [OF e] by simp
    obtain ri d0 where import: "import_legacy_sqlx_migrations env d2 = (ri, d0)" by fastforce
    show ?thesis
    proof (cases ri)
      case (Inl x)
      then have "d1 = d2"
        using assms(3) failed_import_leaves [OF e _ assms(4)] e import by (simp add: run_pending_migrations_def)
      then show ?thesis
        using ensured_again [OF e assms(1)] table by (simp add: run_pending_migrations_def)
    next
      case (Inr u)
      then have i: "import_legacy_sqlx_migrations env d2 = (Inr (), d0)" using import by simp
      have table0: "sd_applied d0 \<noteq> None" using import_adds [OF i] table by (simp add: import_adds_def)
      note first = ensured_again(1) [OF e assms(1)] import_more [OF assms(1) i]
      show ?thesis
      proof (cases "me_fails env ListApplied \<or> \<not> is_ok (migration_paths env)")
        case True
        then have "d1 = d0"
          using assms(3) e i
          by (cases "migration_paths env") (auto simp: run_pending_migrations_def list_applied_migrations_def svc_bind_def
              attempt_def split: if_splits)
        moreover have "import_legacy_sqlx_migrations env' d0 = (Inr (), d0)"
          by (rule import_again [OF assms(1) i, of _ "[]"]) simp_all
        ultimately show ?thesis
          using first ensured_again(2) [OF e assms(1) table0] by (simp add: run_pending_migrations_def)
      next
        case False
        then obtain paths where paths: "migration_paths env = Inr paths" and listed: "\<not> me_fails env ListApplied"
          by (cases "migration_paths env") auto
        then have listed': "\<not> me_fails env' ListApplied" using files(3) by blast
        have "distinct paths"
          using paths assms(2) by (auto simp: migration_paths_def split: option.splits)
        have run: "run_files env (set (recorded d0)) paths \<lparr>mr_applied = [], mr_skipped = []\<rparr> d0 = (r, d1)"
          using assms(3) e i paths listed by (simp add: run_pending_migrations_def list_applied_migrations_def attempt_def)
        obtain did where did: "recorded d1 = recorded d0 @ did" "sd_applied d1 \<noteq> None" "did = [] \<longrightarrow> d1 = d0"
          "outcome (run_files env' (set (recorded d0) \<union> set did) paths \<lparr>mr_applied = [], mr_skipped = []\<rparr> d1) =
           outcome (run_files env' (set (recorded d0)) paths \<lparr>mr_applied = [], mr_skipped = []\<rparr> d0)"
          using run_files_resume [OF assms(1) \<open>distinct paths\<close> run] table0 by blast
        then show ?thesis
          using first ensured_again(2) [OF e assms(1) did(2)] import_again [OF assms(1) i did(1,3)] paths listed'
          by (simp add: run_pending_migrations_def list_applied_migrations_def attempt_def files(2))
      qed
    qed
  qed
qed

definition sample_migrations :: "(string \<Rightarrow> nat \<Rightarrow> string + nat) \<Rightarrow> (migration_statement \<Rightarrow> bool) \<Rightarrow> nat migration_env" where
  "sample_migrations exec fails =
     \<lparr>me_directory = Some [(''2_b.sql'', Some ''b''), (''README.md'', None), (''1_a.sql'', Some ''a'')], me_exec = exec,
      me_fails = fails\<rparr>"

definition fresh_schema :: "nat schema_db" where
  "fresh_schema = \<lparr>sd_applied = None, sd_legacy = None, sd_data = 0\<rparr>"

lemma sample_paths: "migration_paths (sample_migrations exec fails) = Inr [''1_a.sql'', ''2_b.sql'']"
  by (simp add: migration_paths_def sample_migrations_def) code_simp

theorem migrations_apply_a_prefix_witness:
  "\<exists>did rest. [''1_a.sql'', ''2_b.sql''] = did @ rest \<and>
    unwrap_or (sd_applied (snd (run_pending_migrations
      (sample_migrations (\<lambda>sql n. if sql = ''b'' then Inl ''error'' else Inr (n + 1)) (\<lambda>_. False)) fresh_schema))) [] = did"
proof -
  let ?env = "sample_migrations (\<lambda>sql n. if sql = ''b'' then Inl ''error'' else Inr (n + 1)) (\<lambda>_. False)"
  let ?d = "fresh_schema\<lparr>sd_applied := Some []\<rparr>"
  have e: "ensure_migrations_table ?env fresh_schema = (Inr (), ?d)"
    by (simp add: ensure_migrations_table_def svc_bind_def attempt_def sample_migrations_def fresh_schema_def)
  have i: "import_legacy_sqlx_migrations ?env ?d = (Inr (), ?d)"
    by (simp add: import_legacy_sqlx_migrations_def svc_bind_def attempt_def sample_migrations_def fresh_schema_def)
  obtain r d' where "run_pending_migrations ?env fresh_schema = (r, d')" by fastforce
  from migrations_apply_a_prefix [OF e i sample_paths this] this show ?thesis
    by (auto simp: fresh_schema_def)
qed

text \<open>The commit of the second file fails; the run is repeated.\<close>

theorem interrupted_migrations_resume_witness:
  "outcome (run_pending_migrations (sample_migrations (\<lambda>sql n. Inr (n + 1)) (\<lambda>_. False))
     (snd (run_pending_migrations (sample_migrations (\<lambda>sql n. Inr (n + 1)) (\<lambda>s. s = CommitFile ''2_b.sql'')) fresh_schema))) =
   outcome (run_pending_migrations (sample_migrations (\<lambda>sql n. Inr (n + 1)) (\<lambda>_. False)) fresh_schema)"
proof -
  let ?env = "sample_migrations (\<lambda>sql n. Inr (n + 1)) (\<lambda>s. s = CommitFile ''2_b.sql'')"
    and ?env' = "sample_migrations (\<lambda>sql n. Inr (n + 1)) (\<lambda>_. False)"
  have "at_least ?env ?env'" "distinct (map fst (unwrap_or (me_directory ?env) []))"
    by (auto simp: at_least_def sample_migrations_def split: if_splits)
  moreover have "\<not> import_interrupted ?env fresh_schema"
    by (simp add: import_interrupted_def ensure_migrations_table_def import_legacy_sqlx_migrations_def svc_bind_def
        attempt_def sample_migrations_def fresh_schema_def)
  moreover obtain r d1 where "run_pending_migrations ?env fresh_schema = (r, d1)" by fastforce
  ultimately show ?thesis
    using interrupted_migrations_resume by fastforce
qed

section \<open>A partial import is not taken up\<close>

text \<open>
  A repeated run finds the table no longer empty and skips the import, so it executes every file whose version was
  not taken over, although the former tool had executed it.
\<close>

theorem partial_import_runs_files_again:
  assumes "import_interrupted env d" "run_pending_migrations env d = (r, d1)" "migration_paths env' = Inr paths"
    and "run_pending_migrations env' d1 = (r', d2)" "is_ok r'"
  shows "sd_data d1 = sd_data d \<and>
    replay env' (filter (\<lambda>n. n \<notin> set (recorded d1)) paths) (sd_data d) = Some (sd_data d2)"
proof -
  obtain re d0 where ensure: "ensure_migrations_table env d = (re, d0)" by fastforce
  obtain ri dp where import: "import_legacy_sqlx_migrations env d0 = (ri, dp)" by fastforce
  obtain e where e: "ensure_migrations_table env d = (Inr (), d0)"
    and i: "import_legacy_sqlx_migrations env d0 = (Inl e, dp)" and more: "recorded dp \<noteq> recorded d0"
    using assms(1) ensure import by (cases re; cases ri) (auto simp: import_interrupted_def)
  have d1: "d1 = dp"
    using assms(2) e i by (simp add: run_pending_migrations_def)
  note adds = import_adds [OF i, unfolded import_adds_def]
  have data: "sd_data d1 = sd_data d"
    using adds ensured_table(1) [OF e] d1 by simp
  have "recorded d1 \<noteq> []"
    using adds more d1 by (metis le_zero_eq length_0_conv)
  obtain re' d0' where ensure': "ensure_migrations_table env' d1 = (re', d0')" by fastforce
  then have e': "ensure_migrations_table env' d1 = (Inr (), d0')"
    using assms(4,5) by (cases re') (auto simp: run_pending_migrations_def)
  then have "recorded d0' = recorded d1" using ensured_table(1) by blast
  moreover obtain ri' di where "import_legacy_sqlx_migrations env' d0' = (ri', di)" by fastforce
  then have i': "import_legacy_sqlx_migrations env' d0' = (Inr (), di)"
    using assms(4,5) e' by (cases ri') (auto simp: run_pending_migrations_def)
  moreover have "di = d0'"
    using i' \<open>recorded d1 \<noteq> []\<close> \<open>recorded d0' = recorded d1\<close>
    by (auto simp: import_legacy_sqlx_migrations_def svc_bind_def attempt_def split: if_splits)
  have listed: "\<not> me_fails env' ListApplied"
    using assms(4,5) e' i' by (auto simp: run_pending_migrations_def list_applied_migrations_def svc_bind_def attempt_def)
  have "run_files env' (set (recorded di)) paths \<lparr>mr_applied = [], mr_skipped = []\<rparr> di = (r', d2)"
    using assms(3,4) e' i' listed by (simp add: run_pending_migrations_def list_applied_migrations_def attempt_def)
  from run_files_prefix [OF this] assms(5) \<open>di = d0'\<close> \<open>recorded d0' = recorded d1\<close> show ?thesis
    using data ensured_table(1) [OF e'] by auto
qed

text \<open>Two versions were executed by the former tool; the insert of the second fails, and its file is executed again.\<close>

definition legacy_schema :: "nat schema_db" where
  "legacy_schema = \<lparr>sd_applied = None, sd_legacy = Some [1, 2], sd_data = 2\<rparr>"

lemma partly_imported_file_runs_twice:
  "sd_data (snd (run_pending_migrations (sample_migrations (\<lambda>sql n. Inr (n + 1)) (\<lambda>_. False)) legacy_schema)) = 2 \<and>
   sd_data (snd (run_pending_migrations (sample_migrations (\<lambda>sql n. Inr (n + 1)) (\<lambda>_. False))
     (snd (run_pending_migrations (sample_migrations (\<lambda>sql n. Inr (n + 1)) (\<lambda>s. s = ImportVersion 2)) legacy_schema)))) = 3"
  by code_simp

text \<open>The API is ready exactly when it can reach the database and a migration is recorded.\<close>

lemma ready_iff: "rr_code (ready reachable d) = 200 \<longleftrightarrow> reachable \<and> recorded d \<noteq> []"
  by (auto simp: ready_def split: option.splits)

end
