(* ===== verification/Provisioning.thy ===== *)
theory Provisioning
  imports Auth_Service Config_Env
begin

text \<open>
  The programs that set up accounts (\<^verbatim>\<open>src/bin/provision_admin_user.rs\<close>, \<^verbatim>\<open>src/bin/provision_client.rs\<close>,
  \<^verbatim>\<open>src/bin/seed_admin_role_permissions.rs\<close>): the variables they read and the statements they run one after the
  other. Loading the configuration and opening the pool come before; what they print is not modelled.
\<close>

section \<open>Programs\<close>

definition env_or_default :: "env \<Rightarrow> string \<Rightarrow> string \<Rightarrow> string" where
  "env_or_default get_env key dflt = unwrap_or (env_ok (get_env key)) dflt"

text \<open>An existing account is left alone: the answer is \<open>None\<close>.\<close>

definition provision_admin_user ::
    "auth_env \<Rightarrow> env \<Rightarrow> timestamp \<Rightarrow> string \<Rightarrow> string \<Rightarrow> (anyhow_error, admin_user option) service" where
  "provision_admin_user env get_env now uuid salt =
     (let email = env_or_default get_env ''SEED_ADMIN_EMAIL'' ''admin@localhost'';
          display_name = env_or_default get_env ''SEED_ADMIN_NAME'' ''Sentinel Admin'';
          role_key = env_or_default get_env ''SEED_ADMIN_ROLE'' ''admin''
      in svc_bind (svc_result (ok_or (Message ''SEED_ADMIN_PASSWORD must be set'')
           (env_ok (get_env ''SEED_ADMIN_PASSWORD'')))) (\<lambda>password.
         if trim password = [] then svc_fail (Message ''SEED_ADMIN_PASSWORD can not be empty'')
         else
           svc_bind (svc_read (get_admin_user_by_email env email)) (\<lambda>existing.
           if existing \<noteq> None then svc_return None
           else
             svc_bind (svc_result (hash_password env salt password)) (\<lambda>password_hash.
             svc_bind (svc_stmt (upsert_admin_user now uuid
               \<lparr>nau_email = email, nau_display_name = display_name, nau_password_hash = password_hash\<rparr>)) (\<lambda>user.
             svc_bind (svc_read (get_role_by_key role_key)) (\<lambda>found.
             svc_bind (svc_result (ok_or (Message (''role not found: '' @ role_key)) found)) (\<lambda>role.
             svc_bind (svc_stmt (assign_role_to_admin_user now (au_id user) (r_id role))) (\<lambda>_.
             svc_return (Some user)))))))))"

definition required_scopes :: "string list" where
  "required_scopes = [''sites:read'', ''sites:write'']"

fun create_scopes :: "timestamp \<Rightarrow> id \<Rightarrow> string list \<Rightarrow> (anyhow_error, unit) service" where
  "create_scopes now client [] = svc_return ()"
| "create_scopes now client (scope # scopes) =
     svc_bind (svc_stmt (create_api_client_scope now client scope)) (\<lambda>_. create_scopes now client scopes)"

definition provision_client ::
    "auth_env \<Rightarrow> env \<Rightarrow> timestamp \<Rightarrow> string \<Rightarrow> string \<Rightarrow> (anyhow_error, api_client) service" where
  "provision_client env get_env now uuid salt =
     (let client_secret = env_or_default get_env ''SEED_CLIENT_SECRET'' ''sentinel-local-client-secret''
      in svc_bind (svc_result (hash_client_secret env salt client_secret)) (\<lambda>client_secret_hash.
         svc_bind (svc_stmt (upsert_api_client now uuid
           \<lparr>nac_name = env_or_default get_env ''SEED_CLIENT_NAME'' ''Sentinel API Client'',
            nac_description = Some (env_or_default get_env ''SEED_CLIENT_DESCRIPTION'' ''Local client for the Alon Sentinel API''),
            nac_client_type = InstallationClient,
            nac_client_id = env_or_default get_env ''SEED_CLIENT_ID'' ''sentinel-client'',
            nac_client_secret_hash = client_secret_hash,
            nac_secret_prefix = take 12 client_secret,
            nac_created_by_user_id = Some ''provision_client''\<rparr>)) (\<lambda>api_client.
         svc_bind (create_scopes now (ac_id api_client) required_scopes) (\<lambda>_.
         svc_return api_client))))"

definition seed_admin_role_permissions ::
    "auth_env \<Rightarrow> env \<Rightarrow> timestamp \<Rightarrow> (anyhow_error, role \<times> permission list) service" where
  "seed_admin_role_permissions env get_env now =
     (let role_key = env_or_default get_env ''SEED_ROLE_KEY'' ''admin''
      in svc_bind (svc_read (get_role_by_key role_key)) (\<lambda>found.
         svc_bind (svc_result (ok_or (Message (''role not found: '' @ role_key)) found)) (\<lambda>role.
         svc_bind (svc_read (list_permissions env)) (\<lambda>all_permissions.
         svc_bind (svc_stmt (replace_permissions_for_role now (r_id role) (map p_id all_permissions))) (\<lambda>_.
         svc_return (role, all_permissions))))))"

section \<open>What they leave behind\<close>

definition grants :: "auth_db \<Rightarrow> (id \<times> id) set" where
  "grants d = (\<lambda>x. (rp_role_id x, rp_permission_id x)) ` set (ad_role_permissions d)"

lemma insert_role_permission_Inr:
  assumes "insert_role_permission now r p d = Inr (u, d')"
  shows "grants d' = insert (r, p) (grants d) \<and> ad_permissions d' = ad_permissions d"
proof (cases "list_ex (\<lambda>rp. rp_role_id rp = r \<and> rp_permission_id rp = p) (ad_role_permissions d)")
  case True
  then have "(r, p) \<in> grants d" "d' = d"
    using assms by (auto simp: insert_role_permission_def grants_def list_ex_iff image_iff)
  then show ?thesis by auto
next
  case False
  then show ?thesis
    using assms by (auto simp: insert_role_permission_def Let_def grants_def split: if_splits)
qed

lemma insert_role_permissions_Inr:
  "insert_role_permissions now r ps d = Inr (u, d') \<Longrightarrow>
    grants d' = grants d \<union> Pair r ` set ps \<and> ad_permissions d' = ad_permissions d"
proof (induction ps arbitrary: d)
  case (Cons p ps)
  then obtain v d1 where d1: "insert_role_permission now r p d = Inr (v, d1)"
    "insert_role_permissions now r ps d1 = Inr (u, d')"
    by (auto simp: stmt_bind_Inr_iff)
  then show ?case
    using Cons.IH [OF d1(2)] insert_role_permission_Inr [OF d1(1)] by simp
qed (simp add: stmt_return_def)

text \<open>
  Seeding gives the role it names every permission there is, and leaves the permissions of every other role
  alone.
\<close>

theorem seeded_role_has_every_permission:
  assumes "seed_admin_role_permissions env get_env now d = (Inr (role, ps), d')"
  shows "r_key role = env_or_default get_env ''SEED_ROLE_KEY'' ''admin'' \<and>
    grants d' = {g \<in> grants d. fst g \<noteq> r_id role} \<union> Pair (r_id role) ` p_id ` set (ad_permissions d')"
proof -
  have role: "get_role_by_key (env_or_default get_env ''SEED_ROLE_KEY'' ''admin'') d = Some role"
    and r: "replace_permissions_for_role now (r_id role) (map p_id (list_permissions env d)) d = Inr ((), d')"
    using assms by (auto simp: seed_admin_role_permissions_def Let_def svc_bind_Inr svc_stmt_Inr_iff ok_or_def
        split: option.splits)
  have "r_key role = env_or_default get_env ''SEED_ROLE_KEY'' ''admin''"
    using role by (auto simp: get_role_by_key_def dest!: fetch_optional_Some_mem)
  moreover have "grants (d\<lparr>ad_role_permissions := delete_rows (\<lambda>rp. rp_role_id rp = r_id role) (ad_role_permissions d)\<rparr>) =
      {g \<in> grants d. fst g \<noteq> r_id role}"
    by (auto simp: grants_def delete_rows_def)
  ultimately show ?thesis
    using insert_role_permissions_Inr [OF r [unfolded replace_permissions_for_role_def]]
    by (simp add: list_permissions_def)
qed

text \<open>
  Provisioning an administrator whose role does not exist fails after the account was written. The account stays
  behind without a role, and every later run answers that it already exists: it never gets its role this way.
\<close>

theorem provisioning_without_role_strands_the_account:
  assumes "env_ok (get_env ''SEED_ADMIN_PASSWORD'') = Some password" "trim password \<noteq> []"
    and "env_or_default get_env ''SEED_ADMIN_EMAIL'' ''admin@localhost'' = email"
    and "get_admin_user_by_email env email d = None" "email \<notin> au_email ` set (ad_users d)"
    and "hash_password env salt password = Inr hash"
    and "check_admin_user email (env_or_default get_env ''SEED_ADMIN_NAME'' ''Sentinel Admin'') hash = None"
    and "get_role_by_key (env_or_default get_env ''SEED_ADMIN_ROLE'' ''admin'') d = None"
    and "provision_admin_user env get_env now uuid salt d = (r, d')"
  shows "is_ok r = False \<and> length (ad_users d') = Suc (length (ad_users d)) \<and>
    au_email (last (ad_users d')) = email \<and> ad_user_roles d' = ad_user_roles d \<and>
    provision_admin_user env get_env later uuid' salt' d' = (Inr None, d')"
proof -
  let ?n = "\<lparr>nau_email = email, nau_display_name = env_or_default get_env ''SEED_ADMIN_NAME'' ''Sentinel Admin'',
    nau_password_hash = hash\<rparr>"
  have none: "fetch_optional (returning_rows (\<lambda>u. au_email u = email) (upsert_user_row now ?n) (ad_users d)) = None"
    using assms(5) by (auto simp: fetch_optional_None_iff returning_rows_def filter_empty_conv)
  obtain u d1 where u: "upsert_admin_user now uuid ?n d = Inr (u, d1)" "au_email u = email"
    "d1 = d\<lparr>ad_users := ad_users d @ [u], ad_next_user := ad_next_user d + 1\<rparr>"
    using assms(5,7) none by (auto simp: upsert_admin_user_def insert_admin_user_def Let_def)
  have "get_role_by_key k d1 = get_role_by_key k d" for k
    by (simp add: get_role_by_key_def u(3))
  then have run: "d' = d1" "is_ok r = False"
    using assms(9) assms(1-4,6,8) u(1)
    by (auto simp: provision_admin_user_def Let_def svc_bind_def svc_stmt_def ok_or_def)
  have "get_admin_user_by_email env email d1 \<noteq> None"
    using u(2) by (auto simp: get_admin_user_by_email_def fetch_optional_None_iff filter_empty_conv u(3))
  then have "provision_admin_user env get_env later uuid' salt' d1 = (Inr None, d1)"
    using assms(1-3) by (auto simp: provision_admin_user_def Let_def svc_bind_def ok_or_def)
  then show ?thesis
    using run u by simp
qed

section \<open>Examples\<close>

definition seeded_db :: auth_db where
  "seeded_db = empty_auth_db\<lparr>
     ad_roles := [\<lparr>r_id = 1, r_key = ''admin'', r_name = ''Admin'', r_description = None, r_is_system = True,
                   r_created_at = 0, r_updated_at = 0\<rparr>],
     ad_permissions := [\<lparr>p_id = 7, p_key = ''sites.read'', p_name = ''Read sites'', p_description = None, p_created_at = 0\<rparr>]\<rparr>"

theorem seeded_role_has_every_permission_witness:
  "grants (snd (seed_admin_role_permissions sample_auth_env (\<lambda>_. EnvNotPresent) 5 seeded_db)) = {(1, 7)}"
proof -
  let ?run = "seed_admin_role_permissions sample_auth_env (\<lambda>_. EnvNotPresent) 5 seeded_db"
  have "is_ok (fst ?run)" "ad_permissions (snd ?run) = ad_permissions seeded_db"
    by code_simp+
  then obtain role ps d' where run: "?run = (Inr (role, ps), d')" "ad_permissions d' = ad_permissions seeded_db"
    by (cases ?run) (auto simp: is_ok_def split: sum.splits)
  have "get_role_by_key ''admin'' seeded_db = Some role"
    using run(1) by (auto simp: seed_admin_role_permissions_def Let_def env_or_default_def env_ok_def svc_bind_Inr
        svc_stmt_Inr_iff ok_or_def split: option.splits)
  then have "r_id role = 1"
    by (auto simp: get_role_by_key_def seeded_db_def)
  then show ?thesis
    using seeded_role_has_every_permission [OF run(1)] run
    by (simp add: grants_def seeded_db_def empty_auth_db_def)
qed

definition password_env :: env where
  "password_env key = (if key = ''SEED_ADMIN_PASSWORD'' then EnvPresent ''pw'' else EnvNotPresent)"

theorem provisioning_without_role_strands_the_account_witness:
  "provision_admin_user sample_auth_env password_env 9 ''u2'' ''s''
     (snd (provision_admin_user sample_auth_env password_env 5 ''u1'' ''s'' empty_auth_db)) =
   (Inr None, snd (provision_admin_user sample_auth_env password_env 5 ''u1'' ''s'' empty_auth_db))"
proof -
  obtain r d' where run: "provision_admin_user sample_auth_env password_env 5 ''u1'' ''s'' empty_auth_db = (r, d')"
    by fastforce
  have "env_ok (password_env ''SEED_ADMIN_PASSWORD'') = Some ''pw''" "trim ''pw'' \<noteq> []"
    "env_or_default password_env ''SEED_ADMIN_EMAIL'' ''admin@localhost'' = ''admin@localhost''"
    "get_admin_user_by_email sample_auth_env ''admin@localhost'' empty_auth_db = None"
    "''admin@localhost'' \<notin> au_email ` set (ad_users empty_auth_db)"
    "hash_password sample_auth_env ''s'' ''pw'' = Inr ''pw''"
    "check_admin_user ''admin@localhost'' (env_or_default password_env ''SEED_ADMIN_NAME'' ''Sentinel Admin'') ''pw'' = None"
    "get_role_by_key (env_or_default password_env ''SEED_ADMIN_ROLE'' ''admin'') empty_auth_db = None"
    by code_simp+
  from provisioning_without_role_strands_the_account [OF this run, of 9 "''u2''" "''s''"] run show ?thesis
    by simp
qed

end
