(* ===== verification/Startup.thy ===== *)
theory Startup
  imports Config_Env
begin

text \<open>
  What a process decides when it starts: its bootstrap configuration (\<^verbatim>\<open>BootstrapConfig\<close> in
  \<^verbatim>\<open>src/config/mod.rs\<close>), the identities of its workers (\<^verbatim>\<open>src/runtime/mod.rs\<close>), and the log files it keeps
  (\<^verbatim>\<open>src/logging/mod.rs\<close>). What it builds from a loaded configuration is in \<open>Processes\<close>.
\<close>

section \<open>Bootstrap configuration\<close>

record bootstrap_config =
  bc_log_dir :: string
  bc_log_level :: string
  bc_log_max_files :: nat

definition default_log_max_files :: nat where
  "default_log_max_files = 30"

text \<open>The word after the first occurrence of a flag that has a word after it.\<close>

fun flag_value :: "string \<Rightarrow> string list \<Rightarrow> string option" where
  "flag_value flag (a # b # rest) = (if a = flag then Some b else flag_value flag (b # rest))"
| "flag_value flag _ = None"

definition or_option :: "'a option \<Rightarrow> 'a option \<Rightarrow> 'a option" where
  "or_option x y = (case x of None \<Rightarrow> y | Some _ \<Rightarrow> x)"

definition parse_usize :: "string \<Rightarrow> nat option" where
  "parse_usize = parse_unsigned u64_max"

definition from_sources :: "string list \<Rightarrow> string option \<Rightarrow> string option \<Rightarrow> string option \<Rightarrow> bootstrap_config" where
  "from_sources args env_log_dir env_log_level env_log_max_files =
     \<lparr>bc_log_dir = unwrap_or (or_option (flag_value ''--log-dir'' args) env_log_dir) ''./logs'',
      bc_log_level = unwrap_or (or_option (flag_value ''--log-level'' args) env_log_level) ''info'',
      bc_log_max_files =
        unwrap_or (or_option (Option.bind (flag_value ''--log-max-files'' args) parse_usize)
                     (Option.bind env_log_max_files parse_usize))
          default_log_max_files\<rparr>"

definition from_args_and_env :: "string list \<Rightarrow> env \<Rightarrow> bootstrap_config" where
  "from_args_and_env argv get_env =
     from_sources (tl argv) (env_ok (get_env ''LOG_DIR'')) (env_ok (get_env ''LOG_LEVEL'')) (env_ok (get_env ''LOG_MAX_FILES''))"

section \<open>Workers\<close>

fun sanitize_loop :: "bool \<Rightarrow> string \<Rightarrow> string" where
  "sanitize_loop last_was_separator [] = []"
| "sanitize_loop last_was_separator (c # cs) =
     (if is_ascii_alphanumeric c then to_ascii_lower c # sanitize_loop False cs
      else if \<not> last_was_separator then CHR ''-'' # sanitize_loop True cs
      else sanitize_loop last_was_separator cs)"

definition sanitize_worker_id_component :: "string \<Rightarrow> string" where
  "sanitize_worker_id_component value = trim_matches CHR ''-'' (sanitize_loop False value)"

definition detect_hostname :: "env \<Rightarrow> string option" where
  "detect_hostname get_env =
     or_option (option_filter (\<lambda>v. trim v \<noteq> []) (env_ok (get_env ''HOSTNAME'')))
       (option_filter (\<lambda>v. trim v \<noteq> []) (env_ok (get_env ''COMPUTERNAME'')))"

definition padded_hex :: "nat \<Rightarrow> nat \<Rightarrow> string" where
  "padded_hex width n = (let s = show_hex n in replicate (width - length s) CHR ''0'' @ s)"

definition build_worker_process_identity :: "env \<Rightarrow> nat \<Rightarrow> nat \<Rightarrow> string" where
  "build_worker_process_identity get_env pid random =
     (let hostname = unwrap_or (option_filter (\<lambda>v. v \<noteq> [])
            (map_option sanitize_worker_id_component (detect_hostname get_env))) ''unknown-host''
      in hostname @ ''-'' @ show_nat pid @ ''-'' @ padded_hex 16 random)"

definition build_worker_id :: "nat \<Rightarrow> string \<Rightarrow> string" where
  "build_worker_id worker_index identity = ''site-worker-'' @ show_nat worker_index @ ''-'' @ identity"

text \<open>The identities \<^verbatim>\<open>run_worker\<close> hands to the workers it spawns.\<close>

definition run_worker_ids :: "nat \<Rightarrow> string \<Rightarrow> string list" where
  "run_worker_ids site_worker_count identity = map (\<lambda>i. build_worker_id i identity) [0..<site_worker_count]"

section \<open>Log files\<close>

definition log_filename_prefix :: string where
  "log_filename_prefix = ''site_monitor.log''"

text \<open>The directory as the names of its entries; it may be unreadable. A file that cannot be removed stays.\<close>

definition prune_old_log_files :: "(string \<Rightarrow> bool) \<Rightarrow> nat \<Rightarrow> string list option \<Rightarrow> string list option" where
  "prune_old_log_files removable max_files dir =
     (if max_files = 0 then dir
      else case dir of
        None \<Rightarrow> None
      | Some names \<Rightarrow>
          (let log_files = sort (filter (\<lambda>n. strip_prefix log_filename_prefix n \<noteq> None) names);
               excess = take (length log_files - max_files) log_files
           in Some (filter (\<lambda>n. \<not> (n \<in> set excess \<and> removable n)) names)))"

section \<open>Properties\<close>

lemma show_nat_inj: "show_nat i = show_nat j \<longleftrightarrow> i = j"
  by (metis parse_digits_show_nat option.inject)

lemma digits_before_dash:
  assumes "show_nat i @ CHR ''-'' # x = show_nat j @ CHR ''-'' # y"
  shows "i = j"
proof -
  have "takeWhile is_ascii_digit (show_nat n @ CHR ''-'' # z) = show_nat n" for n z
    using show_nat_digits [of n]
    by (subst takeWhile_append2) (auto simp: list_all_iff is_ascii_digit_def char_code_def)
  then have "show_nat i = show_nat j"
    using assms by metis
  then show ?thesis
    by (simp add: show_nat_inj)
qed

text \<open>
  The workers of a process have different identities, so no worker ever owns a claim or a lease of another one
  of its process; the host name in them consists of lower-case letters, digits and single dashes.
\<close>

theorem worker_ids_are_distinct:
  "distinct (run_worker_ids n identity) \<and>
   list_all (\<lambda>c. is_ascii_lowercase c \<or> is_ascii_digit c \<or> c = CHR ''-'') (sanitize_worker_id_component host)"
proof
  have "inj_on (\<lambda>i. build_worker_id i identity) {0..<n}"
    by (rule inj_onI) (auto simp: build_worker_id_def show_nat_inj dest: digits_before_dash)
  then show "distinct (run_worker_ids n identity)"
    by (simp add: run_worker_ids_def distinct_map)
next
  have "list_all (\<lambda>c. is_ascii_lowercase c \<or> is_ascii_digit c \<or> c = CHR ''-'') (sanitize_loop b s)" for b s
  proof (induction b s rule: sanitize_loop.induct)
    case (2 b c cs)
    have "is_ascii_lowercase (to_ascii_lower c) \<or> is_ascii_digit (to_ascii_lower c)" if "is_ascii_alphanumeric c"
      using that by (auto simp: is_ascii_alphanumeric_def to_ascii_lower_def is_ascii_lowercase_def is_ascii_uppercase_def
          is_ascii_digit_def char_code_def Let_def)
    then show ?case using 2 by auto
  qed simp
  moreover have "set (sanitize_worker_id_component host) \<subseteq> set (sanitize_loop False host)"
    by (auto simp: sanitize_worker_id_component_def trim_matches_def trim_end_matches_def dest!: set_dropWhileD)
  ultimately show "list_all (\<lambda>c. is_ascii_lowercase c \<or> is_ascii_digit c \<or> c = CHR ''-'') (sanitize_worker_id_component host)"
    unfolding list_all_iff by (meson subsetD)
qed

text \<open>
  Pruning leaves at most the configured number of log files when all can be removed, only log files are
  removed, and every removed one sorts before every log file that is kept; a limit of zero means no limit.
\<close>

theorem pruning_keeps_newest_log_files:
  assumes "distinct names" "prune_old_log_files removable max_files (Some names) = Some kept"
  shows "if max_files = 0 then kept = names
    else (list_all removable names \<longrightarrow> length (filter (\<lambda>n. strip_prefix log_filename_prefix n \<noteq> None) kept) \<le> max_files) \<and>
      (\<forall>r \<in> set names - set kept. strip_prefix log_filename_prefix r \<noteq> None \<and>
        (\<forall>k \<in> set kept. strip_prefix log_filename_prefix k \<noteq> None \<and> removable k \<longrightarrow> r \<le> k))"
proof (cases "max_files = 0")
  case True
  then show ?thesis using assms(2) by (simp add: prune_old_log_files_def)
next
  case False
  let ?log = "\<lambda>n. strip_prefix log_filename_prefix n \<noteq> None"
  define L where "L = sort (filter ?log names)"
  define k where "k = length L - max_files"
  have kept: "kept = filter (\<lambda>n. \<not> (n \<in> set (take k L) \<and> removable n)) names"
    using assms(2) False by (simp add: prune_old_log_files_def Let_def L_def k_def)
  have "distinct L"
    using assms(1) by (simp add: L_def)
  have halves: "filter (\<lambda>n. n \<notin> set (take k L)) L = drop k L"
  proof -
    have "filter (\<lambda>n. n \<notin> set (take k L)) (take k L @ drop k L) = drop k L"
      using \<open>distinct L\<close> set_take_disj_set_drop_if_distinct [of L k k]
      by (subst filter_append) (auto simp: filter_empty_conv filter_id_conv)
    then show ?thesis by simp
  qed
  have count: "length (filter ?log kept) \<le> max_files" if "list_all removable names"
  proof -
    have "filter ?log kept = filter (\<lambda>n. n \<notin> set (take k L)) (filter ?log names)"
      using that by (auto simp: kept list_all_iff intro!: filter_cong)
    then have "length (filter ?log kept) = length (filter (\<lambda>n. n \<notin> set (take k L)) L)"
      by (simp add: L_def filter_sort)
    then show ?thesis
      unfolding halves by (simp add: k_def)
  qed
  have le: "r \<le> n" if "r \<in> set (take k L)" "n \<in> set L" "n \<notin> set (take k L)" for r n
  proof -
    have "sorted (take k L @ drop k L)" by (simp add: L_def)
    moreover have "n \<in> set (drop k L)"
      using that(2,3) by (metis Un_iff append_take_drop_id set_append)
    ultimately show ?thesis
      using that(1) by (auto simp only: sorted_append)
  qed
  have log: "n \<in> set L \<longleftrightarrow> n \<in> set names \<and> ?log n" for n
    by (simp add: L_def)
  have "?log r \<and> (\<forall>n \<in> set kept. ?log n \<and> removable n \<longrightarrow> r \<le> n)" if "r \<in> set names - set kept" for r
  proof -
    have r: "r \<in> set (take k L)"
      using that unfolding kept by simp
    have "r \<le> n" if n: "n \<in> set kept" "?log n" "removable n" for n
    proof (rule le [OF r])
      show "n \<in> set L" "n \<notin> set (take k L)"
        using n log [of n] unfolding kept by simp_all
    qed
    then show ?thesis
      using in_set_takeD [OF r] log [of r] by blast
  qed
  then show ?thesis
    using False count by simp
qed

theorem pruning_keeps_newest_log_files_witness:
  "prune_old_log_files (\<lambda>_. True) 1 (Some [''site_monitor.log.2'', ''x'', ''site_monitor.log.1'']) =
     Some [''site_monitor.log.2'', ''x''] \<and>
   length (filter (\<lambda>n. strip_prefix log_filename_prefix n \<noteq> None) [''site_monitor.log.2'', ''x'']) \<le> 1"
proof -
  have "prune_old_log_files (\<lambda>_. True) 1 (Some [''site_monitor.log.2'', ''x'', ''site_monitor.log.1'']) =
      Some [''site_monitor.log.2'', ''x'']"
    by code_simp
  moreover from pruning_keeps_newest_log_files [OF _ this] have
    "length (filter (\<lambda>n. strip_prefix log_filename_prefix n \<noteq> None) [''site_monitor.log.2'', ''x'']) \<le> 1"
    by (simp del: filter.simps)
  ultimately show ?thesis by simp
qed

end
