(* ===== verification/Accounts.thy ===== *)
theory Accounts
  imports Admin_Api Provisioning
begin

text \<open>
  What the tables of accounts satisfy whatever is called: ids and token hashes are unique, every token has an owner,
  and the next id of a table is fresh. With it goes the calculus of what a composed call maintains.
\<close>

section \<open>Calls that maintain an invariant\<close>

definition maintains :: "('s \<Rightarrow> bool) \<Rightarrow> ('s, 'e, 'a) call \<Rightarrow> bool" where
  "maintains I m \<longleftrightarrow> (\<forall>s. I s \<longrightarrow> I (snd (m s)))"

definition stmt_maintains :: "('s \<Rightarrow> bool) \<Rightarrow> ('s, 'a) stmt \<Rightarrow> bool" where
  "stmt_maintains I m \<longleftrightarrow> (\<forall>s x s'. I s \<longrightarrow> m s = Inr (x, s') \<longrightarrow> I s')"

named_theorems maintain_rules

lemma maintains_bind [maintain_rules]:
  "\<lbrakk>maintains I m; \<And>x. maintains I (k x)\<rbrakk> \<Longrightarrow> maintains I (svc_bind m k)"
  unfolding maintains_def svc_bind_def by (fastforce split: prod.splits sum.splits)

lemma maintains_steps [maintain_rules]:
  "maintains I (svc_return x)" "maintains I (svc_result r)" "maintains I (svc_fail e)" "maintains I (svc_read f)"
  "stmt_maintains I st \<Longrightarrow> maintains I (svc_stmt st)"
  "maintains I n \<Longrightarrow> maintains I (svc_map_err g n)"
  "maintains I t \<Longrightarrow> maintains I (in_transaction t)"
  by (auto simp: maintains_def stmt_maintains_def svc_stmt_def svc_map_err_def in_transaction_def split: sum.splits prod.splits)

lemma maintains_cases [maintain_rules]:
  "\<lbrakk>b \<Longrightarrow> maintains I m; \<not> b \<Longrightarrow> maintains I n\<rbrakk> \<Longrightarrow> maintains I (if b then m else n)"
  "\<lbrakk>v = None \<Longrightarrow> maintains I m; \<And>x. v = Some x \<Longrightarrow> maintains I (k x)\<rbrakk>
    \<Longrightarrow> maintains I (case v of None \<Rightarrow> m | Some x \<Rightarrow> k x)"
  "(\<And>x y. p = (x, y) \<Longrightarrow> maintains I (h x y)) \<Longrightarrow> maintains I (case p of (x, y) \<Rightarrow> h x y)"
  by (auto split: option.split prod.split)

lemma maintains_reads_only: "reads_only m \<Longrightarrow> maintains I m"
  by (simp add: maintains_def reads_only_def)

lemma maintains_run: "maintains I m \<Longrightarrow> I s \<Longrightarrow> m s = (r, s') \<Longrightarrow> I s'"
  unfolding maintains_def by (metis snd_conv)

lemma stmt_maintains_bind [maintain_rules]:
  "\<lbrakk>stmt_maintains I m; \<And>x. stmt_maintains I (k x)\<rbrakk> \<Longrightarrow> stmt_maintains I (stmt_bind m k)"
  unfolding stmt_maintains_def stmt_bind_Inr_iff by blast

lemma stmt_maintains_return [maintain_rules]: "stmt_maintains I (stmt_return x)"
  by (simp add: stmt_maintains_def stmt_return_def)

lemma stmt_maintains_after: "stmt_maintains I m \<Longrightarrow> (\<And>d. I d \<Longrightarrow> I (f d)) \<Longrightarrow> stmt_maintains I (\<lambda>d. m (f d))"
  unfolding stmt_maintains_def by blast

section \<open>The invariant\<close>

definition accounts_ok :: "auth_db \<Rightarrow> bool" where
  "accounts_ok d \<longleftrightarrow> auth_db_ok d \<and>
     list_all (\<lambda>c. ac_id c < ad_next_client d) (ad_clients d) \<and>
     list_all (\<lambda>u. au_id u < ad_next_user d) (ad_users d) \<and>
     list_all (\<lambda>t. at_id t < ad_next_admin_token d) (ad_admin_tokens d)"

text \<open>The invariant looks at the keys of four tables and their next ids.\<close>

definition account_keys where
  "account_keys d =
     ((map (\<lambda>c. (ac_id c, ac_client_id c)) (ad_clients d), ad_next_client d),
      (map au_id (ad_users d), ad_next_user d),
      (map (\<lambda>t. (at_id t, at_token_hash t, at_owner t)) (ad_tokens d), ad_next_token d),
      (map (\<lambda>t. (at_id t, at_token_hash t, at_owner t)) (ad_admin_tokens d), ad_next_admin_token d))"

lemma key_maps:
  "map f xs = map f ys \<Longrightarrow> (\<And>x. g x = h (f x)) \<Longrightarrow> map g xs = map g ys"
  by (simp add: list_eq_iff_nth_eq)

lemma accounts_ok_keys:
  assumes "account_keys d' = account_keys d" "accounts_ok d"
  shows "accounts_ok d'"
proof -
  note keys = assms(1) [unfolded account_keys_def prod.inject]
  have c: "map ac_id (ad_clients d') = map ac_id (ad_clients d)"
    "map ac_client_id (ad_clients d') = map ac_client_id (ad_clients d)"
    using keys by (auto intro: key_maps [where h = fst] key_maps [where h = snd])
  have t: "map at_id (ad_tokens d') = map at_id (ad_tokens d)"
    "map at_token_hash (ad_tokens d') = map at_token_hash (ad_tokens d)"
    "map at_owner (ad_tokens d') = map at_owner (ad_tokens d)"
    "map at_id (ad_admin_tokens d') = map at_id (ad_admin_tokens d)"
    "map at_token_hash (ad_admin_tokens d') = map at_token_hash (ad_admin_tokens d)"
    "map at_owner (ad_admin_tokens d') = map at_owner (ad_admin_tokens d)"
    using keys by (auto intro: key_maps [where h = fst] key_maps [where h = "fst \<circ> snd"] key_maps [where h = "snd \<circ> snd"])
  have u: "map au_id (ad_users d') = map au_id (ad_users d)"
    using keys by simp
  have ok: "accounts_ok x \<longleftrightarrow>
      (distinct (map ac_id (ad_clients x)) \<and> distinct (map au_id (ad_users x)) \<and> distinct (map ac_client_id (ad_clients x)) \<and>
       distinct (map at_id (ad_tokens x)) \<and> distinct (map at_id (ad_admin_tokens x)) \<and>
       distinct (map at_token_hash (ad_tokens x)) \<and> distinct (map at_token_hash (ad_admin_tokens x)) \<and>
       set (map at_owner (ad_tokens x)) \<subseteq> set (map ac_id (ad_clients x)) \<and>
       set (map at_owner (ad_admin_tokens x)) \<subseteq> set (map au_id (ad_users x)) \<and>
       list_all (\<lambda>i. i < ad_next_token x) (map at_id (ad_tokens x))) \<and>
      list_all (\<lambda>i. i < ad_next_client x) (map ac_id (ad_clients x)) \<and>
      list_all (\<lambda>i. i < ad_next_user x) (map au_id (ad_users x)) \<and>
      list_all (\<lambda>i. i < ad_next_admin_token x) (map at_id (ad_admin_tokens x))" for x
    by (simp add: accounts_ok_def auth_db_ok_def list.pred_map o_def)
  show ?thesis
    using assms(2) keys unfolding ok c t u by simp
qed

lemma maintains_accounts_keys:
  "(\<And>d x d'. m d = Inr (x, d') \<Longrightarrow> account_keys d' = account_keys d) \<Longrightarrow> stmt_maintains accounts_ok m"
  unfolding stmt_maintains_def using accounts_ok_keys by blast

section \<open>Statements\<close>

lemma updated_keys:
  "(\<And>x. k (f x) = k x) \<Longrightarrow> map k (update_rows p f xs) = map k xs"
  by (simp add: update_rows_map o_def)

lemmas account_rows = upsert_client_row_def update_client_row_def revoke_token_row_def update_user_row_def upsert_user_row_def

lemma client_statements [maintain_rules]:
  "stmt_maintains accounts_ok (update_api_client_last_used now i)"
  "stmt_maintains accounts_ok (create_api_client_scope now i scope)"
  "stmt_maintains accounts_ok (update_api_client now i name description active)"
  "stmt_maintains accounts_ok (rotate_api_client_secret now i hash pre)"
  "stmt_maintains accounts_ok (insert_client_scope now i scope)"
  "stmt_maintains accounts_ok (update_access_token_last_used now i)"
  "stmt_maintains accounts_ok (revoke_access_token now i reason)"
  by (rule maintains_accounts_keys, auto simp: update_api_client_last_used_def create_api_client_scope_def
      update_api_client_def rotate_api_client_secret_def insert_client_scope_def update_access_token_last_used_def
      revoke_access_token_def account_keys_def account_rows updated_keys Let_def split: if_splits option.splits)+

lemma scope_statements [maintain_rules]:
  "stmt_maintains accounts_ok (insert_client_scopes now i scopes)"
  "stmt_maintains accounts_ok (replace_api_client_scopes now i scopes)"
proof -
  show ins: "stmt_maintains accounts_ok (insert_client_scopes now i scopes)"
    by (induction scopes) (simp_all only: insert_client_scopes.simps maintain_rules)
  have "accounts_ok (d\<lparr>ad_scopes := r\<rparr>)" if "accounts_ok d" for d r
    by (rule accounts_ok_keys [OF _ that]) (simp add: account_keys_def)
  with ins show "stmt_maintains accounts_ok (replace_api_client_scopes now i scopes)"
    by (auto simp: stmt_maintains_def replace_api_client_scopes_def)
qed

lemma audit_statements [maintain_rules]:
  "stmt_maintains accounts_ok (create_api_client_audit_log env now n)"
  "stmt_maintains accounts_ok (create_admin_auth_audit_log env now n)"
  by (rule maintains_accounts_keys, auto simp: create_api_client_audit_log_def create_admin_auth_audit_log_def
      account_keys_def Let_def and_then_def split: if_splits sum.splits)+

lemma admin_statements [maintain_rules]:
  "stmt_maintains accounts_ok (update_admin_access_token_last_used now i)"
  "stmt_maintains accounts_ok (revoke_admin_access_token now i reason)"
  "stmt_maintains accounts_ok (update_admin_user_stmt now i up)"
  "stmt_maintains accounts_ok (update_admin_user_in_tx now i up)"
  "stmt_maintains accounts_ok (update_admin_user_last_login now i)"
  by (rule maintains_accounts_keys, auto simp: update_admin_access_token_last_used_def revoke_admin_access_token_def
      update_admin_user_stmt_def update_admin_user_in_tx_def update_admin_user_last_login_def account_keys_def account_rows
      updated_keys split: if_splits option.splits)+

lemma role_statements [maintain_rules]:
  "stmt_maintains accounts_ok (create_role_stmt now key name description)"
  "stmt_maintains accounts_ok (update_role_stmt now i name description)"
  "stmt_maintains accounts_ok (delete_role_stmt i)"
  "stmt_maintains accounts_ok (assign_role_to_admin_user now u r)"
  "stmt_maintains accounts_ok (insert_role_permission now r p)"
  by (rule maintains_accounts_keys, auto simp: create_role_stmt_def update_role_stmt_def delete_role_stmt_def
      assign_role_to_admin_user_def insert_role_permission_def account_keys_def Let_def split: if_splits option.splits)+

lemma link_statements [maintain_rules]:
  "stmt_maintains accounts_ok (replace_roles_for_admin_user now u rs)"
  "stmt_maintains accounts_ok (replace_roles_for_admin_user_in_tx now u rs)"
  "stmt_maintains accounts_ok (replace_permissions_for_role now r ps)"
proof -
  have roles: "stmt_maintains accounts_ok (insert_user_roles now u rs)" for rs
    by (induction rs) (simp_all only: insert_user_roles.simps maintain_rules)
  have perms: "stmt_maintains accounts_ok (insert_role_permissions now r ps)" for ps
    by (induction ps) (simp_all only: insert_role_permissions.simps maintain_rules)
  have ok: "accounts_ok d \<Longrightarrow> accounts_ok (d\<lparr>ad_user_roles := x\<rparr>)" "accounts_ok d \<Longrightarrow> accounts_ok (d\<lparr>ad_role_permissions := y\<rparr>)" for d x y
    by (erule accounts_ok_keys [rotated], simp add: account_keys_def)+
  show "stmt_maintains accounts_ok (replace_roles_for_admin_user now u rs)"
    "stmt_maintains accounts_ok (replace_roles_for_admin_user_in_tx now u rs)"
    "stmt_maintains accounts_ok (replace_permissions_for_role now r ps)"
    unfolding replace_roles_for_admin_user_in_tx_def replace_roles_for_admin_user_def [abs_def]
      replace_permissions_for_role_def [abs_def]
    by (rule stmt_maintains_after [OF roles] stmt_maintains_after [OF perms], erule ok)+
qed

text \<open>Insertions and deletions.\<close>

lemma fresh_id: "list_all (\<lambda>x. k x < (n :: id)) xs \<Longrightarrow> n \<notin> k ` set xs"
  by (fastforce simp: list_all_iff)

lemma later_ids: "list_all (\<lambda>x. k x < n) xs \<Longrightarrow> list_all (\<lambda>x. k x \<le> (n :: id)) xs"
  by (fastforce simp: list_all_iff)

text \<open>The states after an insertion.\<close>

lemma inserted_rows:
  assumes "accounts_ok d"
  shows "ac_id c = ad_next_client d \<Longrightarrow> ac_client_id c \<notin> ac_client_id ` set (ad_clients d) \<Longrightarrow>
      accounts_ok (d\<lparr>ad_clients := ad_clients d @ [c], ad_next_client := ad_next_client d + 1\<rparr>)"
    and "au_id u = ad_next_user d \<Longrightarrow>
      accounts_ok (d\<lparr>ad_users := ad_users d @ [u], ad_next_user := ad_next_user d + 1\<rparr>)"
    and "at_id t = ad_next_token d \<Longrightarrow> at_token_hash t \<notin> at_token_hash ` set (ad_tokens d) \<Longrightarrow>
      at_owner t \<in> ac_id ` set (ad_clients d) \<Longrightarrow>
      accounts_ok (d\<lparr>ad_tokens := ad_tokens d @ [t], ad_next_token := ad_next_token d + 1\<rparr>)"
    and "at_id t = ad_next_admin_token d \<Longrightarrow> at_token_hash t \<notin> at_token_hash ` set (ad_admin_tokens d) \<Longrightarrow>
      at_owner t \<in> au_id ` set (ad_users d) \<Longrightarrow>
      accounts_ok (d\<lparr>ad_admin_tokens := ad_admin_tokens d @ [t], ad_next_admin_token := ad_next_admin_token d + 1\<rparr>)"
  using assms fresh_id [of ac_id "ad_next_client d" "ad_clients d"] fresh_id [of au_id "ad_next_user d" "ad_users d"]
    fresh_id [of at_id "ad_next_token d" "ad_tokens d"] fresh_id [of at_id "ad_next_admin_token d" "ad_admin_tokens d"]
  by (simp_all add: accounts_ok_def auth_db_ok_def later_ids subset_insertI2)

lemma insert_statements [maintain_rules]:
  "stmt_maintains accounts_ok (create_api_client now uuid nc)"
  "stmt_maintains accounts_ok (insert_admin_user now uuid nu)"
  "stmt_maintains accounts_ok (create_admin_user_in_tx now uuid nu)"
  by (simp_all add: stmt_maintains_def create_api_client_def insert_admin_user_def create_admin_user_in_tx_def Let_def
      inserted_rows split: option.split)

lemma token_statements [maintain_rules]:
  "stmt_maintains accounts_ok (create_access_token now nt)"
  "stmt_maintains accounts_ok (create_admin_access_token now nt)"
  by (simp_all add: stmt_maintains_def create_access_token_def create_admin_access_token_def Let_def token_row_def inserted_rows)

lemma upsert_statements [maintain_rules]:
  "stmt_maintains accounts_ok (upsert_api_client now uuid nc)"
  "stmt_maintains accounts_ok (upsert_admin_user now uuid nu)"
proof -
  have upd: "accounts_ok (d\<lparr>ad_clients := update_rows p (upsert_client_row now nc) (ad_clients d)\<rparr>)"
    "accounts_ok (d\<lparr>ad_users := update_rows q (upsert_user_row now nu) (ad_users d)\<rparr>)" if "accounts_ok d" for d p q
    by (rule accounts_ok_keys [OF _ that], simp add: account_keys_def account_rows updated_keys)+
  have ins: "create_api_client now uuid nc d = Inr (c, d') \<Longrightarrow> accounts_ok d'"
    "insert_admin_user now uuid nu d = Inr (u, d') \<Longrightarrow> accounts_ok d'" if "accounts_ok d" for d d' c u
    using insert_statements(1,2) that unfolding stmt_maintains_def by blast+
  show "stmt_maintains accounts_ok (upsert_api_client now uuid nc)"
    unfolding stmt_maintains_def upsert_api_client_def Let_def
    by (intro allI impI) (split if_split_asm option.split_asm, blast dest: ins(1), auto dest: ins(1) upd(1) split: option.split_asm)
  show "stmt_maintains accounts_ok (upsert_admin_user now uuid nu)"
    unfolding stmt_maintains_def upsert_admin_user_def Let_def
    by (intro allI impI) (split option.split_asm, auto dest: ins(2) upd(2) split: option.split_asm)
qed

lemma distinct_delete: "distinct (map k xs) \<Longrightarrow> distinct (map k (delete_rows p xs))"
  by (simp add: delete_rows_def distinct_map_filter)

lemma fewer_rows: "list_all q xs \<Longrightarrow> list_all q (delete_rows p xs)"
  by (auto simp: list_all_iff delete_rows_def)

lemma owners_left:
  assumes "at_owner ` set ts \<subseteq> k ` set os" "\<And>t. t \<in> set ts \<Longrightarrow> at_owner t = i \<Longrightarrow> p t"
  shows "at_owner ` set (delete_rows p ts) \<subseteq> k ` set (delete_rows (\<lambda>x. k x = i) os)"
  using assms by (fastforce simp: delete_rows_def image_iff)

lemma delete_statements [maintain_rules]:
  "stmt_maintains accounts_ok (delete_api_client i)"
  "stmt_maintains accounts_ok (delete_admin_user_stmt i)"
proof -
  have "accounts_ok (d\<lparr>ad_clients := delete_rows (\<lambda>c. ac_id c = i) (ad_clients d), ad_scopes := s,
      ad_tokens := delete_rows (\<lambda>t. at_owner t = i \<and> list_ex (\<lambda>c. ac_id c = i) (ad_clients d)) (ad_tokens d),
      ad_client_logs := l\<rparr>)" if "accounts_ok d" for d s l
  proof -
    have "at_owner ` set (ad_tokens d) \<subseteq> ac_id ` set (ad_clients d)"
      using that by (simp add: accounts_ok_def auth_db_ok_def)
    moreover from this have "at_owner t = i \<Longrightarrow> list_ex (\<lambda>c. ac_id c = i) (ad_clients d)" if "t \<in> set (ad_tokens d)" for t
      using that by (fastforce simp: list_ex_iff)
    ultimately show ?thesis
      using that owners_left [of "ad_tokens d" ac_id "ad_clients d" i "\<lambda>t. at_owner t = i \<and> list_ex (\<lambda>c. ac_id c = i) (ad_clients d)"]
      by (simp add: accounts_ok_def auth_db_ok_def distinct_delete fewer_rows)
  qed
  then show "stmt_maintains accounts_ok (delete_api_client i)"
    by (auto simp: stmt_maintains_def delete_api_client_def)
  have "accounts_ok (d\<lparr>ad_users := delete_rows (\<lambda>u. au_id u = i) (ad_users d), ad_user_roles := s,
      ad_admin_tokens := delete_rows (\<lambda>t. at_owner t = i) (ad_admin_tokens d), ad_admin_logs := l\<rparr>)" if "accounts_ok d" for d s l
    using that owners_left [of "ad_admin_tokens d" au_id "ad_users d" i "\<lambda>t. at_owner t = i"]
    by (simp add: accounts_ok_def auth_db_ok_def distinct_delete fewer_rows)
  then show "stmt_maintains accounts_ok (delete_admin_user_stmt i)"
    by (auto simp: stmt_maintains_def delete_admin_user_stmt_def split: option.splits)
qed

section \<open>The services\<close>

lemma audit_services [maintain_rules]:
  "maintains accounts_ok (write_audit_log env now owner action ip ua)"
  "maintains accounts_ok (write_auth_failed_audit env now client ip ua)"
  "maintains accounts_ok (write_admin_auth_audit_log env now n)"
  "maintains accounts_ok (write_admin_auth_failed_audit env now u email ip ua)"
  unfolding write_auth_failed_audit_def write_audit_log_def write_admin_auth_audit_log_def
    write_admin_auth_failed_audit_def Let_def
  by (intro maintain_rules)+

lemma credential_services [maintain_rules]:
  "maintains accounts_ok (authenticate_client_credentials env now cid secret ip ua)"
  "maintains accounts_ok (authenticate_admin_credentials env now email password ip ua)"
  unfolding authenticate_client_credentials_def authenticate_admin_credentials_def load_client_scopes_def Let_def
  by (intro maintain_rules)+

lemma token_services [maintain_rules]:
  "maintains accounts_ok (issue_access_token env config now utc raw cid secret ip ua)"
  "maintains accounts_ok (issue_admin_access_token env config now utc raw email password ip ua)"
  "maintains accounts_ok (revoke_admin_access_token_svc now i reason)"
  "maintains accounts_ok (revoke_access_token_svc env now raw reason ip ua)"
  "maintains accounts_ok (revoke_access_token_by_id env now i c reason ip ua)"
  unfolding issue_access_token_def issue_admin_access_token_def revoke_admin_access_token_svc_def
    revoke_access_token_svc_def revoke_access_token_by_id_def Let_def
  by (intro maintain_rules)+

lemma bearer_services [maintain_rules]:
  "maintains accounts_ok (authenticate_bearer_token env now utc raw ip ua)"
  "maintains accounts_ok (authenticate_admin_bearer_token env now utc raw)"
  "maintains accounts_ok (authenticate_any_bearer_token env now utc raw)"
proof -
  show bearer: "maintains accounts_ok (authenticate_bearer_token env now utc raw ip ua)" for ip ua
    unfolding authenticate_bearer_token_def refuse_bearer_def by (intro maintain_rules)
  show admin: "maintains accounts_ok (authenticate_admin_bearer_token env now utc raw)"
    unfolding authenticate_admin_bearer_token_def by (intro maintain_rules)
  show "maintains accounts_ok (authenticate_any_bearer_token env now utc raw)"
    unfolding authenticate_any_bearer_token_def by (intro maintain_rules bearer admin)
qed

text \<open>The provisioning programs are processes of their own on the same tables.\<close>

lemma provisioning_keeps_accounts:
  "maintains accounts_ok (provision_admin_user env get_env now uuid salt)"
  "maintains accounts_ok (provision_client env get_env now uuid salt)"
  "maintains accounts_ok (seed_admin_role_permissions env get_env now)"
proof -
  have "maintains accounts_ok (create_scopes now c scopes)" for c scopes
    by (induction scopes) (simp_all only: create_scopes.simps maintain_rules)
  then show "maintains accounts_ok (provision_client env get_env now uuid salt)"
    unfolding provision_client_def Let_def by (intro maintain_rules)
  show "maintains accounts_ok (provision_admin_user env get_env now uuid salt)"
    "maintains accounts_ok (seed_admin_role_permissions env get_env now)"
    unfolding provision_admin_user_def seed_admin_role_permissions_def Let_def by (intro maintain_rules)+
qed

section \<open>The handlers\<close>

text \<open>The accounts together with the cache of identities: what is served comes from the recorded tables.\<close>

definition identities_ok :: "('s, 'p) app_config \<Rightarrow> snapshot list \<Rightarrow> ('s, 'p) app_state \<Rightarrow> bool" where
  "identities_ok cfg h a \<longleftrightarrow> accounts_ok (app_auth a) \<and> cache_backed cfg (app_tokens a) h"

lemma identities_steps [maintain_rules]:
  "maintains accounts_ok m \<Longrightarrow> maintains (identities_ok cfg h) (on_auth m)"
  "stmt_maintains accounts_ok st \<Longrightarrow> maintains (identities_ok cfg h) (auth_call st)"
  "maintains (identities_ok cfg h) (auth_query f)"
  "maintains (identities_ok cfg h) (on_db n)"
  "maintains (identities_ok cfg h) (db_call dst)"
  "maintains (identities_ok cfg h) (db_call_unique message dst)"
  "maintains (identities_ok cfg h) (db_query g)"
  "maintains (identities_ok cfg h) (demand perms p)"
  by (auto simp: maintains_def identities_ok_def on_auth_def auth_call_def auth_query_def on_db_def db_call_def
      db_call_unique_def db_query_def demand_def svc_map_err_def svc_stmt_def stmt_maintains_def
      split: prod.splits sum.splits)

lemma identities_on_tokens [maintain_rules]:
  "(\<And>s. cache_backed cfg s h \<Longrightarrow> cache_backed cfg (snd (t s)) h) \<Longrightarrow> maintains (identities_ok cfg h) (on_tokens t)"
  by (simp add: maintains_def identities_ok_def on_tokens_def split: prod.split) (metis snd_conv)

lemma invalidations_backed:
  assumes "lru_map_laws (cfg_token_lru cfg)" "cache_backed cfg s h"
  shows "cache_backed cfg (drop_tokens (cache_of cfg) ts s) h"
    and "cache_backed cfg (invalidate_hashed_token (cache_of cfg) pre hash s) h"
    and "cache_backed cfg (invalidate_raw_token (cache_of cfg) raw s) h"
proof -
  have one: "cache_backed cfg (invalidate_hashed_token (cache_of cfg) pre hash s) h" if "cache_backed cfg s h" for pre hash s
    using cache_backed_invalidate [OF assms(1) that] by (simp add: invalidate_hashed_token_def)
  then show "cache_backed cfg (invalidate_hashed_token (cache_of cfg) pre hash s) h"
    using assms(2) .
  show "cache_backed cfg (drop_tokens (cache_of cfg) ts s) h"
    using assms(2) by (induction ts arbitrary: s) (simp_all add: drop_tokens_def one)
  show "cache_backed cfg (invalidate_raw_token (cache_of cfg) raw s) h"
    using assms(2) cache_backed_invalidate [OF assms]
    by (simp add: invalidate_raw_token_def split: option.split)
qed

lemma auth_handlers_keep_identities:
  assumes "lru_map_laws (cfg_token_lru cfg)"
  shows "maintains (identities_ok cfg h) (issue_token cfg clk raw ctx cid secret)"
    and "maintains (identities_ok cfg h) (revoke_token cfg clk client ctx token reason)"
    and "maintains (identities_ok cfg h) (issue_admin_token cfg clk raw ctx email password)"
    and "maintains (identities_ok cfg h) (logout_admin cfg clk auth)"
    and "maintains (identities_ok cfg h) (get_admin_me cfg auth)"
proof -
  have limit: "maintains (identities_ok cfg h) (enforce_auth_rate_limit bucket ip now)" for bucket ip now
    by (auto simp: maintains_def identities_ok_def enforce_auth_rate_limit_def split: prod.split bool.split)
  show "maintains (identities_ok cfg h) (issue_token cfg clk raw ctx cid secret)"
    "maintains (identities_ok cfg h) (revoke_token cfg clk client ctx token reason)"
    "maintains (identities_ok cfg h) (issue_admin_token cfg clk raw ctx email password)"
    "maintains (identities_ok cfg h) (logout_admin cfg clk auth)"
    "maintains (identities_ok cfg h) (get_admin_me cfg auth)"
    unfolding issue_token_def revoke_token_def issue_admin_token_def logout_admin_def get_admin_me_def
    by (intro maintain_rules limit; simp add: invalidations_backed [OF assms])+
qed

lemma admin_helpers_keep_identities:
  assumes "lru_map_laws (cfg_token_lru cfg)"
  shows "maintains (identities_ok cfg h) (invalidate_tokens_for_user cfg clk u)"
    and "maintains (identities_ok cfg h) (invalidate_tokens_for_users cfg clk us)"
    and "maintains (identities_ok cfg h) (scopes_of_clients cfg cs)"
proof -
  show one: "maintains (identities_ok cfg h) (invalidate_tokens_for_user cfg clk u)" for u
    unfolding invalidate_tokens_for_user_def by (intro maintain_rules; simp add: invalidations_backed [OF assms])
  show "maintains (identities_ok cfg h) (invalidate_tokens_for_users cfg clk us)"
    by (induction us) (simp_all only: invalidate_tokens_for_users.simps maintain_rules one)
  show "maintains (identities_ok cfg h) (scopes_of_clients cfg cs)"
    by (rule maintains_reads_only) (rule scopes_of_clients_rules)
qed

lemma admin_calls_keep_identities:
  assumes "lru_map_laws (cfg_token_lru cfg)"
  shows "maintains (identities_ok cfg h) (handle_admin cfg clk auth c)"
  by (cases c; simp only: handle_admin.simps answer_def; unfold handler_defs resolve_role_ids_def resolve_permission_ids_def
      build_managed_admin_user_response_def build_managed_role_response_def client_scopes_def Let_def;
      intro maintain_rules admin_helpers_keep_identities [OF assms])

end
