(* ===== verification/Api_Service.thy ===== *)
theory Api_Service
  imports Accounts Site_Api Public_Page Metrics Migrations
begin

text \<open>
  The service as its clients see it (\<^verbatim>\<open>src/api/app.rs\<close>): one constructor per route of the merged routers, served
  by the extractors its handler asks for, in their order, and then by the handler, and the response with the
  headers every response carries. A call is a request the routers matched, with a path, query and body of the
  right form: what axum rejects before any code of the program runs is not modelled.
\<close>

section \<open>Routes\<close>

text \<open>The random texts a handler draws come first, as in the calls of the routers.\<close>

datatype api_call =
    Live
  | Ready
  | Scrape
  | IssueToken string string string
  | RevokeToken string "string option"
  | AdminLogin string string string
  | AdminLogout
  | AdminMe
  | Administration admin_call
  | Monitoring site_call
  | StatusPage string

datatype api_answer =
    AnsLive
  | AnsReady ready_response
  | AnsMetrics string
  | AnsToken issue_token_response
  | AnsRevoked bool
  | AnsLogin "string \<times> issue_admin_token_response"
  | AnsLogout "string \<times> bool"
  | AnsMe admin_session_response
  | AnsAdministration admin_answer
  | AnsMonitoring site_answer
  | AnsPage string

text \<open>What the handlers get besides the state: libraries, and what the process knows of the database.\<close>

record api_libs =
  al_monitor :: monitor_env
  al_channel :: channel_env
  al_metrics :: metrics_env
  al_to_json :: "public_status_page_response \<Rightarrow> string option"
  al_reachable :: bool
  al_schema :: "unit schema_db"

definition answering :: "('a \<Rightarrow> api_answer) \<Rightarrow> ('s, 'p, 'a) handler \<Rightarrow> ('s, 'p, api_answer) handler" where
  "answering f m = svc_bind m (\<lambda>x. svc_return (f x))"

text \<open>A ping of a heartbeat is the one call under \<^verbatim>\<open>/v1\<close> that carries its secret in its path.\<close>

fun is_ping :: "site_call \<Rightarrow> bool" where
  "is_ping (MonitorCall (Ping _)) = True"
| "is_ping _ = False"

fun serve ::
    "('s, 'p) app_config \<Rightarrow> api_libs \<Rightarrow> request_clock \<Rightarrow> request_parts \<Rightarrow> api_call \<Rightarrow> ('s, 'p, api_answer) handler" where
  "serve cfg lib clk parts Live = svc_return AnsLive"
| "serve cfg lib clk parts Ready = svc_return (AnsReady (ready (al_reachable lib) (al_schema lib)))"
| "serve cfg lib clk parts Scrape = answering AnsMetrics (metrics_handler (al_metrics lib) clk)"
| "serve cfg lib clk parts (IssueToken raw client_id client_secret) =
     svc_bind (svc_result (request_context_of cfg parts)) (\<lambda>ctx.
     answering AnsToken (issue_token cfg clk raw ctx client_id client_secret))"
| "serve cfg lib clk parts (RevokeToken token reason) =
     svc_bind (authenticated_api_client_request cfg clk parts) (\<lambda>auth.
     svc_bind (svc_result (request_context_of cfg parts)) (\<lambda>ctx.
     answering AnsRevoked (revoke_token cfg clk auth ctx token reason)))"
| "serve cfg lib clk parts (AdminLogin raw email password) =
     svc_bind (svc_result (request_context_of cfg parts)) (\<lambda>ctx.
     answering AnsLogin (issue_admin_token cfg clk raw ctx email password))"
| "serve cfg lib clk parts AdminLogout =
     svc_bind (authenticated_admin_request cfg clk parts) (\<lambda>auth. answering AnsLogout (logout_admin cfg clk auth))"
| "serve cfg lib clk parts AdminMe =
     svc_bind (authenticated_admin_request cfg clk parts) (\<lambda>auth. answering AnsMe (get_admin_me cfg auth))"
| "serve cfg lib clk parts (Administration c) =
     svc_bind (authenticated_admin_request cfg clk parts) (\<lambda>auth. answering AnsAdministration (handle_admin cfg clk auth c))"
| "serve cfg lib clk parts (Monitoring c) =
     (if is_ping c
      then answering AnsMonitoring (handle_site cfg (al_monitor lib) (al_channel lib) clk {} c)
      else svc_bind (authenticated_request cfg clk parts) (\<lambda>permissions.
        answering AnsMonitoring (handle_site cfg (al_monitor lib) (al_channel lib) clk permissions c)))"
| "serve cfg lib clk parts (StatusPage slug) =
     svc_bind (svc_result (request_context_of cfg parts)) (\<lambda>ctx.
     answering AnsPage (get_public_status_page cfg (al_to_json lib) clk ctx slug))"

section \<open>Responses\<close>

record http_response =
  hr_status :: nat
  hr_headers :: "(string \<times> string) list"
  hr_body :: "json + api_answer"

definition success_status :: "api_call \<Rightarrow> api_answer \<Rightarrow> nat" where
  "success_status c x =
     (case c of
        Ready \<Rightarrow> (case x of AnsReady r \<Rightarrow> nat (rr_code r) | _ \<Rightarrow> 200)
      | Administration ac \<Rightarrow>
          (case ac of
             CreateAdminUser _ _ _ \<Rightarrow> 201 | CreateRole _ \<Rightarrow> 201 | CreateApiClient _ _ _ _ _ \<Rightarrow> 201
           | DeleteApiClient _ \<Rightarrow> 204 | _ \<Rightarrow> 200)
      | Monitoring sc \<Rightarrow>
          (case sc of CreateSite _ \<Rightarrow> 201 | CreateChannel _ _ \<Rightarrow> 201 | _ \<Rightarrow> if is_ping sc then 204 else 200)
      | _ \<Rightarrow> 200)"

definition cursor_header :: "'a page \<Rightarrow> (string \<times> string) list" where
  "cursor_header p = (case snd p of None \<Rightarrow> [] | Some c \<Rightarrow> [(''x-next-cursor'', c)])"

text \<open>
  The cookie of a session and the cursor of the next page travel as headers, and two handlers set the content type;
  the one the framework gives a JSON body is left out.
\<close>

fun answer_headers :: "api_answer \<Rightarrow> (string \<times> string) list" where
  "answer_headers (AnsLogin (cookie, _)) = [(''set-cookie'', cookie)]"
| "answer_headers (AnsLogout (cookie, _)) = [(''set-cookie'', cookie)]"
| "answer_headers (AnsAdministration (AnsIncidents p)) = cursor_header p"
| "answer_headers (AnsMonitoring (AnsSites p)) = cursor_header p"
| "answer_headers (AnsMonitoring (AnsChecks p)) = cursor_header p"
| "answer_headers (AnsMonitoring (AnsSiteIncidents p)) = cursor_header p"
| "answer_headers (AnsMonitoring (AnsDeliveries p)) = cursor_header p"
| "answer_headers (AnsMetrics _) = [(''content-type'', ''text/plain; version=0.0.4; charset=utf-8'')]"
| "answer_headers (AnsPage _) = [(''content-type'', ''application/json'')]"
| "answer_headers _ = []"

definition response_of :: "api_call \<Rightarrow> api_error + api_answer \<Rightarrow> http_response" where
  "response_of c r =
     (case r of
        Inl e \<Rightarrow> \<lparr>hr_status = fst (error_response e), hr_headers = [], hr_body = Inl (snd (error_response e))\<rparr>
      | Inr x \<Rightarrow> \<lparr>hr_status = success_status c x, hr_headers = answer_headers x, hr_body = Inr x\<rparr>)"

text \<open>\<open>SetResponseHeaderLayer::overriding\<close>: the header has this value alone, whatever the response had.\<close>

definition overriding :: "string \<times> string \<Rightarrow> http_response \<Rightarrow> http_response" where
  "overriding h r = r\<lparr>hr_headers := filter (\<lambda>(name, _). name \<noteq> fst h) (hr_headers r) @ [h]\<rparr>"

definition security_headers :: "(string \<times> string) list" where
  "security_headers =
     [(''x-content-type-options'', ''nosniff''), (''x-frame-options'', ''DENY''),
      (''content-security-policy'', ''default-src '' @ [CHR 0x27] @ ''none'' @ [CHR 0x27])]"

definition build_router ::
    "('s, 'p) app_config \<Rightarrow> api_libs \<Rightarrow> request_clock \<Rightarrow> request_parts \<Rightarrow> api_call \<Rightarrow> ('s, 'p) app_state \<Rightarrow>
      http_response \<times> ('s, 'p) app_state" where
  "build_router cfg lib clk parts c a =
     (case serve cfg lib clk parts c a of (r, a') \<Rightarrow> (fold overriding security_headers (response_of c r), a'))"

text \<open>Every response, an error too, carries each of these headers once, with that value.\<close>

lemma responses_carry_security_headers:
  assumes "build_router cfg lib clk parts c a = (resp, a')" "h \<in> set security_headers"
  shows "filter (\<lambda>(name, _). name = fst h) (hr_headers resp) = [h]"
  using assms
  by (cases "serve cfg lib clk parts c a")
    (auto simp: build_router_def security_headers_def overriding_def case_prod_beta filter_empty_conv)

end
