(* ===== verification/Api_Authority.thy ===== *)
theory Api_Authority
  imports Api_Service
begin

text \<open>
  Who can have an effect: over any history of calls, of other processes on the same database and of the caches in
  between, a call takes effect only for a token that the tables granted the needed permissions within the lifetime
  of a cached identity; what anyone may call leaves monitoring and rights as they are.
\<close>

section \<open>Histories\<close>

text \<open>
  The service from its start. A step is a call, of any kind and from anyone, or whatever other processes do to the
  tables (workers, the provisioning programs, other instances of the service), which keeps the constraints of
  the accounts. The history records the instant, the time and the accounts each call saw.
\<close>

inductive api_reach :: "('s, 'p) app_config \<Rightarrow> ('s, 'p) app_state \<Rightarrow> snapshot list \<Rightarrow> bool"
  for cfg :: "('s, 'p) app_config" where
  start: "app_tokens a = with_capacity_and_ttl (cache_of cfg) capacity \<Longrightarrow> accounts_ok (app_auth a) \<Longrightarrow> api_reach cfg a []"
| call: "api_reach cfg a h \<Longrightarrow> serve cfg lib clk parts c a = (r, a') \<Longrightarrow> api_reach cfg a' (snapshot_of clk a # h)"
| others: "api_reach cfg a h \<Longrightarrow> accounts_ok d \<Longrightarrow> api_reach cfg (a\<lparr>app_auth := d, app_db := e\<rparr>) h"

section \<open>Every call keeps the accounts and the cache sound\<close>

text \<open>A handler of the monitoring routes works on the monitoring tables alone.\<close>

definition same_identities :: "('s, 'p) app_state \<Rightarrow> ('s, 'p) app_state \<Rightarrow> bool" where
  "same_identities b a \<longleftrightarrow> app_auth a = app_auth b \<and> app_tokens a = app_tokens b"

lemma same_identities_steps [maintain_rules]:
  "maintains (same_identities b) (on_db n)"
  "maintains (same_identities b) (db_call st)"
  "maintains (same_identities b) (db_call_unique message st)"
  "maintains (same_identities b) (db_query g)"
  "maintains (same_identities b) (demand perms p)"
  by (auto simp: maintains_def same_identities_def on_db_def db_call_def db_call_unique_def db_query_def demand_def
      svc_map_err_def svc_stmt_def split: prod.splits sum.splits)

lemma monitor_helpers_keep [maintain_rules]:
  "maintains (same_identities b) (site_found s)"
  "maintains (same_identities b) (save_heartbeat_monitor now tok s p)"
  "maintains (same_identities b) (close_incidents_of now m)"
  "maintains (same_identities b) (close_unless_active now active m)"
  unfolding site_found_def save_heartbeat_monitor_def close_unless_active_def close_incidents_of_def
  by (intro maintain_rules)+

lemma monitor_calls_keep_identities: "maintains (same_identities b) (handle_monitor cfg env clk perms c)"
  by (cases c; simp only: handle_monitor.simps answer_monitor_def; unfold monitor_handler_defs Let_def;
      intro maintain_rules)

lemma site_calls_keep_identities: "maintains (same_identities b) (handle_site cfg menv cenv clk perms c)"
  by (cases c; simp only: handle_site.simps answer_site_def; (unfold site_handler_defs
      upsert_site_notification_channel_override_def Let_def)?; intro maintain_rules monitor_calls_keep_identities)

lemma page_steps_keep [maintain_rules]:
  "maintains (same_identities b) (enforce_public_rate_limit ip now)"
  "maintains (same_identities b) (on_pages f)"
  by (auto simp: maintains_def same_identities_def enforce_public_rate_limit_def on_pages_def split: prod.split bool.split)

lemma page_keeps_identities: "maintains (same_identities b) (get_public_status_page cfg to_json clk ctx slug)"
  unfolding get_public_status_page_def by (intro maintain_rules)

lemma same_identities_ok:
  assumes "\<And>b. maintains (same_identities b) m"
  shows "maintains (identities_ok cfg h) m"
  unfolding maintains_def
proof (intro allI impI)
  fix a assume "identities_ok cfg h a"
  moreover have "same_identities a (snd (m a))"
    using assms [of a] by (simp add: maintains_def same_identities_def)
  ultimately show "identities_ok cfg h (snd (m a))"
    by (simp add: identities_ok_def same_identities_def)
qed

lemma answering_keeps: "maintains I m \<Longrightarrow> maintains I (answering f m)"
  unfolding answering_def by (intro maintain_rules)

text \<open>The extractors add the tables they read to the history and keep the accounts sound.\<close>

definition auth_state_ok :: "('s, 'p) app_state \<Rightarrow> bool" where
  "auth_state_ok a \<longleftrightarrow> accounts_ok (app_auth a)"

lemma auth_state_steps [maintain_rules]:
  "maintains accounts_ok m \<Longrightarrow> maintains auth_state_ok (on_auth m)"
  "maintains auth_state_ok (on_tokens f)"
  by (auto simp: maintains_def auth_state_ok_def on_auth_def on_tokens_def split: prod.split)

lemma cached_authentication_keeps_accounts [maintain_rules]:
  "maintains auth_state_ok (authenticate_cached_bearer_token cfg clk token)"
  "maintains auth_state_ok (authenticate_cached_admin_bearer_token cfg clk token)"
  unfolding authenticate_cached_bearer_token_def authenticate_cached_admin_bearer_token_def
  by (intro maintain_rules)+

lemma maintains_bearer_cases [maintain_rules]:
  "\<lbrakk>\<And>x. maintains I (f x); \<And>y. maintains I (g y)\<rbrakk> \<Longrightarrow> maintains I (case t of BtcApiClient x \<Rightarrow> f x | BtcAdminUser y \<Rightarrow> g y)"
  "\<lbrakk>\<And>e. maintains I (f' e); \<And>z. maintains I (g' z)\<rbrakk> \<Longrightarrow> maintains I (case r of Inl e \<Rightarrow> f' e | Inr z \<Rightarrow> g' z)"
  by (simp_all split: bearer_token_context.split sum.split)

lemma extractors_keep_accounts:
  "maintains auth_state_ok (authenticated_request cfg clk parts)"
  "maintains auth_state_ok (authenticated_admin_request cfg clk parts)"
  "maintains auth_state_ok (authenticated_api_client_request cfg clk parts)"
  unfolding authenticated_request_def authenticated_admin_request_def authenticated_api_client_request_def
  by (intro maintain_rules)+

lemma identities_ok_auth: "identities_ok cfg h a \<longleftrightarrow> auth_state_ok a \<and> auth_inv cfg a h"
  by (auto simp: identities_ok_def auth_state_ok_def auth_inv_def accounts_ok_def)

lemma extracted:
  assumes "lru_map_laws (cfg_token_lru cfg)" "identities_ok cfg h a"
  shows "authenticated_request cfg clk parts a = (r1, a1) \<Longrightarrow> identities_ok cfg (snapshot_of clk a # h) a1"
    and "authenticated_admin_request cfg clk parts a = (r2, a2) \<Longrightarrow> identities_ok cfg (snapshot_of clk a # h) a2"
    and "authenticated_api_client_request cfg clk parts a = (r3, a3) \<Longrightarrow> identities_ok cfg (snapshot_of clk a # h) a3"
proof -
  note inv = assms(2) [unfolded identities_ok_auth]
  show "identities_ok cfg (snapshot_of clk a # h) a1" if "authenticated_request cfg clk parts a = (r1, a1)"
    using authenticated_request_inv [OF assms(1) _ that] maintains_run [OF extractors_keep_accounts(1) _ that] inv
    by (simp add: identities_ok_auth)
  show "identities_ok cfg (snapshot_of clk a # h) a2" if "authenticated_admin_request cfg clk parts a = (r2, a2)"
    using authenticated_admin_request_inv [OF assms(1) _ that] maintains_run [OF extractors_keep_accounts(2) _ that] inv
    by (simp add: identities_ok_auth)
  show "identities_ok cfg (snapshot_of clk a # h) a3" if "authenticated_api_client_request cfg clk parts a = (r3, a3)"
    using authenticated_api_client_request_inv [OF assms(1) _ that] maintains_run [OF extractors_keep_accounts(3) _ that] inv
    by (simp add: identities_ok_auth)
qed

text \<open>A call that starts with an extractor: what the extractor leaves, the handler keeps.\<close>

lemma after_extractor:
  assumes "svc_bind m k a = (r, a')"
    and "\<And>r1 a1. m a = (r1, a1) \<Longrightarrow> I a1" "\<And>x. maintains I (k x)"
  shows "I a'"
proof -
  obtain r1 a1 where m: "m a = (r1, a1)" by fastforce
  with assms show ?thesis
    by (cases r1) (auto simp: svc_bind_def dest: maintains_run)
qed

lemma serve_keeps_identities:
  assumes laws: "lru_map_laws (cfg_token_lru cfg)" and ok: "identities_ok cfg h a" and run: "serve cfg lib clk parts c a = (r, a')"
  shows "identities_ok cfg (snapshot_of clk a # h) a'"
proof -
  let ?I = "identities_ok cfg (snapshot_of clk a # h)"
  have now: "?I a"
    using ok by (simp add: identities_ok_def cache_backed_mono)
  note keeps = answering_keeps auth_handlers_keep_identities [OF laws] admin_calls_keep_identities [OF laws]
    same_identities_ok [OF site_calls_keep_identities] same_identities_ok [OF page_keeps_identities]
  have plain: "?I a'" if "maintains ?I (serve cfg lib clk parts c)"
    using maintains_run [OF that now run] .
  show ?thesis
  proof (cases c)
    case Scrape
    show ?thesis by (rule plain) (simp add: Scrape metrics_handler_def, intro keeps maintain_rules)
  next
    case (RevokeToken token reason)
    show ?thesis
      by (rule after_extractor [OF run [unfolded RevokeToken serve.simps(5)]]) (erule extracted(3) [OF laws ok], intro keeps maintain_rules)
  next
    case AdminLogout
    show ?thesis
      by (rule after_extractor [OF run [unfolded AdminLogout serve.simps(7)]]) (erule extracted(2) [OF laws ok], intro keeps maintain_rules)
  next
    case AdminMe
    show ?thesis
      by (rule after_extractor [OF run [unfolded AdminMe serve.simps(8)]]) (erule extracted(2) [OF laws ok], intro keeps maintain_rules)
  next
    case (Administration ac)
    show ?thesis
      by (rule after_extractor [OF run [unfolded Administration serve.simps(9)]]) (erule extracted(2) [OF laws ok], intro keeps maintain_rules)
  next
    case (Monitoring sc)
    show ?thesis
    proof (cases "is_ping sc")
      case True
      show ?thesis by (rule plain) (simp add: Monitoring True, intro keeps maintain_rules)
    next
      case False
      show ?thesis
        by (rule after_extractor [OF run [unfolded Monitoring serve.simps(10) if_not_P [OF False]]])
          (erule extracted(1) [OF laws ok], intro keeps maintain_rules)
    qed
  qed (rule plain, simp only: serve.simps, intro keeps maintain_rules)+
qed

lemma api_reach_inv:
  assumes "lru_map_laws (cfg_token_lru cfg)" "api_reach cfg a h"
  shows "identities_ok cfg h a"
  using assms(2)
proof (induction rule: api_reach.induct)
  case (start a capacity)
  have "lru_map_laws (tcc_lib (cache_of cfg))"
    using assms(1) by (simp add: cache_of_def)
  from lru_law_simps(1) [OF this] start show ?case
    by (simp add: identities_ok_def cache_backed_def with_capacity_and_ttl_def cache_of_def)
next
  case (call a h lib clk parts c r a')
  then show ?case using serve_keeps_identities [OF assms(1)] by blast
next
  case (others a h d e)
  then show ?case by (simp add: identities_ok_def)
qed

section \<open>What a call changes that is not authorised\<close>

text \<open>Authenticating changes no table but the times of last use and the log.\<close>

definition harmless :: "('s, 'p) app_state \<Rightarrow> ('s, 'p) app_state \<Rightarrow> bool" where
  "harmless b a \<longleftrightarrow> app_db a = app_db b \<and> same_authority (app_auth b) (app_auth a)"

lemma harmless_refl [simp]: "harmless a a"
  by (simp add: harmless_def)

lemma same_authority_trans: "same_authority d d' \<Longrightarrow> same_authority d' d'' \<Longrightarrow> same_authority d d''"
  by (simp add: same_authority_def)

lemma same_authority_statements [maintain_rules]:
  "stmt_maintains (same_authority d) (update_access_token_last_used now i)"
  "stmt_maintains (same_authority d) (update_api_client_last_used now i)"
  "stmt_maintains (same_authority d) (update_admin_access_token_last_used now i)"
  "stmt_maintains (same_authority d) (create_api_client_audit_log env now n)"
  by (auto simp: stmt_maintains_def same_authority_def update_access_token_last_used_def update_api_client_last_used_def
      update_admin_access_token_last_used_def create_api_client_audit_log_def update_rows_map o_def Let_def and_then_def
      if_distrib split: if_splits sum.splits cong: map_cong)

lemma same_authority_services [maintain_rules]:
  "maintains (same_authority d) (authenticate_bearer_token env now utc raw ip ua)"
  "maintains (same_authority d) (authenticate_admin_bearer_token env now utc raw)"
  unfolding authenticate_bearer_token_def authenticate_admin_bearer_token_def refuse_bearer_def
    write_auth_failed_audit_def write_audit_log_def
  by (intro maintain_rules)+

lemma same_authority_any_bearer [maintain_rules]:
  "maintains (same_authority d) (authenticate_any_bearer_token env now utc raw)"
  unfolding authenticate_any_bearer_token_def by (intro maintain_rules)

lemma maintains_on_auth:
  assumes "maintains J m" "\<And>a. I a \<Longrightarrow> J (app_auth a)" "\<And>a d. I a \<Longrightarrow> J d \<Longrightarrow> I (a\<lparr>app_auth := d\<rparr>)"
  shows "maintains I (on_auth m)"
  unfolding maintains_def on_auth_def using assms by (auto split: prod.split dest: maintains_run)

lemma harmless_steps [maintain_rules]:
  "(\<And>d. maintains (same_authority d) m) \<Longrightarrow> maintains (harmless b) (on_auth m)"
  "maintains (harmless b) (on_tokens f)"
  by (erule meta_allE [of _ "app_auth b"], rule maintains_on_auth)
    (auto simp: maintains_def harmless_def on_tokens_def split: prod.split)

lemma harmless_authentication [maintain_rules]:
  "maintains (harmless b) (authenticate_cached_bearer_token cfg clk token)"
  "maintains (harmless b) (authenticate_cached_admin_bearer_token cfg clk token)"
  unfolding authenticate_cached_bearer_token_def authenticate_cached_admin_bearer_token_def
  by (intro maintain_rules)+

lemma harmless_extractors:
  "maintains (harmless b) (authenticated_request cfg clk parts)"
  "maintains (harmless b) (authenticated_admin_request cfg clk parts)"
  "maintains (harmless b) (authenticated_api_client_request cfg clk parts)"
  unfolding authenticated_request_def authenticated_admin_request_def authenticated_api_client_request_def
  by (intro maintain_rules)+

text \<open>What decides the rights of accounts, besides who may log in.\<close>

definition rights_of :: "auth_db \<Rightarrow> _" where
  "rights_of d = (ad_scopes d, ad_roles d, ad_user_roles d, ad_permissions d, ad_role_permissions d)"

definition keeps_rights :: "('s, 'p) app_state \<Rightarrow> ('s, 'p) app_state \<Rightarrow> bool" where
  "keeps_rights b a \<longleftrightarrow> app_db a = app_db b \<and> rights_of (app_auth a) = rights_of (app_auth b)"

lemma rights_statements [maintain_rules]:
  "stmt_maintains (\<lambda>d. rights_of d = x) (create_access_token now n)"
  "stmt_maintains (\<lambda>d. rights_of d = x) (create_admin_access_token now n)"
  "stmt_maintains (\<lambda>d. rights_of d = x) (update_api_client_last_used now i)"
  "stmt_maintains (\<lambda>d. rights_of d = x) (update_admin_user_last_login now i)"
  "stmt_maintains (\<lambda>d. rights_of d = x) (create_api_client_audit_log env now l)"
  "stmt_maintains (\<lambda>d. rights_of d = x) (create_admin_auth_audit_log env now l)"
  by (auto simp: stmt_maintains_def rights_of_def create_access_token_def create_admin_access_token_def
      update_api_client_last_used_def update_admin_user_last_login_def create_api_client_audit_log_def
      create_admin_auth_audit_log_def Let_def and_then_def split: if_splits sum.splits)

lemma rights_services [maintain_rules]:
  "maintains (\<lambda>d. rights_of d = x) (issue_access_token env config now utc raw cid secret ip ua)"
  "maintains (\<lambda>d. rights_of d = x) (issue_admin_access_token env config now utc raw email password ip ua)"
  unfolding issue_access_token_def issue_admin_access_token_def authenticate_client_credentials_def
    authenticate_admin_credentials_def load_client_scopes_def write_auth_failed_audit_def write_audit_log_def
    write_admin_auth_audit_log_def write_admin_auth_failed_audit_def Let_def
  by (intro maintain_rules)+

lemma keeps_rights_on_auth [maintain_rules]:
  assumes "\<And>x. maintains (\<lambda>d. rights_of d = x) m"
  shows "maintains (keeps_rights b) (on_auth m)"
  by (rule maintains_on_auth [OF assms [of "rights_of (app_auth b)"]]) (simp_all add: keeps_rights_def)

lemma keeps_rights_steps [maintain_rules]:
  "maintains (keeps_rights b) (on_tokens f)"
  "maintains (keeps_rights b) (db_query g)"
  "maintains (keeps_rights b) (enforce_auth_rate_limit bucket ip now)"
  "maintains (keeps_rights b) (enforce_public_rate_limit ip now)"
  "maintains (keeps_rights b) (on_pages p)"
  by (auto simp: maintains_def keeps_rights_def on_tokens_def db_query_def on_db_def
      enforce_auth_rate_limit_def enforce_public_rate_limit_def on_pages_def split: prod.split bool.split)

section \<open>Who can have an effect\<close>

fun open_to_all :: "api_call \<Rightarrow> bool" where
  "open_to_all (RevokeToken _ _) = False"
| "open_to_all AdminLogout = False"
| "open_to_all AdminMe = False"
| "open_to_all (Administration _) = False"
| "open_to_all (Monitoring c) = is_ping c"
| "open_to_all _ = True"

fun call_permissions :: "api_call \<Rightarrow> permission_key list" where
  "call_permissions (Administration c) = [needed_permission c]"
| "call_permissions (Monitoring c) = site_permissions c"
| "call_permissions _ = []"

text \<open>
  The request carries a token, as a bearer or in the cookie of a session, that has not expired and to whose owner,
  active then, the tables granted every permission of the call, in a recorded call not longer ago than the cache keeps
  an identity.
\<close>

definition authorised ::
    "('s, 'p) app_config \<Rightarrow> request_clock \<Rightarrow> request_parts \<Rightarrow> snapshot list \<Rightarrow> api_call \<Rightarrow> bool" where
  "authorised cfg clk parts h c \<longleftrightarrow>
     (\<exists>token ctx. (extract_bearer_token parts = Inr token \<or> extract_admin_session_cookie parts = Inr token) \<and>
        recent_identity cfg clk h token ctx \<and> set (call_permissions c) \<subseteq> context_permissions ctx)"

lemma authorisedI:
  "extract_bearer_token parts = Inr token \<or> extract_admin_session_cookie parts = Inr token \<Longrightarrow>
   recent_identity cfg clk h token ctx \<Longrightarrow> set (call_permissions c) \<subseteq> context_permissions ctx \<Longrightarrow>
   authorised cfg clk parts h c"
  by (auto simp: authorised_def)

lemma open_calls_keep_rights:
  assumes "open_to_all c" "\<not> (\<exists>sc. c = Monitoring sc)"
  shows "maintains (keeps_rights b) (serve cfg lib clk parts c)"
  using assms by (cases c) (simp_all add: answering_def issue_token_def issue_admin_token_def metrics_handler_def
      get_public_status_page_def Let_def maintain_rules)

text \<open>A ping writes to the monitors with its token and to nothing else.\<close>

definition pinged :: "('s, 'p) app_state \<Rightarrow> string \<Rightarrow> ('s, 'p) app_state \<Rightarrow> bool" where
  "pinged b token a \<longleftrightarrow> app_auth a = app_auth b \<and>
     app_db a = (app_db b)\<lparr>db_monitors := db_monitors (app_db a)\<rparr> \<and>
     list_all2 (\<lambda>m m'. m' = m \<or> sm_heartbeat_token m = Some token) (db_monitors (app_db b)) (db_monitors (app_db a))"

fun open_effect :: "('s, 'p) app_state \<Rightarrow> api_call \<Rightarrow> ('s, 'p) app_state \<Rightarrow> bool" where
  "open_effect b (Monitoring (MonitorCall (Ping token))) a = pinged b token a"
| "open_effect b _ a = keeps_rights b a"

lemma ping_effect:
  assumes "handle_site cfg menv cenv clk perms (MonitorCall (Ping token)) a = (r, a')"
  shows "pinged a token a'"
proof -
  have same: "pinged a token a"
    by (simp add: pinged_def list_all2_same)
  have written: "pinged a token (a\<lparr>app_db := d'\<rparr>)" if "record_heartbeat_ping now token (app_db a) = Inr (x, d')" for now x d'
    using that by (auto simp: pinged_def record_heartbeat_ping_def fetch_one_of_Inr update_monitors_def update_rows_def
        list_all2_map2 list_all2_same has_heartbeat_token_def)
  show ?thesis
    using assms same written
    by (auto simp: answer_site_def answer_monitor_def record_heartbeat_ping_handler_def svc_bind_def db_call_def
        svc_map_err_def on_db_def svc_stmt_def split: if_splits sum.splits prod.splits option.splits)
qed

section \<open>Refusals\<close>

lemma answering_refusal: "\<exists>e. m a = (Inl e, a) \<Longrightarrow> \<exists>e. answering f m a = (Inl e, a)"
  by (auto simp: answering_def svc_bind_def)

lemma admin_refusal:
  assumes "needed_permission c \<notin> aatc_permissions auth"
  shows "\<exists>e. answering f (handle_admin cfg clk auth c) a = (Inl e, a)"
  by (rule answering_refusal) (use guarded_call [OF handle_admin_guarded [of auth c cfg clk], of a] assms in simp)

lemma empty_override_refused:
  "empty_override c \<Longrightarrow> \<exists>e. handle_site cfg menv cenv clk perms c a = (Inl e, a)"
  by (cases c) (auto simp: answer_site_def upsert_site_notification_channel_override_def svc_bind_def
      validate_site_notification_channel_override_payload_def reject_def)

lemma site_refusal:
  assumes "\<not> set (site_permissions c) \<subseteq> perms"
  shows "\<exists>e. answering f (handle_site cfg menv cenv clk perms c) a = (Inl e, a)"
proof -
  have "find (\<lambda>p. p \<notin> perms) (site_permissions c) \<noteq> None"
    using assms by (auto simp: find_None_iff)
  then have "\<exists>e. handle_site cfg menv cenv clk perms c a = (Inl e, a)"
    using handle_site_guards [of c perms cfg menv cenv clk] empty_override_refused [of c]
    by (cases "empty_override c") (auto simp: guards_def)
  then show ?thesis by (rule answering_refusal)
qed

lemma client_request_identity:
  assumes "lru_map_laws (cfg_token_lru cfg)" "auth_inv cfg a h"
    "authenticated_api_client_request cfg clk parts a = (Inr (c, token), a')"
  shows "extract_bearer_token parts = Inr token \<and> recent_identity cfg clk (snapshot_of clk a # h) token (BtcApiClient c)"
proof -
  obtain raw where raw: "extract_bearer_token parts = Inr raw"
    using assms(3) by (auto simp: authenticated_api_client_request_def svc_bind_def split: sum.splits)
  obtain x a1 where x: "authenticate_cached_bearer_token cfg clk raw a = (x, a1)" by fastforce
  then have "x = Inr (BtcApiClient c)" "raw = token"
    using assms(3) raw by (auto simp: authenticated_api_client_request_def svc_bind_def
        split: sum.splits bearer_token_context.splits)
  then show ?thesis
    using cached_bearer_request [OF assms(1,2) x] raw by simp
qed

lemma authorisation_needed:
  assumes run: "svc_bind m k a = (r, a')" and m: "maintains (harmless a) m"
    and authorised: "\<And>x a1. m a = (Inr x, a1) \<Longrightarrow> set ps \<subseteq> perms x \<Longrightarrow> A"
    and refused: "\<And>x a1. \<not> set ps \<subseteq> perms x \<Longrightarrow> \<exists>e. k x a1 = (Inl e, a1)"
  shows "A \<or> (\<not> is_ok r \<and> harmless a a')"
proof -
  obtain r1 a1 where a1: "m a = (r1, a1)" by fastforce
  have h: "harmless a a1"
    using maintains_run [OF m harmless_refl a1] .
  show ?thesis
  proof (cases r1)
    case (Inl e)
    then show ?thesis using a1 h run by (auto simp: svc_bind_def)
  next
    case (Inr x)
    then have "k x a1 = (r, a')"
      using a1 run by (simp add: svc_bind_def)
    with authorised [OF a1 [unfolded Inr]] refused [of x a1] h show ?thesis
      by (cases "set ps \<subseteq> perms x") auto
  qed
qed

text \<open>What an extractor accepts is authorised for every call whose permissions it grants.\<close>

lemma extractors_authorise:
  assumes laws: "lru_map_laws (cfg_token_lru cfg)" and inv: "auth_inv cfg a h"
  shows "authenticated_request cfg clk parts a = (Inr perms, a1) \<Longrightarrow> set (call_permissions c) \<subseteq> perms \<Longrightarrow>
      authorised cfg clk parts (snapshot_of clk a # h) c"
    and "authenticated_admin_request cfg clk parts a = (Inr auth, a2) \<Longrightarrow> set (call_permissions c) \<subseteq> aatc_permissions auth \<Longrightarrow>
      authorised cfg clk parts (snapshot_of clk a # h) c"
    and "authenticated_api_client_request cfg clk parts a = (Inr client, a3) \<Longrightarrow> call_permissions c = [] \<Longrightarrow>
      authorised cfg clk parts (snapshot_of clk a # h) c"
proof -
  show "authorised cfg clk parts (snapshot_of clk a # h) c"
    if "authenticated_request cfg clk parts a = (Inr perms, a1)" "set (call_permissions c) \<subseteq> perms"
    using authenticated_request_inv [OF laws inv that(1)] that(2) by (auto simp: authorised_def)
  show "authorised cfg clk parts (snapshot_of clk a # h) c"
    if m: "authenticated_admin_request cfg clk parts a = (Inr auth, a2)"
      and ps: "set (call_permissions c) \<subseteq> aatc_permissions auth"
  proof -
    obtain token where "or_else (extract_admin_session_cookie parts) (extract_bearer_token parts) = Inr token"
      "recent_identity cfg clk (snapshot_of clk a # h) token (BtcAdminUser auth)"
      using authenticated_admin_request_inv [OF laws inv m] by auto
    with ps show ?thesis
      by (intro authorisedI [of parts token cfg clk _ "BtcAdminUser auth"]) (auto simp: or_else_def split: sum.splits)
  qed
  show "authorised cfg clk parts (snapshot_of clk a # h) c"
    if "authenticated_api_client_request cfg clk parts a = (Inr client, a3)" "call_permissions c = []"
    using client_request_identity [OF laws inv, of clk parts "fst client" "snd client" a3] that by (auto simp: authorised_def)
qed

section \<open>Every effect needs authority\<close>

text \<open>
  C24: Whatever has happened before, a call that anyone may make leaves monitoring and the rights of accounts as they
  are (a login adds a token, a ping writes to the monitors with its token). Any other call is authorised by
  the token it carries, or it fails and changes no more than times of last use and the log.
\<close>

theorem effects_need_authority:
  assumes laws: "lru_map_laws (cfg_token_lru cfg)" and reach: "api_reach cfg a h"
    and run: "serve cfg lib clk parts c a = (r, a')"
  shows "if open_to_all c then open_effect a c a'
    else authorised cfg clk parts (snapshot_of clk a # h) c \<or> (\<not> is_ok r \<and> harmless a a')"
proof -
  have inv: "auth_inv cfg a h"
    using api_reach_inv [OF laws reach] by (simp add: identities_ok_auth)
  let ?A = "authorised cfg clk parts (snapshot_of clk a # h) c"
  note admin = extractors_authorise(2) [OF laws inv, of clk parts _ _ c]
    and site = extractors_authorise(1) [OF laws inv, of clk parts _ _ c]
    and client = extractors_authorise(3) [OF laws inv, of clk parts _ _ c]
  note harm = harmless_extractors
  show ?thesis
  proof (cases c)
    case (RevokeToken token reason)
    have "?A \<or> (\<not> is_ok r \<and> harmless a a')"
      by (rule authorisation_needed [OF run [unfolded RevokeToken serve.simps(5)] harm(3), where ps = "[]" and perms = "\<lambda>_. {}"])
        (use client in \<open>simp_all add: RevokeToken\<close>)
    then show ?thesis by (simp add: RevokeToken)
  next
    case AdminLogout
    have "?A \<or> (\<not> is_ok r \<and> harmless a a')"
      by (rule authorisation_needed [OF run [unfolded AdminLogout serve.simps(7)] harm(2), where ps = "[]" and perms = "\<lambda>_. {}"])
        (use admin in \<open>simp_all add: AdminLogout\<close>)
    then show ?thesis by (simp add: AdminLogout)
  next
    case AdminMe
    have "?A \<or> (\<not> is_ok r \<and> harmless a a')"
      by (rule authorisation_needed [OF run [unfolded AdminMe serve.simps(8)] harm(2), where ps = "[]" and perms = "\<lambda>_. {}"])
        (use admin in \<open>simp_all add: AdminMe\<close>)
    then show ?thesis by (simp add: AdminMe)
  next
    case (Administration ac)
    have "?A \<or> (\<not> is_ok r \<and> harmless a a')"
      by (rule authorisation_needed [OF run [unfolded Administration serve.simps(9)] harm(2),
            where ps = "call_permissions c" and perms = aatc_permissions])
        (erule (1) admin, simp add: Administration admin_refusal)
    then show ?thesis by (simp add: Administration)
  next
    case (Monitoring sc)
    show ?thesis
    proof (cases "is_ping sc")
      case True
      then obtain token where sc: "sc = MonitorCall (Ping token)"
        by (cases sc rule: is_ping.cases) auto
      with run Monitoring show ?thesis
        by (auto simp: answering_def svc_bind_def simp del: handle_site.simps split: prod.splits sum.splits dest: ping_effect)
    next
      case False
      have "?A \<or> (\<not> is_ok r \<and> harmless a a')"
        by (rule authorisation_needed [OF run [unfolded Monitoring serve.simps(10) if_not_P [OF False]] harm(1),
              where ps = "call_permissions c" and perms = "\<lambda>perms. perms"])
          (erule (1) site, simp add: Monitoring site_refusal)
      with False show ?thesis by (simp add: Monitoring)
    qed
  qed (use maintains_run [OF open_calls_keep_rights [of c a cfg lib clk parts] _ run] in \<open>simp_all add: keeps_rights_def\<close>)
qed

theorem effects_need_authority_witness:
  "\<forall>lib. let (r, a') = serve sample_config lib \<lparr>ck_now = 0, ck_utc = 0, ck_instant = 0\<rparr> \<lparr>rp_headers = [], rp_peer = None\<rparr>
       (Monitoring (DeleteSite 1)) (sample_app\<lparr>app_db := sample_db\<rparr>)
     in \<not> is_ok r \<and> app_db a' = sample_db"
proof
  fix lib
  let ?clk = "\<lparr>ck_now = 0, ck_utc = 0, ck_instant = 0\<rparr>" and ?parts = "\<lparr>rp_headers = [], rp_peer = None\<rparr>"
    and ?a = "sample_app\<lparr>app_db := sample_db\<rparr>"
  have laws: "lru_map_laws (cfg_token_lru sample_config)"
    by (simp add: sample_config_def lru_list_map_laws)
  have reach: "api_reach sample_config ?a []"
    by (rule api_reach.start [where capacity = 2])
      (simp_all add: sample_app_def sample_auth_db_def empty_auth_db_def accounts_ok_def auth_db_ok_def)
  obtain r a' where run: "serve sample_config lib ?clk ?parts (Monitoring (DeleteSite 1)) ?a = (r, a')" by fastforce
  have "\<not> authorised sample_config ?clk ?parts h (Monitoring (DeleteSite 1))" for h
    by (simp add: authorised_def extract_bearer_token_def extract_admin_session_cookie_def header_str_def)
  then show "let (r, a') = serve sample_config lib ?clk ?parts (Monitoring (DeleteSite 1)) ?a in \<not> is_ok r \<and> app_db a' = sample_db"
    using effects_need_authority [OF laws reach run] run by (simp add: harmless_def del: serve.simps)
qed

end
