(* ===== verification/Api_System.thy ===== *)
theory Api_System
  imports Api_Authority Worker_System
begin

text \<open>
  The API within the system of \<open>Worker_System\<close>: every request the service answers, whatever it is and however
  it ends, moves the monitoring tables by steps of that system, one per statement its handler executes.
  So what is proved there of every reachable state holds with the handlers of the API in the
  place of the statements they execute.
\<close>

section \<open>Sequences of steps\<close>

text \<open>The tables as a state of the system, with the checks that are in flight.\<close>

definition from_here :: "sys \<Rightarrow> (string \<times> site_monitor) list \<Rightarrow> db \<Rightarrow> bool" where
  "from_here s T d \<longleftrightarrow> sys_step\<^sup>*\<^sup>* s (d, T)"

definition app_from :: "sys \<Rightarrow> (string \<times> site_monitor) list \<Rightarrow> ('s, 'p) app_state \<Rightarrow> bool" where
  "app_from s T a \<longleftrightarrow> from_here s T (app_db a)"

definition step_stmt :: "(db, 'a) stmt \<Rightarrow> bool" where
  "step_stmt m \<longleftrightarrow> (\<forall>d T. sys_step (d, T) (run_stmt m d, T))"

lemma step_stmt_maintains:
  assumes "step_stmt m"
  shows "stmt_maintains (from_here s T) m"
  unfolding stmt_maintains_def from_here_def
proof (intro allI impI)
  fix d x d' assume "sys_step\<^sup>*\<^sup>* s (d, T)" "m d = Inr (x, d')"
  moreover have "sys_step (d, T) (run_stmt m d, T)"
    using assms by (simp add: step_stmt_def)
  ultimately show "sys_step\<^sup>*\<^sup>* s (d', T)"
    by (simp add: run_stmt_def rtranclp.rtrancl_into_rtrancl)
qed

lemma maintains_on_tables:
  "maintains (from_here s T) m \<Longrightarrow> maintains (app_from s T) (on_db m)"
  by (auto simp: maintains_def app_from_def on_db_def split: prod.split)

lemma app_from_steps [maintain_rules]:
  "step_stmt m \<Longrightarrow> maintains (app_from s T) (db_call m)"
  "step_stmt m' \<Longrightarrow> maintains (app_from s T) (db_call_unique message m')"
  "maintains (app_from s T) (db_query g)"
  "maintains (app_from s T) (demand perms p)"
  "maintains (app_from s T) (on_auth n)"
  "maintains (app_from s T) (on_tokens u)"
  "maintains (app_from s T) (on_pages v)"
  "maintains (app_from s T) (enforce_public_rate_limit ip now)"
  unfolding db_call_def db_call_unique_def db_query_def
  by (intro maintain_rules maintains_on_tables step_stmt_maintains; assumption?)+
    (auto simp: maintains_def app_from_def demand_def on_auth_def on_tokens_def on_pages_def
      enforce_public_rate_limit_def split: prod.splits bool.splits)

section \<open>The statements of the handlers\<close>

lemma step_monitor_stmt: "(\<And>d. run_stmt m d = run_stmt (exec_monitor_stmt now st) d) \<Longrightarrow> step_stmt m"
  unfolding step_stmt_def by (simp add: sys_step.Api)

lemma step_side_stmt: "(\<And>d. run_stmt m d = run_stmt (exec_side_stmt now st) d) \<Longrightarrow> step_stmt m"
  unfolding step_stmt_def by (simp add: sys_step.Side)

lemma incident_and_site_stmts [maintain_rules]:
  "step_stmt (resolve_open_incidents_for_monitor now i reason)"
  "step_stmt (resolve_open_incidents_for_site now i reason)"
  "step_stmt (acknowledge_incident now i site admin)"
  "step_stmt (create_site now name url)"
  "step_stmt (update_site now i name url active)"
  "step_stmt (delete_site i)"
  unfolding step_stmt_def
  by (simp_all add: sys_step.ResolveMonitor sys_step.ResolveSite sys_step.Acknowledge sys_step.CreateSite
      sys_step.UpdateSite sys_step.DeleteSite)

lemma channel_stmts [maintain_rules]:
  "step_stmt (create_channel now cp)"
  "step_stmt (update_channel now i cp)"
  "step_stmt (delete_channel i)"
  "step_stmt (upsert_override_for_site now i op)"
  "step_stmt (delete_override_for_site i j)"
  "step_stmt (upsert_status_page now sp)"
  using step_side_stmt [of "create_channel now cp" now "StmtCreateChannel cp"]
    step_side_stmt [of "update_channel now i cp" now "StmtUpdateChannel i cp"]
    step_side_stmt [of "delete_channel i" now "StmtDeleteChannel i"]
    step_side_stmt [of "upsert_override_for_site now i op" now "StmtUpsertOverride i op"]
    step_side_stmt [of "delete_override_for_site i j" now "StmtDeleteOverride i j"]
    step_side_stmt [of "upsert_status_page now sp" now "StmtUpsertStatusPage sp"]
  by simp_all

lemma monitor_stmts [maintain_rules]:
  "step_stmt (update_http_site_monitor_by_id now i j hp)"
  "step_stmt (create_http_site_monitor now i hc)"
  "step_stmt (upsert_http_monitor_by_site_id_and_target_url now i hc)"
  "step_stmt (update_ssl_site_monitor_by_id now i j lp)"
  "step_stmt (upsert_ssl_monitor_by_site_id_and_target_url now i lc)"
  "step_stmt (create_heartbeat_site_monitor now i bc)"
  "step_stmt (update_heartbeat_site_monitor_by_id now i j bp)"
  "step_stmt (update_tcp_site_monitor_by_id now i j tp)"
  "step_stmt (upsert_tcp_monitor_by_site_id_and_host_port now i tp)"
  "step_stmt (update_dns_site_monitor_by_id now i j dp)"
  "step_stmt (upsert_dns_monitor_by_site_id_and_hostname_record_type now i dp)"
  "step_stmt (disable_monitors_of_type now t i)"
  "step_stmt (disable_monitor_of_type now t i j)"
  "step_stmt (switch_monitor_of_type now t b i j)"
  "step_stmt (record_heartbeat_ping now token)"
  using step_monitor_stmt [of "update_http_site_monitor_by_id now i j hp" now "UpdateHttp i j hp"]
    step_monitor_stmt [of "create_http_site_monitor now i hc" now "CreateHttp i hc"]
    step_monitor_stmt [of "upsert_http_monitor_by_site_id_and_target_url now i hc" now "UpsertHttp i hc"]
    step_monitor_stmt [of "update_ssl_site_monitor_by_id now i j lp" now "UpdateSsl i j lp"]
    step_monitor_stmt [of "upsert_ssl_monitor_by_site_id_and_target_url now i lc" now "UpsertSsl i lc"]
    step_monitor_stmt [of "create_heartbeat_site_monitor now i bc" now "CreateHeartbeat i bc"]
    step_monitor_stmt [of "update_heartbeat_site_monitor_by_id now i j bp" now "UpdateHeartbeat i j bp"]
    step_monitor_stmt [of "update_tcp_site_monitor_by_id now i j tp" now "UpdateTcp i j tp"]
    step_monitor_stmt [of "upsert_tcp_monitor_by_site_id_and_host_port now i tp" now "UpsertTcp i tp"]
    step_monitor_stmt [of "update_dns_site_monitor_by_id now i j dp" now "UpdateDns i j dp"]
    step_monitor_stmt [of "upsert_dns_monitor_by_site_id_and_hostname_record_type now i dp" now "UpsertDns i dp"]
    step_monitor_stmt [of "disable_monitors_of_type now t i" now "DisableAll t i"]
    step_monitor_stmt [of "disable_monitor_of_type now t i j" now "DisableOne t i j"]
    step_monitor_stmt [of "switch_monitor_of_type now t b i j" now "SwitchOne t b i j"]
    step_monitor_stmt [of "record_heartbeat_ping now token" now "RecordPing token"]
  by simp_all

section \<open>The handlers\<close>

lemma monitor_helpers_step [maintain_rules]:
  "maintains (app_from s T) (site_found i)"
  "maintains (app_from s T) (save_heartbeat_monitor now tok i p)"
  "maintains (app_from s T) (close_incidents_of now m)"
  "maintains (app_from s T) (close_unless_active now active m)"
  unfolding site_found_def save_heartbeat_monitor_def close_unless_active_def close_incidents_of_def
  by (intro maintain_rules)+

lemma monitor_calls_step [maintain_rules]: "maintains (app_from s T) (handle_monitor cfg env clk perms c)"
  by (cases c; simp only: handle_monitor.simps answer_monitor_def; unfold monitor_handler_defs Let_def;
      (unfold switch_defs)?; intro maintain_rules)

lemma site_calls_step [maintain_rules]: "maintains (app_from s T) (handle_site cfg menv cenv clk perms c)"
  by (cases c; simp only: handle_site.simps answer_site_def; (unfold site_handler_defs
      upsert_site_notification_channel_override_def Let_def)?; intro maintain_rules)

lemma auth_steps [maintain_rules]:
  "maintains (app_from s T) (auth_call st)"
  "maintains (app_from s T) (auth_query f)"
  "maintains (app_from s T) (enforce_auth_rate_limit bucket ip now)"
  by (auto simp: maintains_def app_from_def auth_call_def auth_query_def on_auth_def enforce_auth_rate_limit_def
      svc_map_err_def split: prod.split bool.split sum.split)

lemma page_steps [maintain_rules]: "maintains (app_from s T) (get_public_status_page cfg to_json clk ctx slug)"
  unfolding get_public_status_page_def by (intro maintain_rules)

lemma auth_handlers_step [maintain_rules]:
  "maintains (app_from s T) (issue_token cfg clk raw ctx cid secret)"
  "maintains (app_from s T) (revoke_token cfg clk client ctx token reason)"
  "maintains (app_from s T) (issue_admin_token cfg clk raw ctx email password)"
  "maintains (app_from s T) (logout_admin cfg clk auth)"
  "maintains (app_from s T) (get_admin_me cfg auth)"
  unfolding issue_token_def revoke_token_def issue_admin_token_def logout_admin_def get_admin_me_def
  by (intro maintain_rules)+

lemma admin_helpers_step:
  shows "maintains (app_from s T) (invalidate_tokens_for_user cfg clk u)"
    and "maintains (app_from s T) (invalidate_tokens_for_users cfg clk us)"
    and "maintains (app_from s T) (scopes_of_clients cfg cs)"
proof -
  show one: "maintains (app_from s T) (invalidate_tokens_for_user cfg clk u)" for u
    unfolding invalidate_tokens_for_user_def by (intro maintain_rules)
  show "maintains (app_from s T) (invalidate_tokens_for_users cfg clk us)"
    by (induction us) (simp_all only: invalidate_tokens_for_users.simps maintain_rules one)
  show "maintains (app_from s T) (scopes_of_clients cfg cs)"
    by (rule maintains_reads_only) (rule scopes_of_clients_rules)
qed

lemma admin_calls_step [maintain_rules]: "maintains (app_from s T) (handle_admin cfg clk auth c)"
  by (cases c; simp only: handle_admin.simps answer_def; unfold handler_defs resolve_role_ids_def resolve_permission_ids_def
      build_managed_admin_user_response_def build_managed_role_response_def client_scopes_def Let_def;
      intro maintain_rules admin_helpers_step)

lemma extractors_step [maintain_rules]:
  "maintains (app_from s T) (authenticated_request cfg clk parts)"
  "maintains (app_from s T) (authenticated_admin_request cfg clk parts)"
  "maintains (app_from s T) (authenticated_api_client_request cfg clk parts)"
  unfolding authenticated_request_def authenticated_admin_request_def authenticated_api_client_request_def
    authenticate_cached_bearer_token_def authenticate_cached_admin_bearer_token_def
  by (intro maintain_rules)+

lemma serve_steps: "maintains (app_from s T) (serve cfg lib clk parts c)"
  by (cases c; simp only: serve.simps; (unfold metrics_handler_def)?; intro maintain_rules answering_keeps)

lemma router_steps:
  assumes "build_router cfg lib clk parts c a = (resp, a')"
  shows "sys_step\<^sup>*\<^sup>* (app_db a, T) (app_db a', T)"
proof -
  obtain r where run: "serve cfg lib clk parts c a = (r, a')"
    using assms by (cases "serve cfg lib clk parts c a") (simp add: build_router_def)
  have "app_from (app_db a, T) T a"
    by (simp add: app_from_def from_here_def)
  then have "app_from (app_db a, T) T a'"
    by (rule maintains_run [OF serve_steps]) (rule run)
  then show ?thesis by (simp only: app_from_def from_here_def)
qed

section \<open>A deployment\<close>

text \<open>
  The service over its state, with the workers and whatever else works on the database: a step is a request, one
  step of the system of the workers, or a change of the accounts.
\<close>

inductive deploy_step ::
    "('s, 'p) app_config \<Rightarrow> ('s, 'p) app_state \<times> (string \<times> site_monitor) list \<Rightarrow>
      ('s, 'p) app_state \<times> (string \<times> site_monitor) list \<Rightarrow> bool"
  for cfg :: "('s, 'p) app_config" where
  Request: "build_router cfg lib clk parts c a = (resp, a') \<Longrightarrow> deploy_step cfg (a, T) (a', T)"
| Background: "sys_step (app_db a, T) (d', T') \<Longrightarrow> deploy_step cfg (a, T) (a\<lparr>app_db := d'\<rparr>, T')"
| Accounts: "deploy_step cfg (a, T) (a\<lparr>app_auth := e\<rparr>, T)"

inductive deployed ::
    "('s, 'p) app_config \<Rightarrow> ('s, 'p) app_state \<times> (string \<times> site_monitor) list \<Rightarrow> bool"
  for cfg :: "('s, 'p) app_config" where
  Empty: "app_db a = empty_db \<Longrightarrow> deployed cfg (a, [])"
| Then: "deployed cfg s \<Longrightarrow> deploy_step cfg s s' \<Longrightarrow> deployed cfg s'"

definition tables_of :: "('s, 'p) app_state \<times> (string \<times> site_monitor) list \<Rightarrow> sys" where
  "tables_of = (\<lambda>(a, T). (app_db a, T))"

lemma deploy_step_steps: "deploy_step cfg s s' \<Longrightarrow> sys_step\<^sup>*\<^sup>* (tables_of s) (tables_of s')"
  by (induction rule: deploy_step.induct) (auto simp: tables_of_def router_steps)

lemma reachable_steps: "sys_step\<^sup>*\<^sup>* s s' \<Longrightarrow> reachable s \<Longrightarrow> reachable s'"
  by (induction rule: rtranclp_induct) (auto intro: reachable.Step)

lemma abstract_steps: "sys_step\<^sup>*\<^sup>* s s' \<Longrightarrow> reachable s \<Longrightarrow> astep\<^sup>*\<^sup>* (abs_db (fst s)) (abs_db (fst s'))"
proof (induction rule: rtranclp_induct)
  case (step t u)
  then have "reachable t"
    using reachable_steps by blast
  then have "astep (abs_db (fst t)) (abs_db (fst u))"
    using sys_step_ok [OF step.hyps(2)] reachable_inv by blast
  then show ?case
    using step by (auto intro: rtranclp.rtrancl_into_rtrancl)
qed simp

lemma deployed_reachable: "deployed cfg s \<Longrightarrow> reachable (tables_of s)"
proof (induction rule: deployed.induct)
  case (Empty a)
  then show ?case by (simp add: tables_of_def reachable.Start)
next
  case (Then s s')
  then show ?case using deploy_step_steps reachable_steps by blast
qed

text \<open>
  C19: In every state of a deployment, whatever requests its API answered and whatever its workers did, crashed or lost in
  between: every monitor has at most one open incident, and only if its last result is a failure. So the worker that
  owns a monitor's claim is never refused by the unique index when it saves its result, whatever the result is.
\<close>

theorem deployment_incidents_are_sound:
  assumes "deployed cfg (a, T)"
  shows "length (open_incidents_of j (app_db a)) \<le> 1 \<and>
    (if open_incidents_of j (app_db a) = [] then True
     else \<exists>m. find_monitor j (app_db a) = Some m \<and> sm_last_is_success m = Some False) \<and>
    list_all (\<lambda>(w, m).
        if list_ex (owns_claim (sm_id m) w) (db_monitors (app_db a))
        then save_check_result f now m w completed (app_db a) \<noteq> Inl (UniqueViolation v) else True) T"
  using reachable_is_sound [of "app_db a" T] deployed_reachable [OF assms] by (simp add: tables_of_def)

text \<open>A deployment with a site and a heartbeat monitor, which a ping reached.\<close>

lemma background: "deployed cfg (a, T) \<Longrightarrow> sys_step (app_db a, T) (d', T') \<Longrightarrow> deployed cfg (a\<lparr>app_db := d'\<rparr>, T')"
  using Then Background by blast

lemma sample_deployed: "deployed sample_config (sample_app\<lparr>app_db := sample_sys_db\<rparr>, [])"
proof -
  have "deployed sample_config (sample_app\<lparr>app_db := empty_db\<rparr>, [])"
    by (rule Empty) simp
  from background [OF this, simplified, OF sys_step.CreateSite [of _ "[]" 4 "''Shop''" "''https://a.test''"]]
  have site: "deployed sample_config (sample_app\<lparr>app_db := run_stmt (create_site 4 ''Shop'' ''https://a.test'') empty_db\<rparr>, [])" .
  show ?thesis
    unfolding sample_sys_db_def by (rule background [OF site, simplified]) (rule sys_step.Api)
qed

theorem deployment_incidents_are_sound_witness:
  "deployed sample_config (sample_app\<lparr>app_db := sample_sys_db\<rparr>, []) \<and>
   length (open_incidents_of 1 sample_sys_db) \<le> 1"
  using deployment_incidents_are_sound [OF sample_deployed, of 1] sample_deployed by simp

text \<open>
  C21: A request of any kind, whoever sends it and however it is answered, runs the machine per monitor that the workers
  refine: the handlers never set a last result, never open an incident, and the incidents they close
  and the monitors they add or remove they treat as that machine does.
\<close>

theorem requests_refine_monitor_machine:
  assumes "deployed cfg (a, T)" "build_router cfg lib clk parts c a = (resp, a')"
  shows "astep\<^sup>*\<^sup>* (abs_db (app_db a)) (abs_db (app_db a')) \<and>
    sys_step\<^sup>*\<^sup>* (app_db a, T) (app_db a', T) \<and> deployed cfg (a', T)"
proof (intro conjI)
  show steps: "sys_step\<^sup>*\<^sup>* (app_db a, T) (app_db a', T)"
    using router_steps [OF assms(2)] .
  show "astep\<^sup>*\<^sup>* (abs_db (app_db a)) (abs_db (app_db a'))"
    using abstract_steps [OF steps] deployed_reachable [OF assms(1)] by (simp add: tables_of_def)
  show "deployed cfg (a', T)"
    by (rule Then [OF assms(1) Request [OF assms(2)]])
qed

lemma sample_ping:
  "\<not> blank ''t''"
  "record_heartbeat_ping 9 ''t'' sample_sys_db = Inr (Some m, d') \<Longrightarrow> map sm_last_heartbeat_received_at (db_monitors d') = [Some 9]"
  "\<exists>m d'. record_heartbeat_ping 9 ''t'' sample_sys_db = Inr (Some m, d')"
proof -
  show "\<not> blank ''t''" by code_simp
  let ?hit = "(\<lambda>r. case r of Inr (Some m, d') \<Rightarrow> map sm_last_heartbeat_received_at (db_monitors d') = [Some 9] | _ \<Rightarrow> False)
    (record_heartbeat_ping 9 ''t'' sample_sys_db)"
  have "?hit" by code_simp
  then show "\<exists>m d'. record_heartbeat_ping 9 ''t'' sample_sys_db = Inr (Some m, d')"
    "record_heartbeat_ping 9 ''t'' sample_sys_db = Inr (Some m, d') \<Longrightarrow> map sm_last_heartbeat_received_at (db_monitors d') = [Some 9]"
    by (auto split: sum.splits prod.splits option.splits)
qed

text \<open>A ping of the sample's monitor: the answer, and the time it records.\<close>

theorem requests_refine_monitor_machine_witness:
  "\<forall>lib. let (resp, a') = build_router sample_config lib \<lparr>ck_now = 9, ck_utc = 9, ck_instant = 9\<rparr> \<lparr>rp_headers = [], rp_peer = None\<rparr>
       (Monitoring (MonitorCall (Ping ''t''))) (sample_app\<lparr>app_db := sample_sys_db\<rparr>)
     in hr_status resp = 204 \<and> map sm_last_heartbeat_received_at (db_monitors (app_db a')) = [Some 9] \<and>
        astep\<^sup>*\<^sup>* (abs_db sample_sys_db) (abs_db (app_db a'))"
proof
  fix lib
  let ?a = "sample_app\<lparr>app_db := sample_sys_db\<rparr>"
  let ?c = "Monitoring (MonitorCall (Ping ''t''))"
  let ?run = "build_router sample_config lib \<lparr>ck_now = 9, ck_utc = 9, ck_instant = 9\<rparr> \<lparr>rp_headers = [], rp_peer = None\<rparr> ?c ?a"
  have "hr_status (fst ?run) = 204 \<and> map sm_last_heartbeat_received_at (db_monitors (app_db (snd ?run))) = [Some 9]"
    using sample_ping(1,3) sample_ping(2)
    by (auto simp: build_router_def answering_def answer_site_def answer_monitor_def record_heartbeat_ping_handler_def
        svc_bind_def db_call_def svc_map_err_def on_db_def svc_stmt_def response_of_def success_status_def
        overriding_def security_headers_def)
  moreover have "astep\<^sup>*\<^sup>* (abs_db sample_sys_db) (abs_db (app_db (snd ?run)))"
    using requests_refine_monitor_machine [OF sample_deployed, of _ _ _ ?c "fst ?run" "snd ?run"] by simp
  ultimately show "let (resp, a') = ?run in hr_status resp = 204 \<and> map sm_last_heartbeat_received_at (db_monitors (app_db a')) = [Some 9] \<and>
      astep\<^sup>*\<^sup>* (abs_db sample_sys_db) (abs_db (app_db a'))"
    by (simp add: case_prod_beta Let_def)
qed

end
