(* ===== verification/Processes.thy ===== *)
theory Processes
  imports Startup Api_System
begin

text \<open>
  The programs from their start: the pool of connections (\<^verbatim>\<open>src/db/pool.rs\<close>), what \<^verbatim>\<open>src/runtime/mod.rs\<close> builds
  from a loaded configuration before the API listens and the workers run, the origins it allows, the mailer of a
  worker (\<^verbatim>\<open>src/notifications/service.rs\<close>), and the program that migrates (\<^verbatim>\<open>src/bin/migrate.rs\<close>). Sockets, the connections themselves, signals and the variables
  a \<^verbatim>\<open>.env\<close> file adds are the platform's.
\<close>

section \<open>The pool of connections\<close>

record pool_options =
  po_max_connections :: nat
  po_min_connections :: nat
  po_acquire_timeout :: duration
  po_idle_timeout :: "duration option"
  po_max_lifetime :: "duration option"

datatype start_error =
    StartConfig config_error
  | StartPool string
  | StartBind string
  | StartOrigin string
  | StartPanic string
  | StartMigration migration_error

type_synonym 'pool connector = "pool_options \<Rightarrow> string \<Rightarrow> string + 'pool"

definition create_pool_with_settings :: "'pool connector \<Rightarrow> string \<Rightarrow> db_pool_settings \<Rightarrow> start_error + 'pool" where
  "create_pool_with_settings connect database_url settings =
     map_err StartPool (connect
       \<lparr>po_max_connections = dps_max_connections settings, po_min_connections = dps_min_connections settings,
        po_acquire_timeout = from_secs (dps_acquire_timeout_seconds settings),
        po_idle_timeout = Some (from_secs (dps_idle_timeout_seconds settings)),
        po_max_lifetime = Some (from_secs (dps_max_lifetime_seconds settings))\<rparr> database_url)"

definition create_pool :: "'pool connector \<Rightarrow> 'k config \<Rightarrow> start_error + 'pool" where
  "create_pool connect c =
     create_pool_with_settings connect (cfg_database_url c)
       \<lparr>dps_max_connections = cfg_db_max_connections c, dps_min_connections = cfg_db_min_connections c,
        dps_acquire_timeout_seconds = cfg_db_acquire_timeout_seconds c,
        dps_idle_timeout_seconds = cfg_db_idle_timeout_seconds c,
        dps_max_lifetime_seconds = cfg_db_max_lifetime_seconds c\<rparr>"

definition create_service_pool :: "'pool connector \<Rightarrow> 'k config \<Rightarrow> db_pool_role \<Rightarrow> start_error + 'pool" where
  "create_service_pool connect c role =
     create_pool_with_settings connect (cfg_database_url c) (db_pool_settings_of c role)"

section \<open>Initialisation\<close>

text \<open>
  The platform: what a \<^verbatim>\<open>.env\<close> file adds to the environment, connecting, binding the address (an
  error or none), and the libraries of the handlers.
\<close>

record ('s, 'p, 'pool) platform =
  pf_dotenv :: "env \<Rightarrow> env"
  pf_connect :: "'pool connector"
  pf_bind :: "string \<Rightarrow> string option"
  pf_crypto :: crypto_lib
  pf_auth :: auth_env
  pf_token_lru :: "(token_cache_key, token_cache_entry, 's) lru_lib"
  pf_page_lru :: "(string, status_page_cache_entry, 'p) lru_lib"
  pf_rfc3339 :: "timestamp \<Rightarrow> string"
  pf_parse_rfc3339 :: "string \<Rightarrow> timestamp option"
  pf_db_error_text :: "db_error \<Rightarrow> string"
  pf_relay_error :: "string \<Rightarrow> string option"
  pf_parse_address :: "string \<Rightarrow> string + string"

definition load_config :: "('s, 'p, 'pool) platform \<Rightarrow> env \<Rightarrow> start_error + encryption_key config" where
  "load_config pf get_env =
     map_err StartConfig (from_env_getter (\<lambda>v. map_err ConfigBail (from_hex (pf_crypto pf) v)) get_env)"

text \<open>The log is opened before the \<^verbatim>\<open>.env\<close> file is read, the configuration loaded after it.\<close>

definition initialize ::
    "('s, 'p, 'pool) platform \<Rightarrow> string list \<Rightarrow> env \<Rightarrow> db_pool_role \<Rightarrow>
      bootstrap_config \<times> (start_error + encryption_key config \<times> 'pool)" where
  "initialize pf argv get_env role =
     (from_args_and_env argv get_env,
      and_then (load_config pf (pf_dotenv pf get_env)) (\<lambda>c.
      and_then (create_service_pool (pf_connect pf) c role) (\<lambda>pool. Inr (c, pool))))"

section \<open>The API\<close>

datatype http_method = GET | POST | PUT | PATCH | DELETE | OPTIONS

record cors_layer =
  cl_origins :: "string list"
  cl_methods :: "http_method list"
  cl_headers :: "string list"

text \<open>\<open>AllowOrigin::list\<close> panics on a wildcard.\<close>

definition build_cors_layer :: "string list \<Rightarrow> start_error + cors_layer" where
  "build_cors_layer allowed_origins =
     and_then (try_map (\<lambda>origin. ok_or (StartOrigin origin) (header_value origin)) allowed_origins) (\<lambda>origins.
     if ''*'' \<in> set origins then Inl (StartPanic ''wildcard origin'')
     else Inr \<lparr>cl_origins = origins, cl_methods = [GET, POST, PUT, PATCH, DELETE, OPTIONS],
               cl_headers = [''authorization'', ''accept'', ''content-type'', ''user-agent'']\<rparr>)"

definition default_auth_token_cache_capacity :: nat where
  "default_auth_token_cache_capacity = 4096"

definition default_auth_token_cache_ttl_seconds :: nat where
  "default_auth_token_cache_ttl_seconds = 30"

text \<open>What \<^verbatim>\<open>AppState\<close> takes from the configuration for good, and what the handlers change.\<close>

definition app_config_of :: "('s, 'p, 'pool) platform \<Rightarrow> encryption_key config \<Rightarrow> ('s, 'p) app_config" where
  "app_config_of pf c =
     \<lparr>cfg_auth_env = pf_auth pf, cfg_auth = \<lparr>access_token_ttl_seconds = as_i64 (int (cfg_access_token_ttl_seconds c))\<rparr>,
      cfg_token_lru = pf_token_lru pf, cfg_token_ttl = from_secs default_auth_token_cache_ttl_seconds,
      cfg_page_lru = pf_page_lru pf, cfg_page_ttl = from_secs 30,
      cfg_trust_proxy_headers = config.cfg_trust_proxy_headers c,
      cfg_trusted_proxy_ips = config.cfg_trusted_proxy_ips c, cfg_cookie_secure = config.cfg_cookie_secure c,
      cfg_rfc3339 = pf_rfc3339 pf, cfg_parse_rfc3339 = pf_parse_rfc3339 pf, cfg_db_error_text = pf_db_error_text pf\<rparr>"

definition app_state_of ::
    "('s, 'p, 'pool) platform \<Rightarrow> encryption_key config \<Rightarrow> auth_db \<Rightarrow> db \<Rightarrow> ('s, 'p) app_state" where
  "app_state_of pf c accounts tables =
     \<lparr>app_auth = accounts, app_db = tables,
      app_tokens = with_capacity_and_ttl (cache_of (app_config_of pf c)) default_auth_token_cache_capacity,
      app_limiter = rate_limiter_new (cfg_auth_rate_limit_max_requests c) (from_secs (cfg_auth_rate_limit_window_seconds c)),
      app_public_limiter = rate_limiter_new 60 (from_secs 60), app_pages = lru_new (pf_page_lru pf) 256\<rparr>"

text \<open>The handlers' libraries with the settings they are given.\<close>

definition configured_libs :: "encryption_key config \<Rightarrow> api_libs \<Rightarrow> api_libs" where
  "configured_libs c lib =
     lib\<lparr>al_monitor := (al_monitor lib)\<lparr>me_allow_private_targets := cfg_http_monitor_allow_private_targets c\<rparr>,
         al_channel := (al_channel lib)\<lparr>che_key := cfg_webhook_secret_encryption_key c\<rparr>,
         al_metrics := (al_metrics lib)\<lparr>mt_db_max_connections := cfg_api_db_max_connections c\<rparr>\<rparr>"

record ('s, 'p) service =
  sv_config :: "('s, 'p) app_config"
  sv_start :: "auth_db \<Rightarrow> db \<Rightarrow> ('s, 'p) app_state"
  sv_libs :: "api_libs \<Rightarrow> api_libs"
  sv_cors :: cors_layer
  sv_address :: string

definition run_api :: "('s, 'p, 'pool) platform \<Rightarrow> string list \<Rightarrow> env \<Rightarrow> start_error + ('s, 'p) service" where
  "run_api pf argv get_env =
     and_then (snd (initialize pf argv get_env PoolApi)) (\<lambda>(c, pool).
     case pf_bind pf (cfg_api_bind_address c) of
       Some e \<Rightarrow> Inl (StartBind e)
     | None \<Rightarrow>
         and_then (build_cors_layer (cfg_cors_allowed_origins c)) (\<lambda>cors.
         Inr \<lparr>sv_config = app_config_of pf c, sv_start = app_state_of pf c, sv_libs = configured_libs c,
              sv_cors = cors, sv_address = cfg_api_bind_address c\<rparr>))"

section \<open>The workers\<close>

text \<open>The configuration and the pool every worker of the process gets, and the identity of each.\<close>

definition run_worker ::
    "('s, 'p, 'pool) platform \<Rightarrow> string list \<Rightarrow> env \<Rightarrow> nat \<Rightarrow> nat \<Rightarrow>
      start_error + (encryption_key config \<times> 'pool \<times> string) list" where
  "run_worker pf argv get_env pid random =
     and_then (snd (initialize pf argv get_env PoolWorker)) (\<lambda>(c, pool).
     Inr (map (\<lambda>worker_id. (c, pool, worker_id))
       (run_worker_ids (cfg_site_worker_count c) (build_worker_process_identity (pf_dotenv pf get_env) pid random))))"

text \<open>
  The mailer. A transport is the library's from here on; making one fails for a host it has no TLS parameters
  for. Either variant encrypts: port 465 from the first byte, any other after a required \<open>STARTTLS\<close>.
\<close>

datatype smtp_tls = Wrapper | RequiredStartTls

record smtp_mailer =
  ml_host :: string
  ml_tls :: smtp_tls
  ml_port :: nat
  ml_timeout :: "duration option"
  ml_credentials :: "(string \<times> string) option"
  ml_from :: "string option \<times> string"

definition build_from_mailbox :: "('s, 'p, 'pool) platform \<Rightarrow> smtp_config \<Rightarrow> string + string option \<times> string" where
  "build_from_mailbox pf smtp =
     and_then (pf_parse_address pf (smtp_from_email smtp)) (\<lambda>address. Inr (smtp_from_name smtp, address))"

definition build_smtp_mailer :: "('s, 'p, 'pool) platform \<Rightarrow> 'k config \<Rightarrow> string + smtp_mailer option" where
  "build_smtp_mailer pf c =
     (case cfg_smtp c of
        None \<Rightarrow> Inr None
      | Some smtp \<Rightarrow>
          (case pf_relay_error pf (smtp_host smtp) of
             Some e \<Rightarrow> Inl e
           | None \<Rightarrow>
               and_then (build_from_mailbox pf smtp) (\<lambda>sender.
               Inr (Some \<lparr>ml_host = smtp_host smtp,
                     ml_tls = (if smtp_port smtp = 465 then Wrapper else RequiredStartTls),
                     ml_port = smtp_port smtp,
                     ml_timeout = Some (from_secs (cfg_notification_delivery_timeout_seconds c)),
                     ml_credentials =
                       (case (smtp_username smtp, smtp_password smtp) of
                          (Some username, Some password) \<Rightarrow> Some (username, password)
                        | _ \<Rightarrow> None),
                     ml_from = sender\<rparr>))))"

text \<open>
  A worker builds its mailer before its loop and ends when that fails; the process logs the error and goes on
  waiting for a signal. These are the workers that get to their loop.
\<close>

definition looping_workers ::
    "('s, 'p, 'pool) platform \<Rightarrow> (encryption_key config \<times> 'pool \<times> string) list \<Rightarrow> (encryption_key config \<times> 'pool \<times> string) list" where
  "looping_workers pf ws = filter (\<lambda>(c, pool, worker_id). is_ok (build_smtp_mailer pf c)) ws"

section \<open>Migrating\<close>

definition report_lines :: "migration_report \<Rightarrow> string list" where
  "report_lines report =
     [''Sentinel migrations completed.'', ''Applied: '' @ show_nat (length (mr_applied report))] @
     map (\<lambda>filename. ''  + '' @ filename) (mr_applied report) @
     [''Skipped: '' @ show_nat (length (mr_skipped report))] @
     map (\<lambda>filename. ''  = '' @ filename) (mr_skipped report)"

definition run_migrations ::
    "('s, 'p, 'pool) platform \<Rightarrow> 'd migration_env \<Rightarrow> env \<Rightarrow> 'd schema_db \<Rightarrow>
      (start_error + string list) \<times> 'd schema_db" where
  "run_migrations pf files get_env d =
     (case and_then (load_config pf (pf_dotenv pf get_env)) (create_pool (pf_connect pf)) of
        Inl e \<Rightarrow> (Inl e, d)
      | Inr pool \<Rightarrow>
          (case run_pending_migrations files d of
             (Inl e, d) \<Rightarrow> (Inl (StartMigration e), d)
           | (Inr report, d) \<Rightarrow> (Inr (report_lines report), d)))"

section \<open>What a started process relies on\<close>

lemma load_config_valid: "load_config pf get_env = Inr c \<Longrightarrow> config_valid c"
  by (auto simp: load_config_def map_err_def dest: from_env_getter_valid split: sum.splits)

lemma is_ok_and_then: "is_ok (and_then r f) \<longleftrightarrow> (case r of Inl e \<Rightarrow> False | Inr x \<Rightarrow> is_ok (f x))"
  by (simp add: is_ok_def split: sum.split)

lemma checked_origins:
  "list_all (\<lambda>o'. header_value o' \<noteq> None) xs \<Longrightarrow>
   try_map (\<lambda>origin. ok_or (StartOrigin origin) (header_value origin)) xs = Inr xs"
proof (induction xs)
  case (Cons x xs)
  then have "header_value x = Some x"
    by (simp add: header_value_def split: if_splits)
  with Cons show ?case by (simp add: ok_or_def)
qed simp

lemma unchecked_origins:
  "is_ok (try_map (\<lambda>origin. ok_or (StartOrigin origin) (header_value origin)) xs) \<longleftrightarrow>
     list_all (\<lambda>o'. header_value o' \<noteq> None) xs"
  by (induction xs) (auto simp: ok_or_def is_ok_and_then is_ok_def split: option.splits sum.splits)

lemma cors_layer_iff:
  "is_ok (build_cors_layer origins) \<longleftrightarrow> list_all (\<lambda>o'. header_value o' \<noteq> None \<and> o' \<noteq> ''*'') origins"
proof (cases "list_all (\<lambda>o'. header_value o' \<noteq> None) origins")
  case True
  then show ?thesis
    by (auto simp: build_cors_layer_def checked_origins is_ok_def list_all_iff)
next
  case False
  with unchecked_origins [of origins] have "\<not> is_ok (build_cors_layer origins)"
    unfolding build_cors_layer_def is_ok_and_then by (auto simp: is_ok_def split: sum.splits)
  with False show ?thesis
    by (auto simp: list_all_iff)
qed

lemma run_api_cases:
  "is_ok (run_api pf argv get_env) \<longleftrightarrow>
    (case load_config pf (pf_dotenv pf get_env) of
       Inl e \<Rightarrow> False
     | Inr c \<Rightarrow> is_ok (create_service_pool (pf_connect pf) c PoolApi) \<and> pf_bind pf (cfg_api_bind_address c) = None \<and>
         is_ok (build_cors_layer (cfg_cors_allowed_origins c)))"
  "run_api pf argv get_env = Inr svc \<Longrightarrow>
    \<exists>c. load_config pf (pf_dotenv pf get_env) = Inr c \<and> sv_config svc = app_config_of pf c \<and> sv_start svc = app_state_of pf c"
proof -
  show "is_ok (run_api pf argv get_env) \<longleftrightarrow>
    (case load_config pf (pf_dotenv pf get_env) of
       Inl e \<Rightarrow> False
     | Inr c \<Rightarrow> is_ok (create_service_pool (pf_connect pf) c PoolApi) \<and> pf_bind pf (cfg_api_bind_address c) = None \<and>
         is_ok (build_cors_layer (cfg_cors_allowed_origins c)))"
    by (cases "load_config pf (pf_dotenv pf get_env)")
      (auto simp: run_api_def initialize_def is_ok_and_then is_ok_def split: sum.split option.split)
qed (auto simp: run_api_def initialize_def and_then_eq_Inr split: option.splits)

text \<open>
  All workers of a process start or none does: a sender or a host the library refuses leaves a process that has
  started and works on nothing.
\<close>

lemma run_worker_cases:
  assumes "run_worker pf argv get_env pid random = Inr ws"
  obtains c pool identity where "load_config pf (pf_dotenv pf get_env) = Inr c"
    "ws = map (\<lambda>worker_id. (c, pool, worker_id)) (run_worker_ids (cfg_site_worker_count c) identity)"
  using assms by (auto simp: run_worker_def initialize_def and_then_eq_Inr)

lemma all_workers_loop_or_none:
  assumes "run_worker pf argv get_env pid random = Inr ws"
  shows "looping_workers pf ws = ws \<or> looping_workers pf ws = []"
proof -
  obtain c pool identity where
    "ws = map (\<lambda>worker_id. (c, pool, worker_id)) (run_worker_ids (cfg_site_worker_count c) identity)"
    using assms by (rule run_worker_cases)
  then show ?thesis
    by (cases "is_ok (build_smtp_mailer pf c)") (auto simp: looping_workers_def filter_map comp_def)
qed

lemma refused_sender_stops_every_worker:
  assumes "run_worker pf argv get_env pid random = Inr ws" "load_config pf (pf_dotenv pf get_env) = Inr c"
    "cfg_smtp c = Some smtp" "pf_parse_address pf (smtp_from_email smtp) = Inl e"
  shows "looping_workers pf ws = []"
proof -
  have "\<not> is_ok (build_smtp_mailer pf c)"
    using assms(3,4) by (simp add: build_smtp_mailer_def build_from_mailbox_def is_ok_def split: option.split)
  moreover have "set ws \<subseteq> {c} \<times> UNIV"
    using assms(2) by (cases rule: run_worker_cases [OF assms(1)]) auto
  ultimately show ?thesis
    by (auto simp: looping_workers_def filter_empty_conv)
qed

lemma started_service:
  assumes "run_api pf argv get_env = Inr svc" "accounts_ok accounts"
  shows "api_reach (sv_config svc) (sv_start svc accounts tables) []" "deployed (sv_config svc) (sv_start svc accounts empty_db, [])"
    "0 < max_requests (app_limiter (sv_start svc accounts tables)) \<and> 0 < window (app_limiter (sv_start svc accounts tables))"
    "app_config.cfg_trust_proxy_headers (sv_config svc) \<Longrightarrow> app_config.cfg_trusted_proxy_ips (sv_config svc) \<noteq> []"
proof -
  obtain c where c: "load_config pf (pf_dotenv pf get_env) = Inr c"
    "sv_config svc = app_config_of pf c" "sv_start svc = app_state_of pf c"
    using run_api_cases(2) [OF assms(1)] by blast
  show "api_reach (sv_config svc) (sv_start svc accounts tables) []"
    by (rule api_reach.start [where capacity = default_auth_token_cache_capacity])
      (simp_all add: c app_state_of_def assms(2))
  show "deployed (sv_config svc) (sv_start svc accounts empty_db, [])"
    by (rule Empty) (simp add: c app_state_of_def)
  show "0 < max_requests (app_limiter (sv_start svc accounts tables)) \<and> 0 < window (app_limiter (sv_start svc accounts tables))"
    "app_config.cfg_trust_proxy_headers (sv_config svc) \<Longrightarrow> app_config.cfg_trusted_proxy_ips (sv_config svc) \<noteq> []"
    using load_config_valid [OF c(1)]
    by (simp_all add: c app_state_of_def app_config_of_def rate_limiter_new_def from_secs_def config_valid_def)
qed

lemma started_workers:
  assumes "run_worker pf argv get_env pid random = Inr ws"
  shows "ws \<noteq> [] \<and> distinct (map (snd \<circ> snd) ws) \<and> list_all (\<lambda>(c, _). config_valid c) ws \<and>
    looping_workers pf ws \<in> {ws, []}"
proof -
  obtain c pool identity where ws: "load_config pf (pf_dotenv pf get_env) = Inr c"
    "ws = map (\<lambda>worker_id. (c, pool, worker_id)) (run_worker_ids (cfg_site_worker_count c) identity)"
    using assms by (rule run_worker_cases)
  have "distinct (run_worker_ids (cfg_site_worker_count c) identity)"
    using worker_ids_are_distinct by blast
  then show ?thesis
    using load_config_valid [OF ws(1)] all_workers_loop_or_none [OF assms]
    by (auto simp: ws(2) comp_def list_all_iff run_worker_ids_def config_valid_def)
qed

definition sample_platform ::
    "((token_cache_key, token_cache_entry) lru_list, (string, status_page_cache_entry) lru_list, unit) platform" where
  "sample_platform =
     \<lparr>pf_dotenv = (\<lambda>e. e), pf_connect = (\<lambda>_ _. Inr ()), pf_bind = (\<lambda>_. None),
      pf_crypto = sample_crypto_lib\<lparr>cl_hex_decode := (\<lambda>_. Inr (replicate 32 1))\<rparr>, pf_auth = sample_auth_env,
      pf_token_lru = lru_list_lib, pf_page_lru = lru_list_lib, pf_rfc3339 = show_int, pf_parse_rfc3339 = (\<lambda>_. None),
      pf_db_error_text = (\<lambda>_. ''error''), pf_relay_error = (\<lambda>_. None), pf_parse_address = Inr\<rparr>"

lemma loaded_origins:
  "from_env_getter key get_env = Inr c \<Longrightarrow>
   cfg_cors_allowed_origins c = parse_env_csv get_env ''CORS_ALLOWED_ORIGINS'' default_cors_allowed_origins"
  unfolding from_env_getter_def Let_def and_then_eq_Inr by (elim exE conjE) clarsimp

lemma sample_loads: "key ''ab'' = Inr k \<Longrightarrow> is_ok (from_env_getter key sample_env)"
  by (simp add: from_env_getter_def sample_env_def parse_env_positive_usize_def
      parse_env_usize_def parse_env_unsigned_def require_positive_def parse_env_positive_u32_def
      parse_env_u32_def parse_env_positive_u64_def parse_env_u64_def parse_env_bool_def
      parse_env_ip_csv_def parse_env_csv_def parse_env_positive_u64_csv_def Let_def
      validate_db_pool_settings_def validate_trusted_proxy_settings_def
      validate_http_check_retry_policy_def validate_http_check_retry_jitter_percent_def
      sat_sub_u64_def load_webhook_secret_encryption_key_def load_smtp_config_def trim_id
      is_whitespace_def char_code_def)

lemma sample_starts: "is_ok (run_api sample_platform [] sample_env)"
proof -
  have "is_ok (load_config sample_platform sample_env)"
    using sample_loads [of "\<lambda>v. map_err ConfigBail (from_hex (pf_crypto sample_platform) v)"]
    by (auto simp: load_config_def sample_platform_def from_hex_def is_ok_def map_err_def split: sum.splits)
  then obtain c where c: "load_config sample_platform sample_env = Inr c"
    by (auto simp: is_ok_def split: sum.splits)
  then have "cfg_cors_allowed_origins c = default_cors_allowed_origins"
    using loaded_origins [of _ sample_env c]
    by (auto simp: load_config_def map_err_def parse_env_csv_def sample_env_def split: sum.splits)
  moreover have "is_ok (build_cors_layer default_cors_allowed_origins)"
    by code_simp
  ultimately show ?thesis
    unfolding run_api_cases(1) using c
    by (simp add: sample_platform_def create_service_pool_def create_pool_with_settings_def is_ok_def)
qed

text \<open>
  C39: The API starts exactly if the configuration loads, the pool connects, the address can be bound and every allowed
  origin is a header value other than the wildcard. A started API begins a history of calls and, on empty tables, a
  deployment, with a limit on logins that lets some through and counts over a real time, and trusts
  forwarded addresses of named proxies only. A started worker process runs at least one worker; no two have
  the same identity, and all work from a configuration that satisfies what they rely on, or all have ended because
  they could not build their mailer.
\<close>

theorem started_processes_are_sound:
  assumes accounts: "accounts_ok accounts"
  shows "(is_ok (run_api pf argv get_env) \<longleftrightarrow>
      (case load_config pf (pf_dotenv pf get_env) of
         Inl e \<Rightarrow> False
       | Inr c \<Rightarrow> is_ok (create_service_pool (pf_connect pf) c PoolApi) \<and> pf_bind pf (cfg_api_bind_address c) = None \<and>
           list_all (\<lambda>o'. header_value o' \<noteq> None \<and> o' \<noteq> ''*'') (cfg_cors_allowed_origins c))) \<and>
    (case run_api pf argv get_env of
       Inl e \<Rightarrow> True
     | Inr svc \<Rightarrow>
         let a = sv_start svc accounts tables in
         api_reach (sv_config svc) a [] \<and> deployed (sv_config svc) (sv_start svc accounts empty_db, []) \<and>
         0 < max_requests (app_limiter a) \<and> 0 < window (app_limiter a) \<and>
         (if app_config.cfg_trust_proxy_headers (sv_config svc) then app_config.cfg_trusted_proxy_ips (sv_config svc) \<noteq> [] else True)) \<and>
    (case run_worker pf argv get_env pid random of
       Inl e \<Rightarrow> True
     | Inr ws \<Rightarrow> ws \<noteq> [] \<and> distinct (map (snd \<circ> snd) ws) \<and> list_all (\<lambda>(c, _). config_valid c) ws \<and>
         looping_workers pf ws \<in> {ws, []})"
  using started_service [OF _ accounts, of pf argv get_env] started_workers [of pf argv get_env pid random]
  unfolding run_api_cases(1) cors_layer_iff by (auto simp: Let_def split: sum.split)

theorem started_processes_are_sound_witness:
  "case run_api sample_platform [] sample_env of
     Inl e \<Rightarrow> False
   | Inr svc \<Rightarrow> api_reach (sv_config svc) (sv_start svc (app_auth sample_app) empty_db) []"
proof -
  have accounts: "accounts_ok (app_auth sample_app)"
    by (simp add: sample_app_def sample_auth_db_def empty_auth_db_def accounts_ok_def auth_db_ok_def)
  show ?thesis
    using started_processes_are_sound [OF accounts, of sample_platform "[]" sample_env empty_db] sample_starts
    by (auto simp: is_ok_def Let_def split: sum.splits)
qed

end
