(* ===== verification/Spec2Isabelle.thy ===== *)
theory Spec2Isabelle
  imports Worker_System Admin_Api Site_Api Site_Lifecycle Site_Rest Site_Health Public_Page
    Metrics Migrations Provisioning Startup Accounts Api_Service Api_Authority Api_System Processes
begin

text \<open>
  Verification of Alon Sentinel, a monitoring service in Rust (\<^verbatim>\<open>src/alon_sentinel/src/\<close>; the paths below are relative
  to it). Programs share one PostgreSQL database: workers claim the monitors that are due, check them over HTTP,
  TLS, TCP, DNS or by the age of a heartbeat, save the results, open and resolve incidents and queue notifications,
  which the workers deliver by webhook or e-mail; an API serves clients, administrators and public status pages;
  small programs migrate the database and set up accounts.

  The parts meet in the database only. Its tables are the fields of the record \<^verbatim>\<open>db\<close> (theory \<^verbatim>\<open>Domain_Model\<close>: sites,
  monitors, checks, incidents, channels, overrides, deliveries, status pages) and of \<^verbatim>\<open>auth_db\<close> (\<^verbatim>\<open>Auth_Model\<close>: clients,
  administrators, roles, permissions, tokens, logs), each a list of rows in primary key order. A statement maps a
  database to an error or to a result and a new database; a transaction is a statement composed of others, so an error
  leaves the database as it was. A handler of the API runs over \<^verbatim>\<open>app_state\<close>, the state of the process (both
  groups of tables, the token cache, the limiters and the page cache), and keeps what its earlier statements wrote when
  a later one fails.

  The Rust standard library and SQL.
  \<^verbatim>\<open>Prelude\<close>: results as sums (\<^verbatim>\<open>Inl\<close> is \<^verbatim>\<open>Err\<close>), collections of simplification rules, lists and options.
  \<^verbatim>\<open>Rust_Std\<close>, \<^verbatim>\<open>Rust_Str\<close>, \<^verbatim>\<open>Ip_Text\<close>: casts and saturating arithmetic at their widths, \<^verbatim>\<open>Duration\<close>, strings, the parsers
  of integers and addresses. \<^verbatim>\<open>Sql_Table\<close>: selection, insertion, update, deletion, ordering, unique and foreign keys,
  \<^verbatim>\<open>SKIP LOCKED\<close>. \<^verbatim>\<open>Json_Value\<close>: \<^verbatim>\<open>serde_json::Value\<close>. \<^verbatim>\<open>Lru_Cache\<close>: the laws of the lru crate and an instance of them.
  \<^verbatim>\<open>Net_Guard\<close> (\<^verbatim>\<open>net.rs\<close>): which addresses may be contacted, shown equal to the list of refused blocks.
  \<^verbatim>\<open>Pagination\<close> (\<^verbatim>\<open>api/pagination.rs\<close>): cursors, and the locale \<^verbatim>\<open>keyset_query\<close> for the list queries: following the
  cursors of a query that satisfies it visits each row once, in order.
  \<^verbatim>\<open>Lease_Table\<close>: the locale \<^verbatim>\<open>lease_table\<close> of the two work queues (monitors and deliveries): a claim never takes a live
  lease, a guarded write acts for the holder only.

  The data and its repositories (\<^verbatim>\<open>domain/*\<close>).
  \<^verbatim>\<open>Domain_Model\<close>: enums, rows and parameters, with their texts. \<^verbatim>\<open>Monitor_Repository\<close>: claim, extension, release,
  write-back and the next wake-up of monitors; \<^verbatim>\<open>Monitor_Admin_Repository\<close>: their administration.
  \<^verbatim>\<open>Check_Repository\<close>, \<^verbatim>\<open>Incident_Repository\<close>, \<^verbatim>\<open>Channel_Repository\<close> (channels, overrides, sites),
  \<^verbatim>\<open>Delivery_Repository\<close>, \<^verbatim>\<open>Status_Page_Repository\<close>: the other tables. The lemmas say what a statement takes and leaves,
  that it keeps the constraints of the schema, and that the queues interpret the locale of leases.

  The checkers (\<^verbatim>\<open>monitoring/*\<close>).
  \<^verbatim>\<open>Check_Result\<close>: what a checker reports. \<^verbatim>\<open>Json_Path\<close>: parser and resolution of JSON paths, with the round trip.
  \<^verbatim>\<open>Http_Assertions\<close>: the assertions on a response, equal to a specification that names no order of steps.
  \<^verbatim>\<open>Http_Checker\<close>: resolution and pinning of targets, client cache, redirects, certificates; what it reaches is public.
  \<^verbatim>\<open>Probe_Checkers\<close>: TCP, DNS and heartbeats.

  The worker (\<^verbatim>\<open>worker/site_worker.rs\<close>, \<^verbatim>\<open>notifications/service.rs\<close>, \<^verbatim>\<open>crypto/mod.rs\<close>).
  \<^verbatim>\<open>Check_Policy\<close>: timeouts, attempts, delays, and the lease that covers them. \<^verbatim>\<open>Check_Loop\<close>: one check with its
  retries: what it reports, how often it tries, and that it ends. \<^verbatim>\<open>Crypto\<close>, \<^verbatim>\<open>Notification_Payload\<close>, \<^verbatim>\<open>Notification_Service\<close>: secrets,
  payloads, which notifications a result queues and how one is delivered. \<^verbatim>\<open>Site_Worker\<close>: saving a result with its
  incident, the lease heartbeat, retention and the end of its backlog, the loop of the worker and its idle delay. \<^verbatim>\<open>Worker_System\<close>: many workers
  and the API interleaved as a step relation, the invariants of its reachable states, and its refinement of a small
  abstract machine per monitor.

  Accounts (\<^verbatim>\<open>auth/*\<close>, \<^verbatim>\<open>api/permissions.rs\<close>, \<^verbatim>\<open>domain/api_auth\<close>, \<^verbatim>\<open>admin_auth\<close>, \<^verbatim>\<open>admin_users\<close>, \<^verbatim>\<open>roles\<close>, \<^verbatim>\<open>permissions\<close>).
  \<^verbatim>\<open>Permissions\<close>, \<^verbatim>\<open>Auth_Model\<close>, \<^verbatim>\<open>Auth_Repository\<close>, \<^verbatim>\<open>Role_Repository\<close>: permission sets, rows, statements.
  \<^verbatim>\<open>Token_Cache\<close>: the cache of identities, section by section of its lock. \<^verbatim>\<open>Auth_Service\<close>: credentials, issuing,
  authentication of a bearer token (accepted exactly when the tables grant it), revocation.

  The API (\<^verbatim>\<open>api/*\<close>).
  \<^verbatim>\<open>Rate_Limit\<close>: the limiter, equal to a window counter per key, and the cache of pages. \<^verbatim>\<open>Extractors\<close>: the state, the
  errors, the client's address, the three ways to authenticate. \<^verbatim>\<open>Handlers\<close>: the steps of handlers and a calculus of
  what they can answer and change. \<^verbatim>\<open>Auth_Routes\<close>; \<^verbatim>\<open>Admin_Routes\<close> and \<^verbatim>\<open>Admin_Views\<close> with the router \<^verbatim>\<open>Admin_Api\<close>;
  \<^verbatim>\<open>Site_Views\<close>, \<^verbatim>\<open>Site_Routes\<close>, \<^verbatim>\<open>Site_History\<close> and \<^verbatim>\<open>Channel_Routes\<close> with the router \<^verbatim>\<open>Site_Api\<close>;
  \<^verbatim>\<open>Monitor_Payloads\<close> (validation), \<^verbatim>\<open>Monitor_Views\<close>, \<^verbatim>\<open>Monitor_Routes\<close> with the router \<^verbatim>\<open>Monitor_Api\<close>;
  \<^verbatim>\<open>Public_Routes\<close>, the public page. A router has a constructor per route and method and dispatches to the handlers;
  what is proved of it holds of every call. \<^verbatim>\<open>Monitor_Config\<close> (every stored monitor can be checked), \<^verbatim>\<open>Monitor_Stop\<close>
  (a stopped monitor is at rest), \<^verbatim>\<open>Site_Lifecycle\<close> (deactivation and deletion of sites, with all foreign keys, and
  what every table keeps), \<^verbatim>\<open>Site_Rest\<close> (a deactivated site stays at rest under the workers, unless a check of it was
  running),
  \<^verbatim>\<open>Site_Health\<close> (the two ways to the state of a site) and \<^verbatim>\<open>Public_Page\<close> (over which requests a page is served, what it shows and gives away) hold the
  properties that span several of these. \<^verbatim>\<open>Metrics\<close> (\<^verbatim>\<open>api/routes/metrics.rs\<close>): what a scrape collects.

  The whole service. \<^verbatim>\<open>Accounts\<close>: an invariant of the tables of accounts that every call and program keeps, and the
  calculus of what a composed call maintains. \<^verbatim>\<open>Api_Service\<close> (\<^verbatim>\<open>api/app.rs\<close>, \<^verbatim>\<open>api/error.rs\<close>): one constructor per route
  of all routers, served by its extractors and its handler, with the status and headers of the response.
  \<^verbatim>\<open>Api_Authority\<close>: over any history of calls, other processes and cached identities, an effect needs a token to which
  the tables granted the permissions. \<^verbatim>\<open>Api_System\<close>: every request is a sequence of steps of \<^verbatim>\<open>Worker_System\<close>, so the
  invariants and the refinement proved there hold of a deployment of the API with its workers.
  \<^verbatim>\<open>Processes\<close> (\<^verbatim>\<open>runtime/mod.rs\<close>, \<^verbatim>\<open>db/pool.rs\<close>, \<^verbatim>\<open>bin/migrate.rs\<close>): when the programs start, what they start with, and the mailer of
  a worker.

  Operations. \<^verbatim>\<open>Config_Env\<close> (\<^verbatim>\<open>config/mod.rs\<close>): the configuration, every constraint of a loaded one. \<^verbatim>\<open>Startup\<close>
  (\<^verbatim>\<open>config/mod.rs\<close>, \<^verbatim>\<open>runtime/mod.rs\<close>, \<^verbatim>\<open>logging/mod.rs\<close>): bootstrap settings, identities of workers, pruning of
  log files. \<^verbatim>\<open>Migrations\<close> (\<^verbatim>\<open>db/migrations.rs\<close>, \<^verbatim>\<open>api/routes/health.rs\<close>): the migration runner, any
  statement of which can fail, resumable unless it stopped halfway through its import of the former tool's versions (which
  is then never completed), and readiness. \<^verbatim>\<open>Provisioning\<close> (\<^verbatim>\<open>bin/provision_*.rs\<close>, \<^verbatim>\<open>bin/seed_*.rs\<close>): setting up accounts.

  Conventions. Integers of Rust are \<^verbatim>\<open>int\<close> or \<^verbatim>\<open>nat\<close> with casts, saturation and overflow of \<^verbatim>\<open>INTEGER\<close> columns written
  out where a value can leave its width; addresses are words. A timestamp is a number of microseconds. \<^verbatim>\<open>NOW()\<close>, the
  clocks, random tokens, salts, nonces and jitters are arguments; a request reads each clock once. Rows another
  session has locked are a set of ids, and what other sessions do between two statements is a function on the
  database. Strings are characters up to U+00FF. A transaction that is rolled back burns no primary key.
  \<^verbatim>\<open>RETURNING\<close> gives rows in table order. Daily buckets are those of a session in UTC. Requests reach the limiter
  ordered by their instants.

  Loops and their bounds. No definition has a fuel that could hide an answer. The retry, delivery and worker loops
  recurse over their environment, the explicit list of what happens to them; that the retry loop ends is the lemma
  \<^verbatim>\<open>run_attempts_returns\<close>, that repeated runs of the retention come to rest the theorem \<^verbatim>\<open>retention_backlog_drains\<close>. \<^verbatim>\<open>walk_pages\<close>, a device of the proofs, has a fuel larger than the number of rows.

  What is not under \<^verbatim>\<open>src/\<close> is a parameter with documented laws as hypotheses where a theorem needs them: URL and
  header parsing, DNS, TCP, HTTP, TLS and X.509, SMTP, the ciphers and hashes, chrono's text of times, JSON text,
  PostgreSQL's collation, \<^verbatim>\<open>lower\<close> and \<^verbatim>\<open>inet\<close>, the lru map, the metrics encoder, and what the SQL of a migration does.
  Every theorem with such a hypothesis has a witness with concrete functions.

  Not modelled. The requests axum rejects before a handler runs (unknown routes, paths, queries and bodies of the wrong
  form), what its layers add to a preflight request, sockets, signals, the timer of the log cleanup, the log writer and
  tracing, the construction of TLS clients, the rounding of percentages in \<^verbatim>\<open>f64\<close>, the failure of a query for
  reasons other than the constraints of the schema (except in \<^verbatim>\<open>Metrics\<close>, \<^verbatim>\<open>Migrations\<close> and readiness, where it is an
  argument), requests that interleave within one handler (each is atomic in \<^verbatim>\<open>Api_Authority\<close>; in \<^verbatim>\<open>Api_System\<close> the steps of
  one are in sequence), a \<^verbatim>\<open>LOG_DIR\<close> that is not Unicode, and the foreign key of the
  administrator who acknowledged an incident.
\<close>

end
